(* ===== verification/Runner_Prelude.thy ===== *)
theory Runner_Prelude
  imports Main
begin

text \<open>
  Shared vocabulary of the development: the runner's error value, the result monad that
  stands for \<open>throw\<close>, the insertion-ordered \<open>Map\<close> of JavaScript, SQL tables
  as lists of rows with a key column, and the generic facts about them that every
  component uses. Two locales close the file: systems with an inductive invariant and
  finite transition tables.
\<close>

named_theorems table_simps \<open>lookups after an insert, an update or a delete on a table\<close>

section \<open>Errors and results\<close>

text \<open>
  \<open>class RunnerError\<close> of \<open>packages/runner-core/src/errors.ts\<close>: a code, a message and
  an HTTP status. The optional \<open>details\<close> payload is diagnostic and is left out.
\<close>

record runner_error =
  err_code :: string
  err_message :: string
  err_status :: nat

definition RunnerError :: "string \<Rightarrow> string \<Rightarrow> nat \<Rightarrow> runner_error" where
  "RunnerError c m s = \<lparr>err_code = c, err_message = m, err_status = s\<rparr>"

type_synonym 'a result = "runner_error + 'a"

text \<open>What a \<open>catch\<close> sees: a \<open>RunnerError\<close>, another \<open>Error\<close> with its
  message, or a thrown value that is no \<open>Error\<close>.\<close>

datatype thrown = ThrownRunner runner_error | ThrownError string | ThrownOther

fun asRunnerError :: "thrown \<Rightarrow> runner_error" where
  "asRunnerError (ThrownRunner e) = e"
| "asRunnerError (ThrownError m) = RunnerError ''INTERNAL_ERROR'' m 500"
| "asRunnerError ThrownOther = RunnerError ''INTERNAL_ERROR'' ''Unknown error'' 500"

lemma RunnerError_sel [simp]:
  "err_code (RunnerError c m s) = c" "err_message (RunnerError c m s) = m"
  "err_status (RunnerError c m s) = s"
  by (simp_all add: RunnerError_def)

text \<open>Sequencing of code that may throw: the rest runs only when nothing was thrown.\<close>

fun bindR :: "'e + 'a \<Rightarrow> ('a \<Rightarrow> 'e + 'b) \<Rightarrow> 'e + 'b" where
  "bindR (Inl e) f = Inl e"
| "bindR (Inr a) f = f a"

definition throw_if :: "bool \<Rightarrow> 'e \<Rightarrow> 'e + unit" where
  "throw_if b e = (if b then Inl e else Inr ())"

lemma bindR_Inr_iff [simp]: "bindR m f = Inr b \<longleftrightarrow> (\<exists>a. m = Inr a \<and> f a = Inr b)"
  by (cases m) auto

lemma bindR_Inl_iff: "bindR m f = Inl e \<longleftrightarrow> m = Inl e \<or> (\<exists>a. m = Inr a \<and> f a = Inl e)"
  by (cases m) auto

lemma throw_if_Inr [simp]: "throw_if b e = Inr u \<longleftrightarrow> \<not> b"
  by (simp add: throw_if_def)

lemma throw_if_Inl [simp]: "throw_if b e = Inl x \<longleftrightarrow> b \<and> e = x"
  by (simp add: throw_if_def)

lemma throw_if_cases [simp]: "throw_if True e = Inl e" "throw_if False e = Inr ()"
  by (simp_all add: throw_if_def)

fun ok_opt :: "'e + 'a \<Rightarrow> 'a option" where
  "ok_opt (Inl e) = None"
| "ok_opt (Inr a) = Some a"

lemma ok_opt_Some [simp]: "ok_opt m = Some a \<longleftrightarrow> m = Inr a"
  by (cases m) auto

text \<open>A loop whose body may throw and returns nothing (\<open>for (const x of xs) f(x)\<close>).\<close>

fun for_each :: "('a \<Rightarrow> 'e + unit) \<Rightarrow> 'a list \<Rightarrow> 'e + unit" where
  "for_each f [] = Inr ()"
| "for_each f (x # xs) = bindR (f x) (\<lambda>_. for_each f xs)"

lemma for_each_Inr [simp]: "for_each f xs = Inr u \<longleftrightarrow> (\<forall>x\<in>set xs. f x = Inr ())"
  by (induction xs) auto

text \<open>Truthiness of an optional string: \<open>undefined\<close>, \<open>null\<close> and \<open>""\<close> are falsy.\<close>

definition truthy :: "string option \<Rightarrow> bool" where
  "truthy v = (case v of None \<Rightarrow> False | Some s \<Rightarrow> s \<noteq> [])"

lemma truthy_simps [simp]: "\<not> truthy None" "truthy (Some s) \<longleftrightarrow> s \<noteq> []"
  by (simp_all add: truthy_def)

lemma truthyE [elim]: "truthy v \<Longrightarrow> (\<And>s. v = Some s \<Longrightarrow> s \<noteq> [] \<Longrightarrow> P) \<Longrightarrow> P"
  by (cases v) auto

definition or_else :: "'a option \<Rightarrow> 'a \<Rightarrow> 'a" where
  \<comment> \<open>the \<open>??\<close> operator\<close>
  "or_else v d = (case v of None \<Rightarrow> d | Some x \<Rightarrow> x)"

lemma or_else_simps [simp]: "or_else None d = d" "or_else (Some x) d = x"
  by (simp_all add: or_else_def)

definition or_opt :: "'a option \<Rightarrow> 'a option \<Rightarrow> 'a option" where
  "or_opt v w = (case v of None \<Rightarrow> w | Some x \<Rightarrow> Some x)"

lemma or_opt_simps [simp]: "or_opt None w = w" "or_opt (Some x) w = Some x"
  by (simp_all add: or_opt_def)

section \<open>JavaScript maps\<close>

text \<open>
  A JavaScript \<open>Map\<close> keeps its entries in insertion order and \<open>set\<close> on a present
  key keeps the entry's place. Lookup is \<open>map_of\<close>.
\<close>

fun jsmap_set :: "'k \<Rightarrow> 'v \<Rightarrow> ('k \<times> 'v) list \<Rightarrow> ('k \<times> 'v) list" where
  "jsmap_set k v [] = [(k, v)]"
| "jsmap_set k v ((k', v') # m) = (if k = k' then (k, v) # m else (k', v') # jsmap_set k v m)"

definition jsmap_delete :: "'k \<Rightarrow> ('k \<times> 'v) list \<Rightarrow> ('k \<times> 'v) list" where
  "jsmap_delete k m = filter (\<lambda>e. fst e \<noteq> k) m"

lemma map_of_jsmap_set [simp]: "map_of (jsmap_set k v m) = (map_of m)(k \<mapsto> v)"
  by (induction k v m rule: jsmap_set.induct) auto

lemma map_of_filter_fst [simp]:
  "map_of (filter (\<lambda>e. P (fst e)) m) k = (if P k then map_of m k else None)"
  by (induction m) auto

lemma map_of_jsmap_delete [simp]: "map_of (jsmap_delete k m) = (map_of m)(k := None)"
  by (rule ext) (simp add: jsmap_delete_def map_of_filter_fst [where P = "\<lambda>x. x \<noteq> k"])

lemma keys_jsmap_set: "fst ` set (jsmap_set k v m) = insert k (fst ` set m)"
  by (induction k v m rule: jsmap_set.induct) auto

lemma distinct_jsmap_set [simp]:
  "distinct (map fst m) \<Longrightarrow> distinct (map fst (jsmap_set k v m))"
proof (induction k v m rule: jsmap_set.induct)
  case (2 k v k' v' m)
  then show ?case
    using keys_jsmap_set [of k v m] by auto
qed simp

lemma distinct_map_filter [simp]: "distinct (map f xs) \<Longrightarrow> distinct (map f (filter P xs))"
  by (rule distinct_map_filter)

lemma distinct_jsmap_delete [simp]:
  "distinct (map fst m) \<Longrightarrow> distinct (map fst (jsmap_delete k m))"
  by (simp add: jsmap_delete_def)

lemma length_jsmap_set:
  "length (jsmap_set k v m) = (if map_of m k = None then Suc (length m) else length m)"
  by (induction k v m rule: jsmap_set.induct) auto

section \<open>SQL tables\<close>

text \<open>
  A table is the list of its rows in insertion order; \<open>pk\<close> projects the key column.
  \<open>sel\<close> is \<open>SELECT * ... WHERE pk = k\<close> with \<open>.get()\<close>, \<open>upd\<close> an
  \<open>UPDATE ... WHERE pk = k\<close>, \<open>del\<close> a \<open>DELETE ... WHERE pk = k\<close>.
\<close>

definition sel :: "('r \<Rightarrow> 'k) \<Rightarrow> 'k \<Rightarrow> 'r list \<Rightarrow> 'r option" where
  "sel pk k t = find (\<lambda>r. pk r = k) t"

definition upd :: "('r \<Rightarrow> 'k) \<Rightarrow> 'k \<Rightarrow> ('r \<Rightarrow> 'r) \<Rightarrow> 'r list \<Rightarrow> 'r list" where
  "upd pk k f t = map (\<lambda>r. if pk r = k then f r else r) t"

definition del :: "('r \<Rightarrow> 'k) \<Rightarrow> 'k \<Rightarrow> 'r list \<Rightarrow> 'r list" where
  "del pk k t = filter (\<lambda>r. pk r \<noteq> k) t"

lemma sel_Nil [table_simps]: "sel pk k [] = None"
  by (simp add: sel_def)

lemma sel_Cons [table_simps]: "sel pk k (r # t) = (if pk r = k then Some r else sel pk k t)"
  by (simp add: sel_def)

lemma sel_append [table_simps]:
  "sel pk k (t @ u) = (case sel pk k t of Some r \<Rightarrow> Some r | None \<Rightarrow> sel pk k u)"
  by (induction t) (auto simp: sel_def)

lemma sel_SomeD: "sel pk k t = Some r \<Longrightarrow> r \<in> set t \<and> pk r = k"
  by (auto simp: sel_def find_Some_iff)

lemma sel_None_iff: "sel pk k t = None \<longleftrightarrow> k \<notin> pk ` set t"
  by (auto simp: sel_def find_None_iff)

lemma sel_unique: "distinct (map pk t) \<Longrightarrow> r \<in> set t \<Longrightarrow> pk r = k \<Longrightarrow> sel pk k t = Some r"
  by (induction t) (auto simp: sel_def image_iff)

lemma sel_upd [table_simps]:
  "(\<And>r. pk (f r) = pk r) \<Longrightarrow>
     sel pk k (upd pk j f t) = (if k = j then map_option f (sel pk k t) else sel pk k t)"
  by (induction t) (auto simp: sel_def upd_def)

lemma sel_del [table_simps]: "sel pk k (del pk j t) = (if k = j then None else sel pk k t)"
  by (induction t) (auto simp: sel_def del_def)

lemma map_pk_upd [simp]: "(\<And>r. pk (f r) = pk r) \<Longrightarrow> map pk (upd pk k f t) = map pk t"
  by (auto simp: upd_def)

lemma set_del [simp]: "set (del pk k t) = {r \<in> set t. pk r \<noteq> k}"
  by (simp add: del_def)

lemma set_upd: "set (upd pk k f t) = (\<lambda>r. if pk r = k then f r else r) ` set t"
  by (simp add: upd_def)

lemma upd_absent: "sel pk k t = None \<Longrightarrow> upd pk k f t = t"
  by (induction t) (auto simp: sel_def upd_def split: if_splits)

lemma length_upd [simp]: "length (upd pk k f t) = length t"
  by (simp add: upd_def)

lemma distinct_del [simp]: "distinct (map f t) \<Longrightarrow> distinct (map f (del pk k t))"
  by (simp add: del_def)

section \<open>Systems with an inductive invariant\<close>

text \<open>
  A component is a set of start states and a step relation; an invariant that holds at
  the start and that every step keeps holds after any sequence of steps.
\<close>

locale invariant_system =
  fixes start :: "'s \<Rightarrow> bool"
    and step :: "'s \<Rightarrow> 's \<Rightarrow> bool"
    and inv :: "'s \<Rightarrow> bool"
  assumes start_inv: "start s \<Longrightarrow> inv s"
    and step_inv: "step s t \<Longrightarrow> inv s \<Longrightarrow> inv t"
begin

lemma steps_inv: "step\<^sup>*\<^sup>* s t \<Longrightarrow> inv s \<Longrightarrow> inv t"
  by (induction rule: rtranclp_induct) (auto intro: step_inv)

lemma reach_inv: "start s \<Longrightarrow> step\<^sup>*\<^sup>* s t \<Longrightarrow> inv t"
  by (blast intro: steps_inv start_inv)

end

section \<open>Transition tables\<close>

text \<open>
  The state machines of the runner are finite tables: \<open>can s t\<close> is the table lookup
  and \<open>terminal\<close> the set of states with no way out. A rank that every allowed
  transition decreases bounds the length of every run.
\<close>

locale transition_table =
  fixes can :: "'s \<Rightarrow> 's \<Rightarrow> bool"
    and terminal :: "'s \<Rightarrow> bool"
    and rank :: "'s \<Rightarrow> nat"
  assumes terminal_stuck: "terminal s \<Longrightarrow> \<not> can s t"
    and live_moves: "\<not> terminal s \<Longrightarrow> \<exists>t. can s t"
    and rank_decreases: "can s t \<Longrightarrow> rank t < rank s"
begin

lemma no_self_loop: "\<not> can s s"
  using rank_decreases by blast

lemma runs_bounded: "(can ^^ n) s t \<Longrightarrow> n + rank t \<le> rank s"
proof (induction n arbitrary: t)
  case (Suc n)
  from Suc.prems obtain u where "(can ^^ n) s u" and "can u t" by auto
  with Suc.IH [of u] rank_decreases [of u t] show ?case by simp
qed simp

lemma no_return: "can\<^sup>+\<^sup>+ s t \<Longrightarrow> s \<noteq> t"
proof -
  assume "can\<^sup>+\<^sup>+ s t"
  then have "rank t < rank s"
    by (induction rule: tranclp_induct) (auto dest: rank_decreases)
  then show ?thesis by auto
qed

lemma reaches_terminal: "\<exists>t. can\<^sup>*\<^sup>* s t \<and> terminal t"
proof (induction "rank s" arbitrary: s rule: less_induct)
  case less
  show ?case
  proof (cases "terminal s")
    case False
    then obtain u where u: "can s u" using live_moves by blast
    then obtain t where "can\<^sup>*\<^sup>* u t" "terminal t" using less rank_decreases by blast
    with u show ?thesis by (meson converse_rtranclp_into_rtranclp)
  qed blast
qed

end

end
