(* ===== verification/Js_Strings.thy ===== *)
theory Js_Strings
  imports Runner_Prelude
begin

text \<open>
  The parts of JavaScript's strings and number formatting that the runner uses, on
  \<open>string\<close> read as UTF-8 bytes: \<open>toLowerCase\<close> on ASCII letters,
  \<open>startsWith\<close>, \<open>includes\<close>, \<open>split(".")\<close>, \<open>trim\<close> on ASCII white
  space, decimal printing, \<open>padStart\<close>, the digit regular expressions and
  \<open>BigInt(text)\<close>. On ASCII text bytes and UTF-16 code units agree, so lengths and
  slices are those of the source.
\<close>

named_theorems js_defs \<open>definitions of the string operations, for evaluation\<close>

section \<open>Characters\<close>

definition code :: "char \<Rightarrow> nat" where
  "code c = of_char c"

definition is_digit :: "char \<Rightarrow> bool" where
  "is_digit c \<longleftrightarrow> 48 \<le> code c \<and> code c \<le> 57"

definition is_hex :: "char \<Rightarrow> bool" where
  "is_hex c \<longleftrightarrow> is_digit c \<or> (97 \<le> code c \<and> code c \<le> 102) \<or> (65 \<le> code c \<and> code c \<le> 70)"

definition is_lower_hex :: "char \<Rightarrow> bool" where
  "is_lower_hex c \<longleftrightarrow> is_digit c \<or> (97 \<le> code c \<and> code c \<le> 102)"

definition is_space :: "char \<Rightarrow> bool" where
  "is_space c \<longleftrightarrow> code c = 32 \<or> (9 \<le> code c \<and> code c \<le> 13)"

definition is_lower_letter :: "char \<Rightarrow> bool" where
  "is_lower_letter c \<longleftrightarrow> 97 \<le> code c \<and> code c \<le> 122"

definition digit_val :: "char \<Rightarrow> nat" where
  "digit_val c = (if is_digit c then code c - 48 else if 97 \<le> code c then code c - 87 else code c - 55)"

definition digit_char :: "nat \<Rightarrow> char" where
  "digit_char d = char_of (d + 48)"

definition lower_char :: "char \<Rightarrow> char" where
  "lower_char c = (if 65 \<le> code c \<and> code c \<le> 90 then char_of (code c + 32) else c)"

definition upper_char :: "char \<Rightarrow> char" where
  "upper_char c = (if is_lower_letter c then char_of (code c - 32) else c)"

definition toLowerCase :: "string \<Rightarrow> string" where
  "toLowerCase s = map lower_char s"

definition toUpperCase :: "string \<Rightarrow> string" where
  "toUpperCase s = map upper_char s"

lemmas [js_defs] = code_def is_digit_def is_hex_def is_lower_hex_def is_space_def is_lower_letter_def digit_val_def
  digit_char_def lower_char_def upper_char_def toLowerCase_def toUpperCase_def

lemma code_char_of [simp]: "n < 256 \<Longrightarrow> code (char_of n) = n"
  by (simp add: code_def)

lemma code_less [simp]: "code c < 256"
  unfolding code_def by (rule nat_of_char_less_256)

lemma lower_char_idem [simp]: "lower_char (lower_char c) = lower_char c"
  by (simp add: lower_char_def)

lemma toLowerCase_idem [simp]: "toLowerCase (toLowerCase s) = toLowerCase s"
  by (simp add: toLowerCase_def)

lemma toLowerCase_Nil_iff [simp]: "toLowerCase s = [] \<longleftrightarrow> s = []"
  by (simp add: toLowerCase_def)

lemma length_toLowerCase [simp]: "length (toLowerCase s) = length s"
  by (simp add: toLowerCase_def)

lemma digit_char_is_digit [simp]: "d < 10 \<Longrightarrow> is_digit (digit_char d)"
  by (simp add: is_digit_def digit_char_def)

lemma digit_val_digit_char [simp]: "d < 10 \<Longrightarrow> digit_val (digit_char d) = d"
  by (simp add: digit_val_def is_digit_def digit_char_def)

lemma digit_val_less: "is_digit c \<Longrightarrow> digit_val c < 10"
  by (auto simp: digit_val_def is_digit_def)

section \<open>Searching and splitting\<close>

fun startsWith :: "string \<Rightarrow> string \<Rightarrow> bool" where
  "startsWith s [] = True"
| "startsWith [] (p # ps) = False"
| "startsWith (c # s) (p # ps) = (c = p \<and> startsWith s ps)"

fun includes_str :: "string \<Rightarrow> string \<Rightarrow> bool" where
  "includes_str [] p = (p = [])"
| "includes_str (c # s) p = (startsWith (c # s) p \<or> includes_str s p)"

text \<open>\<open>s.split(".")\<close>: never empty, one piece more than there are separators.\<close>

fun split_on :: "char \<Rightarrow> string \<Rightarrow> string list" where
  "split_on d [] = [[]]"
| "split_on d (c # s) =
     (if c = d then [] # split_on d s
      else (case split_on d s of [] \<Rightarrow> [[c]] | p # ps \<Rightarrow> (c # p) # ps))"

definition trim :: "string \<Rightarrow> string" where
  "trim s = rev (dropWhile is_space (rev (dropWhile is_space s)))"

lemma split_on_ne [simp]: "split_on d s \<noteq> []"
  by (induction s) (auto split: list.splits)

lemma split_on_no_sep: "d \<notin> set s \<Longrightarrow> split_on d s = [s]"
  by (induction s) auto

lemma split_on_append: "d \<notin> set a \<Longrightarrow> split_on d (a @ d # b) = a # split_on d b"
  by (induction a) auto

lemma startsWith_append [simp]: "startsWith (p @ s) p"
  by (induction p) auto

lemma startsWith_iff: "startsWith s p \<longleftrightarrow> (\<exists>t. s = p @ t)"
  by (induction s p rule: startsWith.induct) auto

lemma trim_no_space:
  assumes "\<forall>c\<in>set s. \<not> is_space c"
  shows "trim s = s"
proof -
  have "dropWhile is_space s = s" using assms by (cases s) auto
  moreover have "dropWhile is_space (rev s) = rev s"
    using assms by (simp add: dropWhile_eq_self_iff)
      (metis hd_in_set rev_is_Nil_conv set_rev)
  ultimately show ?thesis by (simp add: trim_def)
qed

section \<open>Decimal numbers\<close>

definition digits_val :: "string \<Rightarrow> nat" where
  "digits_val s = foldl (\<lambda>n c. 10 * n + digit_val c) 0 s"

definition all_digits :: "string \<Rightarrow> bool" where
  \<comment> \<open>\<open>/^\d+$/\<close>\<close>
  "all_digits s \<longleftrightarrow> s \<noteq> [] \<and> list_all is_digit s"

fun nat_str :: "nat \<Rightarrow> string" where
  "nat_str n = (if n < 10 then [digit_char n] else nat_str (n div 10) @ [digit_char (n mod 10)])"

declare nat_str.simps [simp del]

definition int_str :: "int \<Rightarrow> string" where
  "int_str i = (if i < 0 then CHR ''-'' # nat_str (nat (- i)) else nat_str (nat i))"

definition padStart0 :: "nat \<Rightarrow> string \<Rightarrow> string" where
  \<comment> \<open>\<open>padStart(n, "0")\<close>\<close>
  "padStart0 n s = replicate (n - length s) CHR ''0'' @ s"

definition padEnd0 :: "nat \<Rightarrow> string \<Rightarrow> string" where
  "padEnd0 n s = s @ replicate (n - length s) CHR ''0''"

lemma foldl_digits:
  "foldl (\<lambda>n c. 10 * n + digit_val c) a s = a * 10 ^ length s + digits_val s"
  unfolding digits_val_def
proof (induction s arbitrary: a)
  case (Cons c s)
  from Cons [of "10 * a + digit_val c"] Cons [of "digit_val c"] show ?case
    by (simp add: algebra_simps)
qed simp

lemma digits_val_Nil [simp]: "digits_val [] = 0"
  by (simp add: digits_val_def)

lemma digits_val_append: "digits_val (s @ t) = digits_val s * 10 ^ length t + digits_val t"
  using foldl_digits [of "digits_val s" t] by (simp add: digits_val_def)

lemma digits_val_Cons: "digits_val (c # s) = digit_val c * 10 ^ length s + digits_val s"
  using digits_val_append [of "[c]" s] by (simp add: digits_val_def)

lemma digits_val_snoc: "digits_val (s @ [c]) = 10 * digits_val s + digit_val c"
  by (simp add: digits_val_append digits_val_Cons)

lemma digits_val_zeros [simp]: "digits_val (replicate n CHR ''0'') = 0"
  by (induction n) (simp_all add: digits_val_Cons digit_val_def is_digit_def code_def)

lemma digits_val_padStart0 [simp]: "digits_val (padStart0 n s) = digits_val s"
  by (simp add: padStart0_def digits_val_append)

lemma digits_val_less: "list_all is_digit s \<Longrightarrow> digits_val s < 10 ^ length s"
proof (induction s rule: rev_induct)
  case (snoc c s)
  then have "digits_val s + 1 \<le> 10 ^ length s" "digit_val c < 10"
    by (auto simp: digit_val_less)
  then show ?case by (simp add: digits_val_snoc)
qed simp

lemma digits_val_nat_str [simp]: "digits_val (nat_str n) = n"
proof (induction n rule: nat_str.induct)
  case (1 n)
  then show ?case
    by (subst nat_str.simps) (auto simp: digits_val_snoc digits_val_Cons)
qed

lemma nat_str_digits: "list_all is_digit (nat_str n)"
proof (induction n rule: nat_str.induct)
  case (1 n)
  then show ?case by (subst nat_str.simps) auto
qed

lemma nat_str_ne [simp]: "nat_str n \<noteq> []"
  by (subst nat_str.simps) auto

lemma all_digits_nat_str [simp]: "all_digits (nat_str n)"
  by (simp add: all_digits_def nat_str_digits)

lemma length_nat_str_le: "n < 10 ^ k \<Longrightarrow> 0 < k \<Longrightarrow> length (nat_str n) \<le> k"
proof (induction n arbitrary: k rule: nat_str.induct)
  case (1 n)
  show ?case
  proof (cases "n < 10")
    case True
    with 1 show ?thesis by (subst nat_str.simps) simp
  next
    case False
    with "1.prems" have k: "1 < k" by (cases k; cases "k - 1") auto
    then obtain j where j: "k = Suc j" "0 < j" by (cases k) auto
    with "1.prems" have "n div 10 < 10 ^ j" by (simp add: less_mult_imp_div_less mult.commute)
    with "1.IH" [OF False] j have "length (nat_str (n div 10)) \<le> j" by blast
    with False j show ?thesis by (subst nat_str.simps) simp
  qed
qed

lemma length_padStart0: "length s \<le> n \<Longrightarrow> length (padStart0 n s) = n"
  by (simp add: padStart0_def)

lemma is_digit_0 [simp]: "is_digit CHR ''0''"
  by (simp add: is_digit_def code_def)

lemma padStart0_digits: "list_all is_digit s \<Longrightarrow> list_all is_digit (padStart0 n s)"
  by (auto simp: padStart0_def list_all_iff)

lemma not_digit_dot [simp]: "\<not> is_digit CHR ''.''" "\<not> is_digit CHR ''-''" "\<not> is_digit CHR '':''"
  by (simp_all add: is_digit_def code_def)

lemma digits_no_dot: "list_all is_digit s \<Longrightarrow> CHR ''.'' \<notin> set s"
  by (auto simp: list_all_iff)

lemma is_digit_not_space: "is_digit c \<Longrightarrow> \<not> is_space c"
  by (auto simp: is_digit_def is_space_def)

section \<open>\<open>BigInt(text)\<close>\<close>

text \<open>
  \<open>BigInt\<close> of a string trims white space, reads the empty text as 0, a decimal with an
  optional sign, and hexadecimal, octal and binary literals without a sign; any other
  text throws a \<open>SyntaxError\<close>, here \<open>None\<close>.
\<close>

definition radix_val :: "nat \<Rightarrow> string \<Rightarrow> nat" where
  "radix_val b s = foldl (\<lambda>n c. b * n + digit_val c) 0 s"

fun bigint_prefixed :: "string \<Rightarrow> int option" where
  "bigint_prefixed (z # x # s) =
     (if z \<noteq> CHR ''0'' \<or> s = [] then None
      else if lower_char x = CHR ''x'' \<and> list_all is_hex s then Some (int (radix_val 16 s))
      else if lower_char x = CHR ''o'' \<and> list_all (\<lambda>c. is_digit c \<and> digit_val c < 8) s
        then Some (int (radix_val 8 s))
      else if lower_char x = CHR ''b'' \<and> list_all (\<lambda>c. is_digit c \<and> digit_val c < 2) s
        then Some (int (radix_val 2 s))
      else None)"
| "bigint_prefixed _ = None"

definition BigInt :: "string \<Rightarrow> int option" where
  "BigInt text =
     (let s = trim text in
      case s of
        [] \<Rightarrow> Some 0
      | c # r \<Rightarrow>
          if list_all is_digit s then Some (int (digits_val s))
          else if c = CHR ''-'' \<and> all_digits r then Some (- int (digits_val r))
          else if c = CHR ''+'' \<and> all_digits r then Some (int (digits_val r))
          else bigint_prefixed s)"

lemma BigInt_digits [simp]: "list_all is_digit s \<Longrightarrow> BigInt s = Some (int (digits_val s))"
proof -
  assume d: "list_all is_digit s"
  then have "trim s = s" by (auto simp: list_all_iff is_digit_not_space intro: trim_no_space)
  with d show ?thesis by (cases s) (auto simp: BigInt_def)
qed

lemmas [js_defs] = digits_val_def all_digits_def int_str_def padStart0_def padEnd0_def trim_def
  radix_val_def BigInt_def

section \<open>Evaluation over \<open>int\<close>\<close>

text \<open>
  Evaluation represents \<open>nat\<close> in unary, so decimal numbers are evaluated over \<open>int\<close>.
\<close>

definition digits_int :: "string \<Rightarrow> int" where
  "digits_int s = foldl (\<lambda>n c. 10 * n + int (digit_val c)) 0 s"

lemma digits_int_foldl:
  "foldl (\<lambda>n c. 10 * n + int (digit_val c)) (int a) s = int (foldl (\<lambda>n c. 10 * n + digit_val c) a s)"
proof (induction s arbitrary: a)
  case (Cons c s)
  from Cons [of "10 * a + digit_val c"] show ?case by simp
qed simp

lemma digits_int [code_unfold]: "int (digits_val s) = digits_int s"
  using digits_int_foldl [of 0 s] by (simp add: digits_int_def digits_val_def)

function pos_str :: "int \<Rightarrow> string" where
  "pos_str i = (if i < 10 then [digit_char (nat i)]
                else pos_str (i div 10) @ [digit_char (nat (i mod 10))])"
  by pat_completeness auto
termination by (relation "measure nat") auto

declare pos_str.simps [simp del]

lemma pos_str [code_unfold]: "nat_str (nat i) = pos_str i"
proof (induction i rule: pos_str.induct)
  case (1 i)
  show ?case
  proof (cases "i < 10")
    case True
    then show ?thesis by (subst nat_str.simps, subst pos_str.simps) (simp add: nat_less_iff)
  next
    case False
    with 1 have "nat_str (nat (i div 10)) = pos_str (i div 10)" by blast
    with False show ?thesis
      by (subst nat_str.simps, subst pos_str.simps)
         (simp add: nat_div_distrib nat_mod_distrib nat_less_iff)
  qed
qed

end
