(* ===== verification/Operation_State.thy ===== *)
theory Operation_State
  imports Js_Strings
begin

text \<open>
  The two state machines of \<open>packages/runner-core\<close>: operations
  (\<open>operation.ts\<close>: states, terminal states, allowed transitions and the assertion that
  enforces them) and approvals (\<open>approval.ts\<close>). Both tables are interpreted as
  \<open>transition_table\<close>s, which gives termination of every run of the table.
\<close>

section \<open>Operations\<close>

datatype operation_state =
  OpCreated | OpPrepared | OpReserved | OpExecuting | OpBroadcast | OpConfirmed
  | OpFailed | OpUnknown | OpCancelled

fun op_state_name :: "operation_state \<Rightarrow> string" where
  "op_state_name OpCreated = ''created''"
| "op_state_name OpPrepared = ''prepared''"
| "op_state_name OpReserved = ''reserved''"
| "op_state_name OpExecuting = ''executing''"
| "op_state_name OpBroadcast = ''broadcast''"
| "op_state_name OpConfirmed = ''confirmed''"
| "op_state_name OpFailed = ''failed''"
| "op_state_name OpUnknown = ''unknown''"
| "op_state_name OpCancelled = ''cancelled''"

definition isTerminalOperationState :: "operation_state \<Rightarrow> bool" where
  "isTerminalOperationState s \<longleftrightarrow> s \<in> {OpConfirmed, OpFailed, OpCancelled}"

fun op_targets :: "operation_state \<Rightarrow> operation_state list" where
  "op_targets OpCreated = [OpPrepared, OpFailed, OpCancelled]"
| "op_targets OpPrepared = [OpReserved, OpFailed]"
| "op_targets OpReserved = [OpExecuting, OpFailed]"
| "op_targets OpExecuting = [OpBroadcast, OpUnknown, OpFailed, OpCancelled]"
| "op_targets OpBroadcast = [OpConfirmed, OpUnknown, OpFailed]"
| "op_targets OpUnknown = [OpConfirmed, OpFailed]"
| "op_targets OpConfirmed = []"
| "op_targets OpFailed = []"
| "op_targets OpCancelled = []"

definition canTransitionOperationState :: "operation_state \<Rightarrow> operation_state \<Rightarrow> bool" where
  "canTransitionOperationState from_s to_s \<longleftrightarrow> to_s \<in> set (op_targets from_s)"

definition arrow :: string where
  \<comment> \<open>U+2192 in UTF-8\<close>
  "arrow = [CHR 0xE2, CHR 0x86, CHR 0x92]"

definition em_dash :: string where
  \<comment> \<open>U+2014 in UTF-8\<close>
  "em_dash = [CHR 0xE2, CHR 0x80, CHR 0x94]"

definition assertOperationStateTransition ::
  "operation_state \<Rightarrow> operation_state \<Rightarrow> unit result" where
  "assertOperationStateTransition from_s to_s =
     throw_if (\<not> canTransitionOperationState from_s to_s)
       (RunnerError ''INVALID_TRANSITION''
         (''Invalid operation state transition: '' @ op_state_name from_s @ '' '' @ arrow @ '' ''
           @ op_state_name to_s) 422)"

section \<open>Approvals\<close>

datatype approval_state =
  ApPending | ApApproved | ApRejected | ApCancelled | ApExpired | ApExecuting
  | ApExecuted | ApFailed

datatype approval_action =
  ActCreateJob | ActApproveUsdc | ActFundJob | ActClaimRefund | ActErc8004Register

fun ap_state_name :: "approval_state \<Rightarrow> string" where
  "ap_state_name ApPending = ''pending''"
| "ap_state_name ApApproved = ''approved''"
| "ap_state_name ApRejected = ''rejected''"
| "ap_state_name ApCancelled = ''cancelled''"
| "ap_state_name ApExpired = ''expired''"
| "ap_state_name ApExecuting = ''executing''"
| "ap_state_name ApExecuted = ''executed''"
| "ap_state_name ApFailed = ''failed''"

fun ap_targets :: "approval_state \<Rightarrow> approval_state list" where
  "ap_targets ApPending = [ApApproved, ApRejected, ApCancelled, ApExpired, ApExecuting]"
| "ap_targets ApApproved = [ApExecuting]"
| "ap_targets ApExecuting = [ApExecuted, ApFailed]"
| "ap_targets ApExecuted = []"
| "ap_targets ApFailed = []"
| "ap_targets ApRejected = []"
| "ap_targets ApCancelled = []"
| "ap_targets ApExpired = []"

definition isTransitionAllowed :: "approval_state \<Rightarrow> approval_state \<Rightarrow> bool" where
  "isTransitionAllowed from_s to_s \<longleftrightarrow> to_s \<in> set (ap_targets from_s)"

section \<open>Facts\<close>

lemma op_state_name_inj: "op_state_name s = op_state_name t \<longleftrightarrow> s = t"
  by (cases s; cases t) auto

lemma ap_state_name_inj: "ap_state_name s = ap_state_name t \<longleftrightarrow> s = t"
  by (cases s; cases t) auto

lemma terminal_simps [simp]:
  "\<not> isTerminalOperationState OpCreated" "\<not> isTerminalOperationState OpPrepared"
  "\<not> isTerminalOperationState OpReserved" "\<not> isTerminalOperationState OpExecuting"
  "\<not> isTerminalOperationState OpBroadcast" "\<not> isTerminalOperationState OpUnknown"
  "isTerminalOperationState OpConfirmed" "isTerminalOperationState OpFailed"
  "isTerminalOperationState OpCancelled"
  by (simp_all add: isTerminalOperationState_def)

fun op_rank :: "operation_state \<Rightarrow> nat" where
  "op_rank OpCreated = 6"
| "op_rank OpPrepared = 5"
| "op_rank OpReserved = 4"
| "op_rank OpExecuting = 3"
| "op_rank OpBroadcast = 2"
| "op_rank OpUnknown = 1"
| "op_rank _ = 0"

definition ap_terminal :: "approval_state \<Rightarrow> bool" where
  "ap_terminal s \<longleftrightarrow> ap_targets s = []"

fun ap_rank :: "approval_state \<Rightarrow> nat" where
  "ap_rank ApPending = 3"
| "ap_rank ApApproved = 2"
| "ap_rank ApExecuting = 1"
| "ap_rank _ = 0"

interpretation op_table: transition_table canTransitionOperationState isTerminalOperationState op_rank
proof unfold_locales
  fix s t :: operation_state
  show "isTerminalOperationState s \<Longrightarrow> \<not> canTransitionOperationState s t"
    by (cases s) (simp_all add: canTransitionOperationState_def)
  show "canTransitionOperationState s t \<Longrightarrow> op_rank t < op_rank s"
    by (cases s) (auto simp: canTransitionOperationState_def)
  assume "\<not> isTerminalOperationState s"
  then have "op_targets s \<noteq> []" by (cases s) simp_all
  then show "\<exists>t. canTransitionOperationState s t"
    by (cases "op_targets s") (auto simp: canTransitionOperationState_def)
qed

interpretation ap_table: transition_table isTransitionAllowed ap_terminal ap_rank
proof unfold_locales
  fix s t :: approval_state
  show "ap_terminal s \<Longrightarrow> \<not> isTransitionAllowed s t"
    by (simp add: ap_terminal_def isTransitionAllowed_def)
  show "isTransitionAllowed s t \<Longrightarrow> ap_rank t < ap_rank s"
    by (cases s) (auto simp: isTransitionAllowed_def)
  assume "\<not> ap_terminal s"
  then show "\<exists>t. isTransitionAllowed s t"
    by (cases "ap_targets s") (auto simp: isTransitionAllowed_def ap_terminal_def)
qed

end
