(* ===== verification/Json.thy ===== *)
theory Json
  imports Js_Strings "HOL-Library.Multiset" "HOL-Library.Char_ord" "HOL-Library.List_Lexorder"
begin

text \<open>
  JSON values as \<open>JSON.parse\<close> returns them, property access on them, and the
  deterministic serialisation the runner hashes: \<open>canonicalJson\<close> of
  \<open>runner-core/src/hash.ts\<close>, which \<open>job-envelope.ts\<close>, \<open>deliverable.ts\<close> and
  \<open>evaluation-verdict.ts\<close> repeat as \<open>canonicalStringify\<close>. A number is its ECMAScript
  text (what \<open>String(n)\<close> prints), since the code prints numbers and tests their
  truth but computes with none of them. Object keys are compared as byte strings, which
  is the order of \<open>sort()\<close> on keys of the basic multilingual plane below the
  surrogates.
\<close>

datatype json =
  JUndef | JNull | JBool bool | JNum string | JStr string | JArr "json list"
  | JObj "(string \<times> json) list"

fun jget :: "string \<Rightarrow> json \<Rightarrow> json" where
  \<comment> \<open>\<open>v?.k\<close>: only objects have the named fields the code reads\<close>
  "jget k (JObj kvs) = (case map_of kvs k of Some v \<Rightarrow> v | None \<Rightarrow> JUndef)"
| "jget k _ = JUndef"

fun jtruthy :: "json \<Rightarrow> bool" where
  "jtruthy JUndef = False"
| "jtruthy JNull = False"
| "jtruthy (JBool b) = b"
| "jtruthy (JNum n) = (n \<notin> {''0'', ''-0'', ''NaN''})"
| "jtruthy (JStr s) = (s \<noteq> [])"
| "jtruthy (JArr _) = True"
| "jtruthy (JObj _) = True"

fun jstr_opt :: "json \<Rightarrow> string option" where
  \<comment> \<open>the text when \<open>typeof v === "string"\<close>\<close>
  "jstr_opt (JStr s) = Some s"
| "jstr_opt _ = None"

definition coalesce :: "json \<Rightarrow> json \<Rightarrow> json" where
  \<comment> \<open>\<open>v ?? w\<close>\<close>
  "coalesce v w = (if v = JUndef \<or> v = JNull then w else v)"

fun json_items :: "json \<Rightarrow> json list" where
  "json_items (JArr vs) = vs"
| "json_items _ = []"

section \<open>Canonical serialisation\<close>

definition hex_char :: "nat \<Rightarrow> char" where
  "hex_char d = (if d < 10 then char_of (d + 48) else char_of (d + 87))"

text \<open>The escapes of \<open>JSON.stringify\<close> on one character.\<close>

definition json_escape :: "char \<Rightarrow> string" where
  "json_escape c =
     (if c = CHR 0x22 then [CHR 0x5C, CHR 0x22]
      else if c = CHR 0x5C then [CHR 0x5C, CHR 0x5C]
      else if code c = 8 then [CHR 0x5C, CHR ''b'']
      else if code c = 9 then [CHR 0x5C, CHR ''t'']
      else if code c = 10 then [CHR 0x5C, CHR ''n'']
      else if code c = 12 then [CHR 0x5C, CHR ''f'']
      else if code c = 13 then [CHR 0x5C, CHR ''r'']
      else if code c < 32 then
        CHR 0x5C # ''u00'' @ [hex_char (code c div 16), hex_char (code c mod 16)]
      else [c])"

definition json_quote :: "string \<Rightarrow> string" where
  "json_quote s = CHR 0x22 # concat (map json_escape s) @ [CHR 0x22]"

fun join_with :: "string \<Rightarrow> string list \<Rightarrow> string" where
  "join_with sep [] = []"
| "join_with sep [x] = x"
| "join_with sep (x # y # ys) = x @ sep @ join_with sep (y # ys)"

fun js_text :: "json \<Rightarrow> string" where
  \<comment> \<open>\<open>String(v)\<close>, which is also how a value prints inside a template string\<close>
  "js_text JUndef = ''undefined''"
| "js_text JNull = ''null''"
| "js_text (JBool b) = (if b then ''true'' else ''false'')"
| "js_text (JNum n) = n"
| "js_text (JStr s) = s"
| "js_text (JArr vs) = join_with '','' (map (\<lambda>v. if v = JUndef \<or> v = JNull then [] else js_text v) vs)"
| "js_text (JObj kvs) = ''[object Object]''"

function canonicalJson :: "json \<Rightarrow> string" where
  "canonicalJson JUndef = ''null''"
| "canonicalJson JNull = ''null''"
| "canonicalJson (JBool b) = (if b then ''true'' else ''false'')"
| "canonicalJson (JNum n) = n"
| "canonicalJson (JStr s) = json_quote s"
| "canonicalJson (JArr vs) = ''['' @ join_with '','' (map canonicalJson vs) @ '']''"
| "canonicalJson (JObj kvs) =
     ''{'' @ join_with '',''
       (map (\<lambda>(k, v). json_quote k @ '':'' @ canonicalJson v) (sort_key fst kvs)) @ ''}''"
  by pat_completeness auto
termination
proof (relation "measure size", goal_cases)
  case (2 vs v)
  then show ?case by (simp add: size_list_estimation' less_Suc_eq_le)
next
  case (3 kvs kv k v)
  then have "(k, v) \<in> set kvs" by simp
  then have "size_prod (\<lambda>_. 0) size (k, v) \<le> size_list (size_prod (\<lambda>_. 0) size) kvs"
    by (intro size_list_estimation') auto
  then show ?case by simp
qed simp

section \<open>Text of a value\<close>

definition array_index :: "string \<Rightarrow> nat option" where
  \<comment> \<open>property names that are array indices come first when an object is enumerated\<close>
  "array_index k =
     (if all_digits k \<and> (k = ''0'' \<or> hd k \<noteq> CHR ''0'') \<and> digits_val k < 2 ^ 32 - 1
      then Some (digits_val k) else None)"

definition js_property_order :: "(string \<times> 'a) list \<Rightarrow> (string \<times> 'a) list" where
  "js_property_order kvs =
     sort_key (\<lambda>kv. the (array_index (fst kv))) (filter (\<lambda>kv. array_index (fst kv) \<noteq> None) kvs)
     @ filter (\<lambda>kv. array_index (fst kv) = None) kvs"

function json_text :: "json \<Rightarrow> string" where
  \<comment> \<open>\<open>JSON.stringify\<close>: \<open>undefined\<close> is dropped from objects and \<open>null\<close> in arrays\<close>
  "json_text JUndef = ''null''"
| "json_text JNull = ''null''"
| "json_text (JBool b) = (if b then ''true'' else ''false'')"
| "json_text (JNum n) = n"
| "json_text (JStr s) = json_quote s"
| "json_text (JArr vs) = ''['' @ join_with '','' (map json_text vs) @ '']''"
| "json_text (JObj kvs) =
     ''{'' @ join_with '','' (map (\<lambda>(k, v). json_quote k @ '':'' @ json_text v)
       (filter (\<lambda>kv. snd kv \<noteq> JUndef) (js_property_order kvs))) @ ''}''"
  by pat_completeness auto
termination
proof (relation "measure size", goal_cases)
  case (2 vs v)
  then show ?case by (simp add: size_list_estimation' less_Suc_eq_le)
next
  case (3 kvs kv k v)
  then have "(k, v) \<in> set kvs" by (auto simp: js_property_order_def)
  then have "size_prod (\<lambda>_. 0) size (k, v) \<le> size_list (size_prod (\<lambda>_. 0) size) kvs"
    by (intro size_list_estimation') auto
  then show ?case by simp
qed simp

end
