(* ===== verification/Operation_Journal.thy ===== *)
theory Operation_Journal
  imports Operation_State Json
begin

text \<open>
  \<open>OperationJournal\<close> (\<open>arclayer-runner/src/operation-journal.ts\<close>): the SQLite tables
  behind the execution gateway and every operation on them. A method that runs in one
  \<open>BEGIN IMMEDIATE\<close> transaction is a function on the whole database; a constraint
  violation throws and rolls back, so it returns \<open>Inl\<close> and no new database.
  Timestamps are milliseconds; \<open>datetime('now')\<close> has a resolution of one second.
\<close>

section \<open>Rows and tables\<close>

record op_row =
  opr_id :: string
  opr_key :: string
  opr_hash :: string
  opr_kind :: string
  opr_agent :: "string option"
  opr_wallet :: "string option"
  opr_chain :: "int option"
  opr_contract :: "string option"
  opr_description :: "string option"
  opr_state :: operation_state
  opr_tx :: "string option"
  opr_errcode :: "string option"
  opr_errmsg :: "string option"
  opr_created :: nat
  opr_updated :: nat

record idem_row =
  idr_composite :: string
  idr_op :: string
  idr_key :: string
  idr_hash :: string

record result_row =
  rsr_op :: string
  rsr_stdout :: "string option"
  rsr_stderr :: "string option"
  rsr_json :: "json option"
  rsr_exit :: "nat option"

record receipt_row =
  rcr_op :: string
  rcr_id :: "string option"
  rcr_hash :: "string option"
  rcr_kind :: "string option"
  rcr_data :: "json option"

record lock_row =
  lkr_key :: string
  lkr_op :: string

record journal =
  j_ops :: "op_row list"
  j_idem :: "idem_row list"
  j_wallet_locks :: "lock_row list"
  j_job_locks :: "lock_row list"
  j_results :: "result_row list"
  j_receipts :: "receipt_row list"

definition empty_journal :: journal where
  "empty_journal = \<lparr>j_ops = [], j_idem = [], j_wallet_locks = [], j_job_locks = [],
     j_results = [], j_receipts = []\<rparr>"

text \<open>\<open>OperationRecord\<close> of \<open>runner-core/src/operation.ts\<close>, as the gateway fills it.\<close>

record operation_record =
  or_id :: string
  or_key :: string
  or_tool :: string
  or_agent :: "string option"
  or_wallet :: "string option"
  or_chain :: "int option"
  or_contract :: "string option"
  or_hash :: string
  or_state :: operation_state
  or_tx :: "string option"
  or_errcode :: "string option"
  or_errmsg :: "string option"
  or_created :: nat
  or_updated :: nat

record lock_request =
  lq_wallet :: "string option"
  lq_job :: "string option"

definition sql_now :: "nat \<Rightarrow> nat" where
  "sql_now now = now div 1000 * 1000"

datatype sqlite_error = ConstraintViolation string

section \<open>Locks\<close>

text \<open>Both lock tables have the locked thing as primary key.\<close>

definition lock_holder :: "string \<Rightarrow> lock_row list \<Rightarrow> string option" where
  "lock_holder k ls = map_option lkr_op (sel lkr_key k ls)"

definition lock_acquire :: "string \<Rightarrow> string \<Rightarrow> lock_row list \<Rightarrow> lock_row list" where
  "lock_acquire k op ls = ls @ [\<lparr>lkr_key = k, lkr_op = op\<rparr>]"

definition lock_release :: "string \<Rightarrow> lock_row list \<Rightarrow> lock_row list" where
  "lock_release op ls = del lkr_op op ls"

definition releaseLocks :: "string \<Rightarrow> journal \<Rightarrow> journal" where
  \<comment> \<open>the two \<open>DELETE\<close>s every releasing method runs\<close>
  "releaseLocks op db = db\<lparr>j_wallet_locks := lock_release op (j_wallet_locks db),
                          j_job_locks := lock_release op (j_job_locks db)\<rparr>"

definition releaseLocksForOperation :: "string \<Rightarrow> journal \<Rightarrow> journal" where
  "releaseLocksForOperation op db = releaseLocks op db"

definition getWalletLockOperation :: "string \<Rightarrow> journal \<Rightarrow> string option" where
  "getWalletLockOperation w db = lock_holder (toLowerCase w) (j_wallet_locks db)"

definition getJobLockOperation :: "string \<Rightarrow> journal \<Rightarrow> string option" where
  "getJobLockOperation j db = lock_holder j (j_job_locks db)"

definition hasWalletLock :: "string \<Rightarrow> journal \<Rightarrow> bool" where
  "hasWalletLock w db = (lock_holder (toLowerCase w) (j_wallet_locks db) \<noteq> None)"

definition hasJobLock :: "string \<Rightarrow> journal \<Rightarrow> bool" where
  "hasJobLock j db = (lock_holder j (j_job_locks db) \<noteq> None)"

section \<open>Queries\<close>

definition getOperation :: "string \<Rightarrow> journal \<Rightarrow> op_row option" where
  "getOperation op db = sel opr_id op (j_ops db)"

definition getOperationsByState :: "operation_state \<Rightarrow> journal \<Rightarrow> op_row list" where
  "getOperationsByState s db = sort_key opr_created (filter (\<lambda>r. opr_state r = s) (j_ops db))"

definition getOperationCount :: "journal \<Rightarrow> nat" where
  "getOperationCount db = length (j_ops db)"

definition getResult :: "string \<Rightarrow> journal \<Rightarrow> result_row option" where
  "getResult op db = sel rsr_op op (j_results db)"

definition getReceipt :: "string \<Rightarrow> journal \<Rightarrow> receipt_row option" where
  "getReceipt op db = sel rcr_op op (j_receipts db)"

definition getReconcilableOperations :: "journal \<Rightarrow> op_row list" where
  "getReconcilableOperations db =
     sort_key opr_created
       (filter (\<lambda>r. opr_state r = OpBroadcast \<or> opr_state r = OpUnknown) (j_ops db))"

definition loadConfirmedResults ::
  "int \<Rightarrow> journal \<Rightarrow> (op_row \<times> result_row option) list" where
  "loadConfirmedResults maxEntries db =
     map (\<lambda>r. (r, getResult (opr_id r) db))
       (take (nat maxEntries)
         (rev (sort_key opr_updated (filter (\<lambda>r. opr_state r = OpConfirmed) (j_ops db)))))"

section \<open>Creating an operation\<close>

datatype create_result =
  CreateOk string
| IdempotencyKeyExists "op_row option"
| IdempotencyConflict "op_row option"
| WalletLocked string
| JobLocked string

definition row_of_record :: "operation_record \<Rightarrow> op_row" where
  "row_of_record r =
     \<lparr>opr_id = or_id r, opr_key = or_key r, opr_hash = or_hash r, opr_kind = or_tool r,
      opr_agent = or_agent r, opr_wallet = or_wallet r, opr_chain = or_chain r,
      opr_contract = or_contract r, opr_description = None, opr_state = or_state r,
      opr_tx = or_tx r, opr_errcode = or_errcode r, opr_errmsg = or_errmsg r,
      opr_created = or_created r, opr_updated = or_updated r\<rparr>"

definition compositeKey :: "string \<Rightarrow> string \<Rightarrow> string" where
  "compositeKey key hash = key @ '':'' @ hash"

definition insertOperation ::
  "operation_record \<Rightarrow> lock_request \<Rightarrow> journal \<Rightarrow> sqlite_error + journal \<times> create_result" where
  \<comment> \<open>steps 5 to 8 of \<open>createOperationWithLocks\<close>: the inserts, with their primary keys\<close>
  "insertOperation r locks db =
     (let composite = compositeKey (or_key r) (or_hash r) in
      if sel opr_id (or_id r) (j_ops db) \<noteq> None then
        Inl (ConstraintViolation ''operations.operation_id'')
      else if sel idr_composite composite (j_idem db) \<noteq> None then
        Inl (ConstraintViolation ''idempotency_keys.composite_key'')
      else
        Inr (db\<lparr>
          j_ops := j_ops db @ [row_of_record r],
          j_idem := j_idem db @ [\<lparr>idr_composite = composite, idr_op = or_id r,
                                  idr_key = or_key r, idr_hash = or_hash r\<rparr>],
          j_wallet_locks :=
            (case lq_wallet locks of
               Some w \<Rightarrow> if w \<noteq> [] then lock_acquire (toLowerCase w) (or_id r) (j_wallet_locks db)
                         else j_wallet_locks db
             | None \<Rightarrow> j_wallet_locks db),
          j_job_locks :=
            (case lq_job locks of
               Some j \<Rightarrow> if j \<noteq> [] then lock_acquire j (or_id r) (j_job_locks db)
                         else j_job_locks db
             | None \<Rightarrow> j_job_locks db)\<rparr>,
          CreateOk (or_id r)))"

definition wallet_lock_conflict :: "lock_request \<Rightarrow> journal \<Rightarrow> string option" where
  "wallet_lock_conflict locks db =
     (case lq_wallet locks of
        Some w \<Rightarrow> if w \<noteq> [] then lock_holder (toLowerCase w) (j_wallet_locks db) else None
      | None \<Rightarrow> None)"

definition job_lock_conflict :: "lock_request \<Rightarrow> journal \<Rightarrow> string option" where
  "job_lock_conflict locks db =
     (case lq_job locks of
        Some j \<Rightarrow> if j \<noteq> [] then lock_holder j (j_job_locks db) else None
      | None \<Rightarrow> None)"

definition createOperationWithLocks ::
  "operation_record \<Rightarrow> lock_request \<Rightarrow> journal \<Rightarrow> sqlite_error + journal \<times> create_result" where
  "createOperationWithLocks r locks db =
     (case find (\<lambda>i. idr_key i = or_key r \<and> idr_hash i = or_hash r) (j_idem db) of
        Some i \<Rightarrow> Inr (db, IdempotencyKeyExists (getOperation (idr_op i) db))
      | None \<Rightarrow>
          (case find (\<lambda>i. idr_key i = or_key r \<and> idr_hash i \<noteq> or_hash r) (j_idem db) of
             Some i \<Rightarrow> Inr (db, IdempotencyConflict (getOperation (idr_op i) db))
           | None \<Rightarrow>
               (case wallet_lock_conflict locks db of
                  Some by_op \<Rightarrow> Inr (db, WalletLocked by_op)
                | None \<Rightarrow>
                    (case job_lock_conflict locks db of
                       Some by_op \<Rightarrow> Inr (db, JobLocked by_op)
                     | None \<Rightarrow> insertOperation r locks db))))"

section \<open>Finalising, reconciling, deleting, recovering\<close>

record result_data =
  rd_stdout :: "string option"
  rd_stderr :: "string option"
  rd_json :: json
  rd_exit :: "nat option"

record receipt_data =
  rc_id :: "string option"
  rc_hash :: "string option"
  rc_kind :: "string option"
  rc_data :: json

record finalization =
  fin_state :: operation_state
  fin_tx :: "string option"
  fin_errcode :: "string option"
  fin_errmsg :: "string option"
  fin_result :: "result_data option"
  fin_receipt :: "receipt_data option"

definition set_if :: "'a option \<Rightarrow> 'a option \<Rightarrow> 'a option" where
  \<comment> \<open>a column that is only set when the argument is not \<open>undefined\<close>\<close>
  "set_if v old = (case v of None \<Rightarrow> old | Some x \<Rightarrow> Some x)"

definition json_column :: "json \<Rightarrow> json option" where
  "json_column j = (if jtruthy j then Some j else None)"

definition finalize_row :: "nat \<Rightarrow> finalization \<Rightarrow> op_row \<Rightarrow> op_row" where
  "finalize_row now f r =
     r\<lparr>opr_updated := sql_now now, opr_state := fin_state f,
       opr_tx := set_if (fin_tx f) (opr_tx r),
       opr_errcode := set_if (fin_errcode f) (opr_errcode r),
       opr_errmsg := set_if (fin_errmsg f) (opr_errmsg r)\<rparr>"

definition put_result :: "string \<Rightarrow> result_data \<Rightarrow> result_row list \<Rightarrow> result_row list" where
  \<comment> \<open>\<open>INSERT OR REPLACE\<close>: the old row goes, the new one comes last\<close>
  "put_result op d rs = del rsr_op op rs @
     [\<lparr>rsr_op = op, rsr_stdout = rd_stdout d, rsr_stderr = rd_stderr d,
       rsr_json = json_column (rd_json d), rsr_exit = rd_exit d\<rparr>]"

definition put_receipt :: "string \<Rightarrow> receipt_data \<Rightarrow> receipt_row list \<Rightarrow> receipt_row list" where
  "put_receipt op d rs = del rcr_op op rs @
     [\<lparr>rcr_op = op, rcr_id = rc_id d, rcr_hash = rc_hash d, rcr_kind = rc_kind d,
       rcr_data = json_column (rc_data d)\<rparr>]"

definition finalizeOperation ::
  "nat \<Rightarrow> string \<Rightarrow> finalization \<Rightarrow> journal \<Rightarrow> sqlite_error + journal" where
  \<comment> \<open>a result or a receipt of an unknown operation breaks the foreign key\<close>
  "finalizeOperation now op f db =
     (if sel opr_id op (j_ops db) = None \<and> (fin_result f \<noteq> None \<or> fin_receipt f \<noteq> None) then
        Inl (ConstraintViolation ''FOREIGN KEY'')
      else
        let db1 = db\<lparr>j_ops := upd opr_id op (finalize_row now f) (j_ops db)\<rparr>;
            db2 = (case fin_result f of None \<Rightarrow> db1
                   | Some d \<Rightarrow> db1\<lparr>j_results := put_result op d (j_results db1)\<rparr>);
            db3 = (case fin_receipt f of None \<Rightarrow> db2
                   | Some d \<Rightarrow> db2\<lparr>j_receipts := put_receipt op d (j_receipts db2)\<rparr>)
        in Inr (if fin_state f = OpConfirmed \<or> fin_state f = OpFailed \<or> fin_state f = OpCancelled
                then releaseLocks op db3 else db3))"

definition deleteOperation :: "string \<Rightarrow> journal \<Rightarrow> journal" where
  "deleteOperation op db =
     \<lparr>j_ops = del opr_id op (j_ops db),
      j_idem = del idr_op op (j_idem db),
      j_wallet_locks = lock_release op (j_wallet_locks db),
      j_job_locks = lock_release op (j_job_locks db),
      j_results = del rsr_op op (j_results db),
      j_receipts = del rcr_op op (j_receipts db)\<rparr>"

datatype reconcile_outcome = OutConfirmed | OutFailed | OutUnknown

fun outcome_state :: "reconcile_outcome \<Rightarrow> operation_state" where
  "outcome_state OutConfirmed = OpConfirmed"
| "outcome_state OutFailed = OpFailed"
| "outcome_state OutUnknown = OpUnknown"

record reconcile_details =
  rdt_tx :: "string option"
  rdt_errcode :: "string option"
  rdt_errmsg :: "string option"

definition set_truthy :: "string option \<Rightarrow> string option \<Rightarrow> string option" where
  "set_truthy v old = (if truthy v then v else old)"

fun reconcile_row :: "nat \<Rightarrow> reconcile_outcome \<Rightarrow> reconcile_details \<Rightarrow> op_row \<Rightarrow> op_row" where
  "reconcile_row now OutConfirmed d r =
     r\<lparr>opr_updated := sql_now now, opr_state := OpConfirmed,
       opr_tx := set_truthy (rdt_tx d) (opr_tx r), opr_errcode := None, opr_errmsg := None\<rparr>"
| "reconcile_row now OutFailed d r =
     r\<lparr>opr_updated := sql_now now, opr_state := OpFailed,
       opr_errcode := Some (or_else (rdt_errcode d) ''BROADCAST_FAILED''),
       opr_errmsg := Some (or_else (rdt_errmsg d) ''Reconciled as failed'')\<rparr>"
| "reconcile_row now OutUnknown d r =
     r\<lparr>opr_updated := sql_now now, opr_state := OpUnknown,
       opr_errcode := set_truthy (rdt_errcode d) (opr_errcode r),
       opr_errmsg := set_truthy (rdt_errmsg d) (opr_errmsg r)\<rparr>"

definition reconcileOperation_j ::
  "nat \<Rightarrow> string \<Rightarrow> reconcile_outcome \<Rightarrow> reconcile_details \<Rightarrow> journal \<Rightarrow> journal" where
  "reconcileOperation_j now op outcome d db =
     (let db1 = db\<lparr>j_ops := upd opr_id op (reconcile_row now outcome d) (j_ops db)\<rparr>
      in if outcome = OutConfirmed \<or> outcome = OutFailed then releaseLocks op db1 else db1)"

definition recovery_row :: "nat \<Rightarrow> op_row \<Rightarrow> op_row" where
  "recovery_row now r =
     (if opr_state r \<in> {OpCreated, OpPrepared, OpReserved} then
        r\<lparr>opr_state := OpFailed, opr_errcode := Some ''STARTUP_RECOVERY_REQUIRED'',
          opr_errmsg := Some ''Operation was in pre-broadcast state at shutdown. Safe to retry.'',
          opr_updated := sql_now now\<rparr>
      else if opr_state r = OpExecuting then
        r\<lparr>opr_state := OpUnknown, opr_errcode := Some ''STARTUP_RECOVERY_REQUIRED'',
          opr_errmsg := Some ''Operation was executing at shutdown. Tx may have been broadcast. Reconciliation required.'',
          opr_updated := sql_now now\<rparr>
      else r)"

definition pre_broadcast_ids :: "journal \<Rightarrow> string list" where
  "pre_broadcast_ids db =
     map opr_id (filter (\<lambda>r. opr_state r \<in> {OpCreated, OpPrepared, OpReserved}) (j_ops db))"

definition executing_ids :: "journal \<Rightarrow> string list" where
  "executing_ids db = map opr_id (filter (\<lambda>r. opr_state r = OpExecuting) (j_ops db))"

definition recoverNonTerminalOperations ::
  "nat \<Rightarrow> journal \<Rightarrow> journal \<times> string list \<times> string list" where
  "recoverNonTerminalOperations now db =
     (fold releaseLocks (pre_broadcast_ids db)
        (db\<lparr>j_ops := map (recovery_row now) (j_ops db)\<rparr>),
      pre_broadcast_ids db, executing_ids db)"

end
