(* ===== verification/Journal_Invariant.thy ===== *)
theory Journal_Invariant
  imports Operation_Journal
begin

text \<open>
  The invariant of the operation journal and its preservation by every method: primary
  keys stay unique, every idempotency row names an operation with its key and hash, every
  lock is held by a live (non-terminal) operation, and every live operation with a wallet
  holds the lock of that wallet. \<open>lock_table\<close> is the interface the methods rely on for
  both lock tables.
\<close>

section \<open>The lock interface\<close>

locale lock_table =
  fixes acquire :: "'k \<Rightarrow> 'o \<Rightarrow> 't \<Rightarrow> 't"
    and release :: "'o \<Rightarrow> 't \<Rightarrow> 't"
    and holder :: "'k \<Rightarrow> 't \<Rightarrow> 'o option"
    and wf :: "'t \<Rightarrow> bool"
  assumes holder_acquire:
      "holder k t = None \<Longrightarrow> holder j (acquire k op t) = (if j = k then Some op else holder j t)"
    and holder_release:
      "wf t \<Longrightarrow> holder k (release op t) = (if holder k t = Some op then None else holder k t)"
    and wf_acquire: "wf t \<Longrightarrow> holder k t = None \<Longrightarrow> wf (acquire k op t)"
    and wf_release: "wf t \<Longrightarrow> wf (release op t)"
begin

lemma holder_kept: "wf t \<Longrightarrow> holder k t = Some a \<Longrightarrow> a \<noteq> op \<Longrightarrow> holder k (release op t) = Some a"
  by (simp add: holder_release)

lemma released: "wf t \<Longrightarrow> holder k (release op t) \<noteq> Some op"
  by (simp add: holder_release)

lemma wf_releases: "wf t \<Longrightarrow> wf (fold release ops t)"
  by (induction ops arbitrary: t) (auto intro: wf_release)

lemma holder_releases:
  "wf t \<Longrightarrow> holder k (fold release ops t) =
     (case holder k t of Some a \<Rightarrow> if a \<in> set ops then None else Some a | None \<Rightarrow> None)"
  by (induction ops arbitrary: t) (auto simp: holder_release wf_release split: option.splits)

end

definition locks_distinct :: "lock_row list \<Rightarrow> bool" where
  "locks_distinct ls \<longleftrightarrow> distinct (map lkr_key ls)"

lemma lock_holder_iff:
  "locks_distinct ls \<Longrightarrow> lock_holder k ls = Some op \<longleftrightarrow> (\<exists>l\<in>set ls. lkr_key l = k \<and> lkr_op l = op)"
  unfolding lock_holder_def locks_distinct_def
  by (auto dest: sel_SomeD sel_unique)

lemma lock_holder_None: "lock_holder k ls = None \<longleftrightarrow> k \<notin> lkr_key ` set ls"
  by (simp add: lock_holder_def sel_None_iff)

interpretation journal_locks: lock_table lock_acquire lock_release lock_holder locks_distinct
proof unfold_locales
  fix k op t j
  show "lock_holder k t = None \<Longrightarrow>
      lock_holder j (lock_acquire k op t) = (if j = k then Some op else lock_holder j t)"
    by (auto simp: lock_holder_def lock_acquire_def table_simps split: option.splits)
  assume wf: "locks_distinct t"
  then show wf': "locks_distinct (lock_release op t)"
    by (simp add: locks_distinct_def lock_release_def)
  show "lock_holder k t = None \<Longrightarrow> locks_distinct (lock_acquire k op t)"
    using wf by (simp add: locks_distinct_def lock_acquire_def lock_holder_None)
  show "lock_holder k (lock_release op t) =
      (if lock_holder k t = Some op then None else lock_holder k t)"
  proof (cases "lock_holder k t")
    case None
    then have "lock_holder k (lock_release op t) = None"
      by (auto simp: lock_holder_None lock_release_def)
    with None show ?thesis by simp
  next
    case (Some a)
    then obtain l where l: "l \<in> set t" "lkr_key l = k" "lkr_op l = a"
      using lock_holder_iff [OF wf] by blast
    show ?thesis
    proof (cases "a = op")
      case True
      have "k \<notin> lkr_key ` set (lock_release op t)"
      proof
        assume "k \<in> lkr_key ` set (lock_release op t)"
        then obtain l' where "l' \<in> set t" "lkr_key l' = k" "lkr_op l' \<noteq> op"
          by (auto simp: lock_release_def)
        then have "lock_holder k t = Some (lkr_op l')" using lock_holder_iff [OF wf] by blast
        with Some True \<open>lkr_op l' \<noteq> op\<close> show False by simp
      qed
      with Some True show ?thesis by (simp add: lock_holder_None)
    next
      case False
      with l have "\<exists>l\<in>set (lock_release op t). lkr_key l = k \<and> lkr_op l = a"
        by (auto simp: lock_release_def)
      then have "lock_holder k (lock_release op t) = Some a"
        using lock_holder_iff [OF wf'] by blast
      with Some False show ?thesis by simp
    qed
  qed
qed

section \<open>The invariant\<close>

definition active :: "op_row \<Rightarrow> bool" where
  "active r \<longleftrightarrow> \<not> isTerminalOperationState (opr_state r)"

definition keys_ok :: "journal \<Rightarrow> bool" where
  "keys_ok db \<longleftrightarrow> distinct (map opr_id (j_ops db)) \<and> distinct (map idr_composite (j_idem db))
     \<and> distinct (map idr_key (j_idem db))
     \<and> locks_distinct (j_wallet_locks db) \<and> locks_distinct (j_job_locks db)"

definition idem_ok :: "journal \<Rightarrow> bool" where
  "idem_ok db \<longleftrightarrow>
     (\<forall>i\<in>set (j_idem db). idr_composite i = compositeKey (idr_key i) (idr_hash i) \<and>
        (\<exists>r. getOperation (idr_op i) db = Some r \<and> opr_key r = idr_key i \<and> opr_hash r = idr_hash i))
     \<and> (\<forall>r\<in>set (j_ops db). \<exists>i\<in>set (j_idem db). idr_op i = opr_id r)"

definition live_holder :: "op_row list \<Rightarrow> lock_row list \<Rightarrow> bool" where
  "live_holder ops ls \<longleftrightarrow> (\<forall>l\<in>set ls. \<exists>r\<in>set ops. opr_id r = lkr_op l \<and> active r)"

definition wallet_held :: "op_row list \<Rightarrow> lock_row list \<Rightarrow> bool" where
  "wallet_held ops ls \<longleftrightarrow>
     (\<forall>r\<in>set ops. active r \<longrightarrow> (\<forall>w. opr_wallet r = Some w \<longrightarrow> w \<noteq> [] \<longrightarrow>
        lock_holder (toLowerCase w) ls = Some (opr_id r)))"

definition refs_ok :: "journal \<Rightarrow> bool" where
  "refs_ok db \<longleftrightarrow> rsr_op ` set (j_results db) \<subseteq> opr_id ` set (j_ops db)
     \<and> rcr_op ` set (j_receipts db) \<subseteq> opr_id ` set (j_ops db)"

definition journal_inv :: "journal \<Rightarrow> bool" where
  "journal_inv db \<longleftrightarrow> keys_ok db \<and> idem_ok db
     \<and> live_holder (j_ops db) (j_wallet_locks db) \<and> live_holder (j_ops db) (j_job_locks db)
     \<and> wallet_held (j_ops db) (j_wallet_locks db) \<and> refs_ok db"

lemma journal_inv_empty [simp]: "journal_inv empty_journal"
  by (simp add: journal_inv_def keys_ok_def idem_ok_def live_holder_def wallet_held_def
      refs_ok_def locks_distinct_def empty_journal_def)

text \<open>At most one live operation per wallet: both hold the same lock.\<close>

lemma wallet_exclusive:
  assumes "journal_inv db" "r \<in> set (j_ops db)" "r' \<in> set (j_ops db)" "active r" "active r'"
    "opr_wallet r = Some w" "opr_wallet r' = Some w'" "w \<noteq> []"
    "toLowerCase w = toLowerCase w'"
  shows "r = r'"
proof -
  have "w' \<noteq> []" using assms(8,9) by (metis toLowerCase_Nil_iff)
  with assms have "opr_id r = opr_id r'"
    unfolding journal_inv_def wallet_held_def by (metis option.inject)
  with assms show ?thesis
    unfolding journal_inv_def keys_ok_def by (auto simp: distinct_map dest: inj_onD)
qed

section \<open>Updating one operation\<close>

text \<open>
  Finalising and reconciling rewrite one row without touching its key columns, and release
  its locks when the new state is terminal.
\<close>

definition keeps_key :: "(op_row \<Rightarrow> op_row) \<Rightarrow> bool" where
  "keeps_key f \<longleftrightarrow> (\<forall>r. opr_id (f r) = opr_id r \<and> opr_key (f r) = opr_key r
     \<and> opr_hash (f r) = opr_hash r \<and> opr_wallet (f r) = opr_wallet r)"

lemma keeps_key_id: "keeps_key f \<Longrightarrow> opr_id (f r) = opr_id r"
  by (simp add: keeps_key_def)

lemma ids_upd: "keeps_key f \<Longrightarrow> map opr_id (upd opr_id op f ops) = map opr_id ops"
  by (rule map_pk_upd) (simp add: keeps_key_def)

lemma idem_ok_upd:
  assumes "keeps_key f" "idem_ok db" "j_idem db' = j_idem db"
    "j_ops db' = upd opr_id op f (j_ops db)"
  shows "idem_ok db'"
proof -
  have "\<exists>r. getOperation i db' = Some r \<and> opr_key r = k \<and> opr_hash r = h"
    if "\<exists>r. getOperation i db = Some r \<and> opr_key r = k \<and> opr_hash r = h" for i k h
    using that assms(1,4) by (auto simp: getOperation_def table_simps keeps_key_def)
  moreover have "\<exists>i\<in>set (j_idem db). idr_op i = opr_id r" if "r \<in> set (j_ops db')" for r
    using that assms by (auto simp: idem_ok_def set_upd keeps_key_def)
  ultimately show ?thesis using assms(2,3) by (simp add: idem_ok_def)
qed

lemma live_holder_upd:
  assumes "keeps_key f" "live_holder ops ls"
    "(\<forall>r\<in>set ops. opr_id r = op \<longrightarrow> active r \<longrightarrow> active (f r)) \<or> (\<forall>l\<in>set ls. lkr_op l \<noteq> op)"
  shows "live_holder (upd opr_id op f ops) ls"
  unfolding live_holder_def
proof
  fix l assume l: "l \<in> set ls"
  then obtain r where r: "r \<in> set ops" "opr_id r = lkr_op l" "active r"
    using assms(2) unfolding live_holder_def by blast
  let ?r = "if opr_id r = op then f r else r"
  have "?r \<in> set (upd opr_id op f ops)" using r(1) by (simp add: set_upd)
  moreover have "opr_id ?r = lkr_op l" using r(2) assms(1) by (simp add: keeps_key_def)
  moreover have "active ?r" using r l assms(3) by auto
  ultimately show "\<exists>r\<in>set (upd opr_id op f ops). opr_id r = lkr_op l \<and> active r" by blast
qed

lemma live_holder_release: "live_holder ops ls \<Longrightarrow> live_holder ops (lock_release op ls)"
  by (auto simp: live_holder_def lock_release_def)

lemma wallet_held_upd:
  assumes "keeps_key f" "wallet_held ops ls" "locks_distinct ls"
    "\<forall>r\<in>set ops. opr_id r = op \<longrightarrow> active (f r) \<longrightarrow> active r"
  shows "wallet_held (upd opr_id op f ops) ls"
    "(\<forall>r\<in>set ops. opr_id r = op \<longrightarrow> \<not> active (f r)) \<Longrightarrow>
       wallet_held (upd opr_id op f ops) (lock_release op ls)"
proof -
  show "wallet_held (upd opr_id op f ops) ls"
    using assms by (auto simp: wallet_held_def set_upd keeps_key_def)
  assume dead: "\<forall>r\<in>set ops. opr_id r = op \<longrightarrow> \<not> active (f r)"
  then have "r \<in> set ops \<and> opr_id r \<noteq> op" if "r \<in> set (upd opr_id op f ops)" "active r" for r
    using that by (auto simp: set_upd split: if_splits)
  with assms(2,3) show "wallet_held (upd opr_id op f ops) (lock_release op ls)"
    unfolding wallet_held_def by (blast intro: journal_locks.holder_kept)
qed

lemma id_set_upd: "keeps_key f \<Longrightarrow> opr_id ` set (upd opr_id op f ops) = opr_id ` set ops"
  using ids_upd [of f op ops] by (simp flip: set_map)

lemma live_holder_upd_release:
  assumes "keeps_key f" "live_holder ops ls"
  shows "live_holder (upd opr_id op f ops) (lock_release op ls)"
  by (rule live_holder_upd [OF assms(1) live_holder_release [OF assms(2)]])
     (simp add: lock_release_def)

lemma inv_upd_live:
  assumes "journal_inv db" "keeps_key f"
    "\<forall>r\<in>set (j_ops db). opr_id r = op \<longrightarrow> active (f r) = active r"
  shows "journal_inv (db\<lparr>j_ops := upd opr_id op f (j_ops db)\<rparr>)"
  using assms idem_ok_upd [OF assms(2), of db]
  unfolding journal_inv_def keys_ok_def refs_ok_def
  by (simp add: ids_upd id_set_upd live_holder_upd wallet_held_upd)

lemma inv_upd_release:
  assumes "journal_inv db" "keeps_key f"
    "\<forall>r\<in>set (j_ops db). opr_id r = op \<longrightarrow> \<not> active (f r)"
  shows "journal_inv (releaseLocks op (db\<lparr>j_ops := upd opr_id op f (j_ops db)\<rparr>))"
proof -
  have "wallet_held (upd opr_id op f (j_ops db)) (lock_release op (j_wallet_locks db))"
    using assms unfolding journal_inv_def keys_ok_def
    by (intro wallet_held_upd(2)) auto
  with assms idem_ok_upd [OF assms(2), of db] show ?thesis
    unfolding journal_inv_def keys_ok_def refs_ok_def releaseLocks_def
    by (simp add: ids_upd id_set_upd journal_locks.wf_release live_holder_upd_release)
qed

section \<open>Every method keeps the invariant\<close>

lemma keeps_finalize: "keeps_key (finalize_row now f)"
  by (simp add: keeps_key_def finalize_row_def)

lemma keeps_reconcile: "keeps_key (reconcile_row now out d)"
  by (cases out) (simp_all add: keeps_key_def)

lemma keeps_recovery: "keeps_key (recovery_row now)"
  by (simp add: keeps_key_def recovery_row_def)

lemma active_finalize [simp]: "active (finalize_row now f r) \<longleftrightarrow> \<not> isTerminalOperationState (fin_state f)"
  by (simp add: active_def finalize_row_def)

lemma active_reconcile [simp]: "active (reconcile_row now out d r) \<longleftrightarrow> out = OutUnknown"
  by (cases out) (simp_all add: active_def)

declare reconcile_row.simps [simp del]

lemma terminal_iff:
  "s = OpConfirmed \<or> s = OpFailed \<or> s = OpCancelled \<longleftrightarrow> isTerminalOperationState s"
  by (auto simp: isTerminalOperationState_def)

definition same_core :: "journal \<Rightarrow> journal \<Rightarrow> bool" where
  \<comment> \<open>two databases that differ in results and receipts only\<close>
  "same_core db db' \<longleftrightarrow> j_ops db' = j_ops db \<and> j_idem db' = j_idem db
     \<and> j_wallet_locks db' = j_wallet_locks db \<and> j_job_locks db' = j_job_locks db"

lemma same_core_inv:
  "same_core db db' \<Longrightarrow> refs_ok db' \<Longrightarrow> journal_inv db \<Longrightarrow> journal_inv db'"
  by (simp add: same_core_def journal_inv_def keys_ok_def idem_ok_def getOperation_def)

definition finalize_extra :: "string \<Rightarrow> finalization \<Rightarrow> journal \<Rightarrow> journal" where
  "finalize_extra op f db =
     (let db2 = (case fin_result f of None \<Rightarrow> db
                 | Some d \<Rightarrow> db\<lparr>j_results := put_result op d (j_results db)\<rparr>)
      in case fin_receipt f of None \<Rightarrow> db2
         | Some d \<Rightarrow> db2\<lparr>j_receipts := put_receipt op d (j_receipts db2)\<rparr>)"

lemma finalize_split:
  "finalizeOperation now op f db = Inr db' \<longleftrightarrow>
     (sel opr_id op (j_ops db) \<noteq> None \<or> (fin_result f = None \<and> fin_receipt f = None)) \<and>
     db' = finalize_extra op f
       (if isTerminalOperationState (fin_state f)
        then releaseLocks op (db\<lparr>j_ops := upd opr_id op (finalize_row now f) (j_ops db)\<rparr>)
        else db\<lparr>j_ops := upd opr_id op (finalize_row now f) (j_ops db)\<rparr>)"
  unfolding finalizeOperation_def finalize_extra_def terminal_iff
  by (auto simp: Let_def releaseLocks_def split: option.splits)

lemma finalize_extra_core: "same_core db (finalize_extra op f db)"
  by (auto simp: same_core_def finalize_extra_def Let_def split: option.splits)

lemma refs_ok_extra:
  "refs_ok db \<Longrightarrow> op \<in> opr_id ` set (j_ops db) \<or> (fin_result f = None \<and> fin_receipt f = None) \<Longrightarrow>
     refs_ok (finalize_extra op f db)"
  by (auto simp: refs_ok_def finalize_extra_def Let_def put_result_def put_receipt_def
      split: option.splits)

definition finalizable :: "string \<Rightarrow> operation_state \<Rightarrow> journal \<Rightarrow> bool" where
  \<comment> \<open>nobody brings a terminal operation back to life\<close>
  "finalizable op s db \<longleftrightarrow>
     isTerminalOperationState s \<or> (\<forall>r\<in>set (j_ops db). opr_id r = op \<longrightarrow> active r)"

lemma finalize_inv:
  assumes "journal_inv db" "finalizeOperation now op f db = Inr db'"
    "finalizable op (fin_state f) db"
  shows "journal_inv db'"
proof -
  let ?u = "db\<lparr>j_ops := upd opr_id op (finalize_row now f) (j_ops db)\<rparr>"
  let ?d = "if isTerminalOperationState (fin_state f) then releaseLocks op ?u else ?u"
  have core: "journal_inv ?d"
    using assms(1,3) inv_upd_release [OF assms(1) keeps_finalize]
      inv_upd_live [OF assms(1) keeps_finalize, of op now f]
    by (auto simp: finalizable_def)
  have db': "db' = finalize_extra op f ?d"
    and there: "sel opr_id op (j_ops db) \<noteq> None \<or> (fin_result f = None \<and> fin_receipt f = None)"
    using assms(2) by (simp_all add: finalize_split)
  have ids: "opr_id ` set (j_ops ?d) = opr_id ` set (j_ops db)"
    by (simp add: releaseLocks_def id_set_upd keeps_finalize)
  have "op \<in> opr_id ` set (j_ops ?d) \<or> (fin_result f = None \<and> fin_receipt f = None)"
    using there unfolding ids sel_None_iff by blast
  moreover have "refs_ok ?d" using core by (simp add: journal_inv_def)
  ultimately have "refs_ok db'" unfolding db' by (intro refs_ok_extra)
  then show ?thesis
    using same_core_inv core finalize_extra_core unfolding db' by blast
qed

lemma reconcile_inv:
  assumes "journal_inv db" "finalizable op (outcome_state out) db"
  shows "journal_inv (reconcileOperation_j now op out d db)"
proof (cases "out = OutUnknown")
  case True
  with assms inv_upd_live [OF assms(1) keeps_reconcile, of op now out d] show ?thesis
    by (simp add: reconcileOperation_j_def finalizable_def)
next
  case False
  then have "out = OutConfirmed \<or> out = OutFailed" by (cases out) auto
  with assms inv_upd_release [OF assms(1) keeps_reconcile, of op now out d] show ?thesis
    by (auto simp: reconcileOperation_j_def Let_def)
qed

lemma live_holder_subset:
  "live_holder ops ls \<Longrightarrow> live_holder (del opr_id op ops) (lock_release op ls)"
  by (fastforce simp: live_holder_def lock_release_def)

lemma delete_inv:
  assumes "journal_inv db"
  shows "journal_inv (deleteOperation op db)"
proof -
  have "wallet_held (del opr_id op (j_ops db)) (lock_release op (j_wallet_locks db))"
    using assms unfolding journal_inv_def keys_ok_def wallet_held_def
    by (auto intro: journal_locks.holder_kept)
  moreover have "idem_ok (deleteOperation op db)"
    using assms unfolding journal_inv_def idem_ok_def
    by (fastforce simp: deleteOperation_def getOperation_def table_simps)
  ultimately show ?thesis
    using assms unfolding journal_inv_def keys_ok_def refs_ok_def
    by (auto simp: deleteOperation_def live_holder_subset journal_locks.wf_release)
qed

section \<open>Recovery at start-up\<close>

lemma recovery_active:
  "active (recovery_row now r) \<longleftrightarrow> active r \<and> opr_state r \<notin> {OpCreated, OpPrepared, OpReserved}"
  by (auto simp: active_def recovery_row_def)

lemma fold_releaseLocks:
  "fold releaseLocks ops db = db\<lparr>j_wallet_locks := fold lock_release ops (j_wallet_locks db),
                                j_job_locks := fold lock_release ops (j_job_locks db)\<rparr>"
  by (induction ops arbitrary: db) (simp_all add: releaseLocks_def)

lemma set_fold_release: "set (fold lock_release ops ls) = {l \<in> set ls. lkr_op l \<notin> set ops}"
  by (induction ops arbitrary: ls) (auto simp: lock_release_def)

lemma live_holder_recover:
  assumes "live_holder ops ls" "distinct (map opr_id ops)"
  shows "live_holder (map (recovery_row now) ops)
    (fold lock_release (map opr_id (filter (\<lambda>r. opr_state r \<in> {OpCreated, OpPrepared, OpReserved}) ops)) ls)"
    (is "live_holder _ (fold _ ?ids _)")
  unfolding live_holder_def
proof
  fix l assume "l \<in> set (fold lock_release ?ids ls)"
  then have l: "l \<in> set ls" "lkr_op l \<notin> set ?ids"
    unfolding set_fold_release by blast+
  then obtain r where r: "r \<in> set ops" "opr_id r = lkr_op l" "active r"
    using assms(1) unfolding live_holder_def by blast
  with l(2) have "opr_state r \<notin> {OpCreated, OpPrepared, OpReserved}" by force
  with r have "active (recovery_row now r)" by (simp add: recovery_active)
  with r keeps_key_id [OF keeps_recovery] show
    "\<exists>r\<in>set (map (recovery_row now) ops). opr_id r = lkr_op l \<and> active r" by auto
qed

lemma wallet_held_recover:
  assumes "wallet_held ops ls" "distinct (map opr_id ops)" "locks_distinct ls"
  shows "wallet_held (map (recovery_row now) ops)
    (fold lock_release (map opr_id (filter (\<lambda>r. opr_state r \<in> {OpCreated, OpPrepared, OpReserved}) ops)) ls)"
    (is "wallet_held _ (fold _ ?ids _)")
proof -
  have "lock_holder (toLowerCase w) (fold lock_release ?ids ls) = Some (opr_id r)"
    if r: "r \<in> set ops" "active (recovery_row now r)" "opr_wallet r = Some w" "w \<noteq> []" for r w
  proof -
    have "opr_id r \<notin> set ?ids"
    proof
      assume "opr_id r \<in> set ?ids"
      then obtain r' where "r' \<in> set ops" "opr_id r' = opr_id r"
        "opr_state r' \<in> {OpCreated, OpPrepared, OpReserved}" by auto
      moreover from this r assms(2) have "r' = r" by (auto simp: distinct_map dest: inj_onD)
      ultimately show False using r(2) by (simp add: recovery_active)
    qed
    moreover have "lock_holder (toLowerCase w) ls = Some (opr_id r)"
      using assms(1) r unfolding wallet_held_def by (simp add: recovery_active)
    ultimately show ?thesis by (simp add: journal_locks.holder_releases [OF assms(3)])
  qed
  then show ?thesis
    using keeps_recovery unfolding wallet_held_def keeps_key_def by simp
qed

lemma recovery_ids [simp]: "opr_id (recovery_row now r) = opr_id r"
  using keeps_recovery by (simp add: keeps_key_def)

lemma recovery_ids_map [simp]: "map (opr_id \<circ> recovery_row now) ops = map opr_id ops"
  by simp

lemma idem_ok_recover:
  assumes "idem_ok db" "j_idem db' = j_idem db" "j_ops db' = map (recovery_row now) (j_ops db)"
  shows "idem_ok db'"
proof -
  have "sel opr_id k (map (recovery_row now) ops) = map_option (recovery_row now) (sel opr_id k ops)"
    for k ops by (induction ops) (auto simp: sel_def)
  then have get: "getOperation k db' = map_option (recovery_row now) (getOperation k db)" for k
    using assms(3) by (simp add: getOperation_def)
  have "\<exists>r. getOperation i db' = Some r \<and> opr_key r = k \<and> opr_hash r = h"
    if "\<exists>r. getOperation i db = Some r \<and> opr_key r = k \<and> opr_hash r = h" for i k h
    using that keeps_recovery by (auto simp: get keeps_key_def)
  with assms show ?thesis by (simp add: idem_ok_def)
qed

lemma recover_inv:
  assumes "journal_inv db"
  shows "journal_inv (fst (recoverNonTerminalOperations now db))"
proof -
  let ?ids = "map opr_id (filter (\<lambda>r. opr_state r \<in> {OpCreated, OpPrepared, OpReserved}) (j_ops db))"
  let ?db = "fst (recoverNonTerminalOperations now db)"
  have db': "?db = db\<lparr>j_ops := map (recovery_row now) (j_ops db),
      j_wallet_locks := fold lock_release ?ids (j_wallet_locks db),
      j_job_locks := fold lock_release ?ids (j_job_locks db)\<rparr>"
    by (simp only: recoverNonTerminalOperations_def fold_releaseLocks pre_broadcast_ids_def) simp
  have img: "opr_id ` set (map (recovery_row now) (j_ops db)) = opr_id ` set (j_ops db)"
    by (simp add: image_image)
  have d: "distinct (map opr_id (j_ops db))" "locks_distinct (j_wallet_locks db)"
    using assms by (simp_all add: journal_inv_def keys_ok_def)
  have k: "keys_ok db" using assms by (simp add: journal_inv_def)
  have w: "j_wallet_locks ?db = fold lock_release ?ids (j_wallet_locks db)"
    and j: "j_job_locks ?db = fold lock_release ?ids (j_job_locks db)"
    by (subst db', simp)+
  have locks: "locks_distinct (j_wallet_locks ?db)" "locks_distinct (j_job_locks ?db)"
    using k unfolding w j keys_ok_def by (blast intro: journal_locks.wf_releases)+
  have same: "map opr_id (j_ops ?db) = map opr_id (j_ops db)" "j_idem ?db = j_idem db"
    unfolding db' by simp_all
  have "keys_ok ?db"
    using k locks unfolding keys_ok_def same by blast
  moreover have "idem_ok ?db"
  proof (rule idem_ok_recover [of db ?db now])
    show "idem_ok db" using assms by (simp add: journal_inv_def)
  qed (subst db', simp)+
  moreover have "live_holder (j_ops ?db) (j_wallet_locks ?db)" "live_holder (j_ops ?db) (j_job_locks ?db)"
    using assms live_holder_recover d unfolding journal_inv_def db' by simp_all
  moreover have "wallet_held (j_ops ?db) (j_wallet_locks ?db)"
    using assms wallet_held_recover d unfolding journal_inv_def db' by simp
  moreover have "refs_ok ?db"
    using assms img unfolding journal_inv_def refs_ok_def db' by simp
  ultimately show ?thesis by (simp add: journal_inv_def)
qed

section \<open>Creation\<close>

lemma insert_inv:
  assumes inv: "journal_inv db" and ins: "insertOperation r locks db = Inr (db', res)"
    and new: "\<forall>i\<in>set (j_idem db). idr_key i \<noteq> or_key r"
    and free: "wallet_lock_conflict locks db = None" "job_lock_conflict locks db = None"
    and wallet: "lq_wallet locks = or_wallet r" and st: "\<not> isTerminalOperationState (or_state r)"
  shows "journal_inv db' \<and> res = CreateOk (or_id r)"
proof -
  let ?row = "row_of_record r"
  have fresh: "or_id r \<notin> opr_id ` set (j_ops db)"
    and comp: "compositeKey (or_key r) (or_hash r) \<notin> idr_composite ` set (j_idem db)"
    using ins by (auto simp: insertOperation_def Let_def simp flip: sel_None_iff split: if_splits)
  have ops: "j_ops db' = j_ops db @ [?row]"
    and idem: "j_idem db' = j_idem db @ [\<lparr>idr_composite = compositeKey (or_key r) (or_hash r),
        idr_op = or_id r, idr_key = or_key r, idr_hash = or_hash r\<rparr>]"
    and rest: "j_results db' = j_results db" "j_receipts db' = j_receipts db"
    and res: "res = CreateOk (or_id r)"
    using ins by (auto simp: insertOperation_def Let_def split: if_splits)
  have act: "active ?row" "opr_id ?row = or_id r" "opr_wallet ?row = or_wallet r"
    using st by (simp_all add: active_def row_of_record_def)
  have wl: "j_wallet_locks db' = (if truthy (or_wallet r)
      then lock_acquire (toLowerCase (the (or_wallet r))) (or_id r) (j_wallet_locks db)
      else j_wallet_locks db)"
    using ins wallet by (auto simp: insertOperation_def Let_def split: if_splits option.splits)
  have jl: "j_job_locks db' = (if truthy (lq_job locks)
      then lock_acquire (the (lq_job locks)) (or_id r) (j_job_locks db) else j_job_locks db)"
    using ins by (auto simp: insertOperation_def Let_def split: if_splits option.splits)
  have wfree: "truthy (or_wallet r) \<Longrightarrow>
      lock_holder (toLowerCase (the (or_wallet r))) (j_wallet_locks db) = None"
    using free(1) wallet by (auto simp: wallet_lock_conflict_def split: if_splits)
  have jfree: "truthy (lq_job locks) \<Longrightarrow> lock_holder (the (lq_job locks)) (j_job_locks db) = None"
    using free(2) by (auto simp: job_lock_conflict_def split: if_splits)
  have keys: "keys_ok db'"
    using inv fresh comp new wfree jfree act(2)
    unfolding journal_inv_def keys_ok_def ops idem wl jl
    by (auto simp: journal_locks.wf_acquire)
  have get: "getOperation k db' = (case getOperation k db of Some q \<Rightarrow> Some q
      | None \<Rightarrow> if or_id r = k then Some ?row else None)" for k
    by (simp add: getOperation_def ops sel_append sel_Cons sel_Nil act(2) split: option.split)
  have "\<exists>q. getOperation (idr_op i) db' = Some q \<and> opr_key q = idr_key i \<and> opr_hash q = idr_hash i"
    if "i \<in> set (j_idem db)" for i
    using inv that unfolding journal_inv_def idem_ok_def get by force
  moreover have "getOperation (or_id r) db' = Some ?row"
    using fresh unfolding get by (simp add: getOperation_def sel_None_iff [THEN iffD2])
  ultimately have "idem_ok db'"
    using inv unfolding journal_inv_def idem_ok_def idem ops
    by (simp add: act(2)) (auto simp: row_of_record_def)
  moreover have hold: "live_holder (j_ops db') ls'"
    if "live_holder (j_ops db) ls" "set ls' \<subseteq> set ls \<union> {l. lkr_op l = or_id r}" for ls ls'
    using that act unfolding live_holder_def ops by fastforce
  have "live_holder (j_ops db') (j_wallet_locks db')"
    by (rule hold [of "j_wallet_locks db"]) (use inv in \<open>auto simp: journal_inv_def wl lock_acquire_def\<close>)
  moreover have "live_holder (j_ops db') (j_job_locks db')"
    by (rule hold [of "j_job_locks db"]) (use inv in \<open>auto simp: journal_inv_def jl lock_acquire_def\<close>)
  moreover have "wallet_held (j_ops db') (j_wallet_locks db')"
  proof -
    have "lock_holder (toLowerCase w) (j_wallet_locks db') = Some (opr_id q)"
      if q: "q \<in> set (j_ops db)" "active q" "opr_wallet q = Some w" "w \<noteq> []" for q w
    proof -
      have "lock_holder (toLowerCase w) (j_wallet_locks db) = Some (opr_id q)"
        using inv q unfolding journal_inv_def wallet_held_def by blast
      then show ?thesis
        unfolding wl using wfree by (auto simp: journal_locks.holder_acquire)
    qed
    moreover have "lock_holder (toLowerCase w) (j_wallet_locks db') = Some (or_id r)"
      if "or_wallet r = Some w" "w \<noteq> []" for w
      using that wfree unfolding wl by (simp add: journal_locks.holder_acquire)
    ultimately show ?thesis
      unfolding wallet_held_def ops using act by auto
  qed
  moreover have "refs_ok db'"
    using inv unfolding journal_inv_def refs_ok_def ops rest by auto
  ultimately show ?thesis using keys res by (simp add: journal_inv_def)
qed

lemma create_cases:
  assumes "createOperationWithLocks r locks db = Inr (db', res)"
  obtains (stays) "db' = db" "\<forall>op. res \<noteq> CreateOk op"
  | (inserted) "insertOperation r locks db = Inr (db', res)" "\<forall>i\<in>set (j_idem db). idr_key i \<noteq> or_key r"
      "wallet_lock_conflict locks db = None" "job_lock_conflict locks db = None"
  using assms unfolding createOperationWithLocks_def
  by (auto simp: find_None_iff split: option.splits)

lemma create_inv:
  assumes "journal_inv db" "createOperationWithLocks r locks db = Inr (db', res)"
    "lq_wallet locks = or_wallet r" "\<not> isTerminalOperationState (or_state r)"
  shows "journal_inv db'"
  using assms(2)
proof (cases rule: create_cases)
  case inserted
  with assms show ?thesis using insert_inv by blast
qed (use assms in simp)

end
