(* ===== verification/Ttl_Stores.thy ===== *)
theory Ttl_Stores
  imports Js_Strings
begin

text \<open>
  The two in-memory stores with a time to live: \<open>NonceStore\<close>
  (\<open>runner-core/src/nonce-store.ts\<close>), which stops the replay of a signed request, and
  \<open>TaskIdempotencyStore\<close> (\<open>task-idempotency.ts\<close>), which stops a task from being
  dispatched twice. Times are milliseconds; each operation reads the clock once
  (\<open>now\<close>). Both are instances of the locale \<open>ttl_guard\<close>, where replay protection
  over whole runs is proved once.
\<close>

section \<open>NonceStore\<close>

record nonce_entry =
  ne_nonce :: string
  ne_runner :: string
  ne_expires :: nat

record nonce_store =
  ns_entries :: "(string \<times> nonce_entry) list"
  ns_ttl :: nat

definition DEFAULT_NONCE_TTL_MS :: nat where
  "DEFAULT_NONCE_TTL_MS = 300000"

definition new_nonce_store :: "nat \<Rightarrow> nonce_store" where
  "new_nonce_store ttl = \<lparr>ns_entries = [], ns_ttl = ttl\<rparr>"

definition nonce_buildKey :: "string \<Rightarrow> string \<Rightarrow> string" where
  "nonce_buildKey nonce runnerId = runnerId @ '':'' @ nonce"

definition nonce_checkAndMark ::
  "nat \<Rightarrow> string \<Rightarrow> string \<Rightarrow> nonce_store \<Rightarrow> nonce_store result" where
  "nonce_checkAndMark now nonce runnerId st =
     (let key = nonce_buildKey nonce runnerId;
          existing = map_of (ns_entries st) key
      in case existing of
           Some e \<Rightarrow>
             if now < ne_expires e then
               Inl (RunnerError ''NONCE_REPLAY''
                 (''Nonce '' @ take 8 nonce @ ''... already used (replay detected)'') 409)
             else Inr (st\<lparr>ns_entries := jsmap_set key
                 \<lparr>ne_nonce = nonce, ne_runner = runnerId, ne_expires = now + ns_ttl st\<rparr>
                 (ns_entries st)\<rparr>)
         | None \<Rightarrow> Inr (st\<lparr>ns_entries := jsmap_set key
                 \<lparr>ne_nonce = nonce, ne_runner = runnerId, ne_expires = now + ns_ttl st\<rparr>
                 (ns_entries st)\<rparr>))"

definition nonce_has :: "nat \<Rightarrow> string \<Rightarrow> string \<Rightarrow> nonce_store \<Rightarrow> bool" where
  "nonce_has now nonce runnerId st =
     (case map_of (ns_entries st) (nonce_buildKey nonce runnerId) of
        None \<Rightarrow> False | Some e \<Rightarrow> now < ne_expires e)"

definition nonce_cleanup :: "nat \<Rightarrow> nonce_store \<Rightarrow> nonce_store" where
  "nonce_cleanup now st =
     st\<lparr>ns_entries := filter (\<lambda>(k, e). \<not> ne_expires e \<le> now) (ns_entries st)\<rparr>"

definition nonce_size :: "nonce_store \<Rightarrow> nat" where
  "nonce_size st = length (ns_entries st)"

definition nonce_destroy :: "nonce_store \<Rightarrow> nonce_store" where
  "nonce_destroy st = st\<lparr>ns_entries := []\<rparr>"

section \<open>TaskIdempotencyStore\<close>

datatype task_status = TaskPending | TaskCompleted | TaskFailed

fun task_status_name :: "task_status \<Rightarrow> string" where
  "task_status_name TaskPending = ''pending''"
| "task_status_name TaskCompleted = ''completed''"
| "task_status_name TaskFailed = ''failed''"

record task_entry =
  te_task :: string
  te_status :: task_status
  te_created :: nat
  te_expires :: nat

record task_store =
  ts_entries :: "(string \<times> task_entry) list"
  ts_ttl :: nat

definition DEFAULT_TASK_IDEMPOTENCY_TTL_MS :: nat where
  "DEFAULT_TASK_IDEMPOTENCY_TTL_MS = 86400000"

definition new_task_store :: "nat \<Rightarrow> task_store" where
  "new_task_store ttl = \<lparr>ts_entries = [], ts_ttl = ttl\<rparr>"

definition task_buildKey :: "string \<Rightarrow> string \<Rightarrow> string" where
  "task_buildKey taskId agentId = agentId @ '':'' @ taskId"

definition task_checkAndMark ::
  "nat \<Rightarrow> string \<Rightarrow> string \<Rightarrow> task_store \<Rightarrow> task_store result" where
  "task_checkAndMark now taskId agentId st =
     (let key = task_buildKey taskId agentId;
          fresh = st\<lparr>ts_entries := jsmap_set key
            \<lparr>te_task = taskId, te_status = TaskPending, te_created = now,
             te_expires = now + ts_ttl st\<rparr> (ts_entries st)\<rparr>
      in case map_of (ts_entries st) key of
           Some e \<Rightarrow>
             if now < te_expires e then
               Inl (RunnerError ''DUPLICATE_TASK''
                 (''Task '' @ taskId @ '' already dispatched (status: ''
                   @ task_status_name (te_status e) @ '')'') 409)
             else Inr fresh
         | None \<Rightarrow> Inr fresh)"

definition task_mark ::
  "task_status \<Rightarrow> string \<Rightarrow> string \<Rightarrow> task_store \<Rightarrow> task_store" where
  "task_mark status taskId agentId st =
     (let key = task_buildKey taskId agentId
      in case map_of (ts_entries st) key of
           None \<Rightarrow> st
         | Some e \<Rightarrow> st\<lparr>ts_entries := jsmap_set key (e\<lparr>te_status := status\<rparr>) (ts_entries st)\<rparr>)"

definition markCompleted :: "string \<Rightarrow> string \<Rightarrow> task_store \<Rightarrow> task_store" where
  "markCompleted = task_mark TaskCompleted"

definition markFailed :: "string \<Rightarrow> string \<Rightarrow> task_store \<Rightarrow> task_store" where
  "markFailed = task_mark TaskFailed"

definition task_get :: "nat \<Rightarrow> string \<Rightarrow> string \<Rightarrow> task_store \<Rightarrow> task_entry option" where
  "task_get now taskId agentId st =
     (case map_of (ts_entries st) (task_buildKey taskId agentId) of
        None \<Rightarrow> None | Some e \<Rightarrow> if now < te_expires e then Some e else None)"

definition task_has :: "nat \<Rightarrow> string \<Rightarrow> string \<Rightarrow> task_store \<Rightarrow> bool" where
  "task_has now taskId agentId st = (task_get now taskId agentId st \<noteq> None)"

definition task_cleanup :: "nat \<Rightarrow> task_store \<Rightarrow> task_store" where
  "task_cleanup now st =
     st\<lparr>ts_entries := filter (\<lambda>(k, e). \<not> te_expires e \<le> now) (ts_entries st)\<rparr>"

definition task_size :: "task_store \<Rightarrow> nat" where
  "task_size st = length (ts_entries st)"

definition task_destroy :: "task_store \<Rightarrow> task_store" where
  "task_destroy st = st\<lparr>ts_entries := []\<rparr>"

section \<open>Events on a store\<close>

text \<open>
  What a running process does to a store between two requests: other requests are checked
  (a rejected one leaves the store as it is), statuses change, and the timer cleans up.
\<close>

datatype nonce_event = NonceMark nat string string | NonceCleanup nat

fun nonce_time :: "nonce_event \<Rightarrow> nat" where
  "nonce_time (NonceMark now n r) = now"
| "nonce_time (NonceCleanup now) = now"

fun nonce_apply :: "nonce_event \<Rightarrow> nonce_store \<Rightarrow> nonce_store" where
  "nonce_apply (NonceMark now n r) st =
     (case nonce_checkAndMark now n r st of Inl e \<Rightarrow> st | Inr st' \<Rightarrow> st')"
| "nonce_apply (NonceCleanup now) st = nonce_cleanup now st"

datatype task_event =
  TaskMark nat string string | TaskDone nat string string | TaskFail nat string string
  | TaskCleanup nat

fun task_time :: "task_event \<Rightarrow> nat" where
  "task_time (TaskMark now t a) = now"
| "task_time (TaskDone now t a) = now"
| "task_time (TaskFail now t a) = now"
| "task_time (TaskCleanup now) = now"

fun task_apply :: "task_event \<Rightarrow> task_store \<Rightarrow> task_store" where
  "task_apply (TaskMark now t a) st =
     (case task_checkAndMark now t a st of Inl e \<Rightarrow> st | Inr st' \<Rightarrow> st')"
| "task_apply (TaskDone now t a) st = markCompleted t a st"
| "task_apply (TaskFail now t a) st = markFailed t a st"
| "task_apply (TaskCleanup now) st = task_cleanup now st"

section \<open>The contract of a replay guard\<close>

locale ttl_guard =
  fixes mark :: "nat \<Rightarrow> string \<Rightarrow> string \<Rightarrow> 's \<Rightarrow> 's result"
    and live :: "nat \<Rightarrow> string \<Rightarrow> string \<Rightarrow> 's \<Rightarrow> bool"
    and ttl :: "'s \<Rightarrow> nat"
    and apply_ev :: "'ev \<Rightarrow> 's \<Rightarrow> 's"
    and time :: "'ev \<Rightarrow> nat"
  assumes mark_iff: "(\<exists>s'. mark now i w s = Inr s') \<longleftrightarrow> \<not> live now i w s"
    and mark_live: "mark now i w s = Inr s' \<Longrightarrow> t < now + ttl s \<Longrightarrow> live t i w s'"
    and apply_keeps: "time ev \<le> t \<Longrightarrow> live t i w s \<Longrightarrow> live t i w (apply_ev ev s)"
begin

lemma run_keeps:
  "\<forall>ev\<in>set evs. time ev \<le> t \<Longrightarrow> live t i w s \<Longrightarrow> live t i w (fold apply_ev evs s)"
  by (induction evs arbitrary: s) (auto intro: apply_keeps)

lemma marked_once:
  assumes "mark now i w s = Inr s'" "t < now + ttl s" "\<forall>ev\<in>set evs. time ev \<le> t"
  shows "\<exists>e. mark t i w (fold apply_ev evs s') = Inl e"
proof -
  have "live t i w (fold apply_ev evs s')"
    using run_keeps mark_live assms by blast
  then have "\<nexists>s''. mark t i w (fold apply_ev evs s') = Inr s''"
    using mark_iff by blast
  then show ?thesis by (cases "mark t i w (fold apply_ev evs s')") auto
qed

end

lemma map_of_filter_live:
  "distinct (map fst m) \<Longrightarrow>
   map_of (filter (\<lambda>(k, e). P e) m) k =
     (case map_of m k of Some e \<Rightarrow> if P e then Some e else None | None \<Rightarrow> None)"
  by (induction m) (auto simp: map_of_eq_None_iff split: option.splits)

lemma map_of_filter_keep:
  "map_of m k = Some e \<Longrightarrow> P e \<Longrightarrow> map_of (filter (\<lambda>(k, e). P e) m) k = Some e"
  by (induction m) (auto split: if_splits)

lemma nonce_has_iff:
  "nonce_has now n r st \<longleftrightarrow>
     (\<exists>e. map_of (ns_entries st) (nonce_buildKey n r) = Some e \<and> now < ne_expires e)"
  by (auto simp: nonce_has_def split: option.splits)

lemma task_has_iff:
  "task_has now t a st \<longleftrightarrow>
     (\<exists>e. map_of (ts_entries st) (task_buildKey t a) = Some e \<and> now < te_expires e)"
  by (auto simp: task_has_def task_get_def split: option.splits)

lemma nonce_mark_iff: "(\<exists>st'. nonce_checkAndMark now n r st = Inr st') \<longleftrightarrow> \<not> nonce_has now n r st"
  by (auto simp: nonce_has_iff nonce_checkAndMark_def Let_def split: option.splits)

lemma nonce_mark_entries:
  "nonce_checkAndMark now n r st = Inr st' \<Longrightarrow>
     map_of (ns_entries st') = (map_of (ns_entries st))(nonce_buildKey n r \<mapsto>
       \<lparr>ne_nonce = n, ne_runner = r, ne_expires = now + ns_ttl st\<rparr>) \<and> ns_ttl st' = ns_ttl st"
  by (auto simp: nonce_checkAndMark_def Let_def split: option.splits if_splits)

lemma nonce_apply_keeps:
  "nonce_time ev \<le> t \<Longrightarrow> nonce_has t n r st \<Longrightarrow> nonce_has t n r (nonce_apply ev st)"
proof (induction ev st rule: nonce_apply.induct)
  case (1 now n' r' st)
  show ?case
  proof (cases "nonce_checkAndMark now n' r' st")
    case (Inr st')
    have "\<not> nonce_has now n' r' st" using Inr nonce_mark_iff by blast
    with 1 nonce_mark_entries [OF Inr] show ?thesis
      by (auto simp: Inr nonce_has_iff)
  qed (use 1 in simp)
next
  case (2 now st)
  then show ?case
    by (auto simp: nonce_has_iff nonce_cleanup_def dest: map_of_filter_keep [where P = "\<lambda>e. \<not> ne_expires e \<le> now"])
qed

interpretation nonces: ttl_guard nonce_checkAndMark nonce_has ns_ttl nonce_apply nonce_time
proof unfold_locales
  show "nonce_checkAndMark now i w s = Inr s' \<Longrightarrow> t < now + ns_ttl s \<Longrightarrow> nonce_has t i w s'"
    for now i w s s' t
    by (drule nonce_mark_entries) (auto simp: nonce_has_iff)
qed (auto simp: nonce_mark_iff nonce_apply_keeps)

lemma task_mark_iff: "(\<exists>st'. task_checkAndMark now t a st = Inr st') \<longleftrightarrow> \<not> task_has now t a st"
  by (auto simp: task_has_iff task_checkAndMark_def Let_def split: option.splits)

lemma task_mark_entries:
  "task_checkAndMark now t a st = Inr st' \<Longrightarrow>
     map_of (ts_entries st') = (map_of (ts_entries st))(task_buildKey t a \<mapsto>
       \<lparr>te_task = t, te_status = TaskPending, te_created = now, te_expires = now + ts_ttl st\<rparr>)
     \<and> ts_ttl st' = ts_ttl st"
  by (auto simp: task_checkAndMark_def Let_def split: option.splits if_splits)

lemma task_mark_has [simp]: "task_has now t a (task_mark s t' a' st) = task_has now t a st"
  by (auto simp: task_has_iff task_mark_def Let_def split: option.splits)

lemma task_apply_keeps:
  "task_time ev \<le> u \<Longrightarrow> task_has u t a st \<Longrightarrow> task_has u t a (task_apply ev st)"
proof (induction ev st rule: task_apply.induct)
  case (1 now t' a' st)
  show ?case
  proof (cases "task_checkAndMark now t' a' st")
    case (Inr st')
    have "\<not> task_has now t' a' st" using Inr task_mark_iff by blast
    with 1 task_mark_entries [OF Inr] show ?thesis
      by (auto simp: Inr task_has_iff)
  qed (use 1 in simp)
next
  case (4 now st)
  then show ?case
    by (auto simp: task_has_iff task_cleanup_def dest: map_of_filter_keep [where P = "\<lambda>e. \<not> te_expires e \<le> now"])
qed (simp_all add: markCompleted_def markFailed_def)

interpretation tasks: ttl_guard task_checkAndMark task_has ts_ttl task_apply task_time
proof unfold_locales
  show "task_checkAndMark now i w s = Inr s' \<Longrightarrow> t < now + ts_ttl s \<Longrightarrow> task_has t i w s'"
    for now i w s s' t
    by (drule task_mark_entries) (auto simp: task_has_iff)
qed (auto simp: task_mark_iff task_apply_keeps)

end
