(* ===== verification/Usdc.thy ===== *)
theory Usdc
  imports Js_Strings
begin

text \<open>
  USDC amounts travel as decimal text and are compared as integers of 6 decimals. The
  repository has three parsers, \<open>decimalToMicros\<close> (\<open>runner-core/src/policy.ts\<close>),
  \<open>usdcToMicros\<close> (\<open>arclayer-runner/src/spend-policy.ts\<close>) and
  \<open>parseUsdcToAtomic\<close> (\<open>runner-core/src/job-envelope.ts\<close>), two printers, and two
  range checks of the job envelope's schema. Bigints are \<open>int\<close>. The locale
  \<open>usdc_parser\<close> is the contract all three parsers keep on well-formed amounts.
\<close>

section \<open>Amount formats\<close>

definition usdc_format :: "string \<Rightarrow> bool" where
  \<comment> \<open>\<open>/^\d+(\.\d{1,6})?$/\<close>\<close>
  "usdc_format s =
     (case split_on CHR ''.'' s of
        [w] \<Rightarrow> all_digits w
      | [w, f] \<Rightarrow> all_digits w \<and> all_digits f \<and> length f \<le> 6
      | _ \<Rightarrow> False)"

definition amount_format :: "string \<Rightarrow> bool" where
  \<comment> \<open>\<open>/^[0-9]+(\.[0-9]+)?$/\<close>, the schema of \<open>maxAmountUsdc\<close>\<close>
  "amount_format s =
     (case split_on CHR ''.'' s of
        [w] \<Rightarrow> all_digits w
      | [w, f] \<Rightarrow> all_digits w \<and> all_digits f
      | _ \<Rightarrow> False)"

definition whole_part :: "string \<Rightarrow> string" where
  "whole_part s = hd (split_on CHR ''.'' s)"

definition frac_part :: "string \<Rightarrow> string" where
  \<comment> \<open>the second element of \<open>split(".")\<close>, \<open>""\<close> when there is none\<close>
  "frac_part s = (case split_on CHR ''.'' s of _ # f # _ \<Rightarrow> f | _ \<Rightarrow> [])"

section \<open>Parsers\<close>

definition pad_frac :: "string \<Rightarrow> string" where
  \<comment> \<open>\<open>`${f}000000`.slice(0, 6)\<close>\<close>
  "pad_frac f = take 6 (f @ ''000000'')"

text \<open>A \<open>SyntaxError\<close> of \<open>BigInt\<close> is \<open>None\<close>.\<close>

definition decimalToMicros :: "string \<Rightarrow> int option" where
  "decimalToMicros amount =
     (let whole = whole_part amount; frac = frac_part amount;
          fracPadded = pad_frac frac
      in case BigInt (if whole = [] then ''0'' else whole) of
           None \<Rightarrow> None
         | Some w \<Rightarrow>
             (case BigInt (if fracPadded = [] then ''0'' else fracPadded) of
                None \<Rightarrow> None
              | Some f \<Rightarrow> Some (w * 1000000 + f)))"

definition usdcToMicros :: "string option \<Rightarrow> int result" where
  "usdcToMicros value =
     (case value of
        None \<Rightarrow> Inr 0
      | Some v \<Rightarrow>
          if v = [] then Inr 0
          else
            let raw = trim v in
            if \<not> usdc_format raw then
              Inl (RunnerError ''INVALID_USDC_AMOUNT'' (''Invalid USDC amount: '' @ raw) 400)
            else Inr (int (digits_val (whole_part raw)) * 1000000
                      + int (digits_val (pad_frac (frac_part raw)))))"

definition parseUsdcToAtomic :: "string \<Rightarrow> string + int" where
  "parseUsdcToAtomic value =
     (if \<not> usdc_format value then Inl (''Invalid USDC amount: '' @ value)
      else Inr (int (digits_val (whole_part value)) * 1000000
                + int (digits_val (padEnd0 6 (frac_part value)))))"

lemma BigInt_int_str: "0 \<le> m \<Longrightarrow> BigInt (int_str m) = Some m"
  by (simp add: int_str_def nat_str_digits)

lemma int_str_ne [simp]: "int_str i \<noteq> []"
  by (simp add: int_str_def)

section \<open>Printers\<close>

text \<open>Bigint division and remainder truncate towards zero.\<close>

definition bigint_div :: "int \<Rightarrow> int \<Rightarrow> int" where
  "bigint_div a b = sgn a * sgn b * (\<bar>a\<bar> div \<bar>b\<bar>)"

definition bigint_mod :: "int \<Rightarrow> int \<Rightarrow> int" where
  "bigint_mod a b = a - b * bigint_div a b"

definition microsToUsdc :: "int \<Rightarrow> string" where
  "microsToUsdc value =
     int_str (bigint_div value 1000000) @ ''.''
       @ padStart0 6 (int_str (bigint_mod value 1000000))"

definition strip_zeros :: "string \<Rightarrow> string" where
  \<comment> \<open>\<open>.replace(/0+$/, "")\<close>\<close>
  "strip_zeros s = rev (dropWhile (\<lambda>c. c = CHR ''0'') (rev s))"

definition atomicToUsdc :: "int \<Rightarrow> string" where
  "atomicToUsdc atomic =
     (let intPart = bigint_div atomic 1000000; fracPart = bigint_mod atomic 1000000
      in if fracPart = 0 then int_str intPart
         else int_str intPart @ ''.'' @ strip_zeros (padStart0 6 (int_str fracPart)))"

section \<open>Range checks of the job envelope\<close>

definition valid_budget :: "string \<Rightarrow> bool" where
  "valid_budget v =
     (if \<not> usdc_format v then False
      else if length (whole_part v) > 7 then False
      else
        let atomic = int (digits_val (whole_part v)) * 1000000
                     + int (digits_val (padEnd0 6 (frac_part v)))
        in 0 < atomic \<and> atomic \<le> 1000000000000)"

definition valid_max_spend :: "string \<Rightarrow> bool" where
  "valid_max_spend v =
     (if \<not> usdc_format v then False
      else
        let atomic = int (digits_val (whole_part v)) * 1000000
                     + int (digits_val (padEnd0 6 (frac_part v)))
        in 0 \<le> atomic \<and> atomic \<le> 10000000000)"

lemmas [js_defs] = usdc_format_def amount_format_def whole_part_def frac_part_def pad_frac_def
  decimalToMicros_def usdcToMicros_def parseUsdcToAtomic_def bigint_div_def bigint_mod_def
  microsToUsdc_def strip_zeros_def atomicToUsdc_def valid_budget_def valid_max_spend_def

section \<open>The value of an amount\<close>

definition usdc_value :: "string \<Rightarrow> int" where
  "usdc_value s = int (digits_val (whole_part s)) * 1000000
                  + int (digits_val (frac_part s)) * 10 ^ (6 - length (frac_part s))"

lemma usdc_formatE:
  assumes "usdc_format s"
  obtains "split_on CHR ''.'' s = [s]" "whole_part s = s" "frac_part s = []" "all_digits s"
  | w f where "s = w @ CHR ''.'' # f" "whole_part s = w" "frac_part s = f"
      "all_digits w" "all_digits f" "length f \<le> 6"
proof -
  have join: "split_on CHR ''.'' s = ps \<Longrightarrow>
      s = (case ps of [w] \<Rightarrow> w | [w, f] \<Rightarrow> w @ CHR ''.'' # f | _ \<Rightarrow> s)" for ps
  proof (induction s arbitrary: ps)
    case (Cons c s)
    from Cons.IH [OF refl] Cons.prems show ?case
      by (auto split: list.splits if_splits)
  qed auto
  from assms join [OF refl] show thesis
    by (auto simp: usdc_format_def whole_part_def frac_part_def
        split: list.splits intro: that)
qed

lemma usdc_format_amount_format: "usdc_format s \<Longrightarrow> amount_format s"
  by (auto simp: usdc_format_def amount_format_def split: list.splits)

lemma usdc_format_chars:
  assumes "usdc_format s"
  shows "s \<noteq> [] \<and> (\<forall>c\<in>set s. is_digit c \<or> c = CHR ''.'')"
  using assms by (cases rule: usdc_formatE) (auto simp: all_digits_def list_all_iff)

lemma trim_usdc: "usdc_format s \<Longrightarrow> trim s = s"
proof -
  assume f: "usdc_format s"
  have "\<not> is_space CHR ''.''" by (simp add: is_space_def code_def)
  with usdc_format_chars [OF f] have "\<forall>c\<in>set s. \<not> is_space c"
    by (auto dest: is_digit_not_space)
  then show "trim s = s" by (rule trim_no_space)
qed

lemma pad_frac_short: "length f \<le> 6 \<Longrightarrow> pad_frac f = padEnd0 6 f"
proof -
  assume "length f \<le> 6"
  moreover have "take n ''000000'' = replicate n CHR ''0''" if "n \<le> 6" for n
  proof -
    have "''000000'' = replicate 6 CHR ''0''" by (simp add: numeral_eq_Suc)
    with that show ?thesis by (metis min.absorb1 take_replicate)
  qed
  ultimately show ?thesis by (simp add: pad_frac_def padEnd0_def)
qed

lemma padEnd0_value [simp]:
  "digits_val (padEnd0 n f) = digits_val f * 10 ^ (n - length f)"
  by (simp add: padEnd0_def digits_val_append)

lemma padEnd0_digits: "list_all is_digit f \<Longrightarrow> list_all is_digit (padEnd0 n f)"
  by (auto simp: padEnd0_def list_all_iff)

lemma frac_length: "usdc_format s \<Longrightarrow> length (frac_part s) \<le> 6"
  by (erule usdc_formatE) auto

lemma frac_digits: "usdc_format s \<Longrightarrow> list_all is_digit (frac_part s)"
  by (erule usdc_formatE) (auto simp: all_digits_def)

lemma whole_digits: "usdc_format s \<Longrightarrow> all_digits (whole_part s)"
  by (erule usdc_formatE) auto

lemma parse_value: "usdc_format s \<Longrightarrow> parseUsdcToAtomic s = Inr (usdc_value s)"
  by (simp add: parseUsdcToAtomic_def usdc_value_def)

lemma usdcToMicros_value: "usdc_format s \<Longrightarrow> usdcToMicros (Some s) = Inr (usdc_value s)"
  using usdc_format_chars [of s] frac_length [of s]
  by (simp add: usdcToMicros_def usdc_value_def trim_usdc pad_frac_short Let_def)

lemma decimal_value: "usdc_format s \<Longrightarrow> decimalToMicros s = Some (usdc_value s)"
proof -
  assume f: "usdc_format s"
  have ne: "padEnd0 6 (frac_part s) \<noteq> []"
    using frac_length [OF f] by (cases "frac_part s") (auto simp: padEnd0_def)
  from whole_digits [OF f] have "whole_part s \<noteq> []" "list_all is_digit (whole_part s)"
    by (auto simp: all_digits_def)
  with ne frac_length [OF f] padEnd0_digits [OF frac_digits [OF f], of 6] show ?thesis
    by (simp add: decimalToMicros_def Let_def pad_frac_short usdc_value_def)
qed

lemma usdc_value_nonneg: "0 \<le> usdc_value s"
  by (simp add: usdc_value_def)

section \<open>Printing and parsing back\<close>

lemma bigint_div_nonneg: "0 \<le> a \<Longrightarrow> 0 < b \<Longrightarrow> bigint_div a b = a div b"
  by (cases "a = 0") (simp_all add: bigint_div_def)

lemma bigint_mod_nonneg: "0 \<le> a \<Longrightarrow> 0 < b \<Longrightarrow> bigint_mod a b = a mod b"
  by (simp add: bigint_mod_def bigint_div_nonneg minus_mult_div_eq_mod)

lemma int_str_nonneg: "0 \<le> i \<Longrightarrow> int_str i = nat_str (nat i)"
  by (simp add: int_str_def)

lemma split_amount:
  assumes "all_digits w" "all_digits f"
  shows "split_on CHR ''.'' (w @ CHR ''.'' # f) = [w, f]"
  using assms digits_no_dot
  by (simp add: split_on_append split_on_no_sep all_digits_def)

lemma amount_parts:
  assumes "all_digits w" "all_digits f" "length f \<le> 6"
  shows "usdc_format (w @ CHR ''.'' # f)"
    and "usdc_value (w @ CHR ''.'' # f)
         = int (digits_val w) * 1000000 + int (digits_val f) * 10 ^ (6 - length f)"
  using assms by (simp_all add: usdc_format_def usdc_value_def whole_part_def frac_part_def
      split_amount)

lemma whole_amount:
  assumes "all_digits w"
  shows "usdc_format w" and "usdc_value w = int (digits_val w) * 1000000"
proof -
  from assms have "split_on CHR ''.'' w = [w]"
    by (auto simp: all_digits_def dest: digits_no_dot intro: split_on_no_sep)
  with assms show "usdc_format w" "usdc_value w = int (digits_val w) * 1000000"
    by (simp_all add: usdc_format_def usdc_value_def whole_part_def frac_part_def)
qed

lemma frac_text:
  fixes k :: nat
  assumes "k < 1000000"
  defines "f \<equiv> padStart0 6 (nat_str k)"
  shows "all_digits f" "length f = 6" "digits_val f = k"
proof -
  have "length (nat_str k) \<le> 6"
    using length_nat_str_le [of k 6] assms(1) by simp
  then show len: "length f = 6" by (simp add: f_def length_padStart0)
  show "all_digits f"
    using len padStart0_digits [OF nat_str_digits, of 6 k] by (auto simp: all_digits_def f_def)
  show "digits_val f = k" by (simp add: f_def)
qed

lemma strip_zeros_split:
  obtains k where "f = strip_zeros f @ replicate k CHR ''0''"
proof -
  have "rev f = takeWhile (\<lambda>c. c = CHR ''0'') (rev f) @ dropWhile (\<lambda>c. c = CHR ''0'') (rev f)"
    by simp
  then have "f = strip_zeros f @ rev (takeWhile (\<lambda>c. c = CHR ''0'') (rev f))"
    unfolding strip_zeros_def by (metis rev_append rev_rev_ident)
  moreover have "takeWhile (\<lambda>c. c = CHR ''0'') xs
      = replicate (length (takeWhile (\<lambda>c. c = CHR ''0'') xs)) CHR ''0''" for xs
    by (induction xs) auto
  ultimately show thesis by (metis that rev_replicate)
qed

lemma strip_zeros_text:
  assumes "all_digits f" "length f = 6" "digits_val f \<noteq> 0"
  shows "all_digits (strip_zeros f)" "length (strip_zeros f) \<le> 6"
    "digits_val (strip_zeros f) * 10 ^ (6 - length (strip_zeros f)) = digits_val f"
proof -
  obtain k where k: "f = strip_zeros f @ replicate k CHR ''0''"
    by (rule strip_zeros_split)
  then have len: "6 = length (strip_zeros f) + k"
    using assms(2) by (metis length_append length_replicate)
  have val: "digits_val f = digits_val (strip_zeros f) * 10 ^ k"
    by (subst k) (simp add: digits_val_append)
  have "list_all is_digit (strip_zeros f)"
    using assms(1) by (subst (asm) k) (simp add: all_digits_def)
  moreover from val assms(3) have "strip_zeros f \<noteq> []" by auto
  ultimately show "all_digits (strip_zeros f)" by (simp add: all_digits_def)
  from len val show "length (strip_zeros f) \<le> 6"
    "digits_val (strip_zeros f) * 10 ^ (6 - length (strip_zeros f)) = digits_val f"
    by auto
qed

lemma micros_text:
  assumes "0 \<le> n"
  shows "usdc_format (microsToUsdc n)" "usdc_value (microsToUsdc n) = n"
proof -
  have lt: "nat (n mod 1000000) < 1000000" by (simp add: nat_less_iff)
  note f = frac_text [OF lt]
  have eq: "microsToUsdc n
      = nat_str (nat (n div 1000000)) @ CHR ''.'' # padStart0 6 (nat_str (nat (n mod 1000000)))"
    using assms by (simp add: microsToUsdc_def bigint_div_nonneg bigint_mod_nonneg int_str_nonneg
        pos_imp_zdiv_nonneg_iff)
  from f assms show "usdc_format (microsToUsdc n)" "usdc_value (microsToUsdc n) = n"
    unfolding eq by (simp_all add: amount_parts pos_imp_zdiv_nonneg_iff)
qed

lemma atomic_text:
  assumes "0 \<le> n"
  shows "usdc_format (atomicToUsdc n)" "usdc_value (atomicToUsdc n) = n"
proof -
  have lt: "nat (n mod 1000000) < 1000000" by (simp add: nat_less_iff)
  note f = frac_text [OF lt]
  have div: "0 \<le> n div 1000000" using assms by (simp add: pos_imp_zdiv_nonneg_iff)
  have "usdc_format (atomicToUsdc n) \<and> usdc_value (atomicToUsdc n) = n"
  proof (cases "n mod 1000000 = 0")
    case True
    then have "atomicToUsdc n = nat_str (nat (n div 1000000))"
      using assms div by (simp add: atomicToUsdc_def bigint_div_nonneg bigint_mod_nonneg
          int_str_nonneg)
    with True div show ?thesis by (auto simp: whole_amount)
  next
    case False
    let ?f = "padStart0 6 (nat_str (nat (n mod 1000000)))"
    have eq: "atomicToUsdc n = nat_str (nat (n div 1000000)) @ CHR ''.'' # strip_zeros ?f"
      using assms False div by (simp add: atomicToUsdc_def bigint_div_nonneg bigint_mod_nonneg
          int_str_nonneg)
    have nz: "digits_val ?f \<noteq> 0" using f(3) False by (simp add: nat_eq_iff)
    note st = strip_zeros_text [OF f(1,2) nz]
    let ?w = "nat_str (nat (n div 1000000))"
    have fr: "int (digits_val (strip_zeros ?f)) * 10 ^ (6 - length (strip_zeros ?f))
        = int (digits_val ?f)"
      using arg_cong [OF st(3), of int] by (simp only: of_nat_mult of_nat_power of_nat_numeral)
    have "usdc_value (?w @ CHR ''.'' # strip_zeros ?f)
        = int (digits_val ?w) * 1000000 + int (digits_val ?f)"
      by (simp only: amount_parts(2) [OF all_digits_nat_str st(1,2)] fr)
    also have "\<dots> = n"
      using f(3) div by (simp only: digits_val_nat_str) simp
    finally show ?thesis
      unfolding eq using amount_parts(1) [OF all_digits_nat_str st(1,2)] by blast
  qed
  then show "usdc_format (atomicToUsdc n)" "usdc_value (atomicToUsdc n) = n" by auto
qed

section \<open>The contract of a parser\<close>

locale usdc_parser =
  fixes parse :: "string \<Rightarrow> int option"
  assumes parse_wf: "usdc_format s \<Longrightarrow> parse s = Some (usdc_value s)"
begin

lemma parse_nonneg: "usdc_format s \<Longrightarrow> parse s = Some n \<Longrightarrow> 0 \<le> n"
  by (simp add: parse_wf) (use usdc_value_nonneg in blast)

lemma parse_micros: "0 \<le> n \<Longrightarrow> parse (microsToUsdc n) = Some n"
  by (simp add: parse_wf micros_text)

lemma parse_atomic: "0 \<le> n \<Longrightarrow> parse (atomicToUsdc n) = Some n"
  by (simp add: parse_wf atomic_text)

end

interpretation policy_amount: usdc_parser decimalToMicros
  by unfold_locales (rule decimal_value)

interpretation spend_amount: usdc_parser "\<lambda>s. ok_opt (usdcToMicros (Some s))"
  by unfold_locales (simp add: usdcToMicros_value)

interpretation envelope_amount: usdc_parser "\<lambda>s. ok_opt (parseUsdcToAtomic s)"
  by unfold_locales (simp add: parse_value)

end
