(* ===== verification/Execution_Gateway.thy ===== *)
theory Execution_Gateway
  imports Journal_Invariant
begin

text \<open>
  \<open>ExecutionGateway\<close> (\<open>arclayer-runner/src/execution-gateway.ts\<close>): the single
  boundary for wallet writes. \<open>execute\<close> has one \<open>await\<close>, the wallet call, so it is
  modelled as the part before it (\<open>execute_begin\<close>, which either throws, returns or
  launches the wallet call) and the part after it (\<open>execute_finish\<close>, which takes what
  the wallet call returned or threw). Other requests run in between. The wallet call
  itself, the clock and \<open>randomUUID\<close> are inputs. A throw keeps the state changes made
  before it, so every function returns the new gateway beside its outcome.
\<close>

section \<open>Inputs and results\<close>

record gw_policy =
  gp_action :: string
  gp_method :: string
  gp_amount :: "string option"

record gw_input =
  gi_kind :: string
  gi_key :: string
  gi_hash :: string
  gi_agent :: "string option"
  gi_wallet :: string
  gi_chain :: string
  gi_chainId :: "int option"
  gi_contract :: string
  gi_job :: "string option"
  gi_policy :: "gw_policy option"

text \<open>\<open>WalletExecuteResult\<close>; a missing \<open>json\<close> is \<open>JUndef\<close>.\<close>

record exec_result =
  xr_command :: string
  xr_args :: "string list"
  xr_stdout :: string
  xr_stderr :: string
  xr_json :: json

record exec_error =
  xe_name :: string
  xe_message :: string
  xe_killed :: bool
  xe_sigterm :: bool

record write_result =
  wr_ok :: bool
  wr_op :: string
  wr_state :: operation_state
  wr_tx :: "string option"
  wr_circle :: "exec_result option"
  wr_errcode :: "string option"
  wr_errmsg :: "string option"
  wr_idempotent :: bool

record gateway =
  g_ops :: "(string \<times> operation_record) list"
  g_cache :: "(string \<times> exec_result) list"
  g_index :: "(string \<times> string) list"
  g_journal :: journal

text \<open>The optional \<open>policyGuard\<close> argument: two functions on some policy state.\<close>

record guard_request =
  gq_wallet :: string
  gq_agent :: string
  gq_action :: string
  gq_contract :: string
  gq_method :: string
  gq_amount :: "string option"

record reserve_request =
  rq_wallet :: string
  rq_agent :: string
  rq_action :: string
  rq_amount :: string
  rq_op :: string
  rq_key :: string

record 'p policy_guard =
  assertAllowed :: "nat \<Rightarrow> 'p \<Rightarrow> guard_request \<Rightarrow> unit result"
  reserveSpend :: "nat \<Rightarrow> 'p \<Rightarrow> reserve_request \<Rightarrow> 'p"

section \<open>Result classification\<close>

definition ARC_TESTNET_CHAIN_ID :: int where
  "ARC_TESTNET_CHAIN_ID = 5042002"

definition ARC_TESTNET_CHAIN_NAMES :: "string list" where
  "ARC_TESTNET_CHAIN_NAMES = [''arc-testnet'', ''arc'', ''arctestnet'', ''5042002'']"

definition TERMINAL_SUCCESS_STATES :: "string list" where
  "TERMINAL_SUCCESS_STATES =
     [''CONFIRMED'', ''COMPLETE'', ''COMPLETED'', ''SUCCESS'', ''SUCCEEDED'', ''SENT'']"

definition MAX_RESULT_CACHE_ENTRIES :: int where
  "MAX_RESULT_CACHE_ENTRIES = 1000"

definition MAX_CACHED_STDOUT_BYTES :: int where
  "MAX_CACHED_STDOUT_BYTES = 64 * 1024"

definition truncateText :: "string \<Rightarrow> int \<Rightarrow> string" where
  "truncateText v maxBytes =
     (if int (length v) \<le> maxBytes then v else take (nat maxBytes) v @ CHR 0x0A # ''...[truncated]'')"

definition compactCircleResult :: "exec_result \<Rightarrow> exec_result" where
  "compactCircleResult r =
     r\<lparr>xr_stdout := truncateText (xr_stdout r) MAX_CACHED_STDOUT_BYTES,
       xr_stderr := truncateText (xr_stderr r) MAX_CACHED_STDOUT_BYTES\<rparr>"

definition resolveChainId :: "string \<Rightarrow> int option \<Rightarrow> int result" where
  "resolveChainId chain chainId =
     (case chainId of
        Some i \<Rightarrow> Inr i
      | None \<Rightarrow>
          if toLowerCase chain \<in> set ARC_TESTNET_CHAIN_NAMES then Inr ARC_TESTNET_CHAIN_ID
          else Inl (RunnerError ''UNSUPPORTED_CHAIN''
                 (''ExecutionGateway write attempted on unsupported chain: '' @ chain) 400))"

definition is_tx_hash :: "string \<Rightarrow> bool" where
  \<comment> \<open>\<open>/^0x[a-fA-F0-9]{64}$/\<close>\<close>
  "is_tx_hash s \<longleftrightarrow> length s = 66 \<and> startsWith s ''0x'' \<and> list_all is_hex (drop 2 s)"

fun find_tx_hash :: "string \<Rightarrow> string option" where
  \<comment> \<open>\<open>.match(/0x[a-fA-F0-9]{64}/)\<close>: the leftmost match\<close>
  "find_tx_hash [] = None"
| "find_tx_hash (c # s) =
     (if is_tx_hash (take 66 (c # s)) then Some (take 66 (c # s)) else find_tx_hash s)"

fun first_output :: "json \<Rightarrow> string option" where
  \<comment> \<open>the first element of an \<open>outputs\<close> array when it is a transaction hash\<close>
  "first_output (JArr (JStr s # _)) = (if is_tx_hash s then Some s else None)"
| "first_output _ = None"

definition extractTxHash :: "exec_result \<Rightarrow> string option" where
  "extractTxHash r =
     (let json = xr_json r;
          fromJson =
            (if \<not> jtruthy json then None
             else case jstr_opt (jget ''txHash'' json) of
                    Some h \<Rightarrow> Some h
                  | None \<Rightarrow>
                      (case jstr_opt (jget ''txHash'' (jget ''data'' json)) of
                         Some h \<Rightarrow> Some h
                       | None \<Rightarrow> first_output (jget ''outputs'' json)))
      in case fromJson of Some h \<Rightarrow> Some h | None \<Rightarrow> find_tx_hash (xr_stdout r))"

definition classify_error :: "exec_error \<Rightarrow> operation_state" where
  "classify_error e =
     (let msg = toLowerCase (xe_message e) in
      if xe_name e = ''AbortError'' then OpUnknown
      else if xe_killed e \<or> xe_sigterm e then OpUnknown
      else if includes_str msg ''timeout'' \<or> includes_str msg ''abort''
              \<or> includes_str msg ''timed out'' \<or> includes_str msg ''etimedout'' then OpUnknown
      else OpFailed)"

definition is_success_text :: "json \<Rightarrow> bool" where
  \<comment> \<open>a non-empty string that is a terminal success state up to case\<close>
  "is_success_text j =
     (case jstr_opt j of None \<Rightarrow> False
      | Some s \<Rightarrow> s \<noteq> [] \<and> toUpperCase s \<in> set TERMINAL_SUCCESS_STATES)"

definition classifyCircleResult :: "exec_error + exec_result \<Rightarrow> operation_state" where
  "classifyCircleResult outcome =
     (case outcome of
        Inl e \<Rightarrow> classify_error e
      | Inr r \<Rightarrow>
          let json = xr_json r;
              dataState = jget ''state'' (jget ''data'' json);
              upper = map_option toUpperCase (jstr_opt dataState)
          in if jtruthy (jget ''error'' json) \<or> jtruthy (jget ''errorCode'' json) then OpFailed
             else if upper \<in> {Some ''FAILED'', Some ''DENIED'', Some ''REVERTED''} then OpFailed
             else if upper \<in> {Some ''CANCELLED'', Some ''CANCELED''} then OpCancelled
             else if truthy (extractTxHash r)
                     \<and> (is_success_text (jget ''status'' json) \<or> is_success_text dataState)
               then OpConfirmed
             else if truthy (extractTxHash r) then OpBroadcast
             else OpUnknown)"

section \<open>Results\<close>

definition buildResult ::
  "operation_record \<Rightarrow> string \<Rightarrow> exec_result option \<Rightarrow> write_result" where
  "buildResult rec op circle =
     \<lparr>wr_ok = (or_state rec = OpConfirmed), wr_op = op, wr_state = or_state rec,
      wr_tx = or_tx rec, wr_circle = circle, wr_errcode = or_errcode rec,
      wr_errmsg = or_errmsg rec, wr_idempotent = False\<rparr>"

definition replayResult :: "string \<Rightarrow> string option \<Rightarrow> exec_result option \<Rightarrow> write_result" where
  "replayResult op tx cached =
     \<lparr>wr_ok = True, wr_op = op, wr_state = OpConfirmed, wr_tx = tx, wr_circle = cached,
      wr_errcode = None, wr_errmsg = None, wr_idempotent = True\<rparr>"

datatype gw_failure = SqlFailure sqlite_error | NullDereference

datatype begin_outcome =
  Threw runner_error
| Crashed gw_failure
| Returned write_result
| Launched string

section \<open>The part of \<open>execute\<close> before the wallet call\<close>

definition forget_operation :: "string \<Rightarrow> string \<Rightarrow> gateway \<Rightarrow> gateway" where
  \<comment> \<open>drop a failed or cancelled operation everywhere before a retry\<close>
  "forget_operation composite op g =
     g\<lparr>g_ops := jsmap_delete op (g_ops g), g_cache := jsmap_delete op (g_cache g),
       g_index := jsmap_delete composite (g_index g),
       g_journal := deleteOperation op (g_journal g)\<rparr>"

definition index_check :: "gw_input \<Rightarrow> gateway \<Rightarrow> gateway \<times> begin_outcome option" where
  "index_check input g =
     (let composite = compositeKey (gi_key input) (gi_hash input) in
      case map_of (g_index g) composite of
        None \<Rightarrow> (g, None)
      | Some existingId \<Rightarrow>
          if existingId = [] then (g, None)
          else (case map_of (g_ops g) existingId of
            None \<Rightarrow> (g, None)
          | Some existing \<Rightarrow>
              if or_state existing = OpConfirmed then
                (g, Some (Returned (replayResult (or_id existing) (or_tx existing)
                            (map_of (g_cache g) (or_id existing)))))
              else if or_state existing \<in> {OpExecuting, OpBroadcast, OpPrepared, OpReserved} then
                (g, Some (Threw (RunnerError ''OPERATION_IN_PROGRESS''
                      (''Operation with idempotencyKey '' @ gi_key input @ '' is already in state ''
                        @ op_state_name (or_state existing)) 409)))
              else if or_state existing = OpUnknown then
                (g, Some (Threw (RunnerError ''RECONCILIATION_REQUIRED''
                      (''Operation '' @ or_id existing @ '' is in unknown state '' @ em_dash
                        @ '' tx may have been broadcast. Reconciliation required before retry.'') 409)))
              else if or_state existing = OpFailed \<or> or_state existing = OpCancelled then
                (forget_operation composite (or_id existing) g, None)
              else (g, None)))"

definition new_record ::
  "string \<Rightarrow> gw_input \<Rightarrow> nat \<Rightarrow> string \<Rightarrow> int \<Rightarrow> operation_record" where
  "new_record agentId input now op chainId =
     \<lparr>or_id = op, or_key = gi_key input, or_tool = gi_kind input,
      or_agent = Some (or_else (gi_agent input) agentId), or_wallet = Some (gi_wallet input),
      or_chain = Some chainId, or_contract = Some (gi_contract input), or_hash = gi_hash input,
      or_state = OpCreated, or_tx = None, or_errcode = None, or_errmsg = None,
      or_created = now, or_updated = now\<rparr>"

definition lock_conflict_error :: "string \<Rightarrow> string \<Rightarrow> string \<Rightarrow> runner_error" where
  "lock_conflict_error what thing by_op =
     RunnerError ''LOCK_CONFLICT'' (what @ '' '' @ thing @ '' is locked by operation '' @ by_op) 409"

definition create_error_name :: "create_result \<Rightarrow> string" where
  "create_error_name r = (case r of
      CreateOk _ \<Rightarrow> '''' | IdempotencyKeyExists _ \<Rightarrow> ''IDEMPOTENCY_KEY_EXISTS''
    | IdempotencyConflict _ \<Rightarrow> ''IDEMPOTENCY_CONFLICT''
    | WalletLocked _ \<Rightarrow> ''WALLET_LOCKED'' | JobLocked _ \<Rightarrow> ''JOB_LOCKED'')"

text \<open>
  \<open>create_phase\<close> is the call of \<open>createOperationWithLocks\<close> with the handling of its
  four errors, the second attempt for a failed or cancelled operation included.
\<close>

definition retry_create ::
  "gw_input \<Rightarrow> operation_record \<Rightarrow> lock_request \<Rightarrow> gateway \<Rightarrow> gateway \<times> begin_outcome option" where
  "retry_create input rec locks g =
     (case createOperationWithLocks rec locks (g_journal g) of
        Inl e \<Rightarrow> (g, Some (Crashed (SqlFailure e)))
      | Inr (db, CreateOk _) \<Rightarrow> (g\<lparr>g_journal := db\<rparr>, None)
      | Inr (db, r) \<Rightarrow> (g\<lparr>g_journal := db\<rparr>,
          Some (Threw (RunnerError ''LOCK_CONFLICT'' (''Retry failed: '' @ create_error_name r) 409))))"

definition key_exists_phase ::
  "gw_input \<Rightarrow> operation_record \<Rightarrow> lock_request \<Rightarrow> op_row option \<Rightarrow> gateway
     \<Rightarrow> gateway \<times> begin_outcome option" where
  "key_exists_phase input rec locks details g =
     (case details of
        None \<Rightarrow> (g, Some (Threw (RunnerError ''OPERATION_IN_PROGRESS'' ''Operation already exists'' 409)))
      | Some d \<Rightarrow>
          if opr_state d = OpConfirmed then
            (g, Some (Returned (replayResult (opr_id d) (opr_tx d) (map_of (g_cache g) (opr_id d)))))
          else if opr_state d \<in> {OpExecuting, OpBroadcast, OpPrepared, OpReserved} then
            (g, Some (Threw (RunnerError ''OPERATION_IN_PROGRESS''
                  (''Operation already in state '' @ op_state_name (opr_state d)) 409)))
          else if opr_state d = OpUnknown then
            (g, Some (Threw (RunnerError ''RECONCILIATION_REQUIRED'' ''Operation in unknown state'' 409)))
          else if opr_state d = OpFailed \<or> opr_state d = OpCancelled then
            retry_create input rec locks
              (forget_operation (compositeKey (gi_key input) (gi_hash input)) (opr_id d) g)
          else (g, Some (Threw (RunnerError ''OPERATION_IN_PROGRESS'' ''Operation already exists'' 409))))"

definition create_phase ::
  "gw_input \<Rightarrow> operation_record \<Rightarrow> gateway \<Rightarrow> gateway \<times> begin_outcome option" where
  "create_phase input rec g =
     (let locks = \<lparr>lq_wallet = Some (gi_wallet input), lq_job = gi_job input\<rparr> in
      case createOperationWithLocks rec locks (g_journal g) of
        Inl e \<Rightarrow> (g, Some (Crashed (SqlFailure e)))
      | Inr (db, CreateOk _) \<Rightarrow> (g\<lparr>g_journal := db\<rparr>, None)
      | Inr (db, IdempotencyKeyExists d) \<Rightarrow> key_exists_phase input rec locks d g
      | Inr (db, IdempotencyConflict d) \<Rightarrow>
          (g, Some (Threw (RunnerError ''IDEMPOTENCY_CONFLICT''
             (''Idempotency conflict: key '' @ gi_key input
               @ '' was previously used with different params'') 409)))
      | Inr (db, WalletLocked by_op) \<Rightarrow>
          (g, Some (Threw (lock_conflict_error ''Wallet'' (gi_wallet input) by_op)))
      | Inr (db, JobLocked by_op) \<Rightarrow>
          (g, Some (Threw (lock_conflict_error ''Job'' (or_else (gi_job input) ''undefined'') by_op))))"

definition guard_phase ::
  "'p policy_guard option \<Rightarrow> string \<Rightarrow> gw_input \<Rightarrow> nat \<Rightarrow> string \<Rightarrow> 'p \<Rightarrow> 'p result" where
  "guard_phase guard agentId input now op p =
     (case (gi_policy input, guard) of
        (Some pol, Some gd) \<Rightarrow>
          bindR (assertAllowed gd now p
              \<lparr>gq_wallet = gi_wallet input, gq_agent = or_else (gi_agent input) agentId,
               gq_action = gp_action pol, gq_contract = gi_contract input,
               gq_method = gp_method pol, gq_amount = gp_amount pol\<rparr>)
            (\<lambda>_. Inr (if truthy (gp_amount pol) \<and> gp_amount pol \<noteq> Some ''0''
                     then reserveSpend gd now p
                       \<lparr>rq_wallet = gi_wallet input, rq_agent = or_else (gi_agent input) agentId,
                        rq_action = gp_action pol, rq_amount = the (gp_amount pol), rq_op = op,
                        rq_key = gi_key input\<rparr>
                     else p))
      | _ \<Rightarrow> Inr p)"

definition set_op_state :: "string \<Rightarrow> operation_state \<Rightarrow> gateway \<Rightarrow> gateway" where
  "set_op_state op s g =
     (case map_of (g_ops g) op of
        None \<Rightarrow> g
      | Some rec \<Rightarrow> g\<lparr>g_ops := jsmap_set op (rec\<lparr>or_state := s\<rparr>) (g_ops g)\<rparr>)"

definition missing_wallet_fin :: finalization where
  "missing_wallet_fin =
     \<lparr>fin_state = OpFailed, fin_tx = None, fin_errcode = Some ''BROADCAST_FAILED'',
      fin_errmsg = Some ''circleWalletAddress not configured'', fin_result = None,
      fin_receipt = None\<rparr>"

definition launch_phase ::
  "'p policy_guard option \<Rightarrow> string \<Rightarrow> gw_input \<Rightarrow> nat \<Rightarrow> operation_record \<Rightarrow> gateway \<times> 'p
     \<Rightarrow> (gateway \<times> 'p) \<times> begin_outcome" where
  \<comment> \<open>after the operation was created: caches, prerequisites, policy, state \<open>executing\<close>\<close>
  "launch_phase guard agentId input now rec gp =
     (let (g, p) = gp; op = or_id rec;
          g1 = g\<lparr>g_ops := jsmap_set op rec (g_ops g),
                 g_index := jsmap_set (compositeKey (gi_key input) (gi_hash input)) op (g_index g)\<rparr>
      in if gi_wallet input = [] then
           let failed = rec\<lparr>or_state := OpFailed, or_errcode := Some ''BROADCAST_FAILED'',
                            or_errmsg := Some ''circleWalletAddress not configured''\<rparr>;
               g2 = g1\<lparr>g_ops := jsmap_set op failed (g_ops g1)\<rparr>
           in (case finalizeOperation now op missing_wallet_fin (g_journal g2) of
                 Inl e \<Rightarrow> ((g2, p), Crashed (SqlFailure e))
               | Inr db \<Rightarrow> ((g2\<lparr>g_journal := db\<rparr>, p), Returned (buildResult failed op None)))
         else
           (case guard_phase guard agentId input now op p of
              Inl e \<Rightarrow> ((g1, p), Threw e)
            | Inr p' \<Rightarrow> ((set_op_state op OpExecuting g1, p'), Launched op)))"

definition execute_begin ::
  "'p policy_guard option \<Rightarrow> string \<Rightarrow> gw_input \<Rightarrow> nat \<Rightarrow> string \<Rightarrow> gateway \<times> 'p
     \<Rightarrow> (gateway \<times> 'p) \<times> begin_outcome" where
  "execute_begin guard agentId input now op gp =
     (case index_check input (fst gp) of
        (g1, Some out) \<Rightarrow> ((g1, snd gp), out)
      | (g1, None) \<Rightarrow>
          (case resolveChainId (gi_chain input) (gi_chainId input) of
             Inl e \<Rightarrow> ((g1, snd gp), Threw e)
           | Inr chainId \<Rightarrow>
               let rec = new_record agentId input now op chainId in
               (case create_phase input rec g1 of
                  (g2, Some out) \<Rightarrow> ((g2, snd gp), out)
                | (g2, None) \<Rightarrow> launch_phase guard agentId input now rec (g2, snd gp))))"

section \<open>The part of \<open>execute\<close> after the wallet call\<close>

fun evict :: "int \<Rightarrow> (string \<times> exec_result) list \<Rightarrow> (string \<times> exec_result) list" where
  \<comment> \<open>\<open>while (size > n) delete oldest\<close>\<close>
  "evict n [] = []"
| "evict n ((k, v) # m) =
     (if int (length ((k, v) # m)) > n then (if k = [] then (k, v) # m else evict n m) else (k, v) # m)"

definition finish_finalization :: "exec_error + exec_result \<Rightarrow> finalization" where
  "finish_finalization outcome =
     (let s = classifyCircleResult outcome in
      \<lparr>fin_state = s,
       fin_tx = (case outcome of Inl e \<Rightarrow> None | Inr r \<Rightarrow> extractTxHash r),
       fin_errcode = (if s = OpFailed then Some ''BROADCAST_FAILED''
                      else if s = OpUnknown then Some ''UNKNOWN_TX_STATE'' else None),
       fin_errmsg =
         (if s = OpFailed then
            Some (case outcome of Inl e \<Rightarrow> xe_message e | Inr r \<Rightarrow> ''Wallet write failed'')
          else if s = OpUnknown then
            Some (''Wallet write timeout or ambiguous result '' @ em_dash @ '' tx may have been broadcast'')
          else None),
       fin_result =
         (case outcome of Inl e \<Rightarrow> None
          | Inr r \<Rightarrow> let c = compactCircleResult r in
              Some \<lparr>rd_stdout = Some (xr_stdout c), rd_stderr = Some (xr_stderr c),
                    rd_json = xr_json c, rd_exit = None\<rparr>),
       fin_receipt = None\<rparr>)"

definition finish_record :: "finalization \<Rightarrow> operation_record \<Rightarrow> operation_record" where
  "finish_record f rec =
     rec\<lparr>or_state := fin_state f,
         or_tx := (if truthy (fin_tx f) then fin_tx f else or_tx rec),
         or_errcode := (if truthy (fin_errcode f) then fin_errcode f else or_errcode rec),
         or_errmsg := (if truthy (fin_errmsg f) then fin_errmsg f else or_errmsg rec)\<rparr>"

definition execute_finish ::
  "nat \<Rightarrow> string \<Rightarrow> exec_error + exec_result \<Rightarrow> gateway \<Rightarrow> gateway \<times> (gw_failure + write_result)" where
  "execute_finish now op outcome g =
     (let f = finish_finalization outcome in
      case finalizeOperation now op f (g_journal g) of
        Inl e \<Rightarrow> (g, Inl (SqlFailure e))
      | Inr db \<Rightarrow>
          let g1 = g\<lparr>g_journal := db\<rparr> in
          (case map_of (g_ops g1) op of
             None \<Rightarrow> (g1, Inl NullDereference)
           | Some rec \<Rightarrow>
               let rec' = finish_record f rec;
                   g2 = g1\<lparr>g_ops := jsmap_set op rec' (g_ops g1)\<rparr>;
                   g3 = (case outcome of
                           Inl e \<Rightarrow> g2
                         | Inr r \<Rightarrow> g2\<lparr>g_cache := evict MAX_RESULT_CACHE_ENTRIES
                                       (jsmap_set op (compactCircleResult r) (g_cache g2))\<rparr>)
               in (g3, Inr (buildResult rec' op (case outcome of Inl e \<Rightarrow> None | Inr r \<Rightarrow> Some r)))))"

section \<open>Start-up\<close>

definition confirmed_record :: "op_row \<Rightarrow> operation_record" where
  "confirmed_record r =
     \<lparr>or_id = opr_id r, or_key = opr_key r, or_tool = '''', or_agent = None, or_wallet = None,
      or_chain = None, or_contract = None, or_hash = opr_hash r, or_state = OpConfirmed,
      or_tx = opr_tx r, or_errcode = None, or_errmsg = None, or_created = 0, or_updated = 0\<rparr>"

definition reconcilable_record :: "op_row \<Rightarrow> operation_record" where
  "reconcilable_record r =
     \<lparr>or_id = opr_id r, or_key = opr_key r, or_tool = opr_kind r, or_agent = opr_agent r,
      or_wallet = opr_wallet r, or_chain = opr_chain r, or_contract = opr_contract r,
      or_hash = opr_hash r, or_state = opr_state r, or_tx = opr_tx r,
      or_errcode = opr_errcode r, or_errmsg = opr_errmsg r, or_created = opr_created r,
      or_updated = opr_updated r\<rparr>"

definition remember :: "operation_record \<Rightarrow> gateway \<Rightarrow> gateway" where
  "remember rec g =
     g\<lparr>g_ops := jsmap_set (or_id rec) rec (g_ops g),
       g_index := jsmap_set (compositeKey (or_key rec) (or_hash rec)) (or_id rec) (g_index g)\<rparr>"

definition cached_result :: "result_row option \<Rightarrow> exec_result option" where
  \<comment> \<open>\<open>json_data\<close> is what the journal itself wrote, so it parses\<close>
  "cached_result row =
     (case row of
        None \<Rightarrow> None
      | Some r \<Rightarrow>
          (case rsr_json r of
             None \<Rightarrow> None
           | Some j \<Rightarrow> Some \<lparr>xr_command = ''circle'', xr_args = [],
                 xr_stdout = or_else (rsr_stdout r) '''', xr_stderr = or_else (rsr_stderr r) '''',
                 xr_json = j\<rparr>))"

definition reload_confirmed :: "op_row \<times> result_row option \<Rightarrow> gateway \<Rightarrow> gateway" where
  "reload_confirmed entry g =
     (let g1 = remember (confirmed_record (fst entry)) g
      in case cached_result (snd entry) of
           None \<Rightarrow> g1
         | Some c \<Rightarrow> g1\<lparr>g_cache := jsmap_set (opr_id (fst entry)) c (g_cache g1)\<rparr>)"

definition reloadFromJournal :: "gateway \<Rightarrow> gateway" where
  "reloadFromJournal g =
     (let g1 = fold reload_confirmed
                 (loadConfirmedResults MAX_RESULT_CACHE_ENTRIES (g_journal g)) g
      in fold (\<lambda>r. remember (reconcilable_record r)) (getReconcilableOperations (g_journal g)) g1)"

definition gateway_start :: "nat \<Rightarrow> journal \<Rightarrow> gateway" where
  "gateway_start now db =
     reloadFromJournal \<lparr>g_ops = [], g_cache = [], g_index = [],
       g_journal = fst (recoverNonTerminalOperations now db)\<rparr>"

section \<open>Reconciliation, receipts, queries\<close>

fun reconcile_record ::
  "nat \<Rightarrow> reconcile_outcome \<Rightarrow> reconcile_details \<Rightarrow> operation_record \<Rightarrow> operation_record" where
  "reconcile_record now OutConfirmed d rec =
     rec\<lparr>or_tx := set_truthy (rdt_tx d) (or_tx rec), or_state := OpConfirmed,
         or_errcode := None, or_errmsg := None, or_updated := now\<rparr>"
| "reconcile_record now OutFailed d rec =
     rec\<lparr>or_tx := set_truthy (rdt_tx d) (or_tx rec), or_state := OpFailed,
         or_errcode := Some (or_else (rdt_errcode d) ''BROADCAST_FAILED''),
         or_errmsg := Some (or_else (rdt_errmsg d) ''Reconciled as failed''), or_updated := now\<rparr>"
| "reconcile_record now OutUnknown d rec =
     rec\<lparr>or_tx := set_truthy (rdt_tx d) (or_tx rec), or_state := OpUnknown,
         or_errcode := set_truthy (rdt_errcode d) (or_errcode rec),
         or_errmsg := set_truthy (rdt_errmsg d) (or_errmsg rec), or_updated := now\<rparr>"

definition reconcileBroadcast ::
  "nat \<Rightarrow> string \<Rightarrow> reconcile_outcome \<Rightarrow> reconcile_details \<Rightarrow> gateway
     \<Rightarrow> gateway \<times> operation_record result" where
  "reconcileBroadcast now op outcome d g =
     (case map_of (g_ops g) op of
        None \<Rightarrow> (g, Inl (RunnerError ''OPERATION_NOT_FOUND'' (''Operation '' @ op @ '' not found'') 404))
      | Some rec \<Rightarrow>
          if or_state rec \<noteq> OpBroadcast \<and> or_state rec \<noteq> OpUnknown then (g, Inr rec)
          else
            let rec' = reconcile_record now outcome d rec
            in (g\<lparr>g_journal := reconcileOperation_j now op outcome d (g_journal g),
                  g_ops := jsmap_set op rec' (g_ops g)\<rparr>, Inr rec'))"

definition storeReceipt ::
  "nat \<Rightarrow> string \<Rightarrow> receipt_data \<Rightarrow> gateway \<Rightarrow> gateway \<times> (sqlite_error + unit)" where
  "storeReceipt now op rcpt g =
     (let s = (case map_of (g_ops g) op of None \<Rightarrow> OpConfirmed | Some rec \<Rightarrow> or_state rec)
      in case finalizeOperation now op
           \<lparr>fin_state = s, fin_tx = None, fin_errcode = None, fin_errmsg = None,
            fin_result = None, fin_receipt = Some rcpt\<rparr> (g_journal g) of
           Inl e \<Rightarrow> (g, Inl e)
         | Inr db \<Rightarrow> (g\<lparr>g_journal := db\<rparr>, Inr ()))"

definition gw_getOperation :: "string \<Rightarrow> gateway \<Rightarrow> operation_record option" where
  "gw_getOperation op g = map_of (g_ops g) op"

definition gw_getOperationsByState :: "operation_state \<Rightarrow> gateway \<Rightarrow> operation_record list" where
  "gw_getOperationsByState s g = filter (\<lambda>r. or_state r = s) (map snd (g_ops g))"

section \<open>\<open>assertGatewayWriteSucceeded\<close>\<close>

definition assertGatewayWriteSucceeded :: "write_result \<Rightarrow> unit result" where
  "assertGatewayWriteSucceeded r =
     (if wr_ok r \<and> wr_state r = OpConfirmed then Inr ()
      else case wr_state r of
        OpBroadcast \<Rightarrow> Inl (RunnerError ''OPERATION_IN_PROGRESS''
          (''Gateway write broadcast but not confirmed '' @ em_dash
            @ '' tx may be pending. operationId='' @ wr_op r) 409)
      | OpUnknown \<Rightarrow> Inl (RunnerError ''RECONCILIATION_REQUIRED''
          (''Gateway write in unknown state '' @ em_dash
            @ '' tx may have been broadcast. Reconciliation required. operationId='' @ wr_op r) 409)
      | OpFailed \<Rightarrow> Inl (RunnerError (or_else (wr_errcode r) ''BROADCAST_FAILED'')
          (or_else (wr_errmsg r) (''Gateway write failed. operationId='' @ wr_op r)) 422)
      | OpPrepared \<Rightarrow> Inl (RunnerError ''OPERATION_IN_PROGRESS''
          (''Gateway write still in progress (state=prepared). operationId='' @ wr_op r) 409)
      | OpReserved \<Rightarrow> Inl (RunnerError ''OPERATION_IN_PROGRESS''
          (''Gateway write still in progress (state=reserved). operationId='' @ wr_op r) 409)
      | OpExecuting \<Rightarrow> Inl (RunnerError ''OPERATION_IN_PROGRESS''
          (''Gateway write still in progress (state=executing). operationId='' @ wr_op r) 409)
      | OpCreated \<Rightarrow> Inl (RunnerError ''BROADCAST_FAILED''
          (''Gateway write ended in unexpected state: created. operationId='' @ wr_op r) 422)
      | OpCancelled \<Rightarrow> Inl (RunnerError ''OPERATION_CANCELLED''
          (''Gateway write was cancelled. operationId='' @ wr_op r) 409)
      | OpConfirmed \<Rightarrow> Inr ())"

section \<open>The running system\<close>

text \<open>
  A process is the gateway, the policy state behind the guard and the wallet calls in
  flight. Steps: a request arrives (with a fresh operation id), a wallet call answers, an
  operator reconciles, a receipt is linked to an operation that has been answered, and the
  process dies and starts again on its journal and its policy state (a ledger file).
\<close>

record 'p gw_system =
  sys_gateway :: gateway
  sys_policy :: 'p
  sys_inflight :: "string list"

definition fresh_op :: "string \<Rightarrow> 'p gw_system \<Rightarrow> bool" where
  "fresh_op op s \<longleftrightarrow> op \<noteq> [] \<and> op \<notin> opr_id ` set (j_ops (g_journal (sys_gateway s)))
     \<and> op \<notin> fst ` set (g_ops (sys_gateway s)) \<and> op \<notin> set (sys_inflight s)"

inductive gw_step ::
  "'p policy_guard option \<Rightarrow> string \<Rightarrow> 'p gw_system \<Rightarrow> 'p gw_system \<Rightarrow> bool"
  for guard agentId where
  request_returns: "fresh_op op s \<Longrightarrow>
     execute_begin guard agentId input now op (sys_gateway s, sys_policy s) = ((g, p), out) \<Longrightarrow>
     out \<noteq> Launched op \<Longrightarrow>
     gw_step guard agentId s (s\<lparr>sys_gateway := g, sys_policy := p\<rparr>)"
| request_launches: "fresh_op op s \<Longrightarrow>
     execute_begin guard agentId input now op (sys_gateway s, sys_policy s) = ((g, p), Launched op) \<Longrightarrow>
     gw_step guard agentId s
       (s\<lparr>sys_gateway := g, sys_policy := p, sys_inflight := op # sys_inflight s\<rparr>)"
| wallet_answers: "op \<in> set (sys_inflight s) \<Longrightarrow>
     execute_finish now op outcome (sys_gateway s) = (g, res) \<Longrightarrow>
     gw_step guard agentId s
       (s\<lparr>sys_gateway := g, sys_inflight := removeAll op (sys_inflight s)\<rparr>)"
| operator_reconciles: "reconcileBroadcast now op outcome d (sys_gateway s) = (g, res) \<Longrightarrow>
     gw_step guard agentId s (s\<lparr>sys_gateway := g\<rparr>)"
| receipt_linked: "op \<notin> set (sys_inflight s) \<Longrightarrow>
     storeReceipt now op rcpt (sys_gateway s) = (g, res) \<Longrightarrow>
     gw_step guard agentId s (s\<lparr>sys_gateway := g\<rparr>)"
| restart: "gw_step guard agentId s
     (s\<lparr>sys_gateway := gateway_start now (g_journal (sys_gateway s)), sys_inflight := []\<rparr>)"

inductive_cases gw_stepE: "gw_step guard agentId s t"

definition gw_initial :: "'p gw_system \<Rightarrow> bool" where
  "gw_initial s \<longleftrightarrow> sys_gateway s = \<lparr>g_ops = [], g_cache = [], g_index = [],
      g_journal = empty_journal\<rparr> \<and> sys_inflight s = []"

end
