(* ===== verification/Gateway_Safety.thy ===== *)
theory Gateway_Safety
  imports Execution_Gateway
begin

text \<open>
  Safety of the execution gateway over every run of the process: the journal invariant
  holds, memory and journal agree on every operation, and the wallet calls in flight are
  exactly the operations that memory has as \<open>executing\<close>.
\<close>

section \<open>The invariant\<close>

definition synced :: "string set \<Rightarrow> journal \<Rightarrow> string \<Rightarrow> operation_record \<Rightarrow> bool" where
  "synced fl db op rec \<longleftrightarrow> or_id rec = op \<and>
     (\<exists>row. getOperation op db = Some row \<and> opr_key row = or_key rec \<and> opr_hash row = or_hash rec
        \<and> (if or_state rec = OpExecuting then op \<in> fl \<and> opr_state row = OpCreated
           else opr_state row = or_state rec))"

definition mem_ok :: "string set \<Rightarrow> gateway \<Rightarrow> bool" where
  "mem_ok fl g \<longleftrightarrow> (\<forall>op rec. map_of (g_ops g) op = Some rec \<longrightarrow> synced fl (g_journal g) op rec)"

definition flight_ok :: "string set \<Rightarrow> gateway \<Rightarrow> bool" where
  "flight_ok fl g \<longleftrightarrow> (\<forall>op\<in>fl. \<exists>rec. map_of (g_ops g) op = Some rec \<and> or_state rec = OpExecuting)"

definition states_ok :: "journal \<Rightarrow> bool" where
  "states_ok db \<longleftrightarrow> (\<forall>r\<in>set (j_ops db). opr_state r \<notin> {OpPrepared, OpReserved, OpExecuting})"

definition gw_inv :: "string set \<Rightarrow> gateway \<Rightarrow> bool" where
  "gw_inv fl g \<longleftrightarrow> journal_inv (g_journal g) \<and> mem_ok fl g \<and> flight_ok fl g
     \<and> states_ok (g_journal g)"

lemma get_mem: "getOperation op db = Some r \<Longrightarrow> r \<in> set (j_ops db) \<and> opr_id r = op"
  unfolding getOperation_def by (rule sel_SomeD)

lemma ids_distinct: "journal_inv db \<Longrightarrow> distinct (map opr_id (j_ops db))"
  by (simp add: journal_inv_def keys_ok_def)

lemma get_iff:
  assumes "journal_inv db"
  shows "getOperation op db = Some r \<longleftrightarrow> r \<in> set (j_ops db) \<and> opr_id r = op"
proof
  assume "r \<in> set (j_ops db) \<and> opr_id r = op"
  then show "getOperation op db = Some r"
    unfolding getOperation_def using sel_unique [OF ids_distinct [OF assms]] by blast
qed (rule get_mem)

lemma synced_mono:
  "synced fl db op rec \<Longrightarrow> (\<And>row. getOperation op db = Some row \<Longrightarrow> getOperation op db' = Some row) \<Longrightarrow>
     fl \<subseteq> fl' \<Longrightarrow> synced fl' db' op rec"
  unfolding synced_def by (auto split: if_splits)

lemma synced_frame:
  "synced fl db k r \<Longrightarrow> getOperation k db' = getOperation k db \<Longrightarrow> (k \<in> fl \<Longrightarrow> k \<in> fl') \<Longrightarrow>
     synced fl' db' k r"
  unfolding synced_def by (auto split: if_splits)

lemma mem_okD: "gw_inv fl g \<Longrightarrow> map_of (g_ops g) op = Some rec \<Longrightarrow> synced fl (g_journal g) op rec"
  by (simp add: gw_inv_def mem_ok_def)

lemma flight_row:
  "gw_inv fl g \<Longrightarrow> op \<in> fl \<Longrightarrow> \<exists>row. getOperation op (g_journal g) = Some row \<and> opr_state row = OpCreated"
proof -
  assume inv: "gw_inv fl g" and op: "op \<in> fl"
  then obtain rec where rec: "map_of (g_ops g) op = Some rec" "or_state rec = OpExecuting"
    unfolding gw_inv_def flight_ok_def by blast
  with inv have "synced fl (g_journal g) op rec" unfolding gw_inv_def mem_ok_def by blast
  with rec(2) show ?thesis unfolding synced_def by auto
qed

section \<open>Forgetting and creating\<close>

lemma get_delete: "getOperation k (deleteOperation op db) = (if k = op then None else getOperation k db)"
  by (simp add: getOperation_def deleteOperation_def table_simps)

lemma forget_inv:
  assumes "gw_inv fl g" "op \<notin> fl"
  shows "gw_inv fl (forget_operation c op g)"
  using assms delete_inv [of "g_journal g" op]
  unfolding gw_inv_def mem_ok_def flight_ok_def states_ok_def synced_def forget_operation_def
  by (auto simp: get_delete) (auto simp: deleteOperation_def)

lemma create_get:
  assumes "createOperationWithLocks r locks db = Inr (db', res)"
  shows "getOperation k db = Some row \<Longrightarrow> getOperation k db' = Some row"
    and "res = CreateOk op \<Longrightarrow> op = or_id r \<and> getOperation op db' = Some (row_of_record r)
           \<and> j_ops db' = j_ops db @ [row_of_record r]"
    and "(\<forall>op. res \<noteq> CreateOk op) \<Longrightarrow> db' = db"
proof -
  have id: "opr_id (row_of_record r) = or_id r" by (simp add: row_of_record_def)
  from assms show "getOperation k db = Some row \<Longrightarrow> getOperation k db' = Some row"
    by (cases rule: create_cases)
       (auto simp: insertOperation_def Let_def getOperation_def sel_append split: if_splits)
  from assms show "res = CreateOk op \<Longrightarrow> op = or_id r \<and> getOperation op db' = Some (row_of_record r)
           \<and> j_ops db' = j_ops db @ [row_of_record r]"
    by (cases rule: create_cases)
       (auto simp: insertOperation_def Let_def getOperation_def sel_append sel_Cons id split: if_splits)
  from assms show "(\<forall>op. res \<noteq> CreateOk op) \<Longrightarrow> db' = db"
    by (cases rule: create_cases) (auto simp: insertOperation_def Let_def split: if_splits)
qed

lemma create_gw_inv:
  assumes "gw_inv fl g" "createOperationWithLocks r locks (g_journal g) = Inr (db, res)"
    "lq_wallet locks = or_wallet r" "or_state r = OpCreated"
  shows "gw_inv fl (g\<lparr>g_journal := db\<rparr>)"
proof -
  have "journal_inv db"
    by (rule create_inv [OF _ assms(2,3)]) (use assms in \<open>simp_all add: gw_inv_def\<close>)
  moreover have "states_ok db"
  proof (cases "\<exists>op. res = CreateOk op")
    case True
    then show ?thesis
      using create_get(2) [OF assms(2)] assms(1,4) unfolding gw_inv_def states_ok_def
      by (auto simp: row_of_record_def)
  next
    case False
    then show ?thesis using create_get(3) [OF assms(2)] assms(1) by (simp add: gw_inv_def)
  qed
  moreover have "mem_ok fl (g\<lparr>g_journal := db\<rparr>)"
    using synced_mono [OF mem_okD [OF assms(1)] create_get(1) [OF assms(2)]]
    by (simp add: mem_ok_def)
  moreover have "flight_ok fl (g\<lparr>g_journal := db\<rparr>)"
    using assms(1) by (simp add: gw_inv_def flight_ok_def)
  ultimately show ?thesis by (simp add: gw_inv_def)
qed

text \<open>What one call of the creation code can do: nothing lasting, or create the operation.\<close>

definition created :: "operation_record \<Rightarrow> gateway \<Rightarrow> bool" where
  "created rec g \<longleftrightarrow> getOperation (or_id rec) (g_journal g) = Some (row_of_record rec)"

lemma retry_create_inv:
  assumes "gw_inv fl g" "retry_create input rec locks g = (g', out)"
    "lq_wallet locks = or_wallet rec" "or_state rec = OpCreated"
  shows "gw_inv fl g' \<and> (out = None \<longrightarrow> created rec g') \<and> g_ops g' = g_ops g
     \<and> (\<forall>op. out \<noteq> Some (Launched op))"
proof (cases "createOperationWithLocks rec locks (g_journal g)")
  case (Inl e)
  with assms show ?thesis by (auto simp: retry_create_def)
next
  case (Inr x)
  obtain db res where x: "x = (db, res)" by (cases x)
  note inv = create_gw_inv [OF assms(1) Inr [unfolded x] assms(3,4)]
  from assms(2) inv create_get(2) [OF Inr [unfolded x]] show ?thesis
    by (auto simp: retry_create_def Inr x created_def split: create_result.splits)
qed

lemma row_not_flying:
  "gw_inv fl g \<Longrightarrow> getOperation op (g_journal g) = Some row \<Longrightarrow> opr_state row \<noteq> OpCreated \<Longrightarrow> op \<notin> fl"
  using flight_row by fastforce

lemma forget_ops: "g_ops (forget_operation c op g) = jsmap_delete op (g_ops g)"
  by (simp add: forget_operation_def)

lemma key_exists_inv:
  assumes "gw_inv fl g" "key_exists_phase input rec locks d g = (g', out)"
    "lq_wallet locks = or_wallet rec" "or_state rec = OpCreated"
    "\<And>row. d = Some row \<Longrightarrow> \<exists>k. getOperation k (g_journal g) = Some row"
  shows "gw_inv fl g' \<and> (out = None \<longrightarrow> created rec g') \<and> set (map fst (g_ops g')) \<subseteq> set (map fst (g_ops g))
     \<and> (\<forall>op. out \<noteq> Some (Launched op))"
proof (cases d)
  case None
  with assms show ?thesis by (auto simp: key_exists_phase_def)
next
  case (Some row)
  show ?thesis
  proof (cases "opr_state row = OpFailed \<or> opr_state row = OpCancelled")
    case True
    let ?g = "forget_operation (compositeKey (gi_key input) (gi_hash input)) (opr_id row) g"
    from assms(5) [OF Some] obtain k where "getOperation k (g_journal g) = Some row" by blast
    with get_mem have row: "getOperation (opr_id row) (g_journal g) = Some row" by metis
    have "opr_id row \<notin> fl" by (rule row_not_flying [OF assms(1) row]) (use True in auto)
    then have inv: "gw_inv fl ?g" by (rule forget_inv [OF assms(1)])
    have "retry_create input rec locks ?g = (g', out)"
      using assms(2) True by (auto simp: key_exists_phase_def Some)
    from retry_create_inv [OF inv this assms(3,4)] show ?thesis
      by (auto simp: forget_ops jsmap_delete_def)
  next
    case False
    with assms(1,2) show ?thesis by (auto simp: key_exists_phase_def Some split: if_splits)
  qed
qed

lemma find_detail:
  "createOperationWithLocks r locks db = Inr (db', IdempotencyKeyExists d) \<Longrightarrow>
     d = Some row \<Longrightarrow> \<exists>k. getOperation k db = Some row"
  by (auto simp: createOperationWithLocks_def insertOperation_def Let_def split: option.splits if_splits)

lemma create_phase_inv:
  assumes "gw_inv fl g" "create_phase input rec g = (g', out)"
    "or_wallet rec = Some (gi_wallet input)" "or_state rec = OpCreated"
  shows "gw_inv fl g' \<and> (out = None \<longrightarrow> created rec g') \<and> set (map fst (g_ops g')) \<subseteq> set (map fst (g_ops g))
     \<and> (\<forall>op. out \<noteq> Some (Launched op))"
proof -
  let ?locks = "\<lparr>lq_wallet = Some (gi_wallet input), lq_job = gi_job input\<rparr>"
  show ?thesis
  proof (cases "createOperationWithLocks rec ?locks (g_journal g)")
    case (Inl e)
    with assms(1,2) show ?thesis by (auto simp: create_phase_def)
  next
    case (Inr x)
    obtain db res where x: "x = (db, res)" by (cases x)
    note cr = Inr [unfolded x]
    show ?thesis
    proof (cases res)
      case (CreateOk op)
      with assms(2) cr have g': "g' = g\<lparr>g_journal := db\<rparr>" "out = None"
        by (auto simp: create_phase_def)
      have "gw_inv fl g'" unfolding g' by (rule create_gw_inv [OF assms(1) cr]) (use assms in auto)
      then show ?thesis using create_get(2) [OF cr CreateOk] g' by (auto simp: created_def)
    next
      case (IdempotencyKeyExists d)
      with assms(2) cr have ph: "key_exists_phase input rec ?locks d g = (g', out)"
        by (simp add: create_phase_def)
      show ?thesis
        by (rule key_exists_inv [OF assms(1) ph]) (use assms find_detail cr IdempotencyKeyExists in auto)
    qed (use assms(1,2) cr in \<open>auto simp: create_phase_def\<close>)
  qed
qed

section \<open>Index check\<close>

lemma index_check_inv:
  assumes "gw_inv fl g" "index_check input g = (g', out)"
  shows "gw_inv fl g' \<and> set (map fst (g_ops g')) \<subseteq> set (map fst (g_ops g))
     \<and> (\<forall>op. out \<noteq> Some (Launched op))"
proof (cases "map_of (g_index g) (compositeKey (gi_key input) (gi_hash input))")
  case None
  with assms show ?thesis by (auto simp: index_check_def)
next
  case (Some ex)
  show ?thesis
  proof (cases "map_of (g_ops g) ex")
    case None
    with assms Some show ?thesis by (auto simp: index_check_def Let_def split: if_splits)
  next
    case (Some rec)
    note rec = this
    let ?g = "forget_operation (compositeKey (gi_key input) (gi_hash input)) (or_id rec) g"
    have "gw_inv fl ?g" if "or_state rec = OpFailed \<or> or_state rec = OpCancelled"
    proof (rule forget_inv [OF assms(1)])
      have id: "or_id rec = ex" using mem_okD [OF assms(1) rec] by (simp add: synced_def)
      show "or_id rec \<notin> fl"
      proof
        assume "or_id rec \<in> fl"
        then obtain rec' where "map_of (g_ops g) ex = Some rec'" "or_state rec' = OpExecuting"
          using assms(1) id unfolding gw_inv_def flight_ok_def by blast
        with rec that show False by auto
      qed
    qed
    with assms Some \<open>map_of (g_index g) _ = Some ex\<close> show ?thesis
      by (auto simp: index_check_def Let_def forget_ops jsmap_delete_def split: if_splits)
  qed
qed

section \<open>Launching\<close>

lemma synced_new:
  "created rec g \<Longrightarrow> or_state rec = OpCreated \<Longrightarrow>
     synced fl (g_journal g) (or_id rec) rec \<and>
     (or_id rec \<in> fl \<longrightarrow> synced fl (g_journal g) (or_id rec) (rec\<lparr>or_state := OpExecuting\<rparr>))"
  by (auto simp: created_def synced_def row_of_record_def)

lemma gw_inv_put:
  assumes "gw_inv fl g" "synced fl' (g_journal g) op rec"
    "or_state rec = OpExecuting \<longleftrightarrow> op \<in> fl'" "fl' - {op} = fl - {op}"
    "\<And>k. k \<noteq> op \<Longrightarrow> map_of (g_ops g') k = map_of (g_ops g) k" "map_of (g_ops g') op = Some rec"
    "g_journal g' = g_journal g"
  shows "gw_inv fl' g'"
proof -
  have "synced fl' (g_journal g) k r" if "map_of (g_ops g') k = Some r" for k r
  proof (cases "k = op")
    case False
    with that assms(5) mem_okD [OF assms(1)] have "synced fl (g_journal g) k r" by simp
    with False assms(4) show ?thesis unfolding synced_def by (auto split: if_splits)
  qed (use that assms in simp)
  moreover have "\<exists>r. map_of (g_ops g') k = Some r \<and> or_state r = OpExecuting" if k: "k \<in> fl'" for k
  proof (cases "k = op")
    case False
    with k assms(4) have "k \<in> fl" by blast
    with False assms(1,5) show ?thesis by (simp add: gw_inv_def flight_ok_def)
  qed (use k assms(3,6) in simp)
  ultimately show ?thesis
    using assms(1,7) by (simp add: gw_inv_def mem_ok_def flight_ok_def)
qed

lemma finalize_get:
  assumes "finalizeOperation now op f db = Inr db'"
  shows "getOperation k db' =
    (if k = op then map_option (finalize_row now f) (getOperation k db) else getOperation k db)"
  using assms keeps_finalize [of now f]
  unfolding finalize_split getOperation_def keeps_key_def
  by (auto simp: finalize_extra_def Let_def releaseLocks_def table_simps split: option.splits)

lemma finalize_ok: "getOperation op db = Some row \<Longrightarrow> \<exists>db'. finalizeOperation now op f db = Inr db'"
  by (simp add: finalizeOperation_def getOperation_def Let_def)

lemma finalize_states:
  assumes "finalizeOperation now op f db = Inr db'" "states_ok db"
    "fin_state f \<notin> {OpPrepared, OpReserved, OpExecuting}"
  shows "states_ok db'"
proof -
  have "j_ops db' = upd opr_id op (finalize_row now f) (j_ops db)"
    using assms(1) unfolding finalize_split
    by (auto simp: finalize_extra_def Let_def releaseLocks_def split: option.splits)
  with assms(2,3) show ?thesis by (auto simp: states_ok_def set_upd finalize_row_def)
qed

lemma finalizable_row:
  assumes "gw_inv fl g" "getOperation op (g_journal g) = Some row"
    "isTerminalOperationState s \<or> active row"
  shows "finalizable op s (g_journal g)"
proof -
  have "r = row" if "r \<in> set (j_ops (g_journal g))" "opr_id r = op" for r
    using get_iff [of "g_journal g" op r] that assms(1,2) by (simp add: gw_inv_def)
  with assms(3) show ?thesis unfolding finalizable_def by blast
qed

lemma finalize_gw_inv:
  assumes inv: "gw_inv fl g" and fin: "finalizeOperation now op f (g_journal g) = Inr db"
    and row: "getOperation op (g_journal g) = Some row"
    and ok: "isTerminalOperationState (fin_state f) \<or> active row"
    and st: "fin_state f \<notin> {OpPrepared, OpReserved, OpExecuting}"
    and ops: "\<And>k. k \<noteq> op \<Longrightarrow> map_of (g_ops g') k = map_of (g_ops g) k"
    and rec: "\<And>rec. map_of (g_ops g') op = Some rec \<Longrightarrow> or_id rec = op \<and> or_key rec = opr_key row
        \<and> or_hash rec = opr_hash row \<and> or_state rec = fin_state f"
    and db: "g_journal g' = db"
  shows "gw_inv (fl - {op}) g'"
proof -
  have fz: "finalizable op (fin_state f) (g_journal g)"
    by (rule finalizable_row [OF inv row ok])
  have "journal_inv db"
    using finalize_inv [OF _ fin fz] inv by (simp add: gw_inv_def)
  moreover have "states_ok db"
    using finalize_states [OF fin _ st] inv by (simp add: gw_inv_def)
  moreover have "synced (fl - {op}) db k r" if r: "map_of (g_ops g') k = Some r" for k r
  proof (cases "k = op")
    case True
    with rec r row st show ?thesis
      by (auto simp: synced_def finalize_get [OF fin] finalize_row_def)
  next
    case False
    with r ops mem_okD [OF inv] have "synced fl (g_journal g) k r" by simp
    then show ?thesis
      by (rule synced_frame) (use False in \<open>simp_all add: finalize_get [OF fin]\<close>)
  qed
  moreover have "flight_ok (fl - {op}) g'"
    using inv ops by (auto simp: gw_inv_def flight_ok_def)
  ultimately show ?thesis by (simp add: gw_inv_def mem_ok_def db)
qed

lemma launch_inv:
  assumes inv: "gw_inv fl g" and cr: "created rec g" and st: "or_state rec = OpCreated"
    and run: "launch_phase guard agentId input now rec (g, p) = ((g', p'), out)"
    and new: "or_id rec \<notin> fl"
  shows "(out = Launched (or_id rec) \<longrightarrow> gw_inv (insert (or_id rec) fl) g')
    \<and> (out \<noteq> Launched (or_id rec) \<longrightarrow> gw_inv fl g')"
proof -
  let ?op = "or_id rec"
  let ?g1 = "g\<lparr>g_ops := jsmap_set ?op rec (g_ops g),
      g_index := jsmap_set (compositeKey (gi_key input) (gi_hash input)) ?op (g_index g)\<rparr>"
  have g1: "gw_inv fl ?g1"
    by (rule gw_inv_put [OF inv, where op = ?op and rec = rec])
       (use synced_new [OF cr st] st new in auto)
  show ?thesis
  proof (cases "gi_wallet input = []")
    case True
    let ?failed = "rec\<lparr>or_state := OpFailed, or_errcode := Some ''BROADCAST_FAILED'',
        or_errmsg := Some ''circleWalletAddress not configured''\<rparr>"
    have row: "getOperation ?op (g_journal ?g1) = Some (row_of_record rec)"
      using cr by (simp add: created_def)
    obtain db where db: "finalizeOperation now ?op missing_wallet_fin (g_journal ?g1) = Inr db"
      by (simp add: finalizeOperation_def missing_wallet_fin_def)
    have g': "g' = ?g1\<lparr>g_ops := jsmap_set ?op ?failed (g_ops ?g1), g_journal := db\<rparr>"
      and out: "out = Returned (buildResult ?failed ?op None)"
      using run True db by (auto simp: launch_phase_def Let_def)
    have "gw_inv (fl - {?op}) g'"
      by (rule finalize_gw_inv [OF g1 db row])
         (auto simp: g' missing_wallet_fin_def row_of_record_def)
    moreover have "fl - {?op} = fl" using new by blast
    ultimately show ?thesis using out by simp
  next
    case False
    show ?thesis
    proof (cases "guard_phase guard agentId input now ?op p")
      case (Inl e)
      with run False g1 show ?thesis by (auto simp: launch_phase_def Let_def)
    next
      case (Inr q)
      with run False have out: "out = Launched ?op" and g': "g' = set_op_state ?op OpExecuting ?g1"
        by (auto simp: launch_phase_def Let_def)
      have "gw_inv (insert ?op fl) g'"
        by (rule gw_inv_put [OF g1, where op = ?op and rec = "rec\<lparr>or_state := OpExecuting\<rparr>"])
           (use synced_new [OF cr st, of "insert ?op fl"] in \<open>auto simp: g' set_op_state_def\<close>)
      with out show ?thesis by simp
    qed
  qed
qed

lemma begin_inv:
  assumes inv: "gw_inv fl g" and run: "execute_begin guard agentId input now op (g, p) = ((g', p'), out)"
    and new: "op \<notin> fl"
  shows "(out = Launched op \<longrightarrow> gw_inv (insert op fl) g') \<and> (out \<noteq> Launched op \<longrightarrow> gw_inv fl g')"
proof -
  obtain g1 o1 where ic: "index_check input g = (g1, o1)" by fastforce
  note inv1 = index_check_inv [OF inv ic]
  show ?thesis
  proof (cases o1)
    case (Some x)
    with run ic inv1 show ?thesis by (auto simp: execute_begin_def)
  next
    case None
    show ?thesis
    proof (cases "resolveChainId (gi_chain input) (gi_chainId input)")
      case (Inl e)
      with run ic inv1 None show ?thesis by (auto simp: execute_begin_def)
    next
      case (Inr c)
      let ?rec = "new_record agentId input now op c"
      have rec: "or_wallet ?rec = Some (gi_wallet input)" "or_state ?rec = OpCreated" "or_id ?rec = op"
        by (simp_all add: new_record_def)
      obtain g2 o2 where cp: "create_phase input ?rec g1 = (g2, o2)" by fastforce
      note inv2 = create_phase_inv [OF conjunct1 [OF inv1] cp rec(1,2)]
      show ?thesis
      proof (cases o2)
        case (Some x)
        with run ic None Inr cp inv2 show ?thesis by (auto simp: execute_begin_def Let_def)
      next
        case o2: None
        with run ic None Inr cp have
          "launch_phase guard agentId input now ?rec (g2, p) = ((g', p'), out)"
          by (auto simp: execute_begin_def Let_def)
        from launch_inv [OF _ _ rec(2) this] inv2 o2 new rec(3) show ?thesis by auto
      qed
    qed
  qed
qed

section \<open>Answers, reconciliation, receipts\<close>

lemma classify_states: "classifyCircleResult out \<notin> {OpCreated, OpPrepared, OpReserved, OpExecuting}"
  by (auto simp: classifyCircleResult_def classify_error_def Let_def split: sum.splits)

lemma finish_inv:
  assumes inv: "gw_inv fl g" and op: "op \<in> fl"
    and run: "execute_finish now op outcome g = (g', res)"
  shows "gw_inv (fl - {op}) g' \<and> (\<exists>r. res = Inr r)"
proof -
  let ?f = "finish_finalization outcome"
  obtain rec where rec: "map_of (g_ops g) op = Some rec" "or_state rec = OpExecuting"
    using inv op unfolding gw_inv_def flight_ok_def by blast
  from mem_okD [OF inv rec(1)] rec(2) obtain row where
    row: "getOperation op (g_journal g) = Some row" "opr_state row = OpCreated"
      "opr_key row = or_key rec" "opr_hash row = or_hash rec" and id: "or_id rec = op"
    unfolding synced_def by auto
  then obtain db where db: "finalizeOperation now op ?f (g_journal g) = Inr db"
    using finalize_ok by blast
  have fs: "fin_state ?f = classifyCircleResult outcome"
    by (simp add: finish_finalization_def Let_def)
  have ops: "g_ops g' = jsmap_set op (finish_record ?f rec) (g_ops g)" "g_journal g' = db"
    and res: "\<exists>r. res = Inr r"
    using run db rec by (auto simp: execute_finish_def Let_def split: sum.splits)
  have "gw_inv (fl - {op}) g'"
  proof (rule finalize_gw_inv [OF inv db row(1)])
    show "isTerminalOperationState (fin_state ?f) \<or> active row"
      using row(2) by (simp add: active_def)
    show "fin_state ?f \<notin> {OpPrepared, OpReserved, OpExecuting}"
      using classify_states [of outcome] by (simp add: fs)
  qed (use ops id row in \<open>auto simp: finish_record_def\<close>)
  with res show ?thesis by blast
qed

lemma reconcile_get:
  "getOperation k (reconcileOperation_j now op out d db) =
    (if k = op then map_option (reconcile_row now out d) (getOperation k db) else getOperation k db)"
  using keeps_reconcile [of now out d]
  unfolding reconcileOperation_j_def getOperation_def keeps_key_def
  by (auto simp: Let_def releaseLocks_def table_simps)

lemma reconcile_row_state [simp]: "opr_state (reconcile_row now out d r) = outcome_state out"
  by (cases out) (simp_all add: reconcile_row.simps)

lemma reconcile_record_sel [simp]:
  "or_state (reconcile_record now out d r) = outcome_state out"
  "or_id (reconcile_record now out d r) = or_id r" "or_key (reconcile_record now out d r) = or_key r"
  "or_hash (reconcile_record now out d r) = or_hash r"
  by (cases out; simp)+

lemma outcome_not_running [simp]: "outcome_state out \<notin> {OpCreated, OpPrepared, OpReserved, OpExecuting}"
  by (cases out) auto

lemma reconcile_broadcast_inv:
  assumes inv: "gw_inv fl g" and run: "reconcileBroadcast now op out d g = (g', res)"
  shows "gw_inv fl g'"
proof (cases "\<exists>rec. map_of (g_ops g) op = Some rec \<and> or_state rec \<in> {OpBroadcast, OpUnknown}")
  case False
  with inv run show ?thesis by (auto simp: reconcileBroadcast_def split: option.splits if_splits)
next
  case True
  then obtain rec where rec: "map_of (g_ops g) op = Some rec" "or_state rec \<in> {OpBroadcast, OpUnknown}"
    by blast
  then have g': "g' = g\<lparr>g_journal := reconcileOperation_j now op out d (g_journal g),
      g_ops := jsmap_set op (reconcile_record now out d rec) (g_ops g)\<rparr>"
    using run by (auto simp: reconcileBroadcast_def Let_def)
  from mem_okD [OF inv rec(1)] rec(2) obtain row where
    row: "getOperation op (g_journal g) = Some row" "opr_state row = or_state rec"
      "opr_key row = or_key rec" "opr_hash row = or_hash rec" and id: "or_id rec = op"
    unfolding synced_def by (auto split: if_splits)
  have nfl: "op \<notin> fl" by (rule row_not_flying [OF inv row(1)]) (use row(2) rec(2) in auto)
  have "finalizable op (outcome_state out) (g_journal g)"
    by (rule finalizable_row [OF inv row(1)]) (use row(2) rec(2) in \<open>auto simp: active_def\<close>)
  then have "journal_inv (g_journal g')"
    using reconcile_inv inv unfolding gw_inv_def g' by simp
  moreover have "states_ok (g_journal g')"
    using inv outcome_not_running [of out] unfolding gw_inv_def states_ok_def g'
    by (auto simp: reconcileOperation_j_def Let_def releaseLocks_def set_upd)
  moreover have "synced fl (g_journal g') k r" if r: "map_of (g_ops g') k = Some r" for k r
  proof (cases "k = op")
    case True
    have rk: "opr_key (reconcile_row now out d row) = opr_key row"
      "opr_hash (reconcile_row now out d row) = opr_hash row"
      using keeps_reconcile by (simp_all add: keeps_key_def)
    from True r have "r = reconcile_record now out d rec" by (simp add: g')
    with True row id rk outcome_not_running [of out] show ?thesis
      by (simp add: synced_def g' reconcile_get)
  next
    case False
    with r mem_okD [OF inv] have "synced fl (g_journal g) k r" by (simp add: g')
    then show ?thesis by (rule synced_frame) (use False in \<open>simp_all add: g' reconcile_get\<close>)
  qed
  moreover have "flight_ok fl g'"
    using inv nfl unfolding gw_inv_def flight_ok_def g' by auto
  ultimately show ?thesis by (simp add: gw_inv_def mem_ok_def)
qed

lemma receipt_inv:
  assumes inv: "gw_inv fl g" and op: "op \<notin> fl" and run: "storeReceipt now op rcpt g = (g', res)"
  shows "gw_inv fl g'"
proof (cases "getOperation op (g_journal g)")
  case None
  with inv run show ?thesis
    by (auto simp: storeReceipt_def finalizeOperation_def getOperation_def Let_def)
next
  case (Some row)
  let ?s = "case map_of (g_ops g) op of None \<Rightarrow> OpConfirmed | Some rec \<Rightarrow> or_state rec"
  let ?f = "\<lparr>fin_state = ?s, fin_tx = None, fin_errcode = None, fin_errmsg = None,
            fin_result = None, fin_receipt = Some rcpt\<rparr>"
  from Some obtain db where db: "finalizeOperation now op ?f (g_journal g) = Inr db"
    using finalize_ok by blast
  then have g': "g' = g\<lparr>g_journal := db\<rparr>" using run by (simp add: storeReceipt_def Let_def)
  have rec: "or_id rec = op \<and> or_key rec = opr_key row \<and> or_hash rec = opr_hash row
      \<and> or_state rec = opr_state row" if "map_of (g_ops g) op = Some rec" for rec
    using mem_okD [OF inv that] op Some unfolding synced_def by (auto split: if_splits)
  have row: "opr_state row \<notin> {OpPrepared, OpReserved, OpExecuting}"
    using inv get_mem [OF Some] unfolding gw_inv_def states_ok_def by blast
  have "gw_inv (fl - {op}) g'"
    by (rule finalize_gw_inv [OF inv db Some])
       (use rec row in \<open>auto simp: g' active_def split: option.splits\<close>)
  moreover have "fl - {op} = fl" using op by blast
  ultimately show ?thesis by simp
qed

section \<open>Restart\<close>

lemma remember_journal [simp]: "g_journal (remember rec g) = g_journal g"
  by (simp add: remember_def)

lemma remember_ops [simp]: "map_of (g_ops (remember rec g)) = (map_of (g_ops g))(or_id rec \<mapsto> rec)"
  by (simp add: remember_def)

lemma reload_confirmed_simps [simp]:
  "g_journal (reload_confirmed e g) = g_journal g"
  "map_of (g_ops (reload_confirmed e g)) = (map_of (g_ops g))(opr_id (fst e) \<mapsto> confirmed_record (fst e))"
  "g_index (reload_confirmed e g) = g_index (remember (confirmed_record (fst e)) g)"
  by (auto simp: reload_confirmed_def confirmed_record_def Let_def remember_def split: option.splits)

lemma loaded_confirmed:
  "e \<in> set (loadConfirmedResults n db) \<Longrightarrow> fst e \<in> set (j_ops db) \<and> opr_state (fst e) = OpConfirmed"
  by (auto simp: loadConfirmedResults_def dest!: in_set_takeD)

lemma loaded_reconcilable:
  "r \<in> set (getReconcilableOperations db) \<longleftrightarrow>
     r \<in> set (j_ops db) \<and> (opr_state r = OpBroadcast \<or> opr_state r = OpUnknown)"
  by (auto simp: getReconcilableOperations_def)

definition loaded_ok :: "journal \<Rightarrow> gateway \<Rightarrow> bool" where
  "loaded_ok db g \<longleftrightarrow> g_journal g = db \<and> mem_ok {} g"

lemma remember_loaded:
  "loaded_ok db g \<Longrightarrow> synced {} db (or_id rec) rec \<Longrightarrow> loaded_ok db (remember rec g)"
  by (auto simp: loaded_ok_def mem_ok_def)

lemma start_journal [simp]:
  "g_journal (gateway_start now db) = fst (recoverNonTerminalOperations now db)"
proof -
  have "g_journal (fold reload_confirmed es g) = g_journal g" for es g
    by (induction es arbitrary: g) simp_all
  moreover have "g_journal (fold (\<lambda>r. remember (reconcilable_record r)) rs g) = g_journal g" for rs g
    by (induction rs arbitrary: g) simp_all
  ultimately show ?thesis by (simp add: gateway_start_def reloadFromJournal_def Let_def)
qed

lemma start_loaded:
  assumes "journal_inv db"
  shows "loaded_ok (fst (recoverNonTerminalOperations now db)) (gateway_start now db)"
proof -
  let ?db = "fst (recoverNonTerminalOperations now db)"
  have inv: "journal_inv ?db" by (rule recover_inv [OF assms])
  let ?g0 = "\<lparr>g_ops = [], g_cache = [], g_index = [], g_journal = ?db\<rparr>"
  have get: "getOperation (opr_id r) ?db = Some r" if "r \<in> set (j_ops ?db)" for r
    using that get_iff [OF inv, of "opr_id r" r] by blast
  have s1: "synced {} ?db (or_id (confirmed_record r)) (confirmed_record r)"
    if "r \<in> set (j_ops ?db)" "opr_state r = OpConfirmed" for r
    using get [OF that(1)] that(2) unfolding synced_def by (simp add: confirmed_record_def)
  have s2: "synced {} ?db (or_id (reconcilable_record r)) (reconcilable_record r)"
    if "r \<in> set (j_ops ?db)" "opr_state r = OpBroadcast \<or> opr_state r = OpUnknown" for r
    using get [OF that(1)] that(2) unfolding synced_def by (auto simp: reconcilable_record_def)
  have cid: "or_id (confirmed_record r) = opr_id r" for r by (simp add: confirmed_record_def)
  have "loaded_ok ?db ?g0" by (simp add: loaded_ok_def mem_ok_def)
  then have "loaded_ok ?db (fold reload_confirmed (loadConfirmedResults MAX_RESULT_CACHE_ENTRIES ?db) ?g0)"
  proof (rule fold_invariant [where Q = "\<lambda>e :: op_row \<times> result_row option. fst e \<in> set (j_ops ?db) \<and> opr_state (fst e) = OpConfirmed", rotated])
    fix e :: "op_row \<times> result_row option" and g
    assume "fst e \<in> set (j_ops ?db) \<and> opr_state (fst e) = OpConfirmed" "loaded_ok ?db g"
    with s1 [of "fst e"] show "loaded_ok ?db (reload_confirmed e g)"
      by (auto simp: loaded_ok_def mem_ok_def cid)
  qed (use loaded_confirmed in blast)
  then show ?thesis
    unfolding gateway_start_def reloadFromJournal_def Let_def gateway.select_convs
    by (rule fold_invariant [where Q = "\<lambda>r. r \<in> set (j_ops ?db) \<and> (opr_state r = OpBroadcast \<or> opr_state r = OpUnknown)", rotated])
       (auto simp: loaded_reconcilable intro: remember_loaded s2)
qed

lemma recover_states: "states_ok db \<Longrightarrow> states_ok (fst (recoverNonTerminalOperations now db))"
  by (auto simp: states_ok_def recoverNonTerminalOperations_def fold_releaseLocks recovery_row_def)

lemma restart_inv: "gw_inv fl g \<Longrightarrow> gw_inv {} (gateway_start now (g_journal g))"
  using start_loaded [of "g_journal g" now] recover_inv recover_states
  by (simp add: gw_inv_def loaded_ok_def flight_ok_def)

section \<open>Reachable systems\<close>

definition sys_inv :: "'p gw_system \<Rightarrow> bool" where
  "sys_inv s \<longleftrightarrow> gw_inv (set (sys_inflight s)) (sys_gateway s)"

lemma sys_step_inv: "gw_step guard agentId s t \<Longrightarrow> sys_inv s \<Longrightarrow> sys_inv t"
proof (induction rule: gw_step.induct)
  case (request_returns op s input now g p out)
  then show ?case
    using begin_inv [where op = op and out = out] by (fastforce simp: sys_inv_def fresh_op_def)
next
  case (request_launches op s input now g p)
  then show ?case
    using begin_inv [where op = op and out = "Launched op"] by (fastforce simp: sys_inv_def fresh_op_def)
next
  case (wallet_answers op s now outcome g res)
  then show ?case using finish_inv by (fastforce simp: sys_inv_def)
next
  case (operator_reconciles now op outcome d s g res)
  then show ?case using reconcile_broadcast_inv by (fastforce simp: sys_inv_def)
next
  case (receipt_linked op s now rcpt g res)
  then show ?case using receipt_inv by (fastforce simp: sys_inv_def)
next
  case (restart s now)
  then show ?case using restart_inv by (fastforce simp: sys_inv_def)
qed

lemma sys_start_inv: "gw_initial s \<Longrightarrow> sys_inv s"
  by (simp add: gw_initial_def sys_inv_def gw_inv_def mem_ok_def flight_ok_def states_ok_def)
     (simp add: empty_journal_def)

interpretation gateway_runs: invariant_system gw_initial "gw_step guard agentId" sys_inv
  for guard agentId
  by unfold_locales (auto intro: sys_start_inv sys_step_inv)

end
