(* ===== verification/Gateway_Idempotence.thy ===== *)
theory Gateway_Idempotence
  imports Gateway_Safety
begin

text \<open>
  Idempotency of the gateway: the in-memory index only names operations with its key, a
  request reaches the wallet only when every earlier operation under its idempotency key
  had failed or been cancelled, and a confirmed operation is replayed.
\<close>

section \<open>The index\<close>

definition record_key :: "operation_record \<Rightarrow> string" where
  "record_key rec = compositeKey (or_key rec) (or_hash rec)"

definition input_key :: "gw_input \<Rightarrow> string" where
  "input_key input = compositeKey (gi_key input) (gi_hash input)"

definition index_ok :: "gateway \<Rightarrow> bool" where
  "index_ok g \<longleftrightarrow> (\<forall>c op. map_of (g_index g) c = Some op \<longrightarrow>
     (\<exists>rec. map_of (g_ops g) op = Some rec \<and> record_key rec = c))"

lemma index_okD:
  "index_ok g \<Longrightarrow> map_of (g_index g) c = Some op \<Longrightarrow>
     \<exists>rec. map_of (g_ops g) op = Some rec \<and> record_key rec = c"
  unfolding index_ok_def by blast

lemma composite_hash: "compositeKey k h = compositeKey k h' \<Longrightarrow> h = h'"
  by (simp add: compositeKey_def)

lemma forget_index:
  assumes "index_ok g" "\<And>rec. map_of (g_ops g) op = Some rec \<Longrightarrow> record_key rec = c"
  shows "index_ok (forget_operation c op g)"
  unfolding index_ok_def
proof (intro allI impI)
  fix c' k
  assume "map_of (g_index (forget_operation c op g)) c' = Some k"
  then have k: "map_of (g_index g) c' = Some k" "c' \<noteq> c"
    by (auto simp: forget_operation_def split: if_splits)
  from index_okD [OF assms(1) k(1)] obtain rec where
    rec: "map_of (g_ops g) k = Some rec" "record_key rec = c'" by blast
  with assms(2) k(2) have "k \<noteq> op" by blast
  with rec show "\<exists>rec. map_of (g_ops (forget_operation c op g)) k = Some rec \<and> record_key rec = c'"
    by (simp add: forget_ops)
qed

text \<open>Updates of a record that keep its key keep the index.\<close>

lemma index_ok_frame:
  assumes "index_ok g" "g_index g' = g_index g"
    "\<And>k rec. map_of (g_ops g) k = Some rec \<Longrightarrow>
       \<exists>rec'. map_of (g_ops g') k = Some rec' \<and> record_key rec' = record_key rec"
  shows "index_ok g'"
  unfolding index_ok_def assms(2) using index_okD [OF assms(1)] assms(3) by metis

lemma index_ok_add:
  assumes "index_ok g" "map_of (g_ops g') = (map_of (g_ops g))(op \<mapsto> rec)"
    "map_of (g_index g') = (map_of (g_index g))(record_key rec \<mapsto> op)"
    "\<And>r. map_of (g_ops g) op = Some r \<Longrightarrow> record_key r = record_key rec"
  shows "index_ok g'"
  unfolding index_ok_def
proof (intro allI impI)
  fix c k
  assume k: "map_of (g_index g') c = Some k"
  show "\<exists>r. map_of (g_ops g') k = Some r \<and> record_key r = c"
  proof (cases "c = record_key rec")
    case True
    with k assms(2,3) show ?thesis by simp
  next
    case False
    with k assms(3) have "map_of (g_index g) c = Some k" by simp
    from index_okD [OF assms(1) this] obtain r where
      r: "map_of (g_ops g) k = Some r" "record_key r = c" by blast
    with False assms(4) have "k \<noteq> op" by blast
    with r assms(2) show ?thesis by simp
  qed
qed

section \<open>What the checks before the launch may forget\<close>

definition forgets :: "gw_input \<Rightarrow> gateway \<Rightarrow> gateway \<Rightarrow> bool" where
  \<comment> \<open>at most one finished operation under the key of the input is forgotten\<close>
  "forgets input g g' \<longleftrightarrow> g' = g \<or>
     (\<exists>op row. getOperation op (g_journal g) = Some row \<and>
        (opr_state row = OpFailed \<or> opr_state row = OpCancelled) \<and>
        compositeKey (opr_key row) (opr_hash row) = input_key input \<and>
        g' = forget_operation (input_key input) op g)"

lemma synced_key: "synced fl db op rec \<Longrightarrow> getOperation op db = Some row \<Longrightarrow>
    record_key rec = compositeKey (opr_key row) (opr_hash row)"
  by (auto simp: synced_def record_key_def)

lemma index_check_forgets:
  assumes inv: "gw_inv fl g" and idx: "index_ok g" and run: "index_check input g = (g', out)"
  shows "forgets input g g'"
proof (cases "map_of (g_index g) (input_key input)")
  case None
  with run show ?thesis by (auto simp: index_check_def forgets_def input_key_def)
next
  case (Some op)
  from index_okD [OF idx this] obtain rec where
    rec: "map_of (g_ops g) op = Some rec" "record_key rec = input_key input" by blast
  note sy = mem_okD [OF inv rec(1)]
  then obtain row where row: "getOperation op (g_journal g) = Some row"
    and st: "or_state rec \<noteq> OpExecuting \<longrightarrow> opr_state row = or_state rec" and id: "or_id rec = op"
    unfolding synced_def by auto
  have "g' = g \<or> ((or_state rec = OpFailed \<or> or_state rec = OpCancelled) \<and>
      g' = forget_operation (input_key input) op g)"
    using run Some rec(1) id
    by (auto simp: index_check_def Let_def input_key_def split: if_splits)
  then show ?thesis
  proof
    assume new: "(or_state rec = OpFailed \<or> or_state rec = OpCancelled) \<and>
      g' = forget_operation (input_key input) op g"
    with st have "opr_state row = OpFailed \<or> opr_state row = OpCancelled" by auto
    moreover have "compositeKey (opr_key row) (opr_hash row) = input_key input"
      using synced_key [OF sy row] rec(2) by simp
    ultimately show ?thesis using new row unfolding forgets_def by blast
  qed (simp add: forgets_def)
qed

lemma find_idem:
  assumes "journal_inv db" "find (\<lambda>i. idr_key i = k \<and> idr_hash i = h) (j_idem db) = Some i"
  shows "\<exists>row. getOperation (idr_op i) db = Some row \<and> opr_key row = k \<and> opr_hash row = h"
proof -
  from assms(2) have "i \<in> set (j_idem db)" "idr_key i = k" "idr_hash i = h"
    by (auto simp: find_Some_iff)
  with assms(1) show ?thesis unfolding journal_inv_def idem_ok_def by blast
qed

lemma key_exists_row:
  assumes "journal_inv db" "createOperationWithLocks r locks db = Inr (db', IdempotencyKeyExists d)"
  shows "\<exists>row. d = Some row \<and> getOperation (opr_id row) db = Some row
     \<and> opr_key row = or_key r \<and> opr_hash row = or_hash r"
proof -
  from assms(2) obtain i where i: "find (\<lambda>i. idr_key i = or_key r \<and> idr_hash i = or_hash r) (j_idem db) = Some i"
    and d: "d = getOperation (idr_op i) db"
    by (auto simp: createOperationWithLocks_def insertOperation_def Let_def split: option.splits if_splits)
  from find_idem [OF assms(1) i] obtain row where
    row: "getOperation (idr_op i) db = Some row" "opr_key row = or_key r" "opr_hash row = or_hash r"
    by blast
  with get_mem [OF row(1)] d show ?thesis by auto
qed

text \<open>
  After the creation code the new operation is in the journal, and the rest of the gateway
  is what was there before, less the forgotten operation.
\<close>

abbreviation input_locks :: "gw_input \<Rightarrow> lock_request" where
  "input_locks input \<equiv> \<lparr>lq_wallet = Some (gi_wallet input), lq_job = gi_job input\<rparr>"

definition create_ok_from ::
  "lock_request \<Rightarrow> operation_record \<Rightarrow> gateway \<Rightarrow> gateway \<Rightarrow> bool" where
  "create_ok_from locks rec g g' \<longleftrightarrow> (\<exists>db. g' = g\<lparr>g_journal := db\<rparr> \<and>
     createOperationWithLocks rec locks (g_journal g) = Inr (db, CreateOk (or_id rec)))"

lemma create_id:
  "createOperationWithLocks r locks db = Inr (db', CreateOk op) \<Longrightarrow> op = or_id r"
  using create_get(2) by blast

lemma retry_create_from:
  "retry_create input rec locks g = (g', None) \<Longrightarrow> create_ok_from locks rec g g'"
  by (auto simp: retry_create_def create_ok_from_def dest: create_id
      split: sum.splits prod.splits create_result.splits)

lemma retry_create_fails:
  "retry_create input rec locks g = (g', Some out) \<Longrightarrow> g_ops g' = g_ops g \<and> g_index g' = g_index g"
  by (auto simp: retry_create_def split: sum.splits prod.splits create_result.splits)

lemma create_phase_forgets:
  assumes inv: "gw_inv fl g" and run: "create_phase input rec g = (g', out)"
    and key: "or_key rec = gi_key input" "or_hash rec = gi_hash input"
  shows "\<exists>g0. forgets input g g0 \<and> g_ops g' = g_ops g0 \<and> g_index g' = g_index g0 \<and>
     (out = None \<longrightarrow> create_ok_from (input_locks input) rec g0 g')"
proof -
  let ?locks = "\<lparr>lq_wallet = Some (gi_wallet input), lq_job = gi_job input\<rparr>"
  have self: "forgets input g g" by (simp add: forgets_def)
  have jinv: "journal_inv (g_journal g)" using inv by (simp add: gw_inv_def)
  show ?thesis
  proof (cases "createOperationWithLocks rec ?locks (g_journal g)")
    case (Inl e)
    with run self show ?thesis by (intro exI [of _ g]) (auto simp: create_phase_def)
  next
    case (Inr x)
    obtain db res where x: "x = (db, res)" by (cases x)
    note cr = Inr [unfolded x]
    show ?thesis
    proof (cases res)
      case (CreateOk op)
      with run cr self show ?thesis
        by (intro exI [of _ g]) (auto simp: create_phase_def create_ok_from_def dest: create_id)
    next
      case (IdempotencyKeyExists d)
      from key_exists_row [OF jinv cr [unfolded IdempotencyKeyExists]] obtain row where
        row: "d = Some row" "getOperation (opr_id row) (g_journal g) = Some row"
          "compositeKey (opr_key row) (opr_hash row) = input_key input"
        using key by (auto simp: input_key_def)
      have ph: "key_exists_phase input rec ?locks (Some row) g = (g', out)"
        using run cr IdempotencyKeyExists row(1) by (simp add: create_phase_def)
      show ?thesis
      proof (cases "opr_state row = OpFailed \<or> opr_state row = OpCancelled")
        case True
        let ?g0 = "forget_operation (input_key input) (opr_id row) g"
        have re: "retry_create input rec ?locks ?g0 = (g', out)"
          using ph True by (auto simp: key_exists_phase_def input_key_def)
        have "forgets input g ?g0" using row True unfolding forgets_def by blast
        moreover have "g_ops g' = g_ops ?g0 \<and> g_index g' = g_index ?g0 \<and> (out = None \<longrightarrow> create_ok_from ?locks rec ?g0 g')"
          using re retry_create_from [of input rec ?locks ?g0 g'] retry_create_fails [of input rec ?locks ?g0 g']
          by (cases out) (auto simp: create_ok_from_def)
        ultimately show ?thesis by blast
      next
        case False
        with ph self show ?thesis
          by (intro exI [of _ g]) (auto simp: key_exists_phase_def split: if_splits)
      qed
    qed (use run cr self in \<open>auto simp: create_phase_def\<close>)
  qed
qed

section \<open>The index invariant over the steps\<close>

lemma forgets_index:
  assumes "gw_inv fl g" "index_ok g" "forgets input g g0"
  shows "index_ok g0"
proof (cases "g0 = g")
  case False
  with assms(3) obtain op row where op: "getOperation op (g_journal g) = Some row"
      "compositeKey (opr_key row) (opr_hash row) = input_key input"
      "g0 = forget_operation (input_key input) op g"
    unfolding forgets_def by blast
  show ?thesis unfolding op(3)
    by (rule forget_index [OF assms(2)])
       (use op synced_key mem_okD [OF assms(1)] in metis)
qed (use assms(2) in simp)

lemma forgets_ops: "forgets input g g0 \<Longrightarrow> fst ` set (g_ops g0) \<subseteq> fst ` set (g_ops g)"
  by (auto simp: forgets_def forget_ops jsmap_delete_def)

lemma launch_index:
  assumes "index_ok g" "map_of (g_ops g) (or_id rec) = None"
    "or_key rec = gi_key input" "or_hash rec = gi_hash input"
    "launch_phase guard agentId input now rec (g, p) = ((g', p'), out)"
  shows "index_ok g'"
proof -
  let ?op = "or_id rec"
  let ?g1 = "g\<lparr>g_ops := jsmap_set ?op rec (g_ops g),
      g_index := jsmap_set (compositeKey (gi_key input) (gi_hash input)) ?op (g_index g)\<rparr>"
  have g1: "index_ok ?g1"
    by (rule index_ok_add [OF assms(1), where rec = rec and op = ?op])
       (use assms(2-4) in \<open>simp_all add: record_key_def\<close>)
  have step: "index_ok h" if "g_index h = g_index ?g1" "g_ops h = jsmap_set ?op r (g_ops ?g1)"
    "record_key r = record_key rec" for h r
    by (rule index_ok_frame [OF g1 that(1)]) (use that in auto)
  have "record_key (rec\<lparr>or_state := s\<rparr>) = record_key rec"
    "record_key (rec\<lparr>or_state := s, or_errcode := e, or_errmsg := m\<rparr>) = record_key rec" for s e m
    by (simp_all add: record_key_def)
  with assms(5) g1 show ?thesis
    by (auto simp: launch_phase_def Let_def set_op_state_def split: if_splits sum.splits
        intro!: step)
qed

lemma new_record_sel [simp]:
  "or_id (new_record a i n op c) = op" "or_key (new_record a i n op c) = gi_key i"
  "or_hash (new_record a i n op c) = gi_hash i" "or_state (new_record a i n op c) = OpCreated"
  "or_wallet (new_record a i n op c) = Some (gi_wallet i)"
  by (simp_all add: new_record_def)

text \<open>
  The part of a request before its launch, taken apart: \<open>g1\<close> after the index check,
  \<open>g2\<close> after the creation code.
\<close>

lemma begin_cases:
  assumes "execute_begin guard agentId input now op (g, p) = ((g', p'), out)"
  obtains (checked) out1 where "index_check input g = (g', Some out1)" "p' = p" "out = out1"
  | (chain) e where "index_check input g = (g', None)" "p' = p" "out = Threw e"
  | (refused) g1 c where "index_check input g = (g1, None)" "p' = p"
      "create_phase input (new_record agentId input now op c) g1 = (g', Some out)"
  | (launched) g1 g2 c where "index_check input g = (g1, None)"
      "create_phase input (new_record agentId input now op c) g1 = (g2, None)"
      "launch_phase guard agentId input now (new_record agentId input now op c) (g2, p) = ((g', p'), out)"
proof -
  obtain g1 o1 where ic: "index_check input g = (g1, o1)" by fastforce
  show thesis
  proof (cases o1)
    case (Some x)
    with assms ic checked show thesis by (auto simp: execute_begin_def)
  next
    case None
    show thesis
    proof (cases "resolveChainId (gi_chain input) (gi_chainId input)")
      case (Inl e)
      with assms ic None chain show thesis by (auto simp: execute_begin_def)
    next
      case (Inr c)
      obtain g2 o2 where cp: "create_phase input (new_record agentId input now op c) g1 = (g2, o2)"
        by fastforce
      with assms ic None Inr refused [of g1 c] launched [of g1 c g2] show thesis
        by (cases o2) (auto simp: execute_begin_def Let_def)
    qed
  qed
qed

lemma index_frame_eq: "index_ok g \<Longrightarrow> g_ops g' = g_ops g \<Longrightarrow> g_index g' = g_index g \<Longrightarrow> index_ok g'"
  by (simp add: index_ok_def)

lemma begin_index:
  assumes inv: "gw_inv fl g" and idx: "index_ok g" and new: "op \<notin> fst ` set (g_ops g)"
    and run: "execute_begin guard agentId input now op (g, p) = ((g', p'), out)"
  shows "index_ok g'"
proof -
  have ic: "index_ok g1 \<and> gw_inv fl g1 \<and> fst ` set (g_ops g1) \<subseteq> fst ` set (g_ops g)"
    if "index_check input g = (g1, o1)" for g1 o1
    using forgets_index [OF inv idx] index_check_forgets [OF inv idx that] forgets_ops
      index_check_inv [OF inv that] by blast
  have cp: "index_ok g2 \<and> map_of (g_ops g2) op = None"
    if g1: "index_check input g = (g1, None)"
      and g2: "create_phase input (new_record agentId input now op c) g1 = (g2, o2)" for g1 g2 c o2
  proof -
    from create_phase_forgets [where fl = fl, OF _ g2] ic [OF g1] obtain g0 where
      g0: "forgets input g1 g0" "g_ops g2 = g_ops g0" "g_index g2 = g_index g0" by auto
    have "fst ` set (g_ops g2) \<subseteq> fst ` set (g_ops g)"
      using forgets_ops [OF g0(1)] ic [OF g1] g0(2) by auto
    with new have "map_of (g_ops g2) op = None" by (auto simp: map_of_eq_None_iff)
    moreover have "index_ok g2"
      using forgets_index [OF _ _ g0(1)] ic [OF g1] index_frame_eq [OF _ g0(2,3)] by blast
    ultimately show ?thesis by blast
  qed
  from run show ?thesis
  proof (cases rule: begin_cases)
    case (launched g1 g2 c)
    with cp [OF launched(1,2)] launch_index [OF _ _ _ _ launched(3)] show ?thesis by simp
  qed (use ic cp in blast)+
qed

lemma finish_index:
  assumes "index_ok g" "execute_finish now op outcome g = (g', res)"
  shows "index_ok g'"
proof (rule index_ok_frame [OF assms(1)])
  show "g_index g' = g_index g"
    using assms(2) by (auto simp: execute_finish_def Let_def split: sum.splits option.splits)
  fix k rec
  assume "map_of (g_ops g) k = Some rec"
  with assms(2) show "\<exists>rec'. map_of (g_ops g') k = Some rec' \<and> record_key rec' = record_key rec"
    by (auto simp: execute_finish_def Let_def record_key_def finish_record_def
        split: sum.splits option.splits)
qed

lemma reconcile_index:
  assumes "index_ok g" "reconcileBroadcast now op outcome d g = (g', res)"
  shows "index_ok g'"
proof (rule index_ok_frame [OF assms(1)])
  show "g_index g' = g_index g"
    using assms(2) by (auto simp: reconcileBroadcast_def Let_def split: option.splits if_splits)
  fix k rec
  assume "map_of (g_ops g) k = Some rec"
  with assms(2) show "\<exists>rec'. map_of (g_ops g') k = Some rec' \<and> record_key rec' = record_key rec"
    by (auto simp: reconcileBroadcast_def Let_def record_key_def split: option.splits if_splits)
qed

lemma receipt_index: "index_ok g \<Longrightarrow> storeReceipt now op rcpt g = (g', res) \<Longrightarrow> index_ok g'"
  by (auto simp: storeReceipt_def Let_def index_ok_def split: sum.splits)

text \<open>Restart: every remembered record carries the key of its journal row.\<close>

definition loaded :: "journal \<Rightarrow> gateway \<Rightarrow> bool" where
  "loaded db g \<longleftrightarrow> loaded_ok db g \<and> index_ok g"

lemma remember_loaded_index:
  assumes "loaded db g" "synced {} db (or_id rec) rec"
    "g_ops g' = g_ops (remember rec g)" "g_index g' = g_index (remember rec g)" "g_journal g' = g_journal g"
  shows "loaded db g'"
proof -
  have "loaded_ok db g'"
    using assms by (auto simp: loaded_def loaded_ok_def mem_ok_def)
  moreover have "index_ok g'"
  proof (rule index_ok_add)
    show "index_ok g" using assms(1) by (simp add: loaded_def)
    show "map_of (g_ops g') = (map_of (g_ops g))(or_id rec \<mapsto> rec)" by (simp add: assms(3))
    show "map_of (g_index g') = (map_of (g_index g))(record_key rec \<mapsto> or_id rec)"
      by (simp add: assms(4) remember_def record_key_def)
    fix r
    assume "map_of (g_ops g) (or_id rec) = Some r"
    with assms(1) have "synced {} db (or_id rec) r" by (auto simp: loaded_def loaded_ok_def mem_ok_def)
    with assms(2) show "record_key r = record_key rec" by (auto simp: synced_def record_key_def)
  qed
  ultimately show ?thesis by (simp add: loaded_def)
qed

lemma start_index:
  assumes "journal_inv db"
  shows "index_ok (gateway_start now db)"
proof -
  let ?db = "fst (recoverNonTerminalOperations now db)"
  have inv: "journal_inv ?db" by (rule recover_inv [OF assms])
  let ?g0 = "\<lparr>g_ops = [], g_cache = [], g_index = [], g_journal = ?db\<rparr>"
  have get: "getOperation (opr_id r) ?db = Some r" if "r \<in> set (j_ops ?db)" for r
    using that get_iff [OF inv, of "opr_id r" r] by blast
  have s1: "synced {} ?db (or_id (confirmed_record r)) (confirmed_record r)"
    if "r \<in> set (j_ops ?db)" "opr_state r = OpConfirmed" for r
    using get [OF that(1)] that(2) unfolding synced_def by (simp add: confirmed_record_def)
  have s2: "synced {} ?db (or_id (reconcilable_record r)) (reconcilable_record r)"
    if "r \<in> set (j_ops ?db)" "opr_state r = OpBroadcast \<or> opr_state r = OpUnknown" for r
    using get [OF that(1)] that(2) unfolding synced_def by (auto simp: reconcilable_record_def)
  have ops: "g_ops (reload_confirmed e g) = g_ops (remember (confirmed_record (fst e)) g)" for e g
    by (auto simp: reload_confirmed_def Let_def split: option.splits)
  have "loaded ?db ?g0" by (simp add: loaded_def loaded_ok_def mem_ok_def index_ok_def)
  then have "loaded ?db (fold reload_confirmed (loadConfirmedResults MAX_RESULT_CACHE_ENTRIES ?db) ?g0)"
  proof (rule fold_invariant [where Q = "\<lambda>e :: op_row \<times> result_row option. fst e \<in> set (j_ops ?db) \<and> opr_state (fst e) = OpConfirmed", rotated])
    fix e :: "op_row \<times> result_row option" and g
    assume e: "fst e \<in> set (j_ops ?db) \<and> opr_state (fst e) = OpConfirmed" and g: "loaded ?db g"
    show "loaded ?db (reload_confirmed e g)"
      by (rule remember_loaded_index [OF g s1 [OF conjunct1 [OF e] conjunct2 [OF e]] ops
          reload_confirmed_simps(3) reload_confirmed_simps(1)])
  qed (use loaded_confirmed in blast)
  then have "loaded ?db (fold (\<lambda>r. remember (reconcilable_record r)) (getReconcilableOperations ?db)
      (fold reload_confirmed (loadConfirmedResults MAX_RESULT_CACHE_ENTRIES ?db) ?g0))"
  proof (rule fold_invariant [where Q = "\<lambda>r. r \<in> set (j_ops ?db) \<and> (opr_state r = OpBroadcast \<or> opr_state r = OpUnknown)", rotated])
    fix r g
    assume r: "r \<in> set (j_ops ?db) \<and> (opr_state r = OpBroadcast \<or> opr_state r = OpUnknown)"
      and g: "loaded ?db g"
    show "loaded ?db (remember (reconcilable_record r) g)"
      by (rule remember_loaded_index [OF g s2 [OF conjunct1 [OF r] conjunct2 [OF r]] refl refl
          remember_journal])
  qed (simp add: loaded_reconcilable)
  then have "loaded ?db (gateway_start now db)"
    by (simp add: gateway_start_def reloadFromJournal_def Let_def)
  then show ?thesis by (simp add: loaded_def)
qed

definition idem_inv :: "'p gw_system \<Rightarrow> bool" where
  "idem_inv s \<longleftrightarrow> sys_inv s \<and> index_ok (sys_gateway s)"

lemma idem_step:
  assumes "gw_step guard agentId s t" "idem_inv s"
  shows "idem_inv t"
proof -
  from assms have inv: "gw_inv (set (sys_inflight s)) (sys_gateway s)"
    and idx: "index_ok (sys_gateway s)" by (simp_all add: idem_inv_def sys_inv_def)
  from assms(1) have "index_ok (sys_gateway t)"
  proof cases
    case (request_returns op input now g p out)
    have "op \<notin> fst ` set (g_ops (sys_gateway s))"
      using request_returns(2) by (simp add: fresh_op_def)
    from begin_index [OF inv idx this request_returns(3)] request_returns(1) show ?thesis by simp
  next
    case (request_launches op input now g p)
    have "op \<notin> fst ` set (g_ops (sys_gateway s))"
      using request_launches(2) by (simp add: fresh_op_def)
    from begin_index [OF inv idx this request_launches(3)] request_launches(1) show ?thesis by simp
  next
    case (wallet_answers op now outcome g res)
    with finish_index [OF idx] show ?thesis by simp
  next
    case (operator_reconciles now op outcome d g res)
    with reconcile_index [OF idx] show ?thesis by simp
  next
    case (receipt_linked op now rcpt g res)
    with receipt_index [OF idx] show ?thesis by simp
  next
    case (restart now)
    with start_index inv show ?thesis by (simp add: gw_inv_def)
  qed
  moreover have "sys_inv t"
    by (rule sys_step_inv [OF assms(1)]) (use assms(2) in \<open>simp add: idem_inv_def\<close>)
  ultimately show ?thesis by (simp add: idem_inv_def)
qed

interpretation idempotent_runs: invariant_system gw_initial "gw_step guard agentId" idem_inv
  for guard agentId
proof unfold_locales
  fix s :: "'a gw_system"
  assume "gw_initial s"
  then show "idem_inv s"
    using sys_start_inv by (simp add: idem_inv_def gw_initial_def index_ok_def)
qed (rule idem_step)

section \<open>At most once\<close>

lemma forgets_rows:
  assumes "gw_inv fl g" "forgets input g g0" "row \<in> set (j_ops (g_journal g))" "opr_key row = gi_key input"
  shows "row \<in> set (j_ops (g_journal g0)) \<or>
    (opr_hash row = gi_hash input \<and> (opr_state row = OpFailed \<or> opr_state row = OpCancelled))"
proof (cases "g0 = g")
  case False
  with assms(2) obtain op r where op: "getOperation op (g_journal g) = Some r"
      "opr_state r = OpFailed \<or> opr_state r = OpCancelled"
      "compositeKey (opr_key r) (opr_hash r) = input_key input"
      "g0 = forget_operation (input_key input) op g"
    unfolding forgets_def by blast
  have inv: "journal_inv (g_journal g)" using assms(1) by (simp add: gw_inv_def)
  show ?thesis
  proof (cases "opr_id row = op")
    case True
    with get_iff [OF inv, of op row] op(1) assms(3) have "r = row" by simp
    with op(2,3) assms(4) composite_hash show ?thesis by (auto simp: input_key_def)
  next
    case False
    with assms(3) show ?thesis by (simp add: op(4) forget_operation_def deleteOperation_def)
  qed
qed (use assms(3) in simp)

lemma idem_of_row:
  assumes "journal_inv db" "row \<in> set (j_ops db)"
  shows "\<exists>i\<in>set (j_idem db). idr_key i = opr_key row \<and> idr_hash i = opr_hash row"
proof -
  from assms obtain i where i: "i \<in> set (j_idem db)" "idr_op i = opr_id row"
    unfolding journal_inv_def idem_ok_def by blast
  with assms(1) obtain r where r: "getOperation (opr_id row) db = Some r" "opr_key r = idr_key i" "opr_hash r = idr_hash i"
    unfolding journal_inv_def idem_ok_def by metis
  have "getOperation (opr_id row) db = Some row"
    using get_iff [OF assms(1), of "opr_id row" row] assms(2) by blast
  with r i(1) show ?thesis by auto
qed

lemma create_fresh_key:
  assumes "journal_inv db" "createOperationWithLocks r locks db = Inr (db', CreateOk op)" "row \<in> set (j_ops db)"
  shows "opr_key row \<noteq> or_key r"
proof
  assume key: "opr_key row = or_key r"
  from idem_of_row [OF assms(1,3)] obtain i where i: "i \<in> set (j_idem db)" "idr_key i = or_key r"
    using key by auto
  from assms(2) have
    "find (\<lambda>i. idr_key i = or_key r \<and> idr_hash i = or_hash r) (j_idem db) = None"
    "find (\<lambda>i. idr_key i = or_key r \<and> idr_hash i \<noteq> or_hash r) (j_idem db) = None"
    by (auto simp: createOperationWithLocks_def split: option.splits)
  with i show False unfolding find_None_iff by blast
qed

lemma launch_at_most_once:
  assumes inv: "gw_inv fl g" and idx: "index_ok g"
    and run: "execute_begin guard agentId input now op (g, p) = ((g', p'), Launched k)"
    and row: "row \<in> set (j_ops (g_journal g))" "opr_key row = gi_key input"
  shows "opr_hash row = gi_hash input \<and> (opr_state row = OpFailed \<or> opr_state row = OpCancelled)"
  using run
proof (cases rule: begin_cases)
  case (checked out1)
  with index_check_inv [OF inv] show ?thesis by blast
next
  case (refused g1 c)
  have "gw_inv fl g1" using index_check_inv [OF inv refused(1)] by blast
  from create_phase_inv [OF this refused(3)] show ?thesis by simp
next
  case (launched g1 g2 c)
  from index_check_forgets [OF inv idx launched(1)] have f1: "forgets input g g1" .
  have inv1: "gw_inv fl g1" using index_check_inv [OF inv launched(1)] by blast
  from create_phase_forgets [OF inv1 launched(2)] obtain g0 where
    f2: "forgets input g1 g0" and cr: "create_ok_from (input_locks input) (new_record agentId input now op c) g0 g2"
    by (simp del: split_paired_Ex) blast
  show ?thesis
  proof (rule ccontr)
    assume "\<not> ?thesis"
    with forgets_rows [OF inv f1 row] have "row \<in> set (j_ops (g_journal g1))" by blast
    with forgets_rows [OF inv1 f2 _ row(2)] \<open>\<not> ?thesis\<close> have r0: "row \<in> set (j_ops (g_journal g0))" by blast
    from f2 inv1 have "journal_inv (g_journal g0)"
      using delete_inv by (auto simp: forgets_def gw_inv_def forget_operation_def)
    from cr obtain db where
      "createOperationWithLocks (new_record agentId input now op c) (input_locks input) (g_journal g0) = Inr (db, CreateOk op)"
      by (auto simp: create_ok_from_def)
    from create_fresh_key [OF \<open>journal_inv _\<close> this r0] row(2) show False by simp
  qed
qed (use run in simp)

section \<open>Replay\<close>

lemma row_of_key:
  assumes inv: "journal_inv db" and r: "r \<in> set (j_ops db)" "r' \<in> set (j_ops db)"
    and key: "compositeKey (opr_key r) (opr_hash r) = compositeKey (opr_key r') (opr_hash r')"
  shows "r = r'"
proof -
  obtain i i' where i: "i \<in> set (j_idem db)" "idr_op i = opr_id r"
    and i': "i' \<in> set (j_idem db)" "idr_op i' = opr_id r'"
    using inv r unfolding journal_inv_def idem_ok_def by metis
  have comp: "idr_composite j = compositeKey (opr_key q) (opr_hash q)"
    if j: "j \<in> set (j_idem db)" "idr_op j = opr_id q" "q \<in> set (j_ops db)" for j q
  proof -
    from inv j(1) obtain q' where "getOperation (opr_id q) db = Some q'"
        "opr_key q' = idr_key j" "opr_hash q' = idr_hash j" "idr_composite j = compositeKey (idr_key j) (idr_hash j)"
      using j(2) unfolding journal_inv_def idem_ok_def by metis
    moreover have "getOperation (opr_id q) db = Some q"
      using get_iff [OF inv, of "opr_id q" q] j(3) by blast
    ultimately show ?thesis by simp
  qed
  have "idr_composite i = idr_composite i'"
    using comp [OF i r(1)] comp [OF i' r(2)] key by simp
  with inv i(1) i'(1) have "i = i'"
    unfolding journal_inv_def keys_ok_def by (auto simp: distinct_map dest: inj_onD)
  with i i' have "opr_id r = opr_id r'" by simp
  with inv r show ?thesis
    unfolding journal_inv_def keys_ok_def by (auto simp: distinct_map dest: inj_onD)
qed

lemma find_idem_row:
  assumes inv: "journal_inv db" and r: "r \<in> set (j_ops db)" "opr_key r = k" "opr_hash r = h"
  shows "\<exists>i. find (\<lambda>i. idr_key i = k \<and> idr_hash i = h) (j_idem db) = Some i \<and>
     getOperation (idr_op i) db = Some r"
proof -
  from idem_of_row [OF inv r(1)] r have "find (\<lambda>i. idr_key i = k \<and> idr_hash i = h) (j_idem db) \<noteq> None"
    unfolding find_None_iff by metis
  then obtain i where i: "find (\<lambda>i. idr_key i = k \<and> idr_hash i = h) (j_idem db) = Some i" by blast
  from find_idem [OF inv i] obtain row where
    row: "getOperation (idr_op i) db = Some row" "opr_key row = k" "opr_hash row = h" by blast
  have "row = r"
    by (rule row_of_key [OF inv _ r(1)]) (use get_mem [OF row(1)] row r in auto)
  with i row(1) show ?thesis by blast
qed

lemma begin_replays:
  assumes inv: "gw_inv fl g" and idx: "index_ok g" and chain: "resolveChainId (gi_chain input) (gi_chainId input) = Inr c"
    and row: "row \<in> set (j_ops (g_journal g))" "opr_key row = gi_key input" "opr_hash row = gi_hash input"
      "opr_state row = OpConfirmed" "opr_id row \<noteq> []"
  shows "\<exists>tx cached. execute_begin guard agentId input now op (g, p) =
     ((g, p), Returned (replayResult (opr_id row) tx cached))"
proof -
  have jinv: "journal_inv (g_journal g)" using inv by (simp add: gw_inv_def)
  show ?thesis
  proof (cases "\<exists>ex. map_of (g_index g) (input_key input) = Some ex \<and> ex \<noteq> []")
    case True
    then obtain ex where ex: "map_of (g_index g) (input_key input) = Some ex" "ex \<noteq> []" by blast
    from index_okD [OF idx ex(1)] obtain rec where
      rec: "map_of (g_ops g) ex = Some rec" "record_key rec = input_key input" by blast
    from mem_okD [OF inv rec(1)] obtain row' where
      row': "getOperation ex (g_journal g) = Some row'" "opr_key row' = or_key rec" "opr_hash row' = or_hash rec"
        "if or_state rec = OpExecuting then ex \<in> fl \<and> opr_state row' = OpCreated else opr_state row' = or_state rec"
        "or_id rec = ex"
      unfolding synced_def by blast
    have "row' = row"
      by (rule row_of_key [OF jinv _ row(1)])
         (use get_mem [OF row'(1)] row' row rec(2) in \<open>auto simp: record_key_def input_key_def\<close>)
    with row' row get_mem [OF row'(1)] have "or_state rec = OpConfirmed" "ex = opr_id row"
      by (auto split: if_splits)
    with ex rec(1) row'(5) have "index_check input g =
        (g, Some (Returned (replayResult (opr_id row) (or_tx rec) (map_of (g_cache g) (opr_id row)))))"
      by (simp add: index_check_def Let_def input_key_def)
    then show ?thesis by (auto simp: execute_begin_def)
  next
    case False
    then have ic: "index_check input g = (g, None)"
      by (auto simp: index_check_def Let_def input_key_def split: option.splits)
    from find_idem_row [OF jinv row(1,2,3)] obtain i where
      i: "find (\<lambda>i. idr_key i = gi_key input \<and> idr_hash i = gi_hash input) (j_idem (g_journal g)) = Some i"
        "getOperation (idr_op i) (g_journal g) = Some row" by blast
    then have "create_phase input (new_record agentId input now op c) g =
        (g, Some (Returned (replayResult (opr_id row) (opr_tx row) (map_of (g_cache g) (opr_id row)))))"
      using row(4) by (simp add: create_phase_def createOperationWithLocks_def key_exists_phase_def)
    with ic chain show ?thesis by (auto simp: execute_begin_def Let_def)
  qed
qed

section \<open>Wallet calls in flight\<close>

lemma inflight_rows:
  assumes inv: "gw_inv fl g" and ops: "op \<in> fl" "op' \<in> fl" "op \<noteq> op'"
    and rows: "getOperation op (g_journal g) = Some r" "getOperation op' (g_journal g) = Some r'"
  shows "opr_key r \<noteq> opr_key r'"
    and "opr_wallet r = Some w \<Longrightarrow> opr_wallet r' = Some w' \<Longrightarrow> w \<noteq> [] \<Longrightarrow> toLowerCase w \<noteq> toLowerCase w'"
proof -
  have jinv: "journal_inv (g_journal g)" using inv by (simp add: gw_inv_def)
  have st: "opr_state r = OpCreated" "opr_state r' = OpCreated"
    using flight_row [OF inv ops(1)] flight_row [OF inv ops(2)] rows by auto
  have mem: "r \<in> set (j_ops (g_journal g))" "r' \<in> set (j_ops (g_journal g))" "r \<noteq> r'"
    using get_mem [OF rows(1)] get_mem [OF rows(2)] ops(3) by auto
  show "opr_key r \<noteq> opr_key r'"
  proof
    assume eq: "opr_key r = opr_key r'"
    from idem_of_row [OF jinv mem(1)] obtain i where i: "i \<in> set (j_idem (g_journal g))"
      "idr_key i = opr_key r" "idr_hash i = opr_hash r" by blast
    from idem_of_row [OF jinv mem(2)] obtain i' where i': "i' \<in> set (j_idem (g_journal g))"
      "idr_key i' = opr_key r'" "idr_hash i' = opr_hash r'" by blast
    have "inj_on idr_key (set (j_idem (g_journal g)))"
      using jinv unfolding journal_inv_def keys_ok_def by (simp add: distinct_map)
    with i i' eq have "i = i'" by (metis inj_onD)
    with i i' eq row_of_key [OF jinv mem(1,2)] mem(3) show False by auto
  qed
  show "opr_wallet r = Some w \<Longrightarrow> opr_wallet r' = Some w' \<Longrightarrow> w \<noteq> [] \<Longrightarrow> toLowerCase w \<noteq> toLowerCase w'"
    using wallet_exclusive [OF jinv mem(1,2)] st mem(3) by (auto simp: active_def)
qed

end
