(* ===== verification/Calendar.thy ===== *)
theory Calendar
  imports Main
begin

text \<open>
  The UTC calendar of \<open>Date\<close>, as ECMAScript defines it on milliseconds since 1970: the
  getters \<open>getUTCFullYear\<close>, \<open>getUTCMonth\<close> and \<open>getUTCDate\<close>. Times are never before 1970.
  Three fields together name one day.
\<close>

definition day_of_ms :: "nat \<Rightarrow> int" where
  "day_of_ms ms = int ms div 86400000"

definition leap :: "int \<Rightarrow> bool" where
  "leap y \<longleftrightarrow> y mod 4 = 0 \<and> (y mod 100 \<noteq> 0 \<or> y mod 400 = 0)"

definition year_days :: "int \<Rightarrow> int" where
  "year_days y = (if leap y then 366 else 365)"

definition month_days :: "int \<Rightarrow> int list" where
  "month_days y = [31, (if leap y then 29 else 28), 31, 30, 31, 30, 31, 31, 30, 31, 30, 31]"

text \<open>\<open>year_from y d\<close>: the year and the day within it, \<open>d\<close> days after the start of \<open>y\<close>.\<close>

function year_from :: "int \<Rightarrow> int \<Rightarrow> int \<times> int" where
  "year_from y d = (if d < year_days y then (y, d) else year_from (y + 1) (d - year_days y))"
  by pat_completeness auto
termination by (relation "measure (nat \<circ> snd)") (auto simp: year_days_def split: if_splits)

declare year_from.simps [simp del]

fun month_from :: "int list \<Rightarrow> int \<Rightarrow> nat \<times> int" where
  "month_from [] d = (0, d)"
| "month_from (m # ms) d = (if d < m then (0, d) else (case month_from ms (d - m) of (k, e) \<Rightarrow> (Suc k, e)))"

definition getUTCFullYear :: "nat \<Rightarrow> int" where
  "getUTCFullYear ms = fst (year_from 1970 (day_of_ms ms))"

definition year_day :: "nat \<Rightarrow> int" where
  "year_day ms = snd (year_from 1970 (day_of_ms ms))"

definition getUTCMonth :: "nat \<Rightarrow> nat" where
  "getUTCMonth ms = fst (month_from (month_days (getUTCFullYear ms)) (year_day ms))"

definition getUTCDate :: "nat \<Rightarrow> int" where
  "getUTCDate ms = snd (month_from (month_days (getUTCFullYear ms)) (year_day ms)) + 1"

section \<open>The fields of a date name its day\<close>

lemma year_from_days:
  "year_from y d = (y', e) \<Longrightarrow> 0 \<le> d \<Longrightarrow>
     y \<le> y' \<and> 0 \<le> e \<and> e < year_days y' \<and> d = sum year_days {y..<y'} + e"
proof (induction y d rule: year_from.induct)
  case (1 y d)
  show ?case
  proof (cases "d < year_days y")
    case True
    with "1.prems" show ?thesis by (simp add: year_from.simps [of y d])
  next
    case False
    with "1.prems" have "year_from (y + 1) (d - year_days y) = (y', e)"
      by (simp add: year_from.simps [of y d])
    from "1.IH" [OF False this] False have ih: "y + 1 \<le> y'" "0 \<le> e" "e < year_days y'"
      "d - year_days y = sum year_days {y + 1..<y'} + e" by auto
    have "{y..<y'} = insert y {y + 1..<y'}" using ih(1) by auto
    with ih show ?thesis by simp
  qed
qed

lemma month_from_days: "month_from ms d = (k, e) \<Longrightarrow> d = sum_list (take k ms) + e"
proof (induction ms d arbitrary: k rule: month_from.induct)
  case (2 m ms d)
  then show ?case by (cases k) (auto split: if_splits prod.splits)
qed simp

theorem same_day_iff:
  "day_of_ms a = day_of_ms b \<longleftrightarrow> getUTCFullYear a = getUTCFullYear b
     \<and> getUTCMonth a = getUTCMonth b \<and> getUTCDate a = getUTCDate b"
proof
  assume eq: "getUTCFullYear a = getUTCFullYear b
     \<and> getUTCMonth a = getUTCMonth b \<and> getUTCDate a = getUTCDate b"
  then have "month_from (month_days (getUTCFullYear a)) (year_day a)
      = month_from (month_days (getUTCFullYear a)) (year_day b)"
    by (auto simp: getUTCMonth_def getUTCDate_def intro!: prod_eqI)
  then have "year_day a = year_day b" by (metis month_from_days surj_pair)
  with eq have eq': "year_from 1970 (day_of_ms a) = year_from 1970 (day_of_ms b)"
    by (simp add: getUTCFullYear_def year_day_def prod_eq_iff)
  obtain y e where "year_from 1970 (day_of_ms a) = (y, e)" by fastforce
  with eq' year_from_days [of 1970 "day_of_ms a" y e] year_from_days [of 1970 "day_of_ms b" y e]
  show "day_of_ms a = day_of_ms b" by (simp add: day_of_ms_def)
qed (simp add: getUTCFullYear_def getUTCMonth_def getUTCDate_def year_day_def)

lemma month_from_le:
  "month_from ms d = (k, e) \<Longrightarrow> 0 \<le> d \<Longrightarrow> d < sum_list ms \<Longrightarrow> k < length ms \<and> 0 \<le> e \<and> e < ms ! k"
proof (induction ms d arbitrary: k rule: month_from.induct)
  case (2 m ms d)
  then show ?case by (cases k) (auto split: if_splits prod.splits)
qed simp

lemma year_day_bounds: "0 \<le> year_day ms" "year_day ms < year_days (getUTCFullYear ms)"
proof -
  obtain y e where ye: "year_from 1970 (day_of_ms ms) = (y, e)" by fastforce
  have "0 \<le> day_of_ms ms" by (simp add: day_of_ms_def)
  note days = year_from_days [OF ye this]
  have "year_day ms = e" "getUTCFullYear ms = y" by (simp_all add: getUTCFullYear_def year_day_def ye)
  with days show "0 \<le> year_day ms" "year_day ms < year_days (getUTCFullYear ms)" by simp_all
qed

lemma month_bounds: "getUTCMonth ms < 12" "1 \<le> getUTCDate ms" "getUTCDate ms \<le> 31"
proof -
  obtain k e where m: "month_from (month_days (getUTCFullYear ms)) (year_day ms) = (k, e)" by fastforce
  have "sum_list (month_days y) = year_days y" for y
    by (simp add: month_days_def year_days_def)
  then have ke: "k < length (month_days (getUTCFullYear ms))" "0 \<le> e"
      "e < month_days (getUTCFullYear ms) ! k"
    using month_from_le [OF m] year_day_bounds [of ms] by simp_all
  have "month_days (getUTCFullYear ms) ! k \<le> 31"
  proof -
    have "\<forall>d\<in>set (month_days y). d \<le> 31" for y by (simp add: month_days_def)
    with ke(1) show ?thesis by (meson nth_mem)
  qed
  with m ke show "getUTCMonth ms < 12" "1 \<le> getUTCDate ms" "getUTCDate ms \<le> 31"
    by (simp_all add: getUTCMonth_def getUTCDate_def month_days_def)
qed

end
