(* ===== verification/Spend_Policy.thy ===== *)
theory Spend_Policy
  imports Gateway_Idempotence Calendar Usdc
begin

text \<open>
  The spend policy of the execution gateway: \<open>assertSpendPolicy\<close>
  (\<open>arclayer-runner/src/spend-policy.ts\<close>), the ledger of reservations
  (\<open>spend-ledger.ts\<close>) and the guard \<open>RunnerServices\<close> builds from them
  (\<open>services.ts\<close>). The ledger file is the list of its lines. Ids of entries are random
  and never read, so entries have none.
\<close>

section \<open>Policy\<close>

record spend_policy =
  sp_status :: string
  sp_wallet :: string
  sp_role :: string
  sp_account :: string
  sp_perTx :: string
  sp_daily :: string
  sp_monthly :: string
  sp_maxJob :: string
  sp_approvalAbove :: "string option"
  sp_contracts :: "string list"
  sp_methods :: "string list"
  sp_blocked :: "string list"
  sp_x402 :: bool
  sp_gateway :: bool

record spend_check =
  sc_policy :: spend_policy
  sc_action :: string
  sc_contract :: string
  sc_method :: string
  sc_amount :: "string option"
  sc_dailySpent :: string
  sc_monthlySpent :: string

definition policy_error :: "string \<Rightarrow> string \<Rightarrow> runner_error" where
  "policy_error c m = RunnerError c m 403"

definition check_lists :: "spend_check \<Rightarrow> unit result" where
  \<comment> \<open>the checks before any amount is parsed\<close>
  "check_lists i =
     (let p = sc_policy i in
      if sp_status p \<noteq> ''active'' then
        Inl (policy_error ''POLICY_DISABLED'' (''Wallet policy is '' @ sp_status p))
      else if sc_method i \<in> set (sp_blocked p) then
        Inl (policy_error ''METHOD_BLOCKED'' (''Method is blocked by policy: '' @ sc_method i))
      else if sp_methods p \<noteq> [] \<and> sc_method i \<notin> set (sp_methods p) then
        Inl (policy_error ''METHOD_NOT_ALLOWED'' (''Method is not allowed by policy: '' @ sc_method i))
      else if sp_contracts p \<noteq> [] \<and> sc_contract i \<notin> set (sp_contracts p) then
        Inl (policy_error ''CONTRACT_NOT_ALLOWED'' (''Contract is not allowed by policy: '' @ sc_contract i))
      else Inr ())"

definition check_approval :: "spend_check \<Rightarrow> int \<Rightarrow> unit result" where
  "check_approval i amount =
     (case sp_approvalAbove (sc_policy i) of
        None \<Rightarrow> Inr ()
      | Some lim \<Rightarrow>
          if lim = [] then Inr ()
          else bindR (usdcToMicros (Some lim)) (\<lambda>threshold.
            throw_if (amount > threshold) (RunnerError ''MANUAL_APPROVAL_REQUIRED''
              (''Amount '' @ or_else (sc_amount i) ''0'' @ '' USDC requires manual approval'') 409)))"

definition check_rails :: "spend_check \<Rightarrow> unit result" where
  "check_rails i =
     (let p = sc_policy i; x402 = startsWith (sc_action i) ''x402.'' in
      if x402 \<and> \<not> sp_x402 p then
        Inl (policy_error ''X402_DISABLED_BY_POLICY'' ''x402 is disabled by wallet policy'')
      else if startsWith (sc_action i) ''gateway.'' \<and> \<not> sp_gateway p then
        Inl (policy_error ''GATEWAY_DISABLED_BY_POLICY'' ''Gateway is disabled by wallet policy'')
      else if x402 \<and> sp_account p \<noteq> ''EOA'' then
        Inl (policy_error ''X402_REQUIRES_EOA'' ''x402 Gateway Nanopayments require EOA wallet'')
      else Inr ())"

definition check_limits :: "spend_check \<Rightarrow> int \<Rightarrow> int \<Rightarrow> int \<Rightarrow> int \<Rightarrow> int \<Rightarrow> int \<Rightarrow> int \<Rightarrow> unit result" where
  "check_limits i amount perTx daily monthly maxJob dailySpent monthlySpent =
     (let p = sc_policy i; text = or_else (sc_amount i) ''0'' in
      if amount > perTx then
        Inl (policy_error ''PER_TX_LIMIT_EXCEEDED''
          (''Amount '' @ text @ '' USDC exceeds per-tx limit '' @ sp_perTx p @ '' USDC''))
      else if dailySpent + amount > daily then
        Inl (policy_error ''DAILY_LIMIT_EXCEEDED'' (''Daily spend would exceed '' @ sp_daily p @ '' USDC''))
      else if monthlySpent + amount > monthly then
        Inl (policy_error ''MONTHLY_LIMIT_EXCEEDED''
          (''Monthly spend would exceed '' @ sp_monthly p @ '' USDC''))
      else if sc_action i = ''erc8183.setBudget'' \<and> amount > maxJob then
        Inl (policy_error ''JOB_BUDGET_LIMIT_EXCEEDED''
          (''Job budget '' @ text @ '' USDC exceeds max job budget '' @ sp_maxJob p @ '' USDC''))
      else Inr ())"

definition assertSpendPolicy :: "spend_check \<Rightarrow> unit result" where
  "assertSpendPolicy i =
     (let p = sc_policy i in
      bindR (check_lists i) (\<lambda>_.
      bindR (usdcToMicros (Some (or_else (sc_amount i) ''0''))) (\<lambda>amount.
      bindR (usdcToMicros (Some (sp_perTx p))) (\<lambda>perTx.
      bindR (usdcToMicros (Some (sp_daily p))) (\<lambda>daily.
      bindR (usdcToMicros (Some (sp_monthly p))) (\<lambda>monthly.
      bindR (usdcToMicros (Some (sp_maxJob p))) (\<lambda>maxJob.
      bindR (usdcToMicros (Some (sc_dailySpent i))) (\<lambda>dailySpent.
      bindR (usdcToMicros (Some (sc_monthlySpent i))) (\<lambda>monthlySpent.
      bindR (check_limits i amount perTx daily monthly maxJob dailySpent monthlySpent) (\<lambda>_.
      bindR (check_approval i amount) (\<lambda>_.
      check_rails i)))))))))))"

section \<open>Ledger\<close>

datatype spend_state = Reserved | SpendConfirmed | SpendFailed | SpendCancelled

record spend_entry =
  se_wallet :: string
  se_agent :: string
  se_action :: string
  se_amount :: string
  se_state :: spend_state
  se_op :: "string option"
  se_key :: string
  se_created :: nat
  se_updated :: nat

datatype window = Daily | Monthly

fun same_window :: "window \<Rightarrow> nat \<Rightarrow> nat \<Rightarrow> bool" where
  "same_window Daily t now \<longleftrightarrow> getUTCFullYear t = getUTCFullYear now
     \<and> getUTCMonth t = getUTCMonth now \<and> getUTCDate t = getUTCDate now"
| "same_window Monthly t now \<longleftrightarrow> getUTCFullYear t = getUTCFullYear now
     \<and> getUTCMonth t = getUTCMonth now"

definition counted :: "string \<Rightarrow> window \<Rightarrow> nat \<Rightarrow> spend_entry \<Rightarrow> bool" where
  "counted wallet win now e \<longleftrightarrow> toLowerCase (se_wallet e) = toLowerCase wallet
     \<and> (se_state e = Reserved \<or> se_state e = SpendConfirmed) \<and> same_window win (se_created e) now"

definition getSpent :: "string \<Rightarrow> window \<Rightarrow> nat \<Rightarrow> spend_entry list \<Rightarrow> string result" where
  "getSpent wallet win now entries =
     bindR (fold (\<lambda>e acc. bindR acc (\<lambda>sum. bindR (usdcToMicros (Some (se_amount e))) (\<lambda>m. Inr (sum + m))))
       (filter (counted wallet win now) entries) (Inr 0))
     (\<lambda>total. Inr (microsToUsdc total))"

section \<open>The guard\<close>

record runner_config =
  cf_agentId :: string
  cf_role :: string
  cf_allowedRoles :: "string list"
  cf_chain :: string
  cf_wallet :: "string option"
  cf_account :: string
  cf_perTx :: string
  cf_daily :: string
  cf_monthly :: string
  cf_maxJob :: string
  cf_approvalAbove :: "string option"
  cf_paymentEnabled :: bool
  cf_gatewayDeposit :: bool
  cf_batchItems :: nat
  cf_batchTotal :: string
  cf_x402Hosts :: "string list"

definition ERC8183_AGENTIC_COMMERCE :: string where
  "ERC8183_AGENTIC_COMMERCE = ''0x0747EEf0706327138c69792bF28Cd525089e4583''"

definition USDC_CONTRACT :: string where
  "USDC_CONTRACT = ''0x3600000000000000000000000000000000000000''"

definition allowedMethodsForRole :: "string \<Rightarrow> string list" where
  "allowedMethodsForRole role =
     (if role = ''provider'' then
        [''setBudget(uint256,uint256,bytes)'', ''submit(uint256,bytes32,bytes)'', ''approve(address,uint256)'']
      else if role = ''evaluator'' then
        [''complete(uint256,bytes32,bytes)'', ''reject(uint256,bytes32,bytes)'']
      else if role = ''client'' then
        [''createJob(address,address,uint256,string,address)'', ''approve(address,uint256)'',
         ''fund(uint256,bytes)'', ''claimRefund(uint256)'']
      else [])"

definition resolveSpendPolicy :: "runner_config \<Rightarrow> string \<Rightarrow> spend_policy" where
  \<comment> \<open>the schema of the configuration gives the limits and the account type, so their \<open>??\<close>
      defaults never apply\<close>
  "resolveSpendPolicy cfg wallet =
     \<lparr>sp_status = ''active'', sp_wallet = wallet, sp_role = cf_role cfg, sp_account = cf_account cfg,
      sp_perTx = cf_perTx cfg, sp_daily = cf_daily cfg, sp_monthly = cf_monthly cfg,
      sp_maxJob = cf_maxJob cfg, sp_approvalAbove = cf_approvalAbove cfg,
      sp_contracts = [ERC8183_AGENTIC_COMMERCE, USDC_CONTRACT],
      sp_methods = allowedMethodsForRole (cf_role cfg), sp_blocked = [],
      sp_x402 = cf_paymentEnabled cfg, sp_gateway = cf_gatewayDeposit cfg\<rparr>"

definition spend_check_of ::
  "runner_config \<Rightarrow> guard_request \<Rightarrow> string \<Rightarrow> string \<Rightarrow> spend_check" where
  "spend_check_of cfg r daily monthly =
     \<lparr>sc_policy = resolveSpendPolicy cfg (gq_wallet r), sc_action = gq_action r,
      sc_contract = gq_contract r, sc_method = gq_method r, sc_amount = gq_amount r,
      sc_dailySpent = daily, sc_monthlySpent = monthly\<rparr>"

definition spend_allowed ::
  "runner_config \<Rightarrow> nat \<Rightarrow> spend_entry list \<Rightarrow> guard_request \<Rightarrow> unit result" where
  "spend_allowed cfg now entries r =
     bindR (getSpent (gq_wallet r) Daily now entries) (\<lambda>daily.
     bindR (getSpent (gq_wallet r) Monthly now entries) (\<lambda>monthly.
     assertSpendPolicy (spend_check_of cfg r daily monthly)))"

definition spend_reserve :: "nat \<Rightarrow> spend_entry list \<Rightarrow> reserve_request \<Rightarrow> spend_entry list" where
  "spend_reserve now entries r = entries @
     [\<lparr>se_wallet = rq_wallet r, se_agent = rq_agent r, se_action = rq_action r,
       se_amount = rq_amount r, se_state = Reserved, se_op = Some (rq_op r), se_key = rq_key r,
       se_created = now, se_updated = now\<rparr>]"

definition spend_guard :: "runner_config \<Rightarrow> spend_entry list policy_guard" where
  "spend_guard cfg = \<lparr>assertAllowed = spend_allowed cfg, reserveSpend = spend_reserve\<rparr>"

section \<open>What the policy allows\<close>

lemma usdcToMicros_nonneg: "usdcToMicros v = Inr n \<Longrightarrow> 0 \<le> n"
  by (auto simp: usdcToMicros_def Let_def split: option.splits if_splits)

lemma micros_roundtrip: "0 \<le> n \<Longrightarrow> usdcToMicros (Some (microsToUsdc n)) = Inr n"
  using spend_amount.parse_micros [of n] by simp

definition micros :: "string \<Rightarrow> int" where
  \<comment> \<open>the value of an amount the parser accepts\<close>
  "micros s = (case usdcToMicros (Some s) of Inl _ \<Rightarrow> 0 | Inr n \<Rightarrow> n)"

lemma micros_parsed: "usdcToMicros (Some s) = Inr n \<Longrightarrow> micros s = n"
  by (simp add: micros_def)

definition well_formed_amount :: "string \<Rightarrow> bool" where
  "well_formed_amount s \<longleftrightarrow> \<not> isl (usdcToMicros (Some s))"

lemma wf_micros: "well_formed_amount s \<Longrightarrow> usdcToMicros (Some s) = Inr (micros s)"
  by (cases "usdcToMicros (Some s)") (auto simp: well_formed_amount_def micros_def)

lemma check_lists_ok:
  "check_lists i = Inr () \<longleftrightarrow> sp_status (sc_policy i) = ''active'' \<and> sc_method i \<notin> set (sp_blocked (sc_policy i))
     \<and> (sp_methods (sc_policy i) = [] \<or> sc_method i \<in> set (sp_methods (sc_policy i)))
     \<and> (sp_contracts (sc_policy i) = [] \<or> sc_contract i \<in> set (sp_contracts (sc_policy i)))"
  by (auto simp: check_lists_def Let_def)

lemma check_limits_ok:
  "check_limits i a p d m j ds ms = Inr () \<longleftrightarrow> a \<le> p \<and> ds + a \<le> d \<and> ms + a \<le> m
     \<and> (sc_action i = ''erc8183.setBudget'' \<longrightarrow> a \<le> j)"
  by (auto simp: check_limits_def Let_def)

lemma assert_parts:
  "assertSpendPolicy i = Inr () \<longleftrightarrow>
     (\<exists>a p d m j ds ms. check_lists i = Inr ()
        \<and> usdcToMicros (Some (or_else (sc_amount i) ''0'')) = Inr a
        \<and> usdcToMicros (Some (sp_perTx (sc_policy i))) = Inr p
        \<and> usdcToMicros (Some (sp_daily (sc_policy i))) = Inr d
        \<and> usdcToMicros (Some (sp_monthly (sc_policy i))) = Inr m
        \<and> usdcToMicros (Some (sp_maxJob (sc_policy i))) = Inr j
        \<and> usdcToMicros (Some (sc_dailySpent i)) = Inr ds
        \<and> usdcToMicros (Some (sc_monthlySpent i)) = Inr ms
        \<and> check_limits i a p d m j ds ms = Inr () \<and> check_approval i a = Inr () \<and> check_rails i = Inr ())"
  by (auto simp: assertSpendPolicy_def Let_def)

section \<open>The ledger as a sum\<close>

definition spent :: "string \<Rightarrow> window \<Rightarrow> nat \<Rightarrow> spend_entry list \<Rightarrow> int" where
  "spent wallet win now entries =
     sum_list (map (\<lambda>e. micros (se_amount e)) (filter (counted wallet win now) entries))"

definition ledger_wf :: "spend_entry list \<Rightarrow> bool" where
  "ledger_wf entries \<longleftrightarrow> (\<forall>e\<in>set entries. well_formed_amount (se_amount e))"

lemma fold_micros:
  "\<forall>e\<in>set es. well_formed_amount (se_amount e) \<Longrightarrow>
   fold (\<lambda>e acc. bindR acc (\<lambda>sum. bindR (usdcToMicros (Some (se_amount e))) (\<lambda>m. Inr (sum + m)))) es (Inr n)
     = Inr (n + sum_list (map (\<lambda>e. micros (se_amount e)) es))"
  by (induction es arbitrary: n) (auto simp: wf_micros)

lemma getSpent_value:
  "ledger_wf entries \<Longrightarrow> getSpent w win now entries = Inr (microsToUsdc (spent w win now entries))"
  unfolding getSpent_def spent_def ledger_wf_def by (subst fold_micros) auto

lemma micros_nonneg: "0 \<le> micros s"
  using usdcToMicros_nonneg by (auto simp: micros_def split: sum.splits)

lemma spent_nonneg: "0 \<le> spent w win now entries"
  unfolding spent_def by (rule sum_list_nonneg) (auto simp: micros_nonneg)

lemma same_window_trans: "same_window win t u \<Longrightarrow> same_window win t v \<longleftrightarrow> same_window win u v"
  by (cases win) auto

lemma same_window_refl [simp]: "same_window win t t"
  by (cases win) auto

lemma spent_reserve:
  "spent w win t (spend_reserve now entries r) = spent w win t entries +
     (if toLowerCase (rq_wallet r) = toLowerCase w \<and> same_window win now t then micros (rq_amount r) else 0)"
  by (simp add: spent_def spend_reserve_def counted_def)

lemma spent_same:
  assumes "toLowerCase w = toLowerCase w'" "same_window win t t'"
  shows "spent w win t entries = spent w' win t' entries"
proof -
  have "same_window win u t \<longleftrightarrow> same_window win u t'" for u
    using assms(2) by (cases win) auto
  with assms(1) have "counted w win t = counted w' win t'" by (auto simp: counted_def)
  then show ?thesis by (simp add: spent_def)
qed

section \<open>Limits\<close>

definition within_limits :: "runner_config \<Rightarrow> spend_entry list \<Rightarrow> bool" where
  "within_limits cfg entries \<longleftrightarrow> ledger_wf entries \<and>
     (\<forall>w t. spent w Daily t entries \<le> micros (cf_daily cfg) \<and> spent w Monthly t entries \<le> micros (cf_monthly cfg))"

lemma within_empty [simp]: "within_limits cfg []"
  by (simp add: within_limits_def ledger_wf_def spent_def micros_nonneg)

lemma allowed_bounds:
  assumes "ledger_wf entries" "spend_allowed cfg now entries r = Inr ()" "gq_amount r = Some a"
  shows "well_formed_amount a" "micros a \<le> micros (cf_perTx cfg)"
    "spent (gq_wallet r) Daily now entries + micros a \<le> micros (cf_daily cfg)"
    "spent (gq_wallet r) Monthly now entries + micros a \<le> micros (cf_monthly cfg)"
proof -
  let ?d = "spent (gq_wallet r) Daily now entries" and ?m = "spent (gq_wallet r) Monthly now entries"
  let ?c = "spend_check_of cfg r (microsToUsdc ?d) (microsToUsdc ?m)"
  from assms(2) have "assertSpendPolicy ?c = Inr ()"
    by (simp add: spend_allowed_def getSpent_value [OF assms(1)])
  then obtain b p d m j ds ms where
    "usdcToMicros (Some a) = Inr b" "usdcToMicros (Some (cf_perTx cfg)) = Inr p"
    "usdcToMicros (Some (cf_daily cfg)) = Inr d" "usdcToMicros (Some (cf_monthly cfg)) = Inr m"
    "usdcToMicros (Some (microsToUsdc ?d)) = Inr ds" "usdcToMicros (Some (microsToUsdc ?m)) = Inr ms"
    "check_limits ?c b p d m j ds ms = Inr ()"
    unfolding assert_parts by (auto simp: spend_check_of_def resolveSpendPolicy_def assms(3))
  then show "well_formed_amount a" "micros a \<le> micros (cf_perTx cfg)"
    "?d + micros a \<le> micros (cf_daily cfg)" "?m + micros a \<le> micros (cf_monthly cfg)"
    using micros_roundtrip [OF spent_nonneg]
    by (auto simp: check_limits_ok well_formed_amount_def micros_parsed)
qed

lemma reserve_within:
  assumes inv: "within_limits cfg entries" and ok: "spend_allowed cfg now entries g = Inr ()"
    and same: "gq_amount g = Some (rq_amount r)" "rq_wallet r = gq_wallet g"
  shows "within_limits cfg (spend_reserve now entries r)"
proof -
  have wf: "ledger_wf entries" using inv by (simp add: within_limits_def)
  note b = allowed_bounds [OF wf ok same(1)]
  have "spent w Daily t (spend_reserve now entries r) \<le> micros (cf_daily cfg)" for w t
    using b(3) inv spent_same [of "gq_wallet g" w Daily now t entries] same(2)
    by (auto simp: spent_reserve within_limits_def)
  moreover have "spent w Monthly t (spend_reserve now entries r) \<le> micros (cf_monthly cfg)" for w t
    using b(4) inv spent_same [of "gq_wallet g" w Monthly now t entries] same(2)
    by (auto simp: spent_reserve within_limits_def)
  ultimately show ?thesis
    using wf b(1) by (auto simp: within_limits_def ledger_wf_def spend_reserve_def)
qed

lemma guard_within:
  assumes "within_limits cfg p" "guard_phase (Some (spend_guard cfg)) agentId input now op p = Inr p'"
  shows "within_limits cfg p'"
proof (cases "gi_policy input")
  case None
  with assms show ?thesis by (simp add: guard_phase_def)
next
  case (Some pol)
  with assms(2) have ok: "spend_allowed cfg now p
      \<lparr>gq_wallet = gi_wallet input, gq_agent = or_else (gi_agent input) agentId,
       gq_action = gp_action pol, gq_contract = gi_contract input,
       gq_method = gp_method pol, gq_amount = gp_amount pol\<rparr> = Inr ()"
    and p': "p' = (if truthy (gp_amount pol) \<and> gp_amount pol \<noteq> Some ''0''
       then spend_reserve now p
         \<lparr>rq_wallet = gi_wallet input, rq_agent = or_else (gi_agent input) agentId,
          rq_action = gp_action pol, rq_amount = the (gp_amount pol), rq_op = op, rq_key = gi_key input\<rparr>
       else p)"
    by (auto simp: guard_phase_def spend_guard_def)
  show ?thesis
  proof (cases "truthy (gp_amount pol) \<and> gp_amount pol \<noteq> Some ''0''")
    case True
    then obtain a where "gp_amount pol = Some a" by blast
    with True p' show ?thesis by (auto intro!: reserve_within [OF assms(1) ok])
  next
    case False
    with p' have "p' = p" by auto
    with assms(1) show ?thesis by simp
  qed
qed

lemma begin_policy:
  "execute_begin guard agentId input now op (g, p) = ((g', p'), out) \<Longrightarrow>
     p' = p \<or> guard_phase guard agentId input now op p = Inr p'"
  by (auto simp: execute_begin_def launch_phase_def Let_def
      split: prod.splits option.splits sum.splits if_splits)

definition limit_inv :: "runner_config \<Rightarrow> spend_entry list gw_system \<Rightarrow> bool" where
  "limit_inv cfg s \<longleftrightarrow> within_limits cfg (sys_policy s)"

interpretation spend_runs: invariant_system "\<lambda>s. gw_initial s \<and> sys_policy s = []"
  "gw_step (Some (spend_guard cfg)) agentId" "limit_inv cfg" for cfg agentId
proof unfold_locales
  fix s t
  assume "gw_step (Some (spend_guard cfg)) agentId s t" "limit_inv cfg s"
  then show "limit_inv cfg t"
  proof cases
    case (request_returns op input now g p out)
    with begin_policy [OF request_returns(3)] guard_within \<open>limit_inv cfg s\<close> show ?thesis
      by (auto simp: limit_inv_def)
  next
    case (request_launches op input now g p)
    with begin_policy [OF request_launches(3)] guard_within \<open>limit_inv cfg s\<close> show ?thesis
      by (auto simp: limit_inv_def)
  qed (simp_all add: limit_inv_def)
qed (simp add: limit_inv_def)

section \<open>Properties\<close>

text \<open>\<open>assertSpendPolicy\<close> accepts a write exactly when the policy is active, the method and
  the contract are allowed, the amount fits the per-transaction limit, the daily and the
  monthly limit on top of what is already spent, the job budget limit and the approval
  threshold, and the rail the action uses is enabled; for amounts it can parse.\<close>

theorem spend_policy_decides:
  assumes "list_all well_formed_amount [or_else (sc_amount i) ''0'', sp_perTx (sc_policy i),
      sp_daily (sc_policy i), sp_monthly (sc_policy i), sp_maxJob (sc_policy i),
      sc_dailySpent i, sc_monthlySpent i, or_else (sp_approvalAbove (sc_policy i)) '''']"
  shows "assertSpendPolicy i = Inr () \<longleftrightarrow>
    (let p = sc_policy i; a = micros (or_else (sc_amount i) ''0'');
         x402 = startsWith (sc_action i) ''x402.'' in
     sp_status p = ''active'' \<and> sc_method i \<notin> set (sp_blocked p)
     \<and> (sp_methods p = [] \<or> sc_method i \<in> set (sp_methods p))
     \<and> (sp_contracts p = [] \<or> sc_contract i \<in> set (sp_contracts p))
     \<and> a \<le> micros (sp_perTx p) \<and> micros (sc_dailySpent i) + a \<le> micros (sp_daily p)
     \<and> micros (sc_monthlySpent i) + a \<le> micros (sp_monthly p)
     \<and> (sc_action i = ''erc8183.setBudget'' \<longrightarrow> a \<le> micros (sp_maxJob p))
     \<and> (truthy (sp_approvalAbove p) \<longrightarrow> a \<le> micros (the (sp_approvalAbove p)))
     \<and> (x402 \<longrightarrow> sp_x402 p \<and> sp_account p = ''EOA'')
     \<and> (startsWith (sc_action i) ''gateway.'' \<longrightarrow> sp_gateway p))"
proof -
  let ?p = "sc_policy i" and ?a = "micros (or_else (sc_amount i) ''0'')"
  have parse: "usdcToMicros (Some (or_else (sc_amount i) ''0'')) = Inr ?a"
    "usdcToMicros (Some (sp_perTx ?p)) = Inr (micros (sp_perTx ?p))"
    "usdcToMicros (Some (sp_daily ?p)) = Inr (micros (sp_daily ?p))"
    "usdcToMicros (Some (sp_monthly ?p)) = Inr (micros (sp_monthly ?p))"
    "usdcToMicros (Some (sp_maxJob ?p)) = Inr (micros (sp_maxJob ?p))"
    "usdcToMicros (Some (sc_dailySpent i)) = Inr (micros (sc_dailySpent i))"
    "usdcToMicros (Some (sc_monthlySpent i)) = Inr (micros (sc_monthlySpent i))"
    using assms by (simp_all add: wf_micros)
  have approval: "check_approval i a = Inr () \<longleftrightarrow>
      (truthy (sp_approvalAbove ?p) \<longrightarrow> a \<le> micros (the (sp_approvalAbove ?p)))" for a
    using assms by (auto simp: check_approval_def wf_micros split: option.splits)
  have rails: "check_rails i = Inr () \<longleftrightarrow>
      (startsWith (sc_action i) ''x402.'' \<longrightarrow> sp_x402 ?p \<and> sp_account ?p = ''EOA'')
      \<and> (startsWith (sc_action i) ''gateway.'' \<longrightarrow> sp_gateway ?p)"
    by (auto simp: check_rails_def Let_def)
  show ?thesis
    unfolding assert_parts parse check_lists_ok check_limits_ok approval rails Let_def by auto
qed

definition demo_config :: runner_config where
  "demo_config = \<lparr>cf_agentId = ''1'', cf_role = ''client'', cf_allowedRoles = [''client''],
     cf_chain = ''ARC-TESTNET'', cf_wallet = Some ''0xA'', cf_account = ''EOA'', cf_perTx = ''0.01'',
     cf_daily = ''1'', cf_monthly = ''20'', cf_maxJob = ''5'', cf_approvalAbove = None,
     cf_paymentEnabled = True, cf_gatewayDeposit = False, cf_batchItems = 10,
     cf_batchTotal = ''0.05'', cf_x402Hosts = []\<rparr>"

definition demo_check :: spend_check where
  "demo_check = \<lparr>sc_policy = resolveSpendPolicy demo_config ''0xA'', sc_action = ''erc8183.approveUsdc'',
     sc_contract = USDC_CONTRACT, sc_method = ''approve(address,uint256)'', sc_amount = Some ''0.01'',
     sc_dailySpent = ''0.99'', sc_monthlySpent = ''0.99''\<rparr>"

theorem spend_policy_decides_witness: "assertSpendPolicy demo_check = Inr ()"
proof -
  have wf: "list_all well_formed_amount [or_else (sc_amount demo_check) ''0'', sp_perTx (sc_policy demo_check),
      sp_daily (sc_policy demo_check), sp_monthly (sc_policy demo_check), sp_maxJob (sc_policy demo_check),
      sc_dailySpent demo_check, sc_monthlySpent demo_check, or_else (sp_approvalAbove (sc_policy demo_check)) '''']"
    by code_simp
  have amounts: "micros ''0.01'' = 10000" "micros ''0.99'' = 990000" "micros ''1'' = 1000000" "micros ''20'' = 20000000"
    by code_simp+
  show ?thesis
    unfolding spend_policy_decides [OF wf] Let_def
    by (simp add: demo_check_def resolveSpendPolicy_def demo_config_def amounts allowedMethodsForRole_def)
qed

text \<open>C3: Over every run of the gateway with the runner's guard, what the ledger counts for a wallet
  never exceeds the configured daily limit on any day nor the monthly limit in any month:
  requests check and reserve in one step, and neither failures nor restarts free a
  reservation.\<close>

theorem spending_within_limits:
  assumes "gw_initial s0" "sys_policy s0 = []" "(gw_step (Some (spend_guard cfg)) agentId)\<^sup>*\<^sup>* s0 s"
  shows "\<exists>d m. getSpent wallet Daily t (sys_policy s) = Inr (microsToUsdc d) \<and> d \<le> micros (cf_daily cfg)
    \<and> getSpent wallet Monthly t (sys_policy s) = Inr (microsToUsdc m) \<and> m \<le> micros (cf_monthly cfg)"
proof -
  have "limit_inv cfg s" by (rule spend_runs.reach_inv [OF _ assms(3)]) (use assms in simp)
  then show ?thesis
    by (auto simp: limit_inv_def within_limits_def getSpent_value)
qed

definition spend_demo_start :: "spend_entry list gw_system" where
  "spend_demo_start = \<lparr>sys_gateway = \<lparr>g_ops = [], g_cache = [], g_index = [], g_journal = empty_journal\<rparr>,
     sys_policy = [], sys_inflight = []\<rparr>"

definition spend_demo_input :: gw_input where
  "spend_demo_input =
     \<lparr>gi_kind = ''approveUsdc'', gi_key = ''k'', gi_hash = ''h'', gi_agent = None, gi_wallet = ''0xA'',
      gi_chain = ''ARC'', gi_chainId = None, gi_contract = USDC_CONTRACT, gi_job = None,
      gi_policy = Some \<lparr>gp_action = ''erc8183.approveUsdc'', gp_method = ''approve(address,uint256)'',
        gp_amount = Some ''0.01''\<rparr>\<rparr>"

definition spend_demo :: "spend_entry list gw_system" where
  "spend_demo = (case execute_begin (Some (spend_guard demo_config)) ''1'' spend_demo_input 5 ''op1''
      (sys_gateway spend_demo_start, sys_policy spend_demo_start) of
    ((g, p), out) \<Rightarrow> spend_demo_start\<lparr>sys_gateway := g, sys_policy := p, sys_inflight := [''op1'']\<rparr>)"

theorem spending_within_limits_witness:
  "map se_op (sys_policy spend_demo) = [Some ''op1''] \<and>
   (\<exists>d. getSpent ''0xa'' Daily 7 (sys_policy spend_demo) = Inr (microsToUsdc d) \<and> d \<le> 1000000)"
proof -
  let ?b = "execute_begin (Some (spend_guard demo_config)) ''1'' spend_demo_input 5 ''op1''
      (sys_gateway spend_demo_start, sys_policy spend_demo_start)"
  have "snd ?b = Launched ''op1''" by code_simp
  then obtain g p where b: "?b = ((g, p), Launched ''op1'')" by (metis prod.collapse)
  have demo: "spend_demo = spend_demo_start\<lparr>sys_gateway := g, sys_policy := p,
      sys_inflight := ''op1'' # sys_inflight spend_demo_start\<rparr>"
    using b by (simp add: spend_demo_def) (simp add: spend_demo_start_def)
  have "fresh_op ''op1'' spend_demo_start" by code_simp
  then have run: "(gw_step (Some (spend_guard demo_config)) ''1'')\<^sup>*\<^sup>* spend_demo_start spend_demo"
    unfolding demo using request_launches [OF _ b] by blast
  have init: "gw_initial spend_demo_start" "sys_policy spend_demo_start = []"
    by (simp_all add: gw_initial_def spend_demo_start_def)
  have ops: "map se_op (sys_policy spend_demo) = [Some ''op1'']" by code_simp
  have lim: "micros (cf_daily demo_config) = 1000000" by code_simp
  from spending_within_limits [OF init run, of "''0xa''" 7] ops lim show ?thesis by auto
qed

end
