(* ===== verification/Js_Numbers.thy ===== *)
theory Js_Numbers
  imports Complex_Main Js_Strings
begin

text \<open>
  \<open>Number(text)\<close> of ECMAScript: white space is trimmed, the empty text is 0, decimals may
  have a sign, a fraction and an exponent, and hexadecimal, octal and binary literals have
  no sign. Finite values are exact rationals; the rounding to a double is not modelled (the
  code compares them with time stamps, which doubles hold exactly).
\<close>

datatype js_number = NaN | PosInfinity | NegInfinity | Fin rat

fun js_negate :: "js_number \<Rightarrow> js_number" where
  "js_negate NaN = NaN"
| "js_negate PosInfinity = NegInfinity"
| "js_negate NegInfinity = PosInfinity"
| "js_negate (Fin q) = Fin (- q)"

fun js_le :: "js_number \<Rightarrow> int \<Rightarrow> bool" where
  \<comment> \<open>\<open>x <= n\<close>\<close>
  "js_le NaN n = False"
| "js_le PosInfinity n = False"
| "js_le NegInfinity n = True"
| "js_le (Fin q) n = (q \<le> of_int n)"

definition signed_int :: "string \<Rightarrow> int option" where
  "signed_int s =
     (case s of
        [] \<Rightarrow> None
      | c # r \<Rightarrow>
          if c = CHR ''-'' then (if all_digits r then Some (- int (digits_val r)) else None)
          else if c = CHR ''+'' then (if all_digits r then Some (int (digits_val r)) else None)
          else if all_digits s then Some (int (digits_val s)) else None)"

definition scaled :: "int \<Rightarrow> int \<Rightarrow> rat" where
  \<comment> \<open>\<open>m * 10 ^ e\<close>\<close>
  "scaled m e = (if 0 \<le> e then of_int (m * 10 ^ nat e) else of_int m / of_int (10 ^ nat (- e)))"

definition unsigned_decimal :: "string \<Rightarrow> js_number" where
  "unsigned_decimal s =
     (if s = ''Infinity'' then PosInfinity
      else
        let mant = takeWhile (\<lambda>c. c \<noteq> CHR ''e'' \<and> c \<noteq> CHR ''E'') s;
            rest = drop (length mant) s;
            expo = (case rest of [] \<Rightarrow> Some 0 | _ # e \<Rightarrow> signed_int e)
        in case (split_on CHR ''.'' mant, expo) of
             ([w], Some e) \<Rightarrow> if all_digits w then Fin (scaled (int (digits_val w)) e) else NaN
           | ([w, f], Some e) \<Rightarrow>
               if w @ f \<noteq> [] \<and> list_all is_digit (w @ f)
               then Fin (scaled (int (digits_val (w @ f))) (e - int (length f))) else NaN
           | _ \<Rightarrow> NaN)"

definition Number_text :: "string \<Rightarrow> js_number" where
  "Number_text text =
     (let s = trim text in
      case s of
        [] \<Rightarrow> Fin 0
      | c # r \<Rightarrow>
          (case bigint_prefixed s of
             Some i \<Rightarrow> Fin (of_int i)
           | None \<Rightarrow>
               if c = CHR ''-'' then js_negate (unsigned_decimal r)
               else if c = CHR ''+'' then unsigned_decimal r
               else unsigned_decimal s))"

lemma not_digit [simp]:
  "\<not> is_digit CHR ''e''" "\<not> is_digit CHR ''E''" "\<not> is_digit CHR ''I''" "\<not> is_digit CHR ''+''"
  "\<not> is_digit CHR ''x''" "\<not> is_digit CHR ''o''" "\<not> is_digit CHR ''b''"
  by (simp_all add: is_digit_def code_def)

lemma takeWhile_digits: "list_all is_digit s \<Longrightarrow> takeWhile (\<lambda>c. c \<noteq> CHR ''e'' \<and> c \<noteq> CHR ''E'') s = s"
  unfolding takeWhile_eq_all_conv list_all_iff using not_digit(1,2) by blast

lemma lower_digit: "is_digit c \<Longrightarrow> lower_char c = c"
  by (simp add: is_digit_def lower_char_def)

lemma digit_no_prefix: "is_digit c \<Longrightarrow> lower_char c \<notin> {CHR ''x'', CHR ''o'', CHR ''b''}"
  using lower_digit [of c] not_digit(5-7) by (metis empty_iff insert_iff)

lemma bigint_prefixed_digits: "list_all is_digit s \<Longrightarrow> bigint_prefixed s = None"
  using digit_no_prefix by (cases s rule: bigint_prefixed.cases) auto

lemma Number_digits: "all_digits s \<Longrightarrow> Number_text s = Fin (of_int (int (digits_val s)))"
proof -
  assume s: "all_digits s"
  then have d: "list_all is_digit s" and "s \<noteq> []" by (auto simp: all_digits_def)
  then obtain c r where c: "s = c # r" by (cases s) auto
  have tr: "trim s = s" using d by (auto simp: list_all_iff is_digit_not_space intro: trim_no_space)
  have sign: "c \<noteq> CHR ''-''" "c \<noteq> CHR ''+''" "c \<noteq> CHR ''I''"
    using d c by auto
  have "s \<noteq> ''Infinity''" using c sign by auto
  then have "unsigned_decimal s = Fin (of_int (int (digits_val s)))"
    using s d by (simp add: unsigned_decimal_def Let_def takeWhile_digits split_on_no_sep digits_no_dot
        scaled_def)
  with c sign tr bigint_prefixed_digits [OF d] show ?thesis by (simp add: Number_text_def)
qed

end
