(* ===== verification/Job_Writes.thy ===== *)
theory Job_Writes
  imports Spend_Policy Js_Numbers
begin

text \<open>
  The ERC-8183 writes of \<open>RunnerServices\<close> (\<open>arclayer-runner/src/services.ts\<close>) and the
  wallet adapter they call (\<open>packages/circle-dev-wallet-adapter\<close>). Each write validates
  its input, derives an idempotency key and a hash of its parameters, runs one gateway
  write and records a receipt. A method has one \<open>await\<close> that matters, the gateway, so it
  either is finished at once or awaits the gateway with a continuation. SHA-256 and
  keccak-256 are parameters.
\<close>

section \<open>Surroundings\<close>

record crypto =
  sha256_hex :: "string \<Rightarrow> string"
  keccak_hex :: "string \<Rightarrow> string"

definition sha256Json :: "crypto \<Rightarrow> json \<Rightarrow> string" where
  "sha256Json env v = sha256_hex env (canonicalJson v)"

definition sha256Text :: "crypto \<Rightarrow> string \<Rightarrow> string" where
  "sha256Text env v = sha256_hex env v"

definition erc8183Hash :: "crypto \<Rightarrow> string \<Rightarrow> string" where
  "erc8183Hash env v = keccak_hex env v"

text \<open>The call the gateway's \<open>executeFn\<close> makes on the wallet adapter.\<close>

datatype wallet_call =
  Erc8183Write (wc_signature: string) (wc_params: "string list") (wc_contract: string)
| ApproveUsdc (wc_amount: string) (wc_usdc: string) (wc_spender: string)

record contract_tx =
  ct_contract :: string
  ct_signature :: string
  ct_params :: "string list"
  ct_label :: string
  ct_key :: string

definition ERC8183_SIGNATURES :: "string list" where
  "ERC8183_SIGNATURES =
     [''submit(uint256,bytes32,bytes)'', ''createJob(address,address,uint256,string,address)'',
      ''setBudget(uint256,uint256,bytes)'', ''fund(uint256,bytes)'', ''complete(uint256,bytes32,bytes)'',
      ''reject(uint256,bytes32,bytes)'', ''claimRefund(uint256)'', ''setProvider(uint256,address)'']"

definition contractTransaction ::
  "string \<Rightarrow> string \<Rightarrow> string list \<Rightarrow> string \<Rightarrow> string \<Rightarrow> contract_tx result" where
  \<comment> \<open>the request \<open>executeContractTransaction\<close> sends; a missing key is thrown inside the
      \<open>try\<close> and rethrown as an API error\<close>
  "contractTransaction contract signature params label key =
     (if key = [] then
        Inl (RunnerError ''CIRCLE_API_ERROR''
          (label @ '' failed: '' @ label @ '' requires gateway idempotencyKey'') 502)
      else Inr \<lparr>ct_contract = contract, ct_signature = signature, ct_params = params,
                ct_label = label, ct_key = key\<rparr>)"

fun wallet_transaction :: "wallet_call \<Rightarrow> string \<Rightarrow> contract_tx result" where
  \<comment> \<open>\<open>executeErc8183Write\<close> and \<open>approveUsdc\<close> of the adapter\<close>
  "wallet_transaction (Erc8183Write signature params contract) key =
     (if signature \<notin> set ERC8183_SIGNATURES then
        Inl (RunnerError ''ERC8183_SIGNATURE_BLOCKED''
          (''Signature \"'' @ signature @ ''\" is not in the ERC-8183 lifecycle allowlist'') 403)
      else contractTransaction contract signature params
             (''erc8183.'' @ hd (split_on CHR ''('' signature)) key)"
| "wallet_transaction (ApproveUsdc amount usdc spender) key =
     contractTransaction usdc ''approve(address,uint256)'' [spender, amount] ''erc20.approve'' key"

section \<open>Receipts and responses\<close>

record receipt =
  rr_id :: string
  rr_created :: nat
  rr_type :: string
  rr_task :: string
  rr_job :: "string option"
  rr_agent :: string
  rr_request :: json
  rr_response :: json
  rr_sha :: string
  rr_tx :: "string option"
  rr_op :: string
  rr_state :: operation_state
  rr_idempotent :: bool

datatype job_response =
  PreparedOnly json
| Written write_result receipt
| Submitted write_result

datatype job_step =
  Finished "thrown + job_response"
| Await gw_input wallet_call
    "string \<Rightarrow> nat \<Rightarrow> write_result \<Rightarrow> receipt list \<Rightarrow> receipt list \<times> (thrown + job_response)"

fun jopt :: "string option \<Rightarrow> json" where
  "jopt None = JUndef"
| "jopt (Some s) = JStr s"

definition exec_result_json :: "exec_result \<Rightarrow> json" where
  "exec_result_json r = JObj [(''command'', JStr (xr_command r)), (''args'', JArr (map JStr (xr_args r))),
     (''stdout'', JStr (xr_stdout r)), (''stderr'', JStr (xr_stderr r)), (''json'', xr_json r)]"

definition write_result_json :: "write_result \<Rightarrow> json" where
  \<comment> \<open>only used when there is no \<open>circleResult\<close>\<close>
  "write_result_json r = JObj ([(''ok'', JBool (wr_ok r)), (''operationId'', JStr (wr_op r)),
     (''state'', JStr (op_state_name (wr_state r))), (''txHash'', jopt (wr_tx r)), (''circleResult'', JUndef)]
     @ (if wr_idempotent r then [(''idempotent'', JBool True)]
        else [(''errorCode'', jopt (wr_errcode r)), (''errorMessage'', jopt (wr_errmsg r))]))"

definition response_json :: "write_result \<Rightarrow> json" where
  \<comment> \<open>\<open>gwResult.circleResult ?? gwResult\<close>\<close>
  "response_json r = (case wr_circle r of Some c \<Rightarrow> exec_result_json c | None \<Rightarrow> write_result_json r)"

definition job_receipt ::
  "crypto \<Rightarrow> runner_config \<Rightarrow> json \<Rightarrow> string \<Rightarrow> string option \<Rightarrow> string \<Rightarrow> nat \<Rightarrow> write_result \<Rightarrow> receipt" where
  "job_receipt env cfg body task job rid now r =
     \<lparr>rr_id = rid, rr_created = now, rr_type = ''erc8183_submit'', rr_task = task, rr_job = job,
      rr_agent = cf_agentId cfg, rr_request = body, rr_response = response_json r,
      rr_sha = sha256Json env (response_json r), rr_tx = wr_tx r, rr_op = wr_op r,
      rr_state = wr_state r, rr_idempotent = wr_idempotent r\<rparr>"

definition job_tail ::
  "crypto \<Rightarrow> runner_config \<Rightarrow> json \<Rightarrow> (nat \<Rightarrow> string) \<Rightarrow> string option \<Rightarrow> string \<Rightarrow> nat \<Rightarrow> write_result
     \<Rightarrow> receipt list \<Rightarrow> receipt list \<times> (thrown + job_response)" where
  \<comment> \<open>what every write does after the gateway, except \<open>submitDeliverableViaWallet\<close>\<close>
  "job_tail env cfg body task job rid now r receipts =
     (case assertGatewayWriteSucceeded r of
        Inl e \<Rightarrow> (receipts, Inl (ThrownRunner e))
      | Inr _ \<Rightarrow>
          let receipt = job_receipt env cfg body (task now) job rid now r
          in (receipts @ [receipt], Inr (Written r receipt)))"

definition not_configured :: job_response where
  "not_configured = PreparedOnly (JObj [(''ok'', JBool False), (''mode'', JStr ''prepared-only''),
     (''reason'', JStr ''CIRCLE_WALLET_ADDRESS not configured'')])"

definition job_input ::
  "runner_config \<Rightarrow> string \<Rightarrow> string \<Rightarrow> string \<Rightarrow> string \<Rightarrow> string \<Rightarrow> string \<Rightarrow> string \<Rightarrow> string
     \<Rightarrow> string option \<Rightarrow> gw_input" where
  "job_input cfg kind action method amount key hash wallet contract job =
     \<lparr>gi_kind = kind, gi_key = key, gi_hash = hash, gi_agent = None, gi_wallet = wallet,
      gi_chain = cf_chain cfg, gi_chainId = None, gi_contract = contract, gi_job = job,
      gi_policy = Some \<lparr>gp_action = action, gp_method = method, gp_amount = Some amount\<rparr>\<rparr>"

abbreviation with_wallet ::
  "runner_config \<Rightarrow> (string \<Rightarrow> job_step) \<Rightarrow> job_step" where
  "with_wallet cfg k \<equiv>
     (case cf_wallet cfg of None \<Rightarrow> Finished (Inr not_configured)
      | Some w \<Rightarrow> if w = [] then Finished (Inr not_configured) else k w)"

section \<open>Helpers\<close>

definition ZERO_ADDRESS :: string where
  "ZERO_ADDRESS = ''0x0000000000000000000000000000000000000000''"

definition canonicalAddress :: "string option \<Rightarrow> string" where
  "canonicalAddress v = toLowerCase (or_else v ZERO_ADDRESS)"

definition stableRequestKey ::
  "string \<Rightarrow> string option \<Rightarrow> string option \<Rightarrow> string \<Rightarrow> string" where
  "stableRequestKey prefix idem req fallback =
     (case idem of
        Some k \<Rightarrow> if k \<noteq> [] then k
                  else (case req of Some r \<Rightarrow> if r \<noteq> [] then prefix @ '':'' @ r else fallback
                        | None \<Rightarrow> fallback)
      | None \<Rightarrow> (case req of Some r \<Rightarrow> if r \<noteq> [] then prefix @ '':'' @ r else fallback
                 | None \<Rightarrow> fallback))"

definition reasonHash :: "crypto \<Rightarrow> string \<Rightarrow> string" where
  "reasonHash env reason =
     (if startsWith reason ''0x'' \<and> length reason = 66 then reason else erc8183Hash env reason)"

definition thrown_error :: "string \<Rightarrow> string \<Rightarrow> nat \<Rightarrow> job_step" where
  "thrown_error c m s = Finished (Inl (ThrownRunner (RunnerError c m s)))"

section \<open>The nine writes\<close>

definition submitDeliverableViaWallet ::
  "crypto \<Rightarrow> runner_config \<Rightarrow> string \<Rightarrow> string \<Rightarrow> string option \<Rightarrow> job_step" where
  "submitDeliverableViaWallet env cfg jobId deliverableHash optParams =
     (case cf_wallet cfg of
        Some (c # w) \<Rightarrow>
          Await (job_input cfg ''submitDeliverable'' ''erc8183.submitDeliverable''
                   ''submit(uint256,bytes32,bytes)'' ''0''
                   (''submitDeliverable:'' @ jobId @ '':'' @ deliverableHash)
                   (sha256Json env (JObj [(''jobId'', JStr jobId), (''deliverableHash'', JStr deliverableHash),
                      (''optParams'', JStr (or_else optParams ''0x''))]))
                   (c # w) ERC8183_AGENTIC_COMMERCE (Some jobId))
            (Erc8183Write ''submit(uint256,bytes32,bytes)''
               [jobId, deliverableHash, or_else optParams ''0x''] ERC8183_AGENTIC_COMMERCE)
            (\<lambda>rid now r receipts.
               (receipts,
                case assertGatewayWriteSucceeded r of
                  Inl e \<Rightarrow> Inl (ThrownRunner e)
                | Inr _ \<Rightarrow> Inr (Submitted r)))
      | _ \<Rightarrow> Finished (Inr (PreparedOnly (JObj [(''ok'', JBool False), (''mode'', JStr ''prepared-only''),
               (''reason'', JStr ''CIRCLE_WALLET_ADDRESS not configured''),
               (''prepared'', JObj ([(''jobId'', JStr jobId), (''deliverableHash'', JStr deliverableHash)]
                  @ (case optParams of None \<Rightarrow> [] | Some p \<Rightarrow> [(''optParams'', JStr p)])))]))))"

record create_job_input =
  cj_provider :: "string option"
  cj_evaluator :: "string option"
  cj_expiredAt :: string
  cj_description :: string
  cj_hook :: "string option"
  cj_key :: "string option"
  cj_request :: "string option"

definition createJob_key :: "create_job_input \<Rightarrow> string" where
  "createJob_key i =
     stableRequestKey ''createJob'' (cj_key i) (cj_request i)
       (''createJob:'' @ canonicalAddress (cj_provider i) @ '':'' @ canonicalAddress (cj_evaluator i)
         @ '':'' @ cj_expiredAt i @ '':'' @ cj_description i @ '':'' @ canonicalAddress (cj_hook i))"

definition number_text :: "string \<Rightarrow> string" where
  \<comment> \<open>the number in the message: an integer in decimal, any other number as it was written\<close>
  "number_text s = (case Number_text s of
       Fin q \<Rightarrow> if of_int (floor q) = q then int_str (floor q) else s
     | _ \<Rightarrow> s)"

definition createJob ::
  "crypto \<Rightarrow> runner_config \<Rightarrow> nat \<Rightarrow> json \<Rightarrow> create_job_input \<Rightarrow> job_step" where
  \<comment> \<open>\<open>expiredAt\<close> is the text \<open>String(value)\<close>, which \<open>Number\<close> reads back\<close>
  "createJob env cfg now body i =
     with_wallet cfg (\<lambda>w.
      if \<not> truthy (cj_evaluator i) \<or> toLowerCase (or_else (cj_evaluator i) []) = ZERO_ADDRESS then
        thrown_error ''INVALID_EVALUATOR''
          ''evaluator must be non-zero (Arc spec: createJob reverts with zero evaluator)'' 400
      else if Number_text (cj_expiredAt i) = NaN \<or> js_le (Number_text (cj_expiredAt i)) 0 then
        thrown_error ''INVALID_EXPIRED_AT'' ''expiredAt must be a valid positive unix timestamp'' 400
      else if js_le (Number_text (cj_expiredAt i)) (int now div 1000) then
        thrown_error ''INVALID_EXPIRED_AT''
          (''expiredAt ('' @ number_text (cj_expiredAt i) @ '') must be in the future (now: ''
            @ int_str (int now div 1000) @ '')'') 400
      else
        Await (job_input cfg ''createJob'' ''erc8183.createJob''
                 ''createJob(address,address,uint256,string,address)'' ''0'' (createJob_key i)
                 (sha256Json env (JObj [(''provider'', JStr (canonicalAddress (cj_provider i))),
                    (''evaluator'', JStr (canonicalAddress (cj_evaluator i))),
                    (''expiredAt'', JStr (cj_expiredAt i)), (''description'', JStr (cj_description i)),
                    (''hook'', JStr (canonicalAddress (cj_hook i)))]))
                 w ERC8183_AGENTIC_COMMERCE None)
          (Erc8183Write ''createJob(address,address,uint256,string,address)''
             [canonicalAddress (cj_provider i), canonicalAddress (cj_evaluator i), cj_expiredAt i,
              cj_description i, canonicalAddress (cj_hook i)] ERC8183_AGENTIC_COMMERCE)
          (job_tail env cfg body (\<lambda>t. ''createJob-'' @ nat_str t) None))"

definition setBudget ::
  "crypto \<Rightarrow> runner_config \<Rightarrow> json \<Rightarrow> string \<Rightarrow> string \<Rightarrow> string option \<Rightarrow> job_step" where
  "setBudget env cfg body jobId amount optParams =
     with_wallet cfg (\<lambda>w.
      case decimalToMicros amount of
        None \<Rightarrow> Finished (Inl (ThrownError ''SyntaxError''))
      | Some atomic \<Rightarrow>
          Await (job_input cfg ''setBudget'' ''erc8183.setBudget'' ''setBudget(uint256,uint256,bytes)'' amount
                   (''setBudget:'' @ jobId @ '':'' @ amount)
                   (sha256Json env (JObj [(''jobId'', JStr jobId), (''amount'', JStr amount),
                      (''optParams'', JStr (or_else optParams ''0x''))]))
                   w ERC8183_AGENTIC_COMMERCE (Some jobId))
            (Erc8183Write ''setBudget(uint256,uint256,bytes)''
               [jobId, int_str atomic, or_else optParams ''0x''] ERC8183_AGENTIC_COMMERCE)
            (job_tail env cfg body (\<lambda>t. ''setBudget-'' @ jobId) (Some jobId)))"

definition approveUsdc_key :: "string \<Rightarrow> string option \<Rightarrow> string option \<Rightarrow> string" where
  "approveUsdc_key amount idem req =
     (case idem of
        Some k \<Rightarrow> k
      | None \<Rightarrow> if truthy req then ''approveUsdc:'' @ or_else req [] @ '':'' @ amount
                else ''approveUsdc:'' @ amount @ '':'' @ ERC8183_AGENTIC_COMMERCE)"

definition approveUsdcForErc8183 ::
  "crypto \<Rightarrow> runner_config \<Rightarrow> json \<Rightarrow> string \<Rightarrow> string option \<Rightarrow> string option \<Rightarrow> job_step" where
  "approveUsdcForErc8183 env cfg body amount idem req =
     with_wallet cfg (\<lambda>w.
        Await (job_input cfg ''approveUsdc'' ''erc8183.approveUsdc'' ''approve(address,uint256)'' amount
                 (approveUsdc_key amount idem req)
                 (sha256Json env (JObj [(''amount'', JStr amount), (''usdcAddress'', JStr USDC_CONTRACT),
                    (''spenderAddress'', JStr ERC8183_AGENTIC_COMMERCE)]))
                 w USDC_CONTRACT None)
          (ApproveUsdc amount USDC_CONTRACT ERC8183_AGENTIC_COMMERCE)
          (job_tail env cfg body (\<lambda>t. ''approve-'' @ nat_str t) None))"

definition fundJob ::
  "crypto \<Rightarrow> runner_config \<Rightarrow> json \<Rightarrow> string \<Rightarrow> string option \<Rightarrow> job_step" where
  "fundJob env cfg body jobId optParams =
     with_wallet cfg (\<lambda>w.
        Await (job_input cfg ''fundJob'' ''erc8183.fundJob'' ''fund(uint256,bytes)'' ''0''
                 (''fundJob:'' @ jobId)
                 (sha256Json env (JObj [(''jobId'', JStr jobId), (''optParams'', JStr (or_else optParams ''0x''))]))
                 w ERC8183_AGENTIC_COMMERCE (Some jobId))
          (Erc8183Write ''fund(uint256,bytes)'' [jobId, or_else optParams ''0x''] ERC8183_AGENTIC_COMMERCE)
          (job_tail env cfg body (\<lambda>t. ''fund-'' @ jobId) (Some jobId)))"

definition completeJob ::
  "crypto \<Rightarrow> runner_config \<Rightarrow> json \<Rightarrow> string \<Rightarrow> string \<Rightarrow> string option \<Rightarrow> job_step" where
  "completeJob env cfg body jobId reason optParams =
     with_wallet cfg (\<lambda>w.
        Await (job_input cfg ''completeJob'' ''erc8183.completeJob'' ''complete(uint256,bytes32,bytes)'' ''0''
                 (''completeJob:'' @ jobId @ '':'' @ reasonHash env reason)
                 (sha256Json env (JObj [(''jobId'', JStr jobId), (''reasonHash'', JStr (reasonHash env reason)),
                    (''optParams'', JStr (or_else optParams ''0x''))]))
                 w ERC8183_AGENTIC_COMMERCE (Some jobId))
          (Erc8183Write ''complete(uint256,bytes32,bytes)''
             [jobId, reasonHash env reason, or_else optParams ''0x''] ERC8183_AGENTIC_COMMERCE)
          (job_tail env cfg body (\<lambda>t. ''complete-'' @ jobId) (Some jobId)))"

definition rejectJob ::
  "crypto \<Rightarrow> runner_config \<Rightarrow> json \<Rightarrow> string \<Rightarrow> string \<Rightarrow> string option \<Rightarrow> job_step" where
  "rejectJob env cfg body jobId reason optParams =
     with_wallet cfg (\<lambda>w.
        Await (job_input cfg ''rejectJob'' ''erc8183.rejectJob'' ''reject(uint256,bytes32,bytes)'' ''0''
                 (''rejectJob:'' @ jobId @ '':'' @ reasonHash env reason)
                 (sha256Json env (JObj [(''jobId'', JStr jobId), (''reasonHash'', JStr (reasonHash env reason)),
                    (''optParams'', JStr (or_else optParams ''0x''))]))
                 w ERC8183_AGENTIC_COMMERCE (Some jobId))
          (Erc8183Write ''reject(uint256,bytes32,bytes)''
             [jobId, reasonHash env reason, or_else optParams ''0x''] ERC8183_AGENTIC_COMMERCE)
          (job_tail env cfg body (\<lambda>t. ''reject-'' @ jobId) (Some jobId)))"

definition claimRefund :: "crypto \<Rightarrow> runner_config \<Rightarrow> json \<Rightarrow> string \<Rightarrow> job_step" where
  "claimRefund env cfg body jobId =
     with_wallet cfg (\<lambda>w.
        Await (job_input cfg ''claimRefund'' ''erc8183.claimRefund'' ''claimRefund(uint256)'' ''0''
                 (''claimRefund:'' @ jobId) (sha256Json env (JObj [(''jobId'', JStr jobId)]))
                 w ERC8183_AGENTIC_COMMERCE (Some jobId))
          (Erc8183Write ''claimRefund(uint256)'' [jobId] ERC8183_AGENTIC_COMMERCE)
          (job_tail env cfg body (\<lambda>t. ''claimRefund-'' @ jobId) (Some jobId)))"

definition setProvider :: "crypto \<Rightarrow> runner_config \<Rightarrow> json \<Rightarrow> string \<Rightarrow> string \<Rightarrow> job_step" where
  "setProvider env cfg body jobId provider =
     with_wallet cfg (\<lambda>w.
        if provider = [] \<or> toLowerCase provider = ZERO_ADDRESS then
          thrown_error ''INVALID_PROVIDER'' ''provider must be non-zero address'' 400
        else
          Await (job_input cfg ''setProvider'' ''erc8183.setProvider'' ''setProvider(uint256,address)'' ''0''
                   (''setProvider:'' @ jobId @ '':'' @ provider)
                   (sha256Json env (JObj [(''jobId'', JStr jobId), (''provider'', JStr provider)]))
                   w ERC8183_AGENTIC_COMMERCE (Some jobId))
            (Erc8183Write ''setProvider(uint256,address)'' [jobId, provider] ERC8183_AGENTIC_COMMERCE)
            (job_tail env cfg body (\<lambda>t. ''setProvider-'' @ jobId) (Some jobId)))"

end
