(* ===== verification/Approval_Store.thy ===== *)
theory Approval_Store
  imports Job_Writes Operation_State
begin

text \<open>
  \<open>ApprovalStore\<close> (\<open>arclayer-runner/src/approval-store.ts\<close>): the SQLite table of
  approvals and the transitions on it, and the request hash of
  \<open>runner-core/src/approval.ts\<close>. An \<open>UPDATE ... WHERE\<close> is a conditional update of one
  row that reports whether a row changed. Reads expire stale approvals, so every read
  returns the table too. ISO time stamps compare like the milliseconds they print; one
  operation reads the clock once. \<open>params_json\<close> and \<open>result_json\<close> are kept as the JSON
  values they are the text of.
\<close>

section \<open>The request hash\<close>

function sortKeysRecursive :: "json \<Rightarrow> json" where
  "sortKeysRecursive (JArr vs) = JArr (map sortKeysRecursive vs)"
| "sortKeysRecursive (JObj kvs) =
     JObj (map (\<lambda>(k, v). (k, sortKeysRecursive v)) (sort_key fst kvs))"
| "sortKeysRecursive JUndef = JUndef"
| "sortKeysRecursive JNull = JNull"
| "sortKeysRecursive (JBool b) = JBool b"
| "sortKeysRecursive (JNum n) = JNum n"
| "sortKeysRecursive (JStr s) = JStr s"
  by pat_completeness auto
termination
proof (relation "measure size", goal_cases)
  case (2 vs v)
  then show ?case by (simp add: size_list_estimation' less_Suc_eq_le)
next
  case (3 kvs kv k v)
  then have "(k, v) \<in> set kvs" by simp
  then have "size_prod (\<lambda>_. 0) size (k, v) \<le> size_list (size_prod (\<lambda>_. 0) size) kvs"
    by (intro size_list_estimation') auto
  then show ?case by simp
qed simp

definition computeRequestHash :: "crypto \<Rightarrow> json \<Rightarrow> string" where
  "computeRequestHash env params = sha256_hex env (json_text (sortKeysRecursive params))"

section \<open>Rows\<close>

record approval =
  ar_id :: string
  ar_action :: approval_action
  ar_role :: string
  ar_wallet :: string
  ar_chain :: int
  ar_job :: "string option"
  ar_amount :: "string option"
  ar_hash :: string
  ar_key :: string
  ar_state :: approval_state
  ar_params :: json
  ar_tx :: "string option"
  ar_result :: "json option"
  ar_op :: "string option"
  ar_error :: "string option"
  ar_expires :: nat
  ar_created :: nat
  ar_updated :: nat

record create_approval_input =
  ca_action :: approval_action
  ca_role :: string
  ca_wallet :: string
  ca_chain :: int
  ca_job :: "string option"
  ca_amount :: "string option"
  ca_hash :: string
  ca_key :: string
  ca_params :: json
  ca_expires :: nat

datatype transition_result =
  TransOk approval
| TransFail string "approval option"

section \<open>Create\<close>

definition store_create ::
  "nat \<Rightarrow> string \<Rightarrow> create_approval_input \<Rightarrow> approval list \<Rightarrow> sqlite_error + approval list \<times> approval" where
  "store_create now uuid i rows =
     (let r = \<lparr>ar_id = ''apr-'' @ uuid, ar_action = ca_action i, ar_role = ca_role i,
           ar_wallet = toLowerCase (ca_wallet i), ar_chain = ca_chain i, ar_job = ca_job i,
           ar_amount = ca_amount i, ar_hash = ca_hash i, ar_key = ca_key i, ar_state = ApPending,
           ar_params = ca_params i, ar_tx = None, ar_result = None, ar_op = None, ar_error = None,
           ar_expires = ca_expires i, ar_created = now, ar_updated = now\<rparr>
      in if sel ar_id (ar_id r) rows \<noteq> None then Inl (ConstraintViolation ''approvals.approval_id'')
         else if sel ar_key (ar_key r) rows \<noteq> None then Inl (ConstraintViolation ''approvals.idempotency_key'')
         else Inr (rows @ [r], r))"

section \<open>Reads\<close>

definition expirable :: "nat \<Rightarrow> approval \<Rightarrow> bool" where
  "expirable now r \<longleftrightarrow> (ar_state r = ApPending \<or> ar_state r = ApApproved) \<and> ar_expires r \<le> now"

definition expired_row :: "nat \<Rightarrow> approval \<Rightarrow> approval" where
  "expired_row now r = r\<lparr>ar_state := ApExpired, ar_updated := now\<rparr>"

definition checkAndExpire :: "nat \<Rightarrow> approval \<Rightarrow> approval list \<Rightarrow> approval list \<times> approval" where
  "checkAndExpire now r rows =
     (if \<not> expirable now r then (rows, r)
      else (upd ar_id (ar_id r)
              (\<lambda>x. if ar_state x = ApPending \<or> ar_state x = ApApproved then expired_row now x else x) rows,
            expired_row now r))"

definition store_get :: "nat \<Rightarrow> string \<Rightarrow> approval list \<Rightarrow> approval list \<times> approval option" where
  "store_get now i rows =
     (case sel ar_id i rows of
        None \<Rightarrow> (rows, None)
      | Some r \<Rightarrow> (case checkAndExpire now r rows of (rows', r') \<Rightarrow> (rows', Some r')))"

definition getByIdempotencyKey ::
  "nat \<Rightarrow> string \<Rightarrow> approval list \<Rightarrow> approval list \<times> approval option" where
  "getByIdempotencyKey now k rows =
     (case sel ar_key k rows of
        None \<Rightarrow> (rows, None)
      | Some r \<Rightarrow> (case checkAndExpire now r rows of (rows', r') \<Rightarrow> (rows', Some r')))"

fun expire_each :: "nat \<Rightarrow> approval list \<Rightarrow> approval list \<Rightarrow> approval list \<times> approval list" where
  \<comment> \<open>\<open>for (const record of records) this.checkAndExpire(record)\<close>\<close>
  "expire_each now [] rows = (rows, [])"
| "expire_each now (r # rs) rows =
     (case checkAndExpire now r rows of (rows1, r') \<Rightarrow>
        case expire_each now rs rows1 of (rows2, rs') \<Rightarrow> (rows2, r' # rs'))"

definition select_approvals ::
  "(approval \<Rightarrow> bool) \<Rightarrow> string option \<Rightarrow> nat \<Rightarrow> approval list \<Rightarrow> approval list" where
  \<comment> \<open>\<open>WHERE ... AND wallet_address = ? ORDER BY created_at DESC LIMIT ?\<close>\<close>
  "select_approvals P wallet limit rows =
     take limit (rev (sort_key ar_created
       (filter (\<lambda>r. P r \<and> (truthy wallet \<longrightarrow> ar_wallet r = toLowerCase (or_else wallet []))) rows)))"

definition listPending ::
  "nat \<Rightarrow> string option \<Rightarrow> nat \<Rightarrow> approval list \<Rightarrow> approval list \<times> approval list" where
  "listPending now wallet limit rows =
     (case expire_each now (select_approvals (\<lambda>r. ar_state r = ApPending) wallet limit rows) rows of
        (rows', rs) \<Rightarrow> (rows', filter (\<lambda>r. ar_state r = ApPending) rs))"

definition active_approval :: "approval_state \<Rightarrow> bool" where
  "active_approval s \<longleftrightarrow> s \<in> {ApPending, ApApproved, ApExecuting, ApExecuted}"

definition listActiveByWallet ::
  "nat \<Rightarrow> string option \<Rightarrow> nat \<Rightarrow> approval list \<Rightarrow> approval list \<times> approval list" where
  "listActiveByWallet now wallet limit rows =
     (case expire_each now (select_approvals (\<lambda>r. active_approval (ar_state r)) wallet limit rows) rows of
        (rows', rs) \<Rightarrow> (rows', filter (\<lambda>r. active_approval (ar_state r)) rs))"

definition duplicate_candidate :: "approval \<Rightarrow> bool" where
  \<comment> \<open>SQLite's \<open>LIKE\<close> ignores case\<close>
  "duplicate_candidate r \<longleftrightarrow> active_approval (ar_state r)
     \<or> (ar_state r = ApFailed \<and> ar_action r = ActErc8004Register
        \<and> (ar_tx r \<noteq> None
           \<or> (case ar_result r of None \<Rightarrow> False
              | Some j \<Rightarrow> includes_str (toLowerCase (json_text j)) [CHR 0x22, CHR ''t'', CHR ''x'',
                            CHR ''h'', CHR ''a'', CHR ''s'', CHR ''h'', CHR 0x22])))"

fun refresh_each :: "nat \<Rightarrow> approval list \<Rightarrow> approval list \<Rightarrow> approval list \<times> approval list" where
  \<comment> \<open>\<open>.map((record) => this.get(record.approvalId)).filter(Boolean)\<close>\<close>
  "refresh_each now [] rows = (rows, [])"
| "refresh_each now (r # rs) rows =
     (case store_get now (ar_id r) rows of (rows1, found) \<Rightarrow>
        case refresh_each now rs rows1 of (rows2, rs') \<Rightarrow>
          (rows2, (case found of None \<Rightarrow> rs' | Some r' \<Rightarrow> r' # rs')))"

definition listErc8004DuplicateCandidatesByWallet ::
  "nat \<Rightarrow> string option \<Rightarrow> nat \<Rightarrow> approval list \<Rightarrow> approval list \<times> approval list" where
  "listErc8004DuplicateCandidatesByWallet now wallet limit rows =
     (case refresh_each now (select_approvals duplicate_candidate wallet limit rows) rows of
        (rows', rs) \<Rightarrow> (rows', filter (\<lambda>r. ar_state r \<noteq> ApExpired) rs))"

section \<open>Transitions\<close>

definition update_where ::
  "string \<Rightarrow> (approval \<Rightarrow> bool) \<Rightarrow> (approval \<Rightarrow> approval) \<Rightarrow> approval list \<Rightarrow> approval list \<times> bool" where
  \<comment> \<open>\<open>UPDATE ... WHERE approval_id = i AND P\<close> and whether \<open>changes > 0\<close>\<close>
  "update_where i P f rows =
     (upd ar_id i (\<lambda>r. if P r then f r else r) rows,
      (case sel ar_id i rows of None \<Rightarrow> False | Some r \<Rightarrow> P r))"

definition transition_where ::
  "nat \<Rightarrow> string \<Rightarrow> (approval \<Rightarrow> bool) \<Rightarrow> (approval \<Rightarrow> approval) \<Rightarrow> approval list
     \<Rightarrow> approval list \<times> transition_result" where
  "transition_where now i P f rows =
     (case update_where i P f rows of (rows1, changed) \<Rightarrow>
        (case store_get now i rows1 of
           (rows2, None) \<Rightarrow> (rows2, TransFail ''APPROVAL_NOT_FOUND'' None)
         | (rows2, Some current) \<Rightarrow>
             (rows2, if changed then TransOk current
                     else TransFail (''INVALID_STATE: '' @ ap_state_name (ar_state current)) (Some current))))"

definition transitionToApproved ::
  "nat \<Rightarrow> string \<Rightarrow> approval list \<Rightarrow> approval list \<times> transition_result" where
  "transitionToApproved now i rows =
     transition_where now i (\<lambda>r. ar_state r = ApPending)
       (\<lambda>r. r\<lparr>ar_state := ApApproved, ar_updated := now\<rparr>) rows"

definition transitionFromApprovedToExecuting ::
  "nat \<Rightarrow> string \<Rightarrow> approval list \<Rightarrow> approval list \<times> transition_result" where
  "transitionFromApprovedToExecuting now i rows =
     transition_where now i (\<lambda>r. ar_state r = ApApproved \<and> ar_expires r > now)
       (\<lambda>r. r\<lparr>ar_state := ApExecuting, ar_updated := now\<rparr>) rows"

definition transitionToExecuting ::
  "nat \<Rightarrow> string \<Rightarrow> approval list \<Rightarrow> approval list \<times> transition_result" where
  "transitionToExecuting now i rows =
     transition_where now i (\<lambda>r. ar_state r = ApPending \<and> ar_expires r > now)
       (\<lambda>r. r\<lparr>ar_state := ApExecuting, ar_updated := now\<rparr>) rows"

definition truthy_json :: "json \<Rightarrow> json option" where
  \<comment> \<open>\<open>result ? JSON.stringify(result) : null\<close>\<close>
  "truthy_json j = (if jtruthy j then Some j else None)"

definition transitionToExecuted ::
  "nat \<Rightarrow> string \<Rightarrow> string option \<Rightarrow> json \<Rightarrow> string option \<Rightarrow> approval list
     \<Rightarrow> approval list \<times> approval option" where
  "transitionToExecuted now i tx result op rows =
     store_get now i (fst (update_where i (\<lambda>r. ar_state r = ApExecuting)
       (\<lambda>r. r\<lparr>ar_state := ApExecuted, ar_tx := tx, ar_result := truthy_json result, ar_op := op,
              ar_updated := now\<rparr>) rows))"

definition saveExecutingRetryMetadata :: "nat \<Rightarrow> string \<Rightarrow> json \<Rightarrow> approval list \<Rightarrow> approval list" where
  "saveExecutingRetryMetadata now i result rows =
     fst (update_where i (\<lambda>r. ar_state r = ApExecuting)
       (\<lambda>r. r\<lparr>ar_result := Some result, ar_updated := now\<rparr>) rows)"

definition transitionToFailed ::
  "nat \<Rightarrow> string \<Rightarrow> string \<Rightarrow> approval list \<Rightarrow> approval list \<times> approval option" where
  "transitionToFailed now i message rows =
     store_get now i (fst (update_where i (\<lambda>r. ar_state r = ApExecuting)
       (\<lambda>r. r\<lparr>ar_state := ApFailed, ar_error := Some (take 500 message), ar_updated := now\<rparr>) rows))"

fun js_String :: "json \<Rightarrow> string" where
  \<comment> \<open>\<open>String(v)\<close>; an object or array never gets here\<close>
  "js_String (JStr s) = s"
| "js_String v = json_text v"

definition transitionToFailedWithResult ::
  "nat \<Rightarrow> string \<Rightarrow> string \<Rightarrow> json \<Rightarrow> approval list \<Rightarrow> approval list \<times> approval option" where
  "transitionToFailedWithResult now i message result rows =
     store_get now i (fst (update_where i (\<lambda>r. ar_state r = ApExecuting)
       (\<lambda>r. r\<lparr>ar_state := ApFailed, ar_error := Some (take 500 message),
              ar_result := truthy_json result,
              ar_tx := (if jtruthy (jget ''txHash'' result) then Some (js_String (jget ''txHash'' result)) else None),
              ar_updated := now\<rparr>) rows))"

definition transitionToRejected ::
  "nat \<Rightarrow> string \<Rightarrow> string option \<Rightarrow> approval list \<Rightarrow> approval list \<times> transition_result" where
  "transitionToRejected now i reason rows =
     transition_where now i (\<lambda>r. ar_state r = ApPending)
       (\<lambda>r. r\<lparr>ar_state := ApRejected, ar_error := reason, ar_updated := now\<rparr>) rows"

definition transitionToCancelled ::
  "nat \<Rightarrow> string \<Rightarrow> approval list \<Rightarrow> approval list \<times> transition_result" where
  "transitionToCancelled now i rows =
     transition_where now i (\<lambda>r. ar_state r = ApPending)
       (\<lambda>r. r\<lparr>ar_state := ApCancelled, ar_updated := now\<rparr>) rows"

end
