(* ===== verification/Component_Properties.thy ===== *)
theory Component_Properties
  imports Journal_Invariant Ttl_Stores Usdc Approval_Store
begin

text \<open>
  Properties of the runner's smaller components: the replay guards, the USDC texts, the two
  state machines, the request hash, and the journal on its own, as a step relation of its
  write operations.
\<close>

section \<open>Replay guards\<close>

text \<open>A signed request is accepted at most once while its nonce lives. After
  \<open>checkAndMark\<close> accepted a nonce, every later \<open>checkAndMark\<close> of the same nonce and runner
  within the time to live is refused, whatever marks and clean-ups happen in between.\<close>

lemma nonce_replay_refused:
  assumes "nonce_checkAndMark now n r st = Inr st'" "t < now + ns_ttl st"
    "\<forall>ev\<in>set evs. nonce_time ev \<le> t"
  shows "\<exists>e. nonce_checkAndMark t n r (fold nonce_apply evs st') = Inl e"
  by (rule nonces.marked_once [OF assms])

lemma nonce_replay_refused_witness:
  "\<exists>e. nonce_checkAndMark 90 ''n1'' ''r'' (fold nonce_apply [NonceMark 20 ''n2'' ''r'', NonceCleanup 80]
     ((new_nonce_store 100)\<lparr>ns_entries := [(''r:n1'', \<lparr>ne_nonce = ''n1'', ne_runner = ''r'', ne_expires = 110\<rparr>)]\<rparr>)) = Inl e"
  by (rule nonce_replay_refused [of 10 "''n1''" "''r''" "new_nonce_store 100"])
    (simp_all add: nonce_checkAndMark_def new_nonce_store_def nonce_buildKey_def)

text \<open>A task is dispatched at most once while its entry lives: after \<open>checkAndMark\<close>
  accepted a task, every later one for the same task and agent within the time to live is
  refused, whether the task is pending, completed or failed by then.\<close>

lemma task_dispatched_once:
  assumes "task_checkAndMark now i a st = Inr st'" "t < now + ts_ttl st"
    "\<forall>ev\<in>set evs. task_time ev \<le> t"
  shows "\<exists>e. task_checkAndMark t i a (fold task_apply evs st') = Inl e"
  by (rule tasks.marked_once [OF assms])

lemma task_dispatched_once_witness:
  "\<exists>e. task_checkAndMark 90 ''t1'' ''a'' (fold task_apply [TaskDone 20 ''t1'' ''a'', TaskCleanup 80]
     ((new_task_store 100)\<lparr>ts_entries := [(''a:t1'', \<lparr>te_task = ''t1'', te_status = TaskPending,
        te_created = 10, te_expires = 110\<rparr>)]\<rparr>)) = Inl e"
  by (rule task_dispatched_once [of 10 "''t1''" "''a''" "new_task_store 100"])
    (simp_all add: task_checkAndMark_def new_task_store_def task_buildKey_def)

section \<open>USDC texts\<close>

text \<open>C39: Printing an amount and reading it back gives the amount, for both printers and all
  three parsers of the repository.\<close>

lemma usdc_round_trip:
  assumes "0 \<le> n"
  shows "decimalToMicros (microsToUsdc n) = Some n \<and> decimalToMicros (atomicToUsdc n) = Some n
    \<and> usdcToMicros (Some (microsToUsdc n)) = Inr n \<and> usdcToMicros (Some (atomicToUsdc n)) = Inr n
    \<and> parseUsdcToAtomic (microsToUsdc n) = Inr n \<and> parseUsdcToAtomic (atomicToUsdc n) = Inr n"
  using policy_amount.parse_micros [OF assms] policy_amount.parse_atomic [OF assms]
    spend_amount.parse_micros [OF assms] spend_amount.parse_atomic [OF assms]
    envelope_amount.parse_micros [OF assms] envelope_amount.parse_atomic [OF assms]
  by simp

lemma usdc_round_trip_witness:
  "decimalToMicros (microsToUsdc 1500000) = Some 1500000
    \<and> decimalToMicros (atomicToUsdc 1500000) = Some 1500000
    \<and> usdcToMicros (Some (microsToUsdc 1500000)) = Inr 1500000
    \<and> usdcToMicros (Some (atomicToUsdc 1500000)) = Inr 1500000
    \<and> parseUsdcToAtomic (microsToUsdc 1500000) = Inr 1500000
    \<and> parseUsdcToAtomic (atomicToUsdc 1500000) = Inr 1500000"
  by (rule usdc_round_trip) simp

text \<open>The three parsers are one function on the accepted format: digits, and at most six
  digits after a point, mean the same number of micro-USDC to all of them.\<close>

lemma usdc_parsers_agree:
  assumes "usdc_format s"
  shows "usdcToMicros (Some s) = Inr (usdc_value s) \<and> decimalToMicros s = Some (usdc_value s)
    \<and> parseUsdcToAtomic s = Inr (usdc_value s) \<and> 0 \<le> usdc_value s"
  using assms by (simp add: usdcToMicros_value decimal_value parse_value usdc_value_nonneg)

lemma usdc_parsers_agree_witness:
  "usdcToMicros (Some ''0.05'') = Inr (usdc_value ''0.05'') \<and> decimalToMicros ''0.05'' = Some (usdc_value ''0.05'')
    \<and> parseUsdcToAtomic ''0.05'' = Inr (usdc_value ''0.05'') \<and> 0 \<le> usdc_value ''0.05''"
  by (rule usdc_parsers_agree) code_simp

section \<open>State machines\<close>

text \<open>C40: No run of the two transition tables is longer than six steps for an operation and
  three for an approval, so every operation and approval that only takes allowed transitions
  ends, and one in a terminal state never moves.\<close>

lemma transition_tables_terminate:
  "((canTransitionOperationState ^^ n) s t \<longrightarrow> n \<le> 6)
   \<and> ((isTransitionAllowed ^^ m) a b \<longrightarrow> m \<le> 3)
   \<and> \<not> (isTerminalOperationState s \<and> canTransitionOperationState s u)"
proof -
  have "op_rank s \<le> 6" "ap_rank a \<le> 3" by (cases s; simp) (cases a; simp)
  then show ?thesis
    using op_table.runs_bounded [of n s t] ap_table.runs_bounded [of m a b] op_table.terminal_stuck
    by (meson add_leD1 order_trans)
qed

lemma transition_tables_terminate_witness:
  "canTransitionOperationState OpCreated OpPrepared \<and> isTransitionAllowed ApPending ApExecuting
     \<and> 1 \<le> (6::nat)"
proof -
  have "canTransitionOperationState OpCreated OpPrepared" "isTransitionAllowed ApPending ApExecuting"
    by (simp_all add: canTransitionOperationState_def isTransitionAllowed_def)
  with transition_tables_terminate [of 1 OpCreated OpPrepared 1 ApPending ApExecuting OpFailed]
  show ?thesis by simp
qed

section \<open>The request hash\<close>

lemma short_mset: "length xs \<le> 1 \<Longrightarrow> mset xs = mset ys \<Longrightarrow> xs = ys"
  by (cases xs) (auto simp: mset_single_iff_right)

lemma sort_key_mset:
  assumes "mset kvs = mset kvs'" "distinct (map fst kvs)"
  shows "sort_key fst kvs = sort_key fst kvs'"
proof (rule properties_for_sort_key [symmetric])
  show "mset (sort_key fst kvs) = mset kvs'" using assms(1) by simp
  fix k
  assume "k \<in> set (sort_key fst kvs)"
  have one: "\<lbrakk>distinct (map fst xs); mset xs = mset ys\<rbrakk> \<Longrightarrow>
      filter (\<lambda>x. fst k = fst x) xs = filter (\<lambda>x. fst k = fst x) ys" for xs ys
  proof (rule short_mset)
    assume d: "distinct (map fst xs)" and m: "mset xs = mset ys"
    show "length (filter (\<lambda>x. fst k = fst x) xs) \<le> 1"
      using d by (induction xs) (auto simp: filter_empty_conv)
    show "mset (filter (\<lambda>x. fst k = fst x) xs) = mset (filter (\<lambda>x. fst k = fst x) ys)"
      using m by (simp only: mset_filter)
  qed
  show "filter (\<lambda>x. fst k = fst x) (sort_key fst kvs) = filter (\<lambda>x. fst k = fst x) kvs'"
    by (rule one) (use assms in \<open>simp_all add: distinct_map\<close>)
qed simp

text \<open>Hashes do not depend on the order in which a request lists its fields: two objects
  with the same fields in another order have the same canonical text, hence the same
  \<open>paramsHash\<close>, and the same approval request hash.\<close>

lemma hashes_ignore_field_order:
  assumes "mset kvs = mset kvs'" "distinct (map fst kvs)"
  shows "canonicalJson (JObj kvs) = canonicalJson (JObj kvs')
    \<and> sha256Json env (JObj kvs) = sha256Json env (JObj kvs')
    \<and> computeRequestHash env (JObj kvs) = computeRequestHash env (JObj kvs')"
  using sort_key_mset [OF assms] by (simp add: sha256Json_def computeRequestHash_def)

lemma hashes_ignore_field_order_witness:
  "canonicalJson (JObj [(''b'', JNum ''1''), (''a'', JNull)]) = canonicalJson (JObj [(''a'', JNull), (''b'', JNum ''1'')])
    \<and> sha256Json \<lparr>sha256_hex = id, keccak_hex = id\<rparr> (JObj [(''b'', JNum ''1''), (''a'', JNull)])
      = sha256Json \<lparr>sha256_hex = id, keccak_hex = id\<rparr> (JObj [(''a'', JNull), (''b'', JNum ''1'')])
    \<and> computeRequestHash \<lparr>sha256_hex = id, keccak_hex = id\<rparr> (JObj [(''b'', JNum ''1''), (''a'', JNull)])
      = computeRequestHash \<lparr>sha256_hex = id, keccak_hex = id\<rparr> (JObj [(''a'', JNull), (''b'', JNum ''1'')])"
  by (rule hashes_ignore_field_order) simp_all

section \<open>The journal\<close>

text \<open>The journal's own writes, in any order, as long as nobody brings an operation back from
  a terminal state.\<close>

inductive journal_step :: "journal \<Rightarrow> journal \<Rightarrow> bool" where
  created: "createOperationWithLocks r locks db = Inr (db', res) \<Longrightarrow> lq_wallet locks = or_wallet r \<Longrightarrow>
     \<not> isTerminalOperationState (or_state r) \<Longrightarrow> journal_step db db'"
| finalized: "finalizeOperation now op f db = Inr db' \<Longrightarrow> finalizable op (fin_state f) db \<Longrightarrow>
     journal_step db db'"
| reconciled: "finalizable op (outcome_state out) db \<Longrightarrow>
     journal_step db (reconcileOperation_j now op out d db)"
| deleted: "journal_step db (deleteOperation op db)"
| recovered: "journal_step db (fst (recoverNonTerminalOperations now db))"

interpretation journal_runs: invariant_system "\<lambda>db. db = empty_journal" journal_step journal_inv
proof unfold_locales
  show "journal_step s t \<Longrightarrow> journal_inv s \<Longrightarrow> journal_inv t" for s t
    by (induction rule: journal_step.induct)
      (blast intro: create_inv finalize_inv reconcile_inv delete_inv recover_inv)+
qed simp

text \<open>A wallet has at most one operation that is not settled, over every sequence of
  journal operations from the empty database: two rows whose wallets are equal up to case and
  whose states are not terminal are the same row.\<close>

lemma wallet_has_one_live_operation:
  assumes "journal_step\<^sup>*\<^sup>* empty_journal db" "r \<in> set (j_ops db)" "r' \<in> set (j_ops db)"
    "\<not> isTerminalOperationState (opr_state r)" "\<not> isTerminalOperationState (opr_state r')"
    "opr_wallet r = Some w" "opr_wallet r' = Some w'" "w \<noteq> []" "toLowerCase w = toLowerCase w'"
  shows "r = r'"
  using wallet_exclusive [OF journal_runs.reach_inv [OF refl assms(1)]] assms(2-)
  unfolding active_def by blast

definition demo_operation :: operation_record where
  "demo_operation = \<lparr>or_id = ''op1'', or_key = ''k'', or_tool = ''fundJob'', or_agent = None,
     or_wallet = Some ''0xA'', or_chain = None, or_contract = None, or_hash = ''h'', or_state = OpCreated,
     or_tx = None, or_errcode = None, or_errmsg = None, or_created = 1, or_updated = 1\<rparr>"

definition demo_journal :: journal where
  "demo_journal = \<lparr>j_ops = [row_of_record demo_operation],
     j_idem = [\<lparr>idr_composite = ''k:h'', idr_op = ''op1'', idr_key = ''k'', idr_hash = ''h''\<rparr>],
     j_wallet_locks = [\<lparr>lkr_key = ''0xa'', lkr_op = ''op1''\<rparr>],
     j_job_locks = [\<lparr>lkr_key = ''7'', lkr_op = ''op1''\<rparr>], j_results = [], j_receipts = []\<rparr>"

lemma demo_journal_reached: "journal_step\<^sup>*\<^sup>* empty_journal demo_journal"
proof -
  have "createOperationWithLocks demo_operation \<lparr>lq_wallet = Some ''0xA'', lq_job = Some ''7''\<rparr> empty_journal
      = Inr (demo_journal, CreateOk ''op1'')"
    by code_simp
  then have "journal_step empty_journal demo_journal"
    by (rule created) (simp_all add: demo_operation_def)
  then show ?thesis by simp
qed

lemma wallet_has_one_live_operation_witness:
  "hd (j_ops demo_journal) = row_of_record demo_operation"
  by (rule wallet_has_one_live_operation [OF demo_journal_reached, of _ _ "''0xA''" "''0xA''"])
    (simp_all add: demo_journal_def row_of_record_def demo_operation_def)

lemma extra_wallet_locks: "j_wallet_locks (finalize_extra op f db) = j_wallet_locks db"
  by (simp add: finalize_extra_def Let_def split: option.splits)

text \<open>Settling an operation frees its wallet and its job. While an operation that is not
  settled names a wallet, the wallet is locked for it; finalising it as confirmed, failed or
  cancelled leaves the wallet without a lock, and leaves every other wallet's lock as it was.\<close>

lemma settling_frees_the_wallet:
  assumes "journal_step\<^sup>*\<^sup>* empty_journal db" "getOperation op db = Some r"
    "\<not> isTerminalOperationState (opr_state r)" "opr_wallet r = Some w" "w \<noteq> []"
    "finalizeOperation now op f db = Inr db'" "isTerminalOperationState (fin_state f)"
  shows "getWalletLockOperation w db = Some op \<and> \<not> hasWalletLock w db'
    \<and> (\<forall>v. getWalletLockOperation v db \<noteq> Some op \<longrightarrow> getWalletLockOperation v db' = getWalletLockOperation v db)"
proof -
  have inv: "journal_inv db" using journal_runs.reach_inv [OF refl assms(1)] .
  have "r \<in> set (j_ops db)" "opr_id r = op"
    using assms(2) sel_SomeD [of opr_id op "j_ops db" r] by (simp_all add: getOperation_def)
  then have held: "lock_holder (toLowerCase w) (j_wallet_locks db) = Some op"
    using inv assms(3,4,5) unfolding journal_inv_def wallet_held_def active_def by blast
  have d: "locks_distinct (j_wallet_locks db)" using inv by (simp add: journal_inv_def keys_ok_def)
  have ls: "j_wallet_locks db' = lock_release op (j_wallet_locks db)"
    using assms(6,7) by (simp add: finalize_split extra_wallet_locks) (simp add: releaseLocks_def)
  show ?thesis
    using held journal_locks.holder_release [OF d, of _ op]
    by (simp add: getWalletLockOperation_def hasWalletLock_def ls)
qed

definition demo_settled :: finalization where
  "demo_settled = \<lparr>fin_state = OpFailed, fin_tx = None, fin_errcode = None, fin_errmsg = None,
     fin_result = None, fin_receipt = None\<rparr>"

lemma settling_frees_the_wallet_witness:
  "getWalletLockOperation ''0xA'' demo_journal = Some ''op1''
    \<and> (\<exists>db'. finalizeOperation 9 ''op1'' demo_settled demo_journal = Inr db' \<and> \<not> hasWalletLock ''0xA'' db')"
proof -
  obtain db' where fin: "finalizeOperation 9 ''op1'' demo_settled demo_journal = Inr db'"
    by (simp add: finalizeOperation_def demo_settled_def demo_journal_def row_of_record_def demo_operation_def Let_def)
  have row: "getOperation ''op1'' demo_journal = Some (row_of_record demo_operation)" by code_simp
  have "\<not> isTerminalOperationState (opr_state (row_of_record demo_operation))" by code_simp
  then show ?thesis
    using settling_frees_the_wallet [OF demo_journal_reached row _ _ _ fin, of "''0xA''"] fin
    by (simp add: demo_settled_def row_of_record_def demo_operation_def)
qed

text \<open>Start-up recovery settles every interrupted operation: a created, prepared or reserved
  one fails, an executing one becomes unknown, which blocks a retry, every other one keeps its
  state, and a second recovery changes nothing.\<close>

lemma recovery_settles:
  "fst (recoverNonTerminalOperations later (fst (recoverNonTerminalOperations now db)))
     = fst (recoverNonTerminalOperations now db)
   \<and> map opr_state (j_ops (fst (recoverNonTerminalOperations now db)))
     = map (\<lambda>r. if opr_state r \<in> {OpCreated, OpPrepared, OpReserved} then OpFailed
                 else if opr_state r = OpExecuting then OpUnknown else opr_state r) (j_ops db)"
proof -
  let ?db = "fst (recoverNonTerminalOperations now db)"
  have ops: "j_ops ?db = map (recovery_row now) (j_ops db)"
    by (simp add: recoverNonTerminalOperations_def fold_releaseLocks)
  have states: "opr_state (recovery_row now r) \<notin> {OpCreated, OpPrepared, OpReserved, OpExecuting}" for r
    by (simp add: recovery_row_def)
  have "recovery_row later (recovery_row now r) = recovery_row now r" for r
    by (simp add: recovery_row_def)
  moreover have "filter (\<lambda>r. opr_state r \<in> {OpCreated, OpPrepared, OpReserved}) (j_ops ?db) = []"
    unfolding ops filter_empty_conv using states by fastforce
  then have "pre_broadcast_ids ?db = []" by (simp add: pre_broadcast_ids_def)
  ultimately have "fst (recoverNonTerminalOperations later ?db) = ?db"
    by (simp add: recoverNonTerminalOperations_def [of later] ops map_idI)
  with states show ?thesis by (auto simp: ops recovery_row_def)
qed

end
