(* ===== verification/Gateway_Restart.thy ===== *)
theory Gateway_Restart
  imports Gateway_Idempotence
begin

text \<open>
  What a crash does to a wallet call in flight. The gateway marks an operation
  \<open>executing\<close> only in memory; its journal row is still \<open>created\<close>, and start-up
  recovery turns such a row into a failed operation that may be retried.
\<close>

lemma created_locks:
  assumes "createOperationWithLocks r locks db = Inr (db', CreateOk op)"
  shows "lq_wallet locks = Some w \<Longrightarrow> w \<noteq> [] \<Longrightarrow> lock_holder (toLowerCase w) (j_wallet_locks db') = Some op"
    and "lq_job locks = Some j \<Longrightarrow> j \<noteq> [] \<Longrightarrow> lock_holder j (j_job_locks db') = Some op"
    and "\<exists>i\<in>set (j_idem db'). idr_op i = op \<and> idr_key i = or_key r \<and> idr_hash i = or_hash r"
proof -
  from assms have ins: "insertOperation r locks db = Inr (db', CreateOk op)"
    and free: "wallet_lock_conflict locks db = None" "job_lock_conflict locks db = None"
    by (auto simp: createOperationWithLocks_def split: option.splits)
  have op: "op = or_id r" by (rule create_id [OF assms])
  show "\<exists>i\<in>set (j_idem db'). idr_op i = op \<and> idr_key i = or_key r \<and> idr_hash i = or_hash r"
    using ins op by (auto simp: insertOperation_def Let_def split: if_splits)
  show "lock_holder (toLowerCase w) (j_wallet_locks db') = Some op"
    if w: "lq_wallet locks = Some w" "w \<noteq> []"
  proof -
    have "j_wallet_locks db' = lock_acquire (toLowerCase w) op (j_wallet_locks db)"
      using ins w op by (auto simp: insertOperation_def Let_def split: if_splits)
    moreover have "lock_holder (toLowerCase w) (j_wallet_locks db) = None"
      using free(1) w by (simp add: wallet_lock_conflict_def)
    ultimately show ?thesis by (simp add: journal_locks.holder_acquire)
  qed
  show "lock_holder j (j_job_locks db') = Some op"
    if j: "lq_job locks = Some j" "j \<noteq> []"
  proof -
    have "j_job_locks db' = lock_acquire j op (j_job_locks db)"
      using ins j op by (auto simp: insertOperation_def Let_def split: if_splits)
    moreover have "lock_holder j (j_job_locks db) = None"
      using free(2) j by (simp add: job_lock_conflict_def)
    ultimately show ?thesis by (simp add: journal_locks.holder_acquire)
  qed
qed

text \<open>Deleting an operation frees its key and leaves no lock it held.\<close>

lemma recreate:
  assumes inv: "journal_inv db" and row: "getOperation op db = Some row"
    and rec: "opr_key row = or_key r" "opr_hash row = or_hash r" "or_id r \<notin> opr_id ` set (j_ops db)"
    and wal: "\<And>w. lq_wallet locks = Some w \<Longrightarrow> w \<noteq> [] \<Longrightarrow>
        lock_holder (toLowerCase w) (j_wallet_locks db) \<in> {None, Some op}"
    and job: "\<And>j. lq_job locks = Some j \<Longrightarrow> j \<noteq> [] \<Longrightarrow>
        lock_holder j (j_job_locks db) \<in> {None, Some op}"
  shows "\<exists>db'. createOperationWithLocks r locks (deleteOperation op db) = Inr (db', CreateOk (or_id r))"
proof -
  let ?db = "deleteOperation op db"
  have mem: "row \<in> set (j_ops db)" "opr_id row = op" using get_mem [OF row] by auto
  have wf: "locks_distinct (j_wallet_locks db)" "locks_distinct (j_job_locks db)"
    using inv by (simp_all add: journal_inv_def keys_ok_def)
  obtain i0 where i0: "i0 \<in> set (j_idem db)" "idr_op i0 = op"
    using inv mem unfolding journal_inv_def idem_ok_def by metis
  have k0: "idr_key i0 = or_key r \<and> idr_hash i0 = or_hash r
      \<and> idr_composite i0 = compositeKey (or_key r) (or_hash r)"
    using inv i0 row rec(1,2) unfolding journal_inv_def idem_ok_def by (metis option.inject)
  have inj: "inj_on idr_key (set (j_idem db))" "inj_on idr_composite (set (j_idem db))"
    using inv by (simp_all add: journal_inv_def keys_ok_def distinct_map)
  have nokey: "idr_key i \<noteq> or_key r" "idr_composite i \<noteq> compositeKey (or_key r) (or_hash r)"
    if i: "i \<in> set (j_idem ?db)" for i
  proof -
    from i have m: "i \<in> set (j_idem db)" "idr_op i \<noteq> op" by (auto simp: deleteOperation_def)
    with i0 have "i \<noteq> i0" by blast
    with inj m(1) i0(1) k0 show "idr_key i \<noteq> or_key r"
      "idr_composite i \<noteq> compositeKey (or_key r) (or_hash r)" by (metis inj_onD)+
  qed
  have f: "find (\<lambda>i. idr_key i = or_key r \<and> idr_hash i = or_hash r) (j_idem ?db) = None"
    "find (\<lambda>i. idr_key i = or_key r \<and> idr_hash i \<noteq> or_hash r) (j_idem ?db) = None"
    "sel idr_composite (compositeKey (or_key r) (or_hash r)) (j_idem ?db) = None"
    "sel opr_id (or_id r) (j_ops ?db) = None"
    using nokey(1) rec(3) nokey(2)
    by (auto simp: find_None_iff sel_None_iff image_iff dest!: sym [of "compositeKey _ _"])
       (auto simp: deleteOperation_def)
  have "wallet_lock_conflict locks ?db = None"
  proof (cases "lq_wallet locks")
    case (Some w)
    then show ?thesis
      using wal [of w] journal_locks.holder_release [OF wf(1), of "toLowerCase w" op]
      by (auto simp: wallet_lock_conflict_def deleteOperation_def)
  qed (simp add: wallet_lock_conflict_def)
  moreover have "job_lock_conflict locks ?db = None"
  proof (cases "lq_job locks")
    case (Some j)
    then show ?thesis
      using job [of j] journal_locks.holder_release [OF wf(2), of j op]
      by (auto simp: job_lock_conflict_def deleteOperation_def)
  qed (simp add: job_lock_conflict_def)
  ultimately show ?thesis
    using f by (simp add: createOperationWithLocks_def insertOperation_def Let_def)
qed

lemma launched_parts:
  assumes inv: "gw_inv fl g"
    and run: "execute_begin guard agentId input now op (g, p) = ((g', p'), Launched k)"
  shows "\<exists>g1 g2 c. index_check input g = (g1, None) \<and>
    create_phase input (new_record agentId input now op c) g1 = (g2, None) \<and>
    launch_phase guard agentId input now (new_record agentId input now op c) (g2, p)
      = ((g', p'), Launched k) \<and>
    resolveChainId (gi_chain input) (gi_chainId input) = Inr c"
proof -
  obtain g1 o1 where ic: "index_check input g = (g1, o1)" by fastforce
  then have o1: "o1 = None"
    using run index_check_inv [OF inv ic] by (cases o1) (auto simp: execute_begin_def)
  obtain c where c: "resolveChainId (gi_chain input) (gi_chainId input) = Inr c"
    using run ic o1 by (cases "resolveChainId (gi_chain input) (gi_chainId input)") (auto simp: execute_begin_def)
  obtain g2 o2 where cp: "create_phase input (new_record agentId input now op c) g1 = (g2, o2)"
    by fastforce
  have "gw_inv fl g1" using index_check_inv [OF inv ic] by blast
  then have o2: "o2 = None"
    using run ic o1 c cp create_phase_inv [OF _ cp]
    by (cases o2) (auto simp: execute_begin_def Let_def)
  from run ic o1 c cp o2 show ?thesis by (auto simp: execute_begin_def Let_def)
qed

text \<open>The journal right after a launch: a created row that holds its locks.\<close>

lemma launched_journal:
  assumes inv: "gw_inv fl g" and new: "op \<notin> fl"
    and run: "execute_begin guard agentId input now op (g, p) = ((g', p'), Launched op)"
  shows "journal_inv (g_journal g')"
    and "\<exists>row. getOperation op (g_journal g') = Some row \<and> opr_state row = OpCreated
           \<and> opr_key row = gi_key input \<and> opr_hash row = gi_hash input"
    and "gi_wallet input \<noteq> []"
    and "lock_holder (toLowerCase (gi_wallet input)) (j_wallet_locks (g_journal g')) = Some op"
    and "gi_job input = Some j \<Longrightarrow> j \<noteq> [] \<Longrightarrow> lock_holder j (j_job_locks (g_journal g')) = Some op"
    and "\<exists>c. resolveChainId (gi_chain input) (gi_chainId input) = Inr c"
proof -
  obtain g1 g2 c where
    ic: "index_check input g = (g1, None)" and
    cp: "create_phase input (new_record agentId input now op c) g1 = (g2, None)" and
    la: "launch_phase guard agentId input now (new_record agentId input now op c) (g2, p)
      = ((g', p'), Launched op)" and
    ch: "resolveChainId (gi_chain input) (gi_chainId input) = Inr c"
    using launched_parts [OF inv run] by blast
  have inv1: "gw_inv fl g1" using index_check_inv [OF inv ic] by blast
  have inv2: "gw_inv fl g2" and cr2: "created (new_record agentId input now op c) g2"
    using create_phase_inv [OF inv1 cp] by simp_all
  from create_phase_forgets [OF inv1 cp] obtain g0 where
    "create_ok_from (input_locks input) (new_record agentId input now op c) g0 g2"
    by (simp del: split_paired_Ex) blast
  then obtain db where cr: "createOperationWithLocks (new_record agentId input now op c)
      (input_locks input) (g_journal g0) = Inr (db, CreateOk op)" "g_journal g2 = db"
    by (auto simp: create_ok_from_def)
  have j: "g_journal g' = db" and w: "gi_wallet input \<noteq> []"
    using la cr(2)
    by (auto simp: launch_phase_def Let_def set_op_state_def split: if_splits sum.splits option.splits)
  show "journal_inv (g_journal g')" using inv2 cr(2) j by (simp add: gw_inv_def)
  show "\<exists>row. getOperation op (g_journal g') = Some row \<and> opr_state row = OpCreated
      \<and> opr_key row = gi_key input \<and> opr_hash row = gi_hash input"
    using cr2 cr(2) j by (simp add: created_def row_of_record_def)
  show "gi_wallet input \<noteq> []" by (rule w)
  show "lock_holder (toLowerCase (gi_wallet input)) (j_wallet_locks (g_journal g')) = Some op"
    using created_locks(1) [OF cr(1)] w j by simp
  show "gi_job input = Some j \<Longrightarrow> j \<noteq> [] \<Longrightarrow> lock_holder j (j_job_locks (g_journal g')) = Some op"
    using created_locks(2) [OF cr(1)] j by simp
  show "\<exists>c. resolveChainId (gi_chain input) (gi_chainId input) = Inr c" using ch by blast
qed

section \<open>Recovery frees the key and the locks\<close>

lemma recovered_row:
  assumes "getOperation op db = Some row" "opr_state row = OpCreated"
  shows "\<exists>r. getOperation op (fst (recoverNonTerminalOperations now db)) = Some r \<and> opr_state r = OpFailed
     \<and> opr_key r = opr_key row \<and> opr_hash r = opr_hash row"
proof -
  have "sel opr_id op (map (recovery_row now) t) = map_option (recovery_row now) (sel opr_id op t)" for t
    by (induction t) (auto simp: table_simps)
  with assms show ?thesis
    by (simp add: getOperation_def recoverNonTerminalOperations_def fold_releaseLocks)
       (simp add: recovery_row_def)
qed

lemma recovered_locks:
  assumes inv: "journal_inv db" and row: "getOperation op db = Some row" "opr_state row = OpCreated"
  shows "lock_holder k (j_wallet_locks db) = Some op \<Longrightarrow>
      lock_holder k (j_wallet_locks (fst (recoverNonTerminalOperations now db))) = None"
    and "lock_holder k (j_job_locks db) = Some op \<Longrightarrow>
      lock_holder k (j_job_locks (fst (recoverNonTerminalOperations now db))) = None"
proof -
  have "op \<in> set (pre_broadcast_ids db)"
    using get_mem [OF row(1)] row(2) by (auto simp: pre_broadcast_ids_def)
  moreover have "locks_distinct (j_wallet_locks db)" "locks_distinct (j_job_locks db)"
    using inv by (simp_all add: journal_inv_def keys_ok_def)
  ultimately show "lock_holder k (j_wallet_locks db) = Some op \<Longrightarrow>
      lock_holder k (j_wallet_locks (fst (recoverNonTerminalOperations now db))) = None"
    "lock_holder k (j_job_locks db) = Some op \<Longrightarrow>
      lock_holder k (j_job_locks (fst (recoverNonTerminalOperations now db))) = None"
    by (simp_all add: recoverNonTerminalOperations_def fold_releaseLocks journal_locks.holder_releases)
qed

text \<open>
  A request whose key belongs to a failed operation, with no lock in the way, reaches the
  launch.
\<close>

lemma failed_key_relaunches:
  assumes inv: "gw_inv fl h" and idx: "index_ok h"
    and row: "getOperation op (g_journal h) = Some row" "opr_state row = OpFailed"
      "opr_key row = gi_key input" "opr_hash row = gi_hash input"
    and new: "op2 \<notin> opr_id ` set (j_ops (g_journal h))"
    and wal: "lock_holder (toLowerCase (gi_wallet input)) (j_wallet_locks (g_journal h)) \<in> {None, Some op}"
    and job: "\<And>j. gi_job input = Some j \<Longrightarrow> j \<noteq> [] \<Longrightarrow>
      lock_holder j (j_job_locks (g_journal h)) \<in> {None, Some op}"
    and chain: "resolveChainId (gi_chain input) (gi_chainId input) = Inr c"
    and ready: "gi_wallet input \<noteq> []" "guard_phase guard agentId input now op2 p = Inr p'"
  shows "\<exists>h'. execute_begin guard agentId input now op2 (h, p) = ((h', p'), Launched op2)"
proof -
  let ?rec = "new_record agentId input now op2 c"
  let ?db = "g_journal h"
  let ?g = "forget_operation (input_key input) op h"
  have jinv: "journal_inv ?db" using inv by (simp add: gw_inv_def)
  have mem: "row \<in> set (j_ops ?db)" "opr_id row = op" using get_mem [OF row(1)] by auto
  have key: "compositeKey (opr_key row) (opr_hash row) = input_key input"
    using row(3,4) by (simp add: input_key_def)
  obtain db' where cr: "createOperationWithLocks ?rec (input_locks input) (deleteOperation op ?db)
      = Inr (db', CreateOk op2)"
    using recreate [OF jinv row(1), of ?rec "input_locks input"] row new wal job by auto
  have retry: "retry_create input ?rec (input_locks input) ?g = (?g\<lparr>g_journal := db'\<rparr>, None)"
    using cr by (simp add: retry_create_def forget_operation_def)
  obtain h1 o1 where ic: "index_check input h = (h1, o1)" by fastforce
  have h1: "(h1 = h \<or> h1 = ?g) \<and> o1 = None"
  proof (cases "\<exists>ex rec. map_of (g_index h) (input_key input) = Some ex \<and> map_of (g_ops h) ex = Some rec")
    case False
    with ic show ?thesis by (auto simp: index_check_def Let_def input_key_def split: option.splits if_splits)
  next
    case True
    then obtain ex rec where ex: "map_of (g_index h) (input_key input) = Some ex"
      "map_of (g_ops h) ex = Some rec" by blast
    with index_okD [OF idx ex(1)] have rk: "record_key rec = input_key input" by auto
    from mem_okD [OF inv ex(2)] obtain r where r: "getOperation ex ?db = Some r" "or_id rec = ex"
      "if or_state rec = OpExecuting then ex \<in> fl \<and> opr_state r = OpCreated else opr_state r = or_state rec"
      unfolding synced_def by blast
    have "r = row"
      by (rule row_of_key [OF jinv _ mem(1)])
         (use get_mem [OF r(1)] synced_key [OF mem_okD [OF inv ex(2)] r(1)] rk key in auto)
    with r get_mem [OF r(1)] row(2) mem(2) have "or_state rec = OpFailed" "or_id rec = op"
      by (auto split: if_splits)
    with ic ex show ?thesis by (auto simp: index_check_def Let_def input_key_def split: if_splits)
  qed
  have cp: "create_phase input ?rec h1 = (?g\<lparr>g_journal := db'\<rparr>, None)"
  proof (cases "h1 = h")
    case True
    from find_idem_row [OF jinv mem(1) row(3,4)] obtain i where
      i: "find (\<lambda>i. idr_key i = gi_key input \<and> idr_hash i = gi_hash input) (j_idem ?db) = Some i"
        "getOperation (idr_op i) ?db = Some row" by blast
    then have "createOperationWithLocks ?rec (input_locks input) ?db
        = Inr (?db, IdempotencyKeyExists (Some row))"
      by (simp add: createOperationWithLocks_def)
    then show ?thesis
      using True row(2) retry mem(2)
      by (simp add: create_phase_def key_exists_phase_def input_key_def)
  next
    case False
    with h1 have "h1 = ?g" by blast
    with cr show ?thesis by (simp add: create_phase_def) (simp add: forget_operation_def)
  qed
  show ?thesis
    using ic h1 chain cp ready
    by (auto simp: execute_begin_def launch_phase_def Let_def)
qed

lemma crash_relaunches:
  assumes inv: "gw_inv fl g" and new: "op \<notin> fl"
    and run: "execute_begin guard agentId input now op (g, p) = ((g', p'), Launched op)"
    and op2: "op2 \<notin> opr_id ` set (j_ops (g_journal g'))"
    and ready: "guard_phase guard agentId input now2 op2 q = Inr q'"
  shows "\<exists>h'. execute_begin guard agentId input now2 op2 (gateway_start t (g_journal g'), q)
     = ((h', q'), Launched op2)"
proof -
  note L = launched_journal [OF inv new run]
  let ?db = "fst (recoverNonTerminalOperations t (g_journal g'))"
  have "gw_inv (insert op fl) g'" using begin_inv [OF inv run new] by simp
  note inv2 = restart_inv [OF this, of t] and idx2 = start_index [OF L(1), of t]
  from L(2) obtain row where row: "getOperation op (g_journal g') = Some row" "opr_state row = OpCreated"
    "opr_key row = gi_key input" "opr_hash row = gi_hash input" by blast
  from recovered_row [OF row(1,2), of t] row(3,4) obtain r where
    r: "getOperation op ?db = Some r" "opr_state r = OpFailed" "opr_key r = gi_key input" "opr_hash r = gi_hash input"
    by auto
  obtain c where c: "resolveChainId (gi_chain input) (gi_chainId input) = Inr c" using L(6) by blast
  have ids: "opr_id ` set (j_ops ?db) = opr_id ` set (j_ops (g_journal g'))"
    by (auto simp: recoverNonTerminalOperations_def fold_releaseLocks image_iff)
  show ?thesis
  proof (rule failed_key_relaunches [OF inv2 idx2 _ r(2-4) _ _ _ c L(3) ready])
    show "getOperation op (g_journal (gateway_start t (g_journal g'))) = Some r" using r(1) by simp
    show "op2 \<notin> opr_id ` set (j_ops (g_journal (gateway_start t (g_journal g'))))"
      using op2 ids by simp
    show "lock_holder (toLowerCase (gi_wallet input))
        (j_wallet_locks (g_journal (gateway_start t (g_journal g')))) \<in> {None, Some op}"
      using recovered_locks(1) [OF L(1) row(1,2) L(4)] by simp
    show "lock_holder j (j_job_locks (g_journal (gateway_start t (g_journal g')))) \<in> {None, Some op}"
      if "gi_job input = Some j" "j \<noteq> []" for j
      using recovered_locks(2) [OF L(1) row(1,2) L(5) [OF that]] by simp
  qed
qed


section \<open>A denied request keeps its lock\<close>

lemma refused_rows:
  assumes "create_phase input rec g = (g', Some out)"
  shows "set (j_ops (g_journal g')) \<subseteq> set (j_ops (g_journal g))"
proof -
  have keep: "db' = db" if "createOperationWithLocks r locks db = Inr (db', res)" "\<forall>op. res \<noteq> CreateOk op"
    for r locks db db' res
    using create_get(3) [OF that(1)] that(2) by blast
  have retry: "set (j_ops (g_journal h')) \<subseteq> set (j_ops (g_journal h))"
    if "retry_create input rec locks h = (h', Some o')" for locks h h' o'
    using that keep [of rec locks "g_journal h"]
    by (auto simp: retry_create_def split: sum.splits prod.splits create_result.splits)
  have key: "set (j_ops (g_journal h')) \<subseteq> set (j_ops (g_journal h))"
    if "key_exists_phase input rec locks d h = (h', Some o')" for locks d h h' o'
  proof (cases d)
    case (Some row)
    have sub: "set (j_ops (g_journal (forget_operation c k h))) \<subseteq> set (j_ops (g_journal h))" for c k
      by (auto simp: forget_operation_def deleteOperation_def)
    from that Some show ?thesis
      using subset_trans [OF retry sub] by (auto simp: key_exists_phase_def split: if_splits)
  qed (use that in \<open>auto simp: key_exists_phase_def\<close>)
  from assms show ?thesis
    using key by (auto simp: create_phase_def Let_def split: sum.splits prod.splits create_result.splits)
qed

lemma index_check_forgets_rows:
  "index_check input g = (g', o1) \<Longrightarrow> set (j_ops (g_journal g')) \<subseteq> set (j_ops (g_journal g))"
  by (auto simp: index_check_def Let_def forget_operation_def deleteOperation_def
      split: option.splits if_splits)

lemma denied_keeps_lock:
  assumes inv: "gw_inv fl g" and new: "op \<notin> opr_id ` set (j_ops (g_journal g))"
    and run: "execute_begin guard agentId input now op (g, p) = ((g', p'), Threw e)"
    and row: "getOperation op (g_journal g') = Some row"
  shows "opr_state row = OpCreated \<and> getWalletLockOperation (gi_wallet input) (g_journal g') = Some op"
  using run
proof (cases rule: begin_cases)
  case (checked out1)
  from index_check_forgets_rows [OF checked(1)] get_mem [OF row] new show ?thesis by auto
next
  case (chain e')
  from index_check_forgets_rows [OF chain(1)] get_mem [OF row] new show ?thesis by auto
next
  case (refused g1 c)
  from index_check_forgets_rows [OF refused(1)] refused_rows [OF refused(3)] get_mem [OF row] new
  show ?thesis by auto
next
  case (launched g1 g2 c)
  have inv1: "gw_inv fl g1" using index_check_inv [OF inv launched(1)] by blast
  from create_phase_forgets [OF inv1 launched(2)] obtain g0 where
    "create_ok_from (input_locks input) (new_record agentId input now op c) g0 g2"
    by (simp del: split_paired_Ex) blast
  then obtain db where cr: "createOperationWithLocks (new_record agentId input now op c)
      (input_locks input) (g_journal g0) = Inr (db, CreateOk op)" "g_journal g2 = db"
    by (auto simp: create_ok_from_def)
  have cr2: "created (new_record agentId input now op c) g2"
    using create_phase_inv [OF inv1 launched(2)] by simp
  have w: "gi_wallet input \<noteq> []" and j: "g_journal g' = db"
    using launched(3) cr(2)
    by (auto simp: launch_phase_def Let_def split: if_splits sum.splits option.splits)
  show ?thesis
    using created_locks(1) [OF cr(1)] w j cr2 cr(2) row
    by (auto simp: getWalletLockOperation_def created_def row_of_record_def)
qed

lemma locked_wallet_refuses:
  assumes inv: "gw_inv fl g" and idx: "index_ok g"
    and lock: "getWalletLockOperation (gi_wallet input) (g_journal g) = Some op" "gi_wallet input \<noteq> []"
    and key: "\<And>r. r \<in> set (j_ops (g_journal g)) \<Longrightarrow> opr_key r \<noteq> gi_key input"
    and chain: "resolveChainId (gi_chain input) (gi_chainId input) = Inr c"
    and index: "map_of (g_index g) (input_key input) = None"
  shows "execute_begin guard agentId input now op2 (g, p) =
    ((g, p), Threw (lock_conflict_error ''Wallet'' (gi_wallet input) op))"
proof -
  have jinv: "journal_inv (g_journal g)" using inv by (simp add: gw_inv_def)
  have nokey: "idr_key i \<noteq> gi_key input" if i: "i \<in> set (j_idem (g_journal g))" for i
  proof -
    from jinv i obtain r where "getOperation (idr_op i) (g_journal g) = Some r" "opr_key r = idr_key i"
      unfolding journal_inv_def idem_ok_def by blast
    with get_mem key show ?thesis by metis
  qed
  then have "find (\<lambda>i. idr_key i = gi_key input \<and> idr_hash i = gi_hash input) (j_idem (g_journal g)) = None"
    "find (\<lambda>i. idr_key i = gi_key input \<and> idr_hash i \<noteq> gi_hash input) (j_idem (g_journal g)) = None"
    by (auto simp: find_None_iff)
  then have "createOperationWithLocks (new_record agentId input now op2 c) (input_locks input) (g_journal g)
      = Inr (g_journal g, WalletLocked op)"
    using lock by (simp add: createOperationWithLocks_def wallet_lock_conflict_def getWalletLockOperation_def)
  with index chain show ?thesis
    by (simp add: execute_begin_def index_check_def input_key_def create_phase_def Let_def)
qed

end
