(* ===== verification/Gateway_Properties.thy ===== *)
theory Gateway_Properties
  imports Gateway_Restart
begin

text \<open>
  The properties of the execution gateway, each about every run of the process, and the
  concrete runs that show their hypotheses can hold.
\<close>

section \<open>Concrete runs\<close>

definition sys_request ::
  "'p policy_guard option \<Rightarrow> string \<Rightarrow> gw_input \<Rightarrow> nat \<Rightarrow> string \<Rightarrow> 'p gw_system \<Rightarrow> 'p gw_system" where
  "sys_request guard agentId input now op s =
     (case execute_begin guard agentId input now op (sys_gateway s, sys_policy s) of
        ((g, p), out) \<Rightarrow> s\<lparr>sys_gateway := g, sys_policy := p,
          sys_inflight := (if out = Launched op then op # sys_inflight s else sys_inflight s)\<rparr>)"

definition sys_answer :: "nat \<Rightarrow> string \<Rightarrow> exec_error + exec_result \<Rightarrow> 'p gw_system \<Rightarrow> 'p gw_system" where
  "sys_answer now op outcome s =
     s\<lparr>sys_gateway := fst (execute_finish now op outcome (sys_gateway s)),
       sys_inflight := removeAll op (sys_inflight s)\<rparr>"

lemma run_request:
  assumes "(gw_step guard agentId)\<^sup>*\<^sup>* s0 s" "fresh_op op s"
  shows "(gw_step guard agentId)\<^sup>*\<^sup>* s0 (sys_request guard agentId input now op s)"
proof -
  obtain g p out where run: "execute_begin guard agentId input now op (sys_gateway s, sys_policy s) = ((g, p), out)"
    by (metis surj_pair)
  have "gw_step guard agentId s (sys_request guard agentId input now op s)"
    using request_returns [OF assms(2) run] request_launches [OF assms(2), of guard agentId input now g p] run
    by (cases "out = Launched op") (simp_all add: sys_request_def)
  with assms(1) show ?thesis by simp
qed

lemma run_answer:
  assumes "(gw_step guard agentId)\<^sup>*\<^sup>* s0 s" "op \<in> set (sys_inflight s)"
  shows "(gw_step guard agentId)\<^sup>*\<^sup>* s0 (sys_answer now op outcome s)"
proof -
  obtain g res where run: "execute_finish now op outcome (sys_gateway s) = (g, res)"
    by (metis surj_pair)
  have "gw_step guard agentId s (sys_answer now op outcome s)"
    using wallet_answers [OF assms(2) run] run by (simp add: sys_answer_def)
  with assms(1) show ?thesis by simp
qed

definition demo_start :: "unit gw_system" where
  "demo_start = \<lparr>sys_gateway = \<lparr>g_ops = [], g_cache = [], g_index = [], g_journal = empty_journal\<rparr>,
     sys_policy = (), sys_inflight = []\<rparr>"

definition demo_input :: "string \<Rightarrow> string \<Rightarrow> string \<Rightarrow> gw_input" where
  "demo_input key hash wallet =
     \<lparr>gi_kind = ''fund'', gi_key = key, gi_hash = hash, gi_agent = None, gi_wallet = wallet,
      gi_chain = ''ARC'', gi_chainId = None, gi_contract = ''c'', gi_job = Some ''7'', gi_policy = None\<rparr>"

definition demo_error :: exec_error where
  "demo_error = \<lparr>xe_name = ''Error'', xe_message = ''denied'', xe_killed = False, xe_sigterm = False\<rparr>"

definition demo_hash :: string where
  "demo_hash = ''0x'' @ replicate 64 CHR ''a''"

definition demo_result :: exec_result where
  "demo_result = \<lparr>xr_command = ''circle'', xr_args = [], xr_stdout = '''', xr_stderr = '''',
     xr_json = JObj [(''status'', JStr ''sent''), (''txHash'', JStr demo_hash)]\<rparr>"

definition demo_launched :: "unit gw_system" where
  "demo_launched = sys_request None ''1'' (demo_input ''k'' ''h'' ''0xA'') 5 ''op1'' demo_start"

definition demo_failed :: "unit gw_system" where
  "demo_failed = sys_answer 6 ''op1'' (Inl demo_error) demo_launched"

definition demo_confirmed :: "unit gw_system" where
  "demo_confirmed = sys_answer 6 ''op1'' (Inr demo_result) demo_launched"

lemma demo_initial: "gw_initial demo_start"
  by (simp add: gw_initial_def demo_start_def)

lemma demo_launched_run: "(gw_step None ''1'')\<^sup>*\<^sup>* demo_start demo_launched"
  unfolding demo_launched_def by (rule run_request) (simp, code_simp)

lemma demo_inflight: "sys_inflight demo_launched = [''op1'']"
  by code_simp

lemma demo_failed_run: "(gw_step None ''1'')\<^sup>*\<^sup>* demo_start demo_failed"
  unfolding demo_failed_def by (rule run_answer) (simp_all add: demo_launched_run demo_inflight)

lemma demo_confirmed_run: "(gw_step None ''1'')\<^sup>*\<^sup>* demo_start demo_confirmed"
  unfolding demo_confirmed_def by (rule run_answer) (simp_all add: demo_launched_run demo_inflight)


section \<open>Properties\<close>

text \<open>C1: At most once. In every reachable state, a request that reaches the wallet call finds
  under its idempotency key only operations with the same payload hash that failed or were
  cancelled: nothing confirmed, broadcast, unknown or still running is ever sent again.\<close>

theorem launch_only_after_failure:
  assumes "gw_initial s0" "(gw_step guard agentId)\<^sup>*\<^sup>* s0 s"
    and "execute_begin guard agentId input now op (sys_gateway s, sys_policy s) = (gp, Launched k)"
    and "row \<in> set (j_ops (g_journal (sys_gateway s)))" "opr_key row = gi_key input"
  shows "opr_hash row = gi_hash input \<and> (opr_state row = OpFailed \<or> opr_state row = OpCancelled)"
proof -
  have "idem_inv s" by (rule idempotent_runs.reach_inv [OF assms(1,2)])
  then have inv: "gw_inv (set (sys_inflight s)) (sys_gateway s)" "index_ok (sys_gateway s)"
    by (simp_all add: idem_inv_def sys_inv_def)
  obtain g' p' where gp: "gp = (g', p')" by (cases gp)
  show ?thesis by (rule launch_at_most_once [OF inv assms(3) [unfolded gp] assms(4,5)])
qed

theorem launch_only_after_failure_witness:
  "\<exists>gp row. execute_begin None ''1'' (demo_input ''k'' ''h'' ''0xA'') 7 ''op2''
       (sys_gateway demo_failed, sys_policy demo_failed) = (gp, Launched ''op2'') \<and>
     row \<in> set (j_ops (g_journal (sys_gateway demo_failed))) \<and> opr_key row = ''k'' \<and>
     opr_hash row = ''h'' \<and> (opr_state row = OpFailed \<or> opr_state row = OpCancelled)"
proof -
  let ?in = "demo_input ''k'' ''h'' ''0xA''"
  let ?b = "execute_begin None ''1'' ?in 7 ''op2'' (sys_gateway demo_failed, sys_policy demo_failed)"
  let ?row = "hd (j_ops (g_journal (sys_gateway demo_failed)))"
  have "snd ?b = Launched ''op2''" by code_simp
  then have b: "?b = (fst ?b, Launched ''op2'')" by (metis prod.collapse)
  have ops: "j_ops (g_journal (sys_gateway demo_failed)) \<noteq> []" by code_simp
  have key: "opr_key ?row = ''k''" by code_simp
  have inkey: "gi_key ?in = ''k''" "gi_hash ?in = ''h''" by (simp_all add: demo_input_def)
  have "opr_hash ?row = gi_hash ?in \<and> (opr_state ?row = OpFailed \<or> opr_state ?row = OpCancelled)"
    by (rule launch_only_after_failure [OF demo_initial demo_failed_run b])
       (use ops key inkey in simp_all)
  with b ops key inkey show ?thesis by (intro exI [of _ "fst ?b"] exI [of _ ?row]) simp
qed

text \<open>C4: Wallet calls in flight never overlap: in every reachable state two operations
  waiting for the wallet have different idempotency keys and, where both name a wallet,
  different wallets up to the case of the address.\<close>

theorem inflight_exclusive:
  assumes "gw_initial s0" "(gw_step guard agentId)\<^sup>*\<^sup>* s0 s"
    and "op \<in> set (sys_inflight s)" "op' \<in> set (sys_inflight s)" "op \<noteq> op'"
  shows "\<exists>r r'. getOperation op (g_journal (sys_gateway s)) = Some r
    \<and> getOperation op' (g_journal (sys_gateway s)) = Some r' \<and> opr_key r \<noteq> opr_key r'
    \<and> (\<forall>w w'. opr_wallet r = Some w \<and> opr_wallet r' = Some w' \<and> w \<noteq> [] \<longrightarrow>
         toLowerCase w \<noteq> toLowerCase w')"
proof -
  have "sys_inv s" by (rule gateway_runs.reach_inv [OF assms(1,2)])
  then have inv: "gw_inv (set (sys_inflight s)) (sys_gateway s)" by (simp add: sys_inv_def)
  from flight_row [OF inv assms(3)] flight_row [OF inv assms(4)] obtain r r' where
    rows: "getOperation op (g_journal (sys_gateway s)) = Some r"
      "getOperation op' (g_journal (sys_gateway s)) = Some r'" by blast
  show ?thesis
    using rows inflight_rows [OF inv assms(3-5) rows] by blast
qed

definition demo_two :: "unit gw_system" where
  "demo_two = sys_request None ''1''
     ((demo_input ''k2'' ''h'' ''0xB'')\<lparr>gi_job := None\<rparr>) 6 ''op2'' demo_launched"

lemma demo_two_run: "(gw_step None ''1'')\<^sup>*\<^sup>* demo_start demo_two"
  unfolding demo_two_def by (rule run_request [OF demo_launched_run]) code_simp

theorem inflight_exclusive_witness:
  "\<exists>r r'. getOperation ''op1'' (g_journal (sys_gateway demo_two)) = Some r
    \<and> getOperation ''op2'' (g_journal (sys_gateway demo_two)) = Some r' \<and> opr_key r \<noteq> opr_key r'
    \<and> (\<forall>w w'. opr_wallet r = Some w \<and> opr_wallet r' = Some w' \<and> w \<noteq> [] \<longrightarrow>
         toLowerCase w \<noteq> toLowerCase w')"
proof -
  have fl: "sys_inflight demo_two = [''op2'', ''op1'']" by code_simp
  show ?thesis
    by (rule inflight_exclusive [OF demo_initial demo_two_run]) (simp_all add: fl)
qed

text \<open>A confirmed operation is replayed. In every reachable state a request with the key and
  the payload hash of a confirmed operation is answered with that operation, marked
  idempotent, without any change of state and without a wallet call.\<close>

theorem confirmed_is_replayed:
  assumes "gw_initial s0" "(gw_step guard agentId)\<^sup>*\<^sup>* s0 s"
    and "row \<in> set (j_ops (g_journal (sys_gateway s)))" "opr_key row = gi_key input"
      "opr_hash row = gi_hash input" "opr_state row = OpConfirmed" "opr_id row \<noteq> []"
    and "resolveChainId (gi_chain input) (gi_chainId input) = Inr c"
  shows "\<exists>tx cached. execute_begin guard agentId input now op (sys_gateway s, sys_policy s) =
     ((sys_gateway s, sys_policy s), Returned (replayResult (opr_id row) tx cached))"
proof -
  have "idem_inv s" by (rule idempotent_runs.reach_inv [OF assms(1,2)])
  then have inv: "gw_inv (set (sys_inflight s)) (sys_gateway s)" "index_ok (sys_gateway s)"
    by (simp_all add: idem_inv_def sys_inv_def)
  show ?thesis by (rule begin_replays [OF inv assms(8) assms(3-7)])
qed

theorem confirmed_is_replayed_witness:
  "\<exists>tx cached. execute_begin None ''1'' (demo_input ''k'' ''h'' ''0xA'') 9 ''op3''
       (sys_gateway demo_confirmed, sys_policy demo_confirmed) =
     ((sys_gateway demo_confirmed, sys_policy demo_confirmed),
       Returned (replayResult ''op1'' tx cached))"
proof -
  let ?in = "demo_input ''k'' ''h'' ''0xA''"
  let ?row = "hd (j_ops (g_journal (sys_gateway demo_confirmed)))"
  have ops: "j_ops (g_journal (sys_gateway demo_confirmed)) \<noteq> []" by code_simp
  have row: "opr_key ?row = gi_key ?in" "opr_hash ?row = gi_hash ?in"
    "opr_state ?row = OpConfirmed" "opr_id ?row = ''op1''" by code_simp+
  have chain: "resolveChainId (gi_chain ?in) (gi_chainId ?in) = Inr 5042002" by code_simp
  have "\<exists>tx cached. execute_begin None ''1'' ?in 9 ''op3'' (sys_gateway demo_confirmed, sys_policy demo_confirmed)
    = ((sys_gateway demo_confirmed, sys_policy demo_confirmed), Returned (replayResult (opr_id ?row) tx cached))"
    by (rule confirmed_is_replayed [OF demo_initial demo_confirmed_run _ row(1-3) _ chain])
       (use ops row(4) in simp_all)
  then show ?thesis by (simp add: row(4))
qed

text \<open>C5: Memory and journal agree. In every reachable state each operation the gateway
  remembers has a journal row with the same key and payload hash; the row has the state of
  the memory, except that an operation \<open>executing\<close> in memory is exactly one whose wallet
  call is in flight, and its row still says \<open>created\<close>.\<close>

theorem memory_matches_journal:
  assumes "gw_initial s0" "(gw_step guard agentId)\<^sup>*\<^sup>* s0 s"
    and "gw_getOperation op (sys_gateway s) = Some rec"
  shows "\<exists>row. getOperation op (g_journal (sys_gateway s)) = Some row
    \<and> opr_key row = or_key rec \<and> opr_hash row = or_hash rec
    \<and> (or_state rec = OpExecuting \<longleftrightarrow> op \<in> set (sys_inflight s))
    \<and> opr_state row = (if op \<in> set (sys_inflight s) then OpCreated else or_state rec)"
proof -
  have "sys_inv s" by (rule gateway_runs.reach_inv [OF assms(1,2)])
  then have inv: "gw_inv (set (sys_inflight s)) (sys_gateway s)" by (simp add: sys_inv_def)
  have rec: "map_of (g_ops (sys_gateway s)) op = Some rec" using assms(3) by (simp add: gw_getOperation_def)
  have fl: "or_state rec = OpExecuting" if "op \<in> set (sys_inflight s)"
    using that inv rec unfolding gw_inv_def flight_ok_def by fastforce
  from mem_okD [OF inv rec] show ?thesis using fl unfolding synced_def by (auto split: if_splits)
qed

theorem memory_matches_journal_witness:
  "\<exists>rec row. gw_getOperation ''op1'' (sys_gateway demo_launched) = Some rec
    \<and> getOperation ''op1'' (g_journal (sys_gateway demo_launched)) = Some row
    \<and> or_state rec = OpExecuting \<and> opr_state row = OpCreated"
proof -
  let ?rec = "the (gw_getOperation ''op1'' (sys_gateway demo_launched))"
  have "gw_getOperation ''op1'' (sys_gateway demo_launched) \<noteq> None" by code_simp
  then have rec: "gw_getOperation ''op1'' (sys_gateway demo_launched) = Some ?rec" by simp
  from memory_matches_journal [OF demo_initial demo_launched_run rec] rec show ?thesis
    by (auto simp: demo_inflight)
qed

text \<open>The gateway reports success only on evidence: an outcome is classified as confirmed
  exactly when the wallet call returned, its JSON reports neither an error nor an
  unsuccessful data state, a transaction hash was extracted, and the status or the data
  state is one of the terminal success words.\<close>

theorem confirmed_needs_evidence:
  "classifyCircleResult outcome = OpConfirmed \<longleftrightarrow>
     (\<exists>r hash. outcome = Inr r \<and> extractTxHash r = Some hash \<and> hash \<noteq> [] \<and>
        \<not> jtruthy (jget ''error'' (xr_json r)) \<and> \<not> jtruthy (jget ''errorCode'' (xr_json r)) \<and>
        map_option toUpperCase (jstr_opt (jget ''state'' (jget ''data'' (xr_json r)))) \<notin>
          Some ` {''FAILED'', ''DENIED'', ''REVERTED'', ''CANCELLED'', ''CANCELED''} \<and>
        (is_success_text (jget ''status'' (xr_json r)) \<or>
         is_success_text (jget ''state'' (jget ''data'' (xr_json r)))))"
proof (cases outcome)
  case (Inl e)
  then show ?thesis by (simp add: classifyCircleResult_def classify_error_def Let_def)
next
  case (Inr r)
  show ?thesis
    by (cases "extractTxHash r") (simp_all add: classifyCircleResult_def Let_def Inr)
qed


definition demo_timeout :: exec_error where
  "demo_timeout = demo_error\<lparr>xe_message := ''Timeout''\<rparr>"


text \<open>C2: A crash during the wallet call sends the write twice. The journal row of a launched
  operation is still \<open>created\<close>, start-up recovery fails it as safe to retry and frees its key
  and locks, and the same request then launches the wallet call again although the first
  call may have been broadcast.\<close>

theorem crash_sends_twice:
  assumes "gw_initial s0" "(gw_step guard agentId)\<^sup>*\<^sup>* s0 s" "fresh_op op s"
    and "execute_begin guard agentId input now op (sys_gateway s, sys_policy s) = ((g, p), Launched op)"
    and "op2 \<notin> opr_id ` set (j_ops (g_journal g))"
    and "guard_phase guard agentId input now2 op2 q = Inr q2"
  shows "\<exists>g2. execute_begin guard agentId input now2 op2 (gateway_start t (g_journal g), q)
    = ((g2, q2), Launched op2)"
proof -
  have "sys_inv s" by (rule gateway_runs.reach_inv [OF assms(1,2)])
  then have inv: "gw_inv (set (sys_inflight s)) (sys_gateway s)" by (simp add: sys_inv_def)
  have "op \<notin> set (sys_inflight s)" using assms(3) by (simp add: fresh_op_def)
  from crash_relaunches [OF inv this assms(4-6)] show ?thesis .
qed

theorem crash_sends_twice_witness:
  "\<exists>g2. execute_begin None ''1'' (demo_input ''k'' ''h'' ''0xA'') 9 ''op2''
      (gateway_start 8 (g_journal (sys_gateway demo_launched)), ()) = ((g2, ()), Launched ''op2'')"
proof -
  let ?in = "demo_input ''k'' ''h'' ''0xA''"
  let ?b = "execute_begin None ''1'' ?in 5 ''op1'' (sys_gateway demo_start, sys_policy demo_start)"
  have "snd ?b = Launched ''op1''" by code_simp
  then have b: "?b = ((fst (fst ?b), snd (fst ?b)), Launched ''op1'')" by (metis prod.collapse)
  have g: "sys_gateway demo_launched = fst (fst ?b)"
    by (simp add: demo_launched_def sys_request_def split: prod.splits)
  have f: "fresh_op ''op1'' demo_start" by code_simp
  have n: "''op2'' \<notin> opr_id ` set (j_ops (g_journal (fst (fst ?b))))" by code_simp
  have gp: "guard_phase None ''1'' ?in 9 ''op2'' () = Inr ()" by code_simp
  from crash_sends_twice [OF demo_initial rtranclp.rtrancl_refl f b n gp, of 8] show ?thesis
    by (simp add: g)
qed

text \<open>A request denied by the spend policy keeps its wallet locked. The denial is thrown after
  the operation was created: its journal row stays \<open>created\<close> with the wallet lock, and every
  request for that wallet under an unused key is refused with a lock conflict naming it.\<close>

theorem denial_keeps_wallet_locked:
  assumes "gw_initial s0" "(gw_step guard agentId)\<^sup>*\<^sup>* s0 s" "fresh_op op s"
    and "execute_begin guard agentId input now op (sys_gateway s, sys_policy s) = ((g, p), Threw e)"
    and "getOperation op (g_journal g) = Some row"
    and "toLowerCase (gi_wallet input2) = toLowerCase (gi_wallet input)" "gi_wallet input2 \<noteq> []"
    and "\<forall>r\<in>set (j_ops (g_journal g)). opr_key r \<noteq> gi_key input2
      \<and> compositeKey (opr_key r) (opr_hash r) \<noteq> compositeKey (gi_key input2) (gi_hash input2)"
    and "resolveChainId (gi_chain input2) (gi_chainId input2) = Inr c"
  shows "opr_state row = OpCreated \<and>
    execute_begin guard agentId input2 now2 op2 (g, p) =
      ((g, p), Threw (lock_conflict_error ''Wallet'' (gi_wallet input2) op))"
proof -
  have "idem_inv s" by (rule idempotent_runs.reach_inv [OF assms(1,2)])
  then have inv: "gw_inv (set (sys_inflight s)) (sys_gateway s)" and idx: "index_ok (sys_gateway s)"
    by (simp_all add: idem_inv_def sys_inv_def)
  have new: "op \<notin> set (sys_inflight s)" "op \<notin> opr_id ` set (j_ops (g_journal (sys_gateway s)))"
    "op \<notin> fst ` set (g_ops (sys_gateway s))" using assms(3) by (simp_all add: fresh_op_def)
  have inv': "gw_inv (set (sys_inflight s)) g" using begin_inv [OF inv assms(4) new(1)] by simp
  have idx': "index_ok g" by (rule begin_index [OF inv idx new(3) assms(4)])
  from denied_keeps_lock [OF inv new(2) assms(4,5)] assms(6)
  have st: "opr_state row = OpCreated" and lock: "getWalletLockOperation (gi_wallet input2) (g_journal g) = Some op"
    by (simp_all add: getWalletLockOperation_def)
  have "map_of (g_index g) (input_key input2) = None"
  proof (rule ccontr)
    assume "map_of (g_index g) (input_key input2) \<noteq> None"
    then obtain k where "map_of (g_index g) (input_key input2) = Some k" by blast
    from index_okD [OF idx' this] obtain rec where
      rec: "map_of (g_ops g) k = Some rec" "record_key rec = input_key input2" by blast
    note sy = mem_okD [OF inv' rec(1)]
    then obtain r where "getOperation k (g_journal g) = Some r" unfolding synced_def by blast
    with synced_key [OF sy this] rec(2) get_mem [OF this] assms(8) show False
      by (auto simp: input_key_def)
  qed
  with st locked_wallet_refuses [OF inv' idx' lock assms(7) _ assms(9)] assms(8) show ?thesis by simp
qed

definition deny_all :: "unit policy_guard" where
  "deny_all = \<lparr>assertAllowed = \<lambda>now p r. Inl (RunnerError ''POLICY_VIOLATION'' ''denied'' 403),
     reserveSpend = \<lambda>now p r. p\<rparr>"

definition demo_denied_input :: gw_input where
  "demo_denied_input = (demo_input ''k'' ''h'' ''0xA'')
     \<lparr>gi_policy := Some \<lparr>gp_action = ''fund'', gp_method = ''fund'', gp_amount = Some ''5''\<rparr>\<rparr>"

theorem denial_keeps_wallet_locked_witness:
  "\<exists>g. execute_begin (Some deny_all) ''1'' demo_denied_input 5 ''op1'' (sys_gateway demo_start, ())
       = ((g, ()), Threw (RunnerError ''POLICY_VIOLATION'' ''denied'' 403)) \<and>
     execute_begin (Some deny_all) ''1'' (demo_input ''k2'' ''h2'' ''0xa'') 6 ''op2'' (g, ()) =
       ((g, ()), Threw (lock_conflict_error ''Wallet'' ''0xa'' ''op1''))"
proof -
  let ?in2 = "demo_input ''k2'' ''h2'' ''0xa''"
  let ?b = "execute_begin (Some deny_all) ''1'' demo_denied_input 5 ''op1'' (sys_gateway demo_start, sys_policy demo_start)"
  let ?g = "fst (fst ?b)"
  let ?row = "hd (j_ops (g_journal ?g))"
  have "snd ?b = Threw (RunnerError ''POLICY_VIOLATION'' ''denied'' 403)" by code_simp
  then have b: "?b = ((?g, snd (fst ?b)), Threw (RunnerError ''POLICY_VIOLATION'' ''denied'' 403))"
    by (metis prod.collapse)
  have f: "fresh_op ''op1'' demo_start" by code_simp
  have row: "getOperation ''op1'' (g_journal ?g) = Some ?row" by code_simp
  have low: "toLowerCase (gi_wallet ?in2) = toLowerCase (gi_wallet demo_denied_input)" by code_simp
  have ne: "gi_wallet ?in2 \<noteq> []" by (simp add: demo_input_def)
  have keys: "\<forall>r\<in>set (j_ops (g_journal ?g)). opr_key r \<noteq> gi_key ?in2
      \<and> compositeKey (opr_key r) (opr_hash r) \<noteq> compositeKey (gi_key ?in2) (gi_hash ?in2)"
    by code_simp
  have chain: "resolveChainId (gi_chain ?in2) (gi_chainId ?in2) = Inr 5042002" by code_simp
  have w: "gi_wallet ?in2 = ''0xa''" by (simp add: demo_input_def)
  from denial_keeps_wallet_locked [OF demo_initial rtranclp.rtrancl_refl f b row low ne keys chain] b
  show ?thesis by (intro exI [of _ ?g]) (simp add: w)
qed

text \<open>Callers of the gateway may rely on \<open>assertGatewayWriteSucceeded\<close>: on the result of an
  execution it returns exactly when the operation is confirmed, and every other state,
  the ambiguous ones included, is an error that names the operation.\<close>

theorem assert_succeeds_iff_confirmed:
  assumes "execute_finish now op outcome g = (g', Inr r)"
  shows "(assertGatewayWriteSucceeded r = Inr () \<longleftrightarrow> classifyCircleResult outcome = OpConfirmed)
    \<and> (wr_state r = OpUnknown \<longrightarrow> (\<exists>m. assertGatewayWriteSucceeded r =
          Inl (RunnerError ''RECONCILIATION_REQUIRED'' m 409)))
    \<and> (wr_state r = OpBroadcast \<longrightarrow> (\<exists>m. assertGatewayWriteSucceeded r =
          Inl (RunnerError ''OPERATION_IN_PROGRESS'' m 409)))"
proof -
  have "fin_state (finish_finalization outcome) = classifyCircleResult outcome"
    by (simp add: finish_finalization_def Let_def)
  with assms have "wr_state r = classifyCircleResult outcome \<and> (wr_ok r \<longleftrightarrow> wr_state r = OpConfirmed)"
    by (auto simp: execute_finish_def Let_def buildResult_def finish_record_def
        split: sum.splits option.splits)
  then show ?thesis
    by (cases "classifyCircleResult outcome") (auto simp: assertGatewayWriteSucceeded_def)
qed

theorem assert_succeeds_iff_confirmed_witness:
  "\<exists>g r. execute_finish 6 ''op1'' (Inr demo_result) (sys_gateway demo_launched) = (g, Inr r)
     \<and> assertGatewayWriteSucceeded r = Inr ()"
proof -
  let ?f = "execute_finish 6 ''op1'' (Inr demo_result) (sys_gateway demo_launched)"
  have "isl (snd ?f) = False" by code_simp
  then have f: "?f = (fst ?f, Inr (projr (snd ?f)))" by (metis prod.collapse sum.collapse(2))
  have "classifyCircleResult (Inr demo_result) = OpConfirmed" by code_simp
  with assert_succeeds_iff_confirmed [OF f] f show ?thesis by blast
qed

end
