(* ===== verification/Job_Properties.thy ===== *)
theory Job_Properties
  imports Job_Writes Gateway_Properties
begin

text \<open>
  What the ERC-8183 writes promise together with the gateway and the spend policy: which
  writes a role can make, what amount the policy checks against what is sent on chain, and
  when two writes share an idempotency key.
\<close>

section \<open>One dispatcher for the writes\<close>

datatype job_request =
  ReqSubmit string string "string option"
| ReqCreate nat json create_job_input
| ReqBudget json string string "string option"
| ReqApprove json string "string option" "string option"
| ReqFund json string "string option"
| ReqComplete json string string "string option"
| ReqReject json string string "string option"
| ReqRefund json string
| ReqProvider json string string

fun run_request :: "crypto \<Rightarrow> runner_config \<Rightarrow> job_request \<Rightarrow> job_step" where
  "run_request env cfg (ReqSubmit j h p) = submitDeliverableViaWallet env cfg j h p"
| "run_request env cfg (ReqCreate t b i) = createJob env cfg t b i"
| "run_request env cfg (ReqBudget b j a p) = setBudget env cfg b j a p"
| "run_request env cfg (ReqApprove b a k r) = approveUsdcForErc8183 env cfg b a k r"
| "run_request env cfg (ReqFund b j p) = fundJob env cfg b j p"
| "run_request env cfg (ReqComplete b j r p) = completeJob env cfg b j r p"
| "run_request env cfg (ReqReject b j r p) = rejectJob env cfg b j r p"
| "run_request env cfg (ReqRefund b j) = claimRefund env cfg b j"
| "run_request env cfg (ReqProvider b j p) = setProvider env cfg b j p"

fun job_of :: "job_request \<Rightarrow> string option" where
  "job_of (ReqSubmit j h p) = Some j"
| "job_of (ReqCreate t b i) = None"
| "job_of (ReqBudget b j a p) = Some j"
| "job_of (ReqApprove b a k r) = None"
| "job_of (ReqFund b j p) = Some j"
| "job_of (ReqComplete b j r p) = Some j"
| "job_of (ReqReject b j r p) = Some j"
| "job_of (ReqRefund b j) = Some j"
| "job_of (ReqProvider b j p) = Some j"

lemmas write_defs = submitDeliverableViaWallet_def createJob_def setBudget_def
  approveUsdcForErc8183_def fundJob_def completeJob_def rejectJob_def claimRefund_def
  setProvider_def job_input_def thrown_error_def

section \<open>Keys\<close>

text \<open>Before the first colon: a kind, then a job id, then the rest of the key.\<close>

definition first_part :: "string \<Rightarrow> string" where
  "first_part s = takeWhile (\<lambda>c. c \<noteq> CHR '':'') s"

lemma first_part_key: "CHR '':'' \<notin> set k \<Longrightarrow> rest = [] \<or> hd rest = CHR '':'' \<Longrightarrow> first_part (k @ rest) = k"
  unfolding first_part_def by (induction k) (cases rest; auto)+

lemma job_key_shape:
  assumes "run_request env cfg r = Await inp call k" "job_of r = Some j"
  shows "\<exists>rest. gi_key inp = gi_kind inp @ '':'' @ j @ rest \<and> (rest = [] \<or> hd rest = CHR '':'')
     \<and> gi_job inp = Some j \<and> CHR '':'' \<notin> set (gi_kind inp)"
  using assms
  by (cases r) (auto simp: write_defs split: option.splits list.splits if_splits)

lemma key_parts:
  assumes "k @ '':'' @ j @ rest = k' @ '':'' @ j' @ rest'" "CHR '':'' \<notin> set k" "CHR '':'' \<notin> set k'"
    "CHR '':'' \<notin> set j" "CHR '':'' \<notin> set j'" "rest = [] \<or> hd rest = CHR '':''" "rest' = [] \<or> hd rest' = CHR '':''"
  shows "k = k' \<and> j = j'"
proof -
  have "first_part (k @ '':'' @ j @ rest) = k" "first_part (k' @ '':'' @ j' @ rest') = k'"
    using first_part_key assms(2,3) by auto
  with assms(1) have k: "k = k'" by simp
  with assms(1) have "j @ rest = j' @ rest'" by simp
  with first_part_key [OF assms(4,6)] first_part_key [OF assms(5,7)] have "j = j'" by simp
  with k show ?thesis by blast
qed

section \<open>What the guard sees\<close>

definition guard_request_of :: "string \<Rightarrow> gw_input \<Rightarrow> gw_policy \<Rightarrow> guard_request" where
  "guard_request_of agentId inp pol =
     \<lparr>gq_wallet = gi_wallet inp, gq_agent = or_else (gi_agent inp) agentId, gq_action = gp_action pol,
      gq_contract = gi_contract inp, gq_method = gp_method pol, gq_amount = gp_amount pol\<rparr>"

lemma launched_allowed:
  assumes "execute_begin (Some (spend_guard cfg)) agentId inp now op (g, p) = ((g', p'), Launched op)"
    "gi_policy inp = Some pol" "gw_inv fl g"
  shows "spend_allowed cfg now p (guard_request_of agentId inp pol) = Inr ()"
proof -
  from assms(1) obtain g2 rec where
    "launch_phase (Some (spend_guard cfg)) agentId inp now rec (g2, p) = ((g', p'), Launched op)"
    using launched_parts [OF assms(3,1)] by blast
  then obtain q where "guard_phase (Some (spend_guard cfg)) agentId inp now (or_id rec) p = Inr q"
    by (auto simp: launch_phase_def Let_def split: if_splits sum.splits)
  with assms(2) show ?thesis
    by (auto simp: guard_phase_def spend_guard_def guard_request_of_def)
qed

lemma allowed_lists:
  assumes "spend_allowed cfg now p r = Inr ()"
  shows "sp_methods (resolveSpendPolicy cfg (gq_wallet r)) = [] \<or> gq_method r \<in> set (allowedMethodsForRole (cf_role cfg))"
    and "gq_contract r \<in> {ERC8183_AGENTIC_COMMERCE, USDC_CONTRACT}"
proof -
  from assms obtain d m where "assertSpendPolicy (spend_check_of cfg r d m) = Inr ()"
    by (auto simp: spend_allowed_def)
  then have "check_lists (spend_check_of cfg r d m) = Inr ()" unfolding assert_parts by blast
  then show "sp_methods (resolveSpendPolicy cfg (gq_wallet r)) = [] \<or> gq_method r \<in> set (allowedMethodsForRole (cf_role cfg))"
    "gq_contract r \<in> {ERC8183_AGENTIC_COMMERCE, USDC_CONTRACT}"
    unfolding check_lists_ok by (auto simp: spend_check_of_def resolveSpendPolicy_def)
qed

lemma allowed_job_budget:
  assumes "spend_allowed cfg now p r = Inr ()" "gq_action r = ''erc8183.setBudget''" "gq_amount r = Some a"
  shows "micros a \<le> micros (cf_maxJob cfg)"
proof -
  from assms(1) obtain d m where "assertSpendPolicy (spend_check_of cfg r d m) = Inr ()"
    by (auto simp: spend_allowed_def)
  then obtain b q dl ml j ds ms where "usdcToMicros (Some a) = Inr b" "usdcToMicros (Some (cf_maxJob cfg)) = Inr j"
    "check_limits (spend_check_of cfg r d m) b q dl ml j ds ms = Inr ()"
    unfolding assert_parts by (auto simp: spend_check_of_def resolveSpendPolicy_def assms(3))
  then show ?thesis
    using assms(2) by (auto simp: check_limits_ok spend_check_of_def micros_parsed)
qed

section \<open>Properties\<close>

text \<open>The writes on a job never share an idempotency key across kinds or jobs: as long as job
  ids hold no colon, two requests whose derived keys are equal are the same kind of write on
  the same job, so a gateway replay never answers one write with the result of another.\<close>

theorem job_keys_separate:
  assumes "run_request env cfg r = Await inp call k" "run_request env cfg r' = Await inp' call' k'"
    and "job_of r = Some j" "job_of r' = Some j'" "CHR '':'' \<notin> set j" "CHR '':'' \<notin> set j'"
    and "gi_key inp = gi_key inp'"
  shows "gi_kind inp = gi_kind inp' \<and> j = j'"
proof -
  from job_key_shape [OF assms(1,3)] obtain rest where
    a: "gi_key inp = gi_kind inp @ '':'' @ j @ rest" "rest = [] \<or> hd rest = CHR '':''"
      "CHR '':'' \<notin> set (gi_kind inp)" by blast
  from job_key_shape [OF assms(2,4)] obtain rest' where
    b: "gi_key inp' = gi_kind inp' @ '':'' @ j' @ rest'" "rest' = [] \<or> hd rest' = CHR '':''"
      "CHR '':'' \<notin> set (gi_kind inp')" by blast
  from assms(7) a(1) b(1) have "gi_kind inp @ '':'' @ j @ rest = gi_kind inp' @ '':'' @ j' @ rest'"
    by simp
  from key_parts [OF this a(3) b(3) assms(5,6) a(2) b(2)] show ?thesis .
qed

definition demo_crypto :: crypto where
  "demo_crypto = \<lparr>sha256_hex = take 6, keccak_hex = \<lambda>s. ''0x'' @ s\<rparr>"

theorem job_keys_separate_witness:
  "\<exists>inp call k. run_request demo_crypto demo_config (ReqFund JNull ''7'' None) = Await inp call k
     \<and> gi_kind inp = ''fundJob'' \<and> gi_kind inp = gi_kind inp"
proof -
  obtain inp call k where s: "run_request demo_crypto demo_config (ReqFund JNull ''7'' None) = Await inp call k"
    by (simp add: fundJob_def demo_config_def)
  then have "gi_kind inp = ''fundJob''" by (auto simp: fundJob_def demo_config_def job_input_def)
  with s job_keys_separate [OF s s] show ?thesis by auto
qed

text \<open>A client can never assign a provider through its own runner. The method of
  \<open>setProvider\<close> is missing from the methods the spend policy allows to the client role, so
  under the runner's guard the write never reaches the wallet.\<close>

theorem client_never_sets_provider:
  assumes "gw_initial s0" "(gw_step (Some (spend_guard cfg)) agentId)\<^sup>*\<^sup>* s0 s"
    and "cf_role cfg = ''client''" "setProvider env cfg body jobId provider = Await inp call k"
  shows "execute_begin (Some (spend_guard cfg)) agentId inp now op (sys_gateway s, sys_policy s)
    \<noteq> (gp, Launched op)"
proof
  obtain g' p' where gp: "gp = (g', p')" by (cases gp)
  assume run: "execute_begin (Some (spend_guard cfg)) agentId inp now op (sys_gateway s, sys_policy s) = (gp, Launched op)"
  have "sys_inv s" by (rule gateway_runs.reach_inv [OF assms(1,2)])
  then have inv: "gw_inv (set (sys_inflight s)) (sys_gateway s)" by (simp add: sys_inv_def)
  have pol: "gi_policy inp = Some \<lparr>gp_action = ''erc8183.setProvider'',
      gp_method = ''setProvider(uint256,address)'', gp_amount = Some ''0''\<rparr>"
    using assms(4) by (auto simp: write_defs split: option.splits list.splits if_splits)
  from allowed_lists(1) [OF launched_allowed [OF run [unfolded gp] pol inv]] assms(3) show False
    by (simp add: guard_request_of_def resolveSpendPolicy_def allowedMethodsForRole_def)
qed

theorem client_never_sets_provider_witness:
  "\<exists>inp call k. setProvider demo_crypto demo_config JNull ''7'' ''0xB'' = Await inp call k \<and>
     execute_begin (Some (spend_guard demo_config)) ''1'' inp 5 ''op1''
       (sys_gateway spend_demo_start, sys_policy spend_demo_start) \<noteq>
       (((sys_gateway spend_demo_start), []), Launched ''op1'')"
proof -
  obtain inp call k where s: "setProvider demo_crypto demo_config JNull ''7'' ''0xB'' = Await inp call k"
    by (simp add: setProvider_def demo_config_def ZERO_ADDRESS_def toLowerCase_def)
  have init: "gw_initial spend_demo_start" by (simp add: gw_initial_def spend_demo_start_def)
  have "cf_role demo_config = ''client''" by (simp add: demo_config_def)
  from client_never_sets_provider [OF init rtranclp.rtrancl_refl this s] s show ?thesis by blast
qed

text \<open>C13: The amount the policy checks is the amount sent on chain: for a budget in the accepted
  USDC format, the \<open>uint256\<close> of \<open>setBudget\<close> is the printed number of base units that the
  spend policy compares with the limits, and the write only reaches the wallet when it is
  within the per-transaction and the job budget limit.\<close>

theorem budget_checked_is_sent:
  assumes "gw_initial s0" "(gw_step (Some (spend_guard cfg)) agentId)\<^sup>*\<^sup>* s0 s" "within_limits cfg (sys_policy s)"
    and "setBudget env cfg body jobId amount optParams = Await inp call k" "usdc_format amount"
    and "execute_begin (Some (spend_guard cfg)) agentId inp now op (sys_gateway s, sys_policy s) = (gp, Launched op)"
  shows "wallet_transaction call (gi_key inp) = Inr
      \<lparr>ct_contract = ERC8183_AGENTIC_COMMERCE, ct_signature = ''setBudget(uint256,uint256,bytes)'',
       ct_params = [jobId, int_str (micros amount), or_else optParams ''0x''],
       ct_label = ''erc8183.setBudget'', ct_key = ''setBudget:'' @ jobId @ '':'' @ amount\<rparr>
    \<and> micros amount \<le> micros (cf_perTx cfg) \<and> micros amount \<le> micros (cf_maxJob cfg)"
proof -
  obtain g' p' where gp: "gp = (g', p')" by (cases gp)
  have "sys_inv s" by (rule gateway_runs.reach_inv [OF assms(1,2)])
  then have inv: "gw_inv (set (sys_inflight s)) (sys_gateway s)" by (simp add: sys_inv_def)
  have mic: "decimalToMicros amount = Some (micros amount)"
    using decimal_value [OF assms(5)] usdcToMicros_value [OF assms(5)] by (simp add: micros_def)
  have pol: "gi_policy inp = Some \<lparr>gp_action = ''erc8183.setBudget'',
      gp_method = ''setBudget(uint256,uint256,bytes)'', gp_amount = Some amount\<rparr>"
    and call: "call = Erc8183Write ''setBudget(uint256,uint256,bytes)''
       [jobId, int_str (micros amount), or_else optParams ''0x''] ERC8183_AGENTIC_COMMERCE"
    and key: "gi_key inp = ''setBudget:'' @ jobId @ '':'' @ amount"
    using assms(4) mic by (auto simp: write_defs split: option.splits list.splits if_splits)
  have ok: "spend_allowed cfg now (sys_policy s) (guard_request_of agentId inp
      \<lparr>gp_action = ''erc8183.setBudget'', gp_method = ''setBudget(uint256,uint256,bytes)'',
       gp_amount = Some amount\<rparr>) = Inr ()"
    by (rule launched_allowed [OF assms(6) [unfolded gp] pol inv])
  have wf: "ledger_wf (sys_policy s)" using assms(3) by (simp add: within_limits_def)
  have perTx: "micros amount \<le> micros (cf_perTx cfg)"
    using allowed_bounds(2) [OF wf ok] by (simp add: guard_request_of_def)
  have "micros amount \<le> micros (cf_maxJob cfg)"
    using allowed_job_budget [OF ok, of amount] by (simp add: guard_request_of_def)
  with perTx call key show ?thesis
    by (simp add: contractTransaction_def ERC8183_SIGNATURES_def)
qed

definition demo_provider :: runner_config where
  "demo_provider = demo_config\<lparr>cf_role := ''provider''\<rparr>"

definition budget_input :: "string \<Rightarrow> gw_input" where
  "budget_input amount =
     (case setBudget demo_crypto demo_provider JNull ''7'' amount None of Await inp call k \<Rightarrow> inp)"

lemma budget_await:
  "\<exists>call k. setBudget demo_crypto demo_provider JNull ''7'' ''0.01'' None = Await (budget_input ''0.01'') call k"
proof -
  have "decimalToMicros ''0.01'' = Some 10000" by code_simp
  then show ?thesis by (simp add: budget_input_def setBudget_def demo_provider_def demo_config_def)
qed

theorem budget_checked_is_sent_witness:
  "\<exists>inp call k. setBudget demo_crypto demo_provider JNull ''7'' ''0.01'' None = Await inp call k \<and>
     wallet_transaction call (gi_key inp) = Inr
      \<lparr>ct_contract = ERC8183_AGENTIC_COMMERCE, ct_signature = ''setBudget(uint256,uint256,bytes)'',
       ct_params = [''7'', ''10000'', ''0x''], ct_label = ''erc8183.setBudget'', ct_key = ''setBudget:7:0.01''\<rparr>"
proof -
  obtain call k where s: "setBudget demo_crypto demo_provider JNull ''7'' ''0.01'' None
      = Await (budget_input ''0.01'') call k" using budget_await by blast
  let ?b = "execute_begin (Some (spend_guard demo_provider)) ''1'' (budget_input ''0.01'') 5 ''op1''
      (sys_gateway spend_demo_start, sys_policy spend_demo_start)"
  have "snd ?b = Launched ''op1''" by code_simp
  then have b: "?b = (fst ?b, Launched ''op1'')" by (metis prod.collapse)
  have init: "gw_initial spend_demo_start" by (simp add: gw_initial_def spend_demo_start_def)
  have lim: "within_limits demo_provider (sys_policy spend_demo_start)" by (simp add: spend_demo_start_def)
  have f: "usdc_format ''0.01''" by code_simp
  have m: "int_str (micros ''0.01'') = ''10000''" by code_simp
  from budget_checked_is_sent [OF init rtranclp.rtrancl_refl lim s f b] s m show ?thesis by auto
qed

text \<open>\<open>approveUsdc\<close> mixes units. The same text is checked by the policy as an amount in USDC
  and sent on chain as the raw \<open>uint256\<close> of base units: approving the base units of a job's
  budget, as the client workflow does, is only let through when the per-transaction limit
  is a million times the budget.\<close>

theorem approval_checked_in_other_unit:
  assumes "gw_initial s0" "(gw_step (Some (spend_guard cfg)) agentId)\<^sup>*\<^sup>* s0 s" "within_limits cfg (sys_policy s)"
    and "approveUsdcForErc8183 env cfg body (nat_str atomic) idem req = Await inp call k" "gi_key inp \<noteq> []"
    and "execute_begin (Some (spend_guard cfg)) agentId inp now op (sys_gateway s, sys_policy s) = (gp, Launched op)"
  shows "wallet_transaction call (gi_key inp) = Inr
      \<lparr>ct_contract = USDC_CONTRACT, ct_signature = ''approve(address,uint256)'',
       ct_params = [ERC8183_AGENTIC_COMMERCE, nat_str atomic], ct_label = ''erc20.approve'', ct_key = gi_key inp\<rparr>
    \<and> int atomic * 1000000 \<le> micros (cf_perTx cfg)"
proof -
  obtain g' p' where gp: "gp = (g', p')" by (cases gp)
  have "sys_inv s" by (rule gateway_runs.reach_inv [OF assms(1,2)])
  then have inv: "gw_inv (set (sys_inflight s)) (sys_gateway s)" by (simp add: sys_inv_def)
  have pol: "gi_policy inp = Some \<lparr>gp_action = ''erc8183.approveUsdc'',
      gp_method = ''approve(address,uint256)'', gp_amount = Some (nat_str atomic)\<rparr>"
    and call: "call = ApproveUsdc (nat_str atomic) USDC_CONTRACT ERC8183_AGENTIC_COMMERCE"
    using assms(4) by (auto simp: write_defs split: option.splits list.splits if_splits)
  have wf: "ledger_wf (sys_policy s)" using assms(3) by (simp add: within_limits_def)
  have split: "split_on CHR ''.'' (nat_str atomic) = [nat_str atomic]"
    by (simp add: split_on_no_sep digits_no_dot nat_str_digits)
  then have "usdc_format (nat_str atomic)" by (simp add: usdc_format_def)
  from usdcToMicros_value [OF this] have "micros (nat_str atomic) = int atomic * 1000000"
    by (simp add: micros_def usdc_value_def whole_part_def frac_part_def split)
  with allowed_bounds(2) [OF wf launched_allowed [OF assms(6) [unfolded gp] pol inv]] call assms(5) show ?thesis
    by (simp add: guard_request_of_def contractTransaction_def)
qed

definition rich_client :: runner_config where
  "rich_client = demo_config\<lparr>cf_perTx := ''5'', cf_daily := ''9''\<rparr>"

theorem approval_checked_in_other_unit_witness:
  "\<exists>inp call k. approveUsdcForErc8183 demo_crypto rich_client JNull ''5'' (Some ''k'') None = Await inp call k \<and>
     snd (execute_begin (Some (spend_guard rich_client)) ''1'' inp 5 ''op1''
       (sys_gateway spend_demo_start, sys_policy spend_demo_start)) = Launched ''op1'' \<and>
     wallet_transaction call ''k'' = Inr
      \<lparr>ct_contract = USDC_CONTRACT, ct_signature = ''approve(address,uint256)'',
       ct_params = [ERC8183_AGENTIC_COMMERCE, ''5''], ct_label = ''erc20.approve'', ct_key = ''k''\<rparr> \<and>
     5000000 \<le> micros (cf_perTx rich_client)"
proof -
  let ?inp = "case approveUsdcForErc8183 demo_crypto rich_client JNull (nat_str 5) (Some ''k'') None of
      Await inp call k \<Rightarrow> inp"
  have n: "nat_str 5 = ''5''" by code_simp
  obtain call k where s: "approveUsdcForErc8183 demo_crypto rich_client JNull (nat_str 5) (Some ''k'') None
      = Await ?inp call k"
    by (simp add: approveUsdcForErc8183_def rich_client_def demo_config_def)
  let ?b = "execute_begin (Some (spend_guard rich_client)) ''1'' ?inp 5 ''op1''
      (sys_gateway spend_demo_start, sys_policy spend_demo_start)"
  have l: "snd ?b = Launched ''op1''" by code_simp
  then have b: "?b = (fst ?b, Launched ''op1'')" by (metis prod.collapse)
  have init: "gw_initial spend_demo_start" by (simp add: gw_initial_def spend_demo_start_def)
  have lim: "within_limits rich_client (sys_policy spend_demo_start)" by (simp add: spend_demo_start_def)
  have key: "gi_key ?inp = ''k''" by code_simp
  then have ne: "gi_key ?inp \<noteq> []" by simp
  from approval_checked_in_other_unit [OF init rtranclp.rtrancl_refl lim s ne b] s l n key show ?thesis
    by (intro exI [of _ ?inp] exI [of _ call] exI [of _ k]) simp
qed

text \<open>Going back to an earlier budget is not sent. The key of \<open>setBudget\<close> is the job and the
  amount, so once a budget of that amount was confirmed, setting it again after any other
  budget is answered from the journal and the chain keeps the other budget.\<close>

theorem budget_change_back_is_replayed:
  assumes "gw_initial s0" "(gw_step guard agentId)\<^sup>*\<^sup>* s0 s"
    and "setBudget env cfg body jobId amount optParams = Await inp call k"
    and "resolveChainId (cf_chain cfg) None = Inr c"
    and "row \<in> set (j_ops (g_journal (sys_gateway s)))" "opr_key row = gi_key inp" "opr_hash row = gi_hash inp"
      "opr_state row = OpConfirmed" "opr_id row \<noteq> []"
    and "later \<in> set (j_ops (g_journal (sys_gateway s)))" "opr_state later = OpConfirmed"
      "opr_key later = ''setBudget:'' @ jobId @ '':'' @ other" "other \<noteq> amount"
  shows "later \<noteq> row \<and> (\<exists>tx cached. execute_begin guard agentId inp now op (sys_gateway s, sys_policy s) =
     ((sys_gateway s, sys_policy s), Returned (replayResult (opr_id row) tx cached)))"
proof -
  have inp: "gi_key inp = ''setBudget:'' @ jobId @ '':'' @ amount" "gi_chain inp = cf_chain cfg" "gi_chainId inp = None"
    using assms(3) by (auto simp: write_defs split: option.splits list.splits if_splits)
  have "idem_inv s" by (rule idempotent_runs.reach_inv [OF assms(1,2)])
  then have inv: "gw_inv (set (sys_inflight s)) (sys_gateway s)" "index_ok (sys_gateway s)"
    by (simp_all add: idem_inv_def sys_inv_def)
  have chain: "resolveChainId (gi_chain inp) (gi_chainId inp) = Inr c" using assms(4) inp by simp
  have "later \<noteq> row" using assms(6,12,13) inp(1) by auto
  then show ?thesis by (intro conjI begin_replays [OF inv chain assms(5-9)])
qed

definition demo_budget1 :: "unit gw_system" where
  "demo_budget1 = sys_request None ''1'' (budget_input ''1'') 5 ''op1'' demo_start"

definition demo_budget2 :: "unit gw_system" where
  "demo_budget2 = sys_answer 6 ''op1'' (Inr demo_result) demo_budget1"

definition demo_budget3 :: "unit gw_system" where
  "demo_budget3 = sys_request None ''1'' (budget_input ''2'') 5 ''op2'' demo_budget2"

definition demo_budgets :: "unit gw_system" where
  "demo_budgets = sys_answer 6 ''op2'' (Inr demo_result) demo_budget3"

lemma demo_budgets_run: "(gw_step None ''1'')\<^sup>*\<^sup>* demo_start demo_budgets"
proof -
  have "(gw_step None ''1'')\<^sup>*\<^sup>* demo_start demo_budget1"
    unfolding demo_budget1_def by (rule run_request [OF rtranclp.rtrancl_refl]) code_simp
  then have "(gw_step None ''1'')\<^sup>*\<^sup>* demo_start demo_budget2"
    unfolding demo_budget2_def by (rule run_answer) code_simp
  then have "(gw_step None ''1'')\<^sup>*\<^sup>* demo_start demo_budget3"
    unfolding demo_budget3_def by (rule run_request) code_simp
  then show ?thesis
    unfolding demo_budgets_def by (rule run_answer) code_simp
qed

theorem budget_change_back_is_replayed_witness:
  "\<exists>inp call k tx cached. setBudget demo_crypto demo_provider JNull ''7'' ''1'' None = Await inp call k \<and>
     execute_begin None ''1'' inp 9 ''op3'' (sys_gateway demo_budgets, sys_policy demo_budgets) =
     ((sys_gateway demo_budgets, sys_policy demo_budgets), Returned (replayResult ''op1'' tx cached))"
proof -
  have "decimalToMicros ''1'' = Some 1000000" by code_simp
  then obtain call k where s: "setBudget demo_crypto demo_provider JNull ''7'' ''1'' None
      = Await (budget_input ''1'') call k"
    by (simp add: budget_input_def setBudget_def demo_provider_def demo_config_def)
  let ?ops = "j_ops (g_journal (sys_gateway demo_budgets))"
  have "map (\<lambda>r. (opr_id r, opr_state r, opr_key r = gi_key (budget_input ''1''),
      opr_hash r = gi_hash (budget_input ''1''), opr_key r = ''setBudget:'' @ ''7'' @ '':'' @ ''2'')) ?ops
    = [(''op1'', OpConfirmed, True, True, False), (''op2'', OpConfirmed, False, True, True)]"
    by code_simp
  then obtain a b where ops: "?ops = [a, b]" and a: "opr_key a = gi_key (budget_input ''1'')"
      "opr_hash a = gi_hash (budget_input ''1'')" "opr_state a = OpConfirmed" "opr_id a = ''op1''"
    and b: "opr_state b = OpConfirmed" "opr_key b = ''setBudget:'' @ ''7'' @ '':'' @ ''2''" by auto
  have chain: "resolveChainId (cf_chain demo_provider) None = Inr 5042002" by code_simp
  have mem: "a \<in> set ?ops" "b \<in> set ?ops" "opr_id a \<noteq> []" by (simp_all add: ops a(4))
  have diff: "(''2'' :: string) \<noteq> ''1''" by simp
  from budget_change_back_is_replayed [OF demo_initial demo_budgets_run s chain mem(1) a(1-3) mem(3) mem(2) b diff]
  show ?thesis using s a(4) by auto
qed

text \<open>A receipt is written exactly for a confirmed write. After the gateway answered, a job
  write appends one receipt, which names the operation, its transaction and the hash of the
  response, if the result is a confirmed one, and otherwise throws and appends nothing.\<close>

theorem receipt_iff_confirmed:
  assumes "run_request env cfg r = Await inp call k" "job_of r \<noteq> None \<longrightarrow> (\<forall>j h p. r \<noteq> ReqSubmit j h p)"
    and "wr_state res \<noteq> OpConfirmed \<or> wr_ok res"
  shows "if wr_state res = OpConfirmed
    then \<exists>rc. k rid now res receipts = (receipts @ [rc], Inr (Written res rc)) \<and> rr_op rc = wr_op res
      \<and> rr_tx rc = wr_tx res \<and> rr_id rc = rid \<and> rr_sha rc = sha256Json env (response_json res)
    else \<exists>e. k rid now res receipts = (receipts, Inl (ThrownRunner e))"
proof -
  from assms(1,2) obtain body task job where k: "k = job_tail env cfg body task job"
    by (cases r) (auto simp: write_defs split: option.splits list.splits if_splits)
  have "wr_state res = OpConfirmed \<Longrightarrow> assertGatewayWriteSucceeded res = Inr ()"
    using assms(3) by (simp add: assertGatewayWriteSucceeded_def)
  moreover have "wr_state res \<noteq> OpConfirmed \<Longrightarrow> \<exists>e. assertGatewayWriteSucceeded res = Inl e"
    by (cases "wr_state res") (auto simp: assertGatewayWriteSucceeded_def)
  ultimately show ?thesis
    by (auto simp: k job_tail_def job_receipt_def Let_def)
qed

theorem receipt_iff_confirmed_witness:
  "\<exists>inp call k rc. run_request demo_crypto demo_config (ReqFund JNull ''7'' None) = Await inp call k \<and>
     k ''r1'' 9 (replayResult ''op1'' (Some demo_hash) None) [] = ([rc],
       Inr (Written (replayResult ''op1'' (Some demo_hash) None) rc)) \<and> rr_op rc = ''op1''"
proof -
  let ?res = "replayResult ''op1'' (Some demo_hash) None"
  obtain inp call k where s: "run_request demo_crypto demo_config (ReqFund JNull ''7'' None) = Await inp call k"
    by (simp add: fundJob_def demo_config_def)
  have st: "wr_state ?res = OpConfirmed" "wr_ok ?res" "wr_op ?res = ''op1''" by (simp_all add: replayResult_def)
  have h: "wr_state ?res \<noteq> OpConfirmed \<or> wr_ok ?res" using st by simp
  from receipt_iff_confirmed [OF s _ h, of "''r1''" 9 "[]"] s st show ?thesis by auto
qed

end
