(* ===== verification/Approval_Manager.thy ===== *)
theory Approval_Manager
  imports Approval_Store
begin

text \<open>
  \<open>ApprovalManager\<close> (\<open>arclayer-runner/src/approval-manager.ts\<close>): who may approve, reject
  or cancel, the execution of an approved action, and the ERC-8004 registration flow with
  its retry. Execution awaits a service call, so it is a part before the call, which
  returns or launches it, and a part after it. The Zod schemas are the parameter
  \<open>validate\<close>: the message of the schema error, or the parsed parameters. A service call
  ends with the message of what it threw or with a JSON result. The messages shown to the
  user are not modelled.
\<close>

section \<open>Arguments and results\<close>

record create_approval_args =
  cr_action :: approval_action
  cr_wallet :: string
  cr_chain :: int
  cr_job :: "string option"
  cr_amount :: "string option"
  cr_params :: json
  cr_expires :: "int option"
  cr_key :: "string option"

record approve_args =
  aa_id :: string
  aa_wallet :: string
  aa_role :: string
  aa_chain :: int
  aa_hash :: "string option"

record approve_result =
  aq_ok :: bool
  aq_id :: string
  aq_state :: string
  aq_tx :: "string option"
  aq_result :: "json option"
  aq_op :: "string option"
  aq_idempotent :: bool
  aq_error :: "string option"

type_synonym validator = "approval_action \<Rightarrow> json \<Rightarrow> string + json"

definition DEFAULT_EXPIRY_SECONDS :: int where
  "DEFAULT_EXPIRY_SECONDS = 300"

definition MAX_EXPIRY_SECONDS :: int where
  "MAX_EXPIRY_SECONDS = 86400"

fun action_name :: "approval_action \<Rightarrow> string" where
  "action_name ActCreateJob = ''createJob''"
| "action_name ActApproveUsdc = ''approveUsdc''"
| "action_name ActFundJob = ''fundJob''"
| "action_name ActClaimRefund = ''claimRefund''"
| "action_name ActErc8004Register = ''erc8004_register_agent''"

definition quoted :: "string \<Rightarrow> string" where
  "quoted s = CHR 0x27 # s @ [CHR 0x27]"

section \<open>Parameters\<close>

definition validateActionParams :: "validator \<Rightarrow> approval_action \<Rightarrow> json \<Rightarrow> json result" where
  "validateActionParams validate act params =
     (case validate act params of
        Inl issues \<Rightarrow> Inl (RunnerError ''INVALID_PARAMS''
          (''Approval params failed '' @ action_name act @ '' schema: '' @ issues) 400)
      | Inr v \<Rightarrow> Inr v)"

fun deriveDisplayFields :: "approval_action \<Rightarrow> json \<Rightarrow> string option \<times> string option" where
  \<comment> \<open>the derived job id and amount\<close>
  "deriveDisplayFields ActCreateJob v = (None, None)"
| "deriveDisplayFields ActApproveUsdc v = (None, jstr_opt (jget ''amount'' v))"
| "deriveDisplayFields ActFundJob v = (jstr_opt (jget ''jobId'' v), None)"
| "deriveDisplayFields ActClaimRefund v = (jstr_opt (jget ''jobId'' v), None)"
| "deriveDisplayFields ActErc8004Register v = (None, None)"

section \<open>Create\<close>

definition approval_key :: "string \<Rightarrow> create_approval_args \<Rightarrow> string \<Rightarrow> string" where
  "approval_key uuid args hash =
     (case cr_key args of
        Some k \<Rightarrow> k
      | None \<Rightarrow> ''approval:'' @ action_name (cr_action args) @ '':'' @ take 16 hash @ '':'' @ take 8 uuid)"

definition expiry :: "nat \<Rightarrow> create_approval_args \<Rightarrow> nat" where
  "expiry now args =
     nat (int now + min (or_else (cr_expires args) DEFAULT_EXPIRY_SECONDS) MAX_EXPIRY_SECONDS * 1000)"

definition createApproval ::
  "crypto \<Rightarrow> validator \<Rightarrow> string option \<Rightarrow> nat \<Rightarrow> string \<Rightarrow> string \<Rightarrow> create_approval_args
     \<Rightarrow> approval list \<Rightarrow> approval list \<times> (thrown + approval)" where
  \<comment> \<open>\<open>signer\<close> is \<open>configuredSignerWallet\<close>, \<open>uuid\<close> and \<open>uuid2\<close> the two random ids\<close>
  "createApproval env validate signer now uuid uuid2 args rows =
     (let hash = computeRequestHash env (cr_params args);
          key = approval_key uuid args hash;
          fail = (\<lambda>rs c m st. (rs, Inl (ThrownRunner (RunnerError c m st))))
      in if truthy signer \<and> toLowerCase (cr_wallet args) \<noteq> toLowerCase (or_else signer []) then
           fail rows ''SIGNER_WALLET_MISMATCH''
             (''Approval wallet '' @ cr_wallet args @ '' does not match configured signer ''
               @ or_else signer []) 403
         else
           (case getByIdempotencyKey now key rows of
              (rows1, Some existing) \<Rightarrow>
                if ar_action existing \<noteq> cr_action args \<or> ar_wallet existing \<noteq> toLowerCase (cr_wallet args)
                   \<or> ar_chain existing \<noteq> cr_chain args \<or> ar_hash existing \<noteq> hash then
                  fail rows1 ''IDEMPOTENCY_KEY_CONFLICT''
                    (''Idempotency key '' @ key @ '' already exists with different metadata'') 409
                else (rows1, Inr existing)
            | (rows1, None) \<Rightarrow>
                (case validateActionParams validate (cr_action args) (cr_params args) of
                   Inl e \<Rightarrow> (rows1, Inl (ThrownRunner e))
                 | Inr v \<Rightarrow>
                     (case deriveDisplayFields (cr_action args) v of (dJob, dAmount) \<Rightarrow>
                        if cr_job args \<noteq> None \<and> dJob \<noteq> None \<and> cr_job args \<noteq> dJob then
                          fail rows1 ''DISPLAY_PARAMS_MISMATCH''
                            (''Caller supplied jobId '' @ quoted (or_else (cr_job args) [])
                              @ '' but validated params derive '' @ quoted (or_else dJob [])) 400
                        else if cr_amount args \<noteq> None \<and> dAmount \<noteq> None \<and> cr_amount args \<noteq> dAmount then
                          fail rows1 ''DISPLAY_PARAMS_MISMATCH''
                            (''Caller supplied amount '' @ quoted (or_else (cr_amount args) [])
                              @ '' but validated params derive '' @ quoted (or_else dAmount [])) 400
                        else
                          (case store_create now uuid2
                             \<lparr>ca_action = cr_action args, ca_role = ''client'', ca_wallet = cr_wallet args,
                              ca_chain = cr_chain args, ca_job = or_opt dJob (cr_job args),
                              ca_amount = or_opt dAmount (cr_amount args), ca_hash = hash, ca_key = key,
                              ca_params = cr_params args, ca_expires = expiry now args\<rparr> rows1 of
                             Inl e \<Rightarrow> (rows1, Inl (ThrownError ''UNIQUE constraint failed''))
                           | Inr (rows2, r) \<Rightarrow> (rows2, Inr r))))))"

section \<open>Get, reject, cancel, list\<close>

definition check_owner :: "string \<Rightarrow> string \<Rightarrow> string \<Rightarrow> approval \<Rightarrow> unit result" where
  \<comment> \<open>the role check and the wallet check every authenticated operation makes\<close>
  "check_owner role wallet message r =
     (if ar_role r \<noteq> role then
        Inl (RunnerError ''ROLE_MISMATCH''
          (''Approval requires role '' @ quoted (ar_role r) @ '', got '' @ quoted role) 403)
      else if ar_wallet r \<noteq> toLowerCase wallet then Inl (RunnerError ''WALLET_MISMATCH'' message 403)
      else Inr ())"

definition belongs_message :: "string \<Rightarrow> approval \<Rightarrow> string" where
  "belongs_message wallet r = ''Approval belongs to '' @ ar_wallet r @ '', not '' @ wallet"

definition other_wallet_message :: string where
  "other_wallet_message = ''Wallet address does not match approval''"

definition approval_not_found :: "string \<Rightarrow> runner_error" where
  "approval_not_found i = RunnerError ''APPROVAL_NOT_FOUND'' (''Approval '' @ i @ '' not found'') 404"

definition getApproval ::
  "nat \<Rightarrow> string \<Rightarrow> string \<Rightarrow> string \<Rightarrow> approval list \<Rightarrow> approval list \<times> approval result" where
  "getApproval now i wallet role rows =
     (case store_get now i rows of
        (rows1, None) \<Rightarrow> (rows1, Inl (approval_not_found i))
      | (rows1, Some r) \<Rightarrow>
          (rows1, (case check_owner role wallet (belongs_message wallet r) r of
                     Inl e \<Rightarrow> Inl e | Inr _ \<Rightarrow> Inr r)))"

definition plain_result :: "bool \<Rightarrow> string \<Rightarrow> string \<Rightarrow> string option \<Rightarrow> approve_result" where
  "plain_result ok i s e = \<lparr>aq_ok = ok, aq_id = i, aq_state = s, aq_tx = None, aq_result = None,
     aq_op = None, aq_idempotent = False, aq_error = e\<rparr>"

definition decided :: "string \<Rightarrow> string \<Rightarrow> transition_result \<Rightarrow> approve_result" where
  \<comment> \<open>the answer of \<open>reject\<close> and \<open>cancel\<close>\<close>
  "decided i s t =
     (case t of
        TransOk r \<Rightarrow> plain_result True i s None
      | TransFail e current \<Rightarrow>
          plain_result False i
            (case current of None \<Rightarrow> ''unknown'' | Some c \<Rightarrow> ap_state_name (ar_state c)) (Some e))"

definition rejectApproval ::
  "nat \<Rightarrow> string \<Rightarrow> string \<Rightarrow> string \<Rightarrow> string option \<Rightarrow> approval list
     \<Rightarrow> approval list \<times> approve_result result" where
  "rejectApproval now i wallet role reason rows =
     (case store_get now i rows of
        (rows1, None) \<Rightarrow> (rows1, Inl (approval_not_found i))
      | (rows1, Some r) \<Rightarrow>
          (case check_owner role wallet other_wallet_message r of
             Inl e \<Rightarrow> (rows1, Inl e)
           | Inr _ \<Rightarrow>
               (case transitionToRejected now i reason rows1 of
                  (rows2, t) \<Rightarrow> (rows2, Inr (decided i ''rejected'' t)))))"

definition cancelApproval ::
  "nat \<Rightarrow> string \<Rightarrow> string \<Rightarrow> string \<Rightarrow> approval list \<Rightarrow> approval list \<times> approve_result result" where
  "cancelApproval now i wallet role rows =
     (case store_get now i rows of
        (rows1, None) \<Rightarrow> (rows1, Inl (approval_not_found i))
      | (rows1, Some r) \<Rightarrow>
          (case check_owner role wallet other_wallet_message r of
             Inl e \<Rightarrow> (rows1, Inl e)
           | Inr _ \<Rightarrow>
               (case transitionToCancelled now i rows1 of
                  (rows2, t) \<Rightarrow> (rows2, Inr (decided i ''cancelled'' t)))))"

definition is_evm_address :: "string \<Rightarrow> bool" where
  \<comment> \<open>\<open>/^0x[a-fA-F0-9]{40}$/\<close>\<close>
  "is_evm_address s \<longleftrightarrow> length s = 42 \<and> startsWith s ''0x'' \<and> list_all is_hex (drop 2 s)"

definition manager_listPending ::
  "nat \<Rightarrow> string \<Rightarrow> nat \<Rightarrow> approval list \<Rightarrow> approval list \<times> approval list result" where
  "manager_listPending now wallet limit rows =
     (if wallet = [] \<or> \<not> is_evm_address wallet then
        (rows, Inl (RunnerError ''INVALID_WALLET''
          ''walletAddress is required and must be a valid EVM address'' 400))
      else (case listPending now (Some wallet) limit rows of (rows1, rs) \<Rightarrow> (rows1, Inr rs)))"

section \<open>Approve\<close>

datatype approve_out =
  ApThrew runner_error
| ApReturned approve_result
| ApLaunched approval_action json

definition failed_result :: "string \<Rightarrow> string \<Rightarrow> approve_result" where
  "failed_result i message = plain_result False i ''failed'' (Some (take 500 message))"

definition fail_approval ::
  "nat \<Rightarrow> string \<Rightarrow> string \<Rightarrow> approval list \<Rightarrow> approval list \<times> approve_out" where
  \<comment> \<open>the \<open>catch\<close> of \<open>approve\<close>\<close>
  "fail_approval now i message rows =
     (fst (transitionToFailed now i message rows), ApReturned (failed_result i message))"

definition approve_checks :: "int option \<Rightarrow> approve_args \<Rightarrow> approval \<Rightarrow> unit result" where
  "approve_checks chain args r =
     bindR (check_owner (aa_role args) (aa_wallet args) (belongs_message (aa_wallet args) r) r) (\<lambda>_.
       if truthy (aa_hash args) \<and> aa_hash args \<noteq> Some (ar_hash r) then
         Inl (RunnerError ''REQUEST_HASH_MISMATCH''
           (''Expected requestHash '' @ or_else (aa_hash args) [] @ '', stored '' @ ar_hash r) 400)
       else if aa_chain args \<noteq> ar_chain r then
         Inl (RunnerError ''CHAIN_MISMATCH''
           (''Approval requires chainId '' @ int_str (ar_chain r) @ '', got '' @ int_str (aa_chain args)) 400)
       else if chain \<noteq> None \<and> chain \<noteq> Some (ar_chain r) then
         Inl (RunnerError ''CHAIN_MISMATCH''
           (''Approval chainId '' @ int_str (ar_chain r) @ '' does not match configured chain ''
             @ int_str (or_else chain 0)) 400)
       else Inr ())"

definition settled :: "approval \<Rightarrow> approve_out option" where
  \<comment> \<open>the answers for an approval that is no longer pending\<close>
  "settled r =
     (case ar_state r of
        ApExecuted \<Rightarrow> Some (ApReturned \<lparr>aq_ok = True, aq_id = ar_id r, aq_state = ''executed'',
          aq_tx = ar_tx r, aq_result = ar_result r, aq_op = ar_op r, aq_idempotent = True, aq_error = None\<rparr>)
      | ApExecuting \<Rightarrow> Some (ApReturned (plain_result False (ar_id r) ''executing''
          (Some ''Approval is currently being executed'')))
      | ApFailed \<Rightarrow> Some (ApReturned (plain_result False (ar_id r) ''failed''
          (Some (or_else (ar_error r) ''Execution failed''))))
      | ApRejected \<Rightarrow> Some (ApThrew (RunnerError ''APPROVAL_REJECTED'' ''Approval has been rejected'' 400))
      | ApCancelled \<Rightarrow> Some (ApThrew (RunnerError ''APPROVAL_CANCELLED'' ''Approval has been cancelled'' 400))
      | ApExpired \<Rightarrow> Some (ApThrew (RunnerError ''APPROVAL_EXPIRED'' ''Approval has expired'' 400))
      | _ \<Rightarrow> None)"

definition approve_begin ::
  "validator \<Rightarrow> int option \<Rightarrow> nat \<Rightarrow> bool \<Rightarrow> approve_args \<Rightarrow> approval list
     \<Rightarrow> approval list \<times> approve_out" where
  \<comment> \<open>\<open>approve\<close> up to the service call; \<open>aborted\<close> is \<open>signal?.aborted\<close>\<close>
  "approve_begin validate chain now aborted args rows =
     (case store_get now (aa_id args) rows of
        (rows1, None) \<Rightarrow> (rows1, ApThrew (approval_not_found (aa_id args)))
      | (rows1, Some r) \<Rightarrow>
          (case approve_checks chain args r of
             Inl e \<Rightarrow> (rows1, ApThrew e)
           | Inr _ \<Rightarrow>
               (case settled r of
                  Some out \<Rightarrow> (rows1, out)
                | None \<Rightarrow>
                    (case transitionToExecuting now (aa_id args) rows1 of
                       (rows2, TransFail e c) \<Rightarrow>
                         (case store_get now (aa_id args) rows2 of (rows3, cur) \<Rightarrow>
                            (rows3, ApReturned (plain_result False (aa_id args)
                               (case cur of None \<Rightarrow> ''unknown'' | Some c \<Rightarrow> ap_state_name (ar_state c)) (Some e))))
                     | (rows2, TransOk _) \<Rightarrow>
                         (case validateActionParams validate (ar_action r) (ar_params r) of
                            Inl e \<Rightarrow> fail_approval now (aa_id args) (err_message e) rows2
                          | Inr v \<Rightarrow>
                              if aborted then
                                fail_approval now (aa_id args) ''Execution aborted by signal'' rows2
                              else if ar_action r = ActErc8004Register then
                                fail_approval now (aa_id args)
                                  ''erc8004_register_agent must use dedicated approve+execute tools (erc8004.register_approval_approve_and_execute), not the generic approval path.''
                                  rows2
                              else (rows2, ApLaunched (ar_action r) v))))))"

definition or_json :: "json \<Rightarrow> json \<Rightarrow> json" where
  \<comment> \<open>\<open>a ?? b\<close>\<close>
  "or_json a b = (if a = JUndef \<or> a = JNull then b else a)"

definition failure_reason :: "json \<Rightarrow> string" where
  \<comment> \<open>\<open>resultObj.reason ?? resultObj.error ?? ...\<close>, which the services give as text\<close>
  "failure_reason r =
     js_String (or_json (or_json (jget ''reason'' r) (jget ''error'' r)) (JStr ''Service returned ok: false''))"

definition service_failed :: "json \<Rightarrow> bool" where
  "service_failed r \<longleftrightarrow> jtruthy r \<and> jget ''ok'' r = JBool False"

definition approve_finish ::
  "nat \<Rightarrow> string \<Rightarrow> string + json \<Rightarrow> approval list \<Rightarrow> approval list \<times> approve_result" where
  \<comment> \<open>\<open>approve\<close> after the service call\<close>
  "approve_finish now i outcome rows =
     (case outcome of
        Inl message \<Rightarrow> (fst (transitionToFailed now i message rows), failed_result i message)
      | Inr result \<Rightarrow>
          if service_failed result then
            (fst (transitionToFailed now i (failure_reason result) rows),
             failed_result i (failure_reason result))
          else
            (case transitionToExecuted now i (jstr_opt (jget ''txHash'' result)) result
                    (jstr_opt (jget ''operationId'' result)) rows of
               (rows1, None) \<Rightarrow> (rows1, failed_result i ''Cannot read properties of undefined'')
             | (rows1, Some r) \<Rightarrow>
                 (rows1, \<lparr>aq_ok = True, aq_id = ar_id r, aq_state = ''executed'', aq_tx = ar_tx r,
                          aq_result = ar_result r, aq_op = ar_op r, aq_idempotent = False,
                          aq_error = None\<rparr>)))"

section \<open>ERC-8004 registration: approve and reject by id\<close>

definition erc_refused :: "string \<Rightarrow> string \<Rightarrow> string \<Rightarrow> approve_result" where
  "erc_refused i s e = plain_result False i s (Some e)"

definition approveById ::
  "nat \<Rightarrow> string \<Rightarrow> approval list \<Rightarrow> approval list \<times> approve_result" where
  "approveById now i rows =
     (case store_get now i rows of
        (rows1, None) \<Rightarrow> (rows1, erc_refused i ''unknown'' ''APPROVAL_NOT_FOUND'')
      | (rows1, Some r) \<Rightarrow>
          if ar_action r \<noteq> ActErc8004Register then
            (rows1, erc_refused i (ap_state_name (ar_state r)) ''INVALID_APPROVAL_ACTION_TYPE'')
          else if ar_state r \<noteq> ApPending then
            (rows1, erc_refused i (ap_state_name (ar_state r))
               (''Cannot approve: state is '' @ ap_state_name (ar_state r)))
          else
            (case transitionToApproved now i rows1 of
               (rows2, TransFail e current) \<Rightarrow>
                 (rows2, erc_refused i
                    (case current of None \<Rightarrow> ''unknown'' | Some c \<Rightarrow> ap_state_name (ar_state c)) e)
             | (rows2, TransOk a) \<Rightarrow> (rows2, plain_result True (ar_id a) (ap_state_name (ar_state a)) None)))"

definition rejectById ::
  "nat \<Rightarrow> string \<Rightarrow> string option \<Rightarrow> approval list \<Rightarrow> approval list \<times> approve_result" where
  "rejectById now i reason rows =
     (case store_get now i rows of
        (rows1, None) \<Rightarrow> (rows1, erc_refused i ''unknown'' ''APPROVAL_NOT_FOUND'')
      | (rows1, Some r) \<Rightarrow>
          if ar_action r \<noteq> ActErc8004Register then
            (rows1, erc_refused i (ap_state_name (ar_state r)) ''INVALID_APPROVAL_ACTION_TYPE'')
          else if ar_state r \<noteq> ApPending then
            (rows1, erc_refused i (ap_state_name (ar_state r))
               (''Cannot reject: state is '' @ ap_state_name (ar_state r)))
          else
            (case transitionToRejected now i reason rows1 of (rows2, t) \<Rightarrow>
               (rows2, decided i ''rejected'' t)))"

definition same_erc8004_request :: "string \<Rightarrow> string \<Rightarrow> approval \<Rightarrow> bool" where
  "same_erc8004_request metadataURI role a \<longleftrightarrow> ar_action a = ActErc8004Register
     \<and> jget ''metadataURI'' (ar_params a) = JStr metadataURI \<and> jget ''role'' (ar_params a) = JStr role
     \<and> (ar_state a = ApFailed \<longrightarrow> truthy (ar_tx a)
          \<or> (case ar_result a of None \<Rightarrow> False | Some j \<Rightarrow> jtruthy (jget ''txHash'' j)))"

definition findExistingByErc8004Signature ::
  "nat \<Rightarrow> string \<Rightarrow> string \<Rightarrow> string \<Rightarrow> approval list \<Rightarrow> approval list \<times> approval option" where
  "findExistingByErc8004Signature now controller metadataURI role rows =
     (case listErc8004DuplicateCandidatesByWallet now (Some (toLowerCase controller)) 100 rows of
        (rows1, candidates) \<Rightarrow> (rows1, find (same_erc8004_request metadataURI role) candidates))"

section \<open>ERC-8004 registration: execute\<close>

record erc_result =
  eq_ok :: bool
  eq_id :: string
  eq_state :: string
  eq_tx :: json
  eq_token :: json
  eq_agent :: json
  eq_visible :: json
  eq_errcode :: "string option"
  eq_error :: "string option"
  eq_idempotent :: bool
  eq_retryable :: bool

definition erc_plain :: "bool \<Rightarrow> string \<Rightarrow> string \<Rightarrow> string option \<Rightarrow> erc_result" where
  "erc_plain ok i s e = \<lparr>eq_ok = ok, eq_id = i, eq_state = s, eq_tx = JUndef, eq_token = JUndef,
     eq_agent = JUndef, eq_visible = JUndef, eq_errcode = None, eq_error = e,
     eq_idempotent = False, eq_retryable = False\<rparr>"

text \<open>The registration call: its parameters, and whether it is a retry that re-syncs a known
  transaction.\<close>

datatype erc_out =
  ErcReturned erc_result
| ErcLaunched json "json option"

definition set_field :: "string \<Rightarrow> json \<Rightarrow> json \<Rightarrow> json" where
  "set_field k v j = (case j of JObj kvs \<Rightarrow> JObj (jsmap_set k v kvs) | _ \<Rightarrow> j)"

definition retry_tx :: "approval \<Rightarrow> json option" where
  \<comment> \<open>the stored transaction of an execution whose dashboard sync is pending\<close>
  "retry_tx r =
     (case ar_result r of
        None \<Rightarrow> None
      | Some j \<Rightarrow> if jtruthy (jget ''sync_pending_retryable'' j) \<and> jtruthy (jget ''txHash'' j)
                  then Some (jget ''txHash'' j) else None)"

definition executed_before :: "approval \<Rightarrow> erc_result" where
  "executed_before r =
     (let result = or_else (ar_result r) (JObj []) in
      (erc_plain True (ar_id r) ''executed'' None)
        \<lparr>eq_tx := (case ar_tx r of Some t \<Rightarrow> JStr t | None \<Rightarrow> jget ''txHash'' result),
         eq_token := jget ''tokenId'' result, eq_agent := jget ''agentId'' result,
         eq_visible := jget ''agentVisible'' result, eq_idempotent := True\<rparr>)"

definition erc_begin_first ::
  "nat \<Rightarrow> bool \<Rightarrow> string \<Rightarrow> approval \<Rightarrow> approval list \<Rightarrow> approval list \<times> erc_out" where
  \<comment> \<open>from the approved state: take the execution, then call the service\<close>
  "erc_begin_first now aborted i r rows =
     (case transitionFromApprovedToExecuting now i rows of
        (rows1, TransFail e current) \<Rightarrow>
          (rows1, ErcReturned (erc_plain False i
             (case current of None \<Rightarrow> ''unknown'' | Some c \<Rightarrow> ap_state_name (ar_state c)) (Some e)))
      | (rows1, TransOk _) \<Rightarrow>
          if aborted then
            (fst (transitionToFailed now i ''Execution aborted by signal'' rows1),
             ErcReturned (erc_plain False i ''failed'' (Some ''Execution aborted'')))
          else (rows1, ErcLaunched (set_field ''approvalId'' (JStr i) (ar_params r)) None))"

definition erc_begin ::
  "nat \<Rightarrow> bool \<Rightarrow> string \<Rightarrow> approval list \<Rightarrow> approval list \<times> erc_out" where
  \<comment> \<open>\<open>executeErc8004Registration\<close> up to the service call\<close>
  "erc_begin now aborted i rows =
     (case store_get now i rows of
        (rows1, None) \<Rightarrow> (rows1, ErcReturned (erc_plain False i ''unknown'' (Some ''APPROVAL_NOT_FOUND'')))
      | (rows1, Some r) \<Rightarrow>
          if ar_action r \<noteq> ActErc8004Register then
            (rows1, ErcReturned (erc_plain False i (ap_state_name (ar_state r)) (Some ''INVALID_APPROVAL_ACTION_TYPE'')))
          else if ar_state r = ApExecuted then (rows1, ErcReturned (executed_before r))
          else if ar_state r = ApExecuting then
            (case retry_tx r of
               None \<Rightarrow> (rows1, ErcReturned (erc_plain False i ''executing'' (Some ''Approval is currently being executed'')))
             | Some tx \<Rightarrow>
                 if aborted then
                   (fst (transitionToFailed now i ''Retry aborted by signal'' rows1),
                    ErcReturned (erc_plain False i ''failed'' (Some ''Retry aborted'')))
                 else (rows1, ErcLaunched (set_field ''skipOnChainTxHash'' tx
                          (set_field ''approvalId'' (JStr i) (ar_params r))) (Some tx)))
          else if ar_state r \<noteq> ApApproved then
            (rows1, ErcReturned (erc_plain False i (ap_state_name (ar_state r))
               (Some (''Cannot execute: state is '' @ ap_state_name (ar_state r) @ '' (requires approved)''))))
          else erc_begin_first now aborted i r rows1)"

definition is_retryable :: "json \<Rightarrow> bool" where
  "is_retryable r \<longleftrightarrow> jget ''retryable'' r = JBool True
     \<or> jget ''errorCode'' r = JStr ''sync_pending_retryable''"

definition retry_metadata :: "json \<Rightarrow> json" where
  "retry_metadata tx = JObj [(''sync_pending_retryable'', JBool True), (''txHash'', tx)]"

definition still_pending :: "string \<Rightarrow> json \<Rightarrow> string \<Rightarrow> erc_result" where
  \<comment> \<open>the answer of an execution that stays retryable\<close>
  "still_pending i tx message =
     (erc_plain False i ''executing'' (Some message))
       \<lparr>eq_tx := tx, eq_errcode := Some ''sync_pending_retryable'', eq_retryable := True\<rparr>"

definition erc_executed ::
  "nat \<Rightarrow> string \<Rightarrow> json \<Rightarrow> json \<Rightarrow> approval list \<Rightarrow> approval list \<times> erc_result" where
  \<comment> \<open>full success, of a first execution and of a retry\<close>
  "erc_executed now i tx result rows =
     (case transitionToExecuted now i (jstr_opt tx) result None rows of
        (rows1, None) \<Rightarrow> (rows1, erc_plain False i ''failed'' (Some ''Cannot read properties of undefined''))
      | (rows1, Some r) \<Rightarrow>
          (rows1, (erc_plain True (ar_id r) ''executed'' None)
             \<lparr>eq_tx := (case ar_tx r of Some t \<Rightarrow> JStr t | None \<Rightarrow> tx), eq_token := jget ''tokenId'' result,
              eq_agent := jget ''agentId'' result, eq_visible := JBool True\<rparr>))"

definition erc_threw :: "nat \<Rightarrow> string \<Rightarrow> string \<Rightarrow> approval list \<Rightarrow> approval list \<times> erc_result" where
  "erc_threw now i message rows =
     (fst (transitionToFailed now i message rows), erc_plain False i ''failed'' (Some (take 500 message)))"

text \<open>After the service call of a retry; \<open>oldTx\<close> is the stored transaction.\<close>

definition erc_retry_finish ::
  "nat \<Rightarrow> string \<Rightarrow> json \<Rightarrow> string + json \<Rightarrow> approval list \<Rightarrow> approval list \<times> erc_result" where
  "erc_retry_finish now i oldTx outcome rows =
     (case outcome of
        Inl message \<Rightarrow> erc_threw now i message rows
      | Inr result \<Rightarrow>
          let tx = or_json (jget ''txHash'' result) oldTx;
              code = or_json (jget ''errorCode'' result) (JStr ''EXECUTION_FAILED'')
          in if service_failed result then
               (if is_retryable result then
                  (saveExecutingRetryMetadata now i (retry_metadata tx) rows,
                   still_pending i tx (take 500 (failure_reason result)))
                else
                  (fst (transitionToFailedWithResult now i (failure_reason result)
                     (JObj [(''txHash'', tx), (''errorCode'', code), (''reason'', jget ''reason'' result),
                        (''tokenId'', jget ''tokenId'' result), (''agentId'', jget ''agentId'' result),
                        (''agentVisible'', jget ''agentVisible'' result)]) rows),
                   (erc_plain False i ''failed'' (Some (take 500 (failure_reason result))))
                     \<lparr>eq_tx := tx, eq_errcode := jstr_opt code, eq_visible := jget ''agentVisible'' result\<rparr>))
             else if jget ''agentVisible'' result = JBool False then
               (if is_retryable result then
                  (saveExecutingRetryMetadata now i (retry_metadata tx) rows,
                   still_pending i tx ''Sync still pending. Retry after receipt mines.'')
                else
                  (fst (transitionToFailedWithResult now i ''Retry sync failed: agent not dashboard-visible.''
                     (JObj [(''txHash'', tx), (''errorCode'', JStr ''failed_persistence''),
                        (''tokenId'', jget ''tokenId'' result), (''agentId'', jget ''agentId'' result)]) rows),
                   (erc_plain False i ''failed''
                      (Some ''Retry sync succeeded on-chain but agent is not visible from GET /api/erc8004/agents.''))
                     \<lparr>eq_tx := tx, eq_errcode := Some ''failed_persistence''\<rparr>))
             else erc_executed now i tx result rows)"

text \<open>After the service call of a first execution.\<close>

definition erc_fresh_finish ::
  "nat \<Rightarrow> string \<Rightarrow> string + json \<Rightarrow> approval list \<Rightarrow> approval list \<times> erc_result" where
  "erc_fresh_finish now i outcome rows =
     (case outcome of
        Inl message \<Rightarrow> erc_threw now i message rows
      | Inr result \<Rightarrow>
          let tx = jget ''txHash'' result;
              code = or_json (jget ''errorCode'' result) (JStr ''EXECUTION_FAILED'')
          in if service_failed result then
               (if is_retryable result then
                  (saveExecutingRetryMetadata now i (retry_metadata tx) rows,
                   (still_pending i tx (take 500 (failure_reason result)))\<lparr>eq_visible := JBool False\<rparr>)
                else
                  (fst (transitionToFailedWithResult now i (failure_reason result)
                     (JObj [(''txHash'', tx), (''errorCode'', code), (''tokenId'', jget ''tokenId'' result),
                        (''agentId'', jget ''agentId'' result), (''agentVisible'', jget ''agentVisible'' result)]) rows),
                   (erc_plain False i ''failed'' (Some (take 500 (failure_reason result))))
                     \<lparr>eq_tx := tx, eq_errcode := jstr_opt code, eq_visible := jget ''agentVisible'' result\<rparr>))
             else if jget ''agentVisible'' result = JBool False then
               (if is_retryable result then
                  (saveExecutingRetryMetadata now i (retry_metadata tx) rows,
                   (still_pending i tx (js_String (or_json (jget ''reason'' result)
                      (JStr ''Tx submitted but dashboard sync pending. Retry after receipt mines.''))))
                     \<lparr>eq_token := jget ''tokenId'' result, eq_agent := jget ''agentId'' result,
                      eq_visible := JBool False\<rparr>)
                else
                  (fst (transitionToFailedWithResult now i
                     ''On-chain registration succeeded but erc8004_agents upsert failed. Agent is not dashboard-visible.''
                     (JObj [(''txHash'', tx), (''errorCode'', jget ''errorCode'' result),
                        (''reason'', jget ''reason'' result), (''tokenId'', jget ''tokenId'' result),
                        (''agentId'', jget ''agentId'' result)]) rows),
                   (erc_plain False i ''failed''
                      (Some ''On-chain tx succeeded but agent is not visible from GET /api/erc8004/agents. Upsert to erc8004_agents failed.''))
                     \<lparr>eq_tx := tx, eq_token := jget ''tokenId'' result, eq_agent := jget ''agentId'' result,
                      eq_visible := JBool False, eq_errcode := Some ''failed_persistence''\<rparr>))
             else erc_executed now i tx result rows)"

definition of_approve :: "approve_result \<Rightarrow> erc_result" where
  "of_approve r = erc_plain False (aq_id r) (aq_state r) (aq_error r)"

definition approveAndExecuteErc8004 ::
  "nat \<Rightarrow> bool \<Rightarrow> string \<Rightarrow> approval list \<Rightarrow> approval list \<times> erc_out" where
  \<comment> \<open>up to the service call\<close>
  "approveAndExecuteErc8004 now aborted i rows =
     (case store_get now i rows of
        (rows1, None) \<Rightarrow> (rows1, ErcReturned (erc_plain False i ''unknown'' (Some ''APPROVAL_NOT_FOUND'')))
      | (rows1, Some r) \<Rightarrow>
          if ar_action r \<noteq> ActErc8004Register then
            (rows1, ErcReturned (erc_plain False i (ap_state_name (ar_state r)) (Some ''INVALID_APPROVAL_ACTION_TYPE'')))
          else if ar_state r = ApExecuted then erc_begin now aborted i rows1
          else if ar_state r = ApPending then
            (case approveById now i rows1 of
               (rows2, a) \<Rightarrow>
                 if \<not> aq_ok a then (rows2, ErcReturned (of_approve a)) else erc_begin now aborted i rows2)
          else erc_begin now aborted i rows1)"

end
