(* ===== verification/Approval_Safety.thy ===== *)
theory Approval_Safety
  imports Approval_Manager
begin

text \<open>
  Approvals over every run of the process. \<open>evolution\<close> is the interface between the store
  and the manager: every operation moves each row along the state machine and leaves its
  request alone. The manager's runs then keep three promises: an approval starts at most one
  execution, what runs is what was hashed, and a decided approval stays decided.
\<close>

section \<open>Evolution of rows\<close>

locale evolution =
  fixes evolves :: "'r \<Rightarrow> 'r \<Rightarrow> bool" and pk :: "'r \<Rightarrow> 'k"
  assumes evolves_refl: "evolves r r"
    and evolves_trans: "evolves r s \<Longrightarrow> evolves s t \<Longrightarrow> evolves r t"
    and evolves_pk: "evolves r s \<Longrightarrow> pk s = pk r"
begin

definition all_evolve :: "'r list \<Rightarrow> 'r list \<Rightarrow> bool" where
  "all_evolve rows rows' \<longleftrightarrow> list_all2 evolves rows rows'"

lemma all_refl [simp]: "all_evolve rows rows"
  by (simp add: all_evolve_def list_all2_same evolves_refl)

lemma all_trans: "all_evolve a b \<Longrightarrow> all_evolve b c \<Longrightarrow> all_evolve a c"
  unfolding all_evolve_def using list_all2_trans [of evolves evolves evolves] evolves_trans by blast

lemma all_upd: "(\<And>r. r \<in> set rows \<Longrightarrow> pk r = i \<Longrightarrow> evolves r (f r)) \<Longrightarrow> all_evolve rows (upd pk i f rows)"
  by (auto simp: all_evolve_def upd_def list_all2_map2 list_all2_same evolves_refl)

lemma all_pks: "all_evolve rows rows' \<Longrightarrow> map pk rows' = map pk rows"
  unfolding all_evolve_def by (induction rule: list_all2_induct) (auto dest: evolves_pk)

lemma all_kept: "all_evolve rows rows' \<Longrightarrow> (\<And>r s. evolves r s \<Longrightarrow> P r \<Longrightarrow> P s) \<Longrightarrow>
    \<forall>r\<in>set rows. P r \<Longrightarrow> \<forall>r\<in>set rows'. P r"
  unfolding all_evolve_def by (induction rule: list_all2_induct) auto

lemma sel_evolves:
  "all_evolve rows rows' \<Longrightarrow> sel pk i rows = Some r \<Longrightarrow> \<exists>r'. sel pk i rows' = Some r' \<and> evolves r r'"
  unfolding all_evolve_def
proof (induction rule: list_all2_induct)
  case (Cons x xs y ys)
  then show ?case using evolves_pk [OF Cons(1)] by (auto simp: sel_Cons split: if_splits)
qed (simp add: sel_Nil)

end

text \<open>The moves of an approval: the documented table, and the expiry of an approved one.\<close>

definition ap_move :: "approval_state \<Rightarrow> approval_state \<Rightarrow> bool" where
  "ap_move s t \<longleftrightarrow> isTransitionAllowed s t \<or> (s = ApApproved \<and> t = ApExpired)"

definition same_request :: "approval \<Rightarrow> approval \<Rightarrow> bool" where
  "same_request r s \<longleftrightarrow> ar_id s = ar_id r \<and> ar_action s = ar_action r \<and> ar_role s = ar_role r
     \<and> ar_wallet s = ar_wallet r \<and> ar_chain s = ar_chain r \<and> ar_job s = ar_job r
     \<and> ar_amount s = ar_amount r \<and> ar_hash s = ar_hash r \<and> ar_key s = ar_key r
     \<and> ar_params s = ar_params r \<and> ar_expires s = ar_expires r"

text \<open>\<open>E\<close> is the set of approvals whose execution may end in the step.\<close>

definition ap_evolves :: "string set \<Rightarrow> approval \<Rightarrow> approval \<Rightarrow> bool" where
  "ap_evolves E r s \<longleftrightarrow> same_request r s \<and> ap_move\<^sup>*\<^sup>* (ar_state r) (ar_state s)
     \<and> (ar_state r = ApExecuting \<and> ar_id r \<notin> E \<longrightarrow> ar_state s = ApExecuting)"

interpretation ap: evolution "ap_evolves E" ar_id for E
proof unfold_locales
  fix r s t :: approval
  show "ap_evolves E r r" by (simp add: ap_evolves_def same_request_def)
  show "ap_evolves E r s \<Longrightarrow> ap_evolves E s t \<Longrightarrow> ap_evolves E r t"
    unfolding ap_evolves_def same_request_def by (auto intro: rtranclp_trans)
  show "ap_evolves E r s \<Longrightarrow> ar_id s = ar_id r" by (simp add: ap_evolves_def same_request_def)
qed

lemma ap_moveI:
  "same_request r s \<Longrightarrow> ap_move (ar_state r) (ar_state s) \<or> ar_state r = ar_state s \<Longrightarrow>
     ar_state r \<noteq> ApExecuting \<or> ar_id r \<in> E \<or> ar_state s = ApExecuting \<Longrightarrow> ap_evolves E r s"
  by (auto simp: ap_evolves_def)

lemma ap_evolves_mono: "ap_evolves E r s \<Longrightarrow> E \<subseteq> F \<Longrightarrow> ap_evolves F r s"
  by (auto simp: ap_evolves_def)

lemmas move_defs = ap_move_def isTransitionAllowed_def

section \<open>The store evolves its rows\<close>

lemma expire_evolves: "ap.all_evolve E rows (fst (checkAndExpire now r rows))"
  by (auto simp: checkAndExpire_def expired_row_def same_request_def move_defs intro!: ap.all_upd ap_moveI)

lemma get_evolves: "ap.all_evolve E rows (fst (store_get now i rows))"
  using expire_evolves by (auto simp: store_get_def split: option.splits prod.splits) (metis fst_conv)

lemma getByKey_evolves: "ap.all_evolve E rows (fst (getByIdempotencyKey now k rows))"
  using expire_evolves by (auto simp: getByIdempotencyKey_def split: option.splits prod.splits) (metis fst_conv)

lemma expire_each_evolves: "ap.all_evolve E rows (fst (expire_each now rs rows))"
proof (induction rs arbitrary: rows)
  case (Cons r rs)
  obtain rows1 r' where e: "checkAndExpire now r rows = (rows1, r')" by fastforce
  from Cons [of rows1] expire_evolves [of E rows now r] e show ?case
    by (auto split: prod.splits intro: ap.all_trans)
qed simp

lemma refresh_each_evolves: "ap.all_evolve E rows (fst (refresh_each now rs rows))"
proof (induction rs arbitrary: rows)
  case (Cons r rs)
  obtain rows1 r' where e: "store_get now (ar_id r) rows = (rows1, r')" by fastforce
  from Cons [of rows1] get_evolves [of E rows now "ar_id r"] e show ?case
    by (auto split: prod.splits intro: ap.all_trans)
qed simp

lemma update_evolves:
  "(\<And>r. P r \<Longrightarrow> ar_id r = i \<Longrightarrow> ap_evolves E r (f r)) \<Longrightarrow> ap.all_evolve E rows (fst (update_where i P f rows))"
  by (auto simp: update_where_def intro!: ap.all_upd ap.evolves_refl)

lemma update_get_evolves:
  assumes "\<And>r. P r \<Longrightarrow> ar_id r = i \<Longrightarrow> ap_evolves E r (f r)"
  shows "ap.all_evolve E rows (fst (store_get now j (fst (update_where i P f rows))))"
  by (rule ap.all_trans [OF update_evolves [OF assms] get_evolves])

lemma transition_evolves:
  assumes "\<And>r. P r \<Longrightarrow> ar_id r = i \<Longrightarrow> ap_evolves E r (f r)"
  shows "ap.all_evolve E rows (fst (transition_where now i P f rows))"
proof -
  have "fst (transition_where now i P f rows) = fst (store_get now i (fst (update_where i P f rows)))"
    by (auto simp: transition_where_def split: prod.splits option.splits)
  with update_get_evolves [OF assms] show ?thesis by simp
qed

named_theorems store_evolves \<open>every operation of the store evolves its rows\<close>

lemmas [store_evolves] = get_evolves getByKey_evolves

lemma transitions_evolve [store_evolves]:
  "ap.all_evolve E rows (fst (transitionToApproved now i rows))"
  "ap.all_evolve E rows (fst (transitionFromApprovedToExecuting now i rows))"
  "ap.all_evolve E rows (fst (transitionToExecuting now i rows))"
  "ap.all_evolve E rows (fst (transitionToRejected now i reason rows))"
  "ap.all_evolve E rows (fst (transitionToCancelled now i rows))"
  unfolding transitionToApproved_def transitionFromApprovedToExecuting_def transitionToExecuting_def
    transitionToRejected_def transitionToCancelled_def
  by (intro transition_evolves ap_moveI; simp add: same_request_def move_defs)+

lemma finishes_evolve [store_evolves]:
  assumes "i \<in> E"
  shows "ap.all_evolve E rows (fst (transitionToExecuted now i tx result op rows))"
  "ap.all_evolve E rows (fst (transitionToFailed now i message rows))"
  "ap.all_evolve E rows (fst (transitionToFailedWithResult now i message result rows))"
  unfolding transitionToExecuted_def transitionToFailed_def transitionToFailedWithResult_def
  by (intro update_get_evolves ap_moveI; simp add: same_request_def move_defs assms)+

lemma save_evolves [store_evolves]:
  "ap.all_evolve E rows (saveExecutingRetryMetadata now i result rows)"
  unfolding saveExecutingRetryMetadata_def
  by (intro update_evolves ap_moveI; simp add: same_request_def)

lemma lists_evolve [store_evolves]:
  "ap.all_evolve E rows (fst (listPending now w n rows))"
  "ap.all_evolve E rows (fst (listActiveByWallet now w n rows))"
  "ap.all_evolve E rows (fst (listErc8004DuplicateCandidatesByWallet now w n rows))"
  using expire_each_evolves refresh_each_evolves
  by (auto simp: listPending_def listActiveByWallet_def listErc8004DuplicateCandidatesByWallet_def
      split: prod.splits) (metis fst_conv)+

end
