(* ===== verification/Approval_Runs.thy ===== *)
theory Approval_Runs
  imports Approval_Safety
begin

text \<open>
  Every operation of the manager evolves the rows of the store, and the runs of the process:
  requests to create, read, approve, reject and cancel, service calls in flight with their
  answers, and restarts, which lose the calls but not the table.
\<close>

section \<open>The manager evolves the rows\<close>

lemma evolve_bind:
  assumes "ap.all_evolve E rows (fst m)" "\<And>rows1 x. ap.all_evolve E rows1 (fst (f rows1 x))"
  shows "ap.all_evolve E rows (fst (case m of (rows1, x) \<Rightarrow> f rows1 x))"
  using assms(1) assms(2) [of "fst m" "snd m"] by (cases m) (auto intro: ap.all_trans)

named_theorems manager_evolves \<open>every operation of the manager evolves the rows\<close>

lemma getApproval_evolves [manager_evolves]: "ap.all_evolve E rows (fst (getApproval now i wallet role rows))"
  unfolding getApproval_def by (auto intro!: evolve_bind store_evolves split: option.split sum.split)

lemma rejectApproval_evolves [manager_evolves]: "ap.all_evolve E rows (fst (rejectApproval now i wallet role reason rows))"
  unfolding rejectApproval_def by (auto intro!: evolve_bind store_evolves split: option.split sum.split)

lemma cancelApproval_evolves [manager_evolves]: "ap.all_evolve E rows (fst (cancelApproval now i wallet role rows))"
  unfolding cancelApproval_def by (auto intro!: evolve_bind store_evolves split: option.split sum.split)

lemma manager_listPending_evolves [manager_evolves]: "ap.all_evolve E rows (fst (manager_listPending now wallet limit rows))"
  unfolding manager_listPending_def by (auto intro!: evolve_bind store_evolves)

lemma approveById_evolves [manager_evolves]: "ap.all_evolve E rows (fst (approveById now i rows))"
  unfolding approveById_def
  by (auto intro!: evolve_bind store_evolves split: option.split transition_result.split)

lemma rejectById_evolves [manager_evolves]: "ap.all_evolve E rows (fst (rejectById now i reason rows))"
  unfolding rejectById_def by (auto intro!: evolve_bind store_evolves split: option.split)

lemma findExistingByErc8004Signature_evolves [manager_evolves]: "ap.all_evolve E rows (fst (findExistingByErc8004Signature now c uri role rows))"
  unfolding findExistingByErc8004Signature_def by (auto intro!: evolve_bind store_evolves)

lemma fail_evolves: "i \<in> E \<Longrightarrow> ap.all_evolve E rows (fst (fail_approval now i m rows))"
  unfolding fail_approval_def by (simp add: finishes_evolve)

lemma approve_begin_evolves [manager_evolves]:
  "aa_id args \<in> E \<Longrightarrow> ap.all_evolve E rows (fst (approve_begin validate chain now aborted args rows))"
  unfolding approve_begin_def
  by (auto intro!: evolve_bind store_evolves fail_evolves split: option.split sum.split transition_result.split)

lemma approve_finish_evolves [manager_evolves]: "i \<in> E \<Longrightarrow> ap.all_evolve E rows (fst (approve_finish now i outcome rows))"
  unfolding approve_finish_def
  by (auto intro!: evolve_bind store_evolves split: option.split sum.split)

lemma erc_first_evolves: "i \<in> E \<Longrightarrow> ap.all_evolve E rows (fst (erc_begin_first now aborted i r rows))"
  unfolding erc_begin_first_def
  by (auto intro!: evolve_bind store_evolves split: transition_result.split)

lemma erc_begin_evolves [manager_evolves]: "i \<in> E \<Longrightarrow> ap.all_evolve E rows (fst (erc_begin now aborted i rows))"
  unfolding erc_begin_def
  by (auto intro!: evolve_bind store_evolves erc_first_evolves split: option.split)

lemma approveAndExecuteErc8004_evolves [manager_evolves]: "i \<in> E \<Longrightarrow> ap.all_evolve E rows (fst (approveAndExecuteErc8004 now aborted i rows))"
  unfolding approveAndExecuteErc8004_def
  by (auto intro!: evolve_bind store_evolves erc_begin_evolves approveById_evolves split: option.split)

lemma erc_executed_evolves: "i \<in> E \<Longrightarrow> ap.all_evolve E rows (fst (erc_executed now i tx result rows))"
  unfolding erc_executed_def by (auto intro!: evolve_bind store_evolves split: option.split)

lemma erc_threw_evolves: "i \<in> E \<Longrightarrow> ap.all_evolve E rows (fst (erc_threw now i m rows))"
  unfolding erc_threw_def by (simp add: finishes_evolve)

lemma erc_retry_finish_evolves [manager_evolves]: "i \<in> E \<Longrightarrow> ap.all_evolve E rows (fst (erc_retry_finish now i tx outcome rows))"
  unfolding erc_retry_finish_def Let_def
  by (auto intro!: store_evolves erc_executed_evolves erc_threw_evolves split: sum.split)

lemma erc_fresh_finish_evolves [manager_evolves]: "i \<in> E \<Longrightarrow> ap.all_evolve E rows (fst (erc_fresh_finish now i outcome rows))"
  unfolding erc_fresh_finish_def Let_def
  by (auto intro!: store_evolves erc_executed_evolves erc_threw_evolves split: sum.split)

lemma createApproval_cases:
  assumes "createApproval env validate signer now uuid uuid2 args rows = (rows', res)"
  obtains (kept) "ap.all_evolve E rows rows'"
  | (added) rows1 v r where "ap.all_evolve E rows rows1" "rows' = rows1 @ [r]" "res = Inr r"
      "sel ar_id (ar_id r) rows1 = None" "ar_state r = ApPending"
      "validate (cr_action args) (cr_params args) = Inr v" "ar_action r = cr_action args"
      "ar_params r = cr_params args" "ar_hash r = computeRequestHash env (cr_params args)"
      "\<And>j. fst (deriveDisplayFields (cr_action args) v) = Some j \<Longrightarrow> ar_job r = Some j"
      "\<And>a. snd (deriveDisplayFields (cr_action args) v) = Some a \<Longrightarrow> ar_amount r = Some a"
proof -
  let ?hash = "computeRequestHash env (cr_params args)" let ?key = "approval_key uuid args ?hash"
  obtain rows1 found where get: "getByIdempotencyKey now ?key rows = (rows1, found)" by fastforce
  have ev: "ap.all_evolve E rows rows1" for E using getByKey_evolves [of E rows now ?key] get by simp
  show thesis
  proof (cases "ap.all_evolve E rows rows'")
    case False
    with assms ev have "found = None"
      by (auto simp: createApproval_def Let_def get split: if_splits option.splits)
    with assms False ev obtain v dJob dAmount r where
      v: "validate (cr_action args) (cr_params args) = Inr v"
        "deriveDisplayFields (cr_action args) v = (dJob, dAmount)"
      and new: "store_create now uuid2
         \<lparr>ca_action = cr_action args, ca_role = ''client'', ca_wallet = cr_wallet args,
          ca_chain = cr_chain args, ca_job = or_opt dJob (cr_job args),
          ca_amount = or_opt dAmount (cr_amount args), ca_hash = ?hash, ca_key = ?key,
          ca_params = cr_params args, ca_expires = expiry now args\<rparr> rows1 = Inr (rows', r)" "res = Inr r"
      unfolding createApproval_def Let_def get validateActionParams_def
      by (auto split: if_splits sum.splits prod.splits)
    from new(1) show thesis
      by (intro added [OF ev _ new(2), of v])
        (auto simp: store_create_def Let_def v split: if_splits)
  qed (rule kept)
qed

section \<open>What a launch found\<close>

lemma get_live:
  assumes "store_get now i rows = (rows1, Some r)" "ar_state r \<in> {ApPending, ApApproved, ApExecuting}"
  shows "sel ar_id i rows = Some r" "rows1 = rows" "ar_state r \<noteq> ApExecuting \<longrightarrow> now < ar_expires r"
  using assms
  by (auto simp: store_get_def checkAndExpire_def expired_row_def expirable_def split: option.splits if_splits)

lemma expired_id [simp]: "ar_id (expired_row now r) = ar_id r"
  by (simp add: expired_row_def)

lemma get_other: "store_get now j rows = (rows1, x) \<Longrightarrow> i \<noteq> j \<Longrightarrow> sel ar_id i rows1 = sel ar_id i rows"
  by (auto simp: store_get_def checkAndExpire_def sel_upd split: option.splits if_splits dest: sel_SomeD)

lemma get_found: "store_get now i rows = (rows1, Some r) \<Longrightarrow> sel ar_id i rows1 = Some r"
  by (auto simp: store_get_def checkAndExpire_def sel_upd expirable_def split: option.splits if_splits
      dest: sel_SomeD)

lemma moved_ok:
  assumes "transition_where now i P (\<lambda>r. r\<lparr>ar_state := st, ar_updated := now\<rparr>) rows = (rows', TransOk c)"
  shows "\<exists>r. sel ar_id i rows = Some r \<and> P r \<and> sel ar_id i rows' = Some c
    \<and> (\<not> expirable now (r\<lparr>ar_state := st\<rparr>) \<longrightarrow> c = r\<lparr>ar_state := st, ar_updated := now\<rparr>)"
proof -
  let ?f = "\<lambda>r. if P r then r\<lparr>ar_state := st, ar_updated := now\<rparr> else r"
  have pk: "ar_id (?f r) = ar_id r" for r by simp
  from assms obtain r where r: "sel ar_id i rows = Some r" "P r"
    and get: "store_get now i (upd ar_id i ?f rows) = (rows', Some c)"
    by (auto simp: transition_where_def update_where_def split: option.splits prod.splits if_splits)
  have up: "sel ar_id i (upd ar_id i ?f rows) = Some (?f r)"
    using r(1) sel_upd [of ar_id ?f i i rows] pk by simp
  have "\<not> expirable now (r\<lparr>ar_state := st\<rparr>) \<longrightarrow> c = ?f r"
    using get up r(2) by (auto simp: store_get_def checkAndExpire_def expirable_def)
  with r get_found [OF get] show ?thesis by simp
qed

lemmas started_ok = moved_ok [where st = ApExecuting, simplified expirable_def, simplified]

lemma settled_returns: "settled r \<noteq> Some (ApLaunched act v)"
  by (simp add: settled_def split: approval_state.split)

text \<open>The generic flow launches a pending, unexpired approval that passed every check.\<close>

lemma approve_launch:
  assumes "approve_begin validate chain now aborted args rows = (rows', ApLaunched act v)"
  shows "\<exists>r r'. sel ar_id (aa_id args) rows = Some r \<and> ar_state r = ApPending \<and> now < ar_expires r
    \<and> approve_checks chain args r = Inr () \<and> act = ar_action r \<and> act \<noteq> ActErc8004Register
    \<and> validate act (ar_params r) = Inr v \<and> \<not> aborted
    \<and> sel ar_id (aa_id args) rows' = Some r' \<and> ar_state r' = ApExecuting"
proof -
  from assms obtain rows1 r where get: "store_get now (aa_id args) rows = (rows1, Some r)"
    and ok: "approve_checks chain args r = Inr ()" and unsettled: "settled r = None"
    unfolding approve_begin_def by (auto simp: settled_returns split: prod.splits option.splits sum.splits)
  from unsettled have "ar_state r \<in> {ApPending, ApApproved, ApExecuting}"
    by (auto simp: settled_def split: approval_state.splits)
  note live = get_live [OF get this]
  from assms obtain c where start: "transitionToExecuting now (aa_id args) rows = (rows', TransOk c)"
    and v: "validate (ar_action r) (ar_params r) = Inr v" "act = ar_action r" "act \<noteq> ActErc8004Register" "\<not> aborted"
    unfolding approve_begin_def get ok unsettled live(2) [symmetric]
    by (auto simp: get ok unsettled fail_approval_def validateActionParams_def live(2)
        split: prod.splits transition_result.splits sum.splits if_splits)
  from started_ok [OF start [unfolded transitionToExecuting_def]] live(1) ok v show ?thesis
    by auto
qed

text \<open>The registration flow launches an approved, unexpired registration, or retries the
  synchronisation of a transaction it already has.\<close>

lemma erc_launch:
  assumes "erc_begin now aborted i rows = (rows', ErcLaunched p tx)"
  shows "\<exists>r. sel ar_id i rows = Some r \<and> ar_action r = ActErc8004Register \<and>
    (case tx of
       None \<Rightarrow> ar_state r = ApApproved \<and> now < ar_expires r
         \<and> (\<exists>r'. sel ar_id i rows' = Some r' \<and> ar_state r' = ApExecuting)
     | Some t \<Rightarrow> ar_state r = ApExecuting \<and> retry_tx r = Some t \<and> rows' = rows)"
proof -
  from assms obtain rows1 r where get: "store_get now i rows = (rows1, Some r)"
    and act: "ar_action r = ActErc8004Register"
    and st: "ar_state r = ApApproved \<or> ar_state r = ApExecuting"
    unfolding erc_begin_def by (auto split: prod.splits option.splits if_splits)
  from st have "ar_state r \<in> {ApPending, ApApproved, ApExecuting}" by auto
  note live = get_live [OF get this]
  from st show ?thesis
  proof
    assume a: "ar_state r = ApApproved"
    with assms act have first: "erc_begin_first now aborted i r rows = (rows', ErcLaunched p tx)"
      by (simp add: erc_begin_def get live(2))
    then obtain c where start: "transitionFromApprovedToExecuting now i rows = (rows', TransOk c)" and "tx = None"
      unfolding erc_begin_first_def by (auto split: prod.splits transition_result.splits if_splits)
    with started_ok [OF start [unfolded transitionFromApprovedToExecuting_def]] live(1) a act show ?thesis
      by auto
  next
    assume e: "ar_state r = ApExecuting"
    with assms act obtain t where "retry_tx r = Some t" "tx = Some t" "rows' = rows"
      unfolding erc_begin_def get by (auto simp: live split: option.splits if_splits)
    with live(1) act e show ?thesis by simp
  qed
qed

lemma approved_ok:
  assumes "approveById now i rows = (rows', a)" "aq_ok a" "sel ar_id i rows = Some r" "now < ar_expires r"
  shows "\<exists>r'. sel ar_id i rows' = Some r' \<and> ar_state r' = ApApproved"
proof -
  have get: "store_get now i rows = (rows, Some r)"
    using assms(3,4) by (simp add: store_get_def checkAndExpire_def expirable_def)
  with assms(1,2) obtain c where "transitionToApproved now i rows = (rows', TransOk c)"
    by (auto simp: approveById_def erc_refused_def plain_result_def split: if_splits prod.splits transition_result.splits)
  from moved_ok [OF this [unfolded transitionToApproved_def]] assms(3,4) show ?thesis
    by (auto simp: expirable_def)
qed

lemma erc_all_launch:
  assumes "approveAndExecuteErc8004 now aborted i rows = (rows', ErcLaunched p tx)"
  shows "\<exists>r. sel ar_id i rows = Some r \<and> ar_action r = ActErc8004Register \<and>
    (case tx of
       None \<Rightarrow> ar_state r \<in> {ApPending, ApApproved} \<and> now < ar_expires r
         \<and> (\<exists>r'. sel ar_id i rows' = Some r' \<and> ar_state r' = ApExecuting)
     | Some t \<Rightarrow> ar_state r = ApExecuting \<and> retry_tx r = Some t \<and> rows' = rows)"
proof -
  from assms obtain rows1 r where get: "store_get now i rows = (rows1, Some r)"
    and act: "ar_action r = ActErc8004Register"
    unfolding approveAndExecuteErc8004_def by (auto split: prod.splits option.splits if_splits)
  show ?thesis
  proof (cases "ar_state r = ApPending")
    case False
    with assms act have run: "erc_begin now aborted i rows1 = (rows', ErcLaunched p tx)"
      unfolding approveAndExecuteErc8004_def get by (auto split: if_splits)
    from erc_launch [OF run] get_found [OF get] have "ar_state r \<in> {ApPending, ApApproved, ApExecuting}"
      by (auto split: option.splits)
    from get_live [OF get this] erc_launch [OF run] act show ?thesis
      by (auto split: option.splits)
  next
    case True
    then have "ar_state r \<in> {ApPending, ApApproved, ApExecuting}" by simp
    note live = get_live [OF get this]
    obtain rows2 a where app: "approveById now i rows = (rows2, a)" by fastforce
    with assms act True live have run: "erc_begin now aborted i rows2 = (rows', ErcLaunched p tx)" and "aq_ok a"
      unfolding approveAndExecuteErc8004_def get by (auto split: if_splits)
    with approved_ok [OF app] live True erc_launch [OF run] act show ?thesis
      by (auto split: option.splits)
  qed
qed

end
