(* ===== verification/Approval_Properties.thy ===== *)
theory Approval_Properties
  imports Approval_Runs
begin

text \<open>
  The runs of the approval manager and their properties: an approval starts at most one
  execution, what is shown and hashed is what runs, a decision is final, and what a crash
  leaves behind.
\<close>

section \<open>The running system\<close>

datatype ap_call = GenericCall | FirstCall | RetryCall json

text \<open>The table, the service calls in flight, and the history of executions started.\<close>

record ap_system =
  aps_rows :: "approval list"
  aps_running :: "(string \<times> ap_call) list"
  aps_started :: "string list"

definition ap_initial :: "ap_system \<Rightarrow> bool" where
  "ap_initial s \<longleftrightarrow> s = \<lparr>aps_rows = [], aps_running = [], aps_started = []\<rparr>"

definition erc_run :: "bool \<Rightarrow> nat \<Rightarrow> bool \<Rightarrow> string \<Rightarrow> approval list \<Rightarrow> approval list \<times> erc_out" where
  \<comment> \<open>the two tools that execute a registration\<close>
  "erc_run whole now aborted i rows =
     (if whole then approveAndExecuteErc8004 now aborted i rows else erc_begin now aborted i rows)"

definition launched :: "string \<Rightarrow> ap_call \<Rightarrow> approval list \<Rightarrow> ap_system \<Rightarrow> ap_system" where
  \<comment> \<open>a retry sends no transaction, so it starts no execution\<close>
  "launched i call rows s =
     \<lparr>aps_rows = rows, aps_running = (i, call) # aps_running s,
      aps_started = (case call of RetryCall _ \<Rightarrow> aps_started s | _ \<Rightarrow> i # aps_started s)\<rparr>"

definition answered :: "string \<Rightarrow> ap_call \<Rightarrow> approval list \<Rightarrow> ap_system \<Rightarrow> ap_system" where
  "answered i call rows s = s\<lparr>aps_rows := rows, aps_running := remove1 (i, call) (aps_running s)\<rparr>"

inductive ap_step ::
  "crypto \<Rightarrow> validator \<Rightarrow> string option \<Rightarrow> int option \<Rightarrow> ap_system \<Rightarrow> ap_system \<Rightarrow> bool"
  for env validate signer chain where
  create: "createApproval env validate signer now uuid uuid2 args (aps_rows s) = (rows, res) \<Longrightarrow>
     ap_step env validate signer chain s (s\<lparr>aps_rows := rows\<rparr>)"
| read_or_decide: "rows \<in> {fst (store_get now i (aps_rows s)),
       fst (getApproval now i wallet role (aps_rows s)),
       fst (manager_listPending now wallet limit (aps_rows s)),
       fst (findExistingByErc8004Signature now wallet uri role (aps_rows s)),
       fst (rejectApproval now i wallet role reason (aps_rows s)),
       fst (cancelApproval now i wallet role (aps_rows s)),
       fst (approveById now i (aps_rows s)), fst (rejectById now i reason (aps_rows s))} \<Longrightarrow>
     ap_step env validate signer chain s (s\<lparr>aps_rows := rows\<rparr>)"
| approve_returns: "approve_begin validate chain now aborted args (aps_rows s) = (rows, out) \<Longrightarrow>
     (\<And>act v. out \<noteq> ApLaunched act v) \<Longrightarrow>
     ap_step env validate signer chain s (s\<lparr>aps_rows := rows\<rparr>)"
| approve_launches: "approve_begin validate chain now aborted args (aps_rows s) = (rows, ApLaunched act v) \<Longrightarrow>
     ap_step env validate signer chain s (launched (aa_id args) GenericCall rows s)"
| approve_answers: "(i, GenericCall) \<in> set (aps_running s) \<Longrightarrow>
     approve_finish now i outcome (aps_rows s) = (rows, res) \<Longrightarrow>
     ap_step env validate signer chain s (answered i GenericCall rows s)"
| erc_returns: "erc_run whole now aborted i (aps_rows s) = (rows, ErcReturned r) \<Longrightarrow>
     ap_step env validate signer chain s (s\<lparr>aps_rows := rows\<rparr>)"
| erc_launches: "erc_run whole now aborted i (aps_rows s) = (rows, ErcLaunched p None) \<Longrightarrow>
     ap_step env validate signer chain s (launched i FirstCall rows s)"
| erc_retries: "erc_run whole now aborted i (aps_rows s) = (rows, ErcLaunched p (Some tx)) \<Longrightarrow>
     ap_step env validate signer chain s (launched i (RetryCall tx) rows s)"
| erc_answers: "(i, FirstCall) \<in> set (aps_running s) \<Longrightarrow>
     erc_fresh_finish now i outcome (aps_rows s) = (rows, res) \<Longrightarrow>
     ap_step env validate signer chain s (answered i FirstCall rows s)"
| retry_answers: "(i, RetryCall tx) \<in> set (aps_running s) \<Longrightarrow>
     erc_retry_finish now i tx outcome (aps_rows s) = (rows, res) \<Longrightarrow>
     ap_step env validate signer chain s (answered i (RetryCall tx) rows s)"
| restarts: "ap_step env validate signer chain s (s\<lparr>aps_running := []\<rparr>)"

section \<open>The invariant\<close>

definition shows_params :: "approval \<Rightarrow> json \<Rightarrow> bool" where
  "shows_params r v \<longleftrightarrow>
     (\<forall>j. fst (deriveDisplayFields (ar_action r) v) = Some j \<longrightarrow> ar_job r = Some j)
     \<and> (\<forall>a. snd (deriveDisplayFields (ar_action r) v) = Some a \<longrightarrow> ar_amount r = Some a)"

definition row_ok :: "crypto \<Rightarrow> validator \<Rightarrow> approval \<Rightarrow> bool" where
  "row_ok env validate r \<longleftrightarrow> ar_hash r = computeRequestHash env (ar_params r)
     \<and> (\<exists>v. validate (ar_action r) (ar_params r) = Inr v \<and> shows_params r v)"

definition under_way :: "approval_state \<Rightarrow> bool" where
  "under_way s \<longleftrightarrow> s \<in> {ApExecuting, ApExecuted, ApFailed}"

definition taken :: "string \<Rightarrow> approval list \<Rightarrow> bool" where
  "taken i rows \<longleftrightarrow> (\<exists>r. sel ar_id i rows = Some r \<and> under_way (ar_state r))"

definition ap_inv :: "crypto \<Rightarrow> validator \<Rightarrow> ap_system \<Rightarrow> bool" where
  "ap_inv env validate s \<longleftrightarrow> (\<forall>r\<in>set (aps_rows s). row_ok env validate r)
     \<and> distinct (aps_started s) \<and> (\<forall>i\<in>set (aps_started s). taken i (aps_rows s))"

lemma under_way_move: "ap_move s t \<Longrightarrow> under_way s \<Longrightarrow> under_way t"
  by (cases s; cases t) (auto simp: move_defs under_way_def)

lemma under_way_closed: "ap_move\<^sup>*\<^sup>* s t \<Longrightarrow> under_way s \<Longrightarrow> under_way t"
  by (induction rule: rtranclp_induct) (auto intro: under_way_move)

lemma evolves_row_ok: "ap_evolves E r s \<Longrightarrow> row_ok env validate r \<Longrightarrow> row_ok env validate s"
  by (auto simp: ap_evolves_def same_request_def row_ok_def shows_params_def)

lemma evolves_taken: "ap.all_evolve E rows rows' \<Longrightarrow> taken i rows \<Longrightarrow> taken i rows'"
  using ap.sel_evolves [of E rows rows' i] under_way_closed
  by (fastforce simp: taken_def ap_evolves_def)

lemma inv_evolves:
  assumes "ap_inv env validate s" "ap.all_evolve E (aps_rows s) rows"
  shows "ap_inv env validate (s\<lparr>aps_rows := rows, aps_running := calls\<rparr>)"
proof -
  have "\<forall>r\<in>set rows. row_ok env validate r"
    using ap.all_kept [OF assms(2), of "row_ok env validate"] evolves_row_ok assms(1)
    unfolding ap_inv_def by blast
  with assms(1) evolves_taken [OF assms(2)] show ?thesis by (simp add: ap_inv_def)
qed

lemma erc_run_launch:
  assumes "erc_run whole now aborted i rows = (rows', ErcLaunched p None)"
  shows "\<not> taken i rows \<and> taken i rows'"
  using assms erc_launch [of now aborted i rows rows' p None] erc_all_launch [of now aborted i rows rows' p None]
  by (auto simp: erc_run_def taken_def under_way_def split: if_splits)

lemma approve_launch_taken:
  assumes "approve_begin validate chain now aborted args rows = (rows', ApLaunched act v)"
  shows "\<not> taken (aa_id args) rows \<and> taken (aa_id args) rows'"
  using approve_launch [OF assms] by (auto simp: taken_def under_way_def)

lemma erc_run_evolves: "ap.all_evolve {i} rows (fst (erc_run whole now aborted i rows))"
  by (simp add: erc_run_def manager_evolves)

lemma executing_get: "sel ar_id i rows = Some r \<Longrightarrow> ar_state r = ApExecuting \<Longrightarrow> store_get now i rows = (rows, Some r)"
  by (simp add: store_get_def checkAndExpire_def expirable_def)

lemma executing_approve:
  assumes "sel ar_id (aa_id args) rows = Some r" "ar_state r = ApExecuting"
  shows "fst (approve_begin validate chain now aborted args rows) = rows"
  using assms(2) unfolding approve_begin_def executing_get [OF assms]
  by (auto simp: settled_def split: sum.split)

lemma executing_erc:
  assumes "sel ar_id i rows = Some r" "ar_state r = ApExecuting" "ar_action r \<noteq> ActErc8004Register"
  shows "\<exists>x. erc_run whole now aborted i rows = (rows, ErcReturned x)"
  using assms(2,3) unfolding erc_run_def approveAndExecuteErc8004_def erc_begin_def executing_get [OF assms(1,2)]
  by simp

section \<open>The effect of a step\<close>

abbreviation calls :: "ap_system \<Rightarrow> string set" where
  "calls s \<equiv> fst ` set (aps_running s)"

text \<open>An executing approval of the generic flow without a call in flight; no step ends it.\<close>

definition stuck :: "string \<Rightarrow> ap_system \<Rightarrow> bool" where
  "stuck i s \<longleftrightarrow> i \<notin> calls s \<and> (\<exists>r. sel ar_id i (aps_rows s) = Some r \<and> ar_state r = ApExecuting
     \<and> ar_action r \<noteq> ActErc8004Register)"

lemma approve_effect:
  assumes "approve_begin validate chain now aborted args (aps_rows s) = (rows, out)"
  shows "ap.all_evolve ({aa_id args} - {i. stuck i s}) (aps_rows s) rows"
proof (cases "stuck (aa_id args) s")
  case True
  then obtain r where "sel ar_id (aa_id args) (aps_rows s) = Some r" "ar_state r = ApExecuting"
    by (auto simp: stuck_def)
  from executing_approve [OF this, of validate chain now aborted] assms show ?thesis by simp
next
  case False
  then have "{aa_id args} - {i. stuck i s} = {aa_id args}" by auto
  then show ?thesis using approve_begin_evolves [of args "{aa_id args}"] assms by (metis fst_conv singletonI)
qed

lemma erc_effect:
  assumes "erc_run whole now aborted j (aps_rows s) = (rows, out)"
  shows "ap.all_evolve ({j} - {i. stuck i s}) (aps_rows s) rows" "(\<exists>p tx. out = ErcLaunched p tx) \<Longrightarrow> \<not> stuck j s"
proof -
  have left: "rows = aps_rows s \<and> (\<exists>x. out = ErcReturned x)" if "stuck j s"
  proof -
    from that obtain r where "sel ar_id j (aps_rows s) = Some r" "ar_state r = ApExecuting"
      "ar_action r \<noteq> ActErc8004Register" by (auto simp: stuck_def)
    from executing_erc [OF this, of whole now aborted] assms show ?thesis by auto
  qed
  then show "(\<exists>p tx. out = ErcLaunched p tx) \<Longrightarrow> \<not> stuck j s" by blast
  have "ap.all_evolve {j} (aps_rows s) rows" using erc_run_evolves assms by (metis fst_conv)
  with left show "ap.all_evolve ({j} - {i. stuck i s}) (aps_rows s) rows"
    by (cases "stuck j s") (simp_all add: insert_Diff_if)
qed

lemma answer_effect:
  assumes "(j, call) \<in> set (aps_running s)" "ap.all_evolve {j} (aps_rows s) rows"
  shows "ap.all_evolve ({j} - {i. stuck i s}) (aps_rows s) rows"
    "calls (answered j call rows s) \<subseteq> calls s"
proof -
  have "\<not> stuck j s" using assms(1) by (force simp: stuck_def)
  then show "ap.all_evolve ({j} - {i. stuck i s}) (aps_rows s) rows"
    using assms(2) by (simp add: insert_Diff_if)
  show "calls (answered j call rows s) \<subseteq> calls s"
    using set_remove1_subset [of "(j, call)" "aps_running s"] by (auto simp: answered_def)
qed

text \<open>A step moves rows without ending a stuck execution, or starts an execution, or adds a row.\<close>

lemma step_effect:
  assumes "ap_step env validate signer chain s t"
  obtains (moved) E where "ap.all_evolve (E - {i. stuck i s}) (aps_rows s) (aps_rows t)"
      "aps_started t = aps_started s" "calls t \<subseteq> calls s \<union> {i. \<not> stuck i s}"
  | (started) j where "ap.all_evolve ({j} - {i. stuck i s}) (aps_rows s) (aps_rows t)"
      "aps_started t = j # aps_started s" "calls t \<subseteq> calls s \<union> {i. \<not> stuck i s}"
      "\<not> taken j (aps_rows s)" "taken j (aps_rows t)"
  | (added) rows r where "ap.all_evolve {} (aps_rows s) rows" "aps_rows t = rows @ [r]"
      "row_ok env validate r" "aps_started t = aps_started s" "calls t = calls s"
  using assms
proof cases
  case (create now uuid uuid2 args rows res)
  from create(2) show thesis
  proof (cases rule: createApproval_cases [where E = "{}"])
    case kept
    with create moved [of "{}"] show thesis by simp
  next
    case (added rows1 v r)
    then have "row_ok env validate r" by (auto simp: row_ok_def shows_params_def)
    with added create that(3) [of rows1 r] show thesis by simp
  qed
next
  case (read_or_decide rows now j wallet role limit uri reason)
  then have "ap.all_evolve {} (aps_rows s) rows" using manager_evolves get_evolves by auto
  with read_or_decide moved [of "{}"] show thesis by simp
next
  case (approve_returns now aborted args rows out)
  from approve_effect [OF approve_returns(2)] approve_returns(1) moved [of "{aa_id args}"] show thesis by simp
next
  case (approve_launches now aborted args rows act v)
  note taken = approve_launch_taken [OF approve_launches(2)]
  then have "\<not> stuck (aa_id args) s" by (auto simp: stuck_def taken_def under_way_def)
  with taken approve_effect [OF approve_launches(2)] started [of "aa_id args"] approve_launches(1) show thesis
    by (simp add: launched_def)
next
  case (approve_answers j now outcome rows res)
  then have "ap.all_evolve {j} (aps_rows s) rows"
    using approve_finish_evolves [of j "{j}"] by (metis fst_conv singletonI)
  from answer_effect [OF approve_answers(2) this] approve_answers(1) moved [of "{j}"] show thesis
    by (auto simp: answered_def)
next
  case (erc_returns whole now aborted j rows x)
  from erc_effect(1) [OF erc_returns(2)] erc_returns(1) moved [of "{j}"] show thesis by simp
next
  case (erc_launches whole now aborted j rows p)
  from erc_effect [OF erc_launches(2)] erc_run_launch [OF erc_launches(2)] erc_launches(1) started [of j]
  show thesis by (simp add: launched_def)
next
  case (erc_retries whole now aborted j rows p tx)
  from erc_effect [OF erc_retries(2)] erc_retries(1) moved [of "{j}"] show thesis
    by (auto simp add: launched_def)
next
  case (erc_answers j now outcome rows res)
  then have "ap.all_evolve {j} (aps_rows s) rows"
    using erc_fresh_finish_evolves [of j "{j}"] by (metis fst_conv singletonI)
  from answer_effect [OF erc_answers(2) this] erc_answers(1) moved [of "{j}"] show thesis
    by (auto simp: answered_def)
next
  case (retry_answers j tx now outcome rows res)
  then have "ap.all_evolve {j} (aps_rows s) rows"
    using erc_retry_finish_evolves [of j "{j}"] by (metis fst_conv singletonI)
  from answer_effect [OF retry_answers(2) this] retry_answers(1) moved [of "{j}"] show thesis
    by (auto simp: answered_def)
next
  case restarts
  with moved [of "{}"] show thesis by simp
qed

interpretation ap_runs: invariant_system ap_initial "ap_step env validate signer chain" "ap_inv env validate"
  for env validate signer chain
proof unfold_locales
  fix s t
  assume "ap_step env validate signer chain s t" and inv: "ap_inv env validate s"
  then show "ap_inv env validate t"
  proof (cases rule: step_effect)
    case (moved E)
    from inv_evolves [OF inv this(1)] moved(2) show ?thesis by (simp add: ap_inv_def)
  next
    case (started j)
    from inv_evolves [OF inv this(1)] inv started(2,4,5) show ?thesis by (auto simp: ap_inv_def)
  next
    case (added rows r)
    from inv_evolves [OF inv this(1)] inv added(2-4) show ?thesis
      by (auto simp: ap_inv_def taken_def sel_append)
  qed
qed (simp add: ap_initial_def ap_inv_def)

lemma step_sel:
  assumes "ap_step env validate signer chain s t" "sel ar_id i (aps_rows s) = Some r"
  shows "\<exists>r' E. sel ar_id i (aps_rows t) = Some r' \<and> ap_evolves E r r' \<and> (stuck i s \<longrightarrow> i \<notin> E \<and> stuck i t)"
proof -
  have carry: "\<exists>r' F. sel ar_id i (aps_rows t) = Some r' \<and> ap_evolves F r r' \<and> (stuck i s \<longrightarrow> i \<notin> F \<and> stuck i t)"
    if "sel ar_id i (aps_rows t) = Some r'" "ap_evolves (E - {i. stuck i s}) r r'"
      "calls t \<subseteq> calls s \<union> {i. \<not> stuck i s}" for r' E
  proof -
    have "stuck i t" if "stuck i s"
      using that \<open>sel ar_id i (aps_rows t) = Some r'\<close> \<open>ap_evolves _ r r'\<close> \<open>calls t \<subseteq> _\<close> assms(2)
        sel_SomeD [OF assms(2)]
      by (auto simp: stuck_def ap_evolves_def same_request_def)
    with that show ?thesis by blast
  qed
  from assms(1) show ?thesis
  proof (cases rule: step_effect)
    case (moved E)
    from ap.sel_evolves [OF moved(1) assms(2)] carry moved(3) show ?thesis by blast
  next
    case (started j)
    from ap.sel_evolves [OF started(1) assms(2)] carry started(3) show ?thesis by blast
  next
    case (added rows x)
    from ap.sel_evolves [OF added(1) assms(2)] obtain r' where
      "sel ar_id i rows = Some r'" "ap_evolves {} r r'" by blast
    with carry [of r' "{}"] added show ?thesis by (simp add: sel_append)
  qed
qed

lemma run_sel:
  assumes "(ap_step env validate signer chain)\<^sup>*\<^sup>* s t" "sel ar_id i (aps_rows s) = Some r"
  shows "\<exists>r' E. sel ar_id i (aps_rows t) = Some r' \<and> ap_evolves E r r' \<and> (stuck i s \<longrightarrow> i \<notin> E \<and> stuck i t)"
  using assms
proof (induction rule: rtranclp_induct)
  case base
  then show ?case using ap.evolves_refl [of "{}"] by blast
next
  case (step t u)
  then obtain r1 E where 1: "sel ar_id i (aps_rows t) = Some r1" "ap_evolves E r r1"
    "stuck i s \<longrightarrow> i \<notin> E \<and> stuck i t" by blast
  from step_sel [OF step(2) 1(1)] obtain r2 F where 2: "sel ar_id i (aps_rows u) = Some r2" "ap_evolves F r1 r2"
    "stuck i t \<longrightarrow> i \<notin> F \<and> stuck i u" by blast
  have "ap_evolves (E \<union> F) r r2"
    using 1(2) 2(2) ap.evolves_trans ap_evolves_mono by (meson sup_ge1 sup_ge2)
  with 1(3) 2 show ?case by blast
qed

lemma terminal_stays: "ap_move\<^sup>*\<^sup>* s t \<Longrightarrow> ap_terminal s \<Longrightarrow> t = s"
  by (induction rule: rtranclp_induct) (auto simp: move_defs ap_terminal_def)

section \<open>A concrete run\<close>

definition ap_demo_env :: crypto where
  "ap_demo_env = \<lparr>sha256_hex = \<lambda>_. ''h'', keccak_hex = id\<rparr>"

definition ap_demo_validate :: validator where
  "ap_demo_validate act v = Inr v"

definition ap_demo_create :: "approval_action \<Rightarrow> create_approval_args" where
  "ap_demo_create act = \<lparr>cr_action = act, cr_wallet = ''0xA'', cr_chain = 5042002, cr_job = None,
     cr_amount = None, cr_params = JObj [(''amount'', JStr ''1.5'')], cr_expires = None, cr_key = Some ''k''\<rparr>"

definition ap_demo_approve :: approve_args where
  "ap_demo_approve = \<lparr>aa_id = ''apr-v'', aa_wallet = ''0xA'', aa_role = ''client'', aa_chain = 5042002, aa_hash = None\<rparr>"

definition ap_demo_start :: ap_system where
  "ap_demo_start = \<lparr>aps_rows = [], aps_running = [], aps_started = []\<rparr>"

definition ap_demo_row :: "approval_action \<Rightarrow> approval_state \<Rightarrow> nat \<Rightarrow> approval" where
  "ap_demo_row act st t = \<lparr>ar_id = ''apr-v'', ar_action = act, ar_role = ''client'', ar_wallet = ''0xa'',
     ar_chain = 5042002, ar_job = None, ar_amount = (if act = ActApproveUsdc then Some ''1.5'' else None),
     ar_hash = ''h'', ar_key = ''k'', ar_state = st,
     ar_params = JObj [(''amount'', JStr ''1.5'')], ar_tx = None, ar_result = None, ar_op = None,
     ar_error = None, ar_expires = 301000, ar_created = 1000, ar_updated = t\<rparr>"

definition ap_demo_created :: ap_system where
  "ap_demo_created = \<lparr>aps_rows = [ap_demo_row ActApproveUsdc ApPending 1000], aps_running = [], aps_started = []\<rparr>"

definition ap_demo_launched :: ap_system where
  "ap_demo_launched = \<lparr>aps_rows = [ap_demo_row ActApproveUsdc ApExecuting 2000],
     aps_running = [(''apr-v'', GenericCall)], aps_started = [''apr-v'']\<rparr>"

lemma ap_demo_wallet: "toLowerCase ''0xA'' = ''0xa''"
  by code_simp

lemma ap_demo_creates:
  "createApproval ap_demo_env ap_demo_validate None 1000 ''u'' ''v'' (ap_demo_create ActApproveUsdc) []
     = ([ap_demo_row ActApproveUsdc ApPending 1000], Inr (ap_demo_row ActApproveUsdc ApPending 1000))"
  by (simp add: Let_def createApproval_def approval_key_def ap_demo_create_def getByIdempotencyKey_def table_simps
      validateActionParams_def ap_demo_validate_def store_create_def expiry_def DEFAULT_EXPIRY_SECONDS_def
      MAX_EXPIRY_SECONDS_def computeRequestHash_def ap_demo_env_def ap_demo_row_def ap_demo_wallet)

lemma ap_demo_checks: "approve_checks None ap_demo_approve (ap_demo_row act st t) = Inr ()"
  by (simp add: approve_checks_def check_owner_def ap_demo_approve_def ap_demo_row_def ap_demo_wallet)

lemma ap_demo_launches:
  "approve_begin ap_demo_validate None 2000 False ap_demo_approve [ap_demo_row ActApproveUsdc ApPending 1000]
     = ([ap_demo_row ActApproveUsdc ApExecuting 2000], ApLaunched ActApproveUsdc (JObj [(''amount'', JStr ''1.5'')]))"
proof -
  have i: "aa_id ap_demo_approve = ''apr-v''" by (simp add: ap_demo_approve_def)
  have row: "store_get 2000 ''apr-v'' [ap_demo_row ActApproveUsdc st t] =
      ([ap_demo_row ActApproveUsdc st t], Some (ap_demo_row ActApproveUsdc st t))" for st t
    by (simp add: store_get_def checkAndExpire_def expirable_def ap_demo_row_def table_simps)
  have "update_where ''apr-v'' (\<lambda>r. ar_state r = ApPending \<and> ar_expires r > 2000)
      (\<lambda>r. r\<lparr>ar_state := ApExecuting, ar_updated := 2000\<rparr>) [ap_demo_row ActApproveUsdc ApPending 1000]
      = ([ap_demo_row ActApproveUsdc ApExecuting 2000], True)"
    by (simp add: update_where_def upd_def ap_demo_row_def table_simps)
  then have "transitionToExecuting 2000 ''apr-v'' [ap_demo_row ActApproveUsdc ApPending 1000]
      = ([ap_demo_row ActApproveUsdc ApExecuting 2000], TransOk (ap_demo_row ActApproveUsdc ApExecuting 2000))"
    by (simp add: transitionToExecuting_def transition_where_def row)
  then show ?thesis
    unfolding approve_begin_def i row
    by (simp add: ap_demo_checks settled_def) (simp add: ap_demo_row_def validateActionParams_def ap_demo_validate_def)
qed

lemma ap_demo_reached: "(ap_step ap_demo_env ap_demo_validate None None)\<^sup>*\<^sup>* ap_demo_start ap_demo_created"
proof -
  have "ap_step ap_demo_env ap_demo_validate None None ap_demo_start
      (ap_demo_start\<lparr>aps_rows := [ap_demo_row ActApproveUsdc ApPending 1000]\<rparr>)"
    by (rule create, unfold ap_demo_start_def, simp, rule ap_demo_creates)
  then show ?thesis by (auto simp: ap_demo_start_def ap_demo_created_def)
qed

lemma ap_demo_step: "(ap_step ap_demo_env ap_demo_validate None None)\<^sup>*\<^sup>* ap_demo_created ap_demo_launched"
proof -
  have "ap_step ap_demo_env ap_demo_validate None None ap_demo_created
      (launched (aa_id ap_demo_approve) GenericCall [ap_demo_row ActApproveUsdc ApExecuting 2000] ap_demo_created)"
    by (rule approve_launches [where aborted = False and now = 2000]) (simp add: ap_demo_created_def ap_demo_launches)
  moreover have "launched (aa_id ap_demo_approve) GenericCall [ap_demo_row ActApproveUsdc ApExecuting 2000] ap_demo_created
      = ap_demo_launched"
    by (simp add: launched_def ap_demo_approve_def ap_demo_created_def ap_demo_launched_def)
  ultimately show ?thesis by simp
qed

lemmas ap_demo_run = rtranclp_trans [OF ap_demo_reached ap_demo_step]

lemma ap_demo_initial: "ap_initial ap_demo_start"
  by (simp add: ap_initial_def ap_demo_start_def)

section \<open>Properties\<close>

text \<open>C14: An approval starts at most one execution. Over every interleaving of requests,
  answers, clean-ups and restarts, no approval id appears twice among the executions that were
  started, whichever of the two flows started them.\<close>

theorem approval_executes_once:
  assumes "ap_initial s0" "(ap_step env validate signer chain)\<^sup>*\<^sup>* s0 s"
  shows "distinct (aps_started s)"
  using ap_runs.reach_inv [OF assms] by (simp add: ap_inv_def)

theorem approval_executes_once_witness: "aps_started ap_demo_launched = [''apr-v''] \<and> distinct (aps_started ap_demo_launched)"
  using approval_executes_once [OF ap_demo_initial ap_demo_run] by (simp add: ap_demo_launched_def)

text \<open>C15: What is shown and hashed is what runs. When the generic flow launches a service call,
  the approval is pending and not expired, it belongs to the caller's role, wallet and chain,
  the hash the caller expected is the hash of the stored parameters, the parameters of the call
  are those parameters as the schema parses them, and the job and the amount shown to the user
  are the ones in them.\<close>

theorem shown_is_run:
  assumes "ap_initial s0" "(ap_step env validate signer chain)\<^sup>*\<^sup>* s0 s"
    and "approve_begin validate chain now aborted args (aps_rows s) = (rows, ApLaunched act v)"
  shows "\<exists>r. sel ar_id (aa_id args) (aps_rows s) = Some r \<and> ar_state r = ApPending \<and> now < ar_expires r
    \<and> ar_role r = aa_role args \<and> ar_wallet r = toLowerCase (aa_wallet args) \<and> ar_chain r = aa_chain args
    \<and> ar_hash r = computeRequestHash env (ar_params r)
    \<and> (truthy (aa_hash args) \<longrightarrow> aa_hash args = Some (computeRequestHash env (ar_params r)))
    \<and> act = ar_action r \<and> act \<noteq> ActErc8004Register \<and> validate act (ar_params r) = Inr v \<and> shows_params r v"
proof -
  from approve_launch [OF assms(3)] obtain r where r: "sel ar_id (aa_id args) (aps_rows s) = Some r"
    "ar_state r = ApPending" "now < ar_expires r" "approve_checks chain args r = Inr ()"
    "act = ar_action r" "act \<noteq> ActErc8004Register" "validate act (ar_params r) = Inr v" by blast
  have "row_ok env validate r"
    using ap_runs.reach_inv [OF assms(1,2)] sel_SomeD [OF r(1)] by (simp add: ap_inv_def)
  with r show ?thesis
    by (auto simp: row_ok_def approve_checks_def check_owner_def split: if_splits)
qed

theorem shown_is_run_witness:
  "\<exists>r. sel ar_id ''apr-v'' (aps_rows ap_demo_created) = Some r \<and> shows_params r (JObj [(''amount'', JStr ''1.5'')])"
proof -
  have run: "approve_begin ap_demo_validate None 2000 False ap_demo_approve (aps_rows ap_demo_created)
      = ([ap_demo_row ActApproveUsdc ApExecuting 2000], ApLaunched ActApproveUsdc (JObj [(''amount'', JStr ''1.5'')]))"
    by (simp add: ap_demo_created_def ap_demo_launches)
  have "aa_id ap_demo_approve = ''apr-v''" by (simp add: ap_demo_approve_def)
  with shown_is_run [OF ap_demo_initial ap_demo_reached run] show ?thesis by auto
qed

text \<open>A decision is final. Once an approval is executed, failed, rejected, cancelled or
  expired, it stays so over every run, and its request (action, wallet, chain, parameters, hash,
  expiry) never changes in any state.\<close>

theorem decision_is_final:
  assumes "(ap_step env validate signer chain)\<^sup>*\<^sup>* s t" "sel ar_id i (aps_rows s) = Some r"
  shows "\<exists>r'. sel ar_id i (aps_rows t) = Some r' \<and> same_request r r'
    \<and> (ap_terminal (ar_state r) \<longrightarrow> ar_state r' = ar_state r)"
  using run_sel [OF assms] terminal_stays by (fastforce simp: ap_evolves_def)

theorem decision_is_final_witness:
  "\<exists>r'. sel ar_id ''apr-v'' (aps_rows ap_demo_launched) = Some r'
    \<and> same_request (ap_demo_row ActApproveUsdc ApPending 1000) r'"
proof -
  have "(ap_step ap_demo_env ap_demo_validate None None)\<^sup>*\<^sup>* ap_demo_created ap_demo_launched"
    by (rule ap_demo_step)
  moreover have "sel ar_id ''apr-v'' (aps_rows ap_demo_created) = Some (ap_demo_row ActApproveUsdc ApPending 1000)"
    by (simp add: ap_demo_created_def ap_demo_row_def table_simps)
  ultimately show ?thesis using decision_is_final by blast
qed

text \<open>A crash during an execution leaves the approval executing for ever. Nothing recovers it:
  after a restart, in every later state of the process, the approval still says \<open>executing\<close>, and
  every attempt to approve it answers that it is currently being executed.\<close>

theorem crash_leaves_approval_executing:
  assumes "sel ar_id i (aps_rows s) = Some r" "ar_state r = ApExecuting" "ar_action r \<noteq> ActErc8004Register"
    and "(ap_step env validate signer chain)\<^sup>*\<^sup>* (s\<lparr>aps_running := []\<rparr>) t"
  shows "\<exists>r'. sel ar_id i (aps_rows t) = Some r' \<and> same_request r r' \<and> ar_state r' = ApExecuting
    \<and> (\<forall>now aborted args. aa_id args = i \<and> approve_checks chain args r' = Inr () \<longrightarrow>
        approve_begin validate chain now aborted args (aps_rows t) = (aps_rows t, ApReturned
          (plain_result False i ''executing'' (Some ''Approval is currently being executed''))))"
proof -
  have "stuck i (s\<lparr>aps_running := []\<rparr>)" using assms(1-3) by (simp add: stuck_def)
  with run_sel [OF assms(4), of i r] assms(1) obtain r' E where
    r': "sel ar_id i (aps_rows t) = Some r'" "ap_evolves E r r'" "stuck i t" by auto
  then have ex: "ar_state r' = ApExecuting" "ar_id r' = i"
    using sel_SomeD [OF r'(1)] by (auto simp: stuck_def)
  have "approve_begin validate chain now aborted args (aps_rows t) = (aps_rows t, ApReturned
      (plain_result False i ''executing'' (Some ''Approval is currently being executed'')))"
    if "aa_id args = i" "approve_checks chain args r' = Inr ()" for now aborted args
    using executing_get [OF r'(1) ex(1)] that ex by (simp add: approve_begin_def settled_def)
  with r' ex show ?thesis by (auto simp: ap_evolves_def)
qed

theorem crash_leaves_approval_executing_witness:
  "\<exists>r'. sel ar_id ''apr-v'' (aps_rows ap_demo_launched) = Some r' \<and> ar_state r' = ApExecuting"
proof -
  have "sel ar_id ''apr-v'' (aps_rows ap_demo_launched) = Some (ap_demo_row ActApproveUsdc ApExecuting 2000)"
    by (simp add: ap_demo_launched_def ap_demo_row_def table_simps)
  from crash_leaves_approval_executing [OF this, of ap_demo_env ap_demo_validate None None
      "ap_demo_launched\<lparr>aps_running := []\<rparr>"]
  show ?thesis by (auto simp: ap_demo_row_def)
qed

text \<open>The generic flow burns a registration. Approving a pending ERC-8004 registration
  through \<open>approve\<close> does not refuse and leave it pending: it takes the execution, fails, and the
  approval is failed for good, so the dedicated flow can no longer execute it.\<close>

theorem generic_flow_burns_registration:
  assumes "sel ar_id (aa_id args) rows = Some r" "ar_state r = ApPending" "now < ar_expires r"
    and "ar_action r = ActErc8004Register" "approve_checks chain args r = Inr ()"
  shows "\<exists>rows' e r'. approve_begin validate chain now aborted args rows = (rows', ApReturned (failed_result (aa_id args) e))
    \<and> sel ar_id (aa_id args) rows' = Some r' \<and> ar_state r' = ApFailed
    \<and> erc_begin later False (aa_id args) rows' = (rows', ErcReturned (erc_plain False (aa_id args) ''failed''
          (Some ''Cannot execute: state is failed (requires approved)'')))"
proof -
  let ?i = "aa_id args"
  have get: "store_get now ?i rows = (rows, Some r)"
    using assms(1-3) by (simp add: store_get_def checkAndExpire_def expirable_def)
  let ?f = "\<lambda>r. if ar_state r = ApPending \<and> ar_expires r > now then r\<lparr>ar_state := ApExecuting, ar_updated := now\<rparr> else r"
  have pk: "ar_id (?f x) = ar_id x" for x by simp
  let ?rows = "upd ar_id ?i ?f rows"
  have up: "sel ar_id ?i ?rows = Some (?f r)" using assms(1) sel_upd [of ar_id ?f ?i ?i rows] pk by simp
  then have start: "transitionToExecuting now ?i rows = (?rows, TransOk (?f r))"
    using assms(1-3) by (simp add: transitionToExecuting_def transition_where_def update_where_def executing_get)
  have "\<exists>e. approve_begin validate chain now aborted args rows = fail_approval now ?i e ?rows"
    using assms(2,4,5) unfolding approve_begin_def get
    by (cases "validate ActErc8004Register (ar_params r)"; cases aborted)
      (auto simp: settled_def start validateActionParams_def)
  then obtain e where run: "approve_begin validate chain now aborted args rows
      = (fst (transitionToFailed now ?i e ?rows), ApReturned (failed_result ?i e))"
    unfolding fail_approval_def by blast
  let ?g = "\<lambda>r. if ar_state r = ApExecuting then r\<lparr>ar_state := ApFailed, ar_error := Some (take 500 e), ar_updated := now\<rparr> else r"
  have pk2: "ar_id (?g x) = ar_id x" for x by simp
  have "sel ar_id ?i (upd ar_id ?i ?g ?rows) = Some (?g (?f r))" using up sel_upd [of ar_id ?g ?i ?i ?rows] pk2 by simp
  moreover have "store_get t ?i rs = (rs, Some x)" if "sel ar_id ?i rs = Some x" "ar_state x = ApFailed" for t rs x
    using that by (simp add: store_get_def checkAndExpire_def expirable_def)
  ultimately have "sel ar_id ?i (fst (transitionToFailed now ?i e ?rows)) = Some (?g (?f r))"
    and "erc_begin later False ?i (fst (transitionToFailed now ?i e ?rows))
      = (fst (transitionToFailed now ?i e ?rows), ErcReturned (erc_plain False ?i ''failed''
          (Some ''Cannot execute: state is failed (requires approved)'')))"
    using assms(2-4) by (simp_all add: transitionToFailed_def update_where_def erc_begin_def)
  with run assms(2,3) show ?thesis by auto
qed

theorem generic_flow_burns_registration_witness:
  "\<exists>rows' e r'. approve_begin ap_demo_validate None 2000 False ap_demo_approve
      [ap_demo_row ActErc8004Register ApPending 1000] = (rows', ApReturned (failed_result ''apr-v'' e))
    \<and> sel ar_id ''apr-v'' rows' = Some r' \<and> ar_state r' = ApFailed"
proof -
  have i: "aa_id ap_demo_approve = ''apr-v''" by (simp add: ap_demo_approve_def)
  have "sel ar_id (aa_id ap_demo_approve) [ap_demo_row ActErc8004Register ApPending 1000]
      = Some (ap_demo_row ActErc8004Register ApPending 1000)"
    by (simp add: i ap_demo_row_def table_simps)
  moreover have "approve_checks None ap_demo_approve (ap_demo_row ActErc8004Register ApPending 1000) = Inr ()"
    by (rule ap_demo_checks)
  ultimately show ?thesis
    using generic_flow_burns_registration [of ap_demo_approve "[ap_demo_row ActErc8004Register ApPending 1000]"
        "ap_demo_row ActErc8004Register ApPending 1000" 2000 None ap_demo_validate False 0]
    unfolding i by (auto simp: ap_demo_row_def)
qed

end
