(* ===== verification/Jsonl_Store.thy ===== *)
theory Jsonl_Store
  imports Runner_Prelude
begin

text \<open>
  An append-only JSONL file, as \<open>SpendingLedger\<close> (\<open>runner-core/src/ledger.ts\<close>) and
  \<open>JsonlReceiptStore\<close> (\<open>store.ts\<close>) keep one. A line that \<open>JSON.parse\<close> reads is
  \<open>Some\<close> record. A crash may stop \<open>appendFile\<close> anywhere: a prefix of a JSON object never parses
  (\<open>None\<close>), and without its newline a line is continued by the next append. Appends of one
  process run one after the other (\<open>writeMutex\<close>).
\<close>

record 'r jsonl =
  jl_lines :: "'r option list"
  jl_open :: bool

definition empty_jsonl :: "'r jsonl" where
  "empty_jsonl = \<lparr>jl_lines = [], jl_open = False\<rparr>"

definition jsonl_read :: "'r jsonl \<Rightarrow> 'r list" where
  \<comment> \<open>\<open>readAll\<close>: any line that does not parse makes the \<open>catch\<close> return \<open>[]\<close>\<close>
  "jsonl_read f = (if None \<in> set (jl_lines f) then [] else map the (jl_lines f))"

definition jsonl_append :: "'r \<Rightarrow> 'r jsonl \<Rightarrow> 'r jsonl" where
  "jsonl_append r f =
     (if jl_open f then \<lparr>jl_lines = butlast (jl_lines f) @ [None], jl_open = False\<rparr>
      else \<lparr>jl_lines = jl_lines f @ [Some r], jl_open = False\<rparr>)"

datatype torn = TornNothing | TornPart | TornNewline

definition torn_append :: "torn \<Rightarrow> 'r \<Rightarrow> 'r jsonl \<Rightarrow> 'r jsonl" where
  \<comment> \<open>an append cut short by a crash: before anything, within the object, before its newline\<close>
  "torn_append t r f =
     (case t of
        TornNothing \<Rightarrow> f
      | TornPart \<Rightarrow> \<lparr>jl_lines = (if jl_open f then butlast (jl_lines f) else jl_lines f) @ [None], jl_open = True\<rparr>
      | TornNewline \<Rightarrow> (jsonl_append r f)\<lparr>jl_open := True\<rparr>)"

definition last_slice :: "nat \<Rightarrow> 'a list \<Rightarrow> 'a list" where
  \<comment> \<open>\<open>slice(-limit)\<close>; \<open>slice(-0)\<close> is the whole array\<close>
  "last_slice limit xs = (if limit = 0 then xs else drop (length xs - limit) xs)"

definition jsonl_list :: "nat \<Rightarrow> 'r jsonl \<Rightarrow> 'r list" where
  "jsonl_list limit f = rev (last_slice limit (jsonl_read f))"

section \<open>Clean files\<close>

definition jsonl_clean :: "'r jsonl \<Rightarrow> bool" where
  "jsonl_clean f \<longleftrightarrow> None \<notin> set (jl_lines f) \<and> \<not> jl_open f"

lemma clean_empty [simp]: "jsonl_clean empty_jsonl" "jsonl_read empty_jsonl = []"
  by (simp_all add: jsonl_clean_def empty_jsonl_def jsonl_read_def)

lemma clean_append [simp]:
  "jsonl_clean f \<Longrightarrow> jsonl_clean (jsonl_append r f)"
  "jsonl_clean f \<Longrightarrow> jsonl_read (jsonl_append r f) = jsonl_read f @ [r]"
  by (auto simp: jsonl_clean_def jsonl_append_def jsonl_read_def)

lemma torn_nothing [simp]: "torn_append TornNothing r f = f"
  by (simp add: torn_append_def)

lemma torn_part_unreadable: "jsonl_read (torn_append TornPart r f) = []"
  by (simp add: torn_append_def jsonl_read_def)

text \<open>A line that does not parse is never repaired: the file stays unreadable.\<close>

lemma unreadable_append: "None \<in> set (jl_lines f) \<Longrightarrow> None \<in> set (jl_lines (jsonl_append r f))"
  by (simp add: jsonl_append_def)

lemma unreadable_forever:
  "None \<in> set (jl_lines f) \<Longrightarrow> jsonl_read (fold jsonl_append rs f) = []"
proof (induction rs arbitrary: f)
  case Nil
  then show ?case by (simp add: jsonl_read_def)
qed (simp add: unreadable_append)

lemma read_appends [simp]:
  "jsonl_clean f \<Longrightarrow> jsonl_read (fold jsonl_append rs f) = jsonl_read f @ rs"
  by (induction rs arbitrary: f) simp_all

end
