(* ===== verification/Payment_Ledger.thy ===== *)
theory Payment_Ledger
  imports Jsonl_Store Spend_Policy
begin

text \<open>
  The x402 spending ledger and its policy: \<open>SpendingLedger\<close> (\<open>runner-core/src/ledger.ts\<close>),
  the assertions of \<open>policy.ts\<close>, and the UTC day and month buckets of \<open>toISOString\<close>. Times
  are milliseconds since 1970; buckets are printed for years of four digits.
\<close>

section \<open>Buckets\<close>

definition iso_month :: "nat \<Rightarrow> string" where
  \<comment> \<open>\<open>toISOString().slice(0, 7)\<close>\<close>
  "iso_month ms = padStart0 4 (int_str (getUTCFullYear ms)) @ ''-''
     @ padStart0 2 (nat_str (Suc (getUTCMonth ms)))"

definition iso_day :: "nat \<Rightarrow> string" where
  \<comment> \<open>\<open>toISOString().slice(0, 10)\<close>\<close>
  "iso_day ms = iso_month ms @ ''-'' @ padStart0 2 (int_str (getUTCDate ms))"

section \<open>The ledger\<close>

datatype pay_status = Attempted | PaySuccess | PayFailure

record ledger_record =
  lr_id :: string
  lr_created :: nat
  lr_key :: string
  lr_status :: pay_status
  lr_amountUsdc :: string
  lr_amountMicros :: string
  lr_day :: string
  lr_month :: string
  lr_url :: "string option"
  lr_reason :: "string option"
  lr_receipt :: "string option"
  lr_error :: "string option"

type_synonym pay_ledger = "ledger_record jsonl"

definition attempt_record :: "string \<Rightarrow> nat \<Rightarrow> string \<Rightarrow> string \<Rightarrow> string \<Rightarrow> string \<Rightarrow> string \<Rightarrow> ledger_record" where
  "attempt_record rid now key amountUsdc amountMicros url reason =
     \<lparr>lr_id = rid, lr_created = now, lr_key = key, lr_status = Attempted, lr_amountUsdc = amountUsdc,
      lr_amountMicros = amountMicros, lr_day = iso_day now, lr_month = iso_month now,
      lr_url = Some url, lr_reason = Some reason, lr_receipt = None, lr_error = None\<rparr>"

definition success_record :: "string \<Rightarrow> nat \<Rightarrow> string \<Rightarrow> string option \<Rightarrow> ledger_record" where
  "success_record rid now key receiptId =
     \<lparr>lr_id = rid, lr_created = now, lr_key = key, lr_status = PaySuccess, lr_amountUsdc = ''0'',
      lr_amountMicros = ''0'', lr_day = iso_day now, lr_month = iso_month now,
      lr_url = None, lr_reason = None, lr_receipt = receiptId, lr_error = None\<rparr>"

definition failure_record :: "string \<Rightarrow> nat \<Rightarrow> string \<Rightarrow> string \<Rightarrow> ledger_record" where
  "failure_record rid now key err =
     \<lparr>lr_id = rid, lr_created = now, lr_key = key, lr_status = PayFailure, lr_amountUsdc = ''0'',
      lr_amountMicros = ''0'', lr_day = iso_day now, lr_month = iso_month now,
      lr_url = None, lr_reason = None, lr_receipt = None, lr_error = Some err\<rparr>"

definition has_event :: "pay_status \<Rightarrow> string \<Rightarrow> ledger_record list \<Rightarrow> ledger_record option" where
  "has_event st key rs = find (\<lambda>r. lr_key r = key \<and> lr_status r = st) rs"

definition hasSucceeded :: "string \<Rightarrow> pay_ledger \<Rightarrow> ledger_record option" where
  "hasSucceeded key f = has_event PaySuccess key (jsonl_read f)"

definition hasFailed :: "string \<Rightarrow> pay_ledger \<Rightarrow> ledger_record option" where
  "hasFailed key f = has_event PayFailure key (jsonl_read f)"

definition pending_attempt :: "string \<Rightarrow> ledger_record list \<Rightarrow> ledger_record option" where
  "pending_attempt key rs =
     (let events = filter (\<lambda>r. lr_key r = key) rs;
          hasAttempt = list_ex (\<lambda>r. lr_status r = Attempted) events;
          hasTerminal = list_ex (\<lambda>r. lr_status r = PaySuccess \<or> lr_status r = PayFailure) events
      in if hasAttempt \<and> \<not> hasTerminal then find (\<lambda>r. lr_status r = Attempted) events else None)"

definition hasPendingAttempt :: "string \<Rightarrow> pay_ledger \<Rightarrow> ledger_record option" where
  "hasPendingAttempt key f = pending_attempt key (jsonl_read f)"

text \<open>\<open>BigInt(r.amountMicros)\<close> throws on text that is no integer.\<close>

definition to_bigint :: "string \<Rightarrow> thrown + int" where
  "to_bigint s = (case BigInt s of
     Some i \<Rightarrow> Inr i | None \<Rightarrow> Inl (ThrownError (''Cannot convert '' @ s @ '' to a BigInt'')))"

fun sum_micros :: "ledger_record list \<Rightarrow> thrown + int" where
  "sum_micros [] = Inr 0"
| "sum_micros (r # rs) =
     bindR (to_bigint (lr_amountMicros r)) (\<lambda>a. bindR (sum_micros rs) (\<lambda>b. Inr (a + b)))"

definition counted_attempts :: "(ledger_record \<Rightarrow> string) \<Rightarrow> string \<Rightarrow> ledger_record list \<Rightarrow> ledger_record list" where
  "counted_attempts bucket b rs =
     (let succeeded = map lr_key (filter (\<lambda>r. lr_status r = PaySuccess) rs)
      in filter (\<lambda>r. lr_status r = Attempted \<and> lr_key r \<in> set succeeded \<and> bucket r = b) rs)"

definition sumSuccessfulByDay :: "string \<Rightarrow> pay_ledger \<Rightarrow> thrown + int" where
  "sumSuccessfulByDay b f = sum_micros (counted_attempts lr_day b (jsonl_read f))"

definition sumSuccessfulByMonth :: "string \<Rightarrow> pay_ledger \<Rightarrow> thrown + int" where
  "sumSuccessfulByMonth b f = sum_micros (counted_attempts lr_month b (jsonl_read f))"

section \<open>Policy\<close>

text \<open>
  A payment is the schema's parsed input. \<open>host\<close> stands for \<open>new URL(url).host\<close> of the URL
  standard. Errors are whatever is thrown: \<open>BigInt\<close> of a malformed limit throws a
  \<open>SyntaxError\<close>.
\<close>

record payment =
  pm_url :: string
  pm_method :: string
  pm_body :: json
  pm_amount :: string
  pm_reason :: string
  pm_key :: "string option"

definition isHostAllowed :: "string list \<Rightarrow> string \<Rightarrow> bool" where
  "isHostAllowed allowedHosts h =
     (if allowedHosts = [] then True
      else if ''*'' \<in> set allowedHosts then True
      else h \<in> set allowedHosts)"

definition to_micros :: "string \<Rightarrow> thrown + int" where
  \<comment> \<open>\<open>decimalToMicros\<close> with its exception: the first piece \<open>BigInt\<close> rejects is in the message\<close>
  "to_micros amount =
     (case decimalToMicros amount of
        Some m \<Rightarrow> Inr m
      | None \<Rightarrow> Inl (ThrownError (''Cannot convert '' @
          (if BigInt (whole_part amount) = None then whole_part amount else pad_frac (frac_part amount))
          @ '' to a BigInt'')))"

definition refuse :: "string \<Rightarrow> string \<Rightarrow> nat \<Rightarrow> thrown" where
  "refuse c m s = ThrownRunner (RunnerError c m s)"

definition assertRoleAllowed :: "runner_config \<Rightarrow> string \<Rightarrow> thrown + unit" where
  "assertRoleAllowed cfg role = throw_if (role \<notin> set (cf_allowedRoles cfg))
     (refuse ''ROLE_NOT_ALLOWED''
       (''Runner role '' @ role @ '' is not allowed for agent '' @ cf_agentId cfg) 403)"

definition assertAgentIdentity :: "runner_config \<Rightarrow> string \<Rightarrow> thrown + unit" where
  "assertAgentIdentity cfg agentId = throw_if (cf_agentId cfg \<noteq> agentId)
     (refuse ''AGENT_ID_MISMATCH''
       (''Task agentId '' @ agentId @ '' does not match runner agentId '' @ cf_agentId cfg) 403)"

definition assertX402InspectAllowed :: "(string \<Rightarrow> string) \<Rightarrow> runner_config \<Rightarrow> payment \<Rightarrow> thrown + unit" where
  "assertX402InspectAllowed host cfg p = throw_if (\<not> isHostAllowed (cf_x402Hosts cfg) (host (pm_url p)))
     (refuse ''X402_HOST_NOT_ALLOWED'' (''Host '' @ host (pm_url p) @ '' is not allowed'') 403)"

definition assertX402PaymentAllowed :: "(string \<Rightarrow> string) \<Rightarrow> runner_config \<Rightarrow> payment \<Rightarrow> thrown + unit" where
  "assertX402PaymentAllowed host cfg p =
     (if \<not> cf_paymentEnabled cfg then
        Inl (refuse ''PAYMENT_DISABLED'' ''Payments are disabled for this runner'' 403)
      else if \<not> truthy (cf_wallet cfg) then
        Inl (refuse ''CIRCLE_WALLET_MISSING'' ''Circle wallet address is not configured'' 400)
      else if \<not> isHostAllowed (cf_x402Hosts cfg) (host (pm_url p)) then
        Inl (refuse ''X402_HOST_NOT_ALLOWED'' (''Host '' @ host (pm_url p) @ '' is not allowed'') 403)
      else
        bindR (to_micros (pm_amount p)) (\<lambda>amount.
        bindR (to_micros (cf_perTx cfg)) (\<lambda>perTx.
        throw_if (perTx < amount) (refuse ''PER_TX_LIMIT_EXCEEDED''
          (''Payment '' @ pm_amount p @ '' exceeds per-tx limit '' @ cf_perTx cfg) 403))))"

fun batch_total :: "(string \<Rightarrow> string) \<Rightarrow> runner_config \<Rightarrow> int \<Rightarrow> payment list \<Rightarrow> thrown + int" where
  "batch_total host cfg acc [] = Inr acc"
| "batch_total host cfg acc (p # ps) =
     bindR (assertX402PaymentAllowed host cfg p) (\<lambda>_.
     bindR (to_micros (pm_amount p)) (\<lambda>a. batch_total host cfg (acc + a) ps))"

definition assertBatchAllowed :: "(string \<Rightarrow> string) \<Rightarrow> runner_config \<Rightarrow> payment list \<Rightarrow> thrown + unit" where
  "assertBatchAllowed host cfg ps =
     (if cf_batchItems cfg < length ps then
        Inl (refuse ''BATCH_MAX_ITEMS_EXCEEDED'' (''Batch has '' @ nat_str (length ps)
          @ '' payments but limit is '' @ nat_str (cf_batchItems cfg)) 403)
      else
        bindR (batch_total host cfg 0 ps) (\<lambda>total.
        bindR (to_micros (cf_batchTotal cfg)) (\<lambda>maxTotal.
        throw_if (maxTotal < total) (refuse ''BATCH_MAX_TOTAL_EXCEEDED''
          (''Batch exceeds max total '' @ cf_batchTotal cfg @ '' USDC'') 403))))"

definition assertDailyLimit :: "runner_config \<Rightarrow> nat \<Rightarrow> pay_ledger \<Rightarrow> string \<Rightarrow> thrown + unit" where
  "assertDailyLimit cfg now f additionalAmountUsdc =
     bindR (sumSuccessfulByDay (iso_day now) f) (\<lambda>dailySpent.
     bindR (to_micros additionalAmountUsdc) (\<lambda>additional.
     bindR (to_micros (cf_daily cfg)) (\<lambda>limit.
     throw_if (limit < dailySpent + additional) (refuse ''DAILY_LIMIT_EXCEEDED''
       (''Daily spending limit exceeded: spent '' @ int_str dailySpent @ '' micros today, adding ''
         @ int_str additional @ '' micros, limit '' @ int_str limit @ '' micros'') 403))))"

definition assertMonthlyLimit :: "runner_config \<Rightarrow> nat \<Rightarrow> pay_ledger \<Rightarrow> string \<Rightarrow> thrown + unit" where
  "assertMonthlyLimit cfg now f additionalAmountUsdc =
     bindR (sumSuccessfulByMonth (iso_month now) f) (\<lambda>monthlySpent.
     bindR (to_micros additionalAmountUsdc) (\<lambda>additional.
     bindR (to_micros (cf_monthly cfg)) (\<lambda>limit.
     throw_if (limit < monthlySpent + additional) (refuse ''MONTHLY_LIMIT_EXCEEDED''
       (''Monthly spending limit exceeded: spent '' @ int_str monthlySpent @ '' micros this month, adding ''
         @ int_str additional @ '' micros, limit '' @ int_str limit @ '' micros'') 403))))"

section \<open>Buckets name windows\<close>

lemma padStart0_eq: "padStart0 n s = padStart0 n t \<Longrightarrow> digits_val s = digits_val t"
  by (metis digits_val_padStart0)

lemma length_two: "n < 100 \<Longrightarrow> length (padStart0 2 (nat_str n)) = 2"
  by (intro length_padStart0 length_nat_str_le) auto

lemma bucket_lengths:
  assumes "getUTCFullYear ms < 10000"
  shows "length (padStart0 4 (int_str (getUTCFullYear ms))) = 4" "length (iso_month ms) = 7"
    "0 \<le> getUTCFullYear ms"
proof -
  obtain y e where ye: "year_from 1970 (day_of_ms ms) = (y, e)" by fastforce
  have "0 \<le> day_of_ms ms" by (simp add: day_of_ms_def)
  from year_from_days [OF ye this] have "1970 \<le> y" by blast
  then show pos: "0 \<le> getUTCFullYear ms" by (simp add: getUTCFullYear_def ye)
  with assms have "nat (getUTCFullYear ms) < 10 ^ 4" by (simp add: nat_less_iff)
  with pos show y: "length (padStart0 4 (int_str (getUTCFullYear ms))) = 4"
    by (auto simp: int_str_def intro!: length_padStart0 length_nat_str_le)
  have "length (padStart0 2 (nat_str (Suc (getUTCMonth ms)))) = 2"
    using month_bounds(1) [of ms] by (intro length_two) simp
  with y show "length (iso_month ms) = 7" by (simp add: iso_month_def)
qed

lemma iso_month_iff:
  assumes "getUTCFullYear a < 10000" and "getUTCFullYear b < 10000"
  shows "iso_month a = iso_month b \<longleftrightarrow> same_window Monthly a b"
proof
  assume eq: "iso_month a = iso_month b"
  from eq bucket_lengths(1) assms
  have "padStart0 4 (int_str (getUTCFullYear a)) = padStart0 4 (int_str (getUTCFullYear b))"
    and m: "padStart0 2 (nat_str (Suc (getUTCMonth a))) = padStart0 2 (nat_str (Suc (getUTCMonth b)))"
    by (auto simp: iso_month_def)
  from padStart0_eq [OF this(1)] have "nat (getUTCFullYear a) = nat (getUTCFullYear b)"
    using bucket_lengths(3) [OF assms(1)] bucket_lengths(3) [OF assms(2)] by (simp add: int_str_def)
  moreover have "getUTCMonth a = getUTCMonth b" using padStart0_eq [OF m] by simp
  ultimately show "same_window Monthly a b"
    using bucket_lengths(3) [OF assms(1)] bucket_lengths(3) [OF assms(2)] by simp
qed (simp add: iso_month_def)

lemma iso_day_iff:
  assumes "getUTCFullYear a < 10000" and "getUTCFullYear b < 10000"
  shows "iso_day a = iso_day b \<longleftrightarrow> same_window Daily a b"
proof
  assume eq: "iso_day a = iso_day b"
  then have "iso_month a = iso_month b"
    and d: "padStart0 2 (int_str (getUTCDate a)) = padStart0 2 (int_str (getUTCDate b))"
    using bucket_lengths(2) [OF assms(1)] bucket_lengths(2) [OF assms(2)] by (auto simp: iso_day_def)
  with iso_month_iff [OF assms] have "same_window Monthly a b" by simp
  moreover have "getUTCDate a = getUTCDate b"
    using padStart0_eq [OF d] month_bounds(2) [of a] month_bounds(2) [of b] by (simp add: int_str_def)
  ultimately show "same_window Daily a b" by simp
qed (simp add: iso_day_def iso_month_def)

end
