(* ===== verification/Key_Lock.thy ===== *)
theory Key_Lock
  imports Runner_Prelude
begin

text \<open>
  \<open>withKeyLock\<close> (\<open>arclayer-runner/src/services.ts\<close>), the lock per idempotency key around
  \<open>payX402\<close>. The map \<open>keyQueues\<close> points to shared entry objects, so entries live in a heap
  (a list, by index) and outlive their key in the map. A caller is a process number. A
  resolved promise only schedules the waiting caller: it is \<open>Woken\<close> until its continuation
  runs, and other code may run in between.
\<close>

section \<open>State and operations\<close>

record lock_entry =
  le_busy :: bool
  le_queue :: "nat list"

datatype lock_proc =
  Waiting (lp_key: string) (lp_entry: nat)
| Woken (lp_key: string) (lp_entry: nat)
| Holding (lp_key: string) (lp_entry: nat)

record key_lock =
  kl_map :: "(string \<times> nat) list"
  kl_heap :: "lock_entry list"
  kl_procs :: "(nat \<times> lock_proc) list"

definition new_lock :: key_lock where
  "new_lock = \<lparr>kl_map = [], kl_heap = [], kl_procs = []\<rparr>"

definition find_entry :: "string \<Rightarrow> key_lock \<Rightarrow> nat \<times> key_lock" where
  \<comment> \<open>\<open>has\<close>, \<open>set\<close> of a new entry, \<open>get\<close>\<close>
  "find_entry key l =
     (case map_of (kl_map l) key of
        Some e \<Rightarrow> (e, l)
      | None \<Rightarrow> (length (kl_heap l),
          l\<lparr>kl_map := jsmap_set key (length (kl_heap l)) (kl_map l),
            kl_heap := kl_heap l @ [\<lparr>le_busy = False, le_queue = []\<rparr>]\<rparr>))"

definition lock_hold :: "string \<Rightarrow> nat \<Rightarrow> nat \<Rightarrow> key_lock \<Rightarrow> key_lock" where
  \<comment> \<open>\<open>entry.busy = true\<close>, then \<open>fn()\<close> runs\<close>
  "lock_hold key e p l =
     l\<lparr>kl_heap := (kl_heap l)[e := (kl_heap l ! e)\<lparr>le_busy := True\<rparr>],
       kl_procs := jsmap_set p (Holding key e) (kl_procs l)\<rparr>"

definition lock_arrive :: "string \<Rightarrow> nat \<Rightarrow> key_lock \<Rightarrow> key_lock" where
  "lock_arrive key p l =
     (case find_entry key l of (e, l1) \<Rightarrow>
        if le_busy (kl_heap l1 ! e) then
          l1\<lparr>kl_heap := (kl_heap l1)[e := (kl_heap l1 ! e)\<lparr>le_queue := le_queue (kl_heap l1 ! e) @ [p]\<rparr>],
             kl_procs := jsmap_set p (Waiting key e) (kl_procs l1)\<rparr>
        else lock_hold key e p l1)"

definition lock_wake :: "nat \<Rightarrow> key_lock \<Rightarrow> key_lock" where
  \<comment> \<open>the continuation of the awaited promise\<close>
  "lock_wake p l =
     (case map_of (kl_procs l) p of
        Some (Woken key e) \<Rightarrow> lock_hold key e p l
      | _ \<Rightarrow> l)"

definition own_key :: "nat \<Rightarrow> string \<Rightarrow> key_lock \<Rightarrow> string" where
  \<comment> \<open>the \<open>key\<close> of the caller \<open>p\<close>'s closure\<close>
  "own_key p d l = (case map_of (kl_procs l) p of Some x \<Rightarrow> lp_key x | None \<Rightarrow> d)"

definition lock_leave :: "nat \<Rightarrow> key_lock \<Rightarrow> key_lock" where
  \<comment> \<open>the \<open>finally\<close> block; \<open>entry.busy\<close> is still false when it is tested\<close>
  "lock_leave p l =
     (case map_of (kl_procs l) p of
        Some (Holding key e) \<Rightarrow>
          (let procs = jsmap_delete p (kl_procs l)
           in case le_queue (kl_heap l ! e) of
                [] \<Rightarrow> l\<lparr>kl_heap := (kl_heap l)[e := \<lparr>le_busy = False, le_queue = []\<rparr>],
                        kl_procs := procs, kl_map := jsmap_delete key (kl_map l)\<rparr>
              | q # qs \<Rightarrow> l\<lparr>kl_heap := (kl_heap l)[e := \<lparr>le_busy = False, le_queue = qs\<rparr>],
                        kl_procs := jsmap_set q (Woken (own_key q key l) e) procs,
                        kl_map := (if qs = [] then jsmap_delete key (kl_map l) else kl_map l)\<rparr>)
      | _ \<Rightarrow> l)"

definition holds :: "nat \<Rightarrow> string \<Rightarrow> key_lock \<Rightarrow> bool" where
  "holds p key l \<longleftrightarrow> (case map_of (kl_procs l) p of Some (Holding k e) \<Rightarrow> k = key | _ \<Rightarrow> False)"

section \<open>Runs\<close>

inductive lock_step :: "key_lock \<Rightarrow> key_lock \<Rightarrow> bool" where
  arrives: "map_of (kl_procs l) p = None \<Longrightarrow> lock_step l (lock_arrive key p l)"
| wakes: "map_of (kl_procs l) p = Some (Woken key e) \<Longrightarrow> lock_step l (lock_wake p l)"
| releases: "map_of (kl_procs l) p = Some (Holding key e) \<Longrightarrow> lock_step l (lock_leave p l)"

text \<open>
  The invariant: the map points into the heap, every process names an entry of the heap, a
  process is in the queue of an entry exactly while it waits on it, a busy entry is held, and
  a queue is never without somebody who will serve it.
\<close>

definition served :: "nat \<Rightarrow> key_lock \<Rightarrow> bool" where
  "served e l \<longleftrightarrow> (\<exists>p key. map_of (kl_procs l) p \<in> {Some (Holding key e), Some (Woken key e)})"

definition entry_inv :: "nat \<Rightarrow> key_lock \<Rightarrow> bool" where
  "entry_inv e l \<longleftrightarrow> distinct (le_queue (kl_heap l ! e))
     \<and> (\<forall>p. p \<in> set (le_queue (kl_heap l ! e)) \<longleftrightarrow> (\<exists>key. map_of (kl_procs l) p = Some (Waiting key e)))
     \<and> (le_busy (kl_heap l ! e) \<or> le_queue (kl_heap l ! e) \<noteq> [] \<longrightarrow> served e l)"

definition lock_inv :: "key_lock \<Rightarrow> bool" where
  "lock_inv l \<longleftrightarrow> (\<forall>key e. map_of (kl_map l) key = Some e \<longrightarrow> e < length (kl_heap l))
     \<and> (\<forall>p x. map_of (kl_procs l) p = Some x \<longrightarrow> lp_entry x < length (kl_heap l))
     \<and> (\<forall>e < length (kl_heap l). entry_inv e l)"

lemma lock_invI:
  assumes "\<And>key e. map_of (kl_map l) key = Some e \<Longrightarrow> e < length (kl_heap l)"
    and "\<And>p x. map_of (kl_procs l) p = Some x \<Longrightarrow> lp_entry x < length (kl_heap l)"
    and "\<And>e. e < length (kl_heap l) \<Longrightarrow> entry_inv e l"
  shows "lock_inv l"
  using assms unfolding lock_inv_def by blast

lemma lock_invD:
  assumes "lock_inv l"
  shows "map_of (kl_map l) key = Some e \<Longrightarrow> e < length (kl_heap l)"
    and "map_of (kl_procs l) p = Some x \<Longrightarrow> lp_entry x < length (kl_heap l)"
    and "e < length (kl_heap l) \<Longrightarrow> entry_inv e l"
  using assms unfolding lock_inv_def by blast+

lemma waiting_queued:
  assumes "lock_inv l" and "map_of (kl_procs l) p = Some (Waiting key e)"
  shows "e < length (kl_heap l)" and "p \<in> set (le_queue (kl_heap l ! e))" and "served e l"
proof -
  show e: "e < length (kl_heap l)" using lock_invD(2) [OF assms] by simp
  from lock_invD(3) [OF assms(1) e] have inv: "entry_inv e l" .
  with assms(2) show q: "p \<in> set (le_queue (kl_heap l ! e))" by (auto simp: entry_inv_def)
  then have "le_queue (kl_heap l ! e) \<noteq> []" by auto
  with inv show "served e l" by (simp add: entry_inv_def)
qed

lemma served_cong:
  assumes "served e l"
    and "\<And>q key. map_of (kl_procs l) q = Some (Holding key e)
             \<or> map_of (kl_procs l) q = Some (Woken key e) \<Longrightarrow>
           \<exists>key'. map_of (kl_procs l') q = Some (Holding key' e)
             \<or> map_of (kl_procs l') q = Some (Woken key' e)"
  shows "served e l'"
  using assms unfolding served_def by blast

lemma served_by:
  "map_of (kl_procs l) p = Some (Holding key e) \<or> map_of (kl_procs l) p = Some (Woken key e)
     \<Longrightarrow> served e l"
  unfolding served_def by auto

lemma find_entry_inv:
  assumes "lock_inv l" and "find_entry key l = (e, l1)"
  shows "lock_inv l1" and "e < length (kl_heap l1)" and "kl_procs l1 = kl_procs l"
proof -
  show same: "kl_procs l1 = kl_procs l"
    using assms(2) by (auto simp: find_entry_def split: option.splits)
  show "e < length (kl_heap l1)"
    using assms(2) lock_invD(1) [OF assms(1)] by (auto simp: find_entry_def split: option.splits)
  show "lock_inv l1"
  proof (cases "map_of (kl_map l) key")
    case (Some e')
    with assms show ?thesis by (auto simp: find_entry_def)
  next
    case None
    with assms(2) have l1: "l1 = l\<lparr>kl_map := jsmap_set key (length (kl_heap l)) (kl_map l),
        kl_heap := kl_heap l @ [\<lparr>le_busy = False, le_queue = []\<rparr>]\<rparr>"
      by (auto simp: find_entry_def)
    show ?thesis
    proof (rule lock_invI)
      fix k x assume "map_of (kl_map l1) k = Some x"
      then show "x < length (kl_heap l1)"
        using lock_invD(1) [OF assms(1), of k x] by (auto simp: l1 split: if_splits)
    next
      fix p x assume "map_of (kl_procs l1) p = Some x"
      then show "lp_entry x < length (kl_heap l1)"
        using lock_invD(2) [OF assms(1), of p x] by (simp add: same) (simp add: l1)
    next
      fix x assume x: "x < length (kl_heap l1)"
      show "entry_inv x l1"
      proof (cases "x < length (kl_heap l)")
        case True
        from lock_invD(3) [OF assms(1) True] True show ?thesis
          by (simp add: l1 entry_inv_def served_def nth_append)
      next
        case False
        with x have "x = length (kl_heap l)" by (simp add: l1)
        with lock_invD(2) [OF assms(1)] show ?thesis
          by (fastforce simp: l1 entry_inv_def nth_append)
      qed
    qed
  qed
qed

lemma lock_hold_inv:
  assumes inv: "lock_inv l" and e: "e < length (kl_heap l)"
    and p: "map_of (kl_procs l) p \<in> {None, Some (Woken key e)}"
  shows "lock_inv (lock_hold key e p l)" (is "lock_inv ?l")
proof (rule lock_invI)
  fix k x assume "map_of (kl_map ?l) k = Some x"
  then show "x < length (kl_heap ?l)"
    using lock_invD(1) [OF inv, of k x] by (simp add: lock_hold_def)
next
  fix q x assume "map_of (kl_procs ?l) q = Some x"
  then show "lp_entry x < length (kl_heap ?l)"
    using lock_invD(2) [OF inv, of q x] e by (auto simp: lock_hold_def split: if_splits)
next
  fix x assume "x < length (kl_heap ?l)"
  then have x: "x < length (kl_heap l)" by (simp add: lock_hold_def)
  note ix = lock_invD(3) [OF inv x]
  have queue: "le_queue (kl_heap ?l ! x) = le_queue (kl_heap l ! x)"
    using e by (cases "x = e") (simp_all add: lock_hold_def)
  have waiting: "map_of (kl_procs ?l) q = Some (Waiting k x)
      \<longleftrightarrow> map_of (kl_procs l) q = Some (Waiting k x)" for q k
    using p by (auto simp: lock_hold_def)
  have mine: "served e ?l"
    by (rule served_by [of ?l p key e]) (simp add: lock_hold_def)
  have others: "served x ?l" if "served x l"
  proof (cases "x = e")
    case False
    from that show ?thesis
      by (rule served_cong) (use p False in \<open>auto simp: lock_hold_def\<close>)
  qed (use mine in simp)
  have busy: "x \<noteq> e \<Longrightarrow> le_busy (kl_heap ?l ! x) = le_busy (kl_heap l ! x)"
    by (simp add: lock_hold_def)
  show "entry_inv x ?l"
    using ix mine others busy unfolding entry_inv_def queue waiting by (cases "x = e") auto
qed

lemma lock_queue_inv:
  assumes inv: "lock_inv l" and e: "e < length (kl_heap l)" and p: "map_of (kl_procs l) p = None"
    and busy: "le_busy (kl_heap l ! e)"
  shows "lock_inv (l\<lparr>kl_heap := (kl_heap l)[e := (kl_heap l ! e)\<lparr>le_queue := le_queue (kl_heap l ! e) @ [p]\<rparr>],
             kl_procs := jsmap_set p (Waiting key e) (kl_procs l)\<rparr>)" (is "lock_inv ?l")
proof (rule lock_invI)
  fix k x assume "map_of (kl_map ?l) k = Some x"
  then show "x < length (kl_heap ?l)" using lock_invD(1) [OF inv, of k x] by simp
next
  fix q x assume "map_of (kl_procs ?l) q = Some x"
  then show "lp_entry x < length (kl_heap ?l)"
    using lock_invD(2) [OF inv, of q x] e by (auto split: if_splits)
next
  fix x assume "x < length (kl_heap ?l)"
  then have x: "x < length (kl_heap l)" by simp
  note ix = lock_invD(3) [OF inv x]
  have served: "served x ?l" if "served x l"
    using that by (rule served_cong) (use p in auto)
  have fresh: "p \<notin> set (le_queue (kl_heap l ! x))" using ix p by (auto simp: entry_inv_def)
  show "entry_inv x ?l"
  proof (cases "x = e")
    case True
    have "q \<in> set (le_queue (kl_heap ?l ! x)) \<longleftrightarrow> (\<exists>k. map_of (kl_procs ?l) q = Some (Waiting k x))" for q
      using ix e p True by (cases "q = p") (auto simp: entry_inv_def)
    with ix fresh served busy e True show ?thesis by (simp add: entry_inv_def)
  next
    case False
    have "map_of (kl_procs ?l) q = Some (Waiting k x) \<longleftrightarrow> map_of (kl_procs l) q = Some (Waiting k x)" for q k
      using p False by auto
    with ix served False show ?thesis by (simp add: entry_inv_def)
  qed
qed

lemma lock_arrive_inv:
  assumes "lock_inv l" and "map_of (kl_procs l) p = None"
  shows "lock_inv (lock_arrive key p l)"
proof -
  obtain e l1 where f: "find_entry key l = (e, l1)" by (cases "find_entry key l")
  note fi = find_entry_inv [OF assms(1) f]
  have p: "map_of (kl_procs l1) p = None" using assms(2) fi(3) by simp
  show ?thesis
    using lock_queue_inv [OF fi(1,2) p] lock_hold_inv [OF fi(1,2), of p key] p
    by (simp add: lock_arrive_def f)
qed

lemma lock_wake_inv: "lock_inv l \<Longrightarrow> lock_inv (lock_wake p l)"
  using lock_invD(2) [of l p] lock_hold_inv
  by (fastforce simp: lock_wake_def split: option.split lock_proc.split)

lemma lock_leave_last:
  "map_of (kl_procs l) p = Some (Holding key e) \<Longrightarrow> le_queue (kl_heap l ! e) = [] \<Longrightarrow>
   lock_leave p l = l\<lparr>kl_heap := (kl_heap l)[e := \<lparr>le_busy = False, le_queue = []\<rparr>],
     kl_procs := jsmap_delete p (kl_procs l), kl_map := jsmap_delete key (kl_map l)\<rparr>"
  by (simp add: lock_leave_def)

lemma lock_leave_next:
  "map_of (kl_procs l) p = Some (Holding key e) \<Longrightarrow> le_queue (kl_heap l ! e) = q # qs \<Longrightarrow>
   lock_leave p l = l\<lparr>kl_heap := (kl_heap l)[e := \<lparr>le_busy = False, le_queue = qs\<rparr>],
     kl_procs := jsmap_set q (Woken (own_key q key l) e) (jsmap_delete p (kl_procs l)),
     kl_map := (if qs = [] then jsmap_delete key (kl_map l) else kl_map l)\<rparr>"
  by (simp add: lock_leave_def)

lemma release_last_inv:
  assumes inv: "lock_inv l" and p: "map_of (kl_procs l) p = Some (Holding key e)"
    and Nil: "le_queue (kl_heap l ! e) = []"
  shows "lock_inv (lock_leave p l)" (is "lock_inv ?l")
proof (rule lock_invI)
  fix k x assume "map_of (kl_map ?l) k = Some x"
  then show "x < length (kl_heap ?l)"
    using lock_invD(1) [OF inv, of k x] by (simp add: lock_leave_last [OF p Nil] split: if_splits)
next
  fix q x assume "map_of (kl_procs ?l) q = Some x"
  then show "lp_entry x < length (kl_heap ?l)"
    using lock_invD(2) [OF inv, of q x] by (simp add: lock_leave_last [OF p Nil] split: if_splits)
next
  fix x assume "x < length (kl_heap ?l)"
  then have x: "x < length (kl_heap l)" by (simp add: lock_leave_last [OF p Nil])
  note ix = lock_invD(3) [OF inv x]
  have "served x ?l" if "served x l" "x \<noteq> e"
    using that(1) by (rule served_cong) (use p that(2) in \<open>auto simp: lock_leave_last [OF p Nil]\<close>)
  moreover have "map_of (kl_procs ?l) q = Some (Waiting k x)
      \<longleftrightarrow> map_of (kl_procs l) q = Some (Waiting k x)" for q k
    using p by (auto simp: lock_leave_last [OF p Nil])
  moreover have "le_queue (kl_heap ?l ! x) = le_queue (kl_heap l ! x)"
    "le_busy (kl_heap ?l ! x) = (x \<noteq> e \<and> le_busy (kl_heap l ! x))"
    using x Nil by (cases "x = e"; simp add: lock_leave_last [OF p Nil])+
  ultimately show "entry_inv x ?l" using ix Nil by (cases "x = e") (simp_all add: entry_inv_def)
qed

lemma release_next_inv:
  assumes inv: "lock_inv l" and p: "map_of (kl_procs l) p = Some (Holding key e)"
    and Cons: "le_queue (kl_heap l ! e) = q # qs"
  shows "lock_inv (lock_leave p l)" (is "lock_inv ?l")
proof (rule lock_invI)
  fix k x assume "map_of (kl_map ?l) k = Some x"
  then show "x < length (kl_heap ?l)"
    using lock_invD(1) [OF inv, of k x] by (simp add: lock_leave_next [OF p Cons] split: if_splits)
next
  fix r x assume "map_of (kl_procs ?l) r = Some x"
  then show "lp_entry x < length (kl_heap ?l)"
    using lock_invD(2) [OF inv, of r x] lock_invD(2) [OF inv p]
    by (auto simp: lock_leave_next [OF p Cons] split: if_splits)
next
  have e: "e < length (kl_heap l)" using lock_invD(2) [OF inv p] by simp
  note ie = lock_invD(3) [OF inv e]
  fix x assume "x < length (kl_heap ?l)"
  then have x: "x < length (kl_heap l)" by (simp add: lock_leave_next [OF p Cons])
  note ix = lock_invD(3) [OF inv x]
  obtain k0 where q: "map_of (kl_procs l) q = Some (Waiting k0 e)"
    using ie Cons by (auto simp: entry_inv_def)
  have mine: "served e ?l"
    by (rule served_by [of ?l q "own_key q key l"]) (simp add: lock_leave_next [OF p Cons])
  have others: "served x ?l" if "served x l" "x \<noteq> e"
    using that(1) by (rule served_cong) (use p q that(2) in \<open>auto simp: lock_leave_next [OF p Cons]\<close>)
  have waiting: "map_of (kl_procs ?l) r = Some (Waiting k x)
      \<longleftrightarrow> r \<noteq> q \<and> map_of (kl_procs l) r = Some (Waiting k x)" for r k
    using p q by (auto simp: lock_leave_next [OF p Cons])
  have heap: "le_queue (kl_heap ?l ! x) = (if x = e then qs else le_queue (kl_heap l ! x))"
    "le_busy (kl_heap ?l ! x) = (x \<noteq> e \<and> le_busy (kl_heap l ! x))"
    using x by (cases "x = e"; simp add: lock_leave_next [OF p Cons])+
  show "entry_inv x ?l"
  proof (cases "x = e")
    case True
    with mine ie Cons show ?thesis unfolding entry_inv_def waiting heap by auto
  next
    case False
    then have "q \<notin> set (le_queue (kl_heap l ! x))" using q ix by (auto simp: entry_inv_def)
    with False others ix show ?thesis unfolding entry_inv_def waiting heap by auto
  qed
qed

lemma lock_step_inv: "lock_step l l' \<Longrightarrow> lock_inv l \<Longrightarrow> lock_inv l'"
proof (induction rule: lock_step.induct)
  case (releases l p key e)
  then show ?case by (cases "le_queue (kl_heap l ! e)") (auto intro: release_last_inv release_next_inv)
qed (auto intro: lock_arrive_inv lock_wake_inv)

lemma new_lock_inv: "l = new_lock \<Longrightarrow> lock_inv l"
  by (simp add: lock_inv_def new_lock_def)

interpretation kl: invariant_system "\<lambda>l. l = new_lock" lock_step lock_inv
  by unfold_locales (rule new_lock_inv, simp, rule lock_step_inv)

section \<open>Every waiting caller can be served\<close>

lemma active_holds:
  assumes inv: "lock_inv l" and r: "served e l"
  shows "\<exists>l1 r k. lock_step\<^sup>*\<^sup>* l l1 \<and> map_of (kl_procs l1) r = Some (Holding k e)
    \<and> le_queue (kl_heap l1 ! e) = le_queue (kl_heap l ! e)
    \<and> (\<forall>p key. map_of (kl_procs l) p = Some (Waiting key e) \<longrightarrow> map_of (kl_procs l1) p = Some (Waiting key e))"
proof -
  from r obtain r k where "map_of (kl_procs l) r \<in> {Some (Holding k e), Some (Woken k e)}"
    by (auto simp: served_def)
  then consider "map_of (kl_procs l) r = Some (Holding k e)" | "map_of (kl_procs l) r = Some (Woken k e)"
    by blast
  then show ?thesis
  proof cases
    case 2
    then have w: "lock_wake r l = lock_hold k e r l" by (simp add: lock_wake_def)
    have e: "e < length (kl_heap l)" using lock_invD(2) [OF inv 2] by simp
    from wakes [OF 2] have "lock_step\<^sup>*\<^sup>* l (lock_hold k e r l)" by (simp add: w)
    moreover have "map_of (kl_procs (lock_hold k e r l)) r = Some (Holding k e)"
      "le_queue (kl_heap (lock_hold k e r l) ! e) = le_queue (kl_heap l ! e)"
      "\<forall>p key. map_of (kl_procs l) p = Some (Waiting key e)
        \<longrightarrow> map_of (kl_procs (lock_hold k e r l)) p = Some (Waiting key e)"
      using 2 e by (auto simp: lock_hold_def)
    ultimately show ?thesis by blast
  qed blast
qed

lemma waiter_step:
  assumes inv: "lock_inv l" and p: "map_of (kl_procs l) p = Some (Waiting key e)"
    and queue: "le_queue (kl_heap l ! e) = q # qs"
  shows "\<exists>l'. lock_step\<^sup>*\<^sup>* l l' \<and>
    (if q = p then map_of (kl_procs l') p = Some (Woken key e)
     else map_of (kl_procs l') p = Some (Waiting key e) \<and> le_queue (kl_heap l' ! e) = qs)"
proof -
  from active_holds [OF inv waiting_queued(3) [OF inv p]] obtain l1 r k where
    l1: "lock_step\<^sup>*\<^sup>* l l1" "map_of (kl_procs l1) r = Some (Holding k e)"
    "le_queue (kl_heap l1 ! e) = q # qs" "map_of (kl_procs l1) p = Some (Waiting key e)"
    using p queue by auto
  let ?l = "lock_leave r l1"
  have "lock_step\<^sup>*\<^sup>* l ?l" using l1(1) releases [OF l1(2)] by (rule rtranclp.rtrancl_into_rtrancl)
  moreover have "e < length (kl_heap l1)"
    using lock_invD(2) [OF kl.steps_inv [OF l1(1) inv] l1(2)] by simp
  then have "if q = p then map_of (kl_procs ?l) p = Some (Woken key e)
     else map_of (kl_procs ?l) p = Some (Waiting key e) \<and> le_queue (kl_heap ?l ! e) = qs"
    using l1(2,4) by (auto simp: lock_leave_next [OF l1(2,3)] own_key_def)
  ultimately show ?thesis by blast
qed

lemma waiter_woken:
  "lock_inv l \<Longrightarrow> map_of (kl_procs l) p = Some (Waiting key e) \<Longrightarrow>
     \<exists>l'. lock_step\<^sup>*\<^sup>* l l' \<and> map_of (kl_procs l') p = Some (Woken key e)"
proof (induction "le_queue (kl_heap l ! e)" arbitrary: l)
  case Nil
  with waiting_queued(2) [OF Nil(2,3)] show ?case by simp
next
  case (Cons q qs)
  from waiter_step [OF Cons(3,4) Cons(2) [symmetric]] obtain l1 where l1: "lock_step\<^sup>*\<^sup>* l l1"
    "if q = p then map_of (kl_procs l1) p = Some (Woken key e)
     else map_of (kl_procs l1) p = Some (Waiting key e) \<and> le_queue (kl_heap l1 ! e) = qs" by blast
  show ?case
  proof (cases "q = p")
    case False
    with l1 have "qs = le_queue (kl_heap l1 ! e)" "map_of (kl_procs l1) p = Some (Waiting key e)" by auto
    from Cons(1) [OF this(1) kl.steps_inv [OF l1(1) Cons(3)] this(2)]
    obtain l' where "lock_step\<^sup>*\<^sup>* l1 l'" "map_of (kl_procs l') p = Some (Woken key e)" by blast
    with l1(1) show ?thesis by (meson rtranclp_trans)
  qed (use l1 in auto)
qed

section \<open>Properties\<close>

text \<open>C11: No caller is forgotten. In every reachable state, whoever waits for a key is queued on
  an entry some active caller will release, and the steps of the callers ahead of it lead to a
  state in which it holds the key.\<close>

theorem waiter_can_hold:
  assumes "lock_step\<^sup>*\<^sup>* new_lock l" and "map_of (kl_procs l) p = Some (Waiting key e)"
  shows "p \<in> set (le_queue (kl_heap l ! e)) \<and> served e l
    \<and> (\<exists>l'. lock_step\<^sup>*\<^sup>* l l' \<and> holds p key l')"
proof -
  have inv: "lock_inv l" using assms(1) by (intro kl.reach_inv [of new_lock]) auto
  from waiter_woken [OF inv assms(2)] obtain l1 where
    l1: "lock_step\<^sup>*\<^sup>* l l1" "map_of (kl_procs l1) p = Some (Woken key e)" by blast
  have "lock_step\<^sup>*\<^sup>* l (lock_wake p l1)"
    using l1(1) wakes [OF l1(2)] by (rule rtranclp.rtrancl_into_rtrancl)
  moreover have "holds p key (lock_wake p l1)"
    by (simp add: holds_def lock_wake_def l1(2) lock_hold_def)
  ultimately show ?thesis using waiting_queued(2,3) [OF inv assms(2)] by blast
qed

definition demo_waiting :: key_lock where
  "demo_waiting = lock_arrive ''k'' 2 (lock_arrive ''k'' 1 new_lock)"

lemmas lock_eval = demo_waiting_def lock_arrive_def find_entry_def lock_hold_def lock_leave_def
  lock_wake_def own_key_def new_lock_def jsmap_delete_def holds_def

lemma demo_waiting: "lock_step\<^sup>*\<^sup>* new_lock demo_waiting"
  "map_of (kl_procs demo_waiting) 2 = Some (Waiting ''k'' 0)"
proof -
  have "lock_step new_lock (lock_arrive ''k'' 1 new_lock)" by (rule arrives) (simp add: lock_eval)
  moreover have "lock_step (lock_arrive ''k'' 1 new_lock) demo_waiting"
    unfolding demo_waiting_def by (rule arrives) (simp add: lock_eval)
  ultimately show "lock_step\<^sup>*\<^sup>* new_lock demo_waiting" by auto
  show "map_of (kl_procs demo_waiting) 2 = Some (Waiting ''k'' 0)" by (simp add: lock_eval)
qed

theorem waiter_can_hold_witness: "\<exists>l. lock_step\<^sup>*\<^sup>* demo_waiting l \<and> holds 2 ''k'' l"
  using waiter_can_hold [OF demo_waiting] by blast

text \<open>C10: The lock does not exclude. When a caller leaves while one other waits, the key is
  deleted from the map although its entry is about to be held again; a third caller that then
  arrives makes a new entry and enters at once, so two callers hold the same key.\<close>

theorem two_callers_hold_one_key:
  "\<exists>l. lock_step\<^sup>*\<^sup>* new_lock l \<and> holds 2 key l \<and> holds 3 key l"
proof -
  define l1 where "l1 = lock_arrive key 1 new_lock"
  define l2 where "l2 = lock_arrive key 2 l1"
  define l3 where "l3 = lock_leave 1 l2"
  define l4 where "l4 = lock_wake 2 l3"
  define l5 where "l5 = lock_arrive key 3 l4"
  have l2: "l2 = \<lparr>kl_map = [(key, 0)], kl_heap = [\<lparr>le_busy = True, le_queue = [2]\<rparr>],
      kl_procs = [(1, Holding key 0), (2, Waiting key 0)]\<rparr>" by (simp add: l1_def l2_def lock_eval)
  have l3: "l3 = \<lparr>kl_map = [], kl_heap = [\<lparr>le_busy = False, le_queue = []\<rparr>],
      kl_procs = [(2, Woken key 0)]\<rparr>" by (simp add: l2 l3_def lock_eval)
  have l4: "l4 = \<lparr>kl_map = [], kl_heap = [\<lparr>le_busy = True, le_queue = []\<rparr>],
      kl_procs = [(2, Holding key 0)]\<rparr>" by (simp add: l3 l4_def lock_eval)
  have s1: "lock_step new_lock l1" unfolding l1_def by (rule arrives) (simp add: lock_eval)
  have s2: "lock_step l1 l2" unfolding l2_def by (rule arrives) (simp add: l1_def lock_eval)
  have s3: "lock_step l2 l3" unfolding l3_def by (rule releases [where key = key and e = 0]) (simp add: l2)
  have s4: "lock_step l3 l4" unfolding l4_def by (rule wakes [where key = key and e = 0]) (simp add: l3)
  have s5: "lock_step l4 l5" unfolding l5_def by (rule arrives) (simp add: l4)
  note run = rtranclp.rtrancl_into_rtrancl
  from run [OF run [OF run [OF run [OF r_into_rtranclp [of lock_step, OF s1] s2] s3] s4] s5]
  have "lock_step\<^sup>*\<^sup>* new_lock l5" .
  moreover have "holds 2 key l5" "holds 3 key l5" by (simp_all add: l5_def l4 lock_eval)
  ultimately show ?thesis by blast
qed

end
