(* ===== verification/X402_Payments.thy ===== *)
theory X402_Payments
  imports Payment_Ledger Job_Writes Key_Lock
begin

text \<open>
  \<open>inspectX402\<close>, \<open>payX402\<close> and \<open>batchPayX402\<close> (\<open>arclayer-runner/src/services.ts\<close>). A
  payment awaits many times, and other requests run in between, so it is a machine with one
  program counter per \<open>await\<close>; \<open>pay_advance\<close> is the code from one \<open>await\<close> to the next. The
  machines of a process share the ledger file, the receipts file and the lock per key, and a
  crash may end the process at any point.
\<close>

section \<open>Errors a payment sees\<close>

text \<open>A thrown value: its message (or \<open>String(error)\<close>), its class and its \<open>code\<close>.\<close>

record js_error =
  je_text :: string
  je_error :: bool
  je_broker :: bool
  je_name :: string
  je_code :: "string option"

definition runner_js :: "runner_error \<Rightarrow> js_error" where
  "runner_js e = \<lparr>je_text = err_message e, je_error = True, je_broker = False,
     je_name = ''RunnerError'', je_code = Some (err_code e)\<rparr>"

fun thrown_js :: "thrown \<Rightarrow> js_error" where
  "thrown_js (ThrownRunner e) = runner_js e"
| "thrown_js (ThrownError m) = \<lparr>je_text = m, je_error = True, je_broker = False,
     je_name = ''Error'', je_code = None\<rparr>"
| "thrown_js ThrownOther = \<lparr>je_text = ''undefined'', je_error = False, je_broker = False,
     je_name = [], je_code = None\<rparr>"

definition isBrokerAbortOrTimeout :: "js_error \<Rightarrow> bool \<Rightarrow> bool" where
  \<comment> \<open>the second argument is \<open>signal?.aborted\<close>\<close>
  "isBrokerAbortOrTimeout err aborted =
     (if je_broker err \<and> je_code err = Some ''BROKER_TOOL_TIMEOUT'' then True
      else if aborted then True
      else if je_error err \<and> je_name err = ''AbortError'' then True
      else je_code err = Some ''ABORT_ERR'')"

definition isAlreadyPaid :: "string \<Rightarrow> bool" where
  "isAlreadyPaid msg \<longleftrightarrow> includes_str msg ''409'' \<and>
     (includes_str msg ''already'' \<or> includes_str msg ''active access session''
      \<or> includes_str msg ''Payment submitted'')"

section \<open>Inspection\<close>

definition inspectX402 ::
  "(string \<Rightarrow> string) \<Rightarrow> runner_config \<Rightarrow> (payment \<Rightarrow> js_error + exec_result) option \<Rightarrow> payment
     \<Rightarrow> js_error + exec_result" where
  \<comment> \<open>the wallet's \<open>inspectService\<close>, when it has one, is a parameter\<close>
  "inspectX402 host cfg inspectService p =
     (case assertX402InspectAllowed host cfg p of
        Inl e \<Rightarrow> Inl (thrown_js e)
      | Inr _ \<Rightarrow>
          (case inspectService of
             None \<Rightarrow> Inl (runner_js (RunnerError ''X402_INSPECT_UNSUPPORTED''
               ''x402 inspect is not supported by the current wallet adapter'' 501))
           | Some f \<Rightarrow> f p))"

section \<open>One payment\<close>

datatype pay_outcome =
  PaidWith exec_result
| AlreadyPaidWith string
| FailedWith string
| UnknownState string
| BatchWith "(payment \<times> string option) list"

record pay_receipt =
  pr_id :: string
  pr_created :: nat
  pr_agent :: string
  pr_task :: "string option"
  pr_key :: "string option"
  pr_request :: "payment list"
  pr_outcome :: pay_outcome

datatype pay_reply =
  PaidBefore ledger_record "pay_receipt option"
| PaidNow string
| PaidAlready string
| PayThrew js_error

datatype pay_pc =
  AskSucceeded
| FindReceipt ledger_record
| AskPending
| AskDaily
| AskMonthly
| WriteAttempt
| CallWallet
| InWallet
| SaveReceipt exec_result
| WriteSuccess string bool
| SaveUnknown js_error
| SavePaid js_error
| WriteFailure js_error
| SaveFailure js_error
| Ended pay_reply

record pay_call =
  pc_payment :: payment
  pc_key :: string
  pc_pc :: pay_pc

record pay_world =
  pw_ledger :: pay_ledger
  pw_receipts :: "pay_receipt jsonl"

text \<open>
  What a step gets from outside: the clock, a random id, the error of its file operation if
  it has one (with how much of the line was written), and whether the caller's signal is
  aborted.
\<close>

record pay_input =
  pi_now :: nat
  pi_id :: string
  pi_io :: "js_error option"
  pi_torn :: torn
  pi_aborted :: bool

definition seen :: "pay_input \<Rightarrow> 'r jsonl \<Rightarrow> 'r jsonl" where
  \<comment> \<open>\<open>readAll\<close> answers \<open>[]\<close> when the file cannot be read\<close>
  "seen inp f = (if pi_io inp = None then f else empty_jsonl)"

definition written :: "pay_input \<Rightarrow> 'r \<Rightarrow> 'r jsonl \<Rightarrow> 'r jsonl" where
  "written inp r f = (if pi_io inp = None then jsonl_append r f else torn_append (pi_torn inp) r f)"

definition catch_pay :: "pay_input \<Rightarrow> js_error \<Rightarrow> pay_pc" where
  \<comment> \<open>the \<open>catch\<close> block up to its first \<open>await\<close>\<close>
  "catch_pay inp err =
     (if isBrokerAbortOrTimeout err (pi_aborted inp) then SaveUnknown err
      else if isAlreadyPaid (je_text err) then SavePaid err
      else WriteFailure err)"

definition findByIdempotencyKey :: "string \<Rightarrow> pay_receipt jsonl \<Rightarrow> pay_receipt option" where
  "findByIdempotencyKey key f = find (\<lambda>r. pr_key r = Some key) (jsonl_list 10000 f)"

definition pay_receipt_of :: "runner_config \<Rightarrow> pay_input \<Rightarrow> pay_call \<Rightarrow> pay_outcome \<Rightarrow> pay_receipt" where
  "pay_receipt_of cfg inp c x = \<lparr>pr_id = pi_id inp, pr_created = pi_now inp, pr_agent = cf_agentId cfg,
     pr_task = None, pr_key = Some (pc_key c), pr_request = [pc_payment c], pr_outcome = x\<rparr>"

definition attempt_of :: "pay_input \<Rightarrow> pay_call \<Rightarrow> ledger_record" where
  "attempt_of inp c = attempt_record (pi_id inp) (pi_now inp) (pc_key c) (pm_amount (pc_payment c))
     (case decimalToMicros (pm_amount (pc_payment c)) of Some m \<Rightarrow> int_str m | None \<Rightarrow> [])
     (pm_url (pc_payment c)) (pm_reason (pc_payment c))"

definition put_ledger :: "pay_input \<Rightarrow> ledger_record \<Rightarrow> pay_world \<Rightarrow> pay_world" where
  "put_ledger inp r w = w\<lparr>pw_ledger := written inp r (pw_ledger w)\<rparr>"

definition put_pay_receipt :: "runner_config \<Rightarrow> pay_input \<Rightarrow> pay_call \<Rightarrow> pay_outcome \<Rightarrow> pay_world \<Rightarrow> pay_world" where
  "put_pay_receipt cfg inp c x w =
     w\<lparr>pw_receipts := written inp (pay_receipt_of cfg inp c x) (pw_receipts w)\<rparr>"

text \<open>An error of the awaited file operation goes on at \<open>bad\<close>, success at \<open>ok\<close>.\<close>

definition after_io :: "pay_input \<Rightarrow> (js_error \<Rightarrow> pay_pc) \<Rightarrow> pay_pc \<Rightarrow> pay_pc" where
  "after_io inp bad ok = (case pi_io inp of Some err \<Rightarrow> bad err | None \<Rightarrow> ok)"

fun after_check :: "pay_pc \<Rightarrow> thrown + unit \<Rightarrow> pay_pc" where
  "after_check ok (Inl e) = Ended (PayThrew (thrown_js e))"
| "after_check ok (Inr u) = ok"

definition in_progress :: "string \<Rightarrow> js_error" where
  "in_progress key = runner_js (RunnerError ''PAYMENT_IN_PROGRESS''
     (''Payment with idempotencyKey '' @ key @ '' is already in progress'') 409)"

definition pay_unsupported :: js_error where
  "pay_unsupported = runner_js (RunnerError ''X402_PAY_UNSUPPORTED''
     ''x402 pay is not supported by the current wallet adapter'' 501)"

fun pay_goto :: "runner_config \<Rightarrow> bool \<Rightarrow> pay_input \<Rightarrow> pay_call \<Rightarrow> pay_world \<Rightarrow> pay_pc \<Rightarrow> pay_pc \<times> pay_world" where
  "pay_goto cfg supported inp c w AskSucceeded =
     (case hasSucceeded (pc_key c) (seen inp (pw_ledger w)) of
        Some r \<Rightarrow> ((if truthy (lr_receipt r) then FindReceipt r else Ended (PaidBefore r None)), w)
      | None \<Rightarrow> (AskPending, w))"
| "pay_goto cfg supported inp c w (FindReceipt r) =
     (Ended (PaidBefore r (findByIdempotencyKey (pc_key c) (seen inp (pw_receipts w)))), w)"
| "pay_goto cfg supported inp c w AskPending =
     (case hasPendingAttempt (pc_key c) (seen inp (pw_ledger w)) of
        Some r \<Rightarrow> (Ended (PayThrew (in_progress (pc_key c))), w)
      | None \<Rightarrow> (AskDaily, w))"
| "pay_goto cfg supported inp c w AskDaily =
     (after_check AskMonthly
        (assertDailyLimit cfg (pi_now inp) (seen inp (pw_ledger w)) (pm_amount (pc_payment c))), w)"
| "pay_goto cfg supported inp c w AskMonthly =
     (after_check WriteAttempt
        (assertMonthlyLimit cfg (pi_now inp) (seen inp (pw_ledger w)) (pm_amount (pc_payment c))), w)"
| "pay_goto cfg supported inp c w WriteAttempt =
     (after_io inp (\<lambda>err. Ended (PayThrew err)) CallWallet, put_ledger inp (attempt_of inp c) w)"
| "pay_goto cfg supported inp c w CallWallet =
     ((if supported then InWallet else catch_pay inp pay_unsupported), w)"
| "pay_goto cfg supported inp c w InWallet = (InWallet, w)"
| "pay_goto cfg supported inp c w (SaveReceipt result) =
     (after_io inp (catch_pay inp) (WriteSuccess (pi_id inp) False),
      put_pay_receipt cfg inp c (PaidWith result) w)"
| "pay_goto cfg supported inp c w (WriteSuccess rid already) =
     (after_io inp (\<lambda>err. if already then Ended (PayThrew err) else catch_pay inp err)
        (Ended (if already then PaidAlready rid else PaidNow rid)),
      put_ledger inp (success_record (pi_id inp) (pi_now inp) (pc_key c) (Some rid)) w)"
| "pay_goto cfg supported inp c w (SaveUnknown err) =
     (after_io inp (\<lambda>e. Ended (PayThrew e)) (Ended (PayThrew err)),
      put_pay_receipt cfg inp c (UnknownState (je_text err)) w)"
| "pay_goto cfg supported inp c w (SavePaid err) =
     (after_io inp (\<lambda>e. Ended (PayThrew e)) (WriteSuccess (pi_id inp) True),
      put_pay_receipt cfg inp c (AlreadyPaidWith (je_text err)) w)"
| "pay_goto cfg supported inp c w (WriteFailure err) =
     (after_io inp (\<lambda>e. Ended (PayThrew e)) (SaveFailure err),
      put_ledger inp (failure_record (pi_id inp) (pi_now inp) (pc_key c) (je_text err)) w)"
| "pay_goto cfg supported inp c w (SaveFailure err) =
     (after_io inp (\<lambda>e. Ended (PayThrew e)) (Ended (PayThrew err)),
      put_pay_receipt cfg inp c (FailedWith (je_text err)) w)"
| "pay_goto cfg supported inp c w (Ended r) = (Ended r, w)"

definition pay_advance ::
  "runner_config \<Rightarrow> bool \<Rightarrow> pay_input \<Rightarrow> pay_call \<times> pay_world \<Rightarrow> pay_call \<times> pay_world" where
  "pay_advance cfg supported inp s =
     (case pay_goto cfg supported inp (fst s) (snd s) (pc_pc (fst s)) of
        (pc, w) \<Rightarrow> ((fst s)\<lparr>pc_pc := pc\<rparr>, w))"

definition pay_answer :: "pay_input \<Rightarrow> js_error + exec_result \<Rightarrow> pay_call \<Rightarrow> pay_call" where
  \<comment> \<open>\<open>payService\<close> settles\<close>
  "pay_answer inp answer c =
     c\<lparr>pc_pc := (case answer of Inl err \<Rightarrow> catch_pay inp err | Inr result \<Rightarrow> SaveReceipt result)\<rparr>"

definition pay_begin ::
  "(string \<Rightarrow> string) \<Rightarrow> runner_config \<Rightarrow> string \<Rightarrow> payment \<Rightarrow> js_error + pay_call" where
  \<comment> \<open>\<open>payX402\<close> before the lock; \<open>uuid\<close> is \<open>randomUUID()\<close>\<close>
  "pay_begin host cfg uuid p =
     (case assertX402PaymentAllowed host cfg p of
        Inl e \<Rightarrow> Inl (thrown_js e)
      | Inr _ \<Rightarrow> Inr \<lparr>pc_payment = p, pc_key = or_else (pm_key p) uuid, pc_pc = AskSucceeded\<rparr>)"

section \<open>A payment without interruption\<close>

text \<open>
  \<open>pay_until n\<close> runs at most \<open>n\<close> steps with one clock reading and the wallet's answer;
  \<open>pay_steps\<close> is more than the longest path through the machine.
\<close>

fun pay_until ::
  "nat \<Rightarrow> runner_config \<Rightarrow> bool \<Rightarrow> pay_input \<Rightarrow> js_error + exec_result \<Rightarrow> pay_call \<times> pay_world
     \<Rightarrow> pay_call \<times> pay_world" where
  "pay_until 0 cfg supported inp answer s = s"
| "pay_until (Suc n) cfg supported inp answer s =
     (case pc_pc (fst s) of
        Ended r \<Rightarrow> s
      | InWallet \<Rightarrow> pay_until n cfg supported inp answer (pay_answer inp answer (fst s), snd s)
      | _ \<Rightarrow> pay_until n cfg supported inp answer (pay_advance cfg supported inp s))"

definition pay_steps :: nat where
  "pay_steps = 13"

definition payX402 ::
  "(string \<Rightarrow> string) \<Rightarrow> runner_config \<Rightarrow> bool \<Rightarrow> pay_input \<Rightarrow> js_error + exec_result \<Rightarrow> payment \<Rightarrow> pay_world
     \<Rightarrow> pay_reply \<times> pay_world" where
  "payX402 host cfg supported inp answer p w =
     (case pay_begin host cfg (pi_id inp) p of
        Inl e \<Rightarrow> (PayThrew e, w)
      | Inr c \<Rightarrow>
          (case pay_until pay_steps cfg supported inp answer (c, w) of
             (c', w') \<Rightarrow> (case pc_pc c' of Ended r \<Rightarrow> (r, w') | _ \<Rightarrow> (PayThrew pay_unsupported, w'))))"

section \<open>Batches\<close>

definition batch_key_material :: "payment \<Rightarrow> string" where
  "batch_key_material p = pm_url p @ ''|'' @ pm_method p @ ''|''
     @ json_text (if pm_body p = JUndef \<or> pm_body p = JNull then JStr [] else pm_body p) @ ''|'' @ pm_amount p"

fun batch_payments :: "crypto \<Rightarrow> string \<Rightarrow> nat \<Rightarrow> payment list \<Rightarrow> payment list" where
  \<comment> \<open>\<open>if (p.idempotencyKey) return p\<close>; otherwise a key from the batch, the place and the content\<close>
  "batch_payments env batchId i [] = []"
| "batch_payments env batchId i (p # ps) =
     (if truthy (pm_key p) then p
      else p\<lparr>pm_key := Some (''batch:'' @ batchId @ '':item:'' @ nat_str i @ '':''
        @ take 16 (sha256Text env (batch_key_material p)))\<rparr>) # batch_payments env batchId (Suc i) ps"

datatype batch_item =
  ItemPaid payment pay_reply
| ItemFailed payment string

text \<open>The loop stops after the first payment that throws. \<open>pay\<close> is one whole \<open>payX402\<close>.\<close>

fun batch_loop :: "(payment \<Rightarrow> 'w \<Rightarrow> pay_reply \<times> 'w) \<Rightarrow> payment list \<Rightarrow> 'w \<Rightarrow> batch_item list \<times> 'w" where
  "batch_loop pay [] w = ([], w)"
| "batch_loop pay (p # ps) w =
     (case pay p w of
        (PayThrew err, w1) \<Rightarrow> ([ItemFailed p (je_text err)], w1)
      | (r, w1) \<Rightarrow> (case batch_loop pay ps w1 of (items, w2) \<Rightarrow> (ItemPaid p r # items, w2)))"

fun batch_entry :: "batch_item \<Rightarrow> payment \<times> string option" where
  "batch_entry (ItemPaid p r) = (p, None)"
| "batch_entry (ItemFailed p err) = (p, Some err)"

definition batch_receipt ::
  "runner_config \<Rightarrow> pay_input \<Rightarrow> string \<Rightarrow> payment list \<Rightarrow> batch_item list \<Rightarrow> pay_receipt" where
  \<comment> \<open>of each result the receipt keeps here whether it failed and with what\<close>
  "batch_receipt cfg inp taskId payments items = \<lparr>pr_id = pi_id inp, pr_created = pi_now inp,
     pr_agent = cf_agentId cfg, pr_task = Some taskId, pr_key = None, pr_request = payments,
     pr_outcome = BatchWith (map batch_entry items)\<rparr>"

definition batchPayX402 ::
  "crypto \<Rightarrow> (string \<Rightarrow> string) \<Rightarrow> runner_config \<Rightarrow> pay_input \<Rightarrow> (payment \<Rightarrow> pay_world \<Rightarrow> pay_reply \<times> pay_world)
     \<Rightarrow> string \<Rightarrow> string \<Rightarrow> payment list \<Rightarrow> pay_world \<Rightarrow> (js_error + batch_item list) \<times> pay_world" where
  \<comment> \<open>\<open>inp\<close> is what the last \<open>append\<close> gets from outside\<close>
  "batchPayX402 env host cfg inp pay batchId taskId ps w =
     (let payments = batch_payments env batchId 0 ps
      in case assertBatchAllowed host cfg payments of
           Inl e \<Rightarrow> (Inl (thrown_js e), w)
         | Inr _ \<Rightarrow>
             (case batch_loop pay payments w of
                (items, w1) \<Rightarrow>
                  (case pi_io inp of Some err \<Rightarrow> Inl err | None \<Rightarrow> Inr items,
                   w1\<lparr>pw_receipts := written inp (batch_receipt cfg inp taskId payments items) (pw_receipts w1)\<rparr>)))"

section \<open>The system\<close>

text \<open>
  One runner process: the files, the lock, the payments in progress by process number, and a
  log of what was sent to the wallet (key and amount). \<open>faulty\<close> says whether file operations
  may fail and lines may be torn.
\<close>

record pay_system =
  sy_world :: pay_world
  sy_lock :: key_lock
  sy_calls :: "(nat \<times> pay_call) list"
  sy_sent :: "(string \<times> string) list"

definition pay_initial :: pay_system where
  "pay_initial = \<lparr>sy_world = \<lparr>pw_ledger = empty_jsonl, pw_receipts = empty_jsonl\<rparr>, sy_lock = new_lock,
     sy_calls = [], sy_sent = []\<rparr>"

fun writes_file :: "pay_pc \<Rightarrow> bool" where
  "writes_file WriteAttempt = True"
| "writes_file (SaveReceipt _) = True"
| "writes_file (WriteSuccess _ _) = True"
| "writes_file (SaveUnknown _) = True"
| "writes_file (SavePaid _) = True"
| "writes_file (WriteFailure _) = True"
| "writes_file (SaveFailure _) = True"
| "writes_file _ = False"

fun pc_ended :: "pay_pc \<Rightarrow> bool" where
  "pc_ended (Ended _) = True"
| "pc_ended _ = False"

definition fault_free :: "pay_input \<Rightarrow> pay_pc \<Rightarrow> bool" where
  \<comment> \<open>no read fails, and a write that fails leaves the file as it was\<close>
  "fault_free inp pc \<longleftrightarrow> pi_io inp = None \<or> writes_file pc \<and> pi_torn inp = TornNothing"

definition pay_put :: "nat \<Rightarrow> pay_call \<Rightarrow> pay_world \<Rightarrow> pay_system \<Rightarrow> pay_system" where
  "pay_put p c w s = s\<lparr>sy_calls := jsmap_set p c (sy_calls s), sy_world := w,
     sy_sent := (if pc_pc c = InWallet then sy_sent s @ [(pc_key c, pm_amount (pc_payment c))] else sy_sent s)\<rparr>"

fun ledger_write :: "pay_input \<Rightarrow> pay_call \<Rightarrow> pay_pc \<Rightarrow> ledger_record option" where
  \<comment> \<open>the record a step appends to the ledger\<close>
  "ledger_write inp c WriteAttempt = Some (attempt_of inp c)"
| "ledger_write inp c (WriteSuccess rid already) =
     Some (success_record (pi_id inp) (pi_now inp) (pc_key c) (Some rid))"
| "ledger_write inp c (WriteFailure err) =
     Some (failure_record (pi_id inp) (pi_now inp) (pc_key c) (je_text err))"
| "ledger_write inp c _ = None"

definition crash_ledger :: "torn \<Rightarrow> pay_input \<Rightarrow> pay_call \<Rightarrow> pay_ledger \<Rightarrow> pay_ledger" where
  \<comment> \<open>the process dies while the call \<open>c\<close> appends\<close>
  "crash_ledger t inp c f = (case ledger_write inp c (pc_pc c) of None \<Rightarrow> f | Some r \<Rightarrow> torn_append t r f)"

inductive pay_step ::
  "(string \<Rightarrow> string) \<Rightarrow> runner_config \<Rightarrow> bool \<Rightarrow> bool \<Rightarrow> pay_system \<Rightarrow> pay_system \<Rightarrow> bool"
  for host :: "string \<Rightarrow> string" and cfg :: runner_config and supported :: bool and faulty :: bool where
  pay_arrive: "map_of (sy_calls s) p = None \<Longrightarrow> pay_begin host cfg uuid pm = Inr c \<Longrightarrow>
     pay_step host cfg supported faulty s
       (s\<lparr>sy_calls := jsmap_set p c (sy_calls s), sy_lock := lock_arrive (pc_key c) p (sy_lock s)\<rparr>)"
| pay_wake: "map_of (kl_procs (sy_lock s)) p = Some (Woken key e) \<Longrightarrow>
     pay_step host cfg supported faulty s (s\<lparr>sy_lock := lock_wake p (sy_lock s)\<rparr>)"
| pay_run: "map_of (sy_calls s) p = Some c \<Longrightarrow> holds p (pc_key c) (sy_lock s) \<Longrightarrow>
     pc_pc c \<noteq> InWallet \<Longrightarrow> \<not> pc_ended (pc_pc c) \<Longrightarrow> faulty \<or> fault_free inp (pc_pc c) \<Longrightarrow>
     pay_advance cfg supported inp (c, sy_world s) = (c', w') \<Longrightarrow>
     pay_step host cfg supported faulty s (pay_put p c' w' s)"
| pay_settle: "map_of (sy_calls s) p = Some c \<Longrightarrow> pc_pc c = InWallet \<Longrightarrow>
     pay_step host cfg supported faulty s (s\<lparr>sy_calls := jsmap_set p (pay_answer inp answer c) (sy_calls s)\<rparr>)"
| pay_leave: "map_of (sy_calls s) p = Some c \<Longrightarrow> pc_ended (pc_pc c) \<Longrightarrow> holds p (pc_key c) (sy_lock s) \<Longrightarrow>
     pay_step host cfg supported faulty s
       (s\<lparr>sy_calls := jsmap_delete p (sy_calls s), sy_lock := lock_leave p (sy_lock s)\<rparr>)"
| pay_stop:
     "pay_step host cfg supported faulty s (s\<lparr>sy_calls := [], sy_lock := new_lock\<rparr>)"
| pay_crash: "faulty \<Longrightarrow> map_of (sy_calls s) p = Some c \<Longrightarrow> holds p (pc_key c) (sy_lock s) \<Longrightarrow>
     pay_step host cfg supported faulty s
       (s\<lparr>sy_calls := [], sy_lock := new_lock,
          sy_world := (sy_world s)\<lparr>pw_ledger := crash_ledger t inp c (pw_ledger (sy_world s))\<rparr>\<rparr>)"

section \<open>What one step does\<close>

lemma seen_ok [simp]: "pi_io inp = None \<Longrightarrow> seen inp f = f"
  by (simp add: seen_def)

lemma written_ok [simp]: "pi_io inp = None \<Longrightarrow> written inp r f = jsonl_append r f"
  by (simp add: written_def)

lemma written_failed [simp]: "pi_io inp = Some err \<Longrightarrow> pi_torn inp = TornNothing \<Longrightarrow> written inp r f = f"
  by (simp add: written_def)

lemma after_io_simps [simp]:
  "pi_io inp = None \<Longrightarrow> after_io inp bad ok = ok"
  "pi_io inp = Some err \<Longrightarrow> after_io inp bad ok = bad err"
  by (simp_all add: after_io_def)

lemma pay_put_sel [simp]:
  "sy_calls (pay_put p c w s) = jsmap_set p c (sy_calls s)" "sy_world (pay_put p c w s) = w"
  "sy_lock (pay_put p c w s) = sy_lock s"
  "sy_sent (pay_put p c w s) = (if pc_pc c = InWallet then sy_sent s @ [(pc_key c, pm_amount (pc_payment c))] else sy_sent s)"
  by (simp_all add: pay_put_def)

lemma catch_pay_pc:
  "catch_pay inp err \<noteq> InWallet" "catch_pay inp err \<noteq> CallWallet" "\<not> pc_ended (catch_pay inp err)"
  "catch_pay inp err \<noteq> AskSucceeded" "catch_pay inp err \<noteq> FindReceipt r"
  by (simp_all add: catch_pay_def)

lemma after_check_pc:
  "after_check ok v = InWallet \<Longrightarrow> ok = InWallet" "after_check ok v = CallWallet \<Longrightarrow> ok = CallWallet"
  by (cases v; simp)+

text \<open>A step appends its record to the ledger, or nothing; only \<open>WriteAttempt\<close> leads to the
  wallet call, and only that call to the wallet.\<close>

lemma goto_ledger:
  assumes "fault_free inp pc" and "jsonl_clean (pw_ledger w)"
    and "pay_goto cfg supported inp c w pc = (pc', w')"
  shows "jsonl_clean (pw_ledger w')"
    and "jsonl_read (pw_ledger w') = jsonl_read (pw_ledger w)
      @ (case ledger_write inp c pc of Some r \<Rightarrow> if pi_io inp = None then [r] else [] | None \<Rightarrow> [])"
  using assms by (cases pc; cases "pi_io inp";
    auto simp: fault_free_def put_ledger_def put_pay_receipt_def split: option.splits if_splits)+

lemma goto_wallet:
  assumes "pay_goto cfg supported inp c w pc = (pc', w')" and "pc \<noteq> InWallet"
  shows "pc' = InWallet \<Longrightarrow> pc = CallWallet \<and> w' = w"
    and "pc' = CallWallet \<Longrightarrow> pc = WriteAttempt \<and> pi_io inp = None"
  using assms by (cases pc; cases "pi_io inp";
    auto simp: catch_pay_pc dest: after_check_pc split: option.splits if_splits)+

lemma pay_advance_call:
  assumes "pay_advance cfg supported inp (c, w) = (c', w')"
  shows "pc_key c' = pc_key c" "pc_payment c' = pc_payment c"
    "pay_goto cfg supported inp c w (pc_pc c) = (pc_pc c', w')"
  using assms by (auto simp: pay_advance_def split: prod.splits)

end
