(* ===== verification/Tool_Broker.thy ===== *)
theory Tool_Broker
  imports X402_Payments
begin

text \<open>
  The broker in front of every tool call: \<open>McpToolBroker\<close>
  (\<open>arclayer-runner/src/mcp-broker.ts\<close>) and the pipeline around it,
  \<open>executeRunnerMcpTool\<close> (\<open>runner-mcp-executor.ts\<close>). A call is checked and reserved
  (\<open>exec_begin\<close>), its handler runs, and its outcome is recorded (\<open>exec_finish\<close>); calls
  overlap. The manifest of tools, the Zod schemas, the URL parser and the text sanitiser are
  parameters.
\<close>

section \<open>Parameters and state\<close>

record field_spec =
  fs_type :: "string option"
  fs_required :: bool

record broker_env =
  be_manifest :: "(string \<times> (string \<times> field_spec) list) list"
  be_console :: "string \<Rightarrow> bool"
  be_zod :: "string \<Rightarrow> (json \<Rightarrow> string option) option"
  be_url :: "string \<Rightarrow> string option"
  be_sanitize :: "string \<Rightarrow> string"

record tool_budget =
  tb_maxTotal :: "string option"
  tb_maxCalls :: "nat option"
  tb_defaultTimeout :: "nat option"
  tb_timeouts :: "(string \<times> nat) list"
  tb_maxOutput :: "nat option"
  tb_outputs :: "(string \<times> nat) list"

record audit_entry =
  ae_time :: nat
  ae_tool :: string
  ae_args :: json
  ae_ok :: bool
  ae_duration :: nat
  ae_bytes :: nat
  ae_code :: "string option"
  ae_message :: "string option"
  ae_cost :: "string option"
  ae_timedOut :: bool

record broker_state =
  bs_calls :: nat
  bs_pending :: nat
  bs_cost :: int
  bs_audit :: "audit_entry list"

definition new_broker :: broker_state where
  "new_broker = \<lparr>bs_calls = 0, bs_pending = 0, bs_cost = 0, bs_audit = []\<rparr>"

definition broker_error :: "string \<Rightarrow> string \<Rightarrow> js_error" where
  "broker_error c m = \<lparr>je_text = m, je_error = True, je_broker = True, je_name = ''BrokerError'', je_code = Some c\<rparr>"

definition NON_IDEMPOTENT_WRITE_TOOLS :: "string list" where
  "NON_IDEMPOTENT_WRITE_TOOLS = [''x402.pay'', ''x402.batch_pay'',
     ''erc8183.provider_submit_deliverable'', ''erc8183.provider_run_and_submit'', ''erc8183.create_job'',
     ''erc8183.set_budget'', ''erc8183.approve_usdc'', ''erc8183.fund_job'', ''erc8183.complete_job'',
     ''erc8183.reject_job'', ''erc8183.claim_refund'', ''erc8183.set_provider'', ''erc8004.register_execute'',
     ''erc8004.register_approval_execute'', ''erc8004.register_approval_approve_and_execute'',
     ''circle.gateway_deposit'']"

definition isNonIdempotentWrite :: "string \<Rightarrow> bool" where
  "isNonIdempotentWrite tool \<longleftrightarrow> tool \<in> set NON_IDEMPOTENT_WRITE_TOOLS"

section \<open>Arguments\<close>

definition SENSITIVE_FIELDS :: "string list" where
  "SENSITIVE_FIELDS = [''idempotencykey'', ''idempotency_key'', ''token'', ''bearer'', ''authorization'',
     ''secret'', ''password'', ''privatekey'', ''private_key'']"

definition redact_field :: "broker_env \<Rightarrow> string \<Rightarrow> json \<Rightarrow> json" where
  \<comment> \<open>\<open>be_url\<close> is the URL with its credentials masked, \<open>None\<close> when it does not parse\<close>
  "redact_field env key v =
     (if toLowerCase key \<in> set SENSITIVE_FIELDS then JStr ''[REDACTED]''
      else if key = ''body'' then JStr ''[REDACTED]''
      else (case v of
              JStr u \<Rightarrow>
                if key = ''url'' \<and> includes_str u ''@'' then
                  (case be_url env u of Some u' \<Rightarrow> JStr u' | None \<Rightarrow> JStr ''[REDACTED_URL]'')
                else v
            | _ \<Rightarrow> v))"

fun redactArgs :: "broker_env \<Rightarrow> json \<Rightarrow> json" where
  "redactArgs env (JObj kvs) = JObj (map (\<lambda>(k, v). (k, redact_field env k v)) kvs)"
| "redactArgs env _ = JObj []"

fun js_typeof :: "json \<Rightarrow> string" where
  "js_typeof JUndef = ''undefined''"
| "js_typeof (JBool b) = ''boolean''"
| "js_typeof (JNum n) = ''number''"
| "js_typeof (JStr s) = ''string''"
| "js_typeof _ = ''object''"

fun is_array :: "json \<Rightarrow> bool" where
  "is_array (JArr vs) = True"
| "is_array _ = False"

definition field_error :: "string \<Rightarrow> json \<Rightarrow> string \<Rightarrow> field_spec \<Rightarrow> js_error option" where
  "field_error tool args field spec =
     (let v = jget field args in
      if fs_required spec \<and> (v = JUndef \<or> v = JNull \<or> v = JStr []) then
        Some (broker_error ''BROKER_SCHEMA_VALIDATION_FAILED''
          (''Missing required field '' @ [CHR 0x27] @ field @ [CHR 0x27] @ '' for tool '' @ [CHR 0x27] @ tool @ [CHR 0x27]))
      else if v \<noteq> JUndef \<and> v \<noteq> JNull \<and> truthy (fs_type spec) then
        (let expected = or_else (fs_type spec) [] in
         if (expected \<in> {''string'', ''number'', ''boolean''} \<and> js_typeof v = expected)
            \<or> expected = ''object'' \<or> (expected = ''array'' \<and> is_array v) then None
         else Some (broker_error ''BROKER_SCHEMA_VALIDATION_FAILED''
           (''Field '' @ [CHR 0x27] @ field @ [CHR 0x27] @ '' expected '' @ expected @ '', got '' @ js_typeof v
              @ '' for tool '' @ [CHR 0x27] @ tool @ [CHR 0x27])))
      else None)"

fun first_error :: "js_error option list \<Rightarrow> js_error option" where
  "first_error [] = None"
| "first_error (x # xs) = (case x of Some e \<Rightarrow> Some e | None \<Rightarrow> first_error xs)"

definition validateToolArgs :: "broker_env \<Rightarrow> string \<Rightarrow> (string \<times> field_spec) list \<Rightarrow> json \<Rightarrow> js_error option" where
  "validateToolArgs env tool schema args =
     (case be_zod env tool of
        Some validate \<Rightarrow>
          (case validate args of
             None \<Rightarrow> None
           | Some err \<Rightarrow> Some (broker_error ''BROKER_SCHEMA_VALIDATION_FAILED''
               (''Schema validation failed for tool '' @ [CHR 0x27] @ tool @ [CHR 0x27] @ '': '' @ err)))
      | None \<Rightarrow> first_error (map (\<lambda>(field, spec). field_error tool args field spec) schema))"

definition measureOutputSize :: "json \<Rightarrow> nat" where
  \<comment> \<open>\<open>Buffer.byteLength(JSON.stringify(result))\<close>; \<open>undefined\<close> throws and counts 0\<close>
  "measureOutputSize v = (if v = JUndef then 0 else length (json_text v))"

fun payment_items :: "json list \<Rightarrow> int \<Rightarrow> js_error + int" where
  "payment_items [] acc = Inr acc"
| "payment_items (v # vs) acc =
     (case jget ''maxAmountUsdc'' v of
        JStr a \<Rightarrow> (case to_micros a of Inl e \<Rightarrow> Inl (thrown_js e) | Inr m \<Rightarrow> payment_items vs (acc + m))
      | _ \<Rightarrow> payment_items vs acc)"

definition extractCostMicrosFromArgs :: "string \<Rightarrow> json \<Rightarrow> js_error + int" where
  "extractCostMicrosFromArgs tool args =
     (if tool = ''x402.pay'' then
        (case jget ''maxAmountUsdc'' args of
           JStr a \<Rightarrow> if a \<noteq> [] then (case to_micros a of Inl e \<Rightarrow> Inl (thrown_js e) | Inr m \<Rightarrow> Inr m) else Inr 0
         | _ \<Rightarrow> Inr 0)
      else if tool = ''x402.batch_pay'' then
        (case jget ''payments'' args of JArr vs \<Rightarrow> payment_items vs 0 | _ \<Rightarrow> Inr 0)
      else Inr 0)"

section \<open>Checks before a call\<close>

definition tool_schema :: "broker_env \<Rightarrow> string \<Rightarrow> (string \<times> field_spec) list option" where
  "tool_schema env tool = map_of (be_manifest env) tool"

definition assertToolAllowed :: "broker_env \<Rightarrow> string \<Rightarrow> js_error + unit" where
  "assertToolAllowed env tool =
     (case tool_schema env tool of
        Some _ \<Rightarrow> Inr ()
      | None \<Rightarrow> if be_console env tool then Inr ()
                else Inl (broker_error ''BROKER_TOOL_NOT_FOUND''
                  (''Tool '' @ [CHR 0x27] @ tool @ [CHR 0x27] @ '' not found in manifest'')))"

definition validateArgs :: "broker_env \<Rightarrow> string \<Rightarrow> json \<Rightarrow> js_error + unit" where
  "validateArgs env tool args =
     (case tool_schema env tool of
        None \<Rightarrow> Inr ()
      | Some schema \<Rightarrow> (case validateToolArgs env tool schema args of Some e \<Rightarrow> Inl e | None \<Rightarrow> Inr ()))"

definition limit_micros :: "string \<Rightarrow> js_error + int" where
  "limit_micros s = (case to_micros s of Inl e \<Rightarrow> Inl (thrown_js e) | Inr m \<Rightarrow> Inr m)"

definition assertBudgetAllowed :: "tool_budget \<Rightarrow> broker_state \<Rightarrow> js_error + unit" where
  "assertBudgetAllowed b s =
     (let effectiveCount = bs_calls s + bs_pending s in
      case tb_maxCalls b of
        Some maxCalls \<Rightarrow>
          if maxCalls \<le> effectiveCount then
            Inl (broker_error ''BROKER_MAX_CALLS_EXCEEDED'' (''Tool call limit exceeded: '' @ nat_str effectiveCount
              @ ''/'' @ nat_str maxCalls @ '' ('' @ nat_str (bs_pending s) @ '' pending)''))
          else (if truthy (tb_maxTotal b) then bindR (limit_micros (or_else (tb_maxTotal b) []))
                  (\<lambda>maxMicros. throw_if (maxMicros \<le> bs_cost s) (broker_error ''BROKER_BUDGET_EXCEEDED''
                     (''Budget exceeded: spent '' @ int_str (bs_cost s) @ '' micros, limit '' @ int_str maxMicros @ '' micros'')))
                else Inr ())
      | None \<Rightarrow>
          (if truthy (tb_maxTotal b) then bindR (limit_micros (or_else (tb_maxTotal b) []))
             (\<lambda>maxMicros. throw_if (maxMicros \<le> bs_cost s) (broker_error ''BROKER_BUDGET_EXCEEDED''
                (''Budget exceeded: spent '' @ int_str (bs_cost s) @ '' micros, limit '' @ int_str maxMicros @ '' micros'')))
           else Inr ()))"

definition assertPaymentBudgetAllowed :: "tool_budget \<Rightarrow> string \<Rightarrow> json \<Rightarrow> broker_state \<Rightarrow> js_error + unit" where
  "assertPaymentBudgetAllowed b tool args s =
     (if \<not> truthy (tb_maxTotal b) then Inr ()
      else
        bindR (extractCostMicrosFromArgs tool args) (\<lambda>requested.
          if requested = 0 then Inr ()
          else bindR (limit_micros (or_else (tb_maxTotal b) [])) (\<lambda>maxMicros.
            throw_if (maxMicros - bs_cost s < requested) (broker_error ''BROKER_BUDGET_EXCEEDED''
              (''Payment '' @ int_str requested @ '' micros exceeds remaining budget ''
                @ int_str (maxMicros - bs_cost s) @ '' micros (spent '' @ int_str (bs_cost s) @ ''/''
                @ int_str maxMicros @ '')'')))))"

definition reserveCallSlot :: "broker_state \<Rightarrow> broker_state" where
  "reserveCallSlot s = s\<lparr>bs_pending := Suc (bs_pending s)\<rparr>"

definition releaseCallSlot :: "broker_state \<Rightarrow> broker_state" where
  "releaseCallSlot s = s\<lparr>bs_pending := bs_pending s - 1\<rparr>"

definition preExecute :: "broker_env \<Rightarrow> tool_budget \<Rightarrow> string \<Rightarrow> json \<Rightarrow> broker_state \<Rightarrow> js_error + broker_state" where
  "preExecute env b tool args s =
     bindR (assertToolAllowed env tool) (\<lambda>_.
     bindR (validateArgs env tool args) (\<lambda>_.
     bindR (assertBudgetAllowed b s) (\<lambda>_.
     bindR (assertPaymentBudgetAllowed b tool args s) (\<lambda>_. Inr (reserveCallSlot s)))))"

definition getTimeoutMs :: "tool_budget \<Rightarrow> string \<Rightarrow> nat" where
  "getTimeoutMs b tool =
     (case map_of (tb_timeouts b) tool of
        Some t \<Rightarrow> t
      | None \<Rightarrow> if isNonIdempotentWrite tool then 120000 else or_else (tb_defaultTimeout b) 30000)"

definition getMaxOutputBytes :: "tool_budget \<Rightarrow> string \<Rightarrow> nat" where
  "getMaxOutputBytes b tool =
     (case map_of (tb_outputs b) tool of Some n \<Rightarrow> n | None \<Rightarrow> or_else (tb_maxOutput b) 1048576)"

section \<open>Recording\<close>

definition assertOutputSize :: "tool_budget \<Rightarrow> string \<Rightarrow> json \<Rightarrow> js_error + json" where
  "assertOutputSize b tool result =
     (if getMaxOutputBytes b tool < measureOutputSize result then
        Inl (broker_error ''BROKER_OUTPUT_TOO_LARGE'' (''Tool '' @ [CHR 0x27] @ tool @ [CHR 0x27]
          @ '' output too large: '' @ nat_str (measureOutputSize result) @ '' bytes (limit: ''
          @ nat_str (getMaxOutputBytes b tool) @ '')''))
      else Inr result)"

definition recordCall :: "broker_env \<Rightarrow> nat \<Rightarrow> audit_entry \<Rightarrow> broker_state \<Rightarrow> (js_error + unit) \<times> broker_state" where
  \<comment> \<open>\<open>callCount\<close> is already incremented when the amount fails to parse\<close>
  "recordCall env now e s =
     (let s1 = s\<lparr>bs_calls := Suc (bs_calls s)\<rparr>;
          full = e\<lparr>ae_args := redactArgs env (ae_args e), ae_time := now\<rparr> in
      if truthy (ae_cost e) then
        (case to_micros (or_else (ae_cost e) []) of
           Inl err \<Rightarrow> (Inl (thrown_js err), s1)
         | Inr m \<Rightarrow> (Inr (), s1\<lparr>bs_cost := bs_cost s1 + m, bs_audit := bs_audit s1 @ [full]\<rparr>))
      else (Inr (), s1\<lparr>bs_audit := bs_audit s1 @ [full]\<rparr>))"

definition blank_entry :: "string \<Rightarrow> json \<Rightarrow> nat \<Rightarrow> audit_entry" where
  "blank_entry tool args ms = \<lparr>ae_time = 0, ae_tool = tool, ae_args = args, ae_ok = False, ae_duration = ms,
     ae_bytes = 0, ae_code = None, ae_message = None, ae_cost = None, ae_timedOut = False\<rparr>"

definition recordRejection :: "broker_env \<Rightarrow> nat \<Rightarrow> string \<Rightarrow> json \<Rightarrow> js_error \<Rightarrow> broker_state \<Rightarrow> broker_state" where
  "recordRejection env now tool args err s =
     snd (recordCall env now ((blank_entry tool args 0)\<lparr>ae_code := je_code err, ae_message := Some (je_text err)\<rparr>) s)"

definition cost_text :: "int \<Rightarrow> string option" where
  \<comment> \<open>\<open>(Number(costMicros) / 1_000_000).toFixed(6)\<close>, exact below 2^52 micros\<close>
  "cost_text costMicros = (if costMicros > 0 then Some (microsToUsdc costMicros) else None)"

definition postExecute ::
  "broker_env \<Rightarrow> tool_budget \<Rightarrow> nat \<Rightarrow> string \<Rightarrow> json \<Rightarrow> json \<Rightarrow> nat \<Rightarrow> broker_state \<Rightarrow> (js_error + json) \<times> broker_state" where
  "postExecute env b now tool args result ms s =
     (case assertOutputSize b tool result of
        Inl e \<Rightarrow> (Inl e, releaseCallSlot s)
      | Inr _ \<Rightarrow>
          (case extractCostMicrosFromArgs tool args of
             Inl e \<Rightarrow> (Inl e, releaseCallSlot s)
           | Inr costMicros \<Rightarrow>
               (case recordCall env now ((blank_entry tool args ms)\<lparr>ae_ok := True,
                       ae_bytes := measureOutputSize result, ae_cost := cost_text costMicros\<rparr>) s of
                  (Inl e, s1) \<Rightarrow> (Inl e, releaseCallSlot s1)
                | (Inr _, s1) \<Rightarrow> (Inr result, releaseCallSlot s1))))"

definition recordFailure ::
  "broker_env \<Rightarrow> nat \<Rightarrow> string \<Rightarrow> json \<Rightarrow> js_error \<Rightarrow> nat \<Rightarrow> bool \<Rightarrow> broker_state \<Rightarrow> broker_state" where
  "recordFailure env now tool args err ms timedOut s =
     releaseCallSlot (snd (recordCall env now ((blank_entry tool args ms)
       \<lparr>ae_code := (if je_broker err then je_code err else Some ''BROKER_INTERNAL_ERROR''),
        ae_message := Some (if je_error err then je_text err else ''Unknown error''),
        ae_timedOut := timedOut \<and> isNonIdempotentWrite tool\<rparr>) s))"

section \<open>The pipeline of a call\<close>

datatype tool_reply =
  ReplyOk json
| ReplyError "string option" string
| ReplyThrew js_error

definition role_denied :: "string \<Rightarrow> string \<Rightarrow> tool_reply" where
  "role_denied defaultRole tool = ReplyError (Some ''ROLE_TOOL_NOT_ALLOWED'')
     (''Tool '' @ [CHR 0x27] @ tool @ [CHR 0x27] @ '' is not allowed for role '' @ [CHR 0x27] @ defaultRole @ [CHR 0x27])"

definition exec_begin ::
  "broker_env \<Rightarrow> tool_budget \<Rightarrow> (string \<Rightarrow> string list) \<Rightarrow> runner_config \<Rightarrow> nat \<Rightarrow> string \<Rightarrow> json \<Rightarrow> broker_state
     \<Rightarrow> broker_state \<times> tool_reply option" where
  \<comment> \<open>up to the handler; \<open>tools\<close> is \<open>getToolNamesForRole\<close>; \<open>None\<close>: the handler runs\<close>
  "exec_begin env b tools cfg now tool args s =
     (if tool \<notin> set (concat (map tools (cf_allowedRoles cfg))) then (s, Some (role_denied (cf_role cfg) tool))
      else
        (case preExecute env b tool args s of
           Inr s' \<Rightarrow> (s', None)
         | Inl err \<Rightarrow>
             if je_broker err then
               (recordRejection env now tool args err s, Some (ReplyError (je_code err) (je_text err)))
             else (s, Some (ReplyThrew err))))"

definition exec_finish ::
  "broker_env \<Rightarrow> tool_budget \<Rightarrow> nat \<Rightarrow> string \<Rightarrow> json \<Rightarrow> nat \<Rightarrow> js_error + json \<Rightarrow> broker_state
     \<Rightarrow> broker_state \<times> tool_reply" where
  \<comment> \<open>the handler settled or the timer fired; an error of \<open>postExecute\<close> also reaches the \<open>catch\<close>\<close>
  "exec_finish env b now tool args ms outcome s =
     (case (case outcome of Inl err \<Rightarrow> (Inl err, s) | Inr result \<Rightarrow> postExecute env b now tool args result ms s) of
        (Inr result, s1) \<Rightarrow> (s1, ReplyOk result)
      | (Inl err, s1) \<Rightarrow>
          (recordFailure env now tool args err ms (je_broker err \<and> je_code err = Some ''BROKER_TOOL_TIMEOUT'') s1,
           ReplyError (if je_broker err then je_code err else None) (be_sanitize env (je_text err))))"

end
