(* ===== verification/Broker_Properties.thy ===== *)
theory Broker_Properties
  imports Tool_Broker
begin

text \<open>
  Runs of a broker session in which calls overlap: how many calls it dispatches, and what it
  counts as spent.
\<close>

section \<open>Sessions\<close>

record broker_session =
  bk_state :: broker_state
  bk_inflight :: "(string \<times> json) list"
  bk_dispatched :: nat

definition new_session :: broker_session where
  "new_session = \<lparr>bk_state = new_broker, bk_inflight = [], bk_dispatched = 0\<rparr>"

definition accepted :: "broker_env \<Rightarrow> tool_budget \<Rightarrow> nat \<Rightarrow> string \<Rightarrow> json \<Rightarrow> nat \<Rightarrow> js_error + json \<Rightarrow> broker_state \<Rightarrow> bool" where
  \<comment> \<open>the handler failed, or \<open>postExecute\<close> takes its result\<close>
  "accepted env b now tool args ms outcome s =
     (case outcome of Inl err \<Rightarrow> True | Inr result \<Rightarrow> \<not> isl (fst (postExecute env b now tool args result ms s)))"

text \<open>With \<open>fits\<close> every result is one \<open>postExecute\<close> takes.\<close>

inductive broker_step ::
  "broker_env \<Rightarrow> tool_budget \<Rightarrow> (string \<Rightarrow> string list) \<Rightarrow> runner_config \<Rightarrow> bool \<Rightarrow> broker_session \<Rightarrow> broker_session \<Rightarrow> bool"
  for env :: broker_env and b :: tool_budget and tools :: "string \<Rightarrow> string list" and cfg :: runner_config and fits :: bool where
  dispatch: "exec_begin env b tools cfg now tool args (bk_state k) = (s, None) \<Longrightarrow>
     broker_step env b tools cfg fits k
       \<lparr>bk_state = s, bk_inflight = (tool, args) # bk_inflight k, bk_dispatched = Suc (bk_dispatched k)\<rparr>"
| reject: "exec_begin env b tools cfg now tool args (bk_state k) = (s, Some r) \<Longrightarrow>
     broker_step env b tools cfg fits k (k\<lparr>bk_state := s\<rparr>)"
| settle: "(tool, args) \<in> set (bk_inflight k) \<Longrightarrow>
     \<not> fits \<or> accepted env b now tool args ms outcome (bk_state k) \<Longrightarrow>
     exec_finish env b now tool args ms outcome (bk_state k) = (s, r) \<Longrightarrow>
     broker_step env b tools cfg fits k (k\<lparr>bk_state := s, bk_inflight := remove1 (tool, args) (bk_inflight k)\<rparr>)"

section \<open>Counters\<close>

lemma recordCall_counts:
  "bs_calls (snd (recordCall env now e s)) = Suc (bs_calls s)"
  "bs_pending (snd (recordCall env now e s)) = bs_pending s"
  by (auto simp: recordCall_def Let_def split: sum.split)

lemma recordCall_free: "\<not> truthy (ae_cost e) \<Longrightarrow> bs_cost (snd (recordCall env now e s)) = bs_cost s"
  by (simp add: recordCall_def Let_def)

lemma blank_cost [simp]: "ae_cost (blank_entry tool args ms) = None"
  by (simp add: blank_entry_def)

lemma recordFailure_counts:
  "bs_calls (recordFailure env now tool args err ms t s) = Suc (bs_calls s)"
  "bs_pending (recordFailure env now tool args err ms t s) = bs_pending s - 1"
  "bs_cost (recordFailure env now tool args err ms t s) = bs_cost s"
  by (simp_all add: recordFailure_def releaseCallSlot_def recordCall_counts recordCall_free)

lemma recordRejection_counts:
  "bs_calls (recordRejection env now tool args err s) = Suc (bs_calls s)"
  "bs_pending (recordRejection env now tool args err s) = bs_pending s"
  by (simp_all add: recordRejection_def recordCall_counts)

lemma budget_calls:
  "assertBudgetAllowed b s = Inr () \<Longrightarrow> tb_maxCalls b = Some m \<Longrightarrow> bs_calls s + bs_pending s < m"
  by (simp add: assertBudgetAllowed_def Let_def split: if_splits)

lemma begin_dispatch:
  assumes "exec_begin env b tools cfg now tool args s = (s', None)"
  shows "bs_calls s' = bs_calls s" "bs_pending s' = Suc (bs_pending s)" "bs_cost s' = bs_cost s"
    "tb_maxCalls b = Some m \<Longrightarrow> bs_calls s + bs_pending s < m"
  using assms budget_calls [of b s m]
  by (auto simp: exec_begin_def preExecute_def reserveCallSlot_def split: if_splits sum.splits)

lemma begin_reject:
  assumes "exec_begin env b tools cfg now tool args s = (s', Some r)"
  shows "bs_calls s \<le> bs_calls s'" "bs_pending s' = bs_pending s"
  using assms by (auto simp: exec_begin_def recordRejection_counts split: if_splits sum.splits)

lemma post_counts:
  assumes "postExecute env b now tool args result ms s = (Inr v, s')"
  shows "bs_calls s' = Suc (bs_calls s)" "bs_pending s' = bs_pending s - 1"
  using assms recordCall_counts [of env now _ s]
  by (auto simp: postExecute_def releaseCallSlot_def split: sum.splits prod.splits) (metis snd_conv)+

lemma finish_counts:
  assumes "accepted env b now tool args ms outcome s" and "exec_finish env b now tool args ms outcome s = (s', r)"
  shows "bs_calls s' = Suc (bs_calls s)" "bs_pending s' = bs_pending s - 1"
proof -
  have "bs_calls s' = Suc (bs_calls s) \<and> bs_pending s' = bs_pending s - 1"
  proof (cases outcome)
    case (Inl err)
    with assms(2) show ?thesis by (auto simp: exec_finish_def recordFailure_counts)
  next
    case (Inr result)
    obtain x s1 where post: "postExecute env b now tool args result ms s = (x, s1)" by fastforce
    with assms(1) Inr obtain v where "x = Inr v" by (cases x) (auto simp: accepted_def)
    with Inr assms(2) post post_counts [of env b now tool args result ms s v s1] show ?thesis
      by (simp add: exec_finish_def)
  qed
  then show "bs_calls s' = Suc (bs_calls s)" "bs_pending s' = bs_pending s - 1" by simp_all
qed

definition session_inv :: "tool_budget \<Rightarrow> broker_session \<Rightarrow> bool" where
  "session_inv b k \<longleftrightarrow> bs_pending (bk_state k) = length (bk_inflight k)
     \<and> bk_dispatched k \<le> bs_calls (bk_state k) + bs_pending (bk_state k)
     \<and> (\<forall>m. tb_maxCalls b = Some m \<longrightarrow> bk_dispatched k \<le> m)"

lemma session_step: "broker_step env b tools cfg True k k' \<Longrightarrow> session_inv b k \<Longrightarrow> session_inv b k'"
proof (induction rule: broker_step.induct)
  case (dispatch now tool args k s)
  from begin_dispatch [OF dispatch(1)] dispatch(2) show ?case by (fastforce simp: session_inv_def)
next
  case (reject now tool args k s r)
  from begin_reject [OF reject(1)] reject(2) show ?case by (auto simp: session_inv_def)
next
  case (settle tool args k now ms outcome s r)
  from settle(2) have "accepted env b now tool args ms outcome (bk_state k)" by simp
  from finish_counts [OF this settle(3)] settle(1,4) show ?case
    by (auto simp: session_inv_def length_remove1 length_pos_if_in_set)
qed

interpretation session: invariant_system "\<lambda>k. k = new_session" "broker_step env b tools cfg True" "session_inv b"
  for env b tools cfg
proof unfold_locales
  fix k assume "k = new_session"
  then show "session_inv b k" by (simp add: session_inv_def new_session_def new_broker_def)
qed (rule session_step)

section \<open>Properties\<close>

text \<open>C12: As long as every result fits its output limit, a session never dispatches more tool calls
  than \<open>maxCalls\<close>, however calls overlap, fail or are refused.\<close>

theorem dispatched_within_limit:
  assumes "(broker_step env b tools cfg True)\<^sup>*\<^sup>* new_session k" and "tb_maxCalls b = Some m"
  shows "bk_dispatched k \<le> m \<and> bs_pending (bk_state k) = length (bk_inflight k)"
proof -
  have "session_inv b k" using assms(1) by (intro session.reach_inv [of new_session]) auto
  with assms(2) show ?thesis by (simp add: session_inv_def)
qed

definition demo_env :: broker_env where
  "demo_env = \<lparr>be_manifest = [(''t'', [])], be_console = (\<lambda>_. False), be_zod = (\<lambda>_. None),
     be_url = (\<lambda>_. None), be_sanitize = (\<lambda>m. m)\<rparr>"

definition demo_budget :: "nat \<Rightarrow> tool_budget" where
  "demo_budget m = \<lparr>tb_maxTotal = None, tb_maxCalls = Some m, tb_defaultTimeout = None, tb_timeouts = [],
     tb_maxOutput = Some 0, tb_outputs = []\<rparr>"

definition demo_tools :: "string \<Rightarrow> string list" where
  "demo_tools r = [''t'']"

definition session_at :: "broker_state \<Rightarrow> nat \<Rightarrow> nat \<Rightarrow> broker_session" where
  "session_at s n d = \<lparr>bk_state = s, bk_inflight = replicate n (''t'', JNull), bk_dispatched = d\<rparr>"

lemma demo_dispatch:
  assumes "bs_calls s + bs_pending s < m"
  shows "broker_step demo_env (demo_budget m) demo_tools demo_config fits (session_at s n d)
    (session_at (reserveCallSlot s) (Suc n) (Suc d))"
proof -
  have "exec_begin demo_env (demo_budget m) demo_tools demo_config 0 ''t'' JNull s = (reserveCallSlot s, None)"
    using assms by (simp add: exec_begin_def preExecute_def assertToolAllowed_def validateArgs_def tool_schema_def
      validateToolArgs_def assertBudgetAllowed_def assertPaymentBudgetAllowed_def Let_def
      demo_env_def demo_budget_def demo_tools_def demo_config_def)
  then show ?thesis using dispatch [of demo_env "demo_budget m" demo_tools demo_config 0 "''t''" JNull "session_at s n d"]
    by (simp add: session_at_def)
qed

theorem dispatched_within_limit_witness:
  "\<exists>k. (broker_step demo_env (demo_budget 3) demo_tools demo_config True)\<^sup>*\<^sup>* new_session k
     \<and> bk_dispatched k = 1 \<and> bk_dispatched k \<le> 3"
proof -
  let ?k = "session_at (reserveCallSlot new_broker) 1 1"
  have "new_session = session_at new_broker 0 0" by (simp add: new_session_def session_at_def)
  then have step: "broker_step demo_env (demo_budget 3) demo_tools demo_config True new_session ?k"
    using demo_dispatch [of new_broker 3 True 0 0] by (simp add: new_broker_def)
  have run: "(broker_step demo_env (demo_budget 3) demo_tools demo_config True)\<^sup>*\<^sup>* new_session ?k"
    using step by (rule r_into_rtranclp)
  have "bk_dispatched ?k \<le> 3"
    using dispatched_within_limit [OF run, of 3] by (simp add: demo_budget_def)
  moreover have "bk_dispatched ?k = 1" by (simp add: session_at_def)
  ultimately show ?thesis using run by blast
qed

text \<open>A result that is too large gives its slot back twice, so the limit is passed: with
  \<open>maxCalls\<close> 3 a session dispatches 4 calls. The check of the size releases the slot in its
  \<open>finally\<close>, and the failure that is recorded for it releases another call's slot.\<close>

theorem oversized_output_passes_call_limit:
  "\<exists>k. (broker_step demo_env (demo_budget 3) demo_tools demo_config False)\<^sup>*\<^sup>* new_session k
     \<and> tb_maxCalls (demo_budget 3) = Some 3 \<and> bk_dispatched k = 4"
proof -
  define R where "R = broker_step demo_env (demo_budget 3) demo_tools demo_config False"
  let ?two = "reserveCallSlot (reserveCallSlot new_broker)"
  obtain s r where fin: "exec_finish demo_env (demo_budget 3) 0 ''t'' JNull 0 (Inr JNull) ?two = (s, r)" by fastforce
  have "measureOutputSize JNull = 4" by (simp add: measureOutputSize_def)
  then have post: "\<exists>e. postExecute demo_env (demo_budget 3) 0 ''t'' JNull JNull 0 ?two = (Inl e, releaseCallSlot ?two)"
    by (simp add: postExecute_def assertOutputSize_def getMaxOutputBytes_def demo_budget_def)
  then have s: "bs_calls s = 1" "bs_pending s = 0"
    using fin by (auto simp: exec_finish_def recordFailure_def releaseCallSlot_def recordCall_counts
      reserveCallSlot_def new_broker_def)
  have s1: "R new_session (session_at (reserveCallSlot new_broker) 1 1)"
    using demo_dispatch [of new_broker 3 False 0 0]
    by (simp add: R_def new_broker_def new_session_def session_at_def)
  have s2: "R (session_at (reserveCallSlot new_broker) 1 1) (session_at ?two 2 2)"
    using demo_dispatch [of "reserveCallSlot new_broker" 3 False 1 1]
    by (simp add: R_def new_broker_def reserveCallSlot_def numeral_2_eq_2)
  have s3: "R (session_at ?two 2 2) (session_at s 1 2)"
    using settle [of "''t''" JNull "session_at ?two 2 2" False demo_env "demo_budget 3" 0 0 "Inr JNull" s r demo_tools demo_config] fin
    by (simp add: R_def session_at_def numeral_2_eq_2)
  have s4: "R (session_at s 1 2) (session_at (reserveCallSlot s) 2 3)"
    using demo_dispatch [of s 3 False 1 2] s by (simp add: R_def numeral_2_eq_2 numeral_3_eq_3)
  have s5: "R (session_at (reserveCallSlot s) 2 3) (session_at (reserveCallSlot (reserveCallSlot s)) 3 4)"
    using demo_dispatch [of "reserveCallSlot s" 3 False 2 3] s
    by (simp add: R_def reserveCallSlot_def eval_nat_numeral)
  note run = rtranclp.rtrancl_into_rtrancl
  from run [OF run [OF run [OF run [OF r_into_rtranclp [of R, OF s1] s2] s3] s4] s5]
  have "R\<^sup>*\<^sup>* new_session (session_at (reserveCallSlot (reserveCallSlot s)) 3 4)" .
  moreover have "bk_dispatched (session_at (reserveCallSlot (reserveCallSlot s)) 3 4) = 4"
    by (simp add: session_at_def)
  moreover have "tb_maxCalls (demo_budget 3) = Some 3" by (simp add: demo_budget_def)
  ultimately show ?thesis unfolding R_def by blast
qed

lemma cost_text_micros:
  assumes "0 < c"
  shows "truthy (cost_text c)" and "to_micros (or_else (cost_text c) []) = Inr c"
proof -
  have fmt: "usdc_format (microsToUsdc c)" using assms by (intro micros_text) simp
  then show "truthy (cost_text c)" using usdc_format_chars [OF fmt] assms by (simp add: cost_text_def)
  have "decimalToMicros (microsToUsdc c) = Some c" using assms by (intro policy_amount.parse_micros) simp
  then show "to_micros (or_else (cost_text c) []) = Inr c" using assms by (simp add: cost_text_def to_micros_def)
qed

lemma record_cost:
  assumes "ae_cost e = cost_text c" and "0 \<le> c"
  shows "\<exists>s'. recordCall env now e s = (Inr (), s') \<and> bs_cost s' = bs_cost s + c"
proof (cases "c = 0")
  case True
  with assms show ?thesis by (simp add: recordCall_def cost_text_def Let_def)
next
  case False
  with assms have "0 < c" by simp
  from cost_text_micros [OF this] show ?thesis by (simp add: recordCall_def assms(1) Let_def)
qed

lemma post_cost:
  assumes "extractCostMicrosFromArgs tool args = Inr c" and "0 \<le> c"
  shows "\<exists>s'. postExecute env b now tool args result ms s =
      (if measureOutputSize result \<le> getMaxOutputBytes b tool then Inr result
       else Inl (broker_error ''BROKER_OUTPUT_TOO_LARGE'' (''Tool '' @ [CHR 0x27] @ tool @ [CHR 0x27]
          @ '' output too large: '' @ nat_str (measureOutputSize result) @ '' bytes (limit: ''
          @ nat_str (getMaxOutputBytes b tool) @ '')'')), s')
    \<and> bs_cost s' = (if measureOutputSize result \<le> getMaxOutputBytes b tool then bs_cost s + c else bs_cost s)"
proof (cases "measureOutputSize result \<le> getMaxOutputBytes b tool")
  case True
  from record_cost [OF _ assms(2), of "(blank_entry tool args ms)\<lparr>ae_ok := True,
      ae_bytes := measureOutputSize result, ae_cost := cost_text c\<rparr>" env now s]
  obtain s1 where "recordCall env now ((blank_entry tool args ms)\<lparr>ae_ok := True,
      ae_bytes := measureOutputSize result, ae_cost := cost_text c\<rparr>) s = (Inr (), s1)" "bs_cost s1 = bs_cost s + c"
    by auto
  with True assms(1) show ?thesis by (simp add: postExecute_def assertOutputSize_def releaseCallSlot_def)
next
  case False
  then show ?thesis by (simp add: postExecute_def assertOutputSize_def releaseCallSlot_def)
qed

text \<open>What a session counts as spent. A settled call adds the cost of its arguments to the
  total exactly when it is answered with its result; a failure, a timeout or a result that is too
  large adds nothing, although a payment may have been made.\<close>

theorem only_answered_calls_cost:
  assumes "extractCostMicrosFromArgs tool args = Inr c" and "0 \<le> c"
    and "exec_finish env b now tool args ms outcome s = (s', r)"
  shows "(\<exists>result. outcome = Inr result \<and> measureOutputSize result \<le> getMaxOutputBytes b tool
      \<and> r = ReplyOk result \<and> bs_cost s' = bs_cost s + c)
    \<or> (\<exists>code msg. r = ReplyError code msg \<and> bs_cost s' = bs_cost s
      \<and> (\<forall>result. outcome = Inr result \<longrightarrow> getMaxOutputBytes b tool < measureOutputSize result))"
proof (cases outcome)
  case (Inl err)
  with assms(3) show ?thesis by (auto simp: exec_finish_def recordFailure_counts)
next
  case (Inr result)
  from post_cost [OF assms(1,2), of env b now result ms s] obtain s1 where s1:
    "postExecute env b now tool args result ms s =
      (if measureOutputSize result \<le> getMaxOutputBytes b tool then Inr result
       else Inl (broker_error ''BROKER_OUTPUT_TOO_LARGE'' (''Tool '' @ [CHR 0x27] @ tool @ [CHR 0x27]
          @ '' output too large: '' @ nat_str (measureOutputSize result) @ '' bytes (limit: ''
          @ nat_str (getMaxOutputBytes b tool) @ '')'')), s1)"
    "bs_cost s1 = (if measureOutputSize result \<le> getMaxOutputBytes b tool then bs_cost s + c else bs_cost s)" by blast
  show ?thesis
  proof (cases "measureOutputSize result \<le> getMaxOutputBytes b tool")
    case True
    with s1 assms(3) Inr show ?thesis by (simp add: exec_finish_def)
  next
    case False
    with s1 assms(3) Inr show ?thesis by (auto simp: exec_finish_def recordFailure_counts)
  qed
qed

theorem only_answered_calls_cost_witness:
  "bs_cost (fst (exec_finish demo_env (demo_budget 3) 0 ''x402.pay''
     (JObj [(''maxAmountUsdc'', JStr ''1'')]) 0 (Inr JNull) new_broker)) = 0"
proof -
  have dec: "decimalToMicros ''1'' = Some 1000000" by code_simp
  have cost: "extractCostMicrosFromArgs ''x402.pay'' (JObj [(''maxAmountUsdc'', JStr ''1'')]) = Inr 1000000"
    by (simp add: extractCostMicrosFromArgs_def to_micros_def dec)
  obtain s' r where fin: "exec_finish demo_env (demo_budget 3) 0 ''x402.pay''
     (JObj [(''maxAmountUsdc'', JStr ''1'')]) 0 (Inr JNull) new_broker = (s', r)" by fastforce
  have "\<not> measureOutputSize JNull \<le> getMaxOutputBytes (demo_budget 3) ''x402.pay''"
    by (simp add: measureOutputSize_def getMaxOutputBytes_def demo_budget_def)
  with only_answered_calls_cost [OF cost _ fin] have "bs_cost s' = bs_cost new_broker" by auto
  then have "bs_cost s' = 0" by (simp add: new_broker_def)
  then show ?thesis by (simp add: fin)
qed

end
