(* ===== verification/Payment_Safety.thy ===== *)
theory Payment_Safety
  imports X402_Payments
begin

text \<open>
  What holds in every run of the payment system in which files neither fail nor tear: every
  wallet call was first recorded as an attempt, and a recorded success is final.
\<close>

section \<open>Counting in maps\<close>

definition count_calls :: "('v \<Rightarrow> bool) \<Rightarrow> ('k \<times> 'v) list \<Rightarrow> nat" where
  "count_calls P m = length (filter (\<lambda>e. P (snd e)) m)"

definition here :: "('v \<Rightarrow> bool) \<Rightarrow> 'v option \<Rightarrow> nat" where
  "here P v = (case v of Some x \<Rightarrow> if P x then 1 else 0 | None \<Rightarrow> 0)"

lemma here_simps [simp]: "here P None = 0" "here P (Some x) = (if P x then 1 else 0)"
  by (simp_all add: here_def)

lemma count_calls_set:
  "distinct (map fst m) \<Longrightarrow>
     count_calls P (jsmap_set k v m) + here P (map_of m k) = count_calls P m + here P (Some v)"
  by (induction k v m rule: jsmap_set.induct) (auto simp: count_calls_def map_of_eq_None_iff)

lemma count_calls_delete: "count_calls P (jsmap_delete k m) \<le> count_calls P m"
  by (induction m) (auto simp: count_calls_def jsmap_delete_def)

lemma count_calls_Nil [simp]: "count_calls P [] = 0"
  by (simp add: count_calls_def)

section \<open>Every wallet call is recorded\<close>

definition at_wallet :: "string \<times> string \<Rightarrow> pay_call \<Rightarrow> bool" where
  "at_wallet ka c \<longleftrightarrow> pc_pc c = CallWallet \<and> (pc_key c, pm_amount (pc_payment c)) = ka"

definition sends :: "string \<times> string \<Rightarrow> pay_system \<Rightarrow> nat" where
  "sends ka s = length (filter (\<lambda>x. x = ka) (sy_sent s))"

definition attempts :: "string \<times> string \<Rightarrow> ledger_record list \<Rightarrow> nat" where
  "attempts ka rs = length (filter (\<lambda>r. lr_status r = Attempted \<and> (lr_key r, lr_amountUsdc r) = ka) rs)"

definition recorded_inv :: "pay_system \<Rightarrow> bool" where
  "recorded_inv s \<longleftrightarrow> jsonl_clean (pw_ledger (sy_world s)) \<and> distinct (map fst (sy_calls s))
     \<and> (\<forall>ka. sends ka s + count_calls (at_wallet ka) (sy_calls s) \<le> attempts ka (jsonl_read (pw_ledger (sy_world s))))"

lemma recorded_invI:
  assumes "jsonl_clean (pw_ledger (sy_world s))" and "distinct (map fst (sy_calls s))"
    and "\<And>ka. sends ka s + count_calls (at_wallet ka) (sy_calls s) \<le> attempts ka (jsonl_read (pw_ledger (sy_world s)))"
  shows "recorded_inv s"
  using assms unfolding recorded_inv_def by blast

lemma recorded_invD:
  assumes "recorded_inv s"
  shows "jsonl_clean (pw_ledger (sy_world s))" "distinct (map fst (sy_calls s))"
    "sends ka s + count_calls (at_wallet ka) (sy_calls s) \<le> attempts ka (jsonl_read (pw_ledger (sy_world s)))"
  using assms unfolding recorded_inv_def by blast+

lemma attempts_append: "attempts ka (xs @ ys) = attempts ka xs + attempts ka ys"
  by (simp add: attempts_def)

lemma attempts_attempt:
  "attempts ka [attempt_of inp c] = (if (pc_key c, pm_amount (pc_payment c)) = ka then 1 else 0)"
  by (simp add: attempts_def attempt_of_def attempt_record_def)

text \<open>Changing one call so that it is not newly about to call the wallet keeps the invariant.\<close>

lemma recorded_calls:
  assumes inv: "recorded_inv s"
    and same: "sy_world s' = sy_world s" "sy_sent s' = sy_sent s" "sy_calls s' = jsmap_set p c (sy_calls s)"
    and new: "pc_pc c \<noteq> CallWallet"
  shows "recorded_inv s'"
proof (rule recorded_invI)
  fix ka
  have "\<not> at_wallet ka c" using new by (simp add: at_wallet_def)
  with count_calls_set [OF recorded_invD(2) [OF inv], of "at_wallet ka" p c] recorded_invD(3) [OF inv, of ka]
  show "sends ka s' + count_calls (at_wallet ka) (sy_calls s') \<le> attempts ka (jsonl_read (pw_ledger (sy_world s')))"
    by (simp add: same sends_def)
qed (use recorded_invD [OF inv] in \<open>simp_all add: same\<close>)

lemma recorded_run:
  assumes inv: "recorded_inv s" and c: "map_of (sy_calls s) p = Some c" and pc: "pc_pc c \<noteq> InWallet"
    and ff: "fault_free inp (pc_pc c)" and adv: "pay_advance cfg supported inp (c, sy_world s) = (c', w')"
  shows "recorded_inv (pay_put p c' w' s)"
proof (rule recorded_invI)
  note inv' = recorded_invD [OF inv] and adv' = pay_advance_call [OF adv]
  note ledger = goto_ledger [OF ff inv'(1) adv'(3)] and wallet = goto_wallet [OF adv'(3) pc]
  show "jsonl_clean (pw_ledger (sy_world (pay_put p c' w' s)))" using ledger(1) by simp
  show "distinct (map fst (sy_calls (pay_put p c' w' s)))" using inv'(2) by simp
  fix ka
  let ?ka = "(pc_key c, pm_amount (pc_payment c)) = ka"
  have count: "count_calls (at_wallet ka) (jsmap_set p c' (sy_calls s)) + here (at_wallet ka) (Some c)
      = count_calls (at_wallet ka) (sy_calls s) + here (at_wallet ka) (Some c')"
    using count_calls_set [OF inv'(2), of "at_wallet ka" p c'] c by simp
  have sent: "sends ka (pay_put p c' w' s) = sends ka s + (if pc_pc c' = InWallet \<and> ?ka then 1 else 0)"
    by (simp add: sends_def adv'(1,2))
  have at: "at_wallet ka c \<longleftrightarrow> pc_pc c = CallWallet \<and> ?ka" "at_wallet ka c' \<longleftrightarrow> pc_pc c' = CallWallet \<and> ?ka"
    by (simp_all add: at_wallet_def adv'(1,2))
  note le = inv'(3) [of ka]
  consider "pc_pc c' = InWallet" | "pc_pc c' = CallWallet" | "pc_pc c' \<noteq> InWallet" "pc_pc c' \<noteq> CallWallet" by blast
  then show "sends ka (pay_put p c' w' s) + count_calls (at_wallet ka) (sy_calls (pay_put p c' w' s))
      \<le> attempts ka (jsonl_read (pw_ledger (sy_world (pay_put p c' w' s))))"
  proof cases
    case 1
    with wallet(1) have "pc_pc c = CallWallet" "w' = sy_world s" by auto
    with 1 count sent le at show ?thesis by (cases ?ka) simp_all
  next
    case 2
    with wallet(2) have "pc_pc c = WriteAttempt" "pi_io inp = None" by auto
    with 2 count sent le at show ?thesis
      by (cases ?ka) (simp_all add: ledger(2) attempts_append attempts_attempt)
  next
    case 3
    from count 3 at have "count_calls (at_wallet ka) (jsmap_set p c' (sy_calls s)) \<le> count_calls (at_wallet ka) (sy_calls s)"
      by (cases "at_wallet ka c") simp_all
    with sent 3 le show ?thesis by (simp add: ledger(2) attempts_append)
  qed
qed

lemma recorded_step: "pay_step host cfg supported False s t \<Longrightarrow> recorded_inv s \<Longrightarrow> recorded_inv t"
proof (induction rule: pay_step.induct)
  case (pay_arrive s p uuid pm c)
  from pay_arrive(2) have "pc_pc c \<noteq> CallWallet" by (auto simp: pay_begin_def split: sum.splits)
  then show ?case by (intro recorded_calls [OF pay_arrive(3), of _ p c]) simp_all
next
  case (pay_wake s p key e)
  from pay_wake(2) show ?case by (simp add: recorded_inv_def sends_def)
next
  case (pay_run s p c inp c' w')
  from pay_run(5) have "fault_free inp (pc_pc c)" by simp
  from recorded_run [OF pay_run(7,1,3) this pay_run(6)] show ?case .
next
  case (pay_settle s p c inp answer)
  have "pc_pc (pay_answer inp answer c) \<noteq> CallWallet"
    by (simp add: pay_answer_def catch_pay_pc split: sum.split)
  then show ?case by (intro recorded_calls [OF pay_settle(3), of _ p "pay_answer inp answer c"]) simp_all
next
  case (pay_leave s p c)
  show ?case
  proof (rule recorded_invI)
    fix ka
    show "sends ka (s\<lparr>sy_calls := jsmap_delete p (sy_calls s), sy_lock := lock_leave p (sy_lock s)\<rparr>)
      + count_calls (at_wallet ka) (sy_calls (s\<lparr>sy_calls := jsmap_delete p (sy_calls s), sy_lock := lock_leave p (sy_lock s)\<rparr>))
      \<le> attempts ka (jsonl_read (pw_ledger (sy_world (s\<lparr>sy_calls := jsmap_delete p (sy_calls s), sy_lock := lock_leave p (sy_lock s)\<rparr>))))"
      using recorded_invD(3) [OF pay_leave(4), of ka] count_calls_delete [of "at_wallet ka" p "sy_calls s"]
      by (simp add: sends_def)
  qed (use recorded_invD [OF pay_leave(4)] in simp_all)
next
  case (pay_stop s)
  show ?case
    using pay_stop recorded_invD(3) [OF pay_stop] by (fastforce simp: recorded_inv_def sends_def dest: add_leD1)
qed simp

interpretation pay: invariant_system "\<lambda>s. s = pay_initial" "pay_step host cfg supported False" recorded_inv
  for host cfg supported
proof unfold_locales
  fix s assume "s = pay_initial"
  then show "recorded_inv s" by (simp add: recorded_inv_def pay_initial_def sends_def attempts_def)
qed (rule recorded_step)

section \<open>A recorded success is final\<close>

fun before_send :: "pay_pc \<Rightarrow> bool" where
  \<comment> \<open>the call has not yet passed the first question, or is answered\<close>
  "before_send AskSucceeded = True"
| "before_send (FindReceipt r) = True"
| "before_send (Ended r) = True"
| "before_send _ = False"

definition paid_inv :: "string \<Rightarrow> (string \<times> string) list \<Rightarrow> pay_system \<Rightarrow> bool" where
  "paid_inv key sent s \<longleftrightarrow> jsonl_clean (pw_ledger (sy_world s))
     \<and> hasSucceeded key (pw_ledger (sy_world s)) \<noteq> None
     \<and> (\<forall>p c. map_of (sy_calls s) p = Some c \<longrightarrow> pc_key c = key \<longrightarrow> before_send (pc_pc c))
     \<and> filter (\<lambda>x. fst x = key) (sy_sent s) = sent"

lemma paid_invI:
  assumes "jsonl_clean (pw_ledger (sy_world s))" and "hasSucceeded key (pw_ledger (sy_world s)) \<noteq> None"
    and "\<And>p c. map_of (sy_calls s) p = Some c \<Longrightarrow> pc_key c = key \<Longrightarrow> before_send (pc_pc c)"
    and "filter (\<lambda>x. fst x = key) (sy_sent s) = sent"
  shows "paid_inv key sent s"
  using assms unfolding paid_inv_def by blast

lemma paid_invD:
  assumes "paid_inv key sent s"
  shows "jsonl_clean (pw_ledger (sy_world s))" "hasSucceeded key (pw_ledger (sy_world s)) \<noteq> None"
    "map_of (sy_calls s) p = Some c \<Longrightarrow> pc_key c = key \<Longrightarrow> before_send (pc_pc c)"
    "filter (\<lambda>x. fst x = key) (sy_sent s) = sent"
  using assms unfolding paid_inv_def by blast+

lemma hasSucceeded_iff:
  "hasSucceeded key f \<noteq> None \<longleftrightarrow> (\<exists>r\<in>set (jsonl_read f). lr_key r = key \<and> lr_status r = PaySuccess)"
  by (auto simp: hasSucceeded_def has_event_def find_None_iff)

lemma paid_goto:
  assumes "before_send pc" and "fault_free inp pc" and "hasSucceeded (pc_key c) (pw_ledger w) \<noteq> None"
    and "pay_goto cfg supported inp c w pc = (pc', w')"
  shows "before_send pc'"
  using assms by (cases pc) (auto simp: fault_free_def split: if_splits)

lemma paid_calls:
  assumes inv: "paid_inv key sent s"
    and same: "sy_world s' = sy_world s" "sy_sent s' = sy_sent s" "sy_calls s' = jsmap_set p c (sy_calls s)"
    and new: "pc_key c = key \<Longrightarrow> before_send (pc_pc c)"
  shows "paid_inv key sent s'"
proof (rule paid_invI)
  fix q d assume "map_of (sy_calls s') q = Some d" "pc_key d = key"
  then show "before_send (pc_pc d)" using paid_invD(3) [OF inv, of q d] new by (auto simp: same split: if_splits)
qed (use paid_invD [OF inv] in \<open>simp_all add: same\<close>)

lemma paid_run:
  assumes inv: "paid_inv key sent s" and c: "map_of (sy_calls s) p = Some c" and pc: "pc_pc c \<noteq> InWallet"
    and ff: "fault_free inp (pc_pc c)" and adv: "pay_advance cfg supported inp (c, sy_world s) = (c', w')"
  shows "paid_inv key sent (pay_put p c' w' s)"
proof (rule paid_invI)
  note inv' = paid_invD [OF inv] and adv' = pay_advance_call [OF adv]
  note ledger = goto_ledger [OF ff inv'(1) adv'(3)] and wallet = goto_wallet [OF adv'(3) pc]
  show "jsonl_clean (pw_ledger (sy_world (pay_put p c' w' s)))" using ledger(1) by simp
  show "hasSucceeded key (pw_ledger (sy_world (pay_put p c' w' s))) \<noteq> None"
    using inv'(2) unfolding hasSucceeded_iff by (auto simp: ledger(2))
  have mine: "before_send (pc_pc c')" if "pc_key c = key"
    using paid_goto [OF inv'(3) [OF c that] ff _ adv'(3)] inv'(2) that by simp
  fix q d assume "map_of (sy_calls (pay_put p c' w' s)) q = Some d" "pc_key d = key"
  then show "before_send (pc_pc d)"
    using mine inv'(3) [of q d] adv'(1) by (auto split: if_splits)
next
  note inv' = paid_invD [OF inv] and adv' = pay_advance_call [OF adv]
  note wallet = goto_wallet [OF adv'(3) pc]
  have "pc_key c \<noteq> key" if "pc_pc c' = InWallet"
    using wallet(1) [OF that] inv'(3) [OF c] by auto
  then show "filter (\<lambda>x. fst x = key) (sy_sent (pay_put p c' w' s)) = sent"
    using inv'(4) adv'(1) by auto
qed

lemma paid_step: "pay_step host cfg supported False s t \<Longrightarrow> paid_inv key sent s \<Longrightarrow> paid_inv key sent t"
proof (induction rule: pay_step.induct)
  case (pay_arrive s p uuid pm c)
  from pay_arrive(2) have "before_send (pc_pc c)" by (auto simp: pay_begin_def split: sum.splits)
  then show ?case by (intro paid_calls [OF pay_arrive(3), of _ p c]) simp_all
next
  case (pay_wake s p k e)
  from pay_wake(2) show ?case by (simp add: paid_inv_def)
next
  case (pay_run s p c inp c' w')
  from pay_run(5) have "fault_free inp (pc_pc c)" by simp
  from paid_run [OF pay_run(7,1,3) this pay_run(6)] show ?case .
next
  case (pay_settle s p c inp answer)
  have "pc_key (pay_answer inp answer c) \<noteq> key"
    using paid_invD(3) [OF pay_settle(3,1)] pay_settle(2) by (auto simp: pay_answer_def)
  then show ?case by (intro paid_calls [OF pay_settle(3), of _ p "pay_answer inp answer c"]) simp_all
next
  case (pay_leave s p c)
  show ?case
  proof (rule paid_invI)
    fix q d
    assume "map_of (sy_calls (s\<lparr>sy_calls := jsmap_delete p (sy_calls s), sy_lock := lock_leave p (sy_lock s)\<rparr>)) q = Some d"
      and "pc_key d = key"
    then show "before_send (pc_pc d)"
      using paid_invD(3) [OF pay_leave(4), of q d] by (simp split: if_splits)
  qed (use paid_invD [OF pay_leave(4)] in simp_all)
next
  case (pay_stop s)
  from paid_invD [OF pay_stop] show ?case by (intro paid_invI) simp_all
qed simp

interpretation paid: invariant_system "paid_inv key sent" "pay_step host cfg supported False" "paid_inv key sent"
  for key sent host cfg supported
  by unfold_locales (auto intro: paid_step)

section \<open>One payment alone\<close>

definition spent_today :: "nat \<Rightarrow> pay_ledger \<Rightarrow> int" where
  "spent_today now f = (case sumSuccessfulByDay (iso_day now) f of Inr n \<Rightarrow> n | Inl _ \<Rightarrow> 0)"

definition spent_month :: "nat \<Rightarrow> pay_ledger \<Rightarrow> int" where
  "spent_month now f = (case sumSuccessfulByMonth (iso_month now) f of Inr n \<Rightarrow> n | Inl _ \<Rightarrow> 0)"

definition dec :: "string \<Rightarrow> int" where
  "dec s = (case decimalToMicros s of Some m \<Rightarrow> m | None \<Rightarrow> 0)"

lemma to_micros_Some: "decimalToMicros s \<noteq> None \<Longrightarrow> to_micros s = Inr (dec s)"
  by (auto simp: to_micros_def dec_def)

definition readable_amounts :: "ledger_record list \<Rightarrow> bool" where
  "readable_amounts rs \<longleftrightarrow> (\<forall>r\<in>set rs. BigInt (lr_amountMicros r) \<noteq> None)"

definition record_micros :: "ledger_record \<Rightarrow> int" where
  "record_micros r = (case BigInt (lr_amountMicros r) of Some m \<Rightarrow> m | None \<Rightarrow> 0)"

lemma sum_micros_ok: "readable_amounts rs \<Longrightarrow> sum_micros rs = Inr (\<Sum>r\<leftarrow>rs. record_micros r)"
  by (induction rs) (auto simp: readable_amounts_def record_micros_def to_bigint_def)

lemma readable_filter: "readable_amounts rs \<Longrightarrow> readable_amounts (filter P rs)"
  by (simp add: readable_amounts_def)

lemma spent_today_sum:
  assumes "readable_amounts (jsonl_read f)"
  shows "sumSuccessfulByDay (iso_day now) f = Inr (spent_today now f)"
    and "sumSuccessfulByMonth (iso_month now) f = Inr (spent_month now f)"
  using assms by (simp_all add: spent_today_def spent_month_def sumSuccessfulByDay_def
    sumSuccessfulByMonth_def counted_attempts_def sum_micros_ok readable_filter)

lemma daily_ok_iff:
  assumes "readable_amounts (jsonl_read f)" and "decimalToMicros a \<noteq> None" and "decimalToMicros (cf_daily cfg) \<noteq> None"
  shows "assertDailyLimit cfg now f a = Inr () \<longleftrightarrow> spent_today now f + dec a \<le> dec (cf_daily cfg)"
  using assms by (auto simp: assertDailyLimit_def spent_today_sum to_micros_Some)

lemma monthly_ok_iff:
  assumes "readable_amounts (jsonl_read f)" and "decimalToMicros a \<noteq> None" and "decimalToMicros (cf_monthly cfg) \<noteq> None"
  shows "assertMonthlyLimit cfg now f a = Inr () \<longleftrightarrow> spent_month now f + dec a \<le> dec (cf_monthly cfg)"
  using assms by (auto simp: assertMonthlyLimit_def spent_today_sum to_micros_Some)

lemma attempt_of_pc [simp]: "attempt_of inp (c\<lparr>pc_pc := pc\<rparr>) = attempt_of inp c"
  by (simp add: attempt_of_def)

lemma pay_until_stays [simp]:
  "pc_pc c = Ended r \<Longrightarrow> pay_until n cfg supported inp answer (c, w) = (c, w)"
  by (induction n) simp_all

lemma pay_until_goto:
  "pc_pc c = pc \<Longrightarrow> pc \<noteq> InWallet \<Longrightarrow> \<not> pc_ended pc \<Longrightarrow>
   pay_until (Suc n) cfg supported inp answer (c, w) =
     pay_until n cfg supported inp answer (case pay_goto cfg supported inp c w pc of (pc', w') \<Rightarrow> (c\<lparr>pc_pc := pc'\<rparr>, w'))"
  by (cases pc) (simp_all add: pay_advance_def)

declare pay_until.simps(2) [simp del]

lemma questions:
  assumes "pi_io inp = None" and "pc_pc c = AskSucceeded"
  shows "pay_until 4 cfg True inp answer (c, w) =
    (case hasSucceeded (pc_key c) (pw_ledger w) of
       Some r \<Rightarrow> pay_until 3 cfg True inp answer
         (c\<lparr>pc_pc := if truthy (lr_receipt r) then FindReceipt r else Ended (PaidBefore r None)\<rparr>, w)
     | None \<Rightarrow>
        (case hasPendingAttempt (pc_key c) (pw_ledger w) of
           Some r \<Rightarrow> (c\<lparr>pc_pc := Ended (PayThrew (in_progress (pc_key c)))\<rparr>, w)
         | None \<Rightarrow>
            (case assertDailyLimit cfg (pi_now inp) (pw_ledger w) (pm_amount (pc_payment c)) of
               Inl e \<Rightarrow> (c\<lparr>pc_pc := Ended (PayThrew (thrown_js e))\<rparr>, w)
             | Inr _ \<Rightarrow>
                (case assertMonthlyLimit cfg (pi_now inp) (pw_ledger w) (pm_amount (pc_payment c)) of
                   Inl e \<Rightarrow> (c\<lparr>pc_pc := Ended (PayThrew (thrown_js e))\<rparr>, w)
                 | Inr _ \<Rightarrow> (c\<lparr>pc_pc := WriteAttempt\<rparr>, w)))))"
  using assms
  by (simp add: eval_nat_numeral pay_until_goto split: option.split sum.split)

lemma attempt_and_send:
  assumes "pi_io inp = None" and "pc_pc c = WriteAttempt"
  shows "pay_until 2 cfg True inp answer (c, w) = (c\<lparr>pc_pc := InWallet\<rparr>, put_ledger inp (attempt_of inp c) w)"
  using assms by (simp add: eval_nat_numeral pay_until_goto)

lemma pay_until_add:
  "pay_until (m + n) cfg supported inp answer s = pay_until n cfg supported inp answer (pay_until m cfg supported inp answer s)"
proof (induction m arbitrary: s)
  case (Suc m)
  obtain c w where s: "s = (c, w)" by fastforce
  show ?case by (cases "pc_pc c") (simp_all add: s Suc pay_until.simps(2))
qed simp

definition may_send :: "runner_config \<Rightarrow> nat \<Rightarrow> pay_ledger \<Rightarrow> string \<Rightarrow> string \<Rightarrow> bool" where
  \<comment> \<open>what a payment must satisfy to reach the wallet\<close>
  "may_send cfg now f key amount \<longleftrightarrow> hasSucceeded key f = None \<and> hasPendingAttempt key f = None
     \<and> spent_today now f + dec amount \<le> dec (cf_daily cfg)
     \<and> spent_month now f + dec amount \<le> dec (cf_monthly cfg)"

definition parsed_limits :: "runner_config \<Rightarrow> bool" where
  "parsed_limits cfg \<longleftrightarrow> decimalToMicros (cf_daily cfg) \<noteq> None \<and> decimalToMicros (cf_monthly cfg) \<noteq> None"

lemma unit_sum: "isl (v :: 'e + unit) \<longleftrightarrow> v \<noteq> Inr ()"
  by (cases v) simp_all

lemma checks_throw:
  assumes "parsed_limits cfg" and "readable_amounts (jsonl_read f)" and "decimalToMicros a \<noteq> None"
  shows "isl (assertDailyLimit cfg now f a) \<longleftrightarrow> \<not> spent_today now f + dec a \<le> dec (cf_daily cfg)"
    and "isl (assertMonthlyLimit cfg now f a) \<longleftrightarrow> \<not> spent_month now f + dec a \<le> dec (cf_monthly cfg)"
  using daily_ok_iff [OF assms(2,3), of cfg now] monthly_ok_iff [OF assms(2,3), of cfg now] assms(1)
  by (simp_all add: parsed_limits_def unit_sum)

lemma alone_sent:
  assumes "parsed_limits cfg" and "readable_amounts (jsonl_read (pw_ledger w))" and "pi_io inp = None"
    and "pc_pc c = AskSucceeded" and "decimalToMicros (pm_amount (pc_payment c)) \<noteq> None"
    and send: "may_send cfg (pi_now inp) (pw_ledger w) (pc_key c) (pm_amount (pc_payment c))"
  shows "pay_until 6 cfg True inp answer (c, w) = (c\<lparr>pc_pc := InWallet\<rparr>, put_ledger inp (attempt_of inp c) w)"
proof -
  note ok = daily_ok_iff [OF assms(2,5), of cfg "pi_now inp"] monthly_ok_iff [OF assms(2,5), of cfg "pi_now inp"]
  have "pay_until 4 cfg True inp answer (c, w) = (c\<lparr>pc_pc := WriteAttempt\<rparr>, w)"
    using send ok assms(1) by (simp add: questions [OF assms(3,4)] may_send_def parsed_limits_def)
  with pay_until_add [of 4 2 cfg True inp answer "(c, w)"]
    attempt_and_send [OF assms(3), of "c\<lparr>pc_pc := WriteAttempt\<rparr>" cfg answer w]
  show ?thesis by simp
qed

fun paid :: "pay_reply \<Rightarrow> bool" where
  "paid (PaidNow rid) = True"
| "paid (PaidAlready rid) = True"
| "paid _ = False"

lemma alone_refused:
  assumes "parsed_limits cfg" and "readable_amounts (jsonl_read (pw_ledger w))" and "pi_io inp = None"
    and "pc_pc c = AskSucceeded" and "decimalToMicros (pm_amount (pc_payment c)) \<noteq> None"
    and refused: "\<not> may_send cfg (pi_now inp) (pw_ledger w) (pc_key c) (pm_amount (pc_payment c))"
  shows "\<exists>r. pay_until 4 cfg True inp answer (c, w) = (c\<lparr>pc_pc := Ended r\<rparr>, w) \<and> \<not> paid r"
proof (cases "hasSucceeded (pc_key c) (pw_ledger w)")
  case (Some r)
  have "\<exists>r'. pay_until 3 cfg True inp answer
      (c\<lparr>pc_pc := if truthy (lr_receipt r) then FindReceipt r else Ended (PaidBefore r None)\<rparr>, w)
      = (c\<lparr>pc_pc := Ended r'\<rparr>, w) \<and> \<not> paid r'"
    using assms(3) by (cases "truthy (lr_receipt r)") (auto simp: eval_nat_numeral pay_until_goto)
  then show ?thesis by (simp add: questions [OF assms(3,4)] Some)
next
  case None
  with refused checks_throw [OF assms(1,2,5), of "pi_now inp"] show ?thesis
    by (auto simp: questions [OF assms(3,4)] may_send_def isl_def split: option.split sum.split)
qed

end
