(* ===== verification/Payment_Limits.thy ===== *)
theory Payment_Limits
  imports Payment_Safety
begin

text \<open>
  Payments one after the other: what each does to the ledger, and why their sum stays within
  the daily and the monthly limit.
\<close>

section \<open>Amounts\<close>

lemma amount_format_dec:
  assumes "amount_format s"
  shows "decimalToMicros s \<noteq> None" and "0 \<le> dec s"
proof -
  have pad: "list_all is_digit f \<Longrightarrow> list_all is_digit (pad_frac f)" for f
    by (auto simp: pad_frac_def list_all_iff dest: in_set_takeD)
  have "all_digits (whole_part s) \<and> list_all is_digit (frac_part s)"
    using assms unfolding amount_format_def whole_part_def frac_part_def
    by (auto simp: all_digits_def split: list.splits)
  then have w: "list_all is_digit (whole_part s)" "whole_part s \<noteq> []" "list_all is_digit (pad_frac (frac_part s))"
    using pad by (auto simp: all_digits_def)
  have ne: "pad_frac (frac_part s) \<noteq> []" by (simp add: pad_frac_def)
  have "decimalToMicros s = Some (int (digits_val (whole_part s)) * 1000000 + int (digits_val (pad_frac (frac_part s))))"
    using w ne by (simp add: decimalToMicros_def)
  then show "decimalToMicros s \<noteq> None" "0 \<le> dec s" by (simp_all add: dec_def)
qed

definition ledger_ok :: "ledger_record list \<Rightarrow> bool" where
  "ledger_ok rs \<longleftrightarrow> (\<forall>r\<in>set rs. \<exists>m\<ge>0. BigInt (lr_amountMicros r) = Some m)"

lemma ledger_ok_readable: "ledger_ok rs \<Longrightarrow> readable_amounts rs"
  by (auto simp: ledger_ok_def readable_amounts_def)

lemma ledger_ok_append [simp]: "ledger_ok (xs @ ys) \<longleftrightarrow> ledger_ok xs \<and> ledger_ok ys"
  by (auto simp: ledger_ok_def)

lemma ledger_ok_records:
  "ledger_ok [success_record rid now key receipt]" "ledger_ok [failure_record rid now key err]"
  "amount_format (pm_amount (pc_payment c)) \<Longrightarrow> ledger_ok [attempt_of inp c]"
proof -
  have "BigInt ''0'' = Some 0" by code_simp
  then show "ledger_ok [success_record rid now key receipt]" "ledger_ok [failure_record rid now key err]"
    by (simp_all add: ledger_ok_def success_record_def failure_record_def)
  assume "amount_format (pm_amount (pc_payment c))"
  from amount_format_dec [OF this] show "ledger_ok [attempt_of inp c]"
    by (auto simp: ledger_ok_def attempt_of_def attempt_record_def dec_def BigInt_int_str)
qed

section \<open>Sums over the ledger\<close>

definition bucket_sum :: "(ledger_record \<Rightarrow> string) \<Rightarrow> string \<Rightarrow> ledger_record list \<Rightarrow> int" where
  "bucket_sum bucket b rs = (\<Sum>r\<leftarrow>counted_attempts bucket b rs. record_micros r)"

lemma spent_bucket:
  assumes "readable_amounts (jsonl_read f)"
  shows "spent_today now f = bucket_sum lr_day (iso_day now) (jsonl_read f)"
    and "spent_month now f = bucket_sum lr_month (iso_month now) (jsonl_read f)"
  using assms by (simp_all add: spent_today_def spent_month_def sumSuccessfulByDay_def
    sumSuccessfulByMonth_def counted_attempts_def sum_micros_ok readable_filter bucket_sum_def)

lemma record_nonneg: "ledger_ok rs \<Longrightarrow> r \<in> set rs \<Longrightarrow> 0 \<le> record_micros r"
  by (auto simp: ledger_ok_def record_micros_def)

lemma sum_filter_mono:
  fixes g :: "'a \<Rightarrow> int"
  assumes "\<And>x. x \<in> set xs \<Longrightarrow> 0 \<le> g x" and "\<And>x. x \<in> set xs \<Longrightarrow> P x \<Longrightarrow> Q x"
  shows "(\<Sum>x\<leftarrow>filter P xs. g x) \<le> (\<Sum>x\<leftarrow>filter Q xs. g x)"
  using assms
proof (induction xs)
  case (Cons x xs)
  have "(\<Sum>x\<leftarrow>filter P xs. g x) \<le> (\<Sum>x\<leftarrow>filter Q xs. g x)" by (rule Cons.IH) (use Cons.prems in auto)
  with Cons.prems [of x] show ?case by auto
qed simp

lemma sum_filter_nonneg:
  fixes g :: "'a \<Rightarrow> int"
  assumes "\<And>x. x \<in> set xs \<Longrightarrow> 0 \<le> g x"
  shows "0 \<le> (\<Sum>x\<leftarrow>filter P xs. g x)"
  using assms by (intro sum_list_nonneg) auto

text \<open>A longer ledger counts no less, and an attempt whose key has succeeded counts.\<close>

lemma bucket_sum_append:
  assumes "ledger_ok (rs @ ys)"
  shows "bucket_sum bucket b rs \<le> bucket_sum bucket b (rs @ ys)"
proof -
  let ?P = "\<lambda>zs r. lr_status r = Attempted \<and> lr_key r \<in> set (map lr_key (filter (\<lambda>r. lr_status r = PaySuccess) zs)) \<and> bucket r = b"
  have "bucket_sum bucket b rs = (\<Sum>r\<leftarrow>filter (?P rs) rs. record_micros r)"
    by (simp add: bucket_sum_def counted_attempts_def)
  also have "\<dots> \<le> (\<Sum>r\<leftarrow>filter (?P (rs @ ys)) rs. record_micros r)"
    using assms by (intro sum_filter_mono) (auto intro: record_nonneg)
  also have "\<dots> \<le> (\<Sum>r\<leftarrow>filter (?P (rs @ ys)) (rs @ ys). record_micros r)"
    using sum_filter_nonneg [of ys record_micros "?P (rs @ ys)"] assms
    by (simp add: record_nonneg [of ys])
  also have "\<dots> = bucket_sum bucket b (rs @ ys)" by (simp add: bucket_sum_def counted_attempts_def)
  finally show ?thesis .
qed

lemma bucket_sum_paid:
  assumes ok: "ledger_ok (rs @ a # ys)" and a: "lr_status a = Attempted" "bucket a = b"
    and s: "s \<in> set ys" "lr_status s = PaySuccess" "lr_key s = lr_key a"
  shows "bucket_sum bucket b rs + record_micros a \<le> bucket_sum bucket b (rs @ a # ys)"
proof -
  define P where "P zs r \<longleftrightarrow> lr_status r = Attempted
    \<and> lr_key r \<in> set (map lr_key (filter (\<lambda>r. lr_status r = PaySuccess) zs)) \<and> bucket r = b" for zs :: "ledger_record list" and r
  have sum: "bucket_sum bucket b zs = (\<Sum>r\<leftarrow>filter (P zs) zs. record_micros r)" for zs
    by (simp add: bucket_sum_def counted_attempts_def P_def [abs_def])
  let ?Q = "P (rs @ a # ys)"
  have "(\<Sum>r\<leftarrow>filter (P rs) rs. record_micros r) \<le> (\<Sum>r\<leftarrow>filter ?Q rs. record_micros r)"
    using record_nonneg [OF ok] by (intro sum_filter_mono) (auto simp: P_def)
  moreover have "lr_key a \<in> lr_key ` {r \<in> set ys. lr_status r = PaySuccess}"
    by (rule image_eqI [of _ _ s]) (use s in simp_all)
  with a have "?Q a" by (simp add: P_def)
  moreover have "0 \<le> (\<Sum>r\<leftarrow>filter ?Q ys. record_micros r)"
    using record_nonneg [OF ok] by (intro sum_filter_nonneg) simp
  ultimately show ?thesis by (simp add: sum)
qed

section \<open>What one payment does\<close>

definition adds :: "pay_world \<Rightarrow> ledger_record list \<Rightarrow> pay_world \<Rightarrow> bool" where
  "adds w rs w' \<longleftrightarrow> jsonl_clean (pw_ledger w') \<and> jsonl_read (pw_ledger w') = jsonl_read (pw_ledger w) @ rs"

lemma adds_simps [simp]:
  "jsonl_clean (pw_ledger w) \<Longrightarrow> pi_io inp = None \<Longrightarrow> adds w [r] (put_ledger inp r w)"
  "jsonl_clean (pw_ledger w) \<Longrightarrow> adds w [] (put_pay_receipt cfg inp c x w)"
  "jsonl_clean (pw_ledger w) \<Longrightarrow> adds w [] w"
  by (simp_all add: adds_def put_ledger_def put_pay_receipt_def)

lemma adds_clean: "adds w rs w' \<Longrightarrow> jsonl_clean (pw_ledger w')"
  by (simp add: adds_def)

lemma adds_trans: "adds w rs w' \<Longrightarrow> adds w' qs w'' \<Longrightarrow> adds w (rs @ qs) w''"
  by (simp add: adds_def)

text \<open>From the wallet's answer to the end.\<close>

definition settles :: "pay_call \<Rightarrow> ledger_record list \<Rightarrow> pay_reply \<Rightarrow> bool" where
  "settles c rs r \<longleftrightarrow> ledger_ok rs \<and> (paid r \<longrightarrow> (\<exists>s\<in>set rs. lr_status s = PaySuccess \<and> lr_key s = pc_key c))"

lemma saved_success:
  assumes io: "pi_io inp = None" and clean: "jsonl_clean (pw_ledger w)"
    and pc: "pc_pc c = WriteSuccess rid already"
  shows "\<exists>r rs c' w'. pay_until (Suc (Suc n)) cfg True inp answer (c, w) = (c', w')
    \<and> pc_pc c' = Ended r \<and> adds w rs w' \<and> settles c rs r"
proof -
  let ?s = "success_record (pi_id inp) (pi_now inp) (pc_key c) (Some rid)"
  have "pay_until (Suc (Suc n)) cfg True inp answer (c, w)
      = (c\<lparr>pc_pc := Ended (if already then PaidAlready rid else PaidNow rid)\<rparr>, put_ledger inp ?s w)"
    using io pc by (simp add: pay_until_goto)
  moreover have "settles c [?s] (if already then PaidAlready rid else PaidNow rid)"
    using ledger_ok_records(1) by (simp add: settles_def success_record_def)
  ultimately show ?thesis using adds_simps(1) [OF clean io, of ?s] by fastforce
qed

lemma receipt_then_success:
  assumes io: "pi_io inp = None" and clean: "jsonl_clean (pw_ledger w)"
    and pc: "pc_pc c = SaveReceipt result \<or> pc_pc c = SavePaid err"
  shows "\<exists>r rs c' w'. pay_until (Suc (Suc (Suc n))) cfg True inp answer (c, w) = (c', w')
    \<and> pc_pc c' = Ended r \<and> adds w rs w' \<and> settles c rs r"
proof -
  obtain rid already x where step: "pay_until (Suc (Suc (Suc n))) cfg True inp answer (c, w)
      = pay_until (Suc (Suc n)) cfg True inp answer (c\<lparr>pc_pc := WriteSuccess rid already\<rparr>, put_pay_receipt cfg inp c x w)"
    using io pc by (auto simp: pay_until_goto [of c "SaveReceipt result"] pay_until_goto [of c "SavePaid err"])
  note a = adds_simps(2) [OF clean, of cfg inp c x]
  from saved_success [OF io adds_clean [OF a], of "c\<lparr>pc_pc := WriteSuccess rid already\<rparr>" rid already n cfg answer]
  obtain r rs c' w' where fin: "pay_until (Suc (Suc n)) cfg True inp answer
        (c\<lparr>pc_pc := WriteSuccess rid already\<rparr>, put_pay_receipt cfg inp c x w) = (c', w')"
    "pc_pc c' = Ended r" "adds (put_pay_receipt cfg inp c x w) rs w'"
    "settles (c\<lparr>pc_pc := WriteSuccess rid already\<rparr>) rs r" by auto
  from adds_trans [OF a fin(3)] fin(4) have "adds w rs w'" "settles c rs r" by (simp_all add: settles_def)
  with step fin(1,2) show ?thesis by fastforce
qed

lemma answered:
  assumes io: "pi_io inp = None" and clean: "jsonl_clean (pw_ledger w)" and pc: "pc_pc c = InWallet"
  shows "\<exists>r rs c' w'. pay_until 7 cfg True inp answer (c, w) = (c', w')
    \<and> pc_pc c' = Ended r \<and> adds w rs w' \<and> settles c rs r"
proof -
  let ?c = "pay_answer inp answer c"
  have key: "pc_key ?c = pc_key c" by (simp add: pay_answer_def)
  have settles: "settles ?c rs r = settles c rs r" for rs r by (simp add: settles_def key)
  define n where "n = (3 :: nat)"
  have start: "pay_until 7 cfg True inp answer (c, w) = pay_until (Suc (Suc (Suc n))) cfg True inp answer (?c, w)"
    using pc by (simp add: n_def numeral_eq_Suc pay_until.simps(2) [of "Suc (Suc (Suc (Suc (Suc (Suc 0)))))"])
  consider (ok) result where "pc_pc ?c = SaveReceipt result" | (paid) err where "pc_pc ?c = SavePaid err"
    | (unknown) err where "pc_pc ?c = SaveUnknown err" | (failed) err where "pc_pc ?c = WriteFailure err"
  proof (cases answer)
    case (Inl err)
    then consider "pc_pc ?c = SavePaid err" | "pc_pc ?c = SaveUnknown err" | "pc_pc ?c = WriteFailure err"
      by (cases "isBrokerAbortOrTimeout err (pi_aborted inp)"; cases "isAlreadyPaid (je_text err)")
         (simp_all add: pay_answer_def catch_pay_def)
    then show thesis using that by cases blast+
  next
    case (Inr result)
    then show thesis using that(1) by (simp add: pay_answer_def)
  qed
  then show ?thesis
  proof cases
    case ok
    with receipt_then_success [OF io clean, of ?c result _ n cfg answer] show ?thesis
      by (simp add: start settles)
  next
    case paid
    with receipt_then_success [OF io clean, of ?c _ err n cfg answer] show ?thesis
      by (simp add: start settles)
  next
    case unknown
    then have "pay_until 7 cfg True inp answer (c, w) = (?c\<lparr>pc_pc := Ended (PayThrew err)\<rparr>,
        put_pay_receipt cfg inp ?c (UnknownState (je_text err)) w)"
      using io by (simp add: start pay_until_goto)
    moreover have "settles c [] (PayThrew err)" by (simp add: settles_def ledger_ok_def)
    ultimately show ?thesis
      using adds_simps(2) [OF clean, of cfg inp ?c "UnknownState (je_text err)"] by fastforce
  next
    case failed
    let ?f = "failure_record (pi_id inp) (pi_now inp) (pc_key ?c) (je_text err)"
    let ?c1 = "?c\<lparr>pc_pc := SaveFailure err\<rparr>"
    have "pay_until 7 cfg True inp answer (c, w) = (?c\<lparr>pc_pc := Ended (PayThrew err)\<rparr>,
        put_pay_receipt cfg inp ?c1 (FailedWith (je_text err)) (put_ledger inp ?f w))"
      using io failed by (simp add: start pay_until_goto)
    moreover have "settles c [?f] (PayThrew err)" by (simp add: settles_def ledger_ok_records)
    moreover note a = adds_simps(1) [OF clean io, of ?f]
    have "adds w [?f] (put_pay_receipt cfg inp ?c1 (FailedWith (je_text err)) (put_ledger inp ?f w))"
      using adds_trans [OF a adds_simps(2) [OF adds_clean [OF a]]] by simp
    ultimately show ?thesis by fastforce
  qed
qed

lemma payX402_effect:
  assumes limits: "parsed_limits cfg" and clean: "jsonl_clean (pw_ledger w)"
    and ok: "ledger_ok (jsonl_read (pw_ledger w))" and io: "pi_io inp = None"
    and amount: "amount_format (pm_amount p)"
    and pay: "payX402 host cfg True inp answer p w = (r, w')"
  shows "\<not> paid r \<and> pw_ledger w' = pw_ledger w
    \<or> (\<exists>c rs. pc_payment c = p \<and> may_send cfg (pi_now inp) (pw_ledger w) (pc_key c) (pm_amount p)
         \<and> adds w (attempt_of inp c # rs) w' \<and> settles c rs r)"
proof (cases "pay_begin host cfg (pi_id inp) p")
  case (Inl e)
  with pay show ?thesis by (auto simp: payX402_def)
next
  case (Inr c)
  then have c: "pc_payment c = p" "pc_pc c = AskSucceeded" by (auto simp: pay_begin_def split: sum.splits)
  note readable = ledger_ok_readable [OF ok]
  have dec: "decimalToMicros (pm_amount (pc_payment c)) \<noteq> None" using amount_format_dec(1) [OF amount] c by simp
  show ?thesis
  proof (cases "may_send cfg (pi_now inp) (pw_ledger w) (pc_key c) (pm_amount (pc_payment c))")
    case False
    from alone_refused [OF limits readable io c(2) dec this] obtain q where
      q: "pay_until 4 cfg True inp answer (c, w) = (c\<lparr>pc_pc := Ended q\<rparr>, w)" "\<not> paid q" by blast
    have "pay_until pay_steps cfg True inp answer (c, w) = (c\<lparr>pc_pc := Ended q\<rparr>, w)"
      using pay_until_add [of 4 9 cfg True inp answer "(c, w)"] q(1) by (simp add: pay_steps_def)
    with pay Inr q(2) show ?thesis by (auto simp: payX402_def)
  next
    case True
    let ?c = "c\<lparr>pc_pc := InWallet\<rparr>" and ?w = "put_ledger inp (attempt_of inp c) w"
    note a = adds_simps(1) [OF clean io, of "attempt_of inp c"]
    from answered [OF io adds_clean [OF a], of ?c cfg answer] obtain q rs c' w1 where
      q: "pay_until 7 cfg True inp answer (?c, ?w) = (c', w1)" "pc_pc c' = Ended q" "adds ?w rs w1"
        "settles ?c rs q" by auto
    have "pay_until pay_steps cfg True inp answer (c, w) = (c', w1)"
      using pay_until_add [of 6 7 cfg True inp answer "(c, w)"] alone_sent [OF limits readable io c(2) dec True] q(1)
      by (simp add: pay_steps_def)
    with pay Inr q(2) have "r = q" "w' = w1" by (auto simp: payX402_def)
    with adds_trans [OF a q(3)] q(4) True c(1) show ?thesis by (fastforce simp: settles_def)
  qed
qed

section \<open>A sequence of payments\<close>

text \<open>The log keeps, of each payment, its time, its amount and its reply.\<close>

fun pay_seq ::
  "(string \<Rightarrow> string) \<Rightarrow> runner_config \<Rightarrow> (pay_input \<times> (js_error + exec_result) \<times> payment) list \<Rightarrow> pay_world
     \<Rightarrow> (nat \<times> string \<times> pay_reply) list \<times> pay_world" where
  "pay_seq host cfg [] w = ([], w)"
| "pay_seq host cfg ((inp, answer, p) # xs) w =
     (case payX402 host cfg True inp answer p w of
        (r, w1) \<Rightarrow> (case pay_seq host cfg xs w1 of (es, w2) \<Rightarrow> ((pi_now inp, pm_amount p, r) # es, w2)))"

definition paid_in :: "(nat \<Rightarrow> string) \<Rightarrow> string \<Rightarrow> (nat \<times> string \<times> pay_reply) list \<Rightarrow> int" where
  "paid_in bucket b es = (\<Sum>(now, a, r)\<leftarrow>es. if paid r \<and> bucket now = b then dec a else 0)"

definition proper_inputs :: "(pay_input \<times> (js_error + exec_result) \<times> payment) list \<Rightarrow> bool" where
  "proper_inputs xs \<longleftrightarrow> (\<forall>(inp, answer, p)\<in>set xs. pi_io inp = None \<and> amount_format (pm_amount p))"

lemma attempt_bucket:
  "lr_day (attempt_of inp c) = iso_day (pi_now inp)" "lr_month (attempt_of inp c) = iso_month (pi_now inp)"
  "lr_status (attempt_of inp c) = Attempted" "lr_key (attempt_of inp c) = pc_key c"
  by (simp_all add: attempt_of_def attempt_record_def)

lemma attempt_micros:
  "amount_format (pm_amount (pc_payment c)) \<Longrightarrow> record_micros (attempt_of inp c) = dec (pm_amount (pc_payment c))"
  using amount_format_dec [of "pm_amount (pc_payment c)"]
  by (auto simp: record_micros_def attempt_of_def attempt_record_def dec_def BigInt_int_str)

text \<open>
  One lemma for both windows: \<open>lr\<close> is the record's bucket, \<open>clk\<close> the clock's, and what may be
  sent keeps the bucket's sum within \<open>L\<close>.
\<close>

lemma pay_seq_bound:
  assumes limits: "parsed_limits cfg"
    and bucket: "\<And>inp c. lr (attempt_of inp c) = clk (pi_now inp)"
    and may: "\<And>now f key a. readable_amounts (jsonl_read f) \<Longrightarrow> may_send cfg now f key a \<Longrightarrow>
        bucket_sum lr (clk now) (jsonl_read f) + dec a \<le> L"
  shows "pay_seq host cfg xs w = (es, w') \<Longrightarrow> proper_inputs xs \<Longrightarrow> jsonl_clean (pw_ledger w) \<Longrightarrow>
     ledger_ok (jsonl_read (pw_ledger w)) \<Longrightarrow> A \<le> bucket_sum lr b (jsonl_read (pw_ledger w)) \<Longrightarrow> A \<le> L \<Longrightarrow>
     A + paid_in clk b es \<le> L"
proof (induction xs arbitrary: w es A)
  case (Cons x xs)
  obtain inp answer p where x: "x = (inp, answer, p)" by (cases x)
  obtain r w1 where r: "payX402 host cfg True inp answer p w = (r, w1)" by fastforce
  obtain es1 where es1: "pay_seq host cfg xs w1 = (es1, w')" "es = (pi_now inp, pm_amount p, r) # es1"
    using Cons.prems(1) by (auto simp: x r split: prod.splits)
  have io: "pi_io inp = None" and amount: "amount_format (pm_amount p)" and proper: "proper_inputs xs"
    using Cons.prems(2) by (auto simp: proper_inputs_def x)
  note IH = Cons.IH [OF es1(1) proper]
  let ?rs = "jsonl_read (pw_ledger w)"
  have paid_in: "paid_in clk b es = (if paid r \<and> clk (pi_now inp) = b then dec (pm_amount p) else 0) + paid_in clk b es1"
    by (simp add: paid_in_def es1(2))
  from payX402_effect [OF limits Cons.prems(3,4) io amount r] show ?case
  proof (elim disjE exE conjE)
    assume "\<not> paid r" "pw_ledger w1 = pw_ledger w"
    with IH [of A] Cons.prems paid_in show ?thesis by simp
  next
    fix c ys
    assume c: "pc_payment c = p" "may_send cfg (pi_now inp) (pw_ledger w) (pc_key c) (pm_amount p)"
      "adds w (attempt_of inp c # ys) w1" "settles c ys r"
    let ?a = "attempt_of inp c"
    have ok: "ledger_ok (?rs @ ?a # ys)"
      using Cons.prems(4) c(1,4) amount ledger_ok_records(3) [of c inp] ledger_ok_append [of "[?a]" ys]
      by (simp add: settles_def)
    from c(3) have w1: "jsonl_clean (pw_ledger w1)" "jsonl_read (pw_ledger w1) = ?rs @ ?a # ys"
      by (simp_all add: adds_def)
    note IH' = IH [OF w1(1)]
    show ?thesis
    proof (cases "paid r \<and> clk (pi_now inp) = b")
      case True
      with c(4) obtain s where s: "s \<in> set ys" "lr_status s = PaySuccess" "lr_key s = lr_key ?a"
        by (auto simp: settles_def attempt_bucket)
      from bucket_sum_paid [OF ok _ _ s, of lr b] True c(1) amount
      have "bucket_sum lr b ?rs + dec (pm_amount p) \<le> bucket_sum lr b (?rs @ ?a # ys)"
        by (simp add: attempt_bucket bucket attempt_micros)
      moreover have "bucket_sum lr b ?rs + dec (pm_amount p) \<le> L"
        using may [OF ledger_ok_readable [OF Cons.prems(4)] c(2)] True by simp
      ultimately show ?thesis
        using IH' [of "A + dec (pm_amount p)"] ok w1(2) Cons.prems(5) paid_in True by simp
    next
      case False
      have "bucket_sum lr b ?rs \<le> bucket_sum lr b (?rs @ ?a # ys)" by (rule bucket_sum_append [OF ok])
      then show ?thesis using IH' [of A] ok w1(2) Cons.prems(5,6) paid_in False by auto
    qed
  qed
qed (simp add: paid_in_def)

section \<open>A payment alone within the system\<close>

definition solo :: "pay_system \<Rightarrow> nat \<Rightarrow> pay_call \<Rightarrow> pay_pc \<Rightarrow> pay_world \<Rightarrow> (string \<times> string) list \<Rightarrow> pay_system" where
  "solo s p c pc w sent = s\<lparr>sy_calls := jsmap_set p (c\<lparr>pc_pc := pc\<rparr>) (sy_calls s), sy_world := w, sy_sent := sent\<rparr>"

lemma jsmap_set_set [simp]: "jsmap_set k v (jsmap_set k u m) = jsmap_set k v m"
  by (induction k u m rule: jsmap_set.induct) auto

lemma jsmap_set_same: "map_of m k = Some v \<Longrightarrow> jsmap_set k v m = m"
  by (induction k v m rule: jsmap_set.induct) (auto split: if_splits)

lemma solo_sel [simp]:
  "sy_lock (solo s p c pc w sent) = sy_lock s" "sy_world (solo s p c pc w sent) = w"
  "sy_sent (solo s p c pc w sent) = sent"
  "sy_calls (solo s p c pc w sent) = jsmap_set p (c\<lparr>pc_pc := pc\<rparr>) (sy_calls s)"
  by (simp_all add: solo_def)

lemma solo_put:
  "pay_put p (c\<lparr>pc_pc := pc'\<rparr>) w' (solo s p c pc w sent)
     = solo s p c pc' w' (if pc' = InWallet then sent @ [(pc_key c, pm_amount (pc_payment c))] else sent)"
  by (simp add: pay_put_def solo_def)

lemma solo_step:
  assumes "holds p (pc_key c) (sy_lock s)" and "pc \<noteq> InWallet" and "\<not> pc_ended pc" and "pi_io inp = None"
    and "pay_goto cfg supported inp (c\<lparr>pc_pc := pc\<rparr>) w pc = (pc', w')"
  shows "pay_step host cfg supported False (solo s p c pc w sent)
    (solo s p c pc' w' (if pc' = InWallet then sent @ [(pc_key c, pm_amount (pc_payment c))] else sent))"
proof -
  have "pay_step host cfg supported False (solo s p c pc w sent)
      (pay_put p (c\<lparr>pc_pc := pc'\<rparr>) w' (solo s p c pc w sent))"
    by (rule pay_run [where inp = inp and c = "c\<lparr>pc_pc := pc\<rparr>"])
       (use assms in \<open>simp_all add: pay_advance_def fault_free_def\<close>)
  then show ?thesis by (simp only: solo_put)
qed

lemma solo_sends:
  assumes limits: "parsed_limits cfg" and readable: "readable_amounts (jsonl_read (pw_ledger (sy_world s)))"
    and io: "pi_io inp = None" and c: "map_of (sy_calls s) p = Some c" "pc_pc c = AskSucceeded"
    and lock: "holds p (pc_key c) (sy_lock s)" and dec: "decimalToMicros (pm_amount (pc_payment c)) \<noteq> None"
    and send: "may_send cfg (pi_now inp) (pw_ledger (sy_world s)) (pc_key c) (pm_amount (pc_payment c))"
  shows "(pay_step host cfg True False)\<^sup>*\<^sup>* s
    (solo s p c InWallet (put_ledger inp (attempt_of inp c) (sy_world s))
       (sy_sent s @ [(pc_key c, pm_amount (pc_payment c))]))"
proof -
  let ?w = "sy_world s" and ?w' = "put_ledger inp (attempt_of inp c) (sy_world s)" and ?n = "sy_sent s"
  note ok = daily_ok_iff [OF readable dec, of cfg "pi_now inp"] monthly_ok_iff [OF readable dec, of cfg "pi_now inp"]
  note step = solo_step [where host = host and cfg = cfg and supported = True and s = s and p = p and c = c
      and inp = inp and sent = ?n, OF lock _ _ io]
  have eta: "c\<lparr>pc_pc := AskSucceeded\<rparr> = c" using c(2) by (cases c) simp
  have "s = solo s p c AskSucceeded ?w ?n"
    by (simp add: solo_def eta jsmap_set_same [OF c(1)])
  moreover have s1: "pay_step host cfg True False (solo s p c AskSucceeded ?w ?n) (solo s p c AskPending ?w ?n)"
    using step [of AskSucceeded ?w AskPending ?w] io send by (simp add: may_send_def)
  moreover have s2: "pay_step host cfg True False (solo s p c AskPending ?w ?n) (solo s p c AskDaily ?w ?n)"
    using step [of AskPending ?w AskDaily ?w] io send by (simp add: may_send_def)
  moreover have s3: "pay_step host cfg True False (solo s p c AskDaily ?w ?n) (solo s p c AskMonthly ?w ?n)"
    using step [of AskDaily ?w AskMonthly ?w] io send ok(1) limits by (simp add: may_send_def parsed_limits_def)
  moreover have s4: "pay_step host cfg True False (solo s p c AskMonthly ?w ?n) (solo s p c WriteAttempt ?w ?n)"
    using step [of AskMonthly ?w WriteAttempt ?w] io send ok(2) limits by (simp add: may_send_def parsed_limits_def)
  moreover have s5: "pay_step host cfg True False (solo s p c WriteAttempt ?w ?n) (solo s p c CallWallet ?w' ?n)"
    using step [of WriteAttempt ?w CallWallet ?w'] io by simp
  moreover have s6: "pay_step host cfg True False (solo s p c CallWallet ?w' ?n)
      (solo s p c InWallet ?w' (?n @ [(pc_key c, pm_amount (pc_payment c))]))"
    using step [of CallWallet ?w' InWallet ?w'] by simp
  note run = rtranclp.rtrancl_into_rtrancl
  ultimately show ?thesis
    using run [OF run [OF run [OF run [OF run [OF r_into_rtranclp [of "pay_step host cfg True False", OF s1] s2] s3] s4] s5] s6]
    by simp
qed

end
