(* ===== verification/Payment_Properties.thy ===== *)
theory Payment_Properties
  imports Payment_Limits
begin

text \<open>
  The properties of x402 payments, over every run of the payment system of \<open>X402_Payments\<close>
  and for one payment on its own, each with a concrete run.
\<close>

section \<open>A concrete configuration\<close>

definition pay_config :: runner_config where
  "pay_config = \<lparr>cf_agentId = ''1'', cf_role = ''client'', cf_allowedRoles = [''client''],
     cf_chain = ''arc'', cf_wallet = Some ''0xA'', cf_account = ''EOA'', cf_perTx = ''1'', cf_daily = ''1'',
     cf_monthly = ''20'', cf_maxJob = ''1'', cf_approvalAbove = None, cf_paymentEnabled = True,
     cf_gatewayDeposit = False, cf_batchItems = 10, cf_batchTotal = ''1'', cf_x402Hosts = []\<rparr>"

definition pay_demo :: "string \<Rightarrow> payment" where
  "pay_demo key = \<lparr>pm_url = ''u'', pm_method = ''GET'', pm_body = JUndef, pm_amount = ''1'', pm_reason = ''r'',
     pm_key = Some key\<rparr>"

definition calm :: pay_input where
  "calm = \<lparr>pi_now = 0, pi_id = ''x'', pi_io = None, pi_torn = TornNothing, pi_aborted = False\<rparr>"

definition demo_call :: "string \<Rightarrow> pay_call" where
  "demo_call key = \<lparr>pc_payment = pay_demo key, pc_key = key, pc_pc = AskSucceeded\<rparr>"

lemma demo_amounts:
  "decimalToMicros ''1'' = Some 1000000" "decimalToMicros ''20'' = Some 20000000" "amount_format ''1''"
  by code_simp+

lemma demo_dec: "dec ''1'' = 1000000" "dec ''20'' = 20000000"
  by (simp_all add: dec_def demo_amounts)

lemma demo_limits: "parsed_limits pay_config"
  by (simp add: parsed_limits_def pay_config_def demo_amounts)

lemma demo_begin: "pay_begin (\<lambda>u. u) pay_config uuid (pay_demo key) = Inr (demo_call key)"
  by (simp add: pay_begin_def assertX402PaymentAllowed_def pay_config_def pay_demo_def isHostAllowed_def
    to_micros_def demo_amounts demo_call_def)

lemma spent_empty: "jsonl_read f = [] \<Longrightarrow> spent_today now f = 0 \<and> spent_month now f = 0"
  by (simp add: spent_today_def spent_month_def sumSuccessfulByDay_def sumSuccessfulByMonth_def counted_attempts_def)

section \<open>One payment\<close>


definition empty_world :: pay_world where
  "empty_world = \<lparr>pw_ledger = empty_jsonl, pw_receipts = empty_jsonl\<rparr>"

lemma demo_may_send: "jsonl_read f = [] \<Longrightarrow> may_send pay_config now f key ''1''"
  by (simp add: may_send_def hasSucceeded_def hasPendingAttempt_def pending_attempt_def has_event_def
    spent_empty pay_config_def demo_dec)


section \<open>Two requests\<close>

definition two_calls :: pay_system where
  "two_calls = pay_initial\<lparr>sy_calls := [(1, demo_call ''a''), (2, demo_call ''b'')],
     sy_lock := lock_arrive ''b'' 2 (lock_arrive ''a'' 1 new_lock)\<rparr>"

lemma two_calls: "(pay_step (\<lambda>u. u) pay_config True False)\<^sup>*\<^sup>* pay_initial two_calls"
proof -
  let ?s = "pay_initial\<lparr>sy_calls := [(1, demo_call ''a'')], sy_lock := lock_arrive ''a'' 1 new_lock\<rparr>"
  have key: "pc_key (demo_call k) = k" for k by (simp add: demo_call_def)
  have s1: "pay_step (\<lambda>u. u) pay_config True False pay_initial ?s"
    using pay_arrive [of pay_initial 1 "\<lambda>u. u" pay_config _ "pay_demo ''a''", OF _ demo_begin]
    by (simp add: pay_initial_def key)
  have s2: "pay_step (\<lambda>u. u) pay_config True False ?s two_calls"
    using pay_arrive [of ?s 2 "\<lambda>u. u" pay_config _ "pay_demo ''b''", OF _ demo_begin]
    by (simp add: pay_initial_def key two_calls_def)
  from s1 have "(pay_step (\<lambda>u. u) pay_config True False)\<^sup>*\<^sup>* pay_initial ?s" by (rule r_into_rtranclp)
  then show ?thesis using s2 by (rule rtranclp.rtrancl_into_rtrancl)
qed

lemma one_sent:
  "\<exists>t. (pay_step (\<lambda>u. u) pay_config True False)\<^sup>*\<^sup>* pay_initial t \<and> sy_sent t = [(''a'', ''1'')]"
proof -
  have calls: "map_of (sy_calls two_calls) 1 = Some (demo_call ''a'')" "sy_sent two_calls = []"
    "pw_ledger (sy_world two_calls) = empty_jsonl" by (simp_all add: two_calls_def pay_initial_def)
  have call: "pc_key (demo_call k) = k" "pc_pc (demo_call k) = AskSucceeded" "pm_amount (pc_payment (demo_call k)) = ''1''" for k
    by (simp_all add: demo_call_def pay_demo_def)
  have lock: "holds 1 ''a'' (sy_lock two_calls)" by (simp add: two_calls_def lock_eval)
  have "(pay_step (\<lambda>u. u) pay_config True False)\<^sup>*\<^sup>* two_calls (solo two_calls 1 (demo_call ''a'') InWallet
      (put_ledger calm (attempt_of calm (demo_call ''a'')) (sy_world two_calls))
      (sy_sent two_calls @ [(pc_key (demo_call ''a''), pm_amount (pc_payment (demo_call ''a'')))]))"
    by (rule solo_sends [OF demo_limits _ _ calls(1)])
       (use lock in \<open>simp_all add: calls call readable_amounts_def calm_def demo_amounts demo_may_send\<close>)
  from rtranclp_trans [OF two_calls this] show ?thesis by (intro exI conjI) (assumption, simp add: calls call)
qed

section \<open>Every run\<close>

text \<open>C7: In every run without file faults, whatever interleaving, crashes and answers of the
  wallet, the wallet is called for a key and amount at most as often as the ledger file holds
  attempts with that key and amount: no wallet call goes unrecorded.\<close>

theorem recorded_before_sent:
  assumes "(pay_step host cfg supported False)\<^sup>*\<^sup>* pay_initial s"
  shows "length (filter (\<lambda>x. x = (key, amount)) (sy_sent s))
    \<le> length (filter (\<lambda>r. lr_status r = Attempted \<and> (lr_key r, lr_amountUsdc r) = (key, amount))
        (jsonl_read (pw_ledger (sy_world s))))"
proof -
  have "recorded_inv s" using assms by (intro pay.reach_inv [of pay_initial]) auto
  from recorded_invD(3) [OF this, of "(key, amount)"] show ?thesis by (simp add: sends_def attempts_def)
qed

theorem recorded_before_sent_witness:
  "\<exists>t. (pay_step (\<lambda>u. u) pay_config True False)\<^sup>*\<^sup>* pay_initial t
     \<and> 1 \<le> length (filter (\<lambda>r. lr_status r = Attempted \<and> (lr_key r, lr_amountUsdc r) = (''a'', ''1''))
        (jsonl_read (pw_ledger (sy_world t))))"
proof -
  obtain t where t: "(pay_step (\<lambda>u. u) pay_config True False)\<^sup>*\<^sup>* pay_initial t" "sy_sent t = [(''a'', ''1'')]"
    using one_sent by blast
  with recorded_before_sent [OF t(1), of "''a''" "''1''"] show ?thesis by (intro exI [of _ t]) simp
qed

text \<open>Once the ledger holds a success of a key and no payment of that key is past its first
  question, no later request, retry, crash or answer makes the runner call the wallet for that
  key again.\<close>

theorem success_is_final:
  assumes "jsonl_clean (pw_ledger (sy_world s))" and "hasSucceeded key (pw_ledger (sy_world s)) \<noteq> None"
    and "\<And>p c. map_of (sy_calls s) p = Some c \<Longrightarrow> pc_key c = key \<Longrightarrow> before_send (pc_pc c)"
    and "(pay_step host cfg supported False)\<^sup>*\<^sup>* s t"
  shows "filter (\<lambda>x. fst x = key) (sy_sent t) = filter (\<lambda>x. fst x = key) (sy_sent s)
    \<and> hasSucceeded key (pw_ledger (sy_world t)) \<noteq> None"
proof -
  have "paid_inv key (filter (\<lambda>x. fst x = key) (sy_sent s)) s" using assms(1-3) by (intro paid_invI) auto
  from paid.steps_inv [OF assms(4) this] show ?thesis using paid_invD(2,4) by blast
qed

definition paid_file :: pay_ledger where
  "paid_file = jsonl_append (success_record ''s'' 0 ''k'' (Some ''r'')) empty_jsonl"

definition paid_system :: pay_system where
  "paid_system = pay_initial\<lparr>sy_world := \<lparr>pw_ledger = paid_file, pw_receipts = empty_jsonl\<rparr>,
     sy_sent := [(''k'', ''1'')]\<rparr>"

lemma paid_file: "jsonl_clean paid_file" "jsonl_read paid_file = [success_record ''s'' 0 ''k'' (Some ''r'')]"
  by (simp_all add: paid_file_def)

theorem success_is_final_witness:
  "\<exists>t. (pay_step (\<lambda>u. u) pay_config True False)\<^sup>*\<^sup>* paid_system t \<and> sy_calls t \<noteq> []
     \<and> filter (\<lambda>x. fst x = ''k'') (sy_sent t) = [(''k'', ''1'')]"
proof -
  let ?t = "paid_system\<lparr>sy_calls := [(1, demo_call ''k'')], sy_lock := lock_arrive (pc_key (demo_call ''k'')) 1 new_lock\<rparr>"
  have step: "pay_step (\<lambda>u. u) pay_config True False paid_system ?t"
    using pay_arrive [of paid_system 1 "\<lambda>u. u" pay_config _ "pay_demo ''k''", OF _ demo_begin]
    by (simp add: paid_system_def pay_initial_def)
  have success: "hasSucceeded ''k'' paid_file \<noteq> None"
    by (simp add: hasSucceeded_def has_event_def paid_file success_record_def)
  have "filter (\<lambda>x. fst x = ''k'') (sy_sent ?t) = filter (\<lambda>x. fst x = ''k'') (sy_sent paid_system)"
    using success_is_final [of paid_system "''k''", OF _ _ _ r_into_rtranclp [of "pay_step (\<lambda>u. u) pay_config True False", OF step]]
    by (simp add: paid_system_def pay_initial_def paid_file(1) success)
  with r_into_rtranclp [of "pay_step (\<lambda>u. u) pay_config True False", OF step] show ?thesis
    by (intro exI [of _ ?t]) (simp add: paid_system_def)
qed

section \<open>Limits\<close>

text \<open>Payments one after the other, with any clock readings, answers of the wallet, refusals,
  failures and retries, never pay more on one UTC day than the daily limit, nor more in one month
  than the monthly limit.\<close>

theorem sequential_payments_within_limits:
  assumes "parsed_limits cfg" and "0 \<le> dec (cf_daily cfg)" and "0 \<le> dec (cf_monthly cfg)"
    and "proper_inputs xs"
    and "pay_seq host cfg xs \<lparr>pw_ledger = empty_jsonl, pw_receipts = empty_jsonl\<rparr> = (es, w)"
  shows "paid_in iso_day day es \<le> dec (cf_daily cfg) \<and> paid_in iso_month month es \<le> dec (cf_monthly cfg)"
proof
  have start: "bucket_sum lr b [] = 0" for lr b by (simp add: bucket_sum_def counted_attempts_def)
  have "0 + paid_in iso_day day es \<le> dec (cf_daily cfg)"
    by (rule pay_seq_bound [OF assms(1) _ _ assms(5,4), of lr_day])
       (use assms(2) in \<open>auto simp: attempt_bucket may_send_def spent_bucket ledger_ok_def start\<close>)
  then show "paid_in iso_day day es \<le> dec (cf_daily cfg)" by simp
  have "0 + paid_in iso_month month es \<le> dec (cf_monthly cfg)"
    by (rule pay_seq_bound [OF assms(1) _ _ assms(5,4), of lr_month])
       (use assms(3) in \<open>auto simp: attempt_bucket may_send_def spent_bucket ledger_ok_def start\<close>)
  then show "paid_in iso_month month es \<le> dec (cf_monthly cfg)" by simp
qed

definition demo_result :: exec_result where
  "demo_result = \<lparr>xr_command = ''pay'', xr_args = [], xr_stdout = [], xr_stderr = [], xr_json = JNull\<rparr>"

definition demo_payments :: "(pay_input \<times> (js_error + exec_result) \<times> payment) list" where
  "demo_payments = [(calm, Inr demo_result, pay_demo ''a''), (calm, Inr demo_result, pay_demo ''b'')]"

theorem sequential_payments_within_limits_witness:
  "paid_in iso_day (iso_day 0) (fst (pay_seq (\<lambda>u. u) pay_config demo_payments
     \<lparr>pw_ledger = empty_jsonl, pw_receipts = empty_jsonl\<rparr>)) \<le> 1000000"
proof -
  obtain es w where run: "pay_seq (\<lambda>u. u) pay_config demo_payments
     \<lparr>pw_ledger = empty_jsonl, pw_receipts = empty_jsonl\<rparr> = (es, w)" by fastforce
  have lim: "cf_daily pay_config = ''1''" "cf_monthly pay_config = ''20''" by (simp_all add: pay_config_def)
  have "proper_inputs demo_payments"
    by (simp add: proper_inputs_def demo_payments_def calm_def pay_demo_def demo_amounts)
  from sequential_payments_within_limits [OF demo_limits _ _ this run, of "iso_day 0" "[]"]
  show ?thesis by (simp add: run lim demo_dec)
qed


lemma find_snoc: "\<not> P a \<Longrightarrow> find P (xs @ [a]) = find P xs"
  by (induction xs) auto

lemma counted_append:
  assumes "\<not> (\<exists>r\<in>set rs. lr_key r = lr_key a \<and> lr_status r = PaySuccess)" and "lr_status a = Attempted"
  shows "counted_attempts lr b (rs @ [a]) = counted_attempts lr b rs"
  using assms by (auto simp: counted_attempts_def Let_def)

lemma may_send_append:
  assumes "jsonl_clean f" and "hasSucceeded (pc_key c) f = None" and "key \<noteq> pc_key c"
  shows "may_send cfg now (jsonl_append (attempt_of inp c) f) key a = may_send cfg now f key a"
proof -
  let ?a = "attempt_of inp c"
  have none: "\<not> (\<exists>r\<in>set (jsonl_read f). lr_key r = lr_key ?a \<and> lr_status r = PaySuccess)"
    using assms(2) by (auto simp: hasSucceeded_def has_event_def find_None_iff attempt_bucket)
  have "has_event PaySuccess key (jsonl_read f @ [?a]) = has_event PaySuccess key (jsonl_read f)"
    unfolding has_event_def by (rule find_snoc) (simp add: attempt_bucket)
  moreover have "pending_attempt key (jsonl_read f @ [?a]) = pending_attempt key (jsonl_read f)"
    using assms(3) by (simp add: pending_attempt_def attempt_bucket)
  moreover have "counted_attempts lr b (jsonl_read f @ [?a]) = counted_attempts lr b (jsonl_read f)" for lr b
    by (rule counted_append [OF none attempt_bucket(3)])
  ultimately show ?thesis
    using assms(1) by (simp add: may_send_def hasSucceeded_def hasPendingAttempt_def
      spent_today_def spent_month_def sumSuccessfulByDay_def sumSuccessfulByMonth_def)
qed

text \<open>C9: Payments at the same time are not checked against each other: when two requests with
  different keys each fit what is left of the limits, both call the wallet, even when together they
  pass the daily or the monthly limit, because an attempt counts only once its key has succeeded.\<close>

theorem concurrent_payments_both_sent:
  fixes inp :: pay_input and s :: pay_system and c d :: pay_call
  assumes "parsed_limits cfg" and "jsonl_clean (pw_ledger (sy_world s))"
    and "ledger_ok (jsonl_read (pw_ledger (sy_world s)))" and "pi_io inp = None"
    and "map_of (sy_calls s) p = Some c" "pc_pc c = AskSucceeded" "holds p (pc_key c) (sy_lock s)"
    and "map_of (sy_calls s) q = Some d" "pc_pc d = AskSucceeded" "holds q (pc_key d) (sy_lock s)"
    and "pc_key c \<noteq> pc_key d" and "amount_format (pm_amount (pc_payment c))" "amount_format (pm_amount (pc_payment d))"
    and "may_send cfg (pi_now inp) (pw_ledger (sy_world s)) (pc_key c) (pm_amount (pc_payment c))"
    and "may_send cfg (pi_now inp) (pw_ledger (sy_world s)) (pc_key d) (pm_amount (pc_payment d))"
  shows "\<exists>t. (pay_step host cfg True False)\<^sup>*\<^sup>* s t \<and> sy_sent t = sy_sent s
    @ [(pc_key c, pm_amount (pc_payment c)), (pc_key d, pm_amount (pc_payment d))]"
proof -
  let ?w = "put_ledger inp (attempt_of inp c) (sy_world s)"
  let ?t = "solo s p c InWallet ?w (sy_sent s @ [(pc_key c, pm_amount (pc_payment c))])"
  note dec = amount_format_dec(1) [OF assms(12)] amount_format_dec(1) [OF assms(13)]
  have first: "(pay_step host cfg True False)\<^sup>*\<^sup>* s ?t"
    by (rule solo_sends [OF assms(1) ledger_ok_readable [OF assms(3)] assms(4,5,6,7) dec(1) assms(14)])
  have led: "pw_ledger ?w = jsonl_append (attempt_of inp c) (pw_ledger (sy_world s))"
    using assms(4) by (simp add: put_ledger_def)
  have "readable_amounts (jsonl_read (pw_ledger ?w))"
    using assms(2,3) ledger_ok_records(3) [OF assms(12), of inp] by (intro ledger_ok_readable) (simp add: led)
  moreover have "p \<noteq> q" using assms(5,8,11) by auto
  then have "map_of (sy_calls ?t) q = Some d" using assms(8) by simp
  moreover have "hasSucceeded (pc_key c) (pw_ledger (sy_world s)) = None" using assms(14) by (simp add: may_send_def)
  then have "may_send cfg (pi_now inp) (pw_ledger ?w) (pc_key d) (pm_amount (pc_payment d))"
    using may_send_append [OF assms(2) _ assms(11) [symmetric]] assms(15) by (simp add: led)
  ultimately have "(pay_step host cfg True False)\<^sup>*\<^sup>* ?t (solo ?t q d InWallet (put_ledger inp (attempt_of inp d) ?w)
      (sy_sent ?t @ [(pc_key d, pm_amount (pc_payment d))]))"
    using solo_sends [of cfg ?t inp q d host] assms(1,4,9,10) dec(2) by simp
  with first show ?thesis
    by (intro exI conjI) (erule (1) rtranclp_trans, simp)
qed

theorem concurrent_payments_both_sent_witness:
  "\<exists>t. (pay_step (\<lambda>u. u) pay_config True False)\<^sup>*\<^sup>* pay_initial t
     \<and> (\<Sum>(key, amount)\<leftarrow>sy_sent t. dec amount) = 2 * dec (cf_daily pay_config)"
proof -
  have calls: "map_of (sy_calls two_calls) 1 = Some (demo_call ''a'')" "map_of (sy_calls two_calls) 2 = Some (demo_call ''b'')"
    "sy_sent two_calls = []" "pw_ledger (sy_world two_calls) = empty_jsonl" by (simp_all add: two_calls_def pay_initial_def)
  have call: "pc_key (demo_call k) = k" "pc_pc (demo_call k) = AskSucceeded" "pm_amount (pc_payment (demo_call k)) = ''1''" for k
    by (simp_all add: demo_call_def pay_demo_def)
  have locks: "holds (Suc 0) ''a'' (sy_lock two_calls)" "holds 2 ''b'' (sy_lock two_calls)"
    by (simp_all add: two_calls_def lock_eval)
  have "\<exists>t. (pay_step (\<lambda>u. u) pay_config True False)\<^sup>*\<^sup>* two_calls t \<and> sy_sent t = sy_sent two_calls
    @ [(pc_key (demo_call ''a''), ''1''), (pc_key (demo_call ''b''), ''1'')]"
    using concurrent_payments_both_sent [OF demo_limits _ _ _ calls(1) call(2) _ calls(2) call(2), of calm "\<lambda>u. u"]
    by (simp add: calls call locks ledger_ok_def calm_def demo_amounts demo_may_send)
  then obtain t where t: "(pay_step (\<lambda>u. u) pay_config True False)\<^sup>*\<^sup>* two_calls t"
    "sy_sent t = [(''a'', ''1''), (''b'', ''1'')]" by (auto simp: calls call)
  from rtranclp_trans [OF two_calls t(1)] show ?thesis
    by (intro exI [of _ t]) (simp add: t(2) demo_dec pay_config_def)
qed

section \<open>Payments whose state is unknown\<close>

text \<open>After one failure a key is never pending again. A payment is sent again although the
  ledger holds later attempts with no outcome (a broker timeout leaves the attempt without one, so
  that a retry should find it pending): the earlier failure hides them.\<close>

theorem failed_key_is_sent_again:
  assumes "parsed_limits cfg" and "readable_amounts (jsonl_read (pw_ledger w))" and "pi_io inp = None"
    and "pc_pc c = AskSucceeded" and "decimalToMicros (pm_amount (pc_payment c)) \<noteq> None"
    and "hasFailed (pc_key c) (pw_ledger w) \<noteq> None" and "hasSucceeded (pc_key c) (pw_ledger w) = None"
    and "spent_today (pi_now inp) (pw_ledger w) + dec (pm_amount (pc_payment c)) \<le> dec (cf_daily cfg)"
    and "spent_month (pi_now inp) (pw_ledger w) + dec (pm_amount (pc_payment c)) \<le> dec (cf_monthly cfg)"
  shows "pc_pc (fst (pay_until 6 cfg True inp answer (c, w))) = InWallet"
proof -
  have "hasPendingAttempt (pc_key c) (pw_ledger w) = None"
    using assms(6) by (auto simp: hasFailed_def has_event_def find_Some_iff hasPendingAttempt_def
      pending_attempt_def list_ex_iff in_set_conv_nth)
  with assms(7-9) have "may_send cfg (pi_now inp) (pw_ledger w) (pc_key c) (pm_amount (pc_payment c))"
    by (simp add: may_send_def)
  with alone_sent [OF assms(1-5)] show ?thesis by simp
qed

definition retried_records :: "ledger_record list" where
  "retried_records = [attempt_of calm (demo_call ''k''), failure_record ''f'' 0 ''k'' ''e'',
     attempt_of calm (demo_call ''k'')]"

definition retried_world :: pay_world where
  "retried_world = \<lparr>pw_ledger = fold jsonl_append retried_records empty_jsonl, pw_receipts = empty_jsonl\<rparr>"

theorem failed_key_is_sent_again_witness:
  "pc_pc (fst (pay_until 6 pay_config True calm (Inl pay_unsupported) (demo_call ''k'', retried_world))) = InWallet"
proof -
  have call: "pc_pc (demo_call ''k'') = AskSucceeded" "pc_key (demo_call ''k'') = ''k''"
    "pm_amount (pc_payment (demo_call ''k'')) = ''1''" by (simp_all add: demo_call_def pay_demo_def)
  have read: "jsonl_read (pw_ledger retried_world) = retried_records" by (simp add: retried_world_def)
  have "ledger_ok retried_records"
    using ledger_ok_records(2) [of "''f''" 0 "''k''" "''e''"] ledger_ok_records(3) [of "demo_call ''k''" calm]
    by (simp add: retried_records_def ledger_ok_def call demo_amounts)
  note readable = ledger_ok_readable [OF this]
  have events: "has_event PaySuccess ''k'' retried_records = None" "has_event PayFailure ''k'' retried_records \<noteq> None"
    by (simp_all add: has_event_def retried_records_def attempt_of_def attempt_record_def failure_record_def call)
  have "counted_attempts lr b retried_records = []" for lr b
    by (simp add: counted_attempts_def retried_records_def attempt_of_def attempt_record_def failure_record_def)
  then have spent: "spent_today now (pw_ledger retried_world) = 0" "spent_month now (pw_ledger retried_world) = 0" for now
    by (simp_all add: spent_today_def spent_month_def sumSuccessfulByDay_def sumSuccessfulByMonth_def read)
  show ?thesis
    by (rule failed_key_is_sent_again [OF demo_limits])
       (use readable events in \<open>simp_all add: read call hasSucceeded_def hasFailed_def spent demo_amounts
          demo_dec pay_config_def calm_def\<close>)
qed

text \<open>One torn line disables the ledger. When a crash has cut an append short, every read
  answers the empty ledger from then on, whatever is appended later: no key has succeeded, none is
  pending, nothing was spent, and each payment that fits the limits alone is sent.\<close>

theorem torn_ledger_forgets:
  assumes "parsed_limits cfg" and "pi_io inp = None" and "pc_pc c = AskSucceeded"
    and "decimalToMicros (pm_amount (pc_payment c)) \<noteq> None"
    and "pw_ledger w = fold jsonl_append rs (torn_append TornPart r f)"
    and "dec (pm_amount (pc_payment c)) \<le> dec (cf_daily cfg)" "dec (pm_amount (pc_payment c)) \<le> dec (cf_monthly cfg)"
  shows "pc_pc (fst (pay_until 6 cfg True inp answer (c, w))) = InWallet"
proof -
  have "None \<in> set (jl_lines (torn_append TornPart r f))" by (simp add: torn_append_def)
  from unreadable_forever [OF this] have read: "jsonl_read (pw_ledger w) = []" by (simp add: assms(5))
  then have "may_send cfg (pi_now inp) (pw_ledger w) (pc_key c) (pm_amount (pc_payment c))"
    using assms(6,7) spent_empty [OF read, of "pi_now inp"]
    by (simp add: may_send_def hasSucceeded_def hasPendingAttempt_def pending_attempt_def has_event_def)
  with alone_sent [OF assms(1) _ assms(2,3,4)] read show ?thesis by (simp add: readable_amounts_def)
qed

definition torn_world :: pay_world where
  "torn_world = \<lparr>pw_ledger = fold jsonl_append [] (torn_append TornPart (attempt_of calm (demo_call ''a'')) paid_file),
     pw_receipts = empty_jsonl\<rparr>"

theorem torn_ledger_forgets_witness:
  "hasSucceeded ''k'' paid_file \<noteq> None
   \<and> pc_pc (fst (pay_until 6 pay_config True calm (Inl pay_unsupported) (demo_call ''k'', torn_world))) = InWallet"
proof -
  have call: "pc_pc (demo_call ''k'') = AskSucceeded" "pm_amount (pc_payment (demo_call ''k'')) = ''1''"
    by (simp_all add: demo_call_def pay_demo_def)
  have w: "pw_ledger torn_world = fold jsonl_append [] (torn_append TornPart (attempt_of calm (demo_call ''a'')) paid_file)"
    by (simp add: torn_world_def)
  have "pc_pc (fst (pay_until 6 pay_config True calm (Inl pay_unsupported) (demo_call ''k'', torn_world))) = InWallet"
    by (rule torn_ledger_forgets [OF demo_limits _ _ _ w])
       (simp_all add: call demo_amounts demo_dec pay_config_def calm_def)
  then show ?thesis by (simp add: hasSucceeded_def has_event_def paid_file success_record_def)
qed

end
