(* ===== verification/Json_Roundtrip.thy ===== *)
theory Json_Roundtrip
  imports Json_Parser
begin

text \<open>
  \<open>JSON.parse\<close> reads back what \<open>JSON.stringify\<close> and \<open>canonicalJson\<close> print. Both printers print a
  value without \<open>undefined\<close> in the order of its fields (\<open>json_print\<close>); they differ in how
  they arrange the fields first.
\<close>

section \<open>Printing in the order of the fields\<close>

fun json_print :: "json \<Rightarrow> string" where
  "json_print JUndef = ''null''"
| "json_print JNull = ''null''"
| "json_print (JBool b) = (if b then ''true'' else ''false'')"
| "json_print (JNum n) = n"
| "json_print (JStr s) = json_quote s"
| "json_print (JArr vs) = ''['' @ join_with '','' (map json_print vs) @ '']''"
| "json_print (JObj kvs) =
     ''{'' @ join_with '','' (map (\<lambda>(k, v). json_quote k @ '':'' @ json_print v) kvs) @ ''}''"

text \<open>Values a parser can return: fields have different names and numbers are printed as
  \<open>String\<close> prints them.\<close>

fun json_value :: "(string \<Rightarrow> string) \<Rightarrow> json \<Rightarrow> bool" where
  "json_value num JUndef = False"
| "json_value num JNull = True"
| "json_value num (JBool b) = True"
| "json_value num (JNum n) = (scan_number n = Some (n, []) \<and> num n = n)"
| "json_value num (JStr s) = True"
| "json_value num (JArr vs) = (\<forall>v\<in>set vs. json_value num v)"
| "json_value num (JObj kvs) = (distinct (map fst kvs) \<and> (\<forall>(k, v)\<in>set kvs. json_value num v))"

fun commas :: "json_token list list \<Rightarrow> json_token list" where
  "commas [] = []"
| "commas [x] = x"
| "commas (x # y # ys) = x @ TComma # commas (y # ys)"

fun value_tokens :: "json \<Rightarrow> json_token list" where
  "value_tokens (JArr vs) = TList # commas (map value_tokens vs) @ [TEnd]"
| "value_tokens (JObj kvs) =
     TOpen # commas (map (\<lambda>(k, v). TValue (JStr k) # TColon # value_tokens v) kvs) @ [TClose]"
| "value_tokens v = [TValue v]"

section \<open>Strings\<close>

definition escaped_unit :: "char \<Rightarrow> char + nat" where
  "escaped_unit c = (if code c < 32 \<and> code c \<notin> {8, 9, 10, 12, 13} then Inr (code c) else Inl c)"

lemma code_inj: "code a = code b \<longleftrightarrow> a = b"
  by (simp add: code_def)

lemma char_code [simp]: "char_of (code c) = c"
  by (simp add: code_def)

lemma code_quote: "code CHR 0x22 = 34" "code CHR 0x5C = 92" "code CHR ''u'' = 117" "code CHR ''b'' = 98"
  "code CHR ''f'' = 102" "code CHR ''n'' = 110" "code CHR ''r'' = 114" "code CHR ''t'' = 116" "code CHR ''0'' = 48"
  by (simp_all add: code_def)

lemma hex_char_hex: "d < 16 \<Longrightarrow> is_hex (hex_char d) \<and> digit_val (hex_char d) = d"
  by (auto simp: hex_char_def is_hex_def is_digit_def digit_val_def)

lemma hex_zero: "is_hex CHR ''0''" "digit_val CHR ''0'' = 0"
  by (simp_all add: is_hex_def is_digit_def digit_val_def code_quote)

lemma radix_hex:
  assumes "n < 256"
  shows "radix_val 16 [CHR ''0'', CHR ''0'', hex_char (n div 16), hex_char (n mod 16)] = n"
proof -
  have "digit_val (hex_char (n div 16)) = n div 16" "digit_val (hex_char (n mod 16)) = n mod 16"
    using assms by (simp_all add: hex_char_hex)
  then show ?thesis by (simp add: radix_val_def hex_zero)
qed

lemma escape_char_simps:
  "escape_char CHR 0x22 = Some CHR 0x22" "escape_char CHR 0x5C = Some CHR 0x5C"
  "escape_char CHR ''b'' = Some (char_of (8 :: nat))" "escape_char CHR ''f'' = Some (char_of (12 :: nat))"
  "escape_char CHR ''n'' = Some (char_of (10 :: nat))" "escape_char CHR ''r'' = Some (char_of (13 :: nat))"
  "escape_char CHR ''t'' = Some (char_of (9 :: nat))"
  by (simp_all add: escape_char.simps)

lemma scan_escaped:
  "scan_string (json_escape c @ u) = map_option (\<lambda>(us, r). (escaped_unit c # us, r)) (scan_string u)"
proof -
  have char: "code c = n \<Longrightarrow> char_of n = c" for n by auto
  consider "c = CHR 0x22" | "c = CHR 0x5C" | "code c = 8" | "code c = 9" | "code c = 10" | "code c = 12" | "code c = 13"
    | "code c < 32" "code c \<notin> {8, 9, 10, 12, 13}" | "32 \<le> code c" "c \<noteq> CHR 0x22" "c \<noteq> CHR 0x5C"
    by fastforce
  then show ?thesis
  proof cases
    case 8
    then have "c \<noteq> CHR 0x22" "c \<noteq> CHR 0x5C" by (auto simp: code_quote)
    with 8 have "json_escape c = CHR 0x5C # CHR ''u'' # CHR ''0'' # CHR ''0'' # hex_char (code c div 16) # [hex_char (code c mod 16)]"
      by (simp add: json_escape_def)
    moreover have "is_hex (hex_char (code c div 16))" "is_hex (hex_char (code c mod 16))"
      by (simp_all add: hex_char_hex less_mult_imp_div_less)
    ultimately show ?thesis
      using 8 by (simp add: code_quote hex_zero radix_hex escaped_unit_def)
  qed (auto simp: json_escape_def escaped_unit_def code_quote escape_char_simps dest: char)
qed

lemma scan_quoted:
  "scan_string (concat (map json_escape s) @ CHR 0x22 # r) = Some (map escaped_unit s, r)"
  by (induction s) (simp_all add: scan_escaped)

lemma units_text_low: "h < 32 \<Longrightarrow> units_text (Inr h # us) = utf8 h @ units_text us"
  by (induction "Inr h # us" rule: units_text.induct) auto

lemma units_escaped: "units_text (map escaped_unit s) = s"
proof (induction s)
  case (Cons c s)
  show ?case
  proof (cases "escaped_unit c")
    case (Inl a)
    then have "a = c" by (auto simp: escaped_unit_def split: if_splits)
    with Cons Inl show ?thesis by simp
  next
    case (Inr n)
    then have n: "n = code c" "n < 32" by (auto simp: escaped_unit_def split: if_splits)
    then have "utf8 n = [c]" by (simp add: utf8_def)
    with Cons Inr n(2) show ?thesis by (simp add: units_text_low)
  qed
qed simp

section \<open>Numbers\<close>

definition ends_number :: "string \<Rightarrow> bool" where
  \<comment> \<open>what may follow a value: nothing that could continue a number\<close>
  "ends_number r \<longleftrightarrow> r = [] \<or> (\<not> is_digit (hd r) \<and> hd r \<notin> {CHR ''.'', CHR ''e'', CHR ''E''})"

lemma take_digits_append: "r = [] \<or> \<not> is_digit (hd r) \<Longrightarrow>
   takeWhile is_digit (s @ r) = takeWhile is_digit s \<and> dropWhile is_digit (s @ r) = dropWhile is_digit s @ r"
  by (induction s) (cases r; simp)+

lemma ends_number_hd: "ends_number r \<Longrightarrow> r = [] \<or> \<not> is_digit (hd r)"
  by (auto simp: ends_number_def)

lemma scan_digits_append:
  "scan_digits s = Some (d, t) \<Longrightarrow> ends_number r \<Longrightarrow> scan_digits (s @ r) = Some (d, t @ r)"
  using take_digits_append [OF ends_number_hd, of r s] by (auto simp: scan_digits_def Let_def split: if_splits)

lemmas scan_digits_Cons = scan_digits_append [where s = "c # s" for c s, unfolded append_Cons]

lemma scan_int_append: "scan_int s = Some (i, t) \<Longrightarrow> ends_number r \<Longrightarrow> scan_int (s @ r) = Some (i, t @ r)"
  by (auto simp: scan_int_def split: list.splits if_splits intro: scan_digits_Cons)

lemma scan_frac_append:
  assumes "scan_frac s = Some (f, t)" "ends_number r"
  shows "scan_frac (s @ r) = Some (f, t @ r)"
proof (cases s)
  case (Cons c u)
  with assms show ?thesis
    by (auto simp: scan_frac_def split: if_splits dest: scan_digits_append)
qed (use assms in \<open>auto simp: scan_frac_def ends_number_def split: list.splits\<close>)

lemma scan_exp_append:
  assumes "scan_exp s = Some (e, t)" "ends_number r"
  shows "scan_exp (s @ r) = Some (e, t @ r)"
proof (cases s)
  case (Cons c u)
  show ?thesis
  proof (cases "c = CHR ''e'' \<or> c = CHR ''E''")
    case True
    with assms(1) Cons obtain x v where u: "u = x # v" by (cases u) (auto simp: scan_exp_def)
    with assms Cons True show ?thesis
      by (auto simp: scan_exp_def split: if_splits dest: scan_digits_append scan_digits_Cons)
  qed (use assms Cons in \<open>auto simp: scan_exp_def\<close>)
qed (use assms in \<open>auto simp: scan_exp_def ends_number_def split: list.splits\<close>)

definition scan_unsigned :: "string \<Rightarrow> string \<Rightarrow> (string \<times> string) option" where
  "scan_unsigned sign s' = Option.bind (scan_int s') (\<lambda>(i, r1).
     Option.bind (scan_frac r1) (\<lambda>(f, r2). Option.bind (scan_exp r2) (\<lambda>(e, r3). Some (sign @ i @ f @ e, r3))))"

lemma scan_number_Cons:
  "scan_number (c # u) = (if c = CHR ''-'' then scan_unsigned [c] u else scan_unsigned [] (c # u))"
  by (simp add: scan_number_def scan_unsigned_def)

lemma scan_unsigned_append:
  assumes "scan_unsigned sign s = Some (n, t)" "ends_number r"
  shows "scan_unsigned sign (s @ r) = Some (n, t @ r)"
proof -
  from assms(1) obtain i r1 f r2 e where "scan_int s = Some (i, r1)" "scan_frac r1 = Some (f, r2)"
    "scan_exp r2 = Some (e, t)" "n = sign @ i @ f @ e"
    by (auto simp: scan_unsigned_def bind_eq_Some_conv)
  with assms(2) show ?thesis
    by (simp add: scan_unsigned_def scan_int_append scan_frac_append scan_exp_append)
qed

lemma scan_number_append:
  assumes "scan_number s = Some (n, t)" "ends_number r"
  shows "scan_number (s @ r) = Some (n, t @ r)"
proof (cases s)
  case (Cons c u)
  show ?thesis
    using assms(1) scan_unsigned_append [OF _ assms(2), of "[c]" u n t]
      scan_unsigned_append [OF _ assms(2), of "[]" "c # u" n t]
    by (auto simp: Cons scan_number_Cons split: if_splits)
qed (use assms in \<open>simp add: scan_number_def scan_int_def\<close>)

lemma scan_number_hd:
  assumes "scan_number s = Some (n, t)"
  shows "\<exists>c u. s = c # u \<and> (c = CHR ''-'' \<or> is_digit c)"
proof (cases s)
  case (Cons c u)
  have "scan_int (c # u) = Some (i, r) \<Longrightarrow> is_digit c" for i r
    by (auto simp: scan_int_def scan_digits_def Let_def split: if_splits)
  with assms Cons show ?thesis
    by (auto simp: scan_number_Cons scan_unsigned_def bind_eq_Some_conv split: if_splits)
qed (use assms in \<open>simp add: scan_number_def scan_int_def\<close>)

section \<open>Tokens\<close>

lemma tokens_step:
  "next_token num (c # s) = Some (t, r) \<Longrightarrow> \<not> json_space c \<Longrightarrow>
     json_tokens num (c # s) = map_option ((#) t) (json_tokens num r)"
  by (subst json_tokens.simps) (simp add: Let_def)

lemma not_json_space [simp]:
  "\<not> json_space CHR ''{''" "\<not> json_space CHR ''}''" "\<not> json_space CHR ''[''" "\<not> json_space CHR '']''"
  "\<not> json_space CHR '',''" "\<not> json_space CHR '':''" "\<not> json_space CHR 0x22" "\<not> json_space CHR ''n''"
  "\<not> json_space CHR ''t''" "\<not> json_space CHR ''f''" "\<not> json_space CHR ''-''"
  by (simp_all add: json_space_def code_def)

lemma digit_not_space: "is_digit c \<Longrightarrow> \<not> json_space c"
  by (auto simp: is_digit_def json_space_def)

lemma punctuation_tokens [simp]:
  "json_tokens num (CHR ''{'' # r) = map_option ((#) TOpen) (json_tokens num r)"
  "json_tokens num (CHR ''}'' # r) = map_option ((#) TClose) (json_tokens num r)"
  "json_tokens num (CHR ''['' # r) = map_option ((#) TList) (json_tokens num r)"
  "json_tokens num (CHR '']'' # r) = map_option ((#) TEnd) (json_tokens num r)"
  "json_tokens num (CHR '','' # r) = map_option ((#) TComma) (json_tokens num r)"
  "json_tokens num (CHR '':'' # r) = map_option ((#) TColon) (json_tokens num r)"
  by (rule tokens_step; simp add: next_token_def)+

lemma not_digit_letters: "\<not> is_digit CHR ''n''" "\<not> is_digit CHR ''t''" "\<not> is_digit CHR ''f''"
  by (simp_all add: is_digit_def code_def)

lemma word_tokens:
  "json_tokens num (''null'' @ r) = map_option ((#) (TValue JNull)) (json_tokens num r)"
  "json_tokens num (''true'' @ r) = map_option ((#) (TValue (JBool True))) (json_tokens num r)"
  "json_tokens num (''false'' @ r) = map_option ((#) (TValue (JBool False))) (json_tokens num r)"
  by (simp_all add: tokens_step next_token_def json_word.simps not_digit_letters)

lemma string_tokens:
  "json_tokens num (json_quote s @ r) = map_option ((#) (TValue (JStr s))) (json_tokens num r)"
  by (simp add: json_quote_def tokens_step next_token_def scan_quoted units_escaped)

lemma number_tokens:
  assumes "scan_number n = Some (n, [])" "num n = n" "ends_number r"
  shows "json_tokens num (n @ r) = map_option ((#) (TValue (JNum n))) (json_tokens num r)"
proof -
  obtain c u where n: "n = c # u" "c = CHR ''-'' \<or> is_digit c" using scan_number_hd [OF assms(1)] by blast
  have "scan_number (c # u @ r) = Some (n, r)" using scan_number_append [OF assms(1,3)] n by simp
  moreover have "c \<notin> {CHR ''{'', CHR ''}'', CHR ''['', CHR '']'', CHR '','', CHR '':'', CHR 0x22}"
    using n(2) by (auto simp: is_digit_def code_def)
  ultimately have "next_token num (c # u @ r) = Some (TValue (JNum n), r)"
    using n(2) assms(2) by (auto simp: next_token_def)
  moreover have "\<not> json_space c" using n(2) digit_not_space by auto
  ultimately show ?thesis using n(1) tokens_step by simp
qed

lemma ends_number_punct [simp]:
  "ends_number (CHR '','' # r)" "ends_number (CHR '']'' # r)" "ends_number (CHR ''}'' # r)" "ends_number []"
  by (simp_all add: ends_number_def is_digit_def code_def)

lemma joined_tokens:
  assumes "\<And>x r. x \<in> set xs \<Longrightarrow> ends_number r \<Longrightarrow> json_tokens num (p x @ r) = map_option ((@) (t x)) (json_tokens num r)"
    and "ends_number r"
  shows "json_tokens num (join_with '','' (map p xs) @ r) = map_option ((@) (commas (map t xs))) (json_tokens num r)"
  using assms
proof (induction xs rule: induct_list012)
  case 1
  then show ?case by (simp add: option.map_id0 [unfolded id_def])
next
  case (3 x y zs)
  have "json_tokens num (join_with '','' (map p (y # zs)) @ r) = map_option ((@) (commas (map t (y # zs)))) (json_tokens num r)"
    using "3.prems" by (intro "3.IH"(2)) auto
  with "3.prems"(1) [of x "CHR '','' # join_with '','' (map p (y # zs)) @ r"] show ?case
    by (simp add: option.map_comp comp_def)
qed simp

lemma append_single: "(@) [t] = (#) t"
  by (rule ext) simp

lemma print_tokens:
  "json_value num v \<Longrightarrow> ends_number r \<Longrightarrow>
     json_tokens num (json_print v @ r) = map_option ((@) (value_tokens v)) (json_tokens num r)"
proof (induction v arbitrary: r)
  case (JArr vs)
  have "json_tokens num (join_with '','' (map json_print vs) @ '']'' @ r) =
      map_option ((@) (commas (map value_tokens vs))) (json_tokens num ('']'' @ r))"
    using JArr by (intro joined_tokens) auto
  then show ?case by (simp add: option.map_comp comp_def)
next
  case (JObj kvs)
  have member: "json_tokens num ((case kv of (k, v) \<Rightarrow> json_quote k @ '':'' @ json_print v) @ r') =
      map_option ((@) (case kv of (k, v) \<Rightarrow> TValue (JStr k) # TColon # value_tokens v)) (json_tokens num r')"
    if "kv \<in> set kvs" "ends_number r'" for kv r'
  proof -
    obtain k v where kv: "kv = (k, v)" by (cases kv)
    have "json_tokens num (json_print v @ r') = map_option ((@) (value_tokens v)) (json_tokens num r')"
      using JObj.IH [of kv v r'] JObj.prems(1) that kv by auto
    moreover have "(@) (TValue (JStr k) # TColon # value_tokens v) = (\<lambda>x. TValue (JStr k) # TColon # value_tokens v @ x)"
      by (rule ext) simp
    ultimately show ?thesis by (simp add: kv string_tokens option.map_comp comp_def)
  qed
  have "json_tokens num (join_with '','' (map (\<lambda>(k, v). json_quote k @ '':'' @ json_print v) kvs) @ ''}'' @ r) =
      map_option ((@) (commas (map (\<lambda>(k, v). TValue (JStr k) # TColon # value_tokens v) kvs))) (json_tokens num (''}'' @ r))"
    by (intro joined_tokens member) simp_all
  then show ?case by (simp add: option.map_comp comp_def)
qed (use word_tokens string_tokens number_tokens in \<open>auto simp: append_single\<close>)

section \<open>Parsing the tokens of a value\<close>

lemma run_items:
  assumes "\<And>v b fs ts. v \<in> set vs \<Longrightarrow> json_run (value_tokens v @ ts) (WantValue b) fs = json_run ts (Have v) fs"
    and "vs \<noteq> []"
  shows "json_run (commas (map value_tokens vs) @ TEnd # ts) (WantValue b) (FList us # fs)
    = json_run ts (Have (JArr (us @ vs))) fs"
  using assms
proof (induction vs arbitrary: us b rule: induct_list012)
  case (3 x y zs)
  have "json_run (commas (map value_tokens (y # zs)) @ TEnd # ts) (WantValue False) (FList (us @ [x]) # fs)
      = json_run ts (Have (JArr ((us @ [x]) @ y # zs))) fs"
    using "3.prems" by (intro "3.IH"(2)) auto
  with "3.prems"(1) [of x] show ?case by simp
qed simp_all

lemma jsmap_set_new: "k \<notin> fst ` set m \<Longrightarrow> jsmap_set k v m = m @ [(k, v)]"
  by (induction m) auto

lemma run_members:
  assumes "\<And>k v b fs ts. (k, v) \<in> set kvs \<Longrightarrow> json_run (value_tokens v @ ts) (WantValue b) fs = json_run ts (Have v) fs"
    and "kvs \<noteq> []" "distinct (map fst (us @ kvs))"
  shows "json_run (commas (map (\<lambda>(k, v). TValue (JStr k) # TColon # value_tokens v) kvs) @ TClose # ts) (WantKey b) (FObj us # fs)
    = json_run ts (Have (JObj (us @ kvs))) fs"
  using assms
proof (induction kvs arbitrary: us b rule: induct_list012)
  case (2 kv)
  obtain k v where kv: "kv = (k, v)" by (cases kv)
  from "2.prems"(3) kv have "jsmap_set k v us = us @ [(k, v)]" by (intro jsmap_set_new) auto
  with "2.prems"(1) [of k v] kv show ?case by simp
next
  case (3 kv y zs)
  obtain k v where kv: "kv = (k, v)" by (cases kv)
  from "3.prems"(3) kv have new: "jsmap_set k v us = us @ [(k, v)]" by (intro jsmap_set_new) auto
  have "json_run (commas (map (\<lambda>(k, v). TValue (JStr k) # TColon # value_tokens v) (y # zs)) @ TClose # ts)
      (WantKey False) (FObj (us @ [(k, v)]) # fs) = json_run ts (Have (JObj ((us @ [(k, v)]) @ y # zs))) fs"
  proof (rule "3.IH"(2))
    show "json_run (value_tokens v @ ts) (WantValue b) fs = json_run ts (Have v) fs"
      if "(k, v) \<in> set (y # zs)" for k v b fs ts
      using that by (intro "3.prems"(1) [of k]) simp
  qed (use "3.prems"(3) kv in auto)
  with "3.prems"(1) [of k v] kv new show ?case by simp
qed simp

lemma run_value:
  "json_value num v \<Longrightarrow> json_run (value_tokens v @ ts) (WantValue b) fs = json_run ts (Have v) fs"
proof (induction v arbitrary: b fs ts)
  case (JArr vs)
  show ?case
  proof (cases "vs = []")
    case False
    have "json_run (commas (map value_tokens vs) @ TEnd # ts) (WantValue True) (FList [] # fs)
        = json_run ts (Have (JArr ([] @ vs))) fs"
      using JArr False by (intro run_items) auto
    then show ?thesis by simp
  qed simp
next
  case (JObj kvs)
  show ?case
  proof (cases "kvs = []")
    case False
    have "json_run (commas (map (\<lambda>(k, v). TValue (JStr k) # TColon # value_tokens v) kvs) @ TClose # ts)
        (WantKey True) (FObj [] # fs) = json_run ts (Have (JObj ([] @ kvs))) fs"
    proof (rule run_members)
      show "json_run (value_tokens v @ ts') (WantValue b') fs' = json_run ts' (Have v) fs'"
        if "(k, v) \<in> set kvs" for k v b' fs' ts'
        using JObj.prems that by (intro JObj.IH [of "(k, v)"]) auto
    qed (use False JObj.prems in simp_all)
    then show ?thesis by simp
  qed simp
qed simp_all

lemma parse_print: "json_value num v \<Longrightarrow> json_parse num (json_print v) = Some v"
  using print_tokens [of num v "[]"] run_value [of num v "[]" False "[]"]
  by (simp add: json_parse_def json_tokens.simps [of num "[]"])

section \<open>What the printers print\<close>

text \<open>\<open>canonicalJson\<close> prints the value with its fields sorted and \<open>null\<close> for \<open>undefined\<close>.\<close>

function canonical :: "json \<Rightarrow> json" where
  "canonical (JArr vs) = JArr (map canonical vs)"
| "canonical (JObj kvs) = JObj (map (\<lambda>(k, v). (k, canonical v)) (sort_key fst kvs))"
| "canonical JUndef = JNull"
| "canonical JNull = JNull"
| "canonical (JBool b) = JBool b"
| "canonical (JNum n) = JNum n"
| "canonical (JStr s) = JStr s"
  by pat_completeness auto
termination
proof (relation "measure size", goal_cases)
  case (2 vs v)
  then show ?case by (simp add: size_list_estimation' less_Suc_eq_le)
next
  case (3 kvs kv k v)
  then have "(k, v) \<in> set kvs" by simp
  then have "size_prod (\<lambda>_. 0) size (k, v) \<le> size_list (size_prod (\<lambda>_. 0) size) kvs"
    by (intro size_list_estimation') auto
  then show ?case by simp
qed simp

lemma canonicalJson_print: "canonicalJson v = json_print (canonical v)"
proof (induction v rule: canonical.induct)
  case (1 vs)
  then have "map canonicalJson vs = map json_print (map canonical vs)" by simp
  then show ?case by (simp only: canonicalJson.simps json_print.simps canonical.simps)
next
  case (2 kvs)
  have "map (\<lambda>(k, v). json_quote k @ '':'' @ canonicalJson v) (sort_key fst kvs)
      = map (\<lambda>(k, v). json_quote k @ '':'' @ json_print v) (map (\<lambda>(k, v). (k, canonical v)) (sort_key fst kvs))"
    using 2 by (auto intro!: map_cong)
  then show ?case by (simp only: canonicalJson.simps json_print.simps canonical.simps)
qed simp_all

fun finite_json :: "(string \<Rightarrow> string) \<Rightarrow> json \<Rightarrow> bool" where
  \<comment> \<open>as \<open>json_value\<close>, but fields and items may be \<open>undefined\<close>\<close>
  "finite_json num (JNum n) = (scan_number n = Some (n, []) \<and> num n = n)"
| "finite_json num (JArr vs) = (\<forall>v\<in>set vs. finite_json num v)"
| "finite_json num (JObj kvs) = (distinct (map fst kvs) \<and> (\<forall>(k, v)\<in>set kvs. finite_json num v))"
| "finite_json num v = True"

lemma canonical_value: "finite_json num v \<Longrightarrow> json_value num (canonical v)"
proof (induction v rule: canonical.induct)
  case (2 kvs)
  have "distinct (map fst (sort_key fst kvs))"
    using 2 by (simp add: distinct_map inj_on_def)
  with 2 show ?case by (auto simp: comp_def case_prod_beta)
qed auto

lemma parse_canonicalJson: "finite_json num v \<Longrightarrow> json_parse num (canonicalJson v) = Some (canonical v)"
  by (simp add: canonicalJson_print parse_print canonical_value)

text \<open>\<open>JSON.stringify\<close> drops fields that are \<open>undefined\<close> and prints array indices first.\<close>

function json_plain :: "json \<Rightarrow> json" where
  "json_plain (JArr vs) = JArr (map json_plain vs)"
| "json_plain (JObj kvs) =
     JObj (map (\<lambda>(k, v). (k, json_plain v)) (filter (\<lambda>kv. snd kv \<noteq> JUndef) (js_property_order kvs)))"
| "json_plain JUndef = JNull"
| "json_plain JNull = JNull"
| "json_plain (JBool b) = JBool b"
| "json_plain (JNum n) = JNum n"
| "json_plain (JStr s) = JStr s"
  by pat_completeness auto
termination
proof (relation "measure size", goal_cases)
  case (2 vs v)
  then show ?case by (simp add: size_list_estimation' less_Suc_eq_le)
next
  case (3 kvs kv k v)
  then have "(k, v) \<in> set kvs" by (auto simp: js_property_order_def)
  then have "size_prod (\<lambda>_. 0) size (k, v) \<le> size_list (size_prod (\<lambda>_. 0) size) kvs"
    by (intro size_list_estimation') auto
  then show ?case by simp
qed simp

lemma set_property_order [simp]: "set (js_property_order kvs) = set kvs"
  by (auto simp: js_property_order_def)

lemma distinct_property_order: "distinct (map fst kvs) \<Longrightarrow> distinct (map fst (js_property_order kvs))"
proof -
  assume d: "distinct (map fst kvs)"
  let ?P = "\<lambda>kv. array_index (fst kv) = None"
  have "inj_on fst (set kvs)" using d by (simp add: distinct_map)
  then have "distinct (map fst (sort_key (\<lambda>kv. the (array_index (fst kv))) (filter (\<lambda>kv. \<not> ?P kv) kvs)))"
    using d by (simp add: distinct_map inj_on_def)
  moreover have "distinct (map fst (filter ?P kvs))" using d by (rule distinct_map_filter)
  moreover have "fst ` {kv \<in> set kvs. \<not> ?P kv} \<inter> fst ` {kv \<in> set kvs. ?P kv} = {}" by auto
  ultimately show ?thesis by (simp add: js_property_order_def)
qed

lemma json_text_print: "json_text v = json_print (json_plain v)"
proof (induction v rule: json_plain.induct)
  case (1 vs)
  then have "map json_text vs = map json_print (map json_plain vs)" by simp
  then show ?case by (simp only: json_text.simps json_print.simps json_plain.simps)
next
  case (2 kvs)
  let ?kvs = "filter (\<lambda>kv. snd kv \<noteq> JUndef) (js_property_order kvs)"
  have "map (\<lambda>(k, v). json_quote k @ '':'' @ json_text v) ?kvs
      = map (\<lambda>(k, v). json_quote k @ '':'' @ json_print v) (map (\<lambda>(k, v). (k, json_plain v)) ?kvs)"
    using 2 by (auto intro!: map_cong)
  then show ?case by (simp only: json_text.simps json_print.simps json_plain.simps)
qed simp_all

lemma json_plain_value: "finite_json num v \<Longrightarrow> json_value num (json_plain v)"
proof (induction v rule: json_plain.induct)
  case (2 kvs)
  have "distinct (map fst (filter (\<lambda>kv. snd kv \<noteq> JUndef) (js_property_order kvs)))"
    using 2 by (intro distinct_map_filter distinct_property_order) simp
  with 2 show ?case by (auto simp: comp_def case_prod_beta)
qed auto

lemma parse_json_text: "finite_json num v \<Longrightarrow> json_parse num (json_text v) = Some (json_plain v)"
  by (simp add: json_text_print parse_print json_plain_value)

lemma not_space_punct: "\<not> is_space CHR ''-''" "\<not> is_space CHR 0x22" "\<not> is_space CHR ''['' "
  "\<not> is_space CHR ''{''" "\<not> is_space CHR ''n''" "\<not> is_space CHR ''t''" "\<not> is_space CHR ''f''"
  by (simp_all add: is_space_def code_def)

lemma json_print_starts:
  assumes "json_value num v"
  shows "\<exists>c s. json_print v = c # s \<and> \<not> is_space c"
proof (cases v)
  case (JNum n)
  with assms have "scan_number n = Some (n, [])" by simp
  from scan_number_hd [OF this] obtain c u where "n = c # u" "c = CHR ''-'' \<or> is_digit c" by blast
  moreover from this have "\<not> is_space c" using not_space_punct(1) is_digit_not_space by blast
  ultimately show ?thesis using JNum by simp
next
  case JUndef
  with assms show ?thesis by simp
next
  case (JBool b)
  then show ?thesis by (cases b) (simp_all add: not_space_punct)
qed (simp_all add: json_quote_def not_space_punct)

lemma trim_ne: "\<not> is_space c \<Longrightarrow> trim (c # s) \<noteq> []"
  by (simp add: trim_def dropWhile_eq_Nil_conv)

end
