(* ===== verification/Hmac_Auth.thy ===== *)
theory Hmac_Auth
  imports Ttl_Stores Json_Roundtrip
begin

text \<open>
  Authentication of HTTP requests: \<open>runner-core/src/auth.ts\<close>, and the router that combines it
  with the nonce store (\<open>arclayer-runner/src/http.ts\<close>). SHA-256, HMAC, the parser of time
  stamps and the printer of numbers are parameters; header names are lower case, as Node
  delivers them.
\<close>

section \<open>Requests and parameters\<close>

record auth_env =
  au_sha256 :: "string \<Rightarrow> string"
  au_hmac :: "string \<Rightarrow> string \<Rightarrow> string"
  au_date :: "string \<Rightarrow> int option"
  au_num :: "string \<Rightarrow> string"

record http_request =
  rq_method :: "string option"
  rq_path :: string
  rq_search :: string
  rq_headers :: "(string \<times> string) list"
  rq_chunks :: "string list"

definition header :: "string \<Rightarrow> http_request \<Rightarrow> string option" where
  "header h r = map_of (rq_headers r) h"

definition unauthorized :: "string \<Rightarrow> string \<Rightarrow> runner_error" where
  "unauthorized c m = RunnerError c m 401"

section \<open>Bearer tokens\<close>

definition extractBearerToken :: "http_request \<Rightarrow> string option" where
  "extractBearerToken r =
     (case header ''authorization'' r of
        None \<Rightarrow> None
      | Some auth \<Rightarrow>
          if auth = [] then None
          else if \<not> startsWith (toLowerCase auth) ''bearer '' then None
          else (let token = trim (drop 7 auth) in if token = [] then None else Some token))"

definition assertAuthenticated :: "http_request \<Rightarrow> string \<Rightarrow> unit result" where
  "assertAuthenticated r secret =
     (case extractBearerToken r of
        None \<Rightarrow> Inl (unauthorized ''AUTH_MISSING'' ''Missing Authorization: Bearer *** header'')
      | Some token \<Rightarrow> throw_if (token \<noteq> secret) (unauthorized ''AUTH_INVALID'' ''Invalid runner secret''))"

section \<open>HMAC\<close>

definition DEFAULT_HMAC_SKEW_MS :: nat where
  "DEFAULT_HMAC_SKEW_MS = 300000"

definition LF :: char where
  "LF = CHR 0x0A"

definition buildHmacPayload :: "string \<Rightarrow> string \<Rightarrow> string \<Rightarrow> string \<Rightarrow> string \<Rightarrow> string" where
  "buildHmacPayload method path timestamp nonce bodyHash =
     method @ [LF] @ path @ [LF] @ timestamp @ [LF] @ nonce @ [LF] @ bodyHash"

definition extractHmacHeaders :: "http_request \<Rightarrow> (string \<times> string \<times> string) option" where
  "extractHmacHeaders r =
     (let timestamp = header ''x-arclayer-runner-timestamp'' r;
          nonce = header ''x-arclayer-runner-nonce'' r;
          signature = header ''x-arclayer-runner-signature'' r
      in if \<not> truthy timestamp \<or> \<not> truthy nonce \<or> \<not> truthy signature then None
         else Some (or_else timestamp [], or_else nonce [], or_else signature []))"

definition validateTimestamp :: "auth_env \<Rightarrow> nat \<Rightarrow> string \<Rightarrow> nat \<Rightarrow> int result" where
  "validateTimestamp env now timestamp skewMs =
     (case au_date env timestamp of
        None \<Rightarrow> Inl (unauthorized ''AUTH_INVALID_TIMESTAMP'' ''Invalid timestamp format'')
      | Some ts \<Rightarrow>
          let diff = \<bar>int now - ts\<bar> in
          if int skewMs < diff then
            Inl (unauthorized ''AUTH_TIMESTAMP_EXPIRED'' (''Timestamp expired: '' @ int_str diff
              @ ''ms old (max '' @ nat_str skewMs @ ''ms)''))
          else Inr ts)"

fun hex_bytes :: "string \<Rightarrow> nat list" where
  \<comment> \<open>\<open>Buffer.from(s, "hex")\<close> on text of hexadecimal digits\<close>
  "hex_bytes (a # b # s) = (16 * digit_val a + digit_val b) # hex_bytes s"
| "hex_bytes _ = []"

definition timingSafeEqual :: "nat list \<Rightarrow> nat list \<Rightarrow> thrown + bool" where
  "timingSafeEqual a b =
     (if length a \<noteq> length b then Inl (ThrownError ''Input buffers must have the same byte length'')
      else Inr (a = b))"

definition verifyHmacSignature :: "auth_env \<Rightarrow> string \<Rightarrow> string \<Rightarrow> string \<Rightarrow> thrown + unit" where
  "verifyHmacSignature env secret payload receivedSignature =
     (if \<not> startsWith receivedSignature ''sha256='' \<or> length receivedSignature \<noteq> 71 then
        Inl (ThrownRunner (unauthorized ''AUTH_INVALID_SIGNATURE'' ''Invalid HMAC signature format''))
      else
        (let receivedHex = drop 7 receivedSignature in
         if \<not> (length receivedHex = 64 \<and> list_all is_lower_hex receivedHex) then
           Inl (ThrownRunner (unauthorized ''AUTH_INVALID_SIGNATURE'' ''Invalid HMAC signature hex''))
         else
           bindR (timingSafeEqual (hex_bytes (au_hmac env secret payload)) (hex_bytes receivedHex)) (\<lambda>equal.
             throw_if (\<not> equal) (ThrownRunner (unauthorized ''AUTH_INVALID_SIGNATURE'' ''Invalid HMAC signature'')))))"

fun lift_runner :: "runner_error + 'a \<Rightarrow> thrown + 'a" where
  "lift_runner (Inl e) = Inl (ThrownRunner e)"
| "lift_runner (Inr a) = Inr a"

definition signed_method :: "http_request \<Rightarrow> string" where
  \<comment> \<open>\<open>(req.method || "GET").toUpperCase()\<close>\<close>
  "signed_method r = toUpperCase (if truthy (rq_method r) then or_else (rq_method r) [] else ''GET'')"

definition assertHmacAuthenticated ::
  "auth_env \<Rightarrow> nat \<Rightarrow> http_request \<Rightarrow> string \<Rightarrow> string \<Rightarrow> string \<Rightarrow> nat \<Rightarrow> thrown + string \<times> string" where
  "assertHmacAuthenticated env now r secret rawBody requestTarget skewMs =
     (case extractHmacHeaders r of
        None \<Rightarrow> Inl (ThrownRunner (unauthorized ''AUTH_MISSING_HMAC''
          ''Missing HMAC headers: x-arclayer-runner-timestamp, x-arclayer-runner-nonce, x-arclayer-runner-signature''))
      | Some (timestamp, nonce, signature) \<Rightarrow>
          bindR (lift_runner (validateTimestamp env now timestamp skewMs)) (\<lambda>_.
          bindR (verifyHmacSignature env secret
                   (buildHmacPayload (signed_method r) requestTarget timestamp nonce (au_sha256 env rawBody))
                   signature) (\<lambda>_.
          Inr (timestamp, nonce))))"

definition PUBLIC_ROUTES :: "string list" where
  "PUBLIC_ROUTES = [''/health'', ''/.well-known/arclayer-agent.json'', ''/skills/arclayer-global'']"

definition isPublicRoute :: "string \<Rightarrow> bool" where
  "isPublicRoute pathname \<longleftrightarrow> pathname \<in> set PUBLIC_ROUTES"

section \<open>The router\<close>

definition MAX_BODY_BYTES :: nat where
  "MAX_BODY_BYTES = 1048576"

fun read_chunks :: "string list \<Rightarrow> nat \<Rightarrow> string \<Rightarrow> string result" where
  "read_chunks [] n acc = Inr acc"
| "read_chunks (c # cs) n acc =
     (if MAX_BODY_BYTES < n + length c then
        Inl (RunnerError ''BODY_TOO_LARGE'' ''Request body exceeds 1 MB limit'' 413)
      else read_chunks cs (n + length c) (acc @ c))"

definition bodiless :: "string option \<Rightarrow> bool" where
  \<comment> \<open>\<open>req.method ?? "GET"\<close> is \<open>GET\<close> or \<open>HEAD\<close>\<close>
  "bodiless m \<longleftrightarrow> or_else m ''GET'' = ''GET'' \<or> or_else m ''GET'' = ''HEAD''"

definition readRawBody :: "http_request \<Rightarrow> string result" where
  "readRawBody r = (if bodiless (rq_method r) then Inr [] else read_chunks (rq_chunks r) 0 [])"

definition parseBody :: "auth_env \<Rightarrow> string \<Rightarrow> string option \<Rightarrow> json result" where
  \<comment> \<open>\<open>undefined\<close> is \<open>JUndef\<close>\<close>
  "parseBody env rawBody m =
     (if bodiless m then Inr JUndef
      else if rawBody = [] then Inr JUndef
      else if trim rawBody = [] then Inr JUndef
      else (case json_parse (au_num env) rawBody of
              Some v \<Rightarrow> Inr v
            | None \<Rightarrow> Inl (RunnerError ''INVALID_JSON'' ''Request body is not valid JSON'' 400)))"

record router =
  ro_routes :: "(string \<times> string) list"
  ro_secret :: string
  ro_skew :: nat

datatype routed =
  NotFound
| Refused runner_error
| Dispatched string json

definition route_request ::
  "auth_env \<Rightarrow> router \<Rightarrow> nat \<Rightarrow> http_request \<Rightarrow> nonce_store \<Rightarrow> nonce_store \<times> routed" where
  \<comment> \<open>the server's callback up to the handler; \<open>catch\<close> answers with \<open>asRunnerError\<close>\<close>
  "route_request env ro now r st =
     (if rq_method r = None \<or> (or_else (rq_method r) [], rq_path r) \<notin> set (ro_routes ro) then (st, NotFound)
      else
        (case readRawBody r of
           Inl e \<Rightarrow> (st, Refused e)
         | Inr rawBody \<Rightarrow>
             if isPublicRoute (rq_path r) then
               (case parseBody env rawBody (rq_method r) of
                  Inl e \<Rightarrow> (st, Refused e) | Inr body \<Rightarrow> (st, Dispatched rawBody body))
             else
               (case assertHmacAuthenticated env now r (ro_secret ro) rawBody (rq_path r @ rq_search r) (ro_skew ro) of
                  Inl e \<Rightarrow> (st, Refused (asRunnerError e))
                | Inr (timestamp, nonce) \<Rightarrow>
                    (case nonce_checkAndMark now nonce ''runner'' st of
                       Inl e \<Rightarrow> (st, Refused e)
                     | Inr st' \<Rightarrow>
                         (case parseBody env rawBody (rq_method r) of
                            Inl e \<Rightarrow> (st', Refused e) | Inr body \<Rightarrow> (st', Dispatched rawBody body))))))"

section \<open>What is accepted\<close>

lemma lower_hex_digit: "is_lower_hex c \<Longrightarrow> digit_val c < 16"
  by (auto simp: is_lower_hex_def is_digit_def digit_val_def)

lemma digit_val_cases:
  assumes "is_lower_hex c"
  obtains "code c = 48 + digit_val c" "digit_val c < 10" | "code c = 87 + digit_val c" "10 \<le> digit_val c"
proof (cases "is_digit c")
  case True
  then have "48 \<le> code c" "code c \<le> 57" by (simp_all add: is_digit_def)
  with True show ?thesis by (intro that(1)) (simp_all add: digit_val_def)
next
  case False
  with assms have "97 \<le> code c" "code c \<le> 102" by (simp_all add: is_lower_hex_def)
  with False show ?thesis by (intro that(2)) (simp_all add: digit_val_def)
qed

lemma digit_val_inj:
  assumes "is_lower_hex a" "is_lower_hex b" "digit_val a = digit_val b"
  shows "a = b"
proof -
  from assms(1) have "code a = code b"
  proof (cases rule: digit_val_cases)
    case 1
    from assms(2) show ?thesis using 1 assms(3) by (cases rule: digit_val_cases) simp_all
  next
    case 2
    from assms(2) show ?thesis using 2 assms(3) by (cases rule: digit_val_cases) simp_all
  qed
  then show ?thesis by (simp add: code_def)
qed

lemma nibbles_inj:
  assumes "16 * a + b = 16 * c + (d :: nat)" "b < 16" "d < 16"
  shows "a = c \<and> b = d"
proof -
  have "(16 * a + b) div 16 = a" "(16 * c + d) div 16 = c" using assms(2,3) by simp_all
  with assms(1) show ?thesis by simp
qed

lemma hex_bytes_inj:
  "hex_bytes s = hex_bytes t \<Longrightarrow> list_all is_lower_hex s \<Longrightarrow> list_all is_lower_hex t \<Longrightarrow>
     length s = length t \<Longrightarrow> even (length s) \<Longrightarrow> s = t"
proof (induction s arbitrary: t rule: hex_bytes.induct)
  case (1 a b s)
  from "1.prems"(4) obtain c t' where t': "t = c # t'" "length t' = Suc (length s)"
    by (cases t) simp_all
  then obtain d u where t: "t = c # d # u" "length u = length s" by (cases t') simp_all
  from "1.prems" t have hex: "is_lower_hex a" "is_lower_hex b" "is_lower_hex c" "is_lower_hex d"
    and rest: "hex_bytes s = hex_bytes u" "list_all is_lower_hex s" "list_all is_lower_hex u" "even (length s)"
    and eq: "16 * digit_val a + digit_val b = 16 * digit_val c + digit_val d"
    by simp_all
  have "digit_val a = digit_val c \<and> digit_val b = digit_val d"
    using nibbles_inj [OF eq] lower_hex_digit [OF hex(2)] lower_hex_digit [OF hex(4)] by simp
  then have "a = c" "b = d" using hex by (auto intro: digit_val_inj)
  moreover have "s = u" using rest t(2) by (intro "1.IH") simp_all
  ultimately show ?case by (simp add: t)
qed auto

lemma length_hex_bytes: "length (hex_bytes s) = length s div 2"
  by (induction s rule: hex_bytes.induct) auto

definition hex_digest :: "(string \<Rightarrow> string \<Rightarrow> string) \<Rightarrow> bool" where
  \<comment> \<open>\<open>createHmac("sha256", ...).digest("hex")\<close> is 64 lower case hexadecimal digits\<close>
  "hex_digest mac \<longleftrightarrow> (\<forall>k m. length (mac k m) = 64 \<and> list_all is_lower_hex (mac k m))"

lemma signature_accepted_iff:
  assumes "hex_digest (au_hmac env)"
  shows "verifyHmacSignature env secret payload sig = Inr () \<longleftrightarrow> sig = ''sha256='' @ au_hmac env secret payload"
proof
  let ?mac = "au_hmac env secret payload"
  have mac: "length ?mac = 64" "list_all is_lower_hex ?mac" using assms by (auto simp: hex_digest_def)
  { assume ok: "verifyHmacSignature env secret payload sig = Inr ()"
    then obtain x where x: "sig = ''sha256='' @ x" by (auto simp: verifyHmacSignature_def startsWith_iff split: if_splits)
    with ok have "length x = 64" "list_all is_lower_hex x" "hex_bytes ?mac = hex_bytes x"
      by (auto simp: verifyHmacSignature_def timingSafeEqual_def Let_def split: if_splits)
    with mac have "?mac = x" by (intro hex_bytes_inj) simp_all
    with x show "sig = ''sha256='' @ ?mac" by simp }
  { assume "sig = ''sha256='' @ ?mac"
    then show "verifyHmacSignature env secret payload sig = Inr ()"
      using mac startsWith_append [of "''sha256=''" ?mac]
      by (simp add: verifyHmacSignature_def timingSafeEqual_def Let_def) }
qed

end
