(* ===== verification/Runner_Client.thy ===== *)
theory Runner_Client
  imports Hmac_Auth
begin

text \<open>
  The clients that sign requests for the runner: \<open>ArcLayerRunnerClient\<close> and its signer
  (\<open>langchain-adapter/src/client.ts\<close>, \<open>hmac.ts\<close>) and the console's signer
  (\<open>runner-registry/hmac-signer.ts\<close>). The random nonce and the time stamp are arguments; how the
  URL parser of the runner splits a URL is a parameter.
\<close>

section \<open>Signing\<close>

definition client_buildHmacPayload :: "string \<Rightarrow> string \<Rightarrow> string \<Rightarrow> string \<Rightarrow> string \<Rightarrow> string" where
  "client_buildHmacPayload method pathWithQuery timestamp nonce bodyHash =
     method @ [LF] @ pathWithQuery @ [LF] @ timestamp @ [LF] @ nonce @ [LF] @ bodyHash"

definition hmac_headers :: "string \<Rightarrow> string \<Rightarrow> string \<Rightarrow> (string \<times> string) list" where
  "hmac_headers timestamp nonce signature =
     [(''x-arclayer-runner-timestamp'', timestamp), (''x-arclayer-runner-nonce'', nonce),
      (''x-arclayer-runner-signature'', signature)]"

definition signRequest ::
  "auth_env \<Rightarrow> string \<Rightarrow> string \<Rightarrow> string \<Rightarrow> string \<Rightarrow> string \<Rightarrow> string \<Rightarrow> thrown + (string \<times> string) list" where
  "signRequest env timestamp nonce secret method pathWithQuery body =
     (if secret = [] then Inl (ThrownError ''runnerSecret must not be empty'')
      else
        (let bodyHash = au_sha256 env body;
             payload = client_buildHmacPayload (toUpperCase method) pathWithQuery timestamp nonce bodyHash;
             signature = ''sha256='' @ au_hmac env secret payload
         in Inr (hmac_headers timestamp nonce signature @ [(''content-type'', ''application/json'')])))"

definition signDispatchRequest ::
  "auth_env \<Rightarrow> string \<Rightarrow> string \<Rightarrow> string \<Rightarrow> string \<Rightarrow> string \<Rightarrow> string \<Rightarrow> (string \<times> string) list" where
  \<comment> \<open>the console's signer, with its own copy of \<open>buildHmacPayload\<close>\<close>
  "signDispatchRequest env timestamp nonce secret method path body =
     (let bodyHash = au_sha256 env body;
          payload = client_buildHmacPayload (toUpperCase method) path timestamp nonce bodyHash
      in hmac_headers timestamp nonce (''sha256='' @ au_hmac env secret payload))"

section \<open>The client\<close>

datatype arc_error = ArcLayerError (ae_code: string) (ae_message: string) (ae_status: "nat option")

definition ArcLayerRunnerAuthError :: "string \<Rightarrow> arc_error" where
  "ArcLayerRunnerAuthError m = ArcLayerError ''AUTH_FAILED'' m (Some 401)"

definition ArcLayerRunnerTimeoutError :: "nat \<Rightarrow> arc_error" where
  "ArcLayerRunnerTimeoutError timeoutMs =
     ArcLayerError ''TIMEOUT'' (''Runner request timed out after '' @ nat_str timeoutMs @ ''ms'') (Some 408)"

definition ArcLayerRunnerProtocolError :: "string \<Rightarrow> arc_error" where
  "ArcLayerRunnerProtocolError m = ArcLayerError ''PROTOCOL_ERROR'' m (Some 502)"

record runner_client =
  cl_baseUrl :: string
  cl_secret :: string
  cl_timeoutMs :: nat
  cl_userAgent :: string

definition stripTrailingSlashes :: "string \<Rightarrow> string" where
  "stripTrailingSlashes value = rev (dropWhile (\<lambda>c. code c = 47) (rev value))"

definition new_runner_client ::
  "string \<Rightarrow> string \<Rightarrow> nat option \<Rightarrow> string option \<Rightarrow> arc_error + runner_client" where
  "new_runner_client runnerUrl runnerSecret timeoutMs userAgent =
     (if runnerUrl = [] then Inl (ArcLayerError ''INVALID_CONFIG'' ''runnerUrl is required'' None)
      else if runnerSecret = [] then Inl (ArcLayerError ''INVALID_CONFIG'' ''runnerSecret is required'' None)
      else
        (let baseUrl = stripTrailingSlashes runnerUrl in
         if \<not> startsWith baseUrl ''http://'' \<and> \<not> startsWith baseUrl ''https://'' then
           Inl (ArcLayerError ''INVALID_CONFIG'' ''runnerUrl must start with http:// or https://'' None)
         else Inr \<lparr>cl_baseUrl = baseUrl, cl_secret = runnerSecret, cl_timeoutMs = or_else timeoutMs 30000,
           cl_userAgent = or_else userAgent ''@arclayer/langchain-adapter/0.1.0''\<rparr>))"

definition body_text :: "json \<Rightarrow> string" where
  \<comment> \<open>\<open>body !== undefined ? JSON.stringify(body) : ""\<close>\<close>
  "body_text body = (if body = JUndef then [] else json_text body)"

definition client_sends ::
  "auth_env \<Rightarrow> (string \<Rightarrow> string \<times> string) \<Rightarrow> string \<Rightarrow> string \<Rightarrow> runner_client \<Rightarrow> string \<Rightarrow> string \<Rightarrow> json
     \<Rightarrow> thrown + http_request" where
  \<comment> \<open>the request that arrives at the runner; \<open>split\<close> is \<open>pathname\<close> and \<open>search\<close> of the URL\<close>
  "client_sends env split timestamp nonce c method path body =
     (let bodyStr = body_text body;
          url = cl_baseUrl c @ path
      in case signRequest env timestamp nonce (cl_secret c) method path bodyStr of
           Inl e \<Rightarrow> Inl e
         | Inr headers \<Rightarrow>
             Inr \<lparr>rq_method = Some method, rq_path = fst (split url), rq_search = snd (split url),
               rq_headers = headers @ [(''user-agent'', cl_userAgent c)],
               rq_chunks = (if bodyStr = [] then [] else [bodyStr])\<rparr>)"

datatype fetch_outcome =
  FetchAborted
| FetchFailed string
| Answered nat "json option"

definition text_of :: "(json \<Rightarrow> string) \<Rightarrow> json \<Rightarrow> string" where
  \<comment> \<open>\<open>typeof v === "string" ? v : String(v)\<close>\<close>
  "text_of toText v = or_else (jstr_opt v) (toText v)"

definition extractRunnerErrorMessage :: "(json \<Rightarrow> string) \<Rightarrow> json \<Rightarrow> string" where
  "extractRunnerErrorMessage toText result =
     text_of toText (coalesce (jget ''error'' result) (coalesce (jget ''message'' result)
       (coalesce (jget ''reason'' result) (JStr ''Unknown runner error''))))"

definition extractRunnerErrorCode :: "(json \<Rightarrow> string) \<Rightarrow> json \<Rightarrow> string" where
  "extractRunnerErrorCode toText result =
     text_of toText (coalesce (jget ''code'' result) (coalesce (jget ''errorCode'' result) (JStr ''RUNNER_ERROR'')))"

definition http_ok :: "nat \<Rightarrow> bool" where
  "http_ok status \<longleftrightarrow> 200 \<le> status \<and> status \<le> 299"

definition read_answer ::
  "(json \<Rightarrow> string) \<Rightarrow> (string \<Rightarrow> string) \<Rightarrow> runner_client \<Rightarrow> fetch_outcome \<Rightarrow> arc_error + json" where
  \<comment> \<open>\<open>request\<close> after \<open>fetch\<close>; \<open>sanitize\<close> is \<open>sanitizeErrorMessage\<close>. An array has no field \<open>ok\<close>.\<close>
  "read_answer toText sanitize c outcome =
     (case outcome of
        FetchAborted \<Rightarrow> Inl (ArcLayerRunnerTimeoutError (cl_timeoutMs c))
      | FetchFailed m \<Rightarrow> Inl (ArcLayerRunnerProtocolError (''Runner request failed: '' @ sanitize m))
      | Answered status body \<Rightarrow>
          if (case body of None \<Rightarrow> False | Some data \<Rightarrow> jget ''ok'' data = JBool False) then
            Inl (ArcLayerError (extractRunnerErrorCode toText (or_else body JUndef))
              (extractRunnerErrorMessage toText (or_else body JUndef)) (Some status))
          else if status = 401 then Inl (ArcLayerRunnerAuthError (''Runner auth failed ('' @ nat_str status @ '')''))
          else if status = 403 then Inl (ArcLayerError ''RUNNER_FORBIDDEN'' ''Runner rejected the request with 403'' (Some 403))
          else if \<not> http_ok status then Inl (ArcLayerRunnerProtocolError (''Runner returned HTTP '' @ nat_str status))
          else (case body of
                  None \<Rightarrow> Inl (ArcLayerRunnerProtocolError
                    (''Runner returned non-JSON response (status '' @ nat_str status @ '')''))
                | Some data \<Rightarrow> Inr data))"

section \<open>The typed methods\<close>

text \<open>Each method is one call of \<open>get\<close> or \<open>post\<close>: a method, a path and a body.\<close>

datatype client_call =
  ClInspectX402 json | ClPayX402 json | ClBatchPayX402 json
| ClListReceipts string | ClListLedger string
| ClRunProviderJobOnly json | ClRunAndSubmitProviderJob json | ClSetProviderBudget json
| ClProviderContext json | ClProviderResumePlan json | ClProviderHeartbeat json | ClProviderStartJob json
| ClProviderWriteCheckpoint json | ClProviderRetryJob json | ClProviderCompleteRun json
| ClListAssignedJobs json | ClListAssignedJobsExtended json | ClListOpenJobs json
| ClListOpenJobApplications json | ClApplyOpenJob json | ClWithdrawOpenJobApplication json
| ClPublishDeliverable json | ClSubmitDeliverable json | ClJobStatus json | ClJobLifecycleSummary json

definition inspect_body :: "json \<Rightarrow> json" where
  "inspect_body i = JObj [(''type'', JStr ''x402_service_pay''), (''url'', jget ''url'' i),
     (''method'', coalesce (jget ''method'' i) (JStr ''GET'')), (''body'', jget ''body'' i),
     (''maxAmountUsdc'', JStr ''0''), (''reason'', JStr ''inspect'')]"

definition pay_body :: "json \<Rightarrow> json" where
  "pay_body i = JObj [(''type'', JStr ''x402_service_pay''), (''url'', jget ''url'' i),
     (''method'', coalesce (jget ''method'' i) (JStr ''GET'')), (''maxAmountUsdc'', jget ''maxAmountUsdc'' i),
     (''reason'', jget ''reason'' i), (''idempotencyKey'', jget ''idempotencyKey'' i), (''body'', jget ''body'' i)]"

definition batch_body :: "json \<Rightarrow> json" where
  "batch_body i = JObj [(''batchId'', jget ''batchId'' i), (''taskId'', jget ''taskId'' i),
     (''payments'', JArr (map pay_body (json_items (jget ''payments'' i))))]"

definition or_empty :: "json \<Rightarrow> json" where
  \<comment> \<open>\<open>body ?? {}\<close>\<close>
  "or_empty b = coalesce b (JObj [])"

fun client_call_parts :: "client_call \<Rightarrow> string \<times> string \<times> json" where
  "client_call_parts (ClInspectX402 i) = (''POST'', ''/x402/inspect'', inspect_body i)"
| "client_call_parts (ClPayX402 i) = (''POST'', ''/x402/pay'', pay_body i)"
| "client_call_parts (ClBatchPayX402 i) = (''POST'', ''/x402/batch-pay'', batch_body i)"
| "client_call_parts (ClListReceipts n) = (''GET'', ''/receipts?limit='' @ n, JUndef)"
| "client_call_parts (ClListLedger n) = (''GET'', ''/ledger?limit='' @ n, JUndef)"
| "client_call_parts (ClRunProviderJobOnly i) = (''POST'', ''/erc8183/provider/run-only'', i)"
| "client_call_parts (ClRunAndSubmitProviderJob i) = (''POST'', ''/erc8183/provider/run-and-submit'', i)"
| "client_call_parts (ClSetProviderBudget i) = (''POST'', ''/erc8183/provider/set-budget'', i)"
| "client_call_parts (ClProviderContext b) = (''POST'', ''/provider/context'', or_empty b)"
| "client_call_parts (ClProviderResumePlan b) = (''POST'', ''/provider/resume-plan'', or_empty b)"
| "client_call_parts (ClProviderHeartbeat b) = (''POST'', ''/provider/heartbeat'', or_empty b)"
| "client_call_parts (ClProviderStartJob b) = (''POST'', ''/provider/start-job'', or_empty b)"
| "client_call_parts (ClProviderWriteCheckpoint b) = (''POST'', ''/provider/write-checkpoint'', or_empty b)"
| "client_call_parts (ClProviderRetryJob b) = (''POST'', ''/provider/retry-job'', or_empty b)"
| "client_call_parts (ClProviderCompleteRun b) = (''POST'', ''/provider/complete-run'', or_empty b)"
| "client_call_parts (ClListAssignedJobs b) = (''POST'', ''/provider/list-assigned-jobs'', or_empty b)"
| "client_call_parts (ClListAssignedJobsExtended b) = (''POST'', ''/provider/list-assigned-jobs-extended'', or_empty b)"
| "client_call_parts (ClListOpenJobs b) = (''POST'', ''/provider/list-open-jobs'', or_empty b)"
| "client_call_parts (ClListOpenJobApplications b) = (''POST'', ''/provider/list-my-open-job-applications'', or_empty b)"
| "client_call_parts (ClApplyOpenJob b) = (''POST'', ''/provider/apply-open-job'', or_empty b)"
| "client_call_parts (ClWithdrawOpenJobApplication b) = (''POST'', ''/provider/withdraw-open-job-application'', or_empty b)"
| "client_call_parts (ClPublishDeliverable b) = (''POST'', ''/provider/publish-deliverable'', or_empty b)"
| "client_call_parts (ClSubmitDeliverable i) = (''POST'', ''/erc8183/provider/submit-deliverable'', i)"
| "client_call_parts (ClJobStatus i) = (''POST'', ''/jobs/onchain-status'', i)"
| "client_call_parts (ClJobLifecycleSummary i) = (''POST'', ''/jobs/lifecycle-summary'', i)"

end
