(* ===== verification/Runner_Routes.thy ===== *)
theory Runner_Routes
  imports Runner_Client Job_Writes Usdc
begin

text \<open>
  The route table the runner serves (\<open>arclayer-runner/src/index.ts\<close>) and the two handlers that do
  more than call a service: \<open>set-budget\<close> and \<open>submit-deliverable\<close>, which end in the wallet
  writes of \<open>Job_Writes\<close>.
\<close>

section \<open>The table\<close>

datatype route_target =
  Health | AgentManifest | GlobalSkill
| RunGeneric | PrepareRegister | RunErc8183ProviderJob | RunProviderJob | RunAndSubmitProviderJob
| SetBudgetRoute | SubmitRoute
| X402Inspect | X402Pay | X402BatchPay | CircleStatus | ListReceipts | GetLedger
| ConsoleMcp string
| RuntimeContext

type_synonym route_table = "((string \<times> string) \<times> route_target) list"

definition public_routes :: route_table where
  "public_routes =
     [((''GET'', ''/health''), Health),
      ((''GET'', ''/.well-known/arclayer-agent.json''), AgentManifest),
      ((''GET'', ''/skills/arclayer-global''), GlobalSkill)]"

definition execution_routes :: route_table where
  "execution_routes =
     [((''POST'', ''/runtime/run''), RunGeneric),
      ((''POST'', ''/erc8004/prepare-register''), PrepareRegister),
      ((''POST'', ''/erc8183/provider/run''), RunErc8183ProviderJob),
      ((''POST'', ''/erc8183/provider/run-only''), RunProviderJob),
      ((''POST'', ''/erc8183/provider/run-and-submit''), RunAndSubmitProviderJob)]"

definition budget_routes :: route_table where
  "budget_routes = [((''POST'', ''/erc8183/provider/set-budget''), SetBudgetRoute)]"

definition payment_routes :: route_table where
  "payment_routes =
     [((''POST'', ''/x402/inspect''), X402Inspect),
      ((''POST'', ''/x402/pay''), X402Pay),
      ((''POST'', ''/x402/batch-pay''), X402BatchPay),
      ((''GET'', ''/circle/status''), CircleStatus),
      ((''GET'', ''/receipts''), ListReceipts),
      ((''GET'', ''/ledger''), GetLedger)]"

definition provider_routes :: route_table where
  "provider_routes =
     [((''POST'', ''/provider/context''), ConsoleMcp ''provider.runtime_get_context''),
      ((''POST'', ''/provider/resume-plan''), ConsoleMcp ''provider.runtime_get_resume_plan''),
      ((''POST'', ''/provider/heartbeat''), ConsoleMcp ''provider.runtime_heartbeat''),
      ((''POST'', ''/provider/start-job''), ConsoleMcp ''provider.runtime_start_job''),
      ((''POST'', ''/provider/write-checkpoint''), ConsoleMcp ''provider.runtime_write_checkpoint''),
      ((''POST'', ''/provider/retry-job''), ConsoleMcp ''provider.runtime_retry_job''),
      ((''POST'', ''/provider/complete-run''), ConsoleMcp ''provider.runtime_complete_run''),
      ((''POST'', ''/provider/list-assigned-jobs''), ConsoleMcp ''provider.list_assigned_jobs''),
      ((''POST'', ''/provider/list-assigned-jobs-extended''), ConsoleMcp ''provider.list_assigned_jobs_extended''),
      ((''POST'', ''/provider/list-open-jobs''), ConsoleMcp ''provider.list_open_jobs''),
      ((''POST'', ''/provider/list-my-open-job-applications''), ConsoleMcp ''provider.list_my_open_job_applications''),
      ((''POST'', ''/provider/apply-open-job''), ConsoleMcp ''provider.apply_open_job''),
      ((''POST'', ''/provider/withdraw-open-job-application''), ConsoleMcp ''provider.withdraw_open_job_application''),
      ((''POST'', ''/provider/publish-deliverable''), ConsoleMcp ''provider.publish_deliverable'')]"

definition submit_routes :: route_table where
  "submit_routes = [((''POST'', ''/erc8183/provider/submit-deliverable''), SubmitRoute)]"

definition status_routes :: route_table where
  "status_routes =
     [((''POST'', ''/erc8183/provider/runtime-status''), RuntimeContext),
      ((''POST'', ''/jobs/onchain-status''), ConsoleMcp ''jobs.get_onchain_status''),
      ((''POST'', ''/jobs/lifecycle-summary''), ConsoleMcp ''jobs.get_lifecycle_summary'')]"

definition runner_routes :: route_table where
  "runner_routes = public_routes @ execution_routes @ budget_routes @ payment_routes @ provider_routes
     @ submit_routes @ status_routes"

definition runner_router :: "string \<Rightarrow> router" where
  "runner_router secret = \<lparr>ro_routes = map fst runner_routes, ro_secret = secret, ro_skew = DEFAULT_HMAC_SKEW_MS\<rparr>"

section \<open>\<open>set-budget\<close>\<close>

record set_budget_body =
  sb_jobId :: "string option"
  sb_amount :: "string option"
  sb_complexity :: "string option"
  sb_reason :: "string option"

definition parseUsdcMicros :: "string \<Rightarrow> int option" where
  "parseUsdcMicros amount =
     (if \<not> usdc_format amount then None
      else BigInt (whole_part amount @ padEnd0 6 (frac_part amount)))"

definition hex_text :: "string \<Rightarrow> string" where
  \<comment> \<open>\<open>Buffer.from(s, "utf8").toString("hex")\<close>\<close>
  "hex_text s = concat (map (\<lambda>c. [hex_char (code c div 16), hex_char (code c mod 16)]) s)"

definition budget_reason :: "string \<Rightarrow> string \<Rightarrow> string \<Rightarrow> json" where
  "budget_reason complexity amount reason =
     JObj [(''version'', JNum ''1''), (''type'', JStr ''provider_budget_reason''),
           (''complexity'', JStr complexity), (''budgetUsdc'', JStr amount), (''reason'', JStr reason)]"

definition route_error :: "string \<Rightarrow> job_step" where
  "route_error m = Finished (Inr (PreparedOnly (JObj [(''ok'', JBool False), (''error'', JStr m)])))"

definition set_budget_route :: "crypto \<Rightarrow> runner_config \<Rightarrow> set_budget_body \<Rightarrow> job_step" where
  "set_budget_route env cfg i =
     (let jobId = or_else (sb_jobId i) []; amount = or_else (sb_amount i) [];
          reason = or_else (sb_reason i) []; complexity = or_else (sb_complexity i) []
      in if \<not> truthy (sb_jobId i) \<or> \<not> all_digits jobId then route_error ''jobId must be a numeric string''
      else if \<not> truthy (sb_amount i) \<or> \<not> usdc_format amount then
        route_error ''amount must be a decimal string with at most 6 fractional digits''
      else if \<not> truthy (sb_reason i) \<or> length (trim reason) = 0 then
        route_error ''reason is required and must be non-empty''
      else if 512 < length reason then route_error ''reason must be 512 characters or fewer''
      else if \<not> truthy (sb_complexity i) \<or> complexity \<notin> {''low'', ''medium'', ''high''} then
        route_error ''complexity must be low, medium, or high''
      else
        (case (parseUsdcMicros amount, parseUsdcMicros ''5.00'') of
           (Some amountMicros, Some hardCapMicros) \<Rightarrow>
             if amountMicros \<le> 0 then route_error ''amount must be greater than 0''
             else if hardCapMicros < amountMicros then route_error ''amount must not exceed 5.00 USDC''
             else
               (let optParams = ''0x'' @ hex_text (json_text (budget_reason complexity amount reason))
                in setBudget env cfg (JObj [(''jobId'', JStr jobId), (''amount'', JStr amount), (''optParams'', JStr optParams)])
                     jobId amount (Some optParams))
         | _ \<Rightarrow> route_error ''amount must be a decimal string with at most 6 fractional digits''))"

section \<open>\<open>submit-deliverable\<close>\<close>

definition submit_route :: "crypto \<Rightarrow> runner_config \<Rightarrow> string option \<Rightarrow> string option \<Rightarrow> job_step" where
  "submit_route env cfg jobId deliverableHash =
     (if \<not> truthy jobId \<or> \<not> all_digits (or_else jobId []) then route_error ''jobId must be a numeric string''
      else if \<not> truthy deliverableHash then route_error ''deliverableHash is required''
      else
        (let hash = or_else deliverableHash [];
             h = (if startsWith hash ''0x'' \<and> length hash = 66 then hash else ''0x'' @ hash)
         in submitDeliverableViaWallet env cfg (or_else jobId []) h (Some ''0x'')))"

end
