(* ===== verification/Auth_Properties.thy ===== *)
theory Auth_Properties
  imports Runner_Client
begin

text \<open>
  What authentication guarantees: which requests are accepted, that what the client sends is
  what the handler gets, and how often one signed request can be dispatched.
\<close>

section \<open>Accepted requests\<close>

lemma timestamp_iff:
  "validateTimestamp env now s skew = Inr ts \<longleftrightarrow> au_date env s = Some ts \<and> \<bar>int now - ts\<bar> \<le> int skew"
  by (auto simp: validateTimestamp_def Let_def split: option.splits)

lemma lift_runner_Inr [simp]: "lift_runner m = Inr a \<longleftrightarrow> m = Inr a"
  by (cases m) auto

lemma auth_result:
  assumes "assertHmacAuthenticated env now r secret raw target skew = Inr (ts, n)"
  obtains sig t where "extractHmacHeaders r = Some (ts, n, sig)" "au_date env ts = Some t"
    "\<bar>int now - t\<bar> \<le> int skew"
    "verifyHmacSignature env secret (buildHmacPayload (signed_method r) target ts n (au_sha256 env raw)) sig = Inr ()"
  using assms by (auto simp: assertHmacAuthenticated_def timestamp_iff split: option.splits)

lemma auth_again:
  assumes "assertHmacAuthenticated env now r secret raw target skew = Inr (ts, n)"
    and "au_date env ts = Some t" "\<bar>int now' - t\<bar> \<le> int skew"
  shows "assertHmacAuthenticated env now' r secret raw target skew = Inr (ts, n)"
  using assms by (elim auth_result) (simp add: assertHmacAuthenticated_def timestamp_iff)

lemma auth_errors:
  assumes "assertHmacAuthenticated env now r secret raw target skew = Inl e" "hex_digest (au_hmac env)"
  shows "err_status (asRunnerError e) = 401"
proof -
  have no_crash: "verifyHmacSignature env secret p sig = Inl e \<Longrightarrow> err_status (asRunnerError e) = 401" for p sig e
    using assms(2)
    by (auto simp: verifyHmacSignature_def timingSafeEqual_def length_hex_bytes hex_digest_def Let_def
        bindR_Inl_iff unauthorized_def split: if_splits)
  have "validateTimestamp env now s skew = Inl x \<Longrightarrow> err_status x = 401" for s x
    by (auto simp: validateTimestamp_def Let_def unauthorized_def split: option.splits if_splits)
  then have "lift_runner (validateTimestamp env now s skew) = Inl x \<Longrightarrow> err_status (asRunnerError x) = 401" for s x
    by (cases "validateTimestamp env now s skew") auto
  with assms(1) no_crash show ?thesis
    by (auto simp: assertHmacAuthenticated_def bindR_Inl_iff unauthorized_def split: option.splits)
qed

text \<open>C16: A request is authenticated exactly when it carries the three headers, its time stamp is
  within the tolerated skew of the clock, and its signature is the HMAC of its own method,
  target, time stamp, nonce and body; any other request is answered with status 401.\<close>

theorem auth_accepts_iff:
  assumes "hex_digest (au_hmac env)"
  shows "((\<exists>ts n. assertHmacAuthenticated env now r secret raw target skew = Inr (ts, n)) \<longleftrightarrow>
      (\<exists>ts n t. header ''x-arclayer-runner-timestamp'' r = Some ts \<and> ts \<noteq> []
        \<and> header ''x-arclayer-runner-nonce'' r = Some n \<and> n \<noteq> []
        \<and> au_date env ts = Some t \<and> \<bar>int now - t\<bar> \<le> int skew
        \<and> header ''x-arclayer-runner-signature'' r = Some (''sha256='' @ au_hmac env secret
            (buildHmacPayload (signed_method r) target ts n (au_sha256 env raw)))))
    \<and> (\<forall>e. assertHmacAuthenticated env now r secret raw target skew = Inl e \<longrightarrow> err_status (asRunnerError e) = 401)"
proof (intro conjI allI impI)
  have headers: "extractHmacHeaders r = Some (ts, n, sig) \<longleftrightarrow>
      header ''x-arclayer-runner-timestamp'' r = Some ts \<and> ts \<noteq> [] \<and> header ''x-arclayer-runner-nonce'' r = Some n
      \<and> n \<noteq> [] \<and> header ''x-arclayer-runner-signature'' r = Some sig \<and> sig \<noteq> []" for ts n sig
    by (auto simp: extractHmacHeaders_def Let_def)
  have "(\<exists>ts n. assertHmacAuthenticated env now r secret raw target skew = Inr (ts, n)) \<longleftrightarrow>
      (\<exists>ts n sig t. extractHmacHeaders r = Some (ts, n, sig) \<and> au_date env ts = Some t \<and> \<bar>int now - t\<bar> \<le> int skew
        \<and> sig = ''sha256='' @ au_hmac env secret (buildHmacPayload (signed_method r) target ts n (au_sha256 env raw)))"
    by (auto simp: assertHmacAuthenticated_def timestamp_iff signature_accepted_iff [OF assms] split: option.splits)
  then show "(\<exists>ts n. assertHmacAuthenticated env now r secret raw target skew = Inr (ts, n)) \<longleftrightarrow>
      (\<exists>ts n t. header ''x-arclayer-runner-timestamp'' r = Some ts \<and> ts \<noteq> []
        \<and> header ''x-arclayer-runner-nonce'' r = Some n \<and> n \<noteq> []
        \<and> au_date env ts = Some t \<and> \<bar>int now - t\<bar> \<le> int skew
        \<and> header ''x-arclayer-runner-signature'' r = Some (''sha256='' @ au_hmac env secret
            (buildHmacPayload (signed_method r) target ts n (au_sha256 env raw))))"
    unfolding headers by auto
  show "err_status (asRunnerError e) = 401" if "assertHmacAuthenticated env now r secret raw target skew = Inl e" for e
    using that assms by (rule auth_errors)
qed

section \<open>Dispatch\<close>

lemma private_dispatch:
  assumes "\<not> isPublicRoute (rq_path r)"
  shows "route_request env ro now r st = (st', Dispatched raw j) \<longleftrightarrow>
    (\<exists>m ts n. rq_method r = Some m \<and> (m, rq_path r) \<in> set (ro_routes ro) \<and> readRawBody r = Inr raw
      \<and> assertHmacAuthenticated env now r (ro_secret ro) raw (rq_path r @ rq_search r) (ro_skew ro) = Inr (ts, n)
      \<and> nonce_checkAndMark now n ''runner'' st = Inr st' \<and> parseBody env raw (rq_method r) = Inr j)"
  using assms by (auto simp: route_request_def split: option.splits sum.splits prod.splits)

text \<open>Between two arrivals of a request the server handles others and its timer cleans up.\<close>

datatype server_event = ReqAt nat http_request | CleanAt nat

fun server_time :: "server_event \<Rightarrow> nat" where
  "server_time (ReqAt now r) = now"
| "server_time (CleanAt now) = now"

fun server_apply :: "auth_env \<Rightarrow> router \<Rightarrow> server_event \<Rightarrow> nonce_store \<Rightarrow> nonce_store" where
  "server_apply env ro (ReqAt now r) st = fst (route_request env ro now r st)"
| "server_apply env ro (CleanAt now) st = nonce_cleanup now st"

lemma route_store:
  "fst (route_request env ro now r st) = st
     \<or> (\<exists>n. nonce_checkAndMark now n ''runner'' st = Inr (fst (route_request env ro now r st)))"
  by (auto simp: route_request_def split: option.splits sum.splits prod.splits)

lemma server_apply_keeps:
  "server_time ev \<le> t \<Longrightarrow> nonce_has t n w st \<Longrightarrow> nonce_has t n w (server_apply env ro ev st)"
proof (cases ev)
  case (ReqAt now r)
  assume "server_time ev \<le> t" "nonce_has t n w st"
  then have kept: "nonce_has t n w st'" if "nonce_checkAndMark now m ''runner'' st = Inr st'" for m st'
    using nonce_apply_keeps [of "NonceMark now m ''runner''" t n w st] ReqAt that by simp
  from route_store [of env ro now r st] kept \<open>nonce_has t n w st\<close> show ?thesis unfolding ReqAt by auto
next
  case (CleanAt now)
  assume "server_time ev \<le> t" "nonce_has t n w st"
  with CleanAt nonce_apply_keeps [of "NonceCleanup now" t n w st] show ?thesis by simp
qed

interpretation served: ttl_guard nonce_checkAndMark nonce_has ns_ttl "server_apply env ro" server_time for env ro
proof unfold_locales
  show "nonce_checkAndMark now i w s = Inr s' \<Longrightarrow> t < now + ns_ttl s \<Longrightarrow> nonce_has t i w s'" for now i w s s' t
    by (rule nonces.mark_live)
qed (auto simp: nonce_mark_iff server_apply_keeps)

text \<open>C17: Once a request has been dispatched, no request with its nonce and its time stamp is
  dispatched again, whatever the server handles in between, provided the signed time stamp
  leaves the skew window before the nonce expires.\<close>

theorem signed_request_once:
  assumes "route_request env ro t1 r st = (st1, Dispatched raw j)"
    and "\<not> isPublicRoute (rq_path r)" "\<not> isPublicRoute (rq_path r')"
    and "extractHmacHeaders r = Some (ts, n, sig)" "extractHmacHeaders r' = Some (ts, n, sig')"
    and "au_date env ts = Some signed" "signed + int (ro_skew ro) < int (t1 + ns_ttl st)"
    and "\<forall>ev\<in>set evs. server_time ev \<le> t2"
  shows "route_request env ro t2 r' (fold (server_apply env ro) evs st1) \<noteq> (st2, Dispatched raw' j')"
proof
  assume "route_request env ro t2 r' (fold (server_apply env ro) evs st1) = (st2, Dispatched raw' j')"
  then obtain ts' n' where auth2: "assertHmacAuthenticated env t2 r' (ro_secret ro) raw' (rq_path r' @ rq_search r') (ro_skew ro) = Inr (ts', n')"
    and mark2: "nonce_checkAndMark t2 n' ''runner'' (fold (server_apply env ro) evs st1) = Inr st2"
    using assms(3) by (auto simp: private_dispatch)
  have ts2: "ts' = ts" "n' = n" "\<bar>int t2 - signed\<bar> \<le> int (ro_skew ro)"
    using auth2 assms(5,6) by (auto elim!: auth_result)
  obtain ts'' n'' where auth1: "assertHmacAuthenticated env t1 r (ro_secret ro) raw (rq_path r @ rq_search r) (ro_skew ro) = Inr (ts'', n'')"
    and mark1: "nonce_checkAndMark t1 n'' ''runner'' st = Inr st1"
    using assms(1,2) by (auto simp: private_dispatch)
  have "n'' = n" using auth1 assms(4) by (auto elim!: auth_result)
  moreover have "t2 < t1 + ns_ttl st" using ts2(3) assms(7) by linarith
  ultimately obtain e where "nonce_checkAndMark t2 n ''runner'' (fold (server_apply env ro) evs st1) = Inl e"
    using served.marked_once [OF mark1 _ assms(8)] by blast
  with mark2 ts2(2) show False by simp
qed

text \<open>A request that was dispatched is dispatched again, unchanged, exactly from the moment its
  nonce has expired and for as long as its time stamp is within the skew. With the router's
  defaults (both five minutes) this happens to a request signed with a clock that is ahead.\<close>

theorem replay_window:
  assumes "route_request env ro t1 r st = (st1, Dispatched raw j)" "\<not> isPublicRoute (rq_path r)"
    and "extractHmacHeaders r = Some (ts, n, sig)" "au_date env ts = Some signed"
  shows "(\<exists>st2. route_request env ro t2 r st1 = (st2, Dispatched raw j)) \<longleftrightarrow>
    t1 + ns_ttl st \<le> t2 \<and> \<bar>int t2 - signed\<bar> \<le> int (ro_skew ro)"
proof -
  obtain m ts' n' where route: "rq_method r = Some m" "(m, rq_path r) \<in> set (ro_routes ro)" "readRawBody r = Inr raw"
    "parseBody env raw (rq_method r) = Inr j"
    and auth: "assertHmacAuthenticated env t1 r (ro_secret ro) raw (rq_path r @ rq_search r) (ro_skew ro) = Inr (ts', n')"
    and mark: "nonce_checkAndMark t1 n' ''runner'' st = Inr st1"
    using assms(1,2) by (auto simp: private_dispatch)
  have eq: "ts' = ts" "n' = n" using auth assms(3) by (auto elim!: auth_result)
  have auth2: "assertHmacAuthenticated env t2 r (ro_secret ro) raw (rq_path r @ rq_search r) (ro_skew ro) = Inr (a, b)
      \<longleftrightarrow> a = ts \<and> b = n \<and> \<bar>int t2 - signed\<bar> \<le> int (ro_skew ro)" for a b
    using auth_again [OF auth, of signed t2] assms(3,4) eq by (auto elim!: auth_result)
  have "nonce_has t2 n ''runner'' st1 \<longleftrightarrow> t2 < t1 + ns_ttl st"
    using nonce_mark_entries [OF mark] eq by (auto simp: nonce_has_iff)
  then have mark2: "(\<exists>st2. nonce_checkAndMark t2 n ''runner'' st1 = Inr st2) \<longleftrightarrow> t1 + ns_ttl st \<le> t2"
    by (auto simp: nonce_mark_iff)
  show ?thesis unfolding private_dispatch [OF assms(2)] using route auth2 mark2 by auto
qed

section \<open>The client and the server\<close>

lemma sent_body:
  assumes "finite_json num body"
  shows "bodiless m \<longrightarrow> body = JUndef \<Longrightarrow> au_num env = num \<Longrightarrow>
    parseBody env (body_text body) m = Inr (if body = JUndef then JUndef else json_plain body)"
proof (cases "body = JUndef")
  case False
  obtain x s where x: "json_print (json_plain body) = x # s" "\<not> is_space x"
    using json_print_starts [OF json_plain_value [OF assms]] by blast
  assume "bodiless m \<longrightarrow> body = JUndef" "au_num env = num"
  with False x assms show ?thesis
    using trim_ne [OF x(2), of s] parse_json_text [OF assms]
    by (simp add: parseBody_def body_text_def json_text_print)
qed (simp add: parseBody_def body_text_def)

lemma sent_raw:
  assumes "client_sends env split stamp nonce c method path body = Inr r"
    and "bodiless (Some method) \<longrightarrow> body = JUndef" "length (body_text body) \<le> MAX_BODY_BYTES"
  shows "readRawBody r = Inr (body_text body)"
  using assms by (auto simp: client_sends_def Let_def readRawBody_def body_text_def split: sum.splits if_splits)

text \<open>What the adapter's client sends is what the runner's handler gets: if the two share the
  secret, their clocks differ by at most the skew and the nonce is fresh, the signed request is
  dispatched with the JSON value the client was given, as \<open>JSON.stringify\<close> keeps it.\<close>

theorem client_request_dispatched:
  assumes "client_sends env split stamp nonce c method path body = Inr r"
    and "split (cl_baseUrl c @ path) = (p, q)" "p @ q = path"
    and "(method, p) \<in> set (ro_routes ro)" "\<not> isPublicRoute p" "ro_secret ro = cl_secret c"
    and "method \<noteq> []" "stamp \<noteq> []" "nonce \<noteq> []" "hex_digest (au_hmac env)"
    and "au_date env stamp = Some t" "\<bar>int now - t\<bar> \<le> int (ro_skew ro)"
    and "\<not> nonce_has now nonce ''runner'' st"
    and "finite_json (au_num env) body" "bodiless (Some method) \<longrightarrow> body = JUndef"
    and "length (body_text body) \<le> MAX_BODY_BYTES"
  shows "\<exists>st'. route_request env ro now r st =
    (st', Dispatched (body_text body) (if body = JUndef then JUndef else json_plain body))"
proof -
  let ?sig = "''sha256='' @ au_hmac env (cl_secret c)
    (buildHmacPayload (toUpperCase method) path stamp nonce (au_sha256 env (body_text body)))"
  from assms(1) have r: "rq_method r = Some method" "rq_path r = p" "rq_search r = q"
      "rq_headers r = hmac_headers stamp nonce ?sig @ [(''content-type'', ''application/json''), (''user-agent'', cl_userAgent c)]"
    using assms(2) by (auto simp: client_sends_def signRequest_def client_buildHmacPayload_def buildHmacPayload_def Let_def
        split: if_splits)
  have "extractHmacHeaders r = Some (stamp, nonce, ?sig)"
    using assms(8,9) by (simp add: extractHmacHeaders_def header_def r hmac_headers_def Let_def)
  moreover have "signed_method r = toUpperCase method" using assms(7) by (simp add: signed_method_def r)
  ultimately have "assertHmacAuthenticated env now r (ro_secret ro) (body_text body) (rq_path r @ rq_search r) (ro_skew ro)
      = Inr (stamp, nonce)"
    using assms(3,6,11,12) r signature_accepted_iff [OF assms(10)]
    by (simp add: assertHmacAuthenticated_def timestamp_iff)
  moreover obtain st' where "nonce_checkAndMark now nonce ''runner'' st = Inr st'"
    using assms(13) nonce_mark_iff by blast
  moreover have "parseBody env (body_text body) (rq_method r) = Inr (if body = JUndef then JUndef else json_plain body)"
    using sent_body [OF assms(14), of "rq_method r" env] assms(15) r by simp
  moreover have "readRawBody r = Inr (body_text body)" using sent_raw [OF assms(1,15,16)] .
  ultimately show ?thesis
    using private_dispatch [of r] r assms(4,5) by auto
qed

section \<open>Concrete requests\<close>

definition demo_mac :: string where
  "demo_mac = replicate 64 CHR ''0''"

definition demo_auth :: auth_env where
  "demo_auth = \<lparr>au_sha256 = (\<lambda>s. ''h''), au_hmac = (\<lambda>k p. demo_mac),
     au_date = (\<lambda>s. if s = ''T'' then Some 300000 else None), au_num = id\<rparr>"

definition demo_router :: router where
  "demo_router = \<lparr>ro_routes = [(''GET'', ''/ledger''), (''POST'', ''/x402/pay'')], ro_secret = ''key'',
     ro_skew = DEFAULT_HMAC_SKEW_MS\<rparr>"

definition demo_request :: http_request where
  "demo_request = \<lparr>rq_method = Some ''GET'', rq_path = ''/ledger'', rq_search = ''?limit=1'',
     rq_headers = hmac_headers ''T'' ''n1'' (''sha256='' @ demo_mac), rq_chunks = []\<rparr>"

definition demo_nonces :: nonce_store where
  "demo_nonces = new_nonce_store DEFAULT_NONCE_TTL_MS"

definition demo_marked :: "nat \<Rightarrow> nonce_store" where
  "demo_marked now = \<lparr>ns_entries = [(''runner:n1'', \<lparr>ne_nonce = ''n1'', ne_runner = ''runner'',
     ne_expires = now + 300000\<rparr>)], ns_ttl = 300000\<rparr>"

lemma demo_hex: "hex_digest (au_hmac demo_auth)"
  by (simp add: hex_digest_def demo_auth_def demo_mac_def list_all_iff is_lower_hex_def)

lemma demo_headers: "extractHmacHeaders demo_request = Some (''T'', ''n1'', ''sha256='' @ demo_mac)"
  by (simp add: extractHmacHeaders_def header_def demo_request_def hmac_headers_def Let_def)

lemma demo_date: "au_date demo_auth ''T'' = Some 300000"
  by (simp add: demo_auth_def)

lemma demo_private: "\<not> isPublicRoute (rq_path demo_request)"
  by (simp add: isPublicRoute_def PUBLIC_ROUTES_def demo_request_def)

lemma demo_request_dispatch:
  assumes "now \<le> 600000"
  shows "route_request demo_auth demo_router now demo_request demo_nonces = (demo_marked now, Dispatched [] JUndef)"
proof -
  have "assertHmacAuthenticated demo_auth now demo_request ''key'' [] ''/ledger?limit=1'' 300000 = Inr (''T'', ''n1'')"
    using assms demo_headers signature_accepted_iff [OF demo_hex]
    by (auto simp: assertHmacAuthenticated_def timestamp_iff demo_date) (simp add: demo_auth_def)
  moreover have "nonce_checkAndMark now ''n1'' ''runner'' demo_nonces = Inr (demo_marked now)"
    by (simp add: nonce_checkAndMark_def demo_nonces_def new_nonce_store_def nonce_buildKey_def demo_marked_def DEFAULT_NONCE_TTL_MS_def)
  moreover have "readRawBody demo_request = Inr []" "parseBody demo_auth [] (rq_method demo_request) = Inr JUndef"
    by (simp_all add: readRawBody_def parseBody_def bodiless_def demo_request_def)
  ultimately show ?thesis
    using demo_private
    by (intro private_dispatch [THEN iffD2]) (auto simp: demo_router_def demo_request_def DEFAULT_HMAC_SKEW_MS_def)
qed

lemma auth_accepts_iff_witness:
  "\<exists>ts n. assertHmacAuthenticated demo_auth 1 demo_request ''key'' [] ''/ledger'' 300000 = Inr (ts, n)"
  using demo_headers auth_accepts_iff [OF demo_hex, of 1 demo_request "''key''" "[]" "''/ledger''" 300000]
  by (simp add: header_def demo_request_def hmac_headers_def demo_date) (simp add: demo_auth_def)

lemma signed_request_once_witness:
  "\<forall>st2 raw' j'. route_request demo_auth demo_router 590000 demo_request (fold (server_apply demo_auth demo_router)
     [ReqAt 400000 demo_request, CleanAt 500000] (demo_marked 310000)) \<noteq> (st2, Dispatched raw' j')"
  by (intro allI signed_request_once [OF demo_request_dispatch demo_private demo_private demo_headers demo_headers demo_date])
    (simp_all add: demo_router_def demo_nonces_def new_nonce_store_def DEFAULT_HMAC_SKEW_MS_def DEFAULT_NONCE_TTL_MS_def)

text \<open>Sent five minutes before its time stamp, the request is dispatched again five minutes later.\<close>

lemma replay_window_witness:
  "\<exists>st2. route_request demo_auth demo_router 300000 demo_request (demo_marked 0) = (st2, Dispatched [] JUndef)"
  using replay_window [OF demo_request_dispatch demo_private demo_headers demo_date, of 0 300000]
  by (simp add: demo_router_def demo_nonces_def new_nonce_store_def DEFAULT_HMAC_SKEW_MS_def DEFAULT_NONCE_TTL_MS_def)

definition demo_client :: runner_client where
  "demo_client = \<lparr>cl_baseUrl = ''http://r'', cl_secret = ''key'', cl_timeoutMs = 30000, cl_userAgent = ''a''\<rparr>"

definition demo_body :: json where
  "demo_body = JObj [(''url'', JStr ''u''), (''n'', JNum ''7''), (''x'', JUndef)]"

definition demo_split :: "string \<Rightarrow> string \<times> string" where
  "demo_split u = (drop (length ''http://r'') u, [])"

lemma client_request_dispatched_witness:
  "\<exists>r st'. client_sends demo_auth demo_split ''T'' ''n2'' demo_client ''POST'' ''/x402/pay'' demo_body = Inr r
    \<and> route_request demo_auth demo_router 300001 r demo_nonces
      = (st', Dispatched (body_text demo_body) (JObj [(''url'', JStr ''u''), (''n'', JNum ''7'')]))"
proof -
  obtain r where r: "client_sends demo_auth demo_split ''T'' ''n2'' demo_client ''POST'' ''/x402/pay'' demo_body = Inr r"
    by (auto simp: client_sends_def signRequest_def demo_client_def Let_def)
  have num: "scan_number ''7'' = Some (''7'', [])" by code_simp
  have plain: "json_plain demo_body = JObj [(''url'', JStr ''u''), (''n'', JNum ''7'')]" by code_simp
  have "int (length (body_text demo_body)) \<le> 100" by code_simp
  then have len: "length (body_text demo_body) \<le> MAX_BODY_BYTES" by (simp add: MAX_BODY_BYTES_def)
  have "\<exists>st'. route_request demo_auth demo_router 300001 r demo_nonces =
    (st', Dispatched (body_text demo_body) (if demo_body = JUndef then JUndef else json_plain demo_body))"
    by (rule client_request_dispatched [OF r, where p = "''/x402/pay''" and q = "[]" and t = 300000])
      (use len num demo_hex demo_date in \<open>simp_all add: demo_split_def demo_client_def demo_router_def isPublicRoute_def
        PUBLIC_ROUTES_def nonce_has_def demo_nonces_def new_nonce_store_def demo_body_def bodiless_def
        DEFAULT_HMAC_SKEW_MS_def demo_auth_def\<close>)
  with r plain show ?thesis by (auto simp: demo_body_def)
qed

end
