(* ===== verification/Route_Properties.thy ===== *)
theory Route_Properties
  imports Runner_Routes Auth_Properties
begin

text \<open>
  The adapter's client and the runner's routes together, and what the budget route sends to the
  wallet.
\<close>

section \<open>Every call of the client has a handler\<close>

definition pathname :: "string \<Rightarrow> string" where
  "pathname path = takeWhile (\<lambda>c. c \<noteq> CHR ''?'') path"

definition search :: "string \<Rightarrow> string" where
  "search path = dropWhile (\<lambda>c. c \<noteq> CHR ''?'') path"

definition client_paths :: "(string \<times> string) list" where
  "client_paths =
     (''GET'', ''/receipts'') # (''GET'', ''/ledger'') # map (Pair ''POST'')
       [''/x402/inspect'', ''/x402/pay'', ''/x402/batch-pay'', ''/erc8183/provider/run-only'',
        ''/erc8183/provider/run-and-submit'', ''/erc8183/provider/set-budget'', ''/provider/context'',
        ''/provider/resume-plan'', ''/provider/heartbeat'', ''/provider/start-job'', ''/provider/write-checkpoint'',
        ''/provider/retry-job'', ''/provider/complete-run'', ''/provider/list-assigned-jobs'',
        ''/provider/list-assigned-jobs-extended'', ''/provider/list-open-jobs'', ''/provider/list-my-open-job-applications'',
        ''/provider/apply-open-job'', ''/provider/withdraw-open-job-application'', ''/provider/publish-deliverable'',
        ''/erc8183/provider/submit-deliverable'', ''/jobs/onchain-status'', ''/jobs/lifecycle-summary'']"

definition is_served :: "string \<times> string \<Rightarrow> bool" where
  "is_served mp = ((case map_of runner_routes mp of None \<Rightarrow> False | Some t \<Rightarrow> t \<notin> {Health, AgentManifest, GlobalSkill})
     \<and> \<not> isPublicRoute (snd mp) \<and> fst mp \<noteq> [])"

lemma client_paths_served: "list_all is_served client_paths"
  by code_simp

lemma pathname_query [simp]: "pathname (p @ CHR ''?'' # q) = pathname p"
  by (induction p) (simp_all add: pathname_def)

lemma client_call_path:
  "(fst (client_call_parts call), pathname (fst (snd (client_call_parts call)))) \<in> set client_paths
    \<and> (bodiless (Some (fst (client_call_parts call))) \<longrightarrow> snd (snd (client_call_parts call)) = JUndef)"
proof (cases call)
  case (ClListReceipts n)
  then show ?thesis
    using pathname_query [of "''/receipts''" "''limit='' @ n"] by (simp add: client_paths_def) (simp add: pathname_def)
next
  case (ClListLedger n)
  then show ?thesis
    using pathname_query [of "''/ledger''" "''limit='' @ n"] by (simp add: client_paths_def) (simp add: pathname_def)
qed (simp_all add: client_paths_def pathname_def bodiless_def)

lemma call_is_routed:
  assumes "client_call_parts call = (m, path, body)"
  shows "(\<exists>target. map_of runner_routes (m, pathname path) = Some target \<and> target \<notin> {Health, AgentManifest, GlobalSkill})
    \<and> \<not> isPublicRoute (pathname path) \<and> (bodiless (Some m) \<longrightarrow> body = JUndef) \<and> m \<noteq> []"
proof -
  have "is_served (m, pathname path)"
    using client_call_path [of call] client_paths_served assms by (auto simp: list_all_iff)
  with client_call_path [of call] assms show ?thesis by (auto simp: is_served_def split: option.splits)
qed

text \<open>C18: Every method of the adapter's client reaches a handler of the runner behind
  authentication: if client and runner share the secret, their clocks agree up to the skew and
  the nonce is fresh, the call is routed and dispatched with the JSON value of its body.\<close>

theorem client_call_dispatched:
  assumes "client_call_parts call = (m, path, body)"
    and "client_sends env split stamp nonce c m path body = Inr r"
    and "split (cl_baseUrl c @ path) = (pathname path, search path)"
    and "stamp \<noteq> []" "nonce \<noteq> []" "hex_digest (au_hmac env)"
    and "au_date env stamp = Some t" "\<bar>int now - t\<bar> \<le> int DEFAULT_HMAC_SKEW_MS"
    and "\<not> nonce_has now nonce ''runner'' st"
    and "finite_json (au_num env) body" "length (body_text body) \<le> MAX_BODY_BYTES"
  shows "\<exists>target st'. map_of runner_routes (m, rq_path r) = Some target \<and> target \<notin> {Health, AgentManifest, GlobalSkill}
    \<and> route_request env (runner_router (cl_secret c)) now r st
      = (st', Dispatched (body_text body) (if body = JUndef then JUndef else json_plain body))"
proof -
  obtain target where target: "map_of runner_routes (m, pathname path) = Some target" "target \<notin> {Health, AgentManifest, GlobalSkill}"
    and call: "\<not> isPublicRoute (pathname path)" "bodiless (Some m) \<longrightarrow> body = JUndef" "m \<noteq> []"
    using call_is_routed [OF assms(1)] by blast
  have "(m, pathname path) \<in> set (ro_routes (runner_router (cl_secret c)))"
    using map_of_SomeD [OF target(1)] by (force simp: runner_router_def)
  moreover have "pathname path @ search path = path" by (simp add: pathname_def search_def)
  ultimately have "\<exists>st'. route_request env (runner_router (cl_secret c)) now r st
      = (st', Dispatched (body_text body) (if body = JUndef then JUndef else json_plain body))"
    using assms call by (intro client_request_dispatched [OF assms(2,3)]) (simp_all add: runner_router_def)
  moreover have "rq_path r = pathname path"
    using assms(2,3) by (auto simp: client_sends_def Let_def split: sum.splits)
  ultimately show ?thesis using target by auto
qed

definition demo_split_query :: "string \<Rightarrow> string \<times> string" where
  "demo_split_query u = (let p = drop (length ''http://r'') u in (pathname p, search p))"

lemma client_call_dispatched_witness:
  "\<exists>r st'. client_sends demo_auth demo_split_query ''T'' ''n2'' demo_client ''GET'' ''/ledger?limit=50'' JUndef = Inr r
    \<and> route_request demo_auth (runner_router ''key'') 300001 r demo_nonces = (st', Dispatched [] JUndef)"
proof -
  obtain r where r: "client_sends demo_auth demo_split_query ''T'' ''n2'' demo_client ''GET'' ''/ledger?limit=50'' JUndef = Inr r"
    by (auto simp: client_sends_def signRequest_def demo_client_def Let_def)
  have call: "client_call_parts (ClListLedger ''50'') = (''GET'', ''/ledger?limit=50'', JUndef)" by simp
  have "\<exists>target st'. map_of runner_routes (''GET'', rq_path r) = Some target \<and> target \<notin> {Health, AgentManifest, GlobalSkill}
    \<and> route_request demo_auth (runner_router (cl_secret demo_client)) 300001 r demo_nonces
      = (st', Dispatched (body_text JUndef) (if JUndef = JUndef then JUndef else json_plain JUndef))"
    by (rule client_call_dispatched [OF call r, where t = 300000])
      (use demo_hex demo_date in \<open>simp_all add: demo_split_query_def demo_client_def pathname_def search_def
        nonce_has_def demo_nonces_def new_nonce_store_def body_text_def DEFAULT_HMAC_SKEW_MS_def MAX_BODY_BYTES_def\<close>)
  with r show ?thesis by (auto simp: demo_client_def body_text_def)
qed

section \<open>The budget route\<close>

lemma micros_route: "usdc_format s \<Longrightarrow> parseUsdcMicros s = Some (usdc_value s)"
proof -
  assume f: "usdc_format s"
  then have d: "list_all is_digit (whole_part s @ padEnd0 6 (frac_part s))"
    using whole_digits [OF f] padEnd0_digits [OF frac_digits [OF f], of 6] by (simp add: all_digits_def)
  have len: "length (padEnd0 6 (frac_part s)) = 6" using frac_length [OF f] by (simp add: padEnd0_def)
  show ?thesis
    unfolding parseUsdcMicros_def using f BigInt_digits [OF d] len
    by (simp add: usdc_value_def digits_val_append)
qed

lemma hard_cap: "parseUsdcMicros ''5.00'' = Some 5000000"
  by code_simp

lemma hex_text_bytes: "hex_bytes (hex_text s) = map code s"
proof (induction s)
  case (Cons c s)
  have "digit_val (hex_char (code c div 16)) = code c div 16" "digit_val (hex_char (code c mod 16)) = code c mod 16"
    by (simp_all add: hex_char_hex less_mult_imp_div_less)
  with Cons show ?case by (simp add: hex_text_def)
qed (simp add: hex_text_def)

lemma bytes_text: "map char_of (map code s) = s"
  by (induction s) simp_all

text \<open>What the budget route sends to the wallet is a budget of more than nothing and at most five
  USDC, in micro-units, for a numeric job, and the reason the caller gave can be read back from
  the bytes sent with it; every other request is answered with an error.\<close>

theorem budget_route_bounded:
  assumes "set_budget_route env cfg i = Await g call k" "num ''1'' = ''1''"
  shows "\<exists>jobId amount complexity reason micros opt. sb_jobId i = Some jobId \<and> all_digits jobId
    \<and> sb_amount i = Some amount \<and> decimalToMicros amount = Some micros \<and> 0 < micros \<and> micros \<le> 5000000
    \<and> sb_complexity i = Some complexity \<and> sb_reason i = Some reason \<and> trim reason \<noteq> [] \<and> length reason \<le> 512
    \<and> call = Erc8183Write ''setBudget(uint256,uint256,bytes)'' [jobId, int_str micros, ''0x'' @ opt] ERC8183_AGENTIC_COMMERCE
    \<and> json_parse num (map char_of (hex_bytes opt)) = Some (budget_reason complexity amount reason)"
proof -
  from assms(1) obtain jobId amount complexity reason where fields: "sb_jobId i = Some jobId" "sb_amount i = Some amount"
      "sb_complexity i = Some complexity" "sb_reason i = Some reason"
    by (auto simp: set_budget_route_def route_error_def Let_def split: if_splits elim!: truthyE)
  with assms(1) have ok: "all_digits jobId" "usdc_format amount" "trim reason \<noteq> []" "length reason \<le> 512"
    by (auto simp: set_budget_route_def route_error_def Let_def split: if_splits)
  let ?opt = "hex_text (json_text (budget_reason complexity amount reason))"
  from assms(1) fields ok have bounds: "0 < usdc_value amount" "usdc_value amount \<le> 5000000"
    and sent: "setBudget env cfg (JObj [(''jobId'', JStr jobId), (''amount'', JStr amount), (''optParams'', JStr (''0x'' @ ?opt))])
      jobId amount (Some (''0x'' @ ?opt)) = Await g call k"
    by (auto simp: set_budget_route_def route_error_def Let_def micros_route hard_cap split: if_splits)
  have call: "call = Erc8183Write ''setBudget(uint256,uint256,bytes)'' [jobId, int_str (usdc_value amount), ''0x'' @ ?opt] ERC8183_AGENTIC_COMMERCE"
    using sent decimal_value [OF ok(2)] by (auto simp: setBudget_def split: option.splits if_splits)
  have "scan_number ''1'' = Some (''1'', [])" by code_simp
  then have "finite_json num (budget_reason complexity amount reason)"
    using assms(2) by (simp add: budget_reason_def)
  moreover have "json_plain (budget_reason complexity amount reason) = budget_reason complexity amount reason"
    by (simp add: budget_reason_def js_property_order_def array_index_def all_digits_def is_digit_def code_def)
  ultimately have "json_parse num (map char_of (hex_bytes ?opt)) = Some (budget_reason complexity amount reason)"
    by (simp add: parse_json_text hex_text_bytes bytes_text del: map_map)
  with fields ok bounds call decimal_value [OF ok(2)] show ?thesis by blast
qed

definition demo_budget_request :: set_budget_body where
  "demo_budget_request = \<lparr>sb_jobId = Some ''7'', sb_amount = Some ''1.5'', sb_complexity = Some ''low'', sb_reason = Some ''ok''\<rparr>"

lemma budget_route_bounded_witness:
  "\<exists>g call k opt. set_budget_route \<lparr>sha256_hex = take 6, keccak_hex = id\<rparr> (demo_config\<lparr>cf_wallet := Some ''w''\<rparr>) demo_budget_request = Await g call k
    \<and> call = Erc8183Write ''setBudget(uint256,uint256,bytes)'' [''7'', ''1500000'', ''0x'' @ opt] ERC8183_AGENTIC_COMMERCE
    \<and> json_parse id (map char_of (hex_bytes opt)) = Some (budget_reason ''low'' ''1.5'' ''ok'')"
proof -
  have eval: "all_digits ''7''" "usdc_format ''1.5''" "trim ''ok'' = ''ok''" "parseUsdcMicros ''1.5'' = Some 1500000"
    "decimalToMicros ''1.5'' = Some 1500000" "int_str 1500000 = ''1500000''" by code_simp+
  have "\<exists>g call k. set_budget_route \<lparr>sha256_hex = take 6, keccak_hex = id\<rparr> (demo_config\<lparr>cf_wallet := Some ''w''\<rparr>) demo_budget_request = Await g call k"
    by (simp add: set_budget_route_def demo_budget_request_def eval hard_cap setBudget_def Let_def)
  then obtain g call k where sent: "set_budget_route \<lparr>sha256_hex = take 6, keccak_hex = id\<rparr> (demo_config\<lparr>cf_wallet := Some ''w''\<rparr>) demo_budget_request = Await g call k"
    by blast
  from budget_route_bounded [OF sent, of id] sent eval show ?thesis
    by (auto simp: demo_budget_request_def)
qed

end
