(* ===== verification/Settlement.thy ===== *)
theory Settlement
  imports Json_Roundtrip Js_Numbers Usdc
begin

text \<open>
  The documents an ERC-8183 job is settled with: the job envelope (\<open>job-envelope.ts\<close>), the
  canonical deliverable (\<open>deliverable.ts\<close>) and the evaluation verdict
  (\<open>evaluation-verdict.ts\<close>), all in \<open>runner-core/src\<close>. A Zod schema is a parameter: it answers
  with the messages of its issues or with the parsed value. Documents are JSON values.
\<close>

type_synonym schema = "json \<Rightarrow> string list + json"

record documents =
  dc_envelope :: schema
  dc_deliverable :: schema
  dc_verdict :: schema
  dc_num :: "string \<Rightarrow> string"
  dc_keccak :: "string \<Rightarrow> string"

section \<open>Canonical documents\<close>

definition MAX_ENCODED_BYTES :: nat where
  "MAX_ENCODED_BYTES = 32768"

definition MAX_PAYLOAD_BYTES :: nat where
  "MAX_PAYLOAD_BYTES = 1048576"

definition MAX_ARTIFACTS :: nat where
  "MAX_ARTIFACTS = 32"

definition zod_error :: "string list \<Rightarrow> thrown" where
  "zod_error issues = ThrownError (join_with '','' issues)"

definition encodeJobEnvelope :: "documents \<Rightarrow> json \<Rightarrow> thrown + string" where
  "encodeJobEnvelope d envelope =
     (case dc_envelope d envelope of
        Inl issues \<Rightarrow> Inl (zod_error issues)
      | Inr validated \<Rightarrow>
          let encoded = canonicalJson validated; byteLength = length encoded in
          if MAX_ENCODED_BYTES < byteLength then
            Inl (ThrownError (''JobEnvelope encoded size '' @ nat_str byteLength @ '' exceeds maximum ''
              @ nat_str MAX_ENCODED_BYTES @ '' bytes''))
          else Inr encoded)"

fun is_object :: "json \<Rightarrow> bool" where
  "is_object (JObj _) = True"
| "is_object _ = False"

definition is_document :: "string \<Rightarrow> json \<Rightarrow> bool" where
  \<comment> \<open>an object whose \<open>schema\<close> is the name and whose \<open>version\<close> is 1\<close>
  "is_document name v \<longleftrightarrow> is_object v \<and> jget ''schema'' v = JStr name \<and> jget ''version'' v = JNum ''1''"

definition decode_document :: "documents \<Rightarrow> string \<Rightarrow> schema \<Rightarrow> string \<Rightarrow> json option" where
  \<comment> \<open>the body that \<open>decodeJobEnvelope\<close> and \<open>decodeEvaluationVerdict\<close> share\<close>
  "decode_document d name schema raw =
     (if raw = [] then None
      else (case json_parse (dc_num d) raw of
              None \<Rightarrow> None
            | Some parsed \<Rightarrow>
                if \<not> is_document name parsed then None
                else (case schema parsed of Inl _ \<Rightarrow> None | Inr data \<Rightarrow> Some data)))"

definition decodeJobEnvelope :: "documents \<Rightarrow> string \<Rightarrow> json option" where
  "decodeJobEnvelope d raw = decode_document d ''arclayer.job'' (dc_envelope d) raw"

definition validate_document ::
  "documents \<Rightarrow> string \<Rightarrow> string \<Rightarrow> string \<Rightarrow> schema \<Rightarrow> nat option \<Rightarrow> string \<Rightarrow> string list + json" where
  \<comment> \<open>the checks of \<open>validateJobEnvelope\<close> and \<open>validateEvaluationVerdict\<close>, in their order\<close>
  "validate_document d noun not_json name schema limit raw =
     (if raw = [] then Inl [noun @ '' is empty or not a string'']
      else (case json_parse (dc_num d) raw of
              None \<Rightarrow> Inl [noun @ '' is not valid JSON'' @ not_json]
            | Some parsed \<Rightarrow>
                if \<not> is_object parsed then Inl [noun @ '' JSON is not an object'']
                else if jget ''schema'' parsed \<noteq> JStr name then
                  Inl [''expected schema '' @ [CHR 0x22] @ name @ [CHR 0x22] @ '', got '' @ [CHR 0x22]
                    @ js_text (jget ''schema'' parsed) @ [CHR 0x22]]
                else if jget ''version'' parsed \<noteq> JNum ''1'' then
                  Inl [''expected version 1, got '' @ js_text (jget ''version'' parsed)]
                else (case schema parsed of
                        Inl errors \<Rightarrow> Inl errors
                      | Inr data \<Rightarrow>
                          (case limit of
                             None \<Rightarrow> Inr data
                           | Some n \<Rightarrow>
                               let byteLength = length (canonicalJson data) in
                               if n < byteLength then
                                 Inl [''encoded size '' @ nat_str byteLength @ '' exceeds maximum '' @ nat_str n @ '' bytes'']
                               else Inr data))))"

definition validateJobEnvelope :: "documents \<Rightarrow> string \<Rightarrow> string list + json" where
  "validateJobEnvelope d raw = validate_document d ''description'' '' (legacy plain text not supported for new jobs)''
     ''arclayer.job'' (dc_envelope d) (Some MAX_ENCODED_BYTES) raw"

definition is_document_text :: "documents \<Rightarrow> string \<Rightarrow> string \<Rightarrow> bool" where
  "is_document_text d name raw =
     (if raw = [] then False
      else (case json_parse (dc_num d) raw of None \<Rightarrow> False | Some parsed \<Rightarrow> is_document name parsed))"

definition isJobEnvelope :: "documents \<Rightarrow> string \<Rightarrow> bool" where
  "isJobEnvelope d raw = is_document_text d ''arclayer.job'' raw"

definition getPaymentDelegation :: "documents \<Rightarrow> string \<Rightarrow> json option" where
  "getPaymentDelegation d description =
     (case decodeJobEnvelope d description of
        None \<Rightarrow> None
      | Some e \<Rightarrow>
          if \<not> jtruthy (jget ''delegationEnabled'' (jget ''paymentDelegation'' e)) then None
          else Some (jget ''paymentDelegation'' e))"

definition extractProposedBudget :: "documents \<Rightarrow> string \<Rightarrow> json option" where
  "extractProposedBudget d description =
     map_option (\<lambda>e. jget ''proposedBudgetUsdc'' (jget ''commercialTerms'' e)) (decodeJobEnvelope d description)"

section \<open>Deliverables\<close>

definition canonicalizeDeliverable :: "documents \<Rightarrow> json \<Rightarrow> thrown + string" where
  "canonicalizeDeliverable d deliverable =
     (case dc_deliverable d deliverable of
        Inl issues \<Rightarrow> Inl (zod_error issues)
      | Inr validated \<Rightarrow>
          let artifacts = length (json_items (jget ''artifacts'' validated)) in
          if MAX_ARTIFACTS < artifacts then
            Inl (ThrownError (''Deliverable has '' @ nat_str artifacts @ '' artifacts, maximum is '' @ nat_str MAX_ARTIFACTS))
          else
            (let canonical = canonicalJson validated; byteLength = length canonical in
             if MAX_PAYLOAD_BYTES < byteLength then
               Inl (ThrownError (''Deliverable payload '' @ nat_str byteLength @ '' bytes exceeds maximum ''
                 @ nat_str MAX_PAYLOAD_BYTES @ '' bytes''))
             else Inr canonical))"

definition computeErc8183DeliverableHash :: "documents \<Rightarrow> string \<Rightarrow> string" where
  "computeErc8183DeliverableHash d canonicalPayload = dc_keccak d canonicalPayload"

definition hashDeliverable :: "documents \<Rightarrow> json \<Rightarrow> thrown + string \<times> string" where
  "hashDeliverable d deliverable =
     bindR (canonicalizeDeliverable d deliverable) (\<lambda>canonicalPayload.
       Inr (canonicalPayload, computeErc8183DeliverableHash d canonicalPayload))"

definition verifyErc8183DeliverableHash :: "documents \<Rightarrow> string \<Rightarrow> string \<Rightarrow> bool" where
  "verifyErc8183DeliverableHash d canonicalPayload expectedHash =
     (toLowerCase (computeErc8183DeliverableHash d canonicalPayload) = toLowerCase expectedHash)"

definition decodeDeliverable :: "documents \<Rightarrow> string \<Rightarrow> json option" where
  "decodeDeliverable d canonicalPayload =
     (if canonicalPayload = [] then None
      else (case json_parse (dc_num d) canonicalPayload of
              None \<Rightarrow> None
            | Some parsed \<Rightarrow> (case dc_deliverable d parsed of Inl _ \<Rightarrow> None | Inr data \<Rightarrow> Some data)))"

definition isCanonicalDeliverable :: "documents \<Rightarrow> string \<Rightarrow> bool" where
  "isCanonicalDeliverable d raw = is_document_text d ''arclayer.deliverable'' raw"

section \<open>Verdicts\<close>

definition encodeEvaluationVerdict :: "documents \<Rightarrow> json \<Rightarrow> thrown + string" where
  "encodeEvaluationVerdict d verdict =
     (case dc_verdict d verdict of Inl issues \<Rightarrow> Inl (zod_error issues) | Inr validated \<Rightarrow> Inr (canonicalJson validated))"

definition decodeEvaluationVerdict :: "documents \<Rightarrow> string \<Rightarrow> json option" where
  "decodeEvaluationVerdict d raw = decode_document d ''arclayer.evaluation'' (dc_verdict d) raw"

definition validateEvaluationVerdict :: "documents \<Rightarrow> string \<Rightarrow> string list + json" where
  "validateEvaluationVerdict d raw =
     validate_document d ''verdict'' [] ''arclayer.evaluation'' (dc_verdict d) None raw"

definition AUTO_SETTLEMENT_CONFIDENCE_THRESHOLD :: rat where
  \<comment> \<open>numbers are the shortest texts of doubles, which are ordered as the doubles are\<close>
  "AUTO_SETTLEMENT_CONFIDENCE_THRESHOLD = 7 / 10"

definition AUTO_COMPLETE_SCORE_THRESHOLD :: rat where
  "AUTO_COMPLETE_SCORE_THRESHOLD = 80"

definition less_number :: "json \<Rightarrow> rat \<Rightarrow> bool" where
  "less_number v r =
     (case v of
        JNum n \<Rightarrow> (case Number_text n of Fin q \<Rightarrow> q < r | NegInfinity \<Rightarrow> True | _ \<Rightarrow> False)
      | _ \<Rightarrow> False)"

datatype settlement = AutoComplete | AutoReject | ManualReview

definition criterion :: "json \<Rightarrow> string" where
  "criterion e = or_else (jstr_opt (jget ''criterionId'' e)) []"

definition evidence_map :: "json \<Rightarrow> (string \<times> json) list" where
  \<comment> \<open>\<open>new Map(evidence.map((e) => [e.criterionId, e]))\<close>\<close>
  "evidence_map verdict = fold (\<lambda>e. jsmap_set (criterion e) e) (json_items (jget ''evidence'' verdict)) []"

definition determineSettlementAction :: "json \<Rightarrow> string list \<Rightarrow> settlement" where
  "determineSettlementAction verdict mandatoryCriteriaIds =
     (if jget ''decision'' verdict = JStr ''manual_review'' then ManualReview
      else if less_number (jget ''confidence'' verdict) AUTO_SETTLEMENT_CONFIDENCE_THRESHOLD then ManualReview
      else
        (let evidenceMap = evidence_map verdict;
             missing = filter (\<lambda>i. map_of evidenceMap i = None) mandatoryCriteriaIds;
             failed = filter (\<lambda>i. case map_of evidenceMap i of None \<Rightarrow> False | Some ev \<Rightarrow> \<not> jtruthy (jget ''passed'' ev))
               mandatoryCriteriaIds
         in if missing \<noteq> [] then ManualReview
         else if jget ''decision'' verdict = JStr ''complete'' then
           (if failed \<noteq> [] then ManualReview
            else if less_number (jget ''score'' verdict) AUTO_COMPLETE_SCORE_THRESHOLD then ManualReview
            else AutoComplete)
         else if jget ''decision'' verdict = JStr ''reject'' then
           (if failed = [] then ManualReview else AutoReject)
         else ManualReview))"

definition verifyEvaluatedHash :: "json \<Rightarrow> string \<Rightarrow> bool" where
  "verifyEvaluatedHash verdict expectedHash =
     (toLowerCase (or_else (jstr_opt (jget ''evaluatedDeliverableHash'' verdict)) []) = toLowerCase expectedHash)"

section \<open>The settlement decision\<close>

text \<open>What the evidence says of a criterion is what its last item says.\<close>

definition last_evidence :: "json \<Rightarrow> string \<Rightarrow> json option" where
  "last_evidence verdict i = map_of (rev (map (\<lambda>e. (criterion e, e)) (json_items (jget ''evidence'' verdict)))) i"

lemma fold_jsmap: "map_of (fold (\<lambda>e. jsmap_set (f e) e) es m) i =
    (case map_of (rev (map (\<lambda>e. (f e, e)) es)) i of Some e \<Rightarrow> Some e | None \<Rightarrow> map_of m i)"
  by (induction es arbitrary: m) (auto simp: map_add_def split: option.splits)

lemma evidence_last: "map_of (evidence_map verdict) i = last_evidence verdict i"
  by (simp add: evidence_map_def last_evidence_def fold_jsmap split: option.splits)

definition evidence_says :: "bool \<Rightarrow> json \<Rightarrow> string \<Rightarrow> bool" where
  "evidence_says b verdict i \<longleftrightarrow> (\<exists>ev. last_evidence verdict i = Some ev \<and> jtruthy (jget ''passed'' ev) = b)"

lemma auto_complete_iff:
  "determineSettlementAction v ids = AutoComplete \<longleftrightarrow>
     jget ''decision'' v = JStr ''complete'' \<and> \<not> less_number (jget ''confidence'' v) AUTO_SETTLEMENT_CONFIDENCE_THRESHOLD
     \<and> \<not> less_number (jget ''score'' v) AUTO_COMPLETE_SCORE_THRESHOLD \<and> (\<forall>i\<in>set ids. evidence_says True v i)"
proof -
  have says: "evidence_says True v i \<longleftrightarrow> last_evidence v i \<noteq> None
      \<and> \<not> (case last_evidence v i of None \<Rightarrow> False | Some ev \<Rightarrow> \<not> jtruthy (jget ''passed'' ev))" for i
    by (auto simp: evidence_says_def split: option.splits)
  show ?thesis
    unfolding says by (auto simp: determineSettlementAction_def Let_def evidence_last filter_empty_conv split: option.splits)
qed

lemma auto_reject_iff:
  "determineSettlementAction v ids = AutoReject \<longleftrightarrow>
     jget ''decision'' v = JStr ''reject'' \<and> \<not> less_number (jget ''confidence'' v) AUTO_SETTLEMENT_CONFIDENCE_THRESHOLD
     \<and> (\<forall>i\<in>set ids. last_evidence v i \<noteq> None) \<and> (\<exists>i\<in>set ids. evidence_says False v i)"
proof -
  have says: "evidence_says False v i \<longleftrightarrow> (case last_evidence v i of None \<Rightarrow> False | Some ev \<Rightarrow> \<not> jtruthy (jget ''passed'' ev))" for i
    by (auto simp: evidence_says_def split: option.splits)
  show ?thesis
    unfolding says by (auto simp: determineSettlementAction_def Let_def evidence_last filter_empty_conv)
qed

section \<open>Round trips\<close>

lemma map_of_sorted: "distinct (map fst kvs) \<Longrightarrow> map_of (sort_key fst kvs) = map_of kvs"
proof (rule ext)
  fix k
  assume d: "distinct (map fst kvs)"
  then have "distinct (map fst (sort_key fst kvs))" by (simp add: distinct_map inj_on_def)
  with d have "map_of (sort_key fst kvs) k = Some v \<longleftrightarrow> map_of kvs k = Some v" for v by simp
  then show "map_of (sort_key fst kvs) k = map_of kvs k" by (metis not_None_eq)
qed

lemma jget_canonical:
  assumes "distinct (map fst kvs)"
  shows "jget k (canonical (JObj kvs)) = (case map_of kvs k of None \<Rightarrow> JUndef | Some v \<Rightarrow> canonical v)"
  using map_of_sorted [OF assms] by (simp add: map_of_map split: option.splits)

lemma canonical_str: "canonical v = JStr s \<longleftrightarrow> v = JStr s" "canonical v = JNum n \<longleftrightarrow> v = JNum n"
  by (cases v; simp)+

lemma is_document_canonical:
  assumes "json_value num v"
  shows "is_document name (canonical v) = is_document name v"
proof (cases v)
  case (JObj kvs)
  with assms have d: "distinct (map fst kvs)" by simp
  have "jget k (canonical v) = JStr s \<longleftrightarrow> jget k v = JStr s" "jget k (canonical v) = JNum n \<longleftrightarrow> jget k v = JNum n" for k s n
    unfolding JObj using jget_canonical [OF d, of k] by (auto simp: canonical_str split: option.splits)
  then show ?thesis by (simp add: is_document_def JObj del: jget.simps)
qed (use assms in \<open>simp_all add: is_document_def\<close>)

lemma json_value_finite: "json_value num v \<Longrightarrow> finite_json num v"
  by (induction v) auto

lemma sort_key_map: "(\<And>x. g (f x) = g x) \<Longrightarrow> sort_key g (map f xs) = map f (sort_key g xs)"
proof (induction xs)
  case (Cons x xs)
  have "insort_key g (f x) (map f ys) = map f (insort_key g x ys)" for ys
    using Cons.prems by (induction ys) auto
  with Cons show ?case by simp
qed simp

lemma canonical_idem: "canonical (canonical v) = canonical v"
proof (induction v rule: canonical.induct)
  case (2 kvs)
  let ?f = "\<lambda>(k, v). (k, canonical v)"
  have "sort_key fst (map ?f (sort_key fst kvs)) = map ?f (sort_key fst kvs)"
    by (subst sort_key_map) (auto simp: sort_key_id_if_sorted)
  moreover have "map ?f (map ?f (sort_key fst kvs)) = map ?f (sort_key fst kvs)"
    using 2 by auto
  ultimately show ?case by (simp only: canonical.simps)
qed auto

text \<open>What the documents rely on of a Zod schema: a parsed value is a document of the schema's name
  and version, and any value with the same content, in whatever order of fields, parses to a
  value with that content.\<close>

definition schema_law :: "(string \<Rightarrow> string) \<Rightarrow> string \<Rightarrow> schema \<Rightarrow> bool" where
  "schema_law num name p \<longleftrightarrow>
     (\<forall>v w. p v = Inr w \<longrightarrow> json_value num w \<longrightarrow> is_document name w \<and>
        (\<forall>u. json_value num u \<longrightarrow> canonical u = canonical w \<longrightarrow>
           (\<exists>w'. p u = Inr w' \<and> json_value num w' \<and> canonical w' = canonical w)))"

lemma schema_reparse:
  assumes "schema_law num name p" "p v = Inr w" "json_value num w"
  obtains w' where "p (canonical w) = Inr w'" "json_value num w'" "canonical w' = canonical w"
  using assms canonical_idem [of w] canonical_value [OF json_value_finite [OF assms(3)]] that
  unfolding schema_law_def by blast

lemma printed_document:
  assumes "schema_law num name p" "p v = Inr w" "json_value num w"
  shows "json_parse num (canonicalJson w) = Some (canonical w)" "is_document name (canonical w)" "canonicalJson w \<noteq> []"
proof -
  show "json_parse num (canonicalJson w) = Some (canonical w)"
    by (rule parse_canonicalJson [OF json_value_finite [OF assms(3)]])
  have "is_document name w" using assms unfolding schema_law_def by blast
  then show "is_document name (canonical w)" using is_document_canonical [OF assms(3)] by blast
  show "canonicalJson w \<noteq> []"
    using json_print_starts [OF canonical_value [OF json_value_finite [OF assms(3)]]] by (auto simp: canonicalJson_print)
qed

lemma same_text: "canonical a = canonical b \<Longrightarrow> canonicalJson a = canonicalJson b"
  by (simp add: canonicalJson_print)

lemma same_artifacts:
  assumes "json_value num a" "json_value num b" "canonical a = canonical b" "is_object a"
  shows "length (json_items (jget k a)) = length (json_items (jget k b))"
proof -
  have items: "length (json_items (canonical v)) = length (json_items v)" for v by (cases v) simp_all
  have "length (json_items (jget k (canonical v))) = length (json_items (jget k v))" if "json_value num v" "is_object v" for v
  proof (cases v)
    case (JObj kvs)
    with that(1) have "distinct (map fst kvs)" by simp
    then show ?thesis unfolding JObj using jget_canonical [of kvs k] items by (auto split: option.splits)
  qed (use that in simp_all)
  moreover have "is_object b" using assms(3,4) by (cases a; cases b) auto
  ultimately show ?thesis using assms by metis
qed

lemma envelope_redecoded:
  assumes "schema_law (dc_num d) ''arclayer.job'' (dc_envelope d)" "encodeJobEnvelope d e = Inr s"
    and "\<forall>w. dc_envelope d e = Inr w \<longrightarrow> json_value (dc_num d) w"
  shows "\<exists>w. decodeJobEnvelope d s = Some w \<and> encodeJobEnvelope d w = Inr s \<and> validateJobEnvelope d s = Inr w"
proof -
  obtain w where w: "dc_envelope d e = Inr w" "s = canonicalJson w" "length s \<le> MAX_ENCODED_BYTES"
    using assms(2) by (auto simp: encodeJobEnvelope_def Let_def split: sum.splits if_splits)
  have v: "json_value (dc_num d) w" using assms(3) w(1) by blast
  obtain w' where w': "dc_envelope d (canonical w) = Inr w'" "json_value (dc_num d) w'" "canonical w' = canonical w"
    using schema_reparse [OF assms(1) w(1) v] by blast
  obtain w'' where w'': "dc_envelope d w' = Inr w''" "canonical w'' = canonical w'"
    using assms(1) w'(1,2) unfolding schema_law_def by blast
  have same: "canonicalJson w' = s" "canonicalJson w'' = s"
    using same_text [OF w'(3)] same_text [OF w''(2)] w(2) by simp_all
  note doc = printed_document [OF assms(1) w(1) v, folded w(2)]
  have obj: "is_object (canonical w)" "jget ''schema'' (canonical w) = JStr ''arclayer.job''" "jget ''version'' (canonical w) = JNum ''1''"
    using doc(2) by (simp_all add: is_document_def)
  have "decodeJobEnvelope d s = Some w'"
    using doc w'(1) by (simp add: decodeJobEnvelope_def decode_document_def)
  moreover have "encodeJobEnvelope d w' = Inr s"
    using w''(1) same(2) w(3) by (simp add: encodeJobEnvelope_def Let_def)
  moreover have "validateJobEnvelope d s = Inr w'"
    using doc(1,3) obj w'(1) same(1) w(3) by (simp add: validateJobEnvelope_def validate_document_def Let_def)
  ultimately show ?thesis by blast
qed

lemma deliverable_rehashed:
  assumes "schema_law (dc_num d) ''arclayer.deliverable'' (dc_deliverable d)" "hashDeliverable d v = Inr (payload, h)"
    and "\<forall>w. dc_deliverable d v = Inr w \<longrightarrow> json_value (dc_num d) w"
  shows "\<exists>w. decodeDeliverable d payload = Some w \<and> hashDeliverable d w = Inr (payload, h)
    \<and> isCanonicalDeliverable d payload \<and> verifyErc8183DeliverableHash d payload h"
proof -
  obtain w where w: "dc_deliverable d v = Inr w" "payload = canonicalJson w" "length payload \<le> MAX_PAYLOAD_BYTES"
      "length (json_items (jget ''artifacts'' w)) \<le> MAX_ARTIFACTS"
    and h: "h = computeErc8183DeliverableHash d payload"
    using assms(2) by (auto simp: hashDeliverable_def canonicalizeDeliverable_def Let_def split: sum.splits if_splits)
  have val: "json_value (dc_num d) w" using assms(3) w(1) by blast
  have obj: "is_object w" using assms(1) w(1) val unfolding schema_law_def is_document_def by blast
  obtain w' where w': "dc_deliverable d (canonical w) = Inr w'" "json_value (dc_num d) w'" "canonical w' = canonical w"
    using schema_reparse [OF assms(1) w(1) val] by blast
  obtain w'' where w'': "dc_deliverable d w' = Inr w''" "json_value (dc_num d) w''" "canonical w'' = canonical w'"
    using assms(1) w'(1,2) unfolding schema_law_def by blast
  have same: "canonicalJson w'' = payload" using same_text [of w'' w] w''(3) w'(3) w(2) by simp
  have arts: "length (json_items (jget ''artifacts'' w'')) \<le> MAX_ARTIFACTS"
    using same_artifacts [OF val w''(2)] w''(3) w'(3) obj w(4) by simp
  note doc = printed_document [OF assms(1) w(1) val, folded w(2)]
  have "decodeDeliverable d payload = Some w'" using doc w'(1) by (simp add: decodeDeliverable_def)
  moreover have "hashDeliverable d w' = Inr (payload, h)"
    using w''(1) same arts w(3) h by (simp add: hashDeliverable_def canonicalizeDeliverable_def Let_def)
  moreover have "isCanonicalDeliverable d payload" using doc by (simp add: isCanonicalDeliverable_def is_document_text_def)
  ultimately show ?thesis using h by (auto simp: verifyErc8183DeliverableHash_def)
qed

end
