(* ===== verification/Worker_Effects.thy ===== *)
theory Worker_Effects
  imports Settlement Spend_Policy Js_Numbers
begin

text \<open>
  The vocabulary of the workers and workflows of \<open>arclayer-runner/src\<close>: the effects they await, in
  their order, and an environment that answers each effect from the effects before it. An
  environment is arbitrary, so a statement over all of them covers every behaviour of the
  console, the runtime, the wallet and the clock.
\<close>

datatype effect =
  CallTool string json
| RunRuntime json
| RunProvider json
| CreateJob json
| SetBudget json
| ApproveUsdc json
| FundJob json
| SubmitProvider json
| CompleteJob json
| RejectJob json
| WalletStatus
| ReconcileOperation string string
| ReserveTask string string
| MarkTaskCompleted string string
| MarkTaskFailed string string
| AppendReceipt json
| SubmitOnChain json
| Emit string json
| Sleep nat

text \<open>The clock is read as an ISO time stamp (\<open>wk_iso\<close>) or in seconds; \<open>wk_runtime\<close> is
  \<open>RuntimeResultSchema\<close>. An act gets the effects so far and answers with its result and the effects it adds. A call
  answers a value or throws: the text of the error (\<open>String(err)\<close>) and its message.\<close>

datatype reply = Threw string string | Got json

type_synonym 'a act = "effect list \<Rightarrow> 'a \<times> effect list"

record worker_env =
  wk_reply :: "effect list \<Rightarrow> effect \<Rightarrow> reply"
  wk_iso :: "effect list \<Rightarrow> string"
  wk_seconds :: "effect list \<Rightarrow> nat"
  wk_docs :: documents
  wk_runtime :: schema

definition perform :: "worker_env \<Rightarrow> effect \<Rightarrow> (reply \<Rightarrow> 'a act) \<Rightarrow> 'a act" where
  "perform env e k h = map_prod id ((#) e) (k (wk_reply env h e) (h @ [e]))"

definition emit :: "string \<Rightarrow> json \<Rightarrow> 'a act \<Rightarrow> 'a act" where
  "emit name data k h = map_prod id ((#) (Emit name data)) (k (h @ [Emit name data]))"

definition note_effect :: "effect \<Rightarrow> 'a act \<Rightarrow> 'a act" where
  \<comment> \<open>a call whose answer is not used and that does not throw\<close>
  "note_effect e k h = map_prod id ((#) e) (k (h @ [e]))"

definition return :: "'a \<Rightarrow> 'a act" where
  "return r h = (r, [])"

lemma perform_sel [simp]:
  "fst (perform env e k h) = fst (k (wk_reply env h e) (h @ [e]))"
  "snd (perform env e k h) = e # snd (k (wk_reply env h e) (h @ [e]))"
  by (simp_all add: perform_def)

lemma emit_sel [simp]:
  "fst (emit name data k h) = fst (k (h @ [Emit name data]))"
  "snd (emit name data k h) = Emit name data # snd (k (h @ [Emit name data]))"
  by (simp_all add: emit_def)

lemma note_sel [simp]:
  "fst (note_effect e k h) = fst (k (h @ [e]))" "snd (note_effect e k h) = e # snd (k (h @ [e]))"
  by (simp_all add: note_effect_def)

lemma return_sel [simp]: "fst (return r h) = r" "snd (return r h) = []"
  by (simp_all add: return_def)

definition json_parse_of :: "worker_env \<Rightarrow> string \<Rightarrow> json option" where
  "json_parse_of env s = json_parse (dc_num (wk_docs env)) s"

definition requireObject :: "worker_env \<Rightarrow> json \<Rightarrow> json option" where
  \<comment> \<open>\<open>None\<close> when it throws\<close>
  "requireObject env v =
     (if is_object v then Some v
      else (case v of
              JStr s \<Rightarrow> (case json_parse_of env s of
                           Some p \<Rightarrow> if is_object p then Some p else None
                         | None \<Rightarrow> None)
            | _ \<Rightarrow> None))"

definition object_result :: "worker_env \<Rightarrow> json \<Rightarrow> string + json" where
  \<comment> \<open>the text of the error when it throws; text that is no JSON is reported as the other values\<close>
  "object_result env v = (case requireObject env v of None \<Rightarrow> Inl ''Error: Expected MCP structured object result'' | Some p \<Rightarrow> Inr p)"

definition field :: "string \<Rightarrow> json \<Rightarrow> string" where
  \<comment> \<open>\<open>String(v.k ?? "")\<close>\<close>
  "field k v = js_text (coalesce (jget k v) (JStr []))"

definition local_job_id :: "json \<Rightarrow> string" where
  \<comment> \<open>\<open>String(job.id ?? job.erc8183JobId ?? "")\<close>\<close>
  "local_job_id job = js_text (coalesce (jget ''id'' job) (coalesce (jget ''erc8183JobId'' job) (JStr [])))"

definition is_bytes32 :: "string \<Rightarrow> bool" where
  \<comment> \<open>\<open>/^0x[a-fA-F0-9]{64}$/\<close>\<close>
  "is_bytes32 s \<longleftrightarrow> startsWith s ''0x'' \<and> length s = 66 \<and> list_all is_hex (drop 2 s)"

definition is_address :: "string \<Rightarrow> bool" where
  \<comment> \<open>\<open>/^0x[a-fA-F0-9]{40}$/\<close>\<close>
  "is_address s \<longleftrightarrow> startsWith s ''0x'' \<and> length s = 42 \<and> list_all is_hex (drop 2 s)"

definition wallet_of :: "runner_config \<Rightarrow> string" where
  \<comment> \<open>\<open>config.circleWalletAddress!\<close>, which \<open>verifyIdentity\<close> has checked\<close>
  "wallet_of cfg = or_else (cf_wallet cfg) []"

section \<open>Polling workers\<close>

record worker_config =
  wc_pollIntervalMs :: nat
  wc_maxConcurrentJobs :: nat
  wc_maxRuntimeRetries :: nat
  wc_baseBackoffMs :: nat

definition default_worker_config :: worker_config where
  "default_worker_config = \<lparr>wc_pollIntervalMs = 15000, wc_maxConcurrentJobs = 1, wc_maxRuntimeRetries = 3, wc_baseBackoffMs = 5000\<rparr>"

text \<open>What a worker remembers between jobs: the finished ones and the failed attempts of the others.\<close>

record retry_state =
  rt_processed :: "string list"
  rt_counts :: "(string \<times> nat) list"

datatype run_state = WIdle | WRunning | WStopping | WStopped

definition verifyIdentity :: "worker_env \<Rightarrow> runner_config \<Rightarrow> string \<Rightarrow> bool \<Rightarrow> (string option \<Rightarrow> 'a act) \<Rightarrow> 'a act" where
  \<comment> \<open>the flag says that \<open>ARCLAYER_MCP_TOKEN\<close> is set; \<open>None\<close> is passed on when every check passes\<close>
  "verifyIdentity env cfg role token k =
     (if cf_role cfg \<noteq> role then k (Some (''Worker requires role='' @ role @ '', got '' @ cf_role cfg))
      else if \<not> token then k (Some ''ARCLAYER_MCP_TOKEN required'')
      else if \<not> truthy (cf_wallet cfg) then k (Some ''Circle wallet address required'')
      else if cf_chain cfg \<noteq> ''ARC-TESTNET'' then k (Some (''Expected ARC-TESTNET, got '' @ cf_chain cfg))
      else perform env (CallTool ''identity.get_agent_account'' (JObj [])) (\<lambda>r. case r of
          Threw text m \<Rightarrow> k (Some (''ERC-8004 identity verification failed: '' @ text))
        | Got _ \<Rightarrow> perform env WalletStatus (\<lambda>r. case r of
            Threw text m \<Rightarrow> k (Some (''Wallet adapter status check failed: '' @ text))
          | Got _ \<Rightarrow> k None)))"

text \<open>What reconciliation learned of an operation.\<close>

datatype verified = VConfirmed | VFailed | VUnknown

fun verified_name :: "verified \<Rightarrow> string" where
  "verified_name VConfirmed = ''confirmed''"
| "verified_name VFailed = ''failed''"
| "verified_name VUnknown = ''unknown''"

fun run_state_name :: "run_state \<Rightarrow> string" where
  "run_state_name WIdle = ''idle''"
| "run_state_name WRunning = ''running''"
| "run_state_name WStopping = ''stopping''"
| "run_state_name WStopped = ''stopped''"

record pending_operation =
  po_id :: string
  po_kind :: string
  po_key :: string

definition js_Number :: "json \<Rightarrow> js_number" where
  \<comment> \<open>\<open>Number(v)\<close>\<close>
  "js_Number v =
     (case v of JUndef \<Rightarrow> NaN | JNull \<Rightarrow> Fin 0 | JBool b \<Rightarrow> Fin (if b then 1 else 0)
      | JNum n \<Rightarrow> Number_text n | _ \<Rightarrow> Number_text (js_text v))"

definition readStatusCode :: "json \<Rightarrow> rat option" where
  "readStatusCode status =
     (case js_Number (coalesce (jget ''statusCode'' status) (jget ''status'' (jget ''raw'' status))) of
        Fin q \<Rightarrow> Some q | _ \<Rightarrow> None)"

definition onchain_status :: "worker_env \<Rightarrow> string \<Rightarrow> (json option \<Rightarrow> 'a act) \<Rightarrow> 'a act" where
  "onchain_status env jobId k =
     perform env (CallTool ''jobs.get_onchain_status'' (JObj [(''jobId'', JStr jobId)]))
       (\<lambda>r. k (case r of Threw text m \<Rightarrow> None | Got v \<Rightarrow> requireObject env v))"

definition key_part :: "nat \<Rightarrow> string \<Rightarrow> string option" where
  \<comment> \<open>\<open>key.split(":")[n]\<close>\<close>
  "key_part n key = (let parts = split_on CHR '':'' key in if n < length parts then Some (parts ! n) else None)"

definition verifyPostcondition ::
  "worker_env \<Rightarrow> (string \<Rightarrow> string option \<Rightarrow> json \<Rightarrow> verified) \<Rightarrow> pending_operation \<Rightarrow> (verified \<Rightarrow> 'a act) \<Rightarrow> 'a act" where
  \<comment> \<open>the frame both workers share; \<open>check\<close> gets the kind, the third part of the key and the status\<close>
  "verifyPostcondition env check op k =
     (let jobId = or_else (key_part 1 (po_key op)) []
      in if jobId = [] then k VUnknown
         else onchain_status env jobId (\<lambda>s. k (case s of None \<Rightarrow> VUnknown
           | Some status \<Rightarrow> check (po_kind op) (key_part 2 (po_key op)) status)))"

fun reconcilePending ::
  "worker_env \<Rightarrow> (string \<Rightarrow> string option \<Rightarrow> json \<Rightarrow> verified) \<Rightarrow> pending_operation list \<Rightarrow> 'a act \<Rightarrow> 'a act" where
  \<comment> \<open>a reconciliation that throws is logged\<close>
  "reconcilePending env check [] k = k"
| "reconcilePending env check (op # ops) k =
     verifyPostcondition env check op (\<lambda>v.
       perform env (ReconcileOperation (po_id op) (verified_name v)) (\<lambda>_. reconcilePending env check ops k))"

record worker_state =
  ws_state :: run_state
  ws_retries :: retry_state

definition runOnce ::
  "worker_env \<Rightarrow> runner_config \<Rightarrow> string \<Rightarrow> bool \<Rightarrow> (string \<Rightarrow> string option \<Rightarrow> json \<Rightarrow> verified) \<Rightarrow> pending_operation list
     \<Rightarrow> (retry_state \<Rightarrow> retry_state act) \<Rightarrow> worker_state \<Rightarrow> (string + worker_state) act" where
  "runOnce env cfg role token check ops poll w =
     (if ws_state w \<noteq> WIdle \<and> ws_state w \<noteq> WStopped then return (Inl (''Cannot run once in state '' @ run_state_name (ws_state w)))
      else verifyIdentity env cfg role token (\<lambda>e. case e of
          Some m \<Rightarrow> return (Inl m)
        | None \<Rightarrow> reconcilePending env check ops (\<lambda>h.
            map_prod (\<lambda>rs. Inr (w\<lparr>ws_state := WStopped, ws_retries := rs\<rparr>)) id (poll (ws_retries w) h))))"

definition new_retry_state :: retry_state where
  "new_retry_state = \<lparr>rt_processed = [], rt_counts = []\<rparr>"

definition retry_count :: "string \<Rightarrow> retry_state \<Rightarrow> nat" where
  \<comment> \<open>\<open>retryCounts.get(jobId) ?? 0\<close>\<close>
  "retry_count j st = or_else (map_of (rt_counts st) j) 0"

definition mark_processed :: "string \<Rightarrow> retry_state \<Rightarrow> retry_state" where
  "mark_processed j st = st\<lparr>rt_processed := (if j \<in> set (rt_processed st) then rt_processed st else rt_processed st @ [j])\<rparr>"

definition forget_retries :: "string \<Rightarrow> retry_state \<Rightarrow> retry_state" where
  "forget_retries j st = st\<lparr>rt_counts := jsmap_delete j (rt_counts st)\<rparr>"

definition count_retry :: "string \<Rightarrow> retry_state \<Rightarrow> retry_state" where
  "count_retry j st = st\<lparr>rt_counts := jsmap_set j (retry_count j st + 1) (rt_counts st)\<rparr>"

definition backoff :: "worker_config \<Rightarrow> nat \<Rightarrow> nat" where
  "backoff wc nextRetry = wc_baseBackoffMs wc * 2 ^ (nextRetry - 1)"

lemma retry_state_simps [simp]:
  "retry_count i (mark_processed j st) = retry_count i st"
  "retry_count i (forget_retries j st) = (if i = j then 0 else retry_count i st)"
  "retry_count i (count_retry j st) = (if i = j then retry_count j st + 1 else retry_count i st)"
  "i \<in> set (rt_processed (mark_processed j st)) \<longleftrightarrow> i = j \<or> i \<in> set (rt_processed st)"
  "rt_processed (forget_retries j st) = rt_processed st" "rt_processed (count_retry j st) = rt_processed st"
  by (auto simp: retry_count_def mark_processed_def forget_retries_def count_retry_def)

definition listAssignedJobs :: "worker_env \<Rightarrow> string \<Rightarrow> json \<Rightarrow> (json list \<Rightarrow> 'a act) \<Rightarrow> 'a act" where
  \<comment> \<open>a failed listing is logged and answers no job; \<open>parsed.jobs ?? []\<close>\<close>
  "listAssignedJobs env tool args k =
     perform env (CallTool tool args)
       (\<lambda>r. k (case (case r of Threw text m \<Rightarrow> None | Got v \<Rightarrow> requireObject env v) of
                 None \<Rightarrow> [] | Some parsed \<Rightarrow> json_items (jget ''jobs'' parsed)))"

end
