(* ===== verification/Evaluator_Worker.thy ===== *)
theory Evaluator_Worker
  imports Worker_Effects
begin

text \<open>
  \<open>EvaluatorWorker\<close> (\<open>arclayer-runner/src/workers/evaluator.ts\<close>): it polls for submitted jobs,
  checks the deliverable's hash, runs the evaluator runtime, and settles the job. The phase of
  the active evaluation is only read by logging and is left out.
\<close>

section \<open>One job\<close>

definition manual_review :: "runner_config \<Rightarrow> string \<Rightarrow> string \<Rightarrow> (string \<times> json) list \<Rightarrow> 'a act \<Rightarrow> 'a act" where
  "manual_review cfg jobId reason metadata =
     emit ''evaluation.manual_review'' (JObj ([(''jobId'', JStr jobId), (''agentId'', JStr (cf_agentId cfg)),
       (''reason'', JStr reason)] @ metadata))"

type_synonym outcome = "string + unit"

record settle_input =
  si_jobId :: string
  si_erc8183JobId :: string
  si_verdict :: json
  si_storedHash :: string
  si_providerAgentId :: string
  si_providerAddress :: string

definition settle_reputation :: "worker_env \<Rightarrow> runner_config \<Rightarrow> settle_input \<Rightarrow> string \<Rightarrow> string \<Rightarrow> outcome act" where
  \<comment> \<open>a failure to queue the reputation is only logged\<close>
  "settle_reputation env cfg i feedback decision =
     perform env (CallTool ''evaluator.queue_reputation'' (JObj
         [(''agentId'', JStr (cf_agentId cfg)), (''jobId'', JStr (si_erc8183JobId i)),
          (''evaluatorAddress'', JStr (wallet_of cfg)), (''targetAgentId'', JStr (si_providerAgentId i)),
          (''targetAddress'', JStr (si_providerAddress i)), (''feedbackType'', JStr feedback),
          (''score'', jget ''score'' (si_verdict i)), (''reason'', jget ''reason'' (si_verdict i)),
          (''evidenceHash'', JStr (si_storedHash i))]))
       (\<lambda>_. emit ''evaluation_completed'' (JObj [(''jobId'', JStr (si_jobId i)), (''decision'', JStr decision),
          (''score'', jget ''score'' (si_verdict i))])
       (return (Inr ())))"

definition settle_with ::
  "worker_env \<Rightarrow> runner_config \<Rightarrow> settle_input \<Rightarrow> (json \<Rightarrow> effect) \<Rightarrow> string \<Rightarrow> string \<Rightarrow> string \<Rightarrow> outcome act" where
  \<comment> \<open>the body that \<open>settleComplete\<close> and \<open>settleReject\<close> repeat for \<open>completeJob\<close> and \<open>rejectJob\<close>\<close>
  "settle_with env cfg i write name feedback decision =
     (let reasonHash = dc_keccak (wk_docs env) (js_text (jget ''reason'' (si_verdict i)))
      in perform env (write (JObj [(''jobId'', JStr (si_erc8183JobId i)), (''reason'', JStr reasonHash), (''optParams'', JStr ''0x'')]))
        (\<lambda>r. case r of
           Threw text m \<Rightarrow> return (Inl (name @ '' failed: '' @ text))
         | Got result \<Rightarrow>
             if \<not> jtruthy (jget ''ok'' result) then
               return (Inl (name @ '' failed: Error: ''
                 @ js_text (coalesce (jget ''error'' result) (coalesce (jget ''reason'' result) (JStr (name @ '' failed''))))))
             else
               (let settlementTxHash = field ''txHash'' result
                in if settlementTxHash \<noteq> [] \<and> is_bytes32 settlementTxHash then
                     perform env (CallTool ''evaluator.attach_settlement_tx'' (JObj
                         [(''agentId'', JStr (cf_agentId cfg)), (''jobId'', JStr (si_erc8183JobId i)),
                          (''evaluatorAddress'', JStr (wallet_of cfg)), (''settlementTxHash'', JStr settlementTxHash)]))
                       (\<lambda>_. settle_reputation env cfg i feedback decision)
                   else settle_reputation env cfg i feedback decision)))"

definition settleComplete :: "worker_env \<Rightarrow> runner_config \<Rightarrow> settle_input \<Rightarrow> outcome act" where
  "settleComplete env cfg i = settle_with env cfg i CompleteJob ''completeJob'' ''successful_work'' ''complete''"

definition settleReject :: "worker_env \<Rightarrow> runner_config \<Rightarrow> settle_input \<Rightarrow> outcome act" where
  "settleReject env cfg i = settle_with env cfg i RejectJob ''rejectJob'' ''failed_acceptance_criteria'' ''reject''"

definition mandatory_ids :: "json \<Rightarrow> string list" where
  \<comment> \<open>\<open>acceptanceCriteria.filter((c) => c.mandatory).map((c) => c.id)\<close>\<close>
  "mandatory_ids envelope = map (\<lambda>c. js_text (jget ''id'' c))
     (filter (\<lambda>c. jtruthy (jget ''mandatory'' c)) (json_items (jget ''acceptanceCriteria'' envelope)))"

text \<open>Steps 4 and 5: the verdict is parsed and checked, published, and acted on.\<close>

definition settle_verdict ::
  "worker_env \<Rightarrow> runner_config \<Rightarrow> json \<Rightarrow> string \<Rightarrow> string \<Rightarrow> string \<Rightarrow> json \<Rightarrow> outcome act" where
  "settle_verdict env cfg job canonicalPayload storedHash providerAgentId runtimeResult =
     (let jobId = local_job_id job; erc8183JobId = field ''erc8183JobId'' job;
          outputStr = (case runtimeResult of JStr s \<Rightarrow> s | _ \<Rightarrow> json_text runtimeResult)
      in case decodeEvaluationVerdict (wk_docs env) outputStr of
           None \<Rightarrow> manual_review cfg jobId ''Invalid evaluation verdict'' [] (return (Inr ()))
         | Some verdict \<Rightarrow>
             if \<not> verifyEvaluatedHash verdict storedHash then
               manual_review cfg jobId ''Verdict hash mismatch'' [] (return (Inr ()))
             else
               (case decodeJobEnvelope (wk_docs env) (field ''description'' job) of
                  None \<Rightarrow> manual_review cfg jobId ''JobEnvelope missing or invalid'' [] (return (Inr ()))
                | Some envelope \<Rightarrow>
                    (case decodeDeliverable (wk_docs env) canonicalPayload of
                       None \<Rightarrow> manual_review cfg jobId ''Canonical deliverable is invalid'' [] (return (Inr ()))
                     | Some _ \<Rightarrow>
                         (let action = determineSettlementAction verdict (mandatory_ids envelope);
                              i = \<lparr>si_jobId = jobId, si_erc8183JobId = erc8183JobId, si_verdict = verdict,
                                   si_storedHash = storedHash, si_providerAgentId = providerAgentId,
                                   si_providerAddress = field ''providerAddress'' job\<rparr>
                          in perform env (CallTool ''evaluator.publish_evaluation'' (JObj
                                 [(''agentId'', JStr (cf_agentId cfg)), (''jobId'', JStr erc8183JobId),
                                  (''evaluatorAddress'', JStr (wallet_of cfg)), (''deliverableHash'', JStr storedHash),
                                  (''verdict'', verdict), (''evaluationReceiptHash'', JUndef)]))
                               (\<lambda>r. case r of
                                  Threw text m \<Rightarrow>
                                    manual_review cfg jobId (''Failed to persist evaluation: '' @ text) [] (return (Inr ()))
                                | Got _ \<Rightarrow>
                                    emit ''evaluation_published'' (JObj [(''jobId'', JStr jobId),
                                      (''decision'', JStr (case action of AutoComplete \<Rightarrow> ''auto_complete''
                                         | AutoReject \<Rightarrow> ''auto_reject'' | ManualReview \<Rightarrow> ''manual_review''))])
                                    (case action of
                                       AutoComplete \<Rightarrow> settleComplete env cfg i
                                     | AutoReject \<Rightarrow> settleReject env cfg i
                                     | ManualReview \<Rightarrow>
                                         manual_review cfg jobId (''Low confidence ('' @ js_text (jget ''confidence'' verdict)
                                             @ '') or ambiguous evidence'')
                                           [(''confidence'', jget ''confidence'' verdict), (''score'', jget ''score'' verdict)]
                                           (return (Inr ()))))))))"

text \<open>Steps 1 to 3: the evaluator's address, the deliverable, its hashes, and the runtime. An
  on-chain hash that is empty is not compared.\<close>

definition evaluation_task :: "runner_config \<Rightarrow> json \<Rightarrow> string \<Rightarrow> string \<Rightarrow> json" where
  "evaluation_task cfg job canonicalPayload storedHash =
     JObj [(''taskId'', JStr (''eval-'' @ local_job_id job)), (''agentId'', JStr (cf_agentId cfg)),
       (''role'', JStr ''evaluator''), (''protocol'', JStr ''erc8183''),
       (''input'', JObj [(''jobId'', JStr (field ''erc8183JobId'' job)), (''deliverable'', JStr canonicalPayload),
          (''deliverableHash'', JStr storedHash)]),
       (''metadata'', JObj [(''localJobId'', JStr (local_job_id job))])]"

definition processSubmittedJob :: "worker_env \<Rightarrow> runner_config \<Rightarrow> json \<Rightarrow> outcome act" where
  "processSubmittedJob env cfg job =
     (let jobId = local_job_id job; erc8183JobId = field ''erc8183JobId'' job
      in if toLowerCase (field ''evaluatorAddress'' job) \<noteq> toLowerCase (wallet_of cfg) then return (Inr ())
      else
        perform env (CallTool ''evaluator.get_deliverable'' (JObj [(''agentId'', JStr (cf_agentId cfg)),
            (''jobId'', JStr erc8183JobId), (''evaluatorAddress'', JStr (wallet_of cfg))]))
          (\<lambda>r. case (case r of Threw text m \<Rightarrow> Inl text | Got v \<Rightarrow> object_result env v) of
             Inl text \<Rightarrow> return (Inl (''Failed to fetch deliverable: '' @ text))
           | Inr data \<Rightarrow>
               (let canonicalPayload = field ''canonicalPayload'' data; storedHash = field ''deliverableHash'' data;
                    onchainHash = field ''onchainDeliverableHash'' data; providerAgentId = field ''providerAgentId'' data;
                    computedHash = dc_keccak (wk_docs env) canonicalPayload
                in if toLowerCase computedHash \<noteq> toLowerCase storedHash then
                     manual_review cfg jobId (''Hash mismatch (computed '' @ computedHash @ '' != stored '' @ storedHash @ '')'')
                       [(''computedHash'', JStr computedHash), (''storedHash'', JStr storedHash)] (return (Inr ()))
                   else if onchainHash \<noteq> [] \<and> toLowerCase onchainHash \<noteq> toLowerCase storedHash then
                     manual_review cfg jobId (''Onchain hash mismatch (onchain '' @ onchainHash @ '' != stored '' @ storedHash @ '')'')
                       [(''onchainHash'', JStr onchainHash), (''storedHash'', JStr storedHash)] (return (Inr ()))
                   else
                     emit ''evaluation_started'' (JObj [(''jobId'', JStr jobId)])
                     (perform env (RunRuntime (evaluation_task cfg job canonicalPayload storedHash))
                       (\<lambda>r. case r of
                          Threw text m \<Rightarrow> return (Inl (''Evaluator runtime failed: '' @ text))
                        | Got runtimeResult \<Rightarrow>
                            settle_verdict env cfg job canonicalPayload storedHash providerAgentId runtimeResult)))))"

section \<open>The poll\<close>

fun poll_submitted :: "worker_env \<Rightarrow> runner_config \<Rightarrow> worker_config \<Rightarrow> json list \<Rightarrow> retry_state \<Rightarrow> retry_state act" where
  \<comment> \<open>the loop over the listed jobs; it ends after a job has used up its attempts\<close>
  "poll_submitted env cfg wc [] st h = (st, [])"
| "poll_submitted env cfg wc (job # jobs) st h =
     (let jobId = local_job_id job; erc8183JobId = field ''erc8183JobId'' job
      in if jobId = [] \<or> erc8183JobId = [] \<or> jobId \<in> set (rt_processed st) then poll_submitted env cfg wc jobs st h
      else
        (case processSubmittedJob env cfg job h of
           (Inr _, es) \<Rightarrow>
             map_prod id ((@) es) (poll_submitted env cfg wc jobs (forget_retries jobId (mark_processed jobId st)) (h @ es))
         | (Inl msg, es) \<Rightarrow>
             (let st' = count_retry jobId st; nextRetry = retry_count jobId st'
              in if wc_maxRuntimeRetries wc \<le> nextRetry then
                   map_prod id ((@) es) (manual_review cfg jobId
                     (''Requires manual review after '' @ nat_str nextRetry @ '' attempts: '' @ msg)
                     [(''attempts'', JNum (nat_str nextRetry))] (return (mark_processed jobId st')) (h @ es))
                 else
                   (let es' = es @ [Sleep (backoff wc nextRetry)]
                    in map_prod id ((@) es') (poll_submitted env cfg wc jobs st' (h @ es'))))))"

definition evaluator_poll :: "worker_env \<Rightarrow> runner_config \<Rightarrow> worker_config \<Rightarrow> retry_state \<Rightarrow> retry_state act" where
  "evaluator_poll env cfg wc st =
     listAssignedJobs env ''evaluator.list_assigned_jobs''
       (JObj [(''agentId'', JStr (cf_agentId cfg)), (''evaluatorAddress'', JStr (wallet_of cfg)),
              (''status'', JStr ''Submitted''), (''limit'', JNum ''20'')])
       (\<lambda>jobs. poll_submitted env cfg wc jobs st)"

fun evaluator_polls :: "worker_env \<Rightarrow> runner_config \<Rightarrow> worker_config \<Rightarrow> nat \<Rightarrow> retry_state \<Rightarrow> retry_state act" where
  \<comment> \<open>the polls of one process, one after the other\<close>
  "evaluator_polls env cfg wc 0 st h = (st, [])"
| "evaluator_polls env cfg wc (Suc n) st h =
     (case evaluator_poll env cfg wc st h of
        (st', es) \<Rightarrow> map_prod id ((@) es) (evaluator_polls env cfg wc n st' (h @ es)))"

definition evaluator_check :: "string \<Rightarrow> string option \<Rightarrow> json \<Rightarrow> verified" where
  "evaluator_check kind expected status =
     (let statusCode = readStatusCode status
      in if kind = ''completeJob'' then
           (if statusCode = Some 3 then VConfirmed else if statusCode = Some 2 then VUnknown else VFailed)
         else if kind = ''rejectJob'' then
           (if statusCode = Some 4 then VConfirmed else if statusCode = Some 2 then VUnknown else VFailed)
         else VUnknown)"

definition evaluator_runOnce ::
  "worker_env \<Rightarrow> runner_config \<Rightarrow> worker_config \<Rightarrow> bool \<Rightarrow> pending_operation list \<Rightarrow> worker_state \<Rightarrow> (string + worker_state) act" where
  "evaluator_runOnce env cfg wc token ops w =
     runOnce env cfg ''evaluator'' token evaluator_check ops (evaluator_poll env cfg wc) w"

end
