(* ===== verification/Evaluator_Safety.thy ===== *)
theory Evaluator_Safety
  imports Evaluator_Worker
begin

text \<open>
  What the evaluator worker settles, over every environment, and how often it tries.
\<close>

section \<open>Settlements\<close>

fun is_settlement :: "effect \<Rightarrow> bool" where
  "is_settlement (CompleteJob _) = True"
| "is_settlement (RejectJob _) = True"
| "is_settlement _ = False"

definition settlement_args :: "worker_env \<Rightarrow> json \<Rightarrow> json \<Rightarrow> json" where
  "settlement_args env job verdict = JObj [(''jobId'', JStr (field ''erc8183JobId'' job)),
     (''reason'', JStr (dc_keccak (wk_docs env) (js_text (jget ''reason'' verdict)))), (''optParams'', JStr ''0x'')]"

lemma manual_review_sel [simp]:
  "fst (manual_review cfg j r m k h) = fst (k (h @ [Emit ''evaluation.manual_review'' (JObj ([(''jobId'', JStr j),
      (''agentId'', JStr (cf_agentId cfg)), (''reason'', JStr r)] @ m))]))"
  "filter is_settlement (snd (manual_review cfg j r m (return x) h)) = []"
  by (simp_all add: manual_review_def)

lemma settle_reputation_settles: "filter is_settlement (snd (settle_reputation env cfg i f d h)) = []"
  by (simp add: settle_reputation_def)

lemma settle_with_settles:
  assumes "\<And>a. is_settlement (write a)"
  shows "filter is_settlement (snd (settle_with env cfg i write name f d h)) =
    [write (JObj [(''jobId'', JStr (si_erc8183JobId i)),
       (''reason'', JStr (dc_keccak (wk_docs env) (js_text (jget ''reason'' (si_verdict i))))), (''optParams'', JStr ''0x'')])]"
  using assms by (simp add: settle_with_def Let_def settle_reputation_settles split: reply.splits)

definition settled_by :: "worker_env \<Rightarrow> json \<Rightarrow> string \<Rightarrow> string \<Rightarrow> json \<Rightarrow> effect \<Rightarrow> bool" where
  \<comment> \<open>the verdict in the runtime's answer justifies the settlement\<close>
  "settled_by env job payload stored result e \<longleftrightarrow>
     (\<exists>verdict envelope.
        decodeEvaluationVerdict (wk_docs env) (case result of JStr s \<Rightarrow> s | _ \<Rightarrow> json_text result) = Some verdict
        \<and> verifyEvaluatedHash verdict stored
        \<and> decodeJobEnvelope (wk_docs env) (field ''description'' job) = Some envelope
        \<and> decodeDeliverable (wk_docs env) payload \<noteq> None
        \<and> (e = CompleteJob (settlement_args env job verdict)
             \<and> determineSettlementAction verdict (mandatory_ids envelope) = AutoComplete
           \<or> e = RejectJob (settlement_args env job verdict)
             \<and> determineSettlementAction verdict (mandatory_ids envelope) = AutoReject))"

lemma verdict_settles:
  assumes "e \<in> set (filter is_settlement (snd (settle_verdict env cfg job payload stored provider result h)))"
  shows "settled_by env job payload stored result e
    \<and> filter is_settlement (snd (settle_verdict env cfg job payload stored provider result h)) = [e]"
proof -
  let ?out = "case result of JStr s \<Rightarrow> s | _ \<Rightarrow> json_text result"
  obtain verdict where verdict: "decodeEvaluationVerdict (wk_docs env) ?out = Some verdict" "verifyEvaluatedHash verdict stored"
    using assms by (auto simp: settle_verdict_def Let_def simp del: set_filter split: option.splits if_splits)
  then obtain envelope deliverable where docs: "decodeJobEnvelope (wk_docs env) (field ''description'' job) = Some envelope"
      "decodeDeliverable (wk_docs env) payload = Some deliverable"
    using assms by (auto simp: settle_verdict_def Let_def simp del: set_filter split: option.splits)
  show ?thesis
    using assms verdict docs
    by (cases "determineSettlementAction verdict (mandatory_ids envelope)")
      (auto simp: settle_verdict_def Let_def settleComplete_def settleReject_def settle_with_settles settled_by_def
        settlement_args_def simp del: set_filter split: reply.splits)
qed

definition deliverable_call :: "runner_config \<Rightarrow> json \<Rightarrow> effect" where
  "deliverable_call cfg job = CallTool ''evaluator.get_deliverable'' (JObj [(''agentId'', JStr (cf_agentId cfg)),
     (''jobId'', JStr (field ''erc8183JobId'' job)), (''evaluatorAddress'', JStr (wallet_of cfg))])"

definition checked_deliverable :: "worker_env \<Rightarrow> runner_config \<Rightarrow> json \<Rightarrow> effect list \<Rightarrow> json \<Rightarrow> bool" where
  \<comment> \<open>the answer to the first call, with hashes that agree\<close>
  "checked_deliverable env cfg job h data \<longleftrightarrow>
     toLowerCase (field ''evaluatorAddress'' job) = toLowerCase (wallet_of cfg)
     \<and> (\<exists>v. wk_reply env h (deliverable_call cfg job) = Got v \<and> requireObject env v = Some data)
     \<and> toLowerCase (dc_keccak (wk_docs env) (field ''canonicalPayload'' data)) = toLowerCase (field ''deliverableHash'' data)
     \<and> (field ''onchainDeliverableHash'' data = []
        \<or> toLowerCase (field ''onchainDeliverableHash'' data) = toLowerCase (field ''deliverableHash'' data))"

definition is_eval_run :: "string \<Rightarrow> effect \<Rightarrow> bool" where
  "is_eval_run j e = (case e of RunRuntime t \<Rightarrow> jget ''taskId'' t = JStr (''eval-'' @ j) | _ \<Rightarrow> False)"

lemma process_settles:
  assumes "e \<in> set (filter is_settlement (snd (processSubmittedJob env cfg job h)))"
  shows "\<exists>data result hist run. checked_deliverable env cfg job h data \<and> is_eval_run (local_job_id job) run
      \<and> wk_reply env hist run = Got result
      \<and> settled_by env job (field ''canonicalPayload'' data) (field ''deliverableHash'' data) result e
      \<and> filter is_settlement (snd (processSubmittedJob env cfg job h)) = [e]"
proof -
  let ?call = "deliverable_call cfg job"
  have addr: "toLowerCase (field ''evaluatorAddress'' job) = toLowerCase (wallet_of cfg)"
    using assms by (auto simp: processSubmittedJob_def Let_def simp del: set_filter split: if_splits)
  obtain v data where data: "wk_reply env h ?call = Got v" "requireObject env v = Some data"
    using assms addr
    by (auto simp: processSubmittedJob_def Let_def deliverable_call_def object_result_def simp del: set_filter
        split: reply.splits option.splits)
  let ?payload = "field ''canonicalPayload'' data" and ?stored = "field ''deliverableHash'' data"
  have hash: "toLowerCase (dc_keccak (wk_docs env) ?payload) = toLowerCase ?stored"
    using assms addr data
    by (auto simp: processSubmittedJob_def Let_def deliverable_call_def object_result_def simp del: set_filter split: if_splits)
  have onchain: "field ''onchainDeliverableHash'' data = [] \<or> toLowerCase (field ''onchainDeliverableHash'' data) = toLowerCase ?stored"
    using assms addr data hash
    by (auto simp: processSubmittedJob_def Let_def deliverable_call_def object_result_def simp del: set_filter split: if_splits)
  have checked: "checked_deliverable env cfg job h data"
    using addr data hash onchain by (auto simp: checked_deliverable_def)
  let ?hist = "h @ [?call, Emit ''evaluation_started'' (JObj [(''jobId'', JStr (local_job_id job))])]"
    and ?run = "RunRuntime (evaluation_task cfg job ?payload ?stored)"
  have effects: "snd (processSubmittedJob env cfg job h) =
      ?call # Emit ''evaluation_started'' (JObj [(''jobId'', JStr (local_job_id job))]) # ?run #
      (case wk_reply env ?hist ?run of Threw t m \<Rightarrow> [] | Got result \<Rightarrow>
         snd (settle_verdict env cfg job ?payload ?stored (field ''providerAgentId'' data) result (?hist @ [?run])))"
    using addr data hash onchain
    by (auto simp: processSubmittedJob_def Let_def deliverable_call_def object_result_def split: reply.splits)
  obtain result where result: "wk_reply env ?hist ?run = Got result"
    using assms unfolding effects by (cases "wk_reply env ?hist ?run") (simp_all add: deliverable_call_def)
  have rest: "filter is_settlement (snd (processSubmittedJob env cfg job h)) =
      filter is_settlement (snd (settle_verdict env cfg job ?payload ?stored (field ''providerAgentId'' data) result (?hist @ [?run])))"
    unfolding effects result by (simp add: deliverable_call_def)
  have run: "is_eval_run (local_job_id job) ?run" by (simp add: is_eval_run_def evaluation_task_def)
  show ?thesis using verdict_settles assms checked run result unfolding rest by blast
qed

section \<open>Attempts\<close>

definition runs :: "string \<Rightarrow> effect list \<Rightarrow> nat" where
  "runs j es = length (filter (is_eval_run j) es)"

lemma runs_simps [simp]:
  "runs j [] = 0" "runs j (es @ fs) = runs j es + runs j fs"
  "runs j (e # es) = (if is_eval_run j e then 1 else 0) + runs j es"
  by (simp_all add: runs_def)

lemma no_run [simp]:
  "\<not> is_eval_run j (CallTool t a)" "\<not> is_eval_run j (Emit n d)" "\<not> is_eval_run j (Sleep ms)"
  "\<not> is_eval_run j (CompleteJob a)" "\<not> is_eval_run j (RejectJob a)"
  "is_eval_run j (RunRuntime (evaluation_task cfg job p s)) \<longleftrightarrow> j = local_job_id job"
  by (auto simp: is_eval_run_def evaluation_task_def)

lemma manual_review_runs [simp]: "runs j (snd (manual_review cfg i r m (return x) h)) = 0"
  by (simp add: manual_review_def)

lemma settle_with_runs [simp]:
  "(\<And>a. \<not> is_eval_run j (write a)) \<Longrightarrow> runs j (snd (settle_with env cfg i write name f d h)) = 0"
  by (simp add: settle_with_def settle_reputation_def Let_def split: reply.splits)

lemma settle_verdict_runs [simp]: "runs j (snd (settle_verdict env cfg job p s a r h)) = 0"
  by (simp add: settle_verdict_def settleComplete_def settleReject_def Let_def split: option.splits reply.splits settlement.splits)

lemma process_runs: "runs j (snd (processSubmittedJob env cfg job h)) \<le> (if j = local_job_id job then 1 else 0)"
  by (simp add: processSubmittedJob_def Let_def split: reply.splits sum.splits)

text \<open>An unfinished job has been run at most as often as its failures were counted.\<close>

definition attempts_inv :: "nat \<Rightarrow> retry_state \<Rightarrow> effect list \<Rightarrow> bool" where
  "attempts_inv m st h \<longleftrightarrow> (\<forall>j. runs j h \<le> m
     \<and> (j \<notin> set (rt_processed st) \<longrightarrow> runs j h \<le> retry_count j st \<and> retry_count j st < m))"

lemma attempts_done:
  assumes "attempts_inv m st h" "j \<notin> set (rt_processed st)" "\<And>i. runs i es \<le> (if i = j then 1 else 0)"
  shows "attempts_inv m (forget_retries j (mark_processed j st)) (h @ es)"
    and "attempts_inv m (mark_processed j (count_retry j st)) (h @ es)"
    and "retry_count j st + 1 < m \<Longrightarrow> attempts_inv m (count_retry j st) (h @ es)"
proof -
  have j: "runs j h < m" using assms(1,2) by (fastforce simp: attempts_inv_def)
  have new: "runs i (h @ es) \<le> m" for i
    using assms(1) assms(3) [of i] j by (cases "i = j") (auto simp: attempts_inv_def)
  have old: "runs i (h @ es) = runs i h" if "i \<noteq> j" for i using assms(3) [of i] that by simp
  have cnt: "runs j (h @ es) \<le> retry_count j st + 1"
    using assms(1,2) assms(3) [of j] by (fastforce simp: attempts_inv_def)
  show "attempts_inv m (forget_retries j (mark_processed j st)) (h @ es)"
    "attempts_inv m (mark_processed j (count_retry j st)) (h @ es)"
    using assms(1) new old unfolding attempts_inv_def by auto
  show "attempts_inv m (count_retry j st) (h @ es)" if "retry_count j st + 1 < m"
    unfolding attempts_inv_def
  proof (intro allI conjI impI)
    fix i
    assume "i \<notin> set (rt_processed (count_retry j st))"
    then show "runs i (h @ es) \<le> retry_count i (count_retry j st)" "retry_count i (count_retry j st) < m"
      using assms(1) old [of i] cnt that by (auto simp: attempts_inv_def simp del: runs_simps(2))
  qed (rule new)
qed

lemma poll_submitted_inv:
  assumes "m = max 1 (wc_maxRuntimeRetries wc)" "attempts_inv m st h"
  shows "attempts_inv m (fst (poll_submitted env cfg wc jobs st h)) (h @ snd (poll_submitted env cfg wc jobs st h))"
  using assms(2)
proof (induction jobs arbitrary: st h)
  case (Cons job jobs)
  let ?j = "local_job_id job"
  show ?case
  proof (cases "?j = [] \<or> field ''erc8183JobId'' job = [] \<or> ?j \<in> set (rt_processed st)")
    case True
    with Cons show ?thesis by simp
  next
    case False
    obtain r es where p: "processSubmittedJob env cfg job h = (r, es)" by (cases "processSubmittedJob env cfg job h")
    have es: "runs i es \<le> (if i = ?j then 1 else 0)" for i using process_runs [of i env cfg job h] p by simp
    note inv = attempts_done [OF Cons.prems _ es, of]
    show ?thesis
    proof (cases r)
      case (Inr u)
      have "attempts_inv m (forget_retries ?j (mark_processed ?j st)) (h @ es)" using inv(1) False by blast
      from Cons.IH [OF this] False p Inr show ?thesis by (simp add: case_prod_beta Let_def)
    next
      case (Inl msg)
      show ?thesis
      proof (cases "wc_maxRuntimeRetries wc \<le> retry_count ?j st + 1")
        case True
        have "attempts_inv m (mark_processed ?j (count_retry ?j st)) (h @ es)" using inv(2) False by blast
        then have "attempts_inv m (mark_processed ?j (count_retry ?j st)) (h @ es @ [Emit n d])" for n d
          by (simp add: attempts_inv_def)
        with False p Inl True show ?thesis by (simp add: manual_review_def Let_def)
      next
        case less: False
        then have "attempts_inv m (count_retry ?j st) (h @ es)" using inv(3) False assms(1) by simp
        then have "attempts_inv m (count_retry ?j st) (h @ es @ [Sleep (backoff wc (retry_count ?j st + 1))])"
          by (simp add: attempts_inv_def)
        from Cons.IH [OF this] False p Inl less show ?thesis by (simp add: Let_def)
      qed
    qed
  qed
qed simp

lemma evaluator_poll_inv:
  assumes "m = max 1 (wc_maxRuntimeRetries wc)" "attempts_inv m st h"
  shows "attempts_inv m (fst (evaluator_poll env cfg wc st h)) (h @ snd (evaluator_poll env cfg wc st h))"
proof -
  have "attempts_inv m st (h @ [CallTool t a])" for t a using assms(2) by (simp add: attempts_inv_def)
  from poll_submitted_inv [OF assms(1) this] show ?thesis
    by (simp add: evaluator_poll_def listAssignedJobs_def)
qed

lemma evaluator_polls_inv:
  assumes "m = max 1 (wc_maxRuntimeRetries wc)" "attempts_inv m st h"
  shows "attempts_inv m (fst (evaluator_polls env cfg wc n st h)) (h @ snd (evaluator_polls env cfg wc n st h))"
  using assms(2)
proof (induction n arbitrary: st h)
  case (Suc n)
  from Suc.IH [OF evaluator_poll_inv [OF assms(1) Suc.prems, of env cfg]] show ?case
    by (simp add: case_prod_beta)
qed simp

end
