(* ===== verification/Provider_Worker.thy ===== *)
theory Provider_Worker
  imports Worker_Effects
begin

text \<open>
  \<open>ProviderWorker\<close> (\<open>arclayer-runner/src/workers/provider.ts\<close>): it sets the budget of open jobs
  and runs, publishes and submits funded ones. The phase of the active job is only shown and
  is left out.
\<close>

section \<open>Open jobs\<close>

definition resolveBudgetUsdc :: "json \<Rightarrow> string option" where
  "resolveBudgetUsdc job =
     (if truthy (jstr_opt (jget ''proposedBudgetUsdc'' job)) then jstr_opt (jget ''proposedBudgetUsdc'' job)
      else if truthy (jstr_opt (jget ''priceAtomic'' job)) then
        map_option atomicToUsdc (BigInt (or_else (jstr_opt (jget ''priceAtomic'' job)) []))
      else None)"

definition proposed_budget :: "worker_env \<Rightarrow> json \<Rightarrow> string option" where
  \<comment> \<open>the envelope's budget, or else the job's own fields\<close>
  "proposed_budget env job =
     (let description = field ''description'' job;
          fromEnvelope = (if isJobEnvelope (wk_docs env) description
            then Option.bind (extractProposedBudget (wk_docs env) description) jstr_opt else None)
      in if truthy fromEnvelope then fromEnvelope else resolveBudgetUsdc job)"

definition check_budget :: "worker_env \<Rightarrow> runner_config \<Rightarrow> string \<Rightarrow> int \<Rightarrow> reply \<Rightarrow> string option" where
  \<comment> \<open>the status on chain after \<open>setBudget\<close>; \<open>Some\<close> message when it throws\<close>
  "check_budget env cfg erc8183JobId atomic r =
     (case r of
        Threw text m \<Rightarrow> Some m
      | Got v \<Rightarrow>
          (case requireObject env v of
             None \<Rightarrow> Some ''Expected MCP structured object result''
           | Some status \<Rightarrow>
               if js_text (coalesce (jget ''budgetAtomic'' status) (coalesce (jget ''budget'' status) (JStr []))) \<noteq> int_str atomic then
                 Some (''On-chain budget mismatch: expected '' @ int_str atomic @ '', got '' @ js_text (jget ''budget'' status))
               else if jtruthy (jget ''provider'' status)
                  \<and> toLowerCase (js_text (jget ''provider'' status)) \<noteq> toLowerCase (wallet_of cfg) then
                 Some ''On-chain provider changed after setBudget''
               else None))"

definition processOpenJob :: "worker_env \<Rightarrow> runner_config \<Rightarrow> json \<Rightarrow> (string + unit) act" where
  "processOpenJob env cfg job =
     (let jobId = local_job_id job; erc8183JobId = field ''erc8183JobId'' job
      in if toLowerCase (field ''providerAddress'' job) \<noteq> toLowerCase (wallet_of cfg) then return (Inr ())
      else
        (case proposed_budget env job of
           None \<Rightarrow> return (Inr ())
         | Some budget \<Rightarrow>
             if budget = [] \<or> budget = ''0'' then return (Inr ())
             else
               (case parseUsdcToAtomic budget of
                  Inl m \<Rightarrow> return (Inl (''setBudget failed: '' @ m))
                | Inr atomic \<Rightarrow>
                    perform env (SetBudget (JObj [(''jobId'', JStr erc8183JobId), (''amount'', JStr budget), (''optParams'', JStr ''0x'')]))
                      (\<lambda>r. case r of
                         Threw text m \<Rightarrow> return (Inl (''setBudget failed: '' @ m))
                       | Got _ \<Rightarrow>
                           emit ''job_budget_set'' (JObj [(''jobId'', JStr jobId), (''budget'', JStr budget)])
                           (perform env (CallTool ''jobs.get_onchain_status'' (JObj [(''jobId'', JStr erc8183JobId)]))
                             (\<lambda>r. case check_budget env cfg erc8183JobId atomic r of
                                Some m \<Rightarrow> return (Inl (''setBudget failed: '' @ m))
                              | None \<Rightarrow> return (Inr ())))))))"

fun poll_open :: "worker_env \<Rightarrow> runner_config \<Rightarrow> json list \<Rightarrow> string list \<Rightarrow> string list act" where
  \<comment> \<open>\<open>processedOpenIds\<close>; a job that failed is tried again by the next poll\<close>
  "poll_open env cfg [] done h = (done, [])"
| "poll_open env cfg (job # jobs) done h =
     (let jobId = local_job_id job; erc8183JobId = field ''erc8183JobId'' job
      in if jobId = [] \<or> erc8183JobId = [] \<or> jobId \<in> set done then poll_open env cfg jobs done h
      else
        (case processOpenJob env cfg job h of
           (r, es) \<Rightarrow> map_prod id ((@) es)
             (poll_open env cfg jobs (case r of Inr _ \<Rightarrow> done @ [jobId] | Inl _ \<Rightarrow> done) (h @ es))))"

section \<open>Funded jobs\<close>

datatype funded_outcome = Submitted_Job | Waiting_Payment | Waiting_Action | Not_Ours

definition provider_task :: "runner_config \<Rightarrow> json \<Rightarrow> json" where
  "provider_task cfg job =
     (let erc8183JobId = field ''erc8183JobId'' job; description = field ''description'' job
      in JObj [(''taskId'', JStr (''provider:'' @ erc8183JobId)), (''jobId'', JStr erc8183JobId),
           (''agentId'', JStr (cf_agentId cfg)), (''provider'', JStr (wallet_of cfg)),
           (''evaluator'', JStr (js_text (coalesce (jget ''evaluatorAddress'' job) (coalesce (jget ''evaluator'' job) (JStr []))))),
           (''description'', JStr description),
           (''input'', JObj [(''description'', JStr description), (''jobEnvelope'', JStr description)]),
           (''metadata'', JObj [(''localJobId'', JStr (local_job_id job))])])"

definition provider_deliverable :: "runner_config \<Rightarrow> json \<Rightarrow> json \<Rightarrow> string \<Rightarrow> json" where
  "provider_deliverable cfg job runtimeResult completedAt =
     JObj [(''schema'', JStr ''arclayer.deliverable''), (''version'', JNum ''1''),
       (''jobId'', JStr (field ''erc8183JobId'' job)), (''providerAgentId'', JStr (cf_agentId cfg)),
       (''output'', coalesce (jget ''output'' runtimeResult) JNull), (''artifacts'', jget ''artifacts'' runtimeResult),
       (''runtime'', JObj [(''taskId'', JStr (''provider:'' @ field ''erc8183JobId'' job)), (''completedAt'', JStr completedAt)])]"

text \<open>The deliverable is hashed, published and submitted.\<close>

definition publish_and_submit :: "worker_env \<Rightarrow> runner_config \<Rightarrow> json \<Rightarrow> json \<Rightarrow> (string + funded_outcome) act" where
  "publish_and_submit env cfg job runResult h =
     (let jobId = local_job_id job; erc8183JobId = field ''erc8183JobId'' job
      in case wk_runtime env (coalesce (jget ''result'' runResult) runResult) of
           Inl issues \<Rightarrow> return (Inl (join_with '','' issues)) h
         | Inr runtimeResult \<Rightarrow>
             (case hashDeliverable (wk_docs env) (provider_deliverable cfg job runtimeResult (wk_iso env h)) of
                Inl (ThrownError m) \<Rightarrow> return (Inl m) h
              | Inl _ \<Rightarrow> return (Inl []) h
              | Inr (canonicalPayload, deliverableHash) \<Rightarrow>
                  perform env (CallTool ''provider.publish_deliverable'' (JObj
                      [(''agentId'', JStr (cf_agentId cfg)), (''jobId'', JStr erc8183JobId),
                       (''providerAddress'', JStr (wallet_of cfg)), (''canonicalPayload'', JStr canonicalPayload),
                       (''deliverableHash'', JStr deliverableHash), (''artifacts'', jget ''artifacts'' runtimeResult),
                       (''runtimeReceiptHash'', coalesce (jget ''sha256'' (jget ''proof'' (jget ''receipt'' runResult))) JUndef)]))
                    (\<lambda>r. case r of
                       Threw text m \<Rightarrow> return (Inl m)
                     | Got _ \<Rightarrow>
                         emit ''deliverable_published'' (JObj [(''jobId'', JStr jobId), (''deliverableHash'', JStr deliverableHash)])
                         (perform env (SubmitProvider (JObj [(''jobId'', JStr erc8183JobId),
                             (''deliverableHash'', JStr deliverableHash), (''result'', runtimeResult), (''optParams'', JStr ''0x'')]))
                           (\<lambda>r. case r of
                              Threw text m \<Rightarrow> return (Inl (''Submit failed: '' @ m))
                            | Got submitResult \<Rightarrow>
                                if jtruthy submitResult \<and> \<not> jtruthy (jget ''ok'' submitResult) then
                                  return (Inl (''Submit failed: '' @ js_text (coalesce (jget ''error'' submitResult)
                                    (JStr ''Provider deliverable submission failed''))))
                                else
                                  emit ''job_submitted'' (JObj [(''jobId'', JStr jobId)])
                                  (emit ''runtime_completed'' (JObj [(''jobId'', JStr jobId)]) (return (Inr Submitted_Job)))))) h))"

definition processFundedJob :: "worker_env \<Rightarrow> runner_config \<Rightarrow> json \<Rightarrow> (string + funded_outcome) act" where
  "processFundedJob env cfg job =
     (let jobId = local_job_id job; erc8183JobId = field ''erc8183JobId'' job;
          evaluatorAddress = js_text (coalesce (jget ''evaluatorAddress'' job) (coalesce (jget ''evaluator'' job) (JStr [])))
      in if \<not> truthy (cf_wallet cfg) then return (Inl ''Circle wallet address required'')
      else if toLowerCase (field ''providerAddress'' job) \<noteq> toLowerCase (wallet_of cfg) then return (Inr Not_Ours)
      else
        emit ''runtime_started'' (JObj [(''jobId'', JStr jobId)])
        (if \<not> is_address evaluatorAddress then return (Inl (''Job '' @ jobId @ '' has an invalid evaluator address''))
         else
           perform env (RunProvider (provider_task cfg job))
             (\<lambda>r. case r of
                Threw text m \<Rightarrow> return (Inl (''Runtime execution failed: '' @ m))
              | Got runResult \<Rightarrow>
                  if jget ''status'' runResult = JStr ''needs_payment'' then
                    emit ''needs_payment'' (JObj [(''jobId'', JStr jobId), (''paymentRequests'',
                      coalesce (jget ''paymentRequests'' (jget ''result'' runResult))
                        (coalesce (jget ''paymentRequests'' runResult) (JArr [])))])
                    (return (Inr Waiting_Payment))
                  else if jget ''status'' runResult = JStr ''needs_action'' then
                    emit ''needs_action'' (JObj [(''jobId'', JStr jobId)]) (return (Inr Waiting_Action))
                  else if \<not> jtruthy (jget ''ok'' runResult) \<or> jget ''status'' runResult \<noteq> JStr ''completed'' then
                    return (Inl (js_text (coalesce (jget ''error'' runResult)
                      (JStr (''Runtime did not complete: '' @ js_text (jget ''status'' runResult))))))
                  else publish_and_submit env cfg job runResult)))"

fun poll_funded :: "worker_env \<Rightarrow> runner_config \<Rightarrow> worker_config \<Rightarrow> json list \<Rightarrow> retry_state \<Rightarrow> retry_state act" where
  "poll_funded env cfg wc [] st h = (st, [])"
| "poll_funded env cfg wc (job # jobs) st h =
     (let jobId = local_job_id job; erc8183JobId = field ''erc8183JobId'' job
      in if jobId = [] \<or> erc8183JobId = [] \<or> jobId \<in> set (rt_processed st) then poll_funded env cfg wc jobs st h
      else
        (case processFundedJob env cfg job h of
           (Inr outcome, es) \<Rightarrow>
             map_prod id ((@) es) (poll_funded env cfg wc jobs
               (if outcome = Submitted_Job then forget_retries jobId (mark_processed jobId st) else st) (h @ es))
         | (Inl msg, es) \<Rightarrow>
             (let st' = count_retry jobId st; nextRetry = retry_count jobId st'
              in if wc_maxRuntimeRetries wc \<le> nextRetry then
                   map_prod id ((@) es) (emit ''job.failed'' (JObj [(''jobId'', JStr jobId), (''attempts'', JNum (nat_str nextRetry)),
                     (''error'', JStr msg)]) (return (mark_processed jobId st')) (h @ es))
                 else
                   (let es' = es @ [Sleep (backoff wc nextRetry)]
                    in map_prod id ((@) es') (poll_funded env cfg wc jobs st' (h @ es'))))))"

section \<open>Polls and reconciliation\<close>

record provider_state =
  pv_open :: "string list"
  pv_funded :: retry_state

definition assigned_args :: "runner_config \<Rightarrow> string \<Rightarrow> json" where
  "assigned_args cfg status = JObj [(''agentId'', JStr (cf_agentId cfg)), (''providerAddress'', JStr (wallet_of cfg)),
     (''status'', JStr status), (''limit'', JNum ''20'')]"

definition provider_poll :: "worker_env \<Rightarrow> runner_config \<Rightarrow> worker_config \<Rightarrow> provider_state \<Rightarrow> provider_state act" where
  \<comment> \<open>funded jobs before open ones\<close>
  "provider_poll env cfg wc st h =
     (case listAssignedJobs env ''provider.list_assigned_jobs_extended'' (assigned_args cfg ''Funded'')
             (\<lambda>jobs. poll_funded env cfg wc jobs (pv_funded st)) h of
        (funded, es) \<Rightarrow>
          map_prod (\<lambda>opened. \<lparr>pv_open = opened, pv_funded = funded\<rparr>) ((@) es)
            (listAssignedJobs env ''provider.list_assigned_jobs_extended'' (assigned_args cfg ''Open'')
               (\<lambda>jobs. poll_open env cfg jobs (pv_open st)) (h @ es)))"

fun provider_polls :: "worker_env \<Rightarrow> runner_config \<Rightarrow> worker_config \<Rightarrow> nat \<Rightarrow> provider_state \<Rightarrow> provider_state act" where
  "provider_polls env cfg wc 0 st h = (st, [])"
| "provider_polls env cfg wc (Suc n) st h =
     (case provider_poll env cfg wc st h of
        (st', es) \<Rightarrow> map_prod id ((@) es) (provider_polls env cfg wc n st' (h @ es)))"

definition provider_check :: "runner_config \<Rightarrow> string \<Rightarrow> string option \<Rightarrow> json \<Rightarrow> verified" where
  "provider_check cfg kind expected status =
     (let raw = jget ''raw'' status
      in if kind = ''setBudget'' then
           (let onchainBudget = js_text (coalesce (jget ''budgetAtomic'' status) (coalesce (jget ''budget'' raw) (JStr [])))
            in if onchainBudget = [] \<or> onchainBudget = ''0'' then VUnknown
               else if \<not> truthy expected then VUnknown
               else
                 (let e = or_else expected [];
                      expectedAtomic = (case parseUsdcToAtomic e of Inr n \<Rightarrow> int_str n | Inl _ \<Rightarrow> e);
                      onchainProvider = toLowerCase (js_text (coalesce (jget ''provider'' status) (coalesce (jget ''provider'' raw) (JStr []))))
                  in if onchainBudget \<noteq> expectedAtomic then VFailed
                     else if onchainProvider = [] then VUnknown
                     else if onchainProvider \<noteq> toLowerCase (wallet_of cfg) then VFailed
                     else VConfirmed))
         else if kind = ''submitDeliverable'' then
           (if readStatusCode status \<notin> {Some 2, Some 3, Some 4} then VUnknown
            else if \<not> truthy expected then VUnknown
            else
              (let submittedHash = js_text (coalesce (jget ''submittedDeliverableHash'' status) (coalesce (jget ''deliverable'' raw) (JStr [])))
               in if submittedHash = [] then VUnknown
                  else if toLowerCase submittedHash \<noteq> toLowerCase (or_else expected []) then VFailed
                  else VConfirmed))
         else VUnknown)"

definition provider_runOnce ::
  "worker_env \<Rightarrow> runner_config \<Rightarrow> worker_config \<Rightarrow> bool \<Rightarrow> pending_operation list \<Rightarrow> run_state \<Rightarrow> provider_state
     \<Rightarrow> (string + provider_state) act" where
  "provider_runOnce env cfg wc token ops state st =
     (if state \<noteq> WIdle \<and> state \<noteq> WStopped then return (Inl (''Cannot run once in state '' @ run_state_name state))
      else verifyIdentity env cfg ''provider'' token (\<lambda>e. case e of
          Some m \<Rightarrow> return (Inl m)
        | None \<Rightarrow> reconcilePending env (provider_check cfg) ops (\<lambda>h. map_prod Inr id (provider_poll env cfg wc st h))))"

end
