(* ===== verification/Provider_Safety.thy ===== *)
theory Provider_Safety
  imports Provider_Worker
begin

text \<open>
  What the provider worker submits, over every environment, and that it submits a job once.
\<close>

section \<open>Submissions\<close>

definition publish_call :: "runner_config \<Rightarrow> json \<Rightarrow> json \<Rightarrow> json \<Rightarrow> string \<Rightarrow> string \<Rightarrow> effect" where
  "publish_call cfg job runResult runtimeResult payload hash = CallTool ''provider.publish_deliverable'' (JObj
     [(''agentId'', JStr (cf_agentId cfg)), (''jobId'', JStr (field ''erc8183JobId'' job)),
      (''providerAddress'', JStr (wallet_of cfg)), (''canonicalPayload'', JStr payload),
      (''deliverableHash'', JStr hash), (''artifacts'', jget ''artifacts'' runtimeResult),
      (''runtimeReceiptHash'', coalesce (jget ''sha256'' (jget ''proof'' (jget ''receipt'' runResult))) JUndef)])"

definition submit_args :: "json \<Rightarrow> json \<Rightarrow> string \<Rightarrow> json" where
  "submit_args job runtimeResult hash = JObj [(''jobId'', JStr (field ''erc8183JobId'' job)),
     (''deliverableHash'', JStr hash), (''result'', runtimeResult), (''optParams'', JStr ''0x'')]"

definition published_hash :: "json \<Rightarrow> string \<Rightarrow> effect" where
  "published_hash job hash = Emit ''deliverable_published'' (JObj [(''jobId'', JStr (local_job_id job)), (''deliverableHash'', JStr hash)])"

lemma submit_published:
  assumes "SubmitProvider a \<in> set (snd (publish_and_submit env cfg job runResult h))"
  shows "\<exists>runtimeResult payload hash post.
      wk_runtime env (coalesce (jget ''result'' runResult) runResult) = Inr runtimeResult
      \<and> hashDeliverable (wk_docs env) (provider_deliverable cfg job runtimeResult (wk_iso env h)) = Inr (payload, hash)
      \<and> (\<exists>v. wk_reply env h (publish_call cfg job runResult runtimeResult payload hash) = Got v)
      \<and> a = submit_args job runtimeResult hash
      \<and> snd (publish_and_submit env cfg job runResult h) =
          publish_call cfg job runResult runtimeResult payload hash # published_hash job hash # SubmitProvider a # post"
proof (cases "wk_runtime env (coalesce (jget ''result'' runResult) runResult)")
  case (Inr runtimeResult)
  let ?d = "hashDeliverable (wk_docs env) (provider_deliverable cfg job runtimeResult (wk_iso env h))"
  show ?thesis
  proof (cases ?d)
    case (Inl e)
    with assms Inr show ?thesis by (auto simp: publish_and_submit_def Let_def split: thrown.splits)
  next
    case (Inr ph)
    obtain payload hash where ph: "ph = (payload, hash)" by (cases ph)
    show ?thesis
    proof (cases "wk_reply env h (publish_call cfg job runResult runtimeResult payload hash)")
      case (Threw t m)
      with assms \<open>wk_runtime env _ = Inr runtimeResult\<close> Inr ph show ?thesis
        by (simp add: publish_and_submit_def Let_def publish_call_def)
    next
      case (Got v)
      with assms \<open>wk_runtime env _ = Inr runtimeResult\<close> Inr ph show ?thesis
        by (auto simp: publish_and_submit_def Let_def publish_call_def published_hash_def submit_args_def split: reply.splits if_splits)
    qed
  qed
qed (use assms in \<open>simp add: publish_and_submit_def\<close>)

lemma funded_effects:
  assumes "SubmitProvider a \<in> set (snd (processFundedJob env cfg job h))"
  shows "\<exists>runResult hist. truthy (cf_wallet cfg) \<and> toLowerCase (field ''providerAddress'' job) = toLowerCase (wallet_of cfg)
    \<and> wk_reply env hist (RunProvider (provider_task cfg job)) = Got runResult
    \<and> jtruthy (jget ''ok'' runResult) \<and> jget ''status'' runResult = JStr ''completed''
    \<and> snd (processFundedJob env cfg job h) = Emit ''runtime_started'' (JObj [(''jobId'', JStr (local_job_id job))])
        # RunProvider (provider_task cfg job)
        # snd (publish_and_submit env cfg job runResult (hist @ [RunProvider (provider_task cfg job)]))"
proof -
  have w: "truthy (cf_wallet cfg)" and addr: "toLowerCase (field ''providerAddress'' job) = toLowerCase (wallet_of cfg)"
    using assms by (auto simp: processFundedJob_def Let_def split: if_splits)
  let ?e = "Emit ''runtime_started'' (JObj [(''jobId'', JStr (local_job_id job))])"
  let ?run = "RunProvider (provider_task cfg job)"
  show ?thesis
  proof (cases "wk_reply env (h @ [?e]) ?run")
    case (Threw t m)
    with assms w addr show ?thesis by (simp add: processFundedJob_def Let_def split: if_splits)
  next
    case (Got runResult)
    with assms w addr have ok: "jtruthy (jget ''ok'' runResult)" "jget ''status'' runResult = JStr ''completed''"
      by (auto simp: processFundedJob_def Let_def split: if_splits)
    with assms w addr Got have "snd (processFundedJob env cfg job h) = ?e # ?run # snd (publish_and_submit env cfg job runResult (h @ [?e] @ [?run]))"
      by (auto simp: processFundedJob_def Let_def split: if_splits)
    with w addr Got ok show ?thesis by (intro exI [of _ runResult] exI [of _ "h @ [?e]"]) simp
  qed
qed

section \<open>One submission per job\<close>

definition is_submitted :: "string \<Rightarrow> effect \<Rightarrow> bool" where
  "is_submitted j e \<longleftrightarrow> e = Emit ''job_submitted'' (JObj [(''jobId'', JStr j)])"

definition submissions :: "string \<Rightarrow> effect list \<Rightarrow> nat" where
  "submissions j es = length (filter (is_submitted j) es)"

lemma submissions_simps [simp]:
  "submissions j [] = 0" "submissions j (es @ fs) = submissions j es + submissions j fs"
  "submissions j (e # es) = (if is_submitted j e then 1 else 0) + submissions j es"
  by (simp_all add: submissions_def)

lemma publish_submissions:
  "submissions j (snd (publish_and_submit env cfg job runResult h)) =
     (if fst (publish_and_submit env cfg job runResult h) = Inr Submitted_Job \<and> j = local_job_id job then 1 else 0)"
  by (auto simp: publish_and_submit_def Let_def is_submitted_def split: sum.splits thrown.splits prod.splits reply.splits)

lemma funded_submissions:
  "submissions j (snd (processFundedJob env cfg job h)) =
     (if fst (processFundedJob env cfg job h) = Inr Submitted_Job \<and> j = local_job_id job then 1 else 0)"
  by (auto simp: processFundedJob_def Let_def is_submitted_def publish_submissions split: reply.splits)

lemma open_submissions: "submissions j (snd (processOpenJob env cfg job h)) = 0"
  by (simp add: processOpenJob_def Let_def is_submitted_def split: option.splits sum.splits reply.splits)

definition submit_inv :: "retry_state \<Rightarrow> effect list \<Rightarrow> bool" where
  "submit_inv st h \<longleftrightarrow> (\<forall>j. submissions j h \<le> (if j \<in> set (rt_processed st) then 1 else 0))"

lemma submit_inv_append: "submit_inv st h \<Longrightarrow> (\<And>j. submissions j es = 0) \<Longrightarrow> submit_inv st (h @ es)"
  by (simp add: submit_inv_def)

lemma submit_inv_mark:
  assumes "submit_inv st h" "j \<notin> set (rt_processed st)" "\<And>i. submissions i es \<le> (if i = j then 1 else 0)"
    and "set (rt_processed st') = insert j (set (rt_processed st))"
  shows "submit_inv st' (h @ es)"
  unfolding submit_inv_def
proof
  fix i
  show "submissions i (h @ es) \<le> (if i \<in> set (rt_processed st') then 1 else 0)"
    using assms(1) [unfolded submit_inv_def, rule_format, of i] assms(2,4) assms(3) [of i]
    by (cases "i = j") (auto split: if_splits)
qed

lemma set_processed [simp]:
  "set (rt_processed (mark_processed j st)) = insert j (set (rt_processed st))"
  by (auto simp: mark_processed_def)

lemma submit_inv_counted: "submit_inv (count_retry j st) h = submit_inv st h"
  by (simp add: submit_inv_def)

lemma poll_funded_inv:
  "submit_inv st h \<Longrightarrow> submit_inv (fst (poll_funded env cfg wc jobs st h)) (h @ snd (poll_funded env cfg wc jobs st h))"
proof (induction jobs arbitrary: st h)
  case (Cons job jobs)
  let ?j = "local_job_id job"
  show ?case
  proof (cases "?j = [] \<or> field ''erc8183JobId'' job = [] \<or> ?j \<in> set (rt_processed st)")
    case True
    with Cons show ?thesis by simp
  next
    case False
    obtain r es where p: "processFundedJob env cfg job h = (r, es)" by (cases "processFundedJob env cfg job h")
    have es: "submissions i es = (if r = Inr Submitted_Job \<and> i = ?j then 1 else 0)" for i
      using funded_submissions [of i env cfg job h] p by simp
    show ?thesis
    proof (cases r)
      case (Inr outcome)
      have "submit_inv (if outcome = Submitted_Job then forget_retries ?j (mark_processed ?j st) else st) (h @ es)"
      proof (cases "outcome = Submitted_Job")
        case True
        have "submit_inv (forget_retries ?j (mark_processed ?j st)) (h @ es)"
        proof (rule submit_inv_mark [where j = ?j])
          show "submit_inv st h" by (fact Cons.prems)
          show "?j \<notin> set (rt_processed st)" using False by simp
          show "submissions i es \<le> (if i = ?j then 1 else 0)" for i using es by simp
          show "set (rt_processed (forget_retries ?j (mark_processed ?j st))) = insert ?j (set (rt_processed st))"
            by (simp add: forget_retries_def)
        qed
        with True show ?thesis by simp
      next
        case other: False
        with es Inr Cons.prems show ?thesis by (simp add: submit_inv_append)
      qed
      from Cons.IH [OF this] False p Inr show ?thesis by (simp add: case_prod_beta Let_def)
    next
      case (Inl msg)
      have kept: "submit_inv st (h @ es)" using es Inl Cons.prems by (intro submit_inv_append) auto
      show ?thesis
      proof (cases "wc_maxRuntimeRetries wc \<le> retry_count ?j st + 1")
        case True
        have "submit_inv (mark_processed ?j (count_retry ?j st)) (h @ es @ [Emit ''job.failed'' d])" for d
          using es Inl False Cons.prems
          by (intro submit_inv_mark [where j = ?j and st = st]) (auto simp: is_submitted_def)
        with False p Inl True show ?thesis by (simp add: Let_def)
      next
        case less: False
        have "submit_inv (count_retry ?j st) (h @ es @ [Sleep (backoff wc (retry_count ?j st + 1))])"
          using submit_inv_append [OF kept, of "[Sleep n]" for n] by (simp add: submit_inv_counted is_submitted_def)
        from Cons.IH [OF this] False p Inl less show ?thesis by (simp add: Let_def)
      qed
    qed
  qed
qed simp

lemma poll_open_submissions: "submissions j (snd (poll_open env cfg jobs seen h)) = 0"
proof (induction jobs arbitrary: seen h)
  case (Cons job jobs)
  then show ?case
    using open_submissions [of j env cfg job h] by (simp add: Let_def case_prod_beta)
qed simp

lemma provider_poll_inv:
  "submit_inv (pv_funded st) h \<Longrightarrow>
     submit_inv (pv_funded (fst (provider_poll env cfg wc st h))) (h @ snd (provider_poll env cfg wc st h))"
proof -
  assume inv: "submit_inv (pv_funded st) h"
  let ?c = "\<lambda>s. CallTool ''provider.list_assigned_jobs_extended'' (assigned_args cfg s)"
  have call: "submissions j [?c s] = 0" for j s by (simp add: is_submitted_def)
  have "submit_inv (pv_funded st) (h @ [?c ''Funded''])" using submit_inv_append [OF inv call] .
  from poll_funded_inv [OF this] show ?thesis
    by (auto simp: provider_poll_def listAssignedJobs_def case_prod_beta submit_inv_def is_submitted_def poll_open_submissions)
qed

lemma provider_polls_inv:
  "submit_inv (pv_funded st) h \<Longrightarrow>
     submit_inv (pv_funded (fst (provider_polls env cfg wc n st h))) (h @ snd (provider_polls env cfg wc n st h))"
proof (induction n arbitrary: st h)
  case (Suc n)
  from Suc.IH [OF provider_poll_inv [OF Suc.prems, of env cfg wc]] show ?case
    by (simp add: case_prod_beta)
qed simp

section \<open>Payloads of two attempts\<close>

lemma canonicalJson_inj:
  "finite_json num v \<Longrightarrow> finite_json num w \<Longrightarrow> canonicalJson v = canonicalJson w \<Longrightarrow> canonical v = canonical w"
  using parse_canonicalJson [of num v] parse_canonicalJson [of num w] by simp

lemma hashed_payload:
  "hashDeliverable d v = Inr (payload, h) \<Longrightarrow> \<exists>w. dc_deliverable d v = Inr w \<and> payload = canonicalJson w \<and> h = dc_keccak d payload"
  by (auto simp: hashDeliverable_def canonicalizeDeliverable_def computeErc8183DeliverableHash_def Let_def split: sum.splits if_splits)

definition completed_at :: "json \<Rightarrow> json" where
  "completed_at w = jget ''completedAt'' (jget ''runtime'' w)"

lemma completed_at_canonical:
  assumes "json_value num w" "completed_at w = JStr t"
  shows "completed_at (canonical w) = JStr t"
proof -
  have get: "jget k (canonical v) = canonical (jget k v)" if "json_value num v" "jget k v \<noteq> JUndef" for k v
  proof (cases v)
    case (JObj kvs)
    with that(1) have "distinct (map fst kvs)" by simp
    then show ?thesis unfolding JObj using jget_canonical [of kvs k] that(2) JObj by (auto split: option.splits)
  qed (use that in simp_all)
  have r: "jget ''runtime'' w \<noteq> JUndef" using assms(2) by (auto simp: completed_at_def)
  have "json_value num (jget ''runtime'' w)"
    using assms(1) r by (cases w) (auto split: option.splits dest!: map_of_SomeD)
  with get [OF this, of "''completedAt''"] get [OF assms(1) r] assms(2) show ?thesis by (simp add: completed_at_def)
qed

end
