(* ===== verification/Client_Workflow.thy ===== *)
theory Client_Workflow
  imports Job_Writes Worker_Effects
begin

text \<open>
  \<open>workflows/client.ts\<close>: the client's two confirmations, one to create the job and one to approve and
  fund it. A context is a mutable object of the workflow's map, so every operation returns the map with
  that context updated. The text of the confirmation messages is modelled up to their emoji and layout:
  what they show of the budget and of the errors is kept. The draft's \<open>input\<close>, criteria and x402 settings
  are only printed.
\<close>

section \<open>Contexts\<close>

datatype client_state =
  Drafting | Awaiting_Create | Creating | Created | Awaiting_Fund | Approving | Funding | Funded | Client_Failed

record client_draft =
  cd_task :: string
  cd_provider :: string
  cd_evaluator :: string
  cd_budget :: string
  cd_hours :: nat

record client_context =
  cc_jobId :: "string option"
  cc_budget :: "string option"
  cc_provider :: "string option"
  cc_evaluator :: "string option"
  cc_createTx :: "string option"
  cc_setBudgetTx :: "string option"
  cc_approveTx :: "string option"
  cc_fundTx :: "string option"
  cc_state :: client_state
  cc_error :: "string option"

type_synonym workflow = "(string \<times> client_context) list"

text \<open>\<open>ok\<close> and the message.\<close>

type_synonym client_result = "bool \<times> string"

definition get_property :: "string \<Rightarrow> json \<Rightarrow> string + json" where
  \<comment> \<open>\<open>v.k\<close>, which throws on \<open>undefined\<close> and \<open>null\<close>\<close>
  "get_property k v =
     (if v = JUndef \<or> v = JNull then
        Inl (''Cannot read properties of '' @ js_text v @ '' (reading '' @ [CHR 0x27] @ k @ [CHR 0x27] @ '')'')
      else Inr (jget k v))"

lemma get_property_Inr [simp]: "get_property k v = Inr x \<longleftrightarrow> v \<noteq> JUndef \<and> v \<noteq> JNull \<and> x = jget k v"
  by (auto simp: get_property_def)

section \<open>The four steps\<close>

definition prepareJob :: "nat \<Rightarrow> client_draft \<Rightarrow> workflow \<Rightarrow> string + (string \<times> string) \<times> workflow" where
  \<comment> \<open>the budget shown, the context's id and the new map; the argument is \<open>Date.now()\<close>\<close>
  "prepareJob now draft w =
     bindR (parseUsdcToAtomic (cd_budget draft)) (\<lambda>atomic.
       let contextId = ''client-job-'' @ nat_str now
       in Inr ((atomicToUsdc atomic, contextId),
         jsmap_set contextId \<lparr>cc_jobId = None, cc_budget = Some (int_str atomic),
           cc_provider = Some (toLowerCase (cd_provider draft)), cc_evaluator = Some (toLowerCase (cd_evaluator draft)),
           cc_createTx = None, cc_setBudgetTx = None, cc_approveTx = None, cc_fundTx = None,
           cc_state = Awaiting_Create, cc_error = None\<rparr> w))"

definition create_args :: "worker_env \<Rightarrow> client_draft \<Rightarrow> effect list \<Rightarrow> json" where
  "create_args env draft h = JObj [(''provider'', JStr (cd_provider draft)), (''evaluator'', JStr (cd_evaluator draft)),
     (''expiredAt'', JStr (nat_str (wk_seconds env h + cd_hours draft * 3600))), (''description'', JStr (cd_task draft)),
     (''hook'', JStr ZERO_ADDRESS)]"

definition executeCreate :: "worker_env \<Rightarrow> string \<Rightarrow> client_draft \<Rightarrow> workflow \<Rightarrow> (client_result \<times> workflow) act" where
  \<comment> \<open>the state \<open>creating\<close> is seen only while \<open>createJob\<close> is awaited\<close>
  "executeCreate env contextId draft w h =
     (case map_of w contextId of
        None \<Rightarrow> return ((False, ''Invalid context or wrong state.''), w) h
      | Some ctx \<Rightarrow>
          if cc_state ctx \<noteq> Awaiting_Create then return ((False, ''Invalid context or wrong state.''), w) h
          else
            (let failed = \<lambda>msg. ((False, ''Job creation failed: '' @ msg),
                   jsmap_set contextId (ctx\<lparr>cc_state := Client_Failed, cc_error := Some msg\<rparr>) w)
             in perform env (CreateJob (create_args env draft h)) (\<lambda>r. return (case r of
                  Threw text m \<Rightarrow> failed m
                | Got v \<Rightarrow>
                    (case get_property ''jobId'' v of
                       Inl m \<Rightarrow> failed m
                     | Inr _ \<Rightarrow>
                         ((True, ''Job Created: '' @ field ''jobId'' v),
                          jsmap_set contextId (ctx\<lparr>cc_state := Created, cc_jobId := Some (field ''jobId'' v),
                            cc_createTx := Some (field ''txHash'' v)\<rparr>) w)))) h))"

definition notifyBudgetSet :: "string \<Rightarrow> string \<Rightarrow> string \<Rightarrow> workflow \<Rightarrow> (string + string) \<times> workflow" where
  \<comment> \<open>the error the budget's parser throws, or the message; the state changes before the budget is parsed\<close>
  "notifyBudgetSet contextId budgetUsdc tx w =
     (case map_of w contextId of
        None \<Rightarrow> (Inr ''Unknown job context.'', w)
      | Some ctx \<Rightarrow>
          (bindR (parseUsdcToAtomic budgetUsdc) (\<lambda>atomic. Inr (''Budget: '' @ atomicToUsdc atomic @ '' USDC'')),
           jsmap_set contextId (ctx\<lparr>cc_state := Awaiting_Fund, cc_setBudgetTx := Some tx\<rparr>) w))"

fun missing_term :: "client_context \<Rightarrow> string option" where
  \<comment> \<open>the first of the four terms the context lacks\<close>
  "missing_term ctx =
     (if \<not> truthy (cc_jobId ctx) then Some ''Missing erc8183JobId in context.''
      else if \<not> truthy (cc_budget ctx) then Some ''Missing proposedBudgetAtomic in context.''
      else if \<not> truthy (cc_provider ctx) then Some ''Missing providerAddress in context.''
      else if \<not> truthy (cc_evaluator ctx) then Some ''Missing evaluatorAddress in context.''
      else None)"

definition fund_refusal :: "client_context \<Rightarrow> json \<Rightarrow> string option" where
  \<comment> \<open>why the chain's view of the job blocks the funding\<close>
  "fund_refusal ctx onchain =
     (let statusCode = js_Number (coalesce (jget ''statusCode'' onchain) (JNum ''-1''));
          budget = field ''budgetAtomic'' onchain;
          provider = toLowerCase (field ''provider'' onchain);
          evaluator = toLowerCase (field ''evaluator'' onchain)
      in if statusCode \<noteq> Fin 0 then Some ''Job is not Open. Cannot fund.''
         else if budget = [] \<or> budget = ''0'' then Some ''Provider has not set budget yet.''
         else if Some budget \<noteq> cc_budget ctx then
           Some (''Budget mismatch. Proposed '' @ or_else (cc_budget ctx) [] @ '', on-chain '' @ budget @ ''. Funding blocked.'')
         else if provider = [] then Some ''Provider not set on-chain. Funding blocked.''
         else if Some provider \<noteq> cc_provider ctx then Some ''Provider mismatch. Funding blocked.''
         else if evaluator = [] then Some ''Evaluator not set on-chain. Funding blocked.''
         else if Some evaluator \<noteq> cc_evaluator ctx then Some ''Evaluator mismatch. Funding blocked.''
         else None)"

definition status_call :: "client_context \<Rightarrow> effect" where
  "status_call ctx = CallTool ''jobs.get_onchain_status'' (JObj [(''jobId'', JStr (or_else (cc_jobId ctx) []))])"

definition approve_call :: "client_context \<Rightarrow> effect" where
  "approve_call ctx = ApproveUsdc (JObj [(''amount'', JStr (or_else (cc_budget ctx) [])),
     (''idempotencyKey'', JStr (''approveUsdc:job-'' @ or_else (cc_jobId ctx) [] @ '':'' @ or_else (cc_budget ctx) []))])"

definition fund_call :: "client_context \<Rightarrow> effect" where
  "fund_call ctx = FundJob (JObj [(''jobId'', JStr (or_else (cc_jobId ctx) [])), (''optParams'', JStr ''0x'')])"

definition executeFund :: "worker_env \<Rightarrow> string \<Rightarrow> workflow \<Rightarrow> (client_result \<times> workflow) act" where
  \<comment> \<open>the states \<open>approving\<close> and \<open>funding\<close> are seen only while a call is awaited\<close>
  "executeFund env contextId w h =
     (case map_of w contextId of
        None \<Rightarrow> return ((False, ''Invalid context or wrong state.''), w) h
      | Some ctx \<Rightarrow>
          if cc_state ctx \<noteq> Awaiting_Fund then return ((False, ''Invalid context or wrong state.''), w) h
          else
            (let put = \<lambda>c. jsmap_set contextId c w;
                 blocked = \<lambda>msg. return ((False, msg), put (ctx\<lparr>cc_state := Client_Failed\<rparr>));
                 failed = \<lambda>c msg. return ((False, ''Funding failed: '' @ msg), put (c\<lparr>cc_state := Client_Failed, cc_error := Some msg\<rparr>))
             in case missing_term ctx of
                  Some msg \<Rightarrow> blocked msg h
                | None \<Rightarrow>
                    perform env (status_call ctx) (\<lambda>r. case r of
                        Threw text m \<Rightarrow> failed ctx m
                      | Got onchain \<Rightarrow>
                          (case get_property ''statusCode'' onchain of
                             Inl m \<Rightarrow> failed ctx m
                           | Inr _ \<Rightarrow>
                               (case fund_refusal ctx onchain of
                                  Some msg \<Rightarrow> blocked msg
                                | None \<Rightarrow>
                                    perform env (approve_call ctx) (\<lambda>r. case r of
                                        Threw text m \<Rightarrow> failed ctx m
                                      | Got a \<Rightarrow>
                                          (case get_property ''txHash'' a of
                                             Inl m \<Rightarrow> failed ctx m
                                           | Inr _ \<Rightarrow>
                                               (let c = ctx\<lparr>cc_approveTx := Some (field ''txHash'' a)\<rparr>
                                                in perform env (fund_call ctx) (\<lambda>r. case r of
                                                     Threw text m \<Rightarrow> failed c m
                                                   | Got f \<Rightarrow>
                                                       (case get_property ''txHash'' f of
                                                          Inl m \<Rightarrow> failed c m
                                                        | Inr _ \<Rightarrow>
                                                            return ((True, ''Job Funded: '' @ or_else (cc_jobId ctx) []),
                                                              put (c\<lparr>cc_fundTx := Some (field ''txHash'' f), cc_state := Funded\<rparr>)))))))))) h))"

definition getContext :: "string \<Rightarrow> workflow \<Rightarrow> client_context option" where
  "getContext contextId w = map_of w contextId"

definition findByJobId :: "string \<Rightarrow> workflow \<Rightarrow> (string \<times> client_context) option" where
  "findByJobId jobId w = find (\<lambda>(_, ctx). cc_jobId ctx = Some jobId) w"

section \<open>Sessions\<close>

datatype client_op =
  Prepare nat client_draft
| Create string client_draft
| Notify string string string
| Fund string

fun client_step :: "worker_env \<Rightarrow> client_op \<Rightarrow> workflow \<Rightarrow> workflow act" where
  "client_step env (Prepare now draft) w h = (case prepareJob now draft w of Inl m \<Rightarrow> w | Inr (r, w') \<Rightarrow> w', [])"
| "client_step env (Create cid draft) w h = map_prod snd id (executeCreate env cid draft w h)"
| "client_step env (Notify cid budget tx) w h = (snd (notifyBudgetSet cid budget tx w), [])"
| "client_step env (Fund cid) w h = map_prod snd id (executeFund env cid w h)"

fun client_run :: "worker_env \<Rightarrow> client_op list \<Rightarrow> workflow \<Rightarrow> workflow act" where
  "client_run env [] w h = (w, [])"
| "client_run env (p # ps) w h =
     (case client_step env p w h of (w', es) \<Rightarrow> map_prod id ((@) es) (client_run env ps w' (h @ es)))"

section \<open>Funding\<close>

text \<open>The terms on which a context may be funded: the chain's job is open, at the proposed budget, between the
  proposed parties.\<close>

definition agreed_terms :: "client_context \<Rightarrow> json \<Rightarrow> bool" where
  "agreed_terms ctx onchain \<longleftrightarrow>
     js_Number (coalesce (jget ''statusCode'' onchain) (JNum ''-1'')) = Fin 0
     \<and> cc_budget ctx = Some (field ''budgetAtomic'' onchain) \<and> field ''budgetAtomic'' onchain \<notin> {[], ''0''}
     \<and> cc_provider ctx = Some (toLowerCase (field ''provider'' onchain)) \<and> field ''provider'' onchain \<noteq> []
     \<and> cc_evaluator ctx = Some (toLowerCase (field ''evaluator'' onchain)) \<and> field ''evaluator'' onchain \<noteq> []"

lemma fund_refusal_iff: "fund_refusal ctx onchain = None \<longleftrightarrow> agreed_terms ctx onchain"
  by (auto simp: fund_refusal_def agreed_terms_def Let_def)

fun is_payment :: "effect \<Rightarrow> bool" where
  "is_payment (ApproveUsdc _) = True"
| "is_payment (FundJob _) = True"
| "is_payment _ = False"

lemma fund_pays:
  assumes "e \<in> set (snd (executeFund env cid w h))" "is_payment e"
  shows "\<exists>ctx onchain. map_of w cid = Some ctx \<and> cc_state ctx = Awaiting_Fund \<and> truthy (cc_jobId ctx)
    \<and> wk_reply env h (status_call ctx) = Got onchain \<and> agreed_terms ctx onchain
    \<and> snd (executeFund env cid w h) \<in> {[status_call ctx, approve_call ctx], [status_call ctx, approve_call ctx, fund_call ctx]}"
proof -
  obtain ctx where ctx: "map_of w cid = Some ctx" "cc_state ctx = Awaiting_Fund"
    using assms by (auto simp: executeFund_def split: option.splits if_splits)
  have terms: "missing_term ctx = None"
    using assms ctx by (cases "missing_term ctx") (simp_all add: executeFund_def Let_def del: missing_term.simps)
  obtain onchain where onchain: "wk_reply env h (status_call ctx) = Got onchain"
    using assms ctx terms
    by (cases "wk_reply env h (status_call ctx)")
      (auto simp: executeFund_def Let_def status_call_def simp del: missing_term.simps)
  have obj: "onchain \<noteq> JUndef" "onchain \<noteq> JNull"
    using assms ctx terms onchain
    by (auto simp: executeFund_def Let_def status_call_def get_property_def simp del: missing_term.simps)
  have agreed: "fund_refusal ctx onchain = None"
    using assms ctx terms onchain obj
    by (cases "fund_refusal ctx onchain")
      (auto simp: executeFund_def Let_def status_call_def get_property_def simp del: missing_term.simps)
  have effects: "snd (executeFund env cid w h) \<in> {[status_call ctx, approve_call ctx], [status_call ctx, approve_call ctx, fund_call ctx]}"
    using ctx terms onchain obj agreed
    by (simp add: executeFund_def Let_def get_property_def del: missing_term.simps split: reply.splits)
  have "truthy (cc_jobId ctx)" using terms by (auto split: if_splits)
  with ctx onchain agreed effects show ?thesis by (auto simp: fund_refusal_iff)
qed


section \<open>What a session pays for\<close>

definition proposed :: "worker_env \<Rightarrow> client_op set \<Rightarrow> string \<Rightarrow> client_context \<Rightarrow> bool" where
  "proposed env ops cid ctx \<longleftrightarrow>
     (\<exists>now draft n. Prepare now draft \<in> ops \<and> parseUsdcToAtomic (cd_budget draft) = Inr n
        \<and> cid = ''client-job-'' @ nat_str now
        \<and> cc_budget ctx = Some (int_str n) \<and> cc_provider ctx = Some (toLowerCase (cd_provider draft))
        \<and> cc_evaluator ctx = Some (toLowerCase (cd_evaluator draft)))
     \<and> (truthy (cc_jobId ctx) \<longrightarrow>
          (\<exists>h a v. wk_reply env h (CreateJob a) = Got v \<and> cc_jobId ctx = Some (field ''jobId'' v)))
     \<and> (cc_state ctx = Awaiting_Fund \<longrightarrow> (\<exists>b tx. Notify cid b tx \<in> ops))"

definition client_inv :: "worker_env \<Rightarrow> client_op set \<Rightarrow> workflow \<Rightarrow> bool" where
  "client_inv env ops w \<longleftrightarrow> (\<forall>cid ctx. map_of w cid = Some ctx \<longrightarrow> proposed env ops cid ctx)"

lemma client_inv_set:
  "client_inv env ops w \<Longrightarrow> proposed env ops cid ctx \<Longrightarrow> client_inv env ops (jsmap_set cid ctx w)"
  by (simp add: client_inv_def)

lemma proposed_update:
  assumes "proposed env ops cid ctx" "cc_budget ctx' = cc_budget ctx" "cc_provider ctx' = cc_provider ctx"
    and "cc_evaluator ctx' = cc_evaluator ctx" "cc_jobId ctx' = cc_jobId ctx" "cc_state ctx' \<noteq> Awaiting_Fund"
  shows "proposed env ops cid ctx'"
  using assms unfolding proposed_def by simp

lemma create_keeps:
  assumes inv: "client_inv env ops w"
  shows "client_inv env ops (snd (fst (executeCreate env cid draft w h)))"
proof (cases "map_of w cid")
  case (Some ctx)
  then have ctx: "proposed env ops cid ctx" using inv by (simp add: client_inv_def)
  have bad: "proposed env ops cid (ctx\<lparr>cc_state := Client_Failed, cc_error := Some m\<rparr>)" for m
    using ctx by (rule proposed_update) simp_all
  let ?call = "CreateJob (create_args env draft h)"
  show ?thesis
  proof (cases "wk_reply env h ?call")
    case (Got v)
    then have "\<exists>h a v'. wk_reply env h (CreateJob a) = Got v' \<and> field ''jobId'' v = field ''jobId'' v'" by blast
    then have "proposed env ops cid (ctx\<lparr>cc_state := Created, cc_jobId := Some (field ''jobId'' v), cc_createTx := Some t\<rparr>)" for t
      using ctx by (simp add: proposed_def)
    with Some inv Got bad show ?thesis
      by (simp add: executeCreate_def Let_def client_inv_set split: sum.splits)
  qed (use Some inv bad in \<open>simp add: executeCreate_def Let_def client_inv_set\<close>)
qed (use inv in \<open>simp add: executeCreate_def\<close>)

lemma fund_keeps:
  assumes inv: "client_inv env ops w"
  shows "client_inv env ops (snd (fst (executeFund env cid w h)))"
proof (cases "map_of w cid")
  case (Some ctx)
  then have ctx: "proposed env ops cid ctx" using inv by (simp add: client_inv_def)
  have "proposed env ops cid (ctx\<lparr>cc_state := Client_Failed\<rparr>)"
    "\<And>m. proposed env ops cid (ctx\<lparr>cc_state := Client_Failed, cc_error := Some m\<rparr>)"
    "\<And>m t. proposed env ops cid (ctx\<lparr>cc_approveTx := t, cc_state := Client_Failed, cc_error := Some m\<rparr>)"
    "\<And>m t. proposed env ops cid (ctx\<lparr>cc_approveTx := t, cc_fundTx := m, cc_state := Funded\<rparr>)"
    by (rule proposed_update [OF ctx]; simp)+
  with Some inv show ?thesis
    by (simp add: executeFund_def Let_def client_inv_set del: missing_term.simps
        split: reply.splits sum.splits option.splits)
qed (use inv in \<open>simp add: executeFund_def\<close>)

lemma step_keeps:
  assumes inv: "client_inv env ops w" and p: "p \<in> ops"
  shows "client_inv env ops (fst (client_step env p w h))"
proof (cases p)
  case (Prepare now draft)
  show ?thesis
  proof (cases "parseUsdcToAtomic (cd_budget draft)")
    case (Inr n)
    have "\<exists>now draft n'. Prepare now draft \<in> ops \<and> parseUsdcToAtomic (cd_budget draft) = Inr n'
        \<and> ''client-job-'' @ nat_str now' = ''client-job-'' @ nat_str now \<and> int_str n = int_str n'
        \<and> P = toLowerCase (cd_provider draft) \<and> E = toLowerCase (cd_evaluator draft)"
      if "now' = now" "P = toLowerCase (cd_provider draft)" "E = toLowerCase (cd_evaluator draft)" for now' P E
      using p Prepare Inr that by blast
    then show ?thesis using inv Prepare Inr
      by (simp add: prepareJob_def Let_def client_inv_set proposed_def)
  qed (use inv Prepare in \<open>simp add: prepareJob_def\<close>)
next
  case (Notify cid b tx)
  show ?thesis
  proof (cases "map_of w cid")
    case (Some ctx)
    then have "proposed env ops cid ctx" using inv by (simp add: client_inv_def)
    moreover have "\<exists>b tx. Notify cid b tx \<in> ops" using p Notify by blast
    ultimately have "proposed env ops cid (ctx\<lparr>cc_state := Awaiting_Fund, cc_setBudgetTx := Some tx\<rparr>)"
      by (simp add: proposed_def)
    with inv Some Notify show ?thesis by (simp add: notifyBudgetSet_def client_inv_set)
  qed (use inv Notify in \<open>simp add: notifyBudgetSet_def\<close>)
qed (use create_keeps [OF inv] fund_keeps [OF inv] in simp_all)

lemma create_pays: "e \<in> set (snd (executeCreate env cid draft w h)) \<Longrightarrow> \<not> is_payment e"
  by (auto simp: executeCreate_def Let_def split: option.splits if_splits)

lemma run_pays:
  assumes "client_inv env ops w" "set ps \<subseteq> ops" "e \<in> set (snd (client_run env ps w h))" "is_payment e"
  shows "\<exists>cid ctx hist onchain. proposed env ops cid ctx \<and> cc_state ctx = Awaiting_Fund \<and> truthy (cc_jobId ctx)
    \<and> wk_reply env hist (status_call ctx) = Got onchain \<and> agreed_terms ctx onchain \<and> e \<in> {approve_call ctx, fund_call ctx}"
  using assms
proof (induction ps arbitrary: w h)
  case (Cons p ps)
  obtain w' es where step: "client_step env p w h = (w', es)" by (cases "client_step env p w h")
  show ?case
  proof (cases "e \<in> set es")
    case True
    with step have eff: "e \<in> set (snd (client_step env p w h))" by simp
    obtain cid where p: "p = Fund cid" and e: "e \<in> set (snd (executeFund env cid w h))"
      using eff Cons.prems(4) by (cases p) (auto dest: create_pays)
    from fund_pays [OF e Cons.prems(4)] obtain ctx onchain where f: "map_of w cid = Some ctx" "cc_state ctx = Awaiting_Fund"
        "truthy (cc_jobId ctx)" "wk_reply env h (status_call ctx) = Got onchain" "agreed_terms ctx onchain"
        "snd (executeFund env cid w h) \<in> {[status_call ctx, approve_call ctx], [status_call ctx, approve_call ctx, fund_call ctx]}"
      by blast
    have "e \<in> {approve_call ctx, fund_call ctx}" using f(6) e Cons.prems(4) by (auto simp: status_call_def)
    moreover have "proposed env ops cid ctx" using Cons.prems(1) f(1) by (simp add: client_inv_def)
    ultimately show ?thesis using f by blast
  next
    case False
    have "client_inv env ops w'" using step_keeps [OF Cons.prems(1), of p h] Cons.prems(2) step by simp
    from Cons.IH [OF this] Cons.prems(2-4) False step show ?thesis by simp
  qed
qed simp

section \<open>The answers of \<open>createJob\<close>\<close>

text \<open>What the object returned by a write of \<open>RunnerServices\<close> shows its caller; how a receipt prints is
  left open.\<close>

fun response_body :: "(receipt \<Rightarrow> json) \<Rightarrow> job_response \<Rightarrow> json" where
  "response_body receipt_json (PreparedOnly v) = v"
| "response_body receipt_json (Written r receipt) =
     JObj [(''ok'', JBool (wr_ok r)), (''txHash'', jopt (wr_tx r)),
       (''result'', case wr_circle r of Some c \<Rightarrow> exec_result_json c | None \<Rightarrow> JUndef),
       (''receipt'', receipt_json receipt), (''operationId'', JStr (wr_op r)), (''idempotent'', JBool (wr_idempotent r))]"
| "response_body receipt_json (Submitted r) =
     JObj ((''ok'', JBool True)
       # (case wr_circle r of Some c \<Rightarrow> (case exec_result_json c of JObj kvs \<Rightarrow> kvs | _ \<Rightarrow> []) | None \<Rightarrow> [])
       @ [(''operationId'', JStr (wr_op r)), (''state'', JStr (op_state_name (wr_state r))), (''idempotent'', JBool (wr_idempotent r))])"

definition answered_by :: "job_step \<Rightarrow> job_response \<Rightarrow> bool" where
  \<comment> \<open>the step can answer so\<close>
  "answered_by step resp \<longleftrightarrow>
     (case step of
        Finished r \<Rightarrow> r = Inr resp
      | Await i call k \<Rightarrow> (\<exists>rid now r receipts. snd (k rid now r receipts) = Inr resp))"

lemma createJob_answers:
  "answered_by (createJob crypto cfg now body i) resp \<Longrightarrow> resp = not_configured \<or> (\<exists>r receipt. resp = Written r receipt)"
  by (auto simp: answered_by_def createJob_def thrown_error_def job_tail_def Let_def split: option.splits if_splits sum.splits)
    (metis (full_types) old.sum.exhaust old.unit.exhaust)

definition asks_services :: "worker_env \<Rightarrow> crypto \<Rightarrow> runner_config \<Rightarrow> (receipt \<Rightarrow> json) \<Rightarrow> bool" where
  \<comment> \<open>\<open>createJob\<close> is answered by the runner's own services\<close>
  "asks_services env crypto cfg receipt_json \<longleftrightarrow>
     (\<forall>h a v. wk_reply env h (CreateJob a) = Got v \<longrightarrow>
        (\<exists>now i resp. answered_by (createJob crypto cfg now a i) resp \<and> v = response_body receipt_json resp))"

lemma services_name_no_job:
  assumes "asks_services env crypto cfg receipt_json" "wk_reply env h (CreateJob a) = Got v"
  shows "field ''jobId'' v = []"
proof -
  obtain now i resp where "answered_by (createJob crypto cfg now a i) resp" "v = response_body receipt_json resp"
    using assms unfolding asks_services_def by blast
  then show ?thesis using createJob_answers
    by (fastforce simp: field_def coalesce_def not_configured_def)
qed

end
