(* ===== verification/Reconciliation.thy ===== *)
theory Reconciliation
  imports Js_Strings
begin

text \<open>
  \<open>reconciliation.ts\<close>: what a restarted runner decides about the writes it had under way. The chain and
  the wallet adapter are asked one question after the other, so a check is a function of the world's
  state that answers, or throws, and leaves the world in its next state; the world is arbitrary.
\<close>

section \<open>Operations and postconditions\<close>

datatype reconciliation_state = RPending | RConfirmed | RFailed | RManualReview

type_synonym 'w check = "'w \<Rightarrow> (string + bool) \<times> 'w"

record 'w postcondition =
  pc_kind :: string
  pc_description :: string
  pc_check :: "'w check"

record 'w reconcilable =
  rec_id :: string
  rec_kind :: string
  rec_tx :: "string option"
  rec_circle :: "string option"
  rec_state :: string
  rec_post :: "'w postcondition list"
  rec_attempts :: nat

record reconciliation_result =
  rr_operation :: string
  rr_previous :: string
  rr_new :: reconciliation_state
  rr_reason :: string
  rr_txHash :: "string option"
  rr_circleId :: "string option"

record reconciliation_config =
  rcf_maxAttempts :: nat
  rcf_baseBackoffMs :: nat

record circle_transaction =
  ct_state :: string
  ct_tx :: "string option"

type_synonym 'w circle_check = "string \<Rightarrow> 'w \<Rightarrow> (string + circle_transaction option) \<times> 'w"

definition buildPostconditions ::
  "string \<Rightarrow> (string \<Rightarrow> 'w check) \<Rightarrow> (string \<Rightarrow> 'w check) \<Rightarrow> 'w postcondition list" where
  "buildPostconditions kind verifyEvent verifyStatus =
     (let event = \<lambda>name. \<lparr>pc_kind = ''event'', pc_description = name @ '' event emitted'', pc_check = verifyEvent name\<rparr>;
          status = \<lambda>name. \<lparr>pc_kind = ''status'', pc_description = ''Job status is '' @ name, pc_check = verifyStatus name\<rparr>
      in if kind = ''createJob'' then [event ''JobCreated'']
         else if kind = ''setBudget'' then [event ''BudgetSet'']
         else if kind = ''approveUsdc'' then
           [\<lparr>pc_kind = ''allowance'', pc_description = ''USDC allowance >= expected amount'', pc_check = (\<lambda>w. (Inr True, w))\<rparr>]
         else if kind = ''fundJob'' then [event ''JobFunded'', status ''Funded'']
         else if kind = ''submitDeliverable'' then [event ''JobSubmitted'']
         else if kind = ''completeJob'' then [event ''JobCompleted'', status ''Completed'']
         else if kind = ''rejectJob'' then [event ''JobRejected'', status ''Rejected'']
         else [])"

fun checkAllPostconditions :: "'w postcondition list \<Rightarrow> 'w check" where
  "checkAllPostconditions [] w = (Inr True, w)"
| "checkAllPostconditions (pc # pcs) w =
     (case pc_check pc w of
        (Inl e, w') \<Rightarrow> (Inl e, w')
      | (Inr met, w') \<Rightarrow> if met then checkAllPostconditions pcs w' else (Inr False, w'))"

section \<open>One operation\<close>

definition outcome_of :: "'w reconcilable \<Rightarrow> reconciliation_state \<Rightarrow> string \<Rightarrow> string option \<Rightarrow> string option \<Rightarrow> reconciliation_result" where
  "outcome_of op s reason tx circle = \<lparr>rr_operation = rec_id op, rr_previous = rec_state op, rr_new = s,
     rr_reason = reason, rr_txHash = tx, rr_circleId = circle\<rparr>"

definition circle_outcome :: "'w reconcilable \<Rightarrow> string + circle_transaction option \<Rightarrow> reconciliation_result" where
  "circle_outcome op r =
     (case r of
        Inl e \<Rightarrow> outcome_of op RPending (''Circle check error: '' @ e) None None
      | Inr None \<Rightarrow> outcome_of op RPending ''Circle transaction not found (may not be indexed yet)'' None None
      | Inr (Some ct) \<Rightarrow>
          if ct_state ct = ''CONFIRMED'' then
            outcome_of op RConfirmed ''Circle transaction confirmed'' (ct_tx ct) (rec_circle op)
          else if ct_state ct = ''FAILED'' \<or> ct_state ct = ''DENIED'' \<or> ct_state ct = ''CANCELLED'' then
            outcome_of op RFailed (''Circle transaction '' @ ct_state ct) None (rec_circle op)
          else outcome_of op RPending (''Circle transaction state: '' @ ct_state ct) None None)"

definition reconcileOperation ::
  "reconciliation_config \<Rightarrow> 'w circle_check option \<Rightarrow> 'w reconcilable \<Rightarrow> 'w \<Rightarrow> reconciliation_result \<times> 'w" where
  "reconcileOperation cfg checkCircle op w =
     (let attempts = rec_attempts op + 1
      in if rec_state op = ''confirmed'' then (outcome_of op RConfirmed ''Already in terminal state'' None None, w)
         else if rec_state op = ''failed'' then (outcome_of op RFailed ''Already in terminal state'' None None, w)
         else if rcf_maxAttempts cfg < attempts then
           (outcome_of op RManualReview
              (''Max reconciliation attempts ('' @ nat_str (rcf_maxAttempts cfg) @ '') exceeded'') None None, w)
         else if truthy (rec_tx op) then
           (case checkAllPostconditions (rec_post op) w of
              (Inl e, w') \<Rightarrow> (outcome_of op RPending (''Postcondition check error: '' @ e) None None, w')
            | (Inr True, w') \<Rightarrow> (outcome_of op RConfirmed ''All postconditions verified'' (rec_tx op) None, w')
            | (Inr False, w') \<Rightarrow>
                (outcome_of op RPending (''Postconditions not yet met (attempt '' @ nat_str attempts @ '')'') None None, w'))
         else
           (case checkCircle of
              Some check \<Rightarrow>
                if truthy (rec_circle op) then map_prod (circle_outcome op) id (check (or_else (rec_circle op) []) w)
                else (outcome_of op RManualReview
                  ''No txHash or circleTransactionId - operation state unknown after crash'' None None, w)
            | None \<Rightarrow> (outcome_of op RManualReview
                ''No txHash or circleTransactionId - operation state unknown after crash'' None None, w)))"

section \<open>All pending operations\<close>

record tally =
  ta_total :: nat
  ta_confirmed :: nat
  ta_failed :: nat
  ta_manualReview :: nat
  ta_pending :: nat

fun count_state :: "reconciliation_state \<Rightarrow> tally \<Rightarrow> tally" where
  "count_state RConfirmed t = t\<lparr>ta_confirmed := ta_confirmed t + 1\<rparr>"
| "count_state RFailed t = t\<lparr>ta_failed := ta_failed t + 1\<rparr>"
| "count_state RManualReview t = t\<lparr>ta_manualReview := ta_manualReview t + 1\<rparr>"
| "count_state RPending t = t\<lparr>ta_pending := ta_pending t + 1\<rparr>"

fun reconcile_each ::
  "reconciliation_config \<Rightarrow> 'w circle_check option \<Rightarrow> (string \<Rightarrow> reconciliation_result \<Rightarrow> 'w \<Rightarrow> 'w) \<Rightarrow> 'w reconcilable list
     \<Rightarrow> tally \<Rightarrow> 'w \<Rightarrow> tally \<times> 'w" where
  \<comment> \<open>the loop; a failing \<open>updateOperation\<close> is logged, an absent one leaves the world as it is\<close>
  "reconcile_each cfg checkCircle update [] t w = (t, w)"
| "reconcile_each cfg checkCircle update (op # ops) t w =
     (case reconcileOperation cfg checkCircle op w of
        (r, w') \<Rightarrow> reconcile_each cfg checkCircle update ops (count_state (rr_new r) t) (update (rec_id op) r w'))"

definition reconcilePendingOperations ::
  "reconciliation_config \<Rightarrow> 'w circle_check option \<Rightarrow> (string \<Rightarrow> reconciliation_result \<Rightarrow> 'w \<Rightarrow> 'w)
     \<Rightarrow> ('w \<Rightarrow> 'w reconcilable list) \<Rightarrow> 'w \<Rightarrow> tally \<times> 'w" where
  "reconcilePendingOperations cfg checkCircle update getPendingOps w =
     reconcile_each cfg checkCircle update (getPendingOps w)
       \<lparr>ta_total = length (getPendingOps w), ta_confirmed = 0, ta_failed = 0, ta_manualReview = 0, ta_pending = 0\<rparr> w"

section \<open>Lemmas\<close>

lemma outcome_sel [simp]:
  "rr_new (outcome_of op s reason tx circle) = s" "rr_operation (outcome_of op s reason tx circle) = rec_id op"
  "rr_txHash (outcome_of op s reason tx circle) = tx" "rr_previous (outcome_of op s reason tx circle) = rec_state op"
  by (simp_all add: outcome_of_def)

definition answers :: "'w check \<Rightarrow> bool \<Rightarrow> bool" where
  \<comment> \<open>in some state of the world\<close>
  "answers check b \<longleftrightarrow> (\<exists>w. fst (check w) = Inr b)"

lemma all_met: "fst (checkAllPostconditions pcs w) = Inr True \<Longrightarrow> pc \<in> set pcs \<Longrightarrow> answers (pc_check pc) True"
proof (induction pcs arbitrary: w)
  case (Cons q pcs)
  obtain r w' where q: "pc_check q w = (r, w')" by (cases "pc_check q w")
  with Cons.prems(1) have r: "r = Inr True" and rest: "fst (checkAllPostconditions pcs w') = Inr True"
    by (auto split: sum.splits if_splits)
  show ?case
  proof (cases "pc = q")
    case True
    have "fst (pc_check q w) = Inr True" using q r by simp
    with True show ?thesis unfolding answers_def by blast
  qed (use Cons.IH [OF rest] Cons.prems(2) in simp)
qed simp

lemma confirmed_with_evidence:
  assumes "rr_new (fst (reconcileOperation cfg checkCircle op w)) = RConfirmed"
  shows "rec_state op = ''confirmed''
    \<or> truthy (rec_tx op) \<and> (\<forall>pc\<in>set (rec_post op). answers (pc_check pc) True)
    \<or> \<not> truthy (rec_tx op) \<and> (\<exists>check ct. checkCircle = Some check
        \<and> fst (check (or_else (rec_circle op) []) w) = Inr (Some ct) \<and> ct_state ct = ''CONFIRMED'')"
proof (cases "rec_state op = ''confirmed''")
  case False
  with assms have live: "rec_state op \<noteq> ''failed''" "rec_attempts op + 1 \<le> rcf_maxAttempts cfg"
    by (auto simp: reconcileOperation_def Let_def split: if_splits)
  show ?thesis
  proof (cases "truthy (rec_tx op)")
    case True
    with assms live False have "fst (checkAllPostconditions (rec_post op) w) = Inr True"
      by (auto simp: reconcileOperation_def Let_def split: prod.splits sum.splits bool.splits)
    from all_met [OF this] True show ?thesis by simp
  next
    case no: False
    then obtain check where check: "checkCircle = Some check" "truthy (rec_circle op)"
      using assms live False
      by (auto simp: reconcileOperation_def Let_def simp del: truthy_simps split: option.splits if_splits)
    then show ?thesis using assms live False no
      by (cases "check (or_else (rec_circle op) []) w")
        (auto simp: reconcileOperation_def Let_def circle_outcome_def simp del: truthy_simps
          split: sum.splits option.splits if_splits)
  qed
qed simp

definition tallied :: "tally \<Rightarrow> nat" where
  "tallied t = ta_confirmed t + ta_failed t + ta_manualReview t + ta_pending t"

lemma tallied_count [simp]: "tallied (count_state s t) = tallied t + 1" "ta_total (count_state s t) = ta_total t"
  by (cases s; simp add: tallied_def)+

lemma reconcile_each_tally:
  "tallied (fst (reconcile_each cfg checkCircle update ops t w)) = tallied t + length ops
   \<and> ta_total (fst (reconcile_each cfg checkCircle update ops t w)) = ta_total t"
  by (induction ops arbitrary: t w) (simp_all add: case_prod_beta)

lemma tally_complete:
  "tallied (fst (reconcilePendingOperations cfg checkCircle update getPendingOps w))
     = ta_total (fst (reconcilePendingOperations cfg checkCircle update getPendingOps w))"
  by (simp add: reconcilePendingOperations_def reconcile_each_tally) (simp add: tallied_def)

end
