(* ===== verification/Worker_Properties.thy ===== *)
theory Worker_Properties
  imports Evaluator_Safety Provider_Safety Client_Workflow Reconciliation
begin

text \<open>
  The properties of the two workers, the client's workflow, the settlement decision and the
  reconciliation, each with a run of the model at a concrete input.
\<close>

section \<open>A world for the witnesses\<close>

definition wk_demo_config :: runner_config where
  "wk_demo_config = demo_config\<lparr>cf_wallet := Some ''0xE''\<rparr>"

definition wk_demo_payload :: json where
  "wk_demo_payload = JObj [(''schema'', JStr ''arclayer.deliverable''), (''version'', JNum ''1'')]"

definition wk_demo_docs :: documents where
  "wk_demo_docs = \<lparr>dc_envelope = Inr, dc_deliverable = (\<lambda>_. Inr wk_demo_payload), dc_verdict = Inr, dc_num = id, dc_keccak = id\<rparr>"

definition wk_demo_verdict :: json where
  "wk_demo_verdict = JObj [(''schema'', JStr ''arclayer.evaluation''), (''version'', JNum ''1''),
     (''decision'', JStr ''complete''), (''score'', JNum ''90''), (''confidence'', JNum ''1''),
     (''reason'', JStr ''ok''), (''evidence'', JArr [JObj [(''criterionId'', JStr ''c''), (''passed'', JBool True)]]),
     (''evaluatedDeliverableHash'', JStr (canonicalJson wk_demo_payload))]"

definition wk_demo_envelope :: json where
  "wk_demo_envelope = JObj [(''schema'', JStr ''arclayer.job''), (''version'', JNum ''1''),
     (''acceptanceCriteria'', JArr [JObj [(''id'', JStr ''c''), (''mandatory'', JBool True)]])]"

definition wk_demo_job :: json where
  "wk_demo_job = JObj [(''id'', JStr ''7''), (''erc8183JobId'', JStr ''7''), (''evaluatorAddress'', JStr ''0xE''),
     (''providerAddress'', JStr ''0xE''), (''description'', JStr (canonicalJson wk_demo_envelope))]"

definition wk_demo_reply :: "effect list \<Rightarrow> effect \<Rightarrow> reply" where
  "wk_demo_reply h e =
     (case e of
        CallTool t a \<Rightarrow>
          if t = ''evaluator.get_deliverable'' then
            Got (JObj [(''canonicalPayload'', JStr (canonicalJson wk_demo_payload)),
              (''deliverableHash'', JStr (canonicalJson wk_demo_payload))])
          else Got (JObj [])
      | RunRuntime t \<Rightarrow> Got wk_demo_verdict
      | RunProvider t \<Rightarrow> Got (JObj [(''ok'', JBool True), (''status'', JStr ''completed'')])
      | _ \<Rightarrow> Got (JObj [(''ok'', JBool True)]))"

definition wk_demo_env :: worker_env where
  "wk_demo_env = \<lparr>wk_reply = wk_demo_reply, wk_iso = (\<lambda>_. ''t''), wk_seconds = (\<lambda>_. 0), wk_docs = wk_demo_docs, wk_runtime = Inr\<rparr>"

section \<open>Settlement\<close>

text \<open>A verdict is settled automatically as complete exactly when it says so with enough confidence
  and score and the last evidence item of every mandatory criterion passed; automatically as rejected
  exactly when it says so with enough confidence, every mandatory criterion has evidence and one failed.\<close>

theorem settlement_decided:
  "(determineSettlementAction v ids = AutoComplete \<longleftrightarrow>
      jget ''decision'' v = JStr ''complete'' \<and> \<not> less_number (jget ''confidence'' v) AUTO_SETTLEMENT_CONFIDENCE_THRESHOLD
      \<and> \<not> less_number (jget ''score'' v) AUTO_COMPLETE_SCORE_THRESHOLD \<and> list_all (evidence_says True v) ids)
   \<and> (determineSettlementAction v ids = AutoReject \<longleftrightarrow>
      jget ''decision'' v = JStr ''reject'' \<and> \<not> less_number (jget ''confidence'' v) AUTO_SETTLEMENT_CONFIDENCE_THRESHOLD
      \<and> list_all (\<lambda>i. last_evidence v i \<noteq> None) ids \<and> list_ex (evidence_says False v) ids)"
  by (simp add: auto_complete_iff auto_reject_iff list_all_iff list_ex_iff)


fun is_completion :: "effect \<Rightarrow> bool" where
  "is_completion (CompleteJob _) = True"
| "is_completion _ = False"

lemma is_completionD: "is_completion e \<Longrightarrow> \<exists>a. e = CompleteJob a"
  by (cases e) simp_all

lemma wk_demo_completes:
  "list_ex is_completion (snd (processSubmittedJob wk_demo_env wk_demo_config wk_demo_job []))"
  by code_simp


text \<open>However often it polls and whatever fails, the evaluator runs the evaluation of a job at most
  as often as it retries a runtime (at least once).\<close>

theorem evaluation_attempts_bounded:
  "runs j (snd (evaluator_polls env cfg wc n new_retry_state [])) \<le> max 1 (wc_maxRuntimeRetries wc)"
proof -
  have start: "attempts_inv (max 1 (wc_maxRuntimeRetries wc)) new_retry_state []"
    by (simp add: attempts_inv_def new_retry_state_def retry_count_def)
  show ?thesis using evaluator_polls_inv [OF refl start, of env cfg n] by (simp add: attempts_inv_def)
qed

section \<open>Submissions\<close>

text \<open>C20: Whatever the answers, the provider submits a deliverable only after the runtime answered that
  the job is completed and the console accepted the same deliverable, and the hash it submits is the one
  of the payload it published.\<close>

theorem submits_only_published:
  assumes "SubmitProvider a \<in> set (snd (processFundedJob env cfg job h))"
  shows "\<exists>runResult runtimeResult payload hash hist later v pre post.
     wk_reply env hist (RunProvider (provider_task cfg job)) = Got runResult
     \<and> jtruthy (jget ''ok'' runResult) \<and> jget ''status'' runResult = JStr ''completed''
     \<and> wk_runtime env (coalesce (jget ''result'' runResult) runResult) = Inr runtimeResult
     \<and> hashDeliverable (wk_docs env) (provider_deliverable cfg job runtimeResult (wk_iso env later)) = Inr (payload, hash)
     \<and> wk_reply env later (publish_call cfg job runResult runtimeResult payload hash) = Got v
     \<and> a = submit_args job runtimeResult hash
     \<and> snd (processFundedJob env cfg job h) =
         pre @ publish_call cfg job runResult runtimeResult payload hash # published_hash job hash # SubmitProvider a # post"
proof -
  obtain runResult hist where run: "wk_reply env hist (RunProvider (provider_task cfg job)) = Got runResult"
      "jtruthy (jget ''ok'' runResult)" "jget ''status'' runResult = JStr ''completed''"
    and effects: "snd (processFundedJob env cfg job h) = Emit ''runtime_started'' (JObj [(''jobId'', JStr (local_job_id job))])
        # RunProvider (provider_task cfg job)
        # snd (publish_and_submit env cfg job runResult (hist @ [RunProvider (provider_task cfg job)]))"
    using funded_effects [OF assms] by blast
  have "SubmitProvider a \<in> set (snd (publish_and_submit env cfg job runResult (hist @ [RunProvider (provider_task cfg job)])))"
    using assms unfolding effects by simp
  from submit_published [OF this] obtain runtimeResult payload hash post v where
    p: "wk_runtime env (coalesce (jget ''result'' runResult) runResult) = Inr runtimeResult"
      "hashDeliverable (wk_docs env) (provider_deliverable cfg job runtimeResult
         (wk_iso env (hist @ [RunProvider (provider_task cfg job)]))) = Inr (payload, hash)"
      "wk_reply env (hist @ [RunProvider (provider_task cfg job)]) (publish_call cfg job runResult runtimeResult payload hash) = Got v"
      "a = submit_args job runtimeResult hash"
      "snd (publish_and_submit env cfg job runResult (hist @ [RunProvider (provider_task cfg job)])) =
         publish_call cfg job runResult runtimeResult payload hash # published_hash job hash # SubmitProvider a # post"
    by blast
  have trace: "snd (processFundedJob env cfg job h) = [Emit ''runtime_started'' (JObj [(''jobId'', JStr (local_job_id job))]),
      RunProvider (provider_task cfg job)] @ publish_call cfg job runResult runtimeResult payload hash # published_hash job hash # SubmitProvider a # post"
    unfolding effects p(5) by simp
  show ?thesis by (intro exI conjI) (rule run p(1-4) trace)+
qed

definition wk_demo_funded :: json where
  "wk_demo_funded = JObj [(''id'', JStr ''7''), (''erc8183JobId'', JStr ''7''), (''evaluatorAddress'', JStr ZERO_ADDRESS),
     (''providerAddress'', JStr ''0xE''), (''description'', JStr ''d'')]"

fun is_submission :: "effect \<Rightarrow> bool" where
  "is_submission (SubmitProvider _) = True"
| "is_submission _ = False"

lemma is_submissionD: "is_submission e \<Longrightarrow> \<exists>a. e = SubmitProvider a"
  by (cases e) simp_all

lemma wk_demo_hashed:
  "hashDeliverable wk_demo_docs v = Inr (canonicalJson wk_demo_payload, canonicalJson wk_demo_payload)"
proof -
  have "length (canonicalJson wk_demo_payload) \<le> 60" by code_simp
  moreover have "json_items (jget ''artifacts'' wk_demo_payload) = []" by code_simp
  ultimately show ?thesis
    by (simp add: hashDeliverable_def canonicalizeDeliverable_def computeErc8183DeliverableHash_def Let_def
        wk_demo_docs_def MAX_PAYLOAD_BYTES_def)
qed

lemma wk_demo_submits:
  "list_ex is_submission (snd (processFundedJob wk_demo_env wk_demo_config wk_demo_funded []))"
proof -
  have fields: "field ''providerAddress'' wk_demo_funded = ''0xE''" "jget ''evaluatorAddress'' wk_demo_funded = JStr ZERO_ADDRESS"
    by code_simp+
  have addr: "is_address ZERO_ADDRESS" by (simp add: is_address_def ZERO_ADDRESS_def) code_simp
  have cfg: "cf_wallet wk_demo_config = Some ''0xE''" by (simp add: wk_demo_config_def)
  show ?thesis
    by (simp add: processFundedJob_def publish_and_submit_def Let_def fields addr cfg wallet_of_def wk_demo_env_def
        wk_demo_reply_def wk_demo_hashed coalesce_def)
qed

theorem submits_only_published_witness:
  "\<exists>a hist runResult. SubmitProvider a \<in> set (snd (processFundedJob wk_demo_env wk_demo_config wk_demo_funded []))
     \<and> wk_reply wk_demo_env hist (RunProvider (provider_task wk_demo_config wk_demo_funded)) = Got runResult"
proof -
  obtain a where a: "SubmitProvider a \<in> set (snd (processFundedJob wk_demo_env wk_demo_config wk_demo_funded []))"
    using wk_demo_submits unfolding list_ex_iff by (blast dest: is_submissionD)
  from submits_only_published [OF a] a show ?thesis by blast
qed


text \<open>The same runtime result gives another payload, and so another hash and another idempotency
  key, whenever it is finished at another time: a second attempt is a new operation for the gateway.\<close>

theorem retry_changes_deliverable:
  assumes "hashDeliverable d (provider_deliverable cfg job r t) = Inr (payload, hash)"
    and "hashDeliverable d (provider_deliverable cfg job r t') = Inr (payload', hash')"
    and "\<forall>s w. dc_deliverable d (provider_deliverable cfg job r s) = Inr w \<longrightarrow>
           json_value (dc_num d) w \<and> jget ''completedAt'' (jget ''runtime'' w) = JStr s"
    and "t \<noteq> t'" and "inj (dc_keccak d)"
  shows "payload \<noteq> payload' \<and> hash \<noteq> hash'"
proof -
  obtain w where w: "dc_deliverable d (provider_deliverable cfg job r t) = Inr w" "payload = canonicalJson w" "hash = dc_keccak d payload"
    using hashed_payload [OF assms(1)] by blast
  obtain w' where w': "dc_deliverable d (provider_deliverable cfg job r t') = Inr w'" "payload' = canonicalJson w'" "hash' = dc_keccak d payload'"
    using hashed_payload [OF assms(2)] by blast
  have val: "json_value (dc_num d) w" "json_value (dc_num d) w'" and at: "completed_at w = JStr t" "completed_at w' = JStr t'"
    using assms(3) w(1) w'(1) by (auto simp: completed_at_def)
  have "canonical w \<noteq> canonical w'"
    using completed_at_canonical [OF val(1) at(1)] completed_at_canonical [OF val(2) at(2)] assms(4) by auto
  then have "payload \<noteq> payload'"
    using canonicalJson_inj [OF json_value_finite [OF val(1)] json_value_finite [OF val(2)]] w(2) w'(2) by blast
  then show ?thesis using w(3) w'(3) assms(5) by (auto dest: injD)
qed

definition wk_plain_docs :: documents where
  "wk_plain_docs = wk_demo_docs\<lparr>dc_deliverable := Inr\<rparr>"

definition wk_demo_result :: json where
  "wk_demo_result = JObj [(''output'', JStr ''o''), (''artifacts'', JArr [])]"

lemma wk_plain_hashed:
  assumes "length (canonicalJson (provider_deliverable wk_demo_config wk_demo_funded wk_demo_result t)) \<le> 400"
  shows "\<exists>p. hashDeliverable wk_plain_docs (provider_deliverable wk_demo_config wk_demo_funded wk_demo_result t) = Inr (p, p)"
proof -
  let ?v = "provider_deliverable wk_demo_config wk_demo_funded wk_demo_result t"
  have "json_items (jget ''artifacts'' ?v) = []"
    by (simp add: provider_deliverable_def wk_demo_result_def)
  with assms show ?thesis
    by (simp add: hashDeliverable_def canonicalizeDeliverable_def computeErc8183DeliverableHash_def Let_def
        wk_plain_docs_def wk_demo_docs_def MAX_PAYLOAD_BYTES_def)
qed

theorem retry_changes_deliverable_witness:
  "\<exists>p p'. hashDeliverable wk_plain_docs (provider_deliverable wk_demo_config wk_demo_funded wk_demo_result ''1'') = Inr (p, p)
     \<and> hashDeliverable wk_plain_docs (provider_deliverable wk_demo_config wk_demo_funded wk_demo_result ''2'') = Inr (p', p')
     \<and> p \<noteq> p'"
proof -
  have "length (canonicalJson (provider_deliverable wk_demo_config wk_demo_funded wk_demo_result ''1'')) \<le> 400"
    "length (canonicalJson (provider_deliverable wk_demo_config wk_demo_funded wk_demo_result ''2'')) \<le> 400"
    by code_simp+
  then obtain p p' where h: "hashDeliverable wk_plain_docs (provider_deliverable wk_demo_config wk_demo_funded wk_demo_result ''1'') = Inr (p, p)"
      "hashDeliverable wk_plain_docs (provider_deliverable wk_demo_config wk_demo_funded wk_demo_result ''2'') = Inr (p', p')"
    using wk_plain_hashed by meson
  have one: "scan_number ''1'' = Some (''1'', [])" by code_simp
  have keeps: "\<forall>s w. dc_deliverable wk_plain_docs (provider_deliverable wk_demo_config wk_demo_funded wk_demo_result s) = Inr w \<longrightarrow>
      json_value (dc_num wk_plain_docs) w \<and> jget ''completedAt'' (jget ''runtime'' w) = JStr s"
    by (auto simp: wk_plain_docs_def wk_demo_docs_def provider_deliverable_def wk_demo_result_def coalesce_def one)
  have "inj (dc_keccak wk_plain_docs)" by (simp add: wk_plain_docs_def wk_demo_docs_def)
  from retry_changes_deliverable [OF h keeps _ this] h show ?thesis by auto
qed

section \<open>The client\<close>

text \<open>C21: In any session of the client, with any answers, money is approved or a job funded only under a
  prepared draft, for a job that \<open>createJob\<close> named, after a budget notice for that context, while the chain
  shows the job open with exactly the draft's budget and parties; the approved amount is that budget.\<close>

theorem client_pays_agreed_terms:
  assumes "e \<in> set (snd (client_run env ops [] []))" and "is_payment e"
  shows "\<exists>now draft n jobId hist onchain earlier a v.
     Prepare now draft \<in> set ops \<and> parseUsdcToAtomic (cd_budget draft) = Inr n
     \<and> (\<exists>b tx. Notify (''client-job-'' @ nat_str now) b tx \<in> set ops)
     \<and> wk_reply env earlier (CreateJob a) = Got v \<and> jobId = field ''jobId'' v \<and> jobId \<noteq> []
     \<and> wk_reply env hist (CallTool ''jobs.get_onchain_status'' (JObj [(''jobId'', JStr jobId)])) = Got onchain
     \<and> js_Number (coalesce (jget ''statusCode'' onchain) (JNum ''-1'')) = Fin 0
     \<and> field ''budgetAtomic'' onchain = int_str n \<and> n \<noteq> 0
     \<and> toLowerCase (field ''provider'' onchain) = toLowerCase (cd_provider draft)
     \<and> toLowerCase (field ''evaluator'' onchain) = toLowerCase (cd_evaluator draft)
     \<and> (e = effect.ApproveUsdc (JObj [(''amount'', JStr (int_str n)), (''idempotencyKey'', JStr (''approveUsdc:job-'' @ jobId @ '':'' @ int_str n))])
        \<or> e = FundJob (JObj [(''jobId'', JStr jobId), (''optParams'', JStr ''0x'')]))"
proof -
  have inv: "client_inv env (set ops) []" by (simp add: client_inv_def)
  obtain cid ctx hist onchain where p: "proposed env (set ops) cid ctx" "cc_state ctx = Awaiting_Fund" "truthy (cc_jobId ctx)"
    and o: "wk_reply env hist (status_call ctx) = Got onchain" "agreed_terms ctx onchain" "e \<in> {approve_call ctx, fund_call ctx}"
    using run_pays [OF inv subset_refl assms] by blast
  obtain now draft n where d: "Prepare now draft \<in> set ops" "parseUsdcToAtomic (cd_budget draft) = Inr n"
      "cid = ''client-job-'' @ nat_str now" "cc_budget ctx = Some (int_str n)"
      "cc_provider ctx = Some (toLowerCase (cd_provider draft))" "cc_evaluator ctx = Some (toLowerCase (cd_evaluator draft))"
    using p(1) unfolding proposed_def by blast
  obtain b tx where notice: "Notify cid b tx \<in> set ops" using p(1,2) unfolding proposed_def by blast
  obtain earlier a v where c: "wk_reply env earlier (CreateJob a) = Got v" "cc_jobId ctx = Some (field ''jobId'' v)"
    using p(1,3) unfolding proposed_def by blast
  have ne: "field ''jobId'' v \<noteq> []" using p(3) c(2) by simp
  have "int_str 0 = ''0''" by code_simp
  then have n: "n \<noteq> 0" using o(2) d(4) by (auto simp: agreed_terms_def)
  show ?thesis
    by (rule exI [of _ now], rule exI [of _ draft], rule exI [of _ n], rule exI [of _ "field ''jobId'' v"],
        rule exI [of _ hist], rule exI [of _ onchain], rule exI [of _ earlier], rule exI [of _ a], rule exI [of _ v])
      (use d notice c ne n o in \<open>auto simp: agreed_terms_def status_call_def approve_call_def fund_call_def\<close>)
qed

definition wk_client_reply :: "effect list \<Rightarrow> effect \<Rightarrow> reply" where
  "wk_client_reply h e =
     (case e of
        CreateJob a \<Rightarrow> Got (JObj [(''jobId'', JStr ''7''), (''txHash'', JStr ''0x1'')])
      | CallTool t a \<Rightarrow> Got (JObj [(''statusCode'', JNum ''0''), (''budgetAtomic'', JStr ''1500000''),
          (''provider'', JStr ''0xB''), (''evaluator'', JStr ''0xE'')])
      | _ \<Rightarrow> Got (JObj [(''txHash'', JStr ''0x2'')]))"

definition wk_client_env :: worker_env where
  "wk_client_env = wk_demo_env\<lparr>wk_reply := wk_client_reply\<rparr>"

definition wk_demo_draft :: client_draft where
  "wk_demo_draft = \<lparr>cd_task = ''t'', cd_provider = ''0xb'', cd_evaluator = ''0xe'', cd_budget = ''1.5'', cd_hours = 1\<rparr>"

definition wk_demo_session :: "client_op list" where
  "wk_demo_session = [Prepare 1 wk_demo_draft, Create ''client-job-1'' wk_demo_draft,
     Notify ''client-job-1'' ''1.5'' ''0x3'', Fund ''client-job-1'']"

lemma wk_demo_pays: "list_ex is_payment (snd (client_run wk_client_env wk_demo_session [] []))"
  by code_simp

theorem client_pays_agreed_terms_witness:
  "\<exists>e now draft n. e \<in> set (snd (client_run wk_client_env wk_demo_session [] [])) \<and> is_payment e
     \<and> Prepare now draft \<in> set wk_demo_session \<and> parseUsdcToAtomic (cd_budget draft) = Inr n"
proof -
  obtain e where e: "e \<in> set (snd (client_run wk_client_env wk_demo_session [] []))" "is_payment e"
    using wk_demo_pays unfolding list_ex_iff by blast
  from client_pays_agreed_terms [OF e] obtain now draft n
    where "Prepare now draft \<in> set wk_demo_session" "parseUsdcToAtomic (cd_budget draft) = Inr n" by blast
  with e show ?thesis by blast
qed

text \<open>With the runner's own services behind it the client's workflow never pays: the answer of
  \<open>createJob\<close> names no job, so every funding stops at the missing id.\<close>

theorem services_never_fund:
  assumes "asks_services env crypto cfg receipt_json"
  shows "list_all (\<lambda>e. \<not> is_payment e) (snd (client_run env ops [] []))"
proof -
  have inv: "client_inv env (set ops) []" by (simp add: client_inv_def)
  have "\<not> is_payment e" if e: "e \<in> set (snd (client_run env ops [] []))" for e
  proof
    assume "is_payment e"
    from run_pays [OF inv subset_refl e this] obtain cid ctx where "proposed env (set ops) cid ctx" "truthy (cc_jobId ctx)" by blast
    then obtain h a v where "wk_reply env h (CreateJob a) = Got v" "truthy (Some (field ''jobId'' v))"
      unfolding proposed_def by auto
    with services_name_no_job [OF assms] show False by simp
  qed
  then show ?thesis by (simp add: list_all_iff)
qed

definition wk_services_reply :: "effect list \<Rightarrow> effect \<Rightarrow> reply" where
  "wk_services_reply h e =
     (case e of CreateJob a \<Rightarrow> Got (response_body (\<lambda>_. JNull) not_configured) | _ \<Rightarrow> wk_client_reply h e)"

theorem services_never_fund_witness:
  "asks_services (wk_demo_env\<lparr>wk_reply := wk_services_reply\<rparr>) \<lparr>sha256_hex = id, keccak_hex = id\<rparr> (demo_config\<lparr>cf_wallet := None\<rparr>) (\<lambda>_. JNull)
   \<and> list_all (\<lambda>e. \<not> is_payment e) (snd (client_run (wk_demo_env\<lparr>wk_reply := wk_services_reply\<rparr>) wk_demo_session [] []))"
proof -
  have a: "asks_services (wk_demo_env\<lparr>wk_reply := wk_services_reply\<rparr>) \<lparr>sha256_hex = id, keccak_hex = id\<rparr> (demo_config\<lparr>cf_wallet := None\<rparr>) (\<lambda>_. JNull)"
    by (auto simp: asks_services_def wk_services_reply_def answered_by_def createJob_def)
  with services_never_fund [OF a] show ?thesis by simp
qed

section \<open>Reconciliation\<close>

text \<open>A write of a live operation is taken as confirmed only on evidence: with a transaction hash every
  postcondition of its kind was asked and held (for \<open>fundJob\<close> the event and the status on chain), without one
  the wallet adapter reported its transaction as confirmed; and every pending operation is counted in
  exactly one of the four totals.\<close>

theorem reconciled_on_evidence:
  "(rr_new (fst (reconcileOperation cfg checkCircle op w)) = RConfirmed \<longrightarrow> rec_state op \<noteq> ''confirmed'' \<longrightarrow>
      (if truthy (rec_tx op) then
         (\<forall>pc\<in>set (rec_post op). answers (pc_check pc) True)
         \<and> (rec_post op = buildPostconditions ''fundJob'' verifyEvent verifyStatus \<longrightarrow>
              answers (verifyEvent ''JobFunded'') True \<and> answers (verifyStatus ''Funded'') True)
       else (\<exists>check ct. checkCircle = Some check
         \<and> fst (check (or_else (rec_circle op) []) w) = Inr (Some ct) \<and> ct_state ct = ''CONFIRMED'')))
   \<and> tallied (fst (reconcilePendingOperations cfg checkCircle update getPendingOps w)) = length (getPendingOps w)"
proof -
  have tally: "tallied (fst (reconcilePendingOperations cfg checkCircle update getPendingOps w)) = length (getPendingOps w)"
    by (simp add: tally_complete) (simp add: reconcilePendingOperations_def reconcile_each_tally)
  have funded: "answers (verifyEvent ''JobFunded'') True \<and> answers (verifyStatus ''Funded'') True"
    if "\<forall>pc\<in>set (buildPostconditions ''fundJob'' verifyEvent verifyStatus). answers (pc_check pc) True"
    using that by (simp add: buildPostconditions_def Let_def)
  show ?thesis using confirmed_with_evidence [of cfg checkCircle op w] funded tally by auto
qed

definition wk_demo_operation :: "unit reconcilable" where
  "wk_demo_operation = \<lparr>rec_id = ''o'', rec_kind = ''fundJob'', rec_tx = Some ''0x1'', rec_circle = None, rec_state = ''broadcast'',
     rec_post = buildPostconditions ''fundJob'' (\<lambda>_ w. (Inr True, w)) (\<lambda>_ w. (Inr True, w)), rec_attempts = 0\<rparr>"

theorem reconciled_on_evidence_witness:
  "rr_new (fst (reconcileOperation \<lparr>rcf_maxAttempts = 5, rcf_baseBackoffMs = 5000\<rparr> None wk_demo_operation ())) = RConfirmed
   \<and> answers ((\<lambda>_ w. (Inr True, w)) ''JobFunded'' :: unit check) True"
proof -
  have c: "rr_new (fst (reconcileOperation \<lparr>rcf_maxAttempts = 5, rcf_baseBackoffMs = 5000\<rparr> None wk_demo_operation ())) = RConfirmed"
    by (simp add: reconcileOperation_def wk_demo_operation_def buildPostconditions_def Let_def)
  have live: "rec_state wk_demo_operation \<noteq> ''confirmed''" "truthy (rec_tx wk_demo_operation)"
      "rec_post wk_demo_operation = buildPostconditions ''fundJob'' (\<lambda>_ w. (Inr True, w)) (\<lambda>_ w. (Inr True, w))"
    by (simp_all add: wk_demo_operation_def)
  from reconciled_on_evidence [where verifyEvent = "\<lambda>_ w. (Inr True, w)" and verifyStatus = "\<lambda>_ w. (Inr True, w)",
      THEN conjunct1, rule_format, OF c live(1)] live c show ?thesis by simp
qed

end
