(* ===== verification/Json_Properties.thy ===== *)
theory Json_Properties
  imports Hmac_Auth
begin

text \<open>
  The values \<open>JSON.parse\<close> can return: the type invariant of its state machine.
\<close>

function json_shape :: "json \<Rightarrow> bool" where
  \<comment> \<open>no \<open>undefined\<close> anywhere, and every object has different keys\<close>
  "json_shape JUndef = False"
| "json_shape JNull = True"
| "json_shape (JBool b) = True"
| "json_shape (JNum n) = True"
| "json_shape (JStr s) = True"
| "json_shape (JArr vs) = list_all json_shape vs"
| "json_shape (JObj kvs) = (distinct (map fst kvs) \<and> list_all (\<lambda>kv. json_shape (snd kv)) kvs)"
  by pat_completeness auto
termination
proof (relation "measure size", goal_cases)
  case (2 vs v)
  then show ?case by (simp add: size_list_estimation' less_Suc_eq_le)
next
  case (3 kvs kv)
  then have "size_prod (\<lambda>_. 0) size kv \<le> size_list (size_prod (\<lambda>_. 0) size) kvs"
    by (intro size_list_estimation') auto
  then show ?case by (cases kv) simp
qed simp

fun scalar_token :: "json_token \<Rightarrow> bool" where
  "scalar_token (TValue v) = json_shape v"
| "scalar_token t = True"

lemma word_shape: "json_word s = Some (v, n) \<Longrightarrow> json_shape v"
  by (simp add: json_word.simps split: if_splits) auto

lemma next_token_scalar:
  assumes "next_token num s = Some (t, r)"
  shows "scalar_token t"
proof (cases s)
  case (Cons c u)
  have one: "(if P then Some (x, u) else y) = Some (t, r) \<Longrightarrow> t = x \<or> y = Some (t, r)" for P x y
    by (simp split: if_splits)
  have str: "(if P then map_option (\<lambda>(us, t). (TValue (JStr (f us)), t)) z else y) = Some (t, r)
      \<Longrightarrow> (\<exists>k. t = TValue (JStr k)) \<or> y = Some (t, r)" for P z y and f :: "(char + nat) list \<Rightarrow> string"
    by (auto split: if_splits)
  have num: "(if P then map_option (\<lambda>(n, t). (TValue (JNum (f n)), t)) z else y) = Some (t, r)
      \<Longrightarrow> (\<exists>n. t = TValue (JNum n)) \<or> y = Some (t, r)" for P z y and f :: "string \<Rightarrow> string"
    by (auto split: if_splits)
  have word: "map_option (\<lambda>(v, n). (TValue v, drop n (c # u))) (json_word (c # u)) = Some (t, r) \<Longrightarrow> \<exists>v. t = TValue v \<and> json_shape v"
    by (auto dest: word_shape)
  from assms consider "t \<in> {TOpen, TClose, TList, TEnd, TComma, TColon}" | k where "t = TValue (JStr k)" | n where "t = TValue (JNum n)"
    | v where "t = TValue v" "json_shape v"
    unfolding next_token_def Cons list.case by (blast dest!: one str num word)
  then show ?thesis by cases auto
qed (use assms in \<open>simp add: next_token_def\<close>)

lemma tokens_scalar: "json_tokens num s = Some ts \<Longrightarrow> list_all scalar_token ts"
proof (induction num s arbitrary: ts rule: json_tokens.induct)
  case (1 num s)
  show ?case
  proof (cases "dropWhile json_space s = []")
    case False
    then have "(case next_token num (dropWhile json_space s) of None \<Rightarrow> None | Some (t, r) \<Rightarrow> map_option ((#) t) (json_tokens num r)) = Some ts"
      using "1.prems" by (simp only: json_tokens.simps [of num s] Let_def if_False)
    then obtain t r ts' where t: "next_token num (dropWhile json_space s) = Some (t, r)"
        "json_tokens num r = Some ts'" "ts = t # ts'"
      by (cases "next_token num (dropWhile json_space s)") auto
    from "1.IH" [OF refl False t(1) refl t(2)] next_token_scalar [OF t(1)] t(3) show ?thesis by simp
  qed (use "1.prems" in \<open>subst (asm) json_tokens.simps, simp\<close>)
qed

fun frame_shape :: "json_frame \<Rightarrow> bool" where
  "frame_shape (FList vs) = json_shape (JArr vs)"
| "frame_shape (FObj kvs) = json_shape (JObj kvs)"
| "frame_shape (FMember k) = True"

fun state_shape :: "json_state \<Rightarrow> bool" where
  "state_shape (Have v) = json_shape v"
| "state_shape st = True"

lemma set_jsmap_set: "kv \<in> set (jsmap_set k v m) \<Longrightarrow> kv = (k, v) \<or> kv \<in> set m"
  by (induction k v m rule: jsmap_set.induct) (auto split: if_splits)

lemma set_shape: "json_shape (JObj kvs) \<Longrightarrow> json_shape v \<Longrightarrow> json_shape (JObj (jsmap_set k v kvs))"
  by (auto simp: list_all_iff dest!: set_jsmap_set)

lemma empty_shape: "json_shape (JObj [])"
  by simp

lemma step_shape:
  assumes "json_step t st fs = Some (st', fs')" "scalar_token t" "state_shape st" "list_all frame_shape fs"
  shows "state_shape st' \<and> list_all frame_shape fs'"
  using assms by (cases "(t, st, fs)" rule: json_step.cases) (auto simp: set_shape empty_shape simp del: json_shape.simps(7) jsmap_set.simps)

lemma run_shape:
  "json_run ts st fs = Some v \<Longrightarrow> list_all scalar_token ts \<Longrightarrow> state_shape st \<Longrightarrow> list_all frame_shape fs \<Longrightarrow> json_shape v"
proof (induction ts st fs rule: json_run.induct)
  case (3 t ts st fs)
  then obtain st' fs' where s: "json_step t st fs = Some (st', fs')" by (auto split: option.splits)
  with "3.prems" step_shape [OF s] show ?case using "3.IH" [OF s refl] by simp
qed simp_all

lemma parsed_shape:
  assumes "json_parse num s = Some v"
  shows "json_shape v"
proof -
  obtain ts where ts: "json_tokens num s = Some ts" "json_run ts (WantValue False) [] = Some v"
    using assms by (auto simp: json_parse_def bind_eq_Some_conv)
  show ?thesis by (rule run_shape [OF ts(2) tokens_scalar [OF ts(1)]]) simp_all
qed

section \<open>The bodies of requests\<close>

lemma read_chunks_bound: "read_chunks cs n acc = Inr s \<Longrightarrow> length acc = n \<Longrightarrow> n \<le> MAX_BODY_BYTES
    \<Longrightarrow> length s \<le> MAX_BODY_BYTES \<and> s = acc @ concat cs"
  by (induction cs n acc rule: read_chunks.induct) (auto split: if_splits)

lemma read_body: "readRawBody r = Inr s \<Longrightarrow>
    length s \<le> MAX_BODY_BYTES \<and> s = (if bodiless (rq_method r) then [] else concat (rq_chunks r))"
  using read_chunks_bound [of "rq_chunks r" 0 "[]" s] by (auto simp: readRawBody_def split: if_splits)

lemma parse_body_shape:
  assumes "parseBody env s m = Inr v"
  shows "if bodiless m \<or> trim s = [] then v = JUndef else json_parse (au_num env) s = Some v \<and> json_shape v"
  using assms parsed_shape [of "au_num env" s v] by (auto simp: parseBody_def trim_def split: if_splits option.splits)

text \<open>C38: Every request that reaches a handler carries at most 1 MB, the whole of its body; the handler gets
  \<open>undefined\<close> for an empty body and otherwise the JSON value of all of it, which contains no \<open>undefined\<close>
  and whose objects name every key once.\<close>

theorem dispatched_body_has_shape:
  assumes "snd (route_request env ro now r st) = Dispatched s v"
  shows "length s \<le> 1048576 \<and> s = (if bodiless (rq_method r) then [] else concat (rq_chunks r))
     \<and> (if bodiless (rq_method r) \<or> trim s = [] then v = JUndef else json_parse (au_num env) s = Some v \<and> json_shape v)"
proof -
  have "readRawBody r = Inr s" "parseBody env s (rq_method r) = Inr v"
    using assms by (auto simp: route_request_def split: if_splits sum.splits prod.splits)
  from read_body [OF this(1)] parse_body_shape [OF this(2)] show ?thesis
    unfolding MAX_BODY_BYTES_def by (intro conjI) (erule conjE, assumption)+
qed

definition shape_demo_env :: auth_env where
  "shape_demo_env = \<lparr>au_sha256 = id, au_hmac = (\<lambda>_. id), au_date = (\<lambda>_. None), au_num = id\<rparr>"

definition shape_demo_request :: http_request where
  "shape_demo_request = \<lparr>rq_method = Some ''POST'', rq_path = ''/health'', rq_search = [], rq_headers = [],
     rq_chunks = [''{\"a\":1,'', ''\"a\":[null]}'']\<rparr>"

lemma shape_demo_head: "rq_method shape_demo_request = Some ''POST''" "rq_path shape_demo_request = ''/health''"
  by (simp_all add: shape_demo_request_def)

theorem dispatched_body_has_shape_witness:
  "\<exists>v. snd (route_request shape_demo_env \<lparr>ro_routes = [(''POST'', ''/health'')], ro_secret = [], ro_skew = 0\<rparr> 0
         shape_demo_request \<lparr>ns_entries = [], ns_ttl = 0\<rparr>) = Dispatched ''{\"a\":1,\"a\":[null]}'' v
     \<and> v \<noteq> JUndef \<and> json_shape v"
proof -
  let ?text = "''{\"a\":1,\"a\":[null]}''"
  have "json_parse id ?text \<noteq> None" by code_simp
  then obtain v where v: "json_parse id ?text = Some v" by blast
  have raw: "trim ?text \<noteq> []" "concat (rq_chunks shape_demo_request) = ?text" "\<not> bodiless (Some ''POST'')" by code_simp+
  have "read_chunks (rq_chunks shape_demo_request) 0 [] = Inr (concat (rq_chunks shape_demo_request))"
    by (simp add: shape_demo_request_def MAX_BODY_BYTES_def)
  then have sent: "snd (route_request shape_demo_env \<lparr>ro_routes = [(''POST'', ''/health'')], ro_secret = [], ro_skew = 0\<rparr> 0
         shape_demo_request \<lparr>ns_entries = [], ns_ttl = 0\<rparr>) = Dispatched ?text v"
    using v raw by (simp add: route_request_def readRawBody_def parseBody_def shape_demo_env_def isPublicRoute_def PUBLIC_ROUTES_def
        shape_demo_head)
  have "json_shape v"
    using dispatched_body_has_shape [OF sent] raw by (simp add: shape_demo_head)
  moreover from this have "v \<noteq> JUndef" by auto
  ultimately show ?thesis using sent by blast
qed

end
