(* ===== verification/Runtime_Connector.thy ===== *)
theory Runtime_Connector
  imports Json_Parser Js_Numbers
begin

text \<open>
  The connectors to the agent's runtime: \<open>runtime-helpers.ts\<close>, \<open>runtimes/hermes.ts\<close>,
  \<open>runtimes/openclaw.ts\<close> and \<open>runtime.ts\<close> of \<open>arclayer-runner/src\<close>. Hermes and custom runtimes are
  trusted, OpenClaw is not: its requests are stripped and its answers checked. \<open>new URL\<close> and the Zod
  schema of a result are parameters; the time-out is an answer of the network.
\<close>

record url_parts =
  u_protocol :: string
  u_hostname :: string
  u_port :: string

type_synonym url_parser = "string \<Rightarrow> url_parts option"

text \<open>What a \<open>catch\<close> around the network sees: a \<open>RunnerError\<close>, an abort, another \<open>Error\<close> with its message,
  a value that is no \<open>Error\<close> with its text.\<close>

datatype runtime_fault =
  FaultRunner runner_error
| FaultAbort string
| FaultError string
| FaultOther string

section \<open>Redaction of error messages\<close>

function replace_all :: "(string \<Rightarrow> nat) \<Rightarrow> string \<Rightarrow> string \<Rightarrow> string" where
  \<comment> \<open>\<open>s.replace(/.../g, rep)\<close>; the matcher gives the length of the match at the head of the text, 0 for none\<close>
  "replace_all m rep [] = []"
| "replace_all m rep (c # s) =
     (if m (c # s) = 0 then c # replace_all m rep s else rep @ replace_all m rep (drop (m (c # s) - 1) s))"
  by pat_completeness auto
termination by (relation "measure (\<lambda>(m, rep, s). length s)") auto

definition match_userinfo :: "string \<Rightarrow> nat" where
  \<comment> \<open>\<open>/https?:\/\/[^@\s]+@/\<close>\<close>
  "match_userinfo s =
     (let n = (if startsWith s ''https://'' then 8 else if startsWith s ''http://'' then 7 else 0);
          k = length (takeWhile (\<lambda>c. c \<noteq> CHR ''@'' \<and> \<not> is_space c) (drop n s))
      in if n \<noteq> 0 \<and> k \<noteq> 0 \<and> startsWith (drop (n + k) s) ''@'' then n + k + 1 else 0)"

definition is_token_char :: "char \<Rightarrow> bool" where
  \<comment> \<open>\<open>[a-zA-Z0-9_\-\.]\<close>\<close>
  "is_token_char c \<longleftrightarrow> is_lower_letter (lower_char c) \<or> is_digit c \<or> c = CHR ''_'' \<or> c = CHR ''-'' \<or> c = CHR ''.''"

definition match_bearer :: "string \<Rightarrow> nat" where
  \<comment> \<open>\<open>/bearer\s+[a-zA-Z0-9_\-\.]+/i\<close>\<close>
  "match_bearer s =
     (let k = length (takeWhile is_space (drop 6 s)); t = length (takeWhile is_token_char (drop (6 + k) s))
      in if startsWith (toLowerCase s) ''bearer'' \<and> k \<noteq> 0 \<and> t \<noteq> 0 then 6 + k + t else 0)"

definition match_hex :: "string \<Rightarrow> nat" where
  \<comment> \<open>\<open>/0x[a-fA-F0-9]{32,}/\<close>\<close>
  "match_hex s =
     (let k = length (takeWhile is_hex (drop 2 s)) in if startsWith s ''0x'' \<and> 32 \<le> k then 2 + k else 0)"

definition sanitizeErrorMessage :: "string \<Rightarrow> string" where
  "sanitizeErrorMessage msg =
     (let clean = replace_all match_userinfo ''https://***@'' msg;
          clean = replace_all match_bearer ''bearer [REDACTED]'' clean;
          clean = replace_all match_hex ''0x[REDACTED]'' clean
      in if 300 < length clean then take 300 clean @ ''...'' else clean)"

definition safeHostFromUrl :: "url_parser \<Rightarrow> string \<Rightarrow> string" where
  "safeHostFromUrl parse url =
     (case parse url of
        Some u \<Rightarrow> u_hostname u @ (if u_port u = [] then [] else '':'' @ u_port u)
      | None \<Rightarrow> ''unknown'')"

definition unavailable_words :: "string list" where
  "unavailable_words = [''econnrefused'', ''enotfound'', ''econnreset'', ''fetch failed'', ''network'']"

definition mapRuntimeError :: "url_parser \<Rightarrow> runtime_fault \<Rightarrow> nat option \<Rightarrow> string \<Rightarrow> runner_error" where
  "mapRuntimeError parse fault status endpoint =
     (let host = (if endpoint = [] then ''unknown'' else safeHostFromUrl parse endpoint);
          failed = (\<lambda>msg. RunnerError ''RUNTIME_ERROR'' (''Runtime error at '' @ host @ '': '' @ sanitizeErrorMessage msg) 502);
          thrown = (case fault of
              FaultError msg \<Rightarrow>
                if list_ex (includes_str (toLowerCase msg)) unavailable_words then
                  RunnerError ''RUNTIME_UNAVAILABLE'' (''Runtime unavailable at '' @ host @ '': '' @ sanitizeErrorMessage msg) 502
                else failed msg
            | FaultRunner e \<Rightarrow>
                if list_ex (includes_str (toLowerCase (err_message e))) unavailable_words then
                  RunnerError ''RUNTIME_UNAVAILABLE'' (''Runtime unavailable at '' @ host @ '': '' @ sanitizeErrorMessage (err_message e)) 502
                else failed (err_message e)
            | FaultAbort msg \<Rightarrow> failed msg
            | FaultOther msg \<Rightarrow> failed msg)
      in case fault of
           FaultAbort _ \<Rightarrow> RunnerError ''RUNTIME_TIMEOUT'' ''Runtime request timed out'' 504
         | _ \<Rightarrow>
             (case status of
                None \<Rightarrow> thrown
              | Some n \<Rightarrow>
                  if n = 401 \<or> n = 403 then
                    RunnerError ''RUNTIME_AUTH_FAILED'' (''Runtime auth failed ('' @ nat_str n @ '') at '' @ host) 502
                  else if n = 429 then RunnerError ''RUNTIME_RATE_LIMITED'' (''Runtime rate limited at '' @ host) 502
                  else if n = 502 \<or> n = 503 \<or> n = 504 then
                    RunnerError ''RUNTIME_UNAVAILABLE'' (''Runtime unavailable ('' @ nat_str n @ '') at '' @ host) 502
                  else if 400 \<le> n then
                    RunnerError ''RUNTIME_ERROR'' (''Runtime error ('' @ nat_str n @ '') at '' @ host) 502
                  else thrown))"

section \<open>What an untrusted runtime is sent\<close>

record agent_task =
  at_taskId :: string
  at_protocol :: string
  at_role :: string
  at_agentId :: string
  at_input :: json
  at_metadata :: "(string \<times> json) list"

definition SAFE_METADATA_KEYS :: "string list" where
  "SAFE_METADATA_KEYS = [''jobId'', ''description'', ''traceId'', ''requestId'', ''provider'', ''evaluator'']"

definition SENSITIVE_KEY_PATTERNS :: "string list" where
  "SENSITIVE_KEY_PATTERNS = [''secret'', ''token'', ''key'', ''password'', ''authorization'', ''private'', ''wallet'']"

definition isSensitiveKey :: "string \<Rightarrow> bool" where
  "isSensitiveKey key = list_ex (includes_str (toLowerCase key)) SENSITIVE_KEY_PATTERNS"

fun safe_metadata :: "(string \<times> json) list \<Rightarrow> (string \<times> json) list" where
  \<comment> \<open>the loop over the entries: a key that is not safe is dropped, sensitive or not\<close>
  "safe_metadata [] = []"
| "safe_metadata ((key, v) # kvs) =
     (if key \<in> set SAFE_METADATA_KEYS then (key, v) # safe_metadata kvs
      else if isSensitiveKey key then safe_metadata kvs
      else safe_metadata kvs)"

definition sanitizeTaskForUntrustedRuntime :: "agent_task \<Rightarrow> agent_task" where
  "sanitizeTaskForUntrustedRuntime task = task\<lparr>at_metadata := safe_metadata (at_metadata task)\<rparr>"

definition task_json :: "agent_task \<Rightarrow> json" where
  "task_json t = JObj [(''taskId'', JStr (at_taskId t)), (''protocol'', JStr (at_protocol t)), (''role'', JStr (at_role t)),
     (''agentId'', JStr (at_agentId t)), (''input'', at_input t), (''metadata'', JObj (at_metadata t))]"

section \<open>What an untrusted runtime may answer\<close>

definition invalid_response :: "string \<Rightarrow> runner_error + 'a" where
  "invalid_response msg = Inl (RunnerError ''RUNTIME_INVALID_RESPONSE'' msg 502)"

definition octet :: "js_number \<Rightarrow> int \<Rightarrow> bool" where
  \<comment> \<open>\<open>part === n\<close>\<close>
  "octet x n \<longleftrightarrow> x = Fin (of_int n)"

fun js_between :: "int \<Rightarrow> int \<Rightarrow> js_number \<Rightarrow> bool" where
  \<comment> \<open>\<open>lo <= part && part <= hi\<close>\<close>
  "js_between lo hi (Fin q) = (of_int lo \<le> q \<and> q \<le> of_int hi)"
| "js_between lo hi _ = False"

definition isPrivateIp :: "string \<Rightarrow> bool" where
  "isPrivateIp hostname =
     (case map Number_text (split_on CHR ''.'' hostname) of
        [p0, p1, p2, p3] \<Rightarrow>
          if NaN \<in> {p0, p1, p2, p3} then False
          else octet p0 10 \<or> octet p0 172 \<and> js_between 16 31 p1 \<or> octet p0 192 \<and> octet p1 168
            \<or> octet p0 127 \<or> octet p0 169 \<and> octet p1 254 \<or> octet p0 100 \<and> js_between 64 127 p1
      | _ \<Rightarrow> False)"

definition endsWith :: "string \<Rightarrow> string \<Rightarrow> bool" where
  "endsWith s p = startsWith (rev s) (rev p)"

definition bare_hostname :: "string \<Rightarrow> string" where
  \<comment> \<open>\<open>hostname.replace(/^\[|\]$/g, "")\<close>\<close>
  "bare_hostname h =
     (let h1 = (if startsWith h [CHR 0x5B] then tl h else h)
      in if endsWith h1 [CHR 0x5D] then butlast h1 else h1)"

definition validateArtifactUri :: "url_parser \<Rightarrow> string \<Rightarrow> runner_error + unit" where
  "validateArtifactUri parse uri =
     (case parse uri of
        None \<Rightarrow> invalid_response ''Invalid artifact URI: not a valid URL''
      | Some u \<Rightarrow>
          (let hostname = toLowerCase (u_hostname u); bareHostname = bare_hostname hostname
           in if u_protocol u \<noteq> ''https:'' then
                invalid_response (''Artifact URI must use https:// protocol, got '' @ u_protocol u)
              else if hostname = ''localhost'' \<or> hostname = ''0.0.0.0'' \<or> endsWith hostname ''.local'' \<or> endsWith hostname ''.internal'' then
                invalid_response (''Artifact URI must not target internal/private host: '' @ hostname)
              else if bareHostname = ''::1'' \<or> bareHostname = ''::'' \<or> startsWith bareHostname ''fe80:''
                \<or> startsWith bareHostname ''fc'' \<or> startsWith bareHostname ''fd'' \<or> startsWith bareHostname ''::ffff:''
                \<or> startsWith bareHostname ''0:0:0:0:0:ffff:'' then
                invalid_response (''Artifact URI must not target IPv6 loopback/link-local/private/mapped: '' @ hostname)
              else if isPrivateIp hostname then invalid_response (''Artifact URI must not target private IP: '' @ hostname)
              else Inr ()))"

definition MAX_FULL_RESULT_BYTES :: nat where
  "MAX_FULL_RESULT_BYTES = 2097152"

definition DEFAULT_MAX_OUTPUT_BYTES :: nat where
  "DEFAULT_MAX_OUTPUT_BYTES = 1048576"

definition MAX_RESULT_ARTIFACTS :: nat where
  \<comment> \<open>\<open>MAX_ARTIFACTS\<close>\<close>
  "MAX_RESULT_ARTIFACTS = 10"

definition MAX_ARTIFACT_FIELD_LENGTH :: nat where
  "MAX_ARTIFACT_FIELD_LENGTH = 4096"

definition text_field :: "string \<Rightarrow> json \<Rightarrow> string" where
  \<comment> \<open>a text field of the parsed result, empty when it is absent\<close>
  "text_field k v = or_else (jstr_opt (jget k v)) []"

definition validate_artifact :: "url_parser \<Rightarrow> json \<Rightarrow> runner_error + unit" where
  "validate_artifact parse artifact =
     (let too_long = \<lambda>what k. (if MAX_ARTIFACT_FIELD_LENGTH < length (text_field k artifact) then
              invalid_response (''Artifact '' @ what @ '' length '' @ nat_str (length (text_field k artifact)) @ '' exceeds limit ''
                @ nat_str MAX_ARTIFACT_FIELD_LENGTH)
            else Inr ())
      in bindR (too_long ''name'' ''name'') (\<lambda>_.
         bindR (too_long ''URI'' ''uri'') (\<lambda>_.
         bindR (too_long ''contentType'' ''contentType'') (\<lambda>_.
         if text_field ''uri'' artifact \<noteq> [] then validateArtifactUri parse (text_field ''uri'' artifact) else Inr ()))))"

definition validateOpenClawResponse ::
  "url_parser \<Rightarrow> (json \<Rightarrow> string list + json) \<Rightarrow> nat \<Rightarrow> json \<Rightarrow> runner_error + json" where
  "validateOpenClawResponse parse schema maxOutputBytes result =
     (case schema result of
        Inl _ \<Rightarrow> invalid_response ''OpenClaw returned invalid RuntimeResult''
      | Inr parsed \<Rightarrow>
          (let outputSize = length (json_text (coalesce (jget ''output'' parsed) (JStr [])));
               fullSize = length (json_text parsed);
               artifacts = json_items (jget ''artifacts'' parsed)
           in if maxOutputBytes < outputSize then
                invalid_response (''Output size '' @ nat_str outputSize @ '' bytes exceeds limit '' @ nat_str maxOutputBytes)
              else if MAX_FULL_RESULT_BYTES < fullSize then
                invalid_response (''Full result size '' @ nat_str fullSize @ '' bytes exceeds limit '' @ nat_str MAX_FULL_RESULT_BYTES)
              else if jget ''status'' parsed = JStr ''needs_payment'' \<or> jget ''status'' parsed = JStr ''needs_action'' then
                invalid_response (''OpenClaw runtime returned incomplete status: '' @ js_text (jget ''status'' parsed))
              else if json_items (jget ''actionRequests'' parsed) \<noteq> [] then
                invalid_response ''OpenClaw runtime must not return actionRequests''
              else if json_items (jget ''paymentRequests'' parsed) \<noteq> [] then
                invalid_response ''OpenClaw runtime paymentRequests not supported in this version''
              else if MAX_RESULT_ARTIFACTS < length artifacts then
                invalid_response (''Artifact count '' @ nat_str (length artifacts) @ '' exceeds limit '' @ nat_str MAX_RESULT_ARTIFACTS)
              else bindR (for_each (validate_artifact parse) artifacts) (\<lambda>_. Inr parsed)))"

section \<open>The connectors\<close>

text \<open>What the network answers to the POST: it throws, or a response with its status whose body is read as
  JSON; reading throws for a body that is no JSON or when the time-out strikes.\<close>

datatype network_answer =
  NoAnswer runtime_fault
| Response (rs_status: nat) (rs_body: "runtime_fault + json")

type_synonym network = "json \<Rightarrow> network_answer"

definition response_ok :: "nat \<Rightarrow> bool" where
  "response_ok status \<longleftrightarrow> 200 \<le> status \<and> status < 300"

definition rethrow :: "url_parser \<Rightarrow> string \<Rightarrow> runtime_fault \<Rightarrow> runner_error" where
  \<comment> \<open>the \<open>catch\<close> blocks of both connectors\<close>
  "rethrow parse endpoint fault =
     (case fault of FaultRunner e \<Rightarrow> e | _ \<Rightarrow> mapRuntimeError parse fault None endpoint)"

definition http_run ::
  "url_parser \<Rightarrow> (json \<Rightarrow> string list + json) \<Rightarrow> string \<Rightarrow> network \<Rightarrow> agent_task \<Rightarrow> runner_error + json" where
  \<comment> \<open>\<open>HttpRuntimeConnector.run\<close>, which Hermes inherits: any failure to read the body counts as no JSON\<close>
  "http_run parse schema endpoint network task =
     (case network (task_json task) of
        NoAnswer fault \<Rightarrow> Inl (rethrow parse endpoint fault)
      | Response status body \<Rightarrow>
          if \<not> response_ok status then
            Inl (mapRuntimeError parse (FaultError (''HTTP '' @ nat_str status)) (Some status) endpoint)
          else
            (case body of
               Inl _ \<Rightarrow> invalid_response ''Runtime returned non-JSON response''
             | Inr v \<Rightarrow>
                 if v = JNull then invalid_response ''Runtime returned non-JSON response''
                 else (case schema v of
                         Inl issues \<Rightarrow> Inl (rethrow parse endpoint (FaultError (join_with '','' issues)))
                       | Inr parsed \<Rightarrow> Inr parsed)))"

definition openclaw_run ::
  "url_parser \<Rightarrow> (json \<Rightarrow> string list + json) \<Rightarrow> nat \<Rightarrow> string \<Rightarrow> network \<Rightarrow> agent_task \<Rightarrow> runner_error + json" where
  "openclaw_run parse schema maxOutputBytes endpoint network task =
     (case network (task_json (sanitizeTaskForUntrustedRuntime task)) of
        NoAnswer fault \<Rightarrow> Inl (rethrow parse endpoint fault)
      | Response status body \<Rightarrow>
          if \<not> response_ok status then
            Inl (mapRuntimeError parse (FaultError (''HTTP '' @ nat_str status)) (Some status) endpoint)
          else
            (case body of
               Inl (FaultAbort m) \<Rightarrow> Inl (rethrow parse endpoint (FaultAbort m))
             | Inl _ \<Rightarrow> invalid_response (''OpenClaw returned non-JSON response (HTTP '' @ nat_str status @ '')'')
             | Inr v \<Rightarrow> validateOpenClawResponse parse schema maxOutputBytes v))"

datatype connector_kind = HermesConnector | OpenClawConnector | HttpConnector

definition createRuntimeConnector :: "string \<Rightarrow> connector_kind" where
  "createRuntimeConnector kind =
     (if kind = ''hermes'' then HermesConnector else if kind = ''openclaw'' then OpenClawConnector else HttpConnector)"

definition runtime_run ::
  "url_parser \<Rightarrow> (json \<Rightarrow> string list + json) \<Rightarrow> connector_kind \<Rightarrow> string \<Rightarrow> network \<Rightarrow> agent_task \<Rightarrow> runner_error + json" where
  "runtime_run parse schema kind endpoint network task =
     (case kind of
        OpenClawConnector \<Rightarrow> openclaw_run parse schema DEFAULT_MAX_OUTPUT_BYTES endpoint network task
      | _ \<Rightarrow> http_run parse schema endpoint network task)"

record runtime_capabilities =
  rc_artifacts :: bool
  rc_payments :: bool
  rc_actions :: bool
  rc_maxOutput :: nat

fun getCapabilities :: "connector_kind \<Rightarrow> runtime_capabilities option" where
  "getCapabilities HermesConnector = Some \<lparr>rc_artifacts = True, rc_payments = True, rc_actions = True, rc_maxOutput = 1048576\<rparr>"
| "getCapabilities OpenClawConnector =
     Some \<lparr>rc_artifacts = True, rc_payments = False, rc_actions = False, rc_maxOutput = DEFAULT_MAX_OUTPUT_BYTES\<rparr>"
| "getCapabilities HttpConnector = None"

end
