(* ===== verification/Runtime_Properties.thy ===== *)
theory Runtime_Properties
  imports Runtime_Connector "HOL-Library.Word"
begin

text \<open>
  What crosses the boundary to a runtime: what an untrusted one is sent, which of its answers pass,
  which errors its failures become, and that their messages carry no key.
\<close>

section \<open>Redaction\<close>

fun somewhere :: "(string \<Rightarrow> nat) \<Rightarrow> string \<Rightarrow> bool" where
  \<comment> \<open>the pattern matches somewhere in the text\<close>
  "somewhere m [] = False"
| "somewhere m (c # s) = (m (c # s) \<noteq> 0 \<or> somewhere m s)"

definition redact_hex :: "string \<Rightarrow> string" where
  "redact_hex = replace_all match_hex ''0x[REDACTED]''"

lemma redact_hex_simps:
  "redact_hex [] = []"
  "redact_hex (c # s) = (if match_hex (c # s) = 0 then c # redact_hex s
     else ''0x[REDACTED]'' @ redact_hex (drop (match_hex (c # s) - 1) s))"
  by (simp_all add: redact_hex_def)

lemma match_hex_head: "match_hex s \<noteq> 0 \<Longrightarrow> \<exists>r. s = CHR ''0'' # CHR ''x'' # r \<and> 32 \<le> length (takeWhile is_hex r)"
  by (auto simp: match_hex_def Let_def startsWith_iff split: if_splits)

lemma match_hex_0x: "match_hex (CHR ''0'' # CHR ''x'' # r) \<noteq> 0 \<longleftrightarrow> 32 \<le> length (takeWhile is_hex r)"
  by (simp add: match_hex_def Let_def)

lemma no_hex_digit [simp]: "\<not> is_hex CHR ''x''" "\<not> is_hex CHR ''[''" "\<not> is_hex CHR ''.''" "is_hex CHR ''0''"
  by code_simp+

lemma takeWhile_redact: "takeWhile is_hex (redact_hex s) = takeWhile is_hex s"
proof (induction s)
  case (Cons c s)
  show ?case
  proof (cases "match_hex (c # s) = 0")
    case False
    then obtain r where "c # s = CHR ''0'' # CHR ''x'' # r" using match_hex_head by blast
    with False show ?thesis by (simp add: redact_hex_simps)
  qed (simp add: redact_hex_simps Cons.IH)
qed (simp add: redact_hex_simps)

lemma redact_keeps_x: "redact_hex s = CHR ''x'' # r \<Longrightarrow> \<exists>q. s = CHR ''x'' # q \<and> r = redact_hex q"
proof (cases s)
  case (Cons c q)
  assume x: "redact_hex s = CHR ''x'' # r"
  show ?thesis
  proof (cases "match_hex (c # q) = 0")
    case False
    with x Cons show ?thesis by (simp add: redact_hex_simps)
  qed (use x Cons in \<open>simp add: redact_hex_simps\<close>)
qed (simp add: redact_hex_simps)

lemma redacted: "\<not> somewhere match_hex (redact_hex s)"
proof (induction s rule: length_induct)
  case (1 s)
  show ?case
  proof (cases s)
    case (Cons c q)
    show ?thesis
    proof (cases "match_hex (c # q) = 0")
      case True
      have "match_hex (c # redact_hex q) = 0"
      proof (rule ccontr)
        assume "match_hex (c # redact_hex q) \<noteq> 0"
        then obtain r where r: "c = CHR ''0''" "redact_hex q = CHR ''x'' # r" "32 \<le> length (takeWhile is_hex r)"
          using match_hex_head by blast
        then obtain p where "q = CHR ''x'' # p" "r = redact_hex p" using redact_keeps_x by blast
        with r True show False using match_hex_0x [of p] takeWhile_redact [of p] by simp
      qed
      with 1 Cons True show ?thesis by (simp add: redact_hex_simps)
    next
      case False
      let ?rest = "redact_hex (drop (match_hex (c # q) - 1) q)"
      have "\<not> somewhere match_hex ?rest" using 1 Cons by (simp add: less_Suc_eq_le)
      then have "\<not> somewhere match_hex (''0x[REDACTED]'' @ ?rest)" by (simp add: match_hex_def Let_def)
      with Cons False show ?thesis by (simp add: redact_hex_simps)
    qed
  qed (simp add: redact_hex_simps)
qed

lemma takeWhile_cut: "length (takeWhile P (take n s @ t)) \<le> length (takeWhile P s)" if "\<And>c. c \<in> set (take 1 t) \<Longrightarrow> \<not> P c"
proof (induction s arbitrary: n)
  case Nil
  from that show ?case by (cases t) auto
next
  case (Cons c s)
  then show ?case using that by (cases n; cases t) auto
qed

lemma cut_redacted: "\<not> somewhere match_hex s \<Longrightarrow> \<not> somewhere match_hex (take n s @ ''...'')"
proof (induction s arbitrary: n)
  case Nil
  show ?case by (simp add: match_hex_def Let_def)
next
  case (Cons c s)
  show ?case
  proof (cases n)
    case 0
    then show ?thesis by (simp add: match_hex_def Let_def)
  next
    case (Suc k)
    have "match_hex (c # take k s @ ''...'') = 0"
    proof (rule ccontr)
      assume "match_hex (c # take k s @ ''...'') \<noteq> 0"
      then obtain r where r: "c = CHR ''0''" "take k s @ ''...'' = CHR ''x'' # r" "32 \<le> length (takeWhile is_hex r)"
        using match_hex_head by blast
      obtain q k' where q: "s = CHR ''x'' # q" "r = take k' q @ ''...''"
        using r(2) by (cases k; cases s) auto
      have "length (takeWhile is_hex r) \<le> length (takeWhile is_hex q)"
        unfolding q(2) by (rule takeWhile_cut) simp
      with Cons.prems r q match_hex_0x [of q] show False by simp
    qed
    with Cons Suc show ?thesis by simp
  qed
qed

text \<open>However long or hostile the text of an error, the message the runner keeps of it contains no hex
  string of 32 or more digits after \<open>0x\<close>: no private key, hash or signature.\<close>

theorem error_text_has_no_key: "\<not> somewhere match_hex (sanitizeErrorMessage msg)"
  using redacted cut_redacted by (simp add: sanitizeErrorMessage_def Let_def redact_hex_def del: somewhere.simps)

section \<open>Private addresses\<close>

text \<open>The reference definition: an address is a 32-bit word and a block fixes its leading bits.\<close>

definition ipv4 :: "nat \<Rightarrow> nat \<Rightarrow> nat \<Rightarrow> nat \<Rightarrow> 32 word" where
  "ipv4 a b c d = of_nat (a * 2 ^ 24 + b * 2 ^ 16 + c * 2 ^ 8 + d)"

definition in_block :: "32 word \<Rightarrow> 32 word \<Rightarrow> nat \<Rightarrow> bool" where
  "in_block w base len \<longleftrightarrow> drop_bit (32 - len) w = drop_bit (32 - len) base"

definition private_blocks :: "(32 word \<times> nat) list" where
  "private_blocks = [(ipv4 10 0 0 0, 8), (ipv4 172 16 0 0, 12), (ipv4 192 168 0 0, 16), (ipv4 127 0 0 0, 8),
     (ipv4 169 254 0 0, 16), (ipv4 100 64 0 0, 10)]"

definition dotted :: "nat \<Rightarrow> nat \<Rightarrow> nat \<Rightarrow> nat \<Rightarrow> string" where
  "dotted a b c d = nat_str a @ ''.'' @ nat_str b @ ''.'' @ nat_str c @ ''.'' @ nat_str d"

lemma in_block_div:
  assumes "N < 2 ^ 32" "M < 2 ^ 32"
  shows "in_block (of_nat N) (of_nat M) len \<longleftrightarrow> N div 2 ^ (32 - len) = M div 2 ^ (32 - len)"
proof -
  have "unat (drop_bit k (of_nat K :: 32 word)) = K div 2 ^ k" if "K < 2 ^ 32" for K k
  proof -
    have "unat (of_nat K :: 32 word) = K" using that by (simp add: unat_of_nat take_bit_nat_eq_self)
    then have "unat (drop_bit k (of_nat K :: 32 word)) = drop_bit k K" by (simp only: unat_drop_bit_eq)
    then show ?thesis by (simp only: drop_bit_eq_div)
  qed
  with assms show ?thesis by (simp add: in_block_def word_unat_eq_iff)
qed

lemma split_dotted: "split_on CHR ''.'' (dotted a b c d) = [nat_str a, nat_str b, nat_str c, nat_str d]"
proof -
  have no: "CHR ''.'' \<notin> set (nat_str n)" for n using digits_no_dot [OF nat_str_digits] .
  show ?thesis
    unfolding dotted_def using split_on_append [OF no] split_on_no_sep [OF no] by simp
qed

lemma octet_bounds:
  assumes "a < 256" "b < 256" "c < 256" "d < (256 :: nat)"
  shows "a * 2 ^ 24 + b * 2 ^ 16 + c * 2 ^ 8 + d < 2 ^ 32"
    and "(a * 2 ^ 24 + b * 2 ^ 16 + c * 2 ^ 8 + d) div 2 ^ 16 = a * 256 + b"
proof -
  show "a * 2 ^ 24 + b * 2 ^ 16 + c * 2 ^ 8 + d < 2 ^ 32" using assms by simp
  have "a * 2 ^ 24 + b * 2 ^ 16 + c * 2 ^ 8 + d = (a * 256 + b) * 2 ^ 16 + (c * 256 + d)" by simp
  moreover have "c * 256 + d < 2 ^ 16" using assms by simp
  ultimately show "(a * 2 ^ 24 + b * 2 ^ 16 + c * 2 ^ 8 + d) div 2 ^ 16 = a * 256 + b" by simp
qed

lemma leading_bits:
  assumes "b < 256" "q < 256" "k \<le> 8"
  shows "(a * 256 + b) div 2 ^ k = (p * 256 + q) div 2 ^ k \<longleftrightarrow> a = p \<and> b div 2 ^ k = q div (2 ^ k :: nat)"
proof -
  let ?m = "2 ^ (8 - k) :: nat"
  have m: "256 = ?m * 2 ^ k" using assms(3) by (simp add: power_add [symmetric])
  have step: "(x * 256 + y) div 2 ^ k = x * ?m + y div 2 ^ k" for x y :: nat
  proof -
    have "x * 256 + y = y + x * ?m * 2 ^ k" by (subst m) (simp only: mult.assoc add.commute)
    moreover have "(y + x * ?m * 2 ^ k) div 2 ^ k = x * ?m + y div 2 ^ k" by (rule div_mult_self1) simp
    ultimately show ?thesis by (simp only:)
  qed
  have small: "y div 2 ^ k < ?m" if "y < 256" for y
    using that m by (metis less_mult_imp_div_less)
  have uniq: "x * ?m + y = z * ?m + w \<longleftrightarrow> x = z \<and> y = w" if "y < ?m" "w < ?m" for x y z w
  proof
    assume eq: "x * ?m + y = z * ?m + w"
    have "x = (x * ?m + y) div ?m" "z = (z * ?m + w) div ?m" using that by simp_all
    then have "x = z" using eq by simp
    with eq show "x = z \<and> y = w" by simp
  qed simp
  show ?thesis unfolding step by (rule uniq [OF small [OF assms(1)] small [OF assms(2)]])
qed

lemma block_iff:
  assumes "a < 256" "b < 256" "c < 256" "d < 256" "p < 256" "q < 256" "k \<le> 8"
  shows "in_block (ipv4 a b c d) (ipv4 p q 0 0) (16 - k) \<longleftrightarrow> a = p \<and> b div 2 ^ k = q div 2 ^ k"
proof -
  have "32 - (16 - k) = 16 + k" using assms(7) by simp
  moreover have "N div 2 ^ (16 + k) = (N div 2 ^ 16) div 2 ^ k" for N :: nat
    by (simp only: power_add div_mult2_eq)
  ultimately have "in_block (ipv4 a b c d) (ipv4 p q 0 0) (16 - k) \<longleftrightarrow>
      (a * 256 + b) div 2 ^ k = (p * 256 + q) div 2 ^ k"
    using octet_bounds [OF assms(1-4)] octet_bounds [of p q 0 0] assms(5,6)
    unfolding ipv4_def by (subst in_block_div) (simp_all add: mult.commute [of 256])
  then show ?thesis using leading_bits assms(2,6,7) by simp
qed

text \<open>For every IPv4 host the parser prints, the comparison of octets decides exactly whether the 32-bit
  address lies in one of the six private blocks.\<close>

theorem private_ip_iff_block:
  assumes "a < 256" and "b < 256" and "c < 256" and "d < 256"
  shows "isPrivateIp (dotted a b c d) \<longleftrightarrow> list_ex (\<lambda>(base, len). in_block (ipv4 a b c d) base len) private_blocks"
proof -
  note blk = block_iff [OF assms]
  have low: "b div 256 = 0" using assms(2) by simp
  have blocks: "in_block (ipv4 a b c d) (ipv4 10 0 0 0) 8 \<longleftrightarrow> a = 10" "in_block (ipv4 a b c d) (ipv4 127 0 0 0) 8 \<longleftrightarrow> a = 127"
      "in_block (ipv4 a b c d) (ipv4 192 168 0 0) 16 \<longleftrightarrow> a = 192 \<and> b = 168"
      "in_block (ipv4 a b c d) (ipv4 169 254 0 0) 16 \<longleftrightarrow> a = 169 \<and> b = 254"
      "in_block (ipv4 a b c d) (ipv4 172 16 0 0) 12 \<longleftrightarrow> a = 172 \<and> b div 16 = 1"
      "in_block (ipv4 a b c d) (ipv4 100 64 0 0) 10 \<longleftrightarrow> a = 100 \<and> b div 64 = 1"
    using blk [of 10 0 8] blk [of 127 0 8] blk [of 192 168 0] blk [of 169 254 0] blk [of 172 16 4] blk [of 100 64 6] low
    by simp_all
  have ranges: "b div 16 = 1 \<longleftrightarrow> 16 \<le> b \<and> b \<le> 31" "b div 64 = 1 \<longleftrightarrow> 64 \<le> b \<and> b \<le> 127" by auto
  have parts: "Number_text (nat_str x) = Fin (of_nat x)" for x
    by (simp add: Number_digits)
  have eq: "octet (Fin (of_nat x)) (int n) \<longleftrightarrow> x = n" for x n by (simp add: octet_def)
  have priv: "isPrivateIp (dotted a b c d) \<longleftrightarrow> a = 10 \<or> a = 172 \<and> 16 \<le> b \<and> b \<le> 31 \<or> a = 192 \<and> b = 168
      \<or> a = 127 \<or> a = 169 \<and> b = 254 \<or> a = 100 \<and> 64 \<le> b \<and> b \<le> 127"
    using eq [of a 10] eq [of a 172] eq [of a 192] eq [of b 168] eq [of a 127] eq [of a 169] eq [of b 254] eq [of a 100]
    by (simp add: isPrivateIp_def split_dotted parts)
  show ?thesis unfolding priv private_blocks_def using blocks ranges by simp
qed

theorem private_ip_iff_block_witness:
  "isPrivateIp (dotted 172 31 0 1) \<and> list_ex (\<lambda>(base, len). in_block (ipv4 172 31 0 1) base len) private_blocks
   \<and> \<not> isPrivateIp (dotted 172 32 0 1) \<and> \<not> list_ex (\<lambda>(base, len). in_block (ipv4 172 32 0 1) base len) private_blocks"
proof -
  have "isPrivateIp (dotted 172 31 0 1)" "\<not> isPrivateIp (dotted 172 32 0 1)"
    by (simp_all add: isPrivateIp_def split_dotted Number_digits octet_def)
  with private_ip_iff_block [of 172 31 0 1] private_ip_iff_block [of 172 32 0 1] show ?thesis by simp
qed

section \<open>Answers of an untrusted runtime\<close>

definition public_uri :: "url_parser \<Rightarrow> string \<Rightarrow> bool" where
  \<comment> \<open>an https URL whose host is neither a local name, an inner IPv6 address nor a private IPv4 address\<close>
  "public_uri parse uri \<longleftrightarrow> (\<exists>u. parse uri = Some u \<and> u_protocol u = ''https:''
     \<and> toLowerCase (u_hostname u) \<notin> {''localhost'', ''0.0.0.0''}
     \<and> \<not> endsWith (toLowerCase (u_hostname u)) ''.local'' \<and> \<not> endsWith (toLowerCase (u_hostname u)) ''.internal''
     \<and> bare_hostname (toLowerCase (u_hostname u)) \<notin> {''::1'', ''::''}
     \<and> \<not> list_ex (startsWith (bare_hostname (toLowerCase (u_hostname u)))) [''fe80:'', ''fc'', ''fd'', ''::ffff:'', ''0:0:0:0:0:ffff:'']
     \<and> \<not> isPrivateIp (toLowerCase (u_hostname u)))"

lemma invalid_response_not_Inr [simp]: "invalid_response m \<noteq> Inr r" "Inr r \<noteq> invalid_response m"
  by (simp_all add: invalid_response_def)

lemma invalid_response_Inl [simp]: "invalid_response m = Inl e \<longleftrightarrow> e = RunnerError ''RUNTIME_INVALID_RESPONSE'' m 502"
  by (auto simp: invalid_response_def)

lemma validateArtifactUri_ok: "validateArtifactUri parse uri = Inr () \<longleftrightarrow> public_uri parse uri"
  by (auto simp: validateArtifactUri_def public_uri_def Let_def split: option.splits)

lemma safe_metadata_keys: "fst ` set (safe_metadata kvs) = fst ` set kvs \<inter> set SAFE_METADATA_KEYS"
  by (induction kvs rule: safe_metadata.induct) auto

lemma safe_keys_are_harmless: "list_all (\<lambda>k. \<not> isSensitiveKey k) SAFE_METADATA_KEYS"
  by code_simp

lemma validated:
  assumes "validateOpenClawResponse parse schema limit v = Inr r"
  shows "schema v = Inr r" "length (json_text (coalesce (jget ''output'' r) (JStr []))) \<le> limit"
    and "length (json_text r) \<le> MAX_FULL_RESULT_BYTES" "jget ''status'' r \<notin> {JStr ''needs_payment'', JStr ''needs_action''}"
    and "json_items (jget ''actionRequests'' r) = []" "json_items (jget ''paymentRequests'' r) = []"
    and "length (json_items (jget ''artifacts'' r)) \<le> MAX_RESULT_ARTIFACTS"
    and "\<forall>a\<in>set (json_items (jget ''artifacts'' r)). validate_artifact parse a = Inr ()"
  using assms by (auto simp: validateOpenClawResponse_def Let_def split: sum.splits if_splits)

lemma artifact_ok:
  assumes "validate_artifact parse a = Inr ()"
  shows "length (text_field ''name'' a) \<le> MAX_ARTIFACT_FIELD_LENGTH" "length (text_field ''uri'' a) \<le> MAX_ARTIFACT_FIELD_LENGTH"
    and "text_field ''uri'' a = [] \<or> public_uri parse (text_field ''uri'' a)"
  using assms by (auto simp: validate_artifact_def Let_def validateArtifactUri_ok split: if_splits)


definition rt_demo_parse :: url_parser where
  "rt_demo_parse uri = Some \<lparr>u_protocol = ''https:'', u_hostname = ''a.org'', u_port = []\<rparr>"

definition rt_demo_result :: json where
  "rt_demo_result = JObj [(''ok'', JBool True), (''status'', JStr ''completed''), (''output'', JStr ''o''),
     (''artifacts'', JArr [JObj [(''name'', JStr ''n''), (''uri'', JStr ''https://a.org/x'')]])]"

definition rt_demo_task :: agent_task where
  "rt_demo_task = \<lparr>at_taskId = ''t'', at_protocol = ''erc8183'', at_role = ''provider'', at_agentId = ''1'', at_input = JNull,
     at_metadata = [(''jobId'', JStr ''7''), (''walletKey'', JStr ''k'')]\<rparr>"

lemma rt_demo_accepted:
  "openclaw_run rt_demo_parse Inr 1000 ''u'' (\<lambda>_. Response 200 (Inr rt_demo_result)) rt_demo_task = Inr rt_demo_result"
proof -
  have sizes: "length (json_text (coalesce (jget ''output'' rt_demo_result) (JStr []))) \<le> 10" "length (json_text rt_demo_result) \<le> 200"
    by code_simp+
  have shape: "jget ''status'' rt_demo_result = JStr ''completed''" "json_items (jget ''actionRequests'' rt_demo_result) = []"
      "json_items (jget ''paymentRequests'' rt_demo_result) = []"
      "json_items (jget ''artifacts'' rt_demo_result) = [JObj [(''name'', JStr ''n''), (''uri'', JStr ''https://a.org/x'')]]"
    by code_simp+
  have uri: "validateArtifactUri rt_demo_parse ''https://a.org/x'' = Inr ()" by code_simp
  show ?thesis using sizes
    by (simp add: openclaw_run_def response_ok_def validateOpenClawResponse_def Let_def shape validate_artifact_def text_field_def
        uri MAX_FULL_RESULT_BYTES_def MAX_RESULT_ARTIFACTS_def MAX_ARTIFACT_FIELD_LENGTH_def)
qed


section \<open>Errors\<close>

definition stable_error :: "runner_error \<Rightarrow> bool" where
  \<comment> \<open>one of the codes of \<open>RuntimeErrorCode\<close>, as a gateway error\<close>
  "stable_error e \<longleftrightarrow> err_code e \<in> {''RUNTIME_TIMEOUT'', ''RUNTIME_AUTH_FAILED'', ''RUNTIME_RATE_LIMITED'',
      ''RUNTIME_UNAVAILABLE'', ''RUNTIME_INVALID_RESPONSE'', ''RUNTIME_ERROR''}
     \<and> err_status e = (if err_code e = ''RUNTIME_TIMEOUT'' then 504 else 502)"

lemma stable_codes:
  "stable_error (RunnerError ''RUNTIME_TIMEOUT'' m 504)" "stable_error (RunnerError ''RUNTIME_AUTH_FAILED'' m 502)"
  "stable_error (RunnerError ''RUNTIME_RATE_LIMITED'' m 502)" "stable_error (RunnerError ''RUNTIME_UNAVAILABLE'' m 502)"
  "stable_error (RunnerError ''RUNTIME_ERROR'' m 502)" "stable_error (RunnerError ''RUNTIME_INVALID_RESPONSE'' m 502)"
  by (simp_all add: stable_error_def)

lemmas stable_invalid = stable_codes(6)

lemma stable_if: "stable_error x \<Longrightarrow> stable_error y \<Longrightarrow> stable_error (if b then x else y)"
  by simp

lemma stable_map: "stable_error (mapRuntimeError parse fault status endpoint)"
proof (cases fault)
  case (FaultRunner e)
  then show ?thesis
    by (cases status; simp only: mapRuntimeError_def Let_def runtime_fault.case option.case; intro stable_if stable_codes)
next
  case (FaultAbort m)
  then show ?thesis by (simp only: mapRuntimeError_def Let_def runtime_fault.case; intro stable_codes)
next
  case (FaultError m)
  then show ?thesis
    by (cases status; simp only: mapRuntimeError_def Let_def runtime_fault.case option.case; intro stable_if stable_codes)
next
  case (FaultOther m)
  then show ?thesis
    by (cases status; simp only: mapRuntimeError_def Let_def runtime_fault.case option.case; intro stable_if stable_codes)
qed

lemma stable_rethrow: "\<forall>e. fault \<noteq> FaultRunner e \<Longrightarrow> stable_error (rethrow parse endpoint fault)"
  by (cases fault) (simp_all add: rethrow_def stable_map)

lemma stable_uri: "validateArtifactUri parse uri = Inl e \<Longrightarrow> stable_error e"
  using stable_invalid by (auto simp: validateArtifactUri_def Let_def split: option.splits if_splits)

lemma stable_artifact: "validate_artifact parse a = Inl e \<Longrightarrow> stable_error e"
  using stable_invalid stable_uri by (auto simp: validate_artifact_def Let_def bindR_Inl_iff split: if_splits)

lemma stable_artifacts: "for_each (validate_artifact parse) as = Inl e \<Longrightarrow> stable_error e"
  by (induction as) (auto simp: bindR_Inl_iff dest: stable_artifact)

lemma stable_validation: "validateOpenClawResponse parse schema limit v = Inl e \<Longrightarrow> stable_error e"
  using stable_invalid stable_artifacts
  by (auto simp: validateOpenClawResponse_def Let_def bindR_Inl_iff split: sum.splits if_splits)

text \<open>Every failure of a run, of whichever connector and whatever the network does, is a runner error with
  one of the six stable codes and the status of a gateway error, 504 exactly for a time-out.\<close>

theorem runtime_errors_are_stable:
  assumes "runtime_run parse schema kind endpoint network task = Inl e"
    and "\<forall>body fault. network body = NoAnswer fault \<longrightarrow> (\<forall>r. fault \<noteq> FaultRunner r)"
  shows "stable_error e"
proof (cases "kind = OpenClawConnector")
  case True
  let ?answer = "network (task_json (sanitizeTaskForUntrustedRuntime task))"
  show ?thesis
  proof (cases ?answer)
    case (NoAnswer fault)
    with assms True show ?thesis
      using stable_rethrow [of fault parse endpoint] by (simp add: runtime_run_def openclaw_run_def)
  next
    case (Response status body)
    with assms(1) True show ?thesis
      using stable_map stable_invalid stable_rethrow stable_validation
      by (auto simp: runtime_run_def openclaw_run_def split: if_splits sum.splits runtime_fault.splits)
  qed
next
  case False
  then have run: "http_run parse schema endpoint network task = Inl e"
    using assms(1) by (cases kind) (simp_all add: runtime_run_def)
  show ?thesis
  proof (cases "network (task_json task)")
    case (NoAnswer fault)
    with assms(2) run show ?thesis
      using stable_rethrow [of fault parse endpoint] by (simp add: http_run_def)
  next
    case (Response status body)
    with run show ?thesis
      using stable_map stable_invalid stable_rethrow
      by (auto simp: http_run_def split: if_splits sum.splits)
  qed
qed

theorem runtime_errors_are_stable_witness:
  "\<exists>e. runtime_run rt_demo_parse Inr OpenClawConnector ''u'' (\<lambda>_. Response 200 (Inl (FaultAbort ''aborted''))) rt_demo_task = Inl e
     \<and> stable_error e \<and> err_status e = 504"
proof -
  let ?e = "RunnerError ''RUNTIME_TIMEOUT'' ''Runtime request timed out'' 504"
  have run: "runtime_run rt_demo_parse Inr OpenClawConnector ''u'' (\<lambda>_. Response 200 (Inl (FaultAbort ''aborted''))) rt_demo_task = Inl ?e"
    by (simp add: runtime_run_def openclaw_run_def response_ok_def rethrow_def mapRuntimeError_def Let_def)
  have "\<forall>body fault. (\<lambda>_. Response 200 (Inl (FaultAbort ''aborted''))) (body :: json) = NoAnswer fault \<longrightarrow> (\<forall>r. fault \<noteq> FaultRunner r)"
    by simp
  from runtime_errors_are_stable [OF run this] run show ?thesis by simp
qed

end
