(* ===== verification/Provider_Jobs.thy ===== *)
theory Provider_Jobs
  imports Job_Writes Payment_Ledger Runtime_Connector Worker_Effects
begin

text \<open>
  The job runs of \<open>RunnerServices\<close> (\<open>services.ts\<close>): a generic task, a provider job without and with the
  submission on chain, and the submission alone, over the effects of \<open>Worker_Effects\<close>. A task id is
  reserved before the dispatch and marked after it; the three callbacks come together or not at all.
  The task and job schemas are parameters.
\<close>

record job_services =
  js_config :: runner_config
  js_kind :: string
  js_endpoint :: "string option"
  js_url :: url_parser
  js_task_schema :: schema
  js_job_schema :: schema
  js_crypto :: crypto

type_synonym job_answer = "thrown + json"

text \<open>Whether the router passed the lifecycle callbacks.\<close>

type_synonym lifecycle = bool

definition deliverable_hash :: "crypto \<Rightarrow> json \<Rightarrow> string" where
  \<comment> \<open>\<open>erc8183Hash\<close> of a value\<close>
  "deliverable_hash c v = erc8183Hash c (case v of JStr s \<Rightarrow> s | _ \<Rightarrow> json_text v)"

definition reserve_task :: "worker_env \<Rightarrow> lifecycle \<Rightarrow> string \<Rightarrow> string \<Rightarrow> job_answer act \<Rightarrow> job_answer act" where
  "reserve_task env life taskId agentId k =
     (if life then perform env (ReserveTask taskId agentId) (\<lambda>r. case r of
          Threw text m \<Rightarrow> return (Inl (ThrownError m)) | Got _ \<Rightarrow> k)
      else k)"

definition mark_task :: "(string \<Rightarrow> string \<Rightarrow> effect) \<Rightarrow> lifecycle \<Rightarrow> string \<Rightarrow> string \<Rightarrow> 'a act \<Rightarrow> 'a act" where
  "mark_task mark life taskId agentId k = (if life then note_effect (mark taskId agentId) k else k)"

definition dispatch_checks :: "runner_config \<Rightarrow> string \<Rightarrow> string \<Rightarrow> thrown + unit" where
  "dispatch_checks cfg agentId role = bindR (assertAgentIdentity cfg agentId) (\<lambda>_. assertRoleAllowed cfg role)"

definition endpoint_host :: "job_services \<Rightarrow> string" where
  "endpoint_host s = safeHostFromUrl (js_url s) (or_else (js_endpoint s) [])"

definition as_task :: "json \<Rightarrow> agent_task" where
  "as_task v = \<lparr>at_taskId = text_field ''taskId'' v, at_protocol = text_field ''protocol'' v, at_role = text_field ''role'' v,
     at_agentId = text_field ''agentId'' v, at_input = jget ''input'' v,
     at_metadata = (case jget ''metadata'' v of JObj kvs \<Rightarrow> kvs | _ \<Rightarrow> [])\<rparr>"

section \<open>A generic task\<close>

definition generic_receipt :: "job_services \<Rightarrow> agent_task \<Rightarrow> json \<Rightarrow> json" where
  \<comment> \<open>without the duration\<close>
  "generic_receipt s task result =
     (let request = (if js_kind s = ''openclaw'' then sanitizeTaskForUntrustedRuntime task else task)
      in JObj [(''type'', JStr ''runtime_result''), (''taskId'', JStr (at_taskId task)), (''agentId'', JStr (at_agentId task)),
           (''request'', task_json request), (''response'', result),
           (''proof'', JObj [(''sha256'', JStr (sha256Json (js_crypto s) result)), (''runtimeKind'', JStr (js_kind s)),
              (''responseHash'', JStr (sha256Json (js_crypto s) result)), (''sanitized'', JBool (js_kind s = ''openclaw'')),
              (''responseValidated'', JBool True), (''endpointHost'', JStr (endpoint_host s))])])"

definition runGeneric :: "worker_env \<Rightarrow> job_services \<Rightarrow> lifecycle \<Rightarrow> json \<Rightarrow> job_answer act" where
  "runGeneric env s life body =
     (case js_task_schema s body of
        Inl issues \<Rightarrow> return (Inl (zod_error issues))
      | Inr parsed \<Rightarrow>
          (let task = as_task parsed; taskId = at_taskId task; agentId = at_agentId task
           in case dispatch_checks (js_config s) agentId (at_role task) of
                Inl e \<Rightarrow> return (Inl e)
              | Inr _ \<Rightarrow>
                  reserve_task env life taskId agentId
                  (perform env (RunRuntime (task_json task)) (\<lambda>r. case r of
                       Threw text m \<Rightarrow> mark_task MarkTaskFailed life taskId agentId (return (Inl (ThrownError m)))
                     | Got result \<Rightarrow>
                         mark_task MarkTaskCompleted life taskId agentId
                         (perform env (AppendReceipt (generic_receipt s task result)) (\<lambda>r. case r of
                              Threw text m \<Rightarrow> mark_task MarkTaskFailed life taskId agentId (return (Inl (ThrownError m)))
                            | Got receipt \<Rightarrow>
                                return (Inr (JObj [(''ok'', JBool True), (''result'', result), (''receipt'', receipt)]))))))))"

section \<open>A provider job\<close>

definition job_task :: "json \<Rightarrow> agent_task" where
  \<comment> \<open>the metadata of the job with its own four fields over it\<close>
  "job_task job = \<lparr>at_taskId = text_field ''taskId'' job, at_protocol = ''erc8183'', at_role = ''provider'',
     at_agentId = text_field ''agentId'' job, at_input = jget ''input'' job,
     at_metadata = fold (\<lambda>k. jsmap_set k (jget k job)) [''jobId'', ''provider'', ''evaluator'', ''description'']
       (case jget ''metadata'' job of JObj kvs \<Rightarrow> kvs | _ \<Rightarrow> [])\<rparr>"

definition job_receipt_request :: "job_services \<Rightarrow> json \<Rightarrow> json" where
  "job_receipt_request s job =
     (if js_kind s = ''openclaw'' then
        task_json (sanitizeTaskForUntrustedRuntime \<lparr>at_taskId = text_field ''taskId'' job, at_protocol = ''erc8183'', at_role = ''provider'',
          at_agentId = text_field ''agentId'' job, at_input = jget ''input'' job,
          at_metadata = map (\<lambda>k. (k, jget k job)) [''jobId'', ''provider'', ''evaluator'', ''description'']\<rparr>)
      else JObj (map (\<lambda>k. (k, jget k job)) [''jobId'', ''provider'', ''description'']))"

definition provider_receipt :: "job_services \<Rightarrow> json \<Rightarrow> json \<Rightarrow> string \<Rightarrow> json" where
  "provider_receipt s job result hash =
     JObj [(''type'', JStr ''runtime_result''), (''taskId'', jget ''taskId'' job), (''jobId'', jget ''jobId'' job),
       (''agentId'', jget ''agentId'' job), (''request'', job_receipt_request s job), (''response'', result),
       (''proof'', JObj [(''sha256'', JStr (sha256Json (js_crypto s) result)), (''deliverableHash'', JStr hash),
          (''runtimeKind'', JStr (js_kind s)), (''sanitized'', JBool (js_kind s = ''openclaw'')),
          (''endpointHost'', JStr (endpoint_host s))])]"

definition write_checkpoint :: "worker_env \<Rightarrow> json \<Rightarrow> (string \<times> json) list \<Rightarrow> 'a act \<Rightarrow> 'a act" where
  \<comment> \<open>a failure is ignored\<close>
  "write_checkpoint env job checkpoint k =
     perform env (CallTool ''provider.runtime_write_checkpoint'' (JObj [(''jobId'', jget ''jobId'' job), (''checkpoint'', JObj checkpoint)]))
       (\<lambda>_. k)"

definition not_completed :: "string \<Rightarrow> json \<Rightarrow> json \<Rightarrow> json" where
  "not_completed status result error =
     JObj [(''ok'', JBool False), (''status'', JStr status), (''role'', JStr ''provider''), (''result'', result), (''error'', error)]"

definition after_runtime :: "worker_env \<Rightarrow> job_services \<Rightarrow> lifecycle \<Rightarrow> json \<Rightarrow> json \<Rightarrow> json \<Rightarrow> job_answer act" where
  \<comment> \<open>steps 3 to 6: the result is parsed by the connector's schema, so its status is a text\<close>
  "after_runtime env s life job runId result =
     (let taskId = text_field ''taskId'' job; agentId = text_field ''agentId'' job; status = text_field ''status'' result
      in if \<not> jtruthy (jget ''ok'' result) \<or> status = ''failed'' then
           write_checkpoint env job [(''status'', JStr ''failed''),
               (''error'', coalesce (jget ''error'' result) (JStr ''Runtime returned failure''))]
             (mark_task MarkTaskFailed life taskId agentId
               (return (Inr (not_completed ''runtime_failure'' result
                 (coalesce (jget ''error'' result) (JStr ''Runtime returned ok=false or status=failed''))))))
         else if status \<noteq> ''completed'' then
           write_checkpoint env job [(''status'', jget ''status'' result), (''paymentRequests'', jget ''paymentRequests'' result),
               (''actionRequests'', jget ''actionRequests'' result)]
             (mark_task MarkTaskCompleted life taskId agentId
               (return (Inr (not_completed status result (JStr (''Runtime returned non-completed status: '' @ status))))))
         else
           (let hash = deliverable_hash (js_crypto s) (coalesce (jget ''output'' result) result)
            in perform env (AppendReceipt (provider_receipt s job result hash)) (\<lambda>r. case r of
                 Threw text m \<Rightarrow> mark_task MarkTaskFailed life taskId agentId (return (Inl (ThrownError m)))
               | Got receipt \<Rightarrow>
                   mark_task MarkTaskCompleted life taskId agentId
                     (return (Inr (JObj [(''ok'', JBool True), (''status'', JStr ''completed''), (''role'', JStr ''provider''),
                       (''result'', result), (''deliverableHash'', JStr hash), (''runId'', runId), (''receipt'', receipt)]))))))"

definition runProviderJob :: "worker_env \<Rightarrow> job_services \<Rightarrow> lifecycle \<Rightarrow> json \<Rightarrow> job_answer act" where
  "runProviderJob env s life body =
     (case js_job_schema s body of
        Inl issues \<Rightarrow> return (Inl (zod_error issues))
      | Inr job \<Rightarrow>
          (let taskId = text_field ''taskId'' job; agentId = text_field ''agentId'' job
           in case dispatch_checks (js_config s) agentId ''provider'' of
                Inl e \<Rightarrow> return (Inl e)
              | Inr _ \<Rightarrow>
                  reserve_task env life taskId agentId
                  (perform env (CallTool ''provider.runtime_start_job'' (JObj [(''jobId'', jget ''jobId'' job)]))
                    (\<lambda>started. perform env (RunRuntime (task_json (job_task job))) (\<lambda>r. case r of
                         Threw text m \<Rightarrow> mark_task MarkTaskFailed life taskId agentId (return (Inl (ThrownError m)))
                       | Got result \<Rightarrow>
                           after_runtime env s life job
                             (case started of Threw text m \<Rightarrow> JUndef | Got v \<Rightarrow> jget ''runId'' v) result)))))"

section \<open>The submission\<close>

definition is_numeric_id :: "string \<Rightarrow> bool" where
  \<comment> \<open>\<open>/^[0-9]+$/\<close>\<close>
  "is_numeric_id s \<longleftrightarrow> all_digits s"

definition submit_error :: "string \<Rightarrow> string \<Rightarrow> nat \<Rightarrow> job_answer act" where
  "submit_error c m status = return (Inl (ThrownRunner (RunnerError c m status)))"

definition submission_receipt :: "job_services \<Rightarrow> string \<Rightarrow> string \<Rightarrow> json \<Rightarrow> json \<Rightarrow> json \<Rightarrow> json" where
  "submission_receipt s jobId hash result preparedTx submitReceipt =
     (let response = JObj [(''result'', result), (''preparedTx'', preparedTx), (''submitReceipt'', submitReceipt)]
      in JObj [(''type'', JStr ''erc8183_submit''), (''jobId'', JStr jobId), (''agentId'', JStr (cf_agentId (js_config s))),
           (''request'', JObj [(''jobId'', JStr jobId), (''deliverableHash'', JStr hash)]), (''response'', response),
           (''proof'', JObj [(''deliverableHash'', JStr hash), (''sha256'', JStr (sha256Json (js_crypto s) response)),
              (''txHash'', jopt (find_tx_hash (json_text submitReceipt))), (''operationId'', jget ''operationId'' submitReceipt),
              (''idempotent'', jget ''idempotent'' submitReceipt)])])"

definition submitProviderDeliverable ::
  "worker_env \<Rightarrow> job_services \<Rightarrow> string \<Rightarrow> string \<Rightarrow> json \<Rightarrow> string option \<Rightarrow> job_answer act" where
  \<comment> \<open>\<open>SubmitOnChain\<close> is \<open>submitDeliverableViaWallet\<close>\<close>
  "submitProviderDeliverable env s jobId hash result optParams =
     (if \<not> is_numeric_id jobId then submit_error ''INVALID_JOB_ID'' ''jobId must be a numeric string'' 400
      else if \<not> is_bytes32 hash then
        submit_error ''INVALID_DELIVERABLE_HASH'' ''deliverableHash must be a valid bytes32 hex string'' 400
      else if text_field ''status'' result \<noteq> ''completed'' then
        submit_error ''RUNTIME_NOT_SUBMITTABLE''
          (''Cannot submit provider deliverable for runtime status: '' @ js_text (coalesce (jget ''status'' result) (JStr ''unknown''))) 422
      else
        perform env (CallTool ''provider.prepare_submit_job'' (JObj [(''jobId'', JStr jobId), (''deliverableHash'', JStr hash)]))
          (\<lambda>p. let preparedTx = (case p of Threw text m \<Rightarrow> JNull | Got v \<Rightarrow> v)
            in if \<not> truthy (cf_wallet (js_config s)) then
                 return (Inr (JObj [(''ok'', JBool False), (''mode'', JStr ''prepared-only''),
                   (''reason'', JStr ''CIRCLE_WALLET_ADDRESS not configured''), (''preparedTx'', preparedTx),
                   (''prepared'', JObj [(''jobId'', JStr jobId), (''deliverableHash'', JStr hash), (''result'', result),
                      (''optParams'', jopt optParams)])]))
               else
                 perform env (SubmitOnChain (JObj [(''jobId'', JStr jobId), (''deliverableHash'', JStr hash),
                     (''optParams'', JStr (or_else optParams ''0x''))]))
                   (\<lambda>r. case r of
                      Threw text m \<Rightarrow> return (Inl (ThrownError m))
                    | Got submitReceipt \<Rightarrow>
                        if is_object submitReceipt \<and> jget ''ok'' submitReceipt \<noteq> JUndef \<and> \<not> jtruthy (jget ''ok'' submitReceipt) then
                          return (Inr (JObj [(''ok'', JBool False), (''status'', JStr ''prepared-only''), (''deliverableHash'', JStr hash),
                            (''preparedTx'', preparedTx), (''submitReceipt'', submitReceipt),
                            (''error'', coalesce (jget ''reason'' submitReceipt) (JStr ''On-chain submit not available''))]))
                        else
                          perform env (AppendReceipt (submission_receipt s jobId hash result preparedTx submitReceipt)) (\<lambda>r. case r of
                              Threw text m \<Rightarrow> return (Inl (ThrownError m))
                            | Got receipt \<Rightarrow>
                                return (Inr (JObj [(''ok'', JBool True), (''deliverableHash'', JStr hash), (''preparedTx'', preparedTx),
                                  (''submitReceipt'', submitReceipt), (''receipt'', receipt)])))))) "

section \<open>Run and submit\<close>

definition then_act :: "'a act \<Rightarrow> ('a \<Rightarrow> 'b act) \<Rightarrow> 'b act" where
  \<comment> \<open>\<open>await\<close> of a method, then the rest\<close>
  "then_act m k h = (case m h of (r, es) \<Rightarrow> map_prod id ((@) es) (k r (h @ es)))"

definition completeJobRun :: "worker_env \<Rightarrow> string \<Rightarrow> json \<Rightarrow> json \<Rightarrow> 'a act \<Rightarrow> 'a act" where
  \<comment> \<open>the connector calls the console only with a run id; a failure is logged\<close>
  "completeJobRun env jobId output runId k =
     (if \<not> jtruthy runId then k
      else perform env (CallTool ''provider.runtime_complete_run''
             (JObj [(''jobId'', JStr jobId), (''result'', output), (''runId'', runId)])) (\<lambda>_. k))"

definition runAndSubmitProviderJob :: "worker_env \<Rightarrow> job_services \<Rightarrow> lifecycle \<Rightarrow> json \<Rightarrow> job_answer act" where
  "runAndSubmitProviderJob env s life body =
     then_act (runProviderJob env s life body) (\<lambda>r. case r of
         Inl e \<Rightarrow> return (Inl e)
       | Inr runResult \<Rightarrow>
           if \<not> jtruthy (jget ''ok'' runResult) \<or> jget ''status'' runResult \<noteq> JStr ''completed'' then return (Inr runResult)
           else
             (case js_job_schema s body of
                Inl issues \<Rightarrow> return (Inl (zod_error issues))
              | Inr job \<Rightarrow>
                  (let jobId = text_field ''jobId'' job; result = jget ''result'' runResult; hash = jget ''deliverableHash'' runResult
                   in then_act (submitProviderDeliverable env s jobId (or_else (jstr_opt hash) []) result (Some ''0x''))
                        (\<lambda>r. case r of
                           Inl e \<Rightarrow> return (Inl e)
                         | Inr submitResult \<Rightarrow>
                             if \<not> jtruthy (jget ''ok'' submitResult) then
                               return (Inr (JObj [(''ok'', JBool False), (''status'', JStr ''submit_failure''), (''role'', JStr ''provider''),
                                 (''result'', result), (''deliverableHash'', hash), (''submitReceipt'', jget ''submitReceipt'' submitResult),
                                 (''error'', coalesce (jget ''error'' submitResult) (JStr ''On-chain submit failed''))]))
                             else
                               completeJobRun env jobId (jget ''output'' result) (jget ''runId'' runResult)
                                 (return (Inr (JObj [(''ok'', JBool True), (''status'', JStr ''completed''), (''role'', JStr ''provider''),
                                   (''result'', result), (''deliverableHash'', hash), (''runId'', jget ''runId'' runResult),
                                   (''submitReceipt'', jget ''submitReceipt'' submitResult), (''receipt'', jget ''receipt'' submitResult)])))))))"

definition runErc8183ProviderJob :: "worker_env \<Rightarrow> job_services \<Rightarrow> lifecycle \<Rightarrow> json \<Rightarrow> job_answer act" where
  "runErc8183ProviderJob env s life body = runAndSubmitProviderJob env s life body"

end
