(* ===== verification/Run_Properties.thy ===== *)
theory Run_Properties
  imports Provider_Jobs Ttl_Stores
begin

text \<open>
  What a job run of the services dispatches and submits, over every world that answers it.
\<close>

section \<open>Effects of the steps\<close>

fun is_task_mark :: "effect \<Rightarrow> bool" where
  "is_task_mark (ReserveTask _ _) = True"
| "is_task_mark (MarkTaskCompleted _ _) = True"
| "is_task_mark (MarkTaskFailed _ _) = True"
| "is_task_mark _ = False"

fun is_onchain :: "effect \<Rightarrow> bool" where
  "is_onchain (SubmitOnChain _) = True"
| "is_onchain _ = False"

fun is_runtime :: "effect \<Rightarrow> bool" where
  "is_runtime (RunRuntime _) = True"
| "is_runtime _ = False"

lemma then_act_sel [simp]:
  "fst (then_act m k h) = fst (k (fst (m h)) (h @ snd (m h)))"
  "snd (then_act m k h) = snd (m h) @ snd (k (fst (m h)) (h @ snd (m h)))"
  by (simp_all add: then_act_def case_prod_beta)

lemma mark_task_sel [simp]:
  "fst (mark_task mark life t a (return r) h) = r"
  "snd (mark_task mark life t a (return r) h) = (if life then [mark t a] else [])"
  by (simp_all add: mark_task_def)

lemma write_checkpoint_sel [simp]:
  "fst (write_checkpoint env job cp k h) = fst (k (h @ [CallTool ''provider.runtime_write_checkpoint''
     (JObj [(''jobId'', jget ''jobId'' job), (''checkpoint'', JObj cp)])]))"
  "filter P (snd (write_checkpoint env job cp k h)) =
     (if P (CallTool ''provider.runtime_write_checkpoint'' (JObj [(''jobId'', jget ''jobId'' job), (''checkpoint'', JObj cp)]))
      then [CallTool ''provider.runtime_write_checkpoint'' (JObj [(''jobId'', jget ''jobId'' job), (''checkpoint'', JObj cp)])] else [])
     @ filter P (snd (k (h @ [CallTool ''provider.runtime_write_checkpoint''
         (JObj [(''jobId'', jget ''jobId'' job), (''checkpoint'', JObj cp)])])))"
  by (simp_all add: write_checkpoint_def)

lemma after_runtime_marks:
  "\<exists>mark\<in>{MarkTaskCompleted, MarkTaskFailed}.
     filter is_task_mark (snd (after_runtime env s True job runId result h)) = [mark (text_field ''taskId'' job) (text_field ''agentId'' job)]"
  by (auto simp: after_runtime_def Let_def split: reply.splits)

lemma after_runtime_quiet:
  "filter is_onchain (snd (after_runtime env s life job runId result h)) = []"
  "filter is_runtime (snd (after_runtime env s life job runId result h)) = []"
  by (auto simp: after_runtime_def Let_def split: reply.splits)

lemma after_runtime_completed:
  assumes "fst (after_runtime env s life job runId result h) = Inr answer" "jtruthy (jget ''ok'' answer)"
  shows "jtruthy (jget ''ok'' result)" "text_field ''status'' result = ''completed''"
    and "jget ''result'' answer = result"
    and "jget ''deliverableHash'' answer = JStr (deliverable_hash (js_crypto s) (coalesce (jget ''output'' result) result))"
  using assms by (auto simp: after_runtime_def Let_def not_completed_def split: if_splits reply.splits)

section \<open>One dispatch\<close>

lemma provider_dispatch:
  assumes "RunRuntime x \<in> set (snd (runProviderJob env s life body h))"
  shows "\<exists>job hist. js_job_schema s body = Inr job \<and> x = task_json (job_task job)
    \<and> dispatch_checks (js_config s) (text_field ''agentId'' job) ''provider'' = Inr ()
    \<and> (life \<longrightarrow> (\<exists>v. wk_reply env h (ReserveTask (text_field ''taskId'' job) (text_field ''agentId'' job)) = Got v))
    \<and> filter is_runtime (snd (runProviderJob env s life body h)) = [RunRuntime x]"
proof -
  obtain job where job: "js_job_schema s body = Inr job"
    using assms by (cases "js_job_schema s body") (simp_all add: runProviderJob_def)
  have checks: "dispatch_checks (js_config s) (text_field ''agentId'' job) ''provider'' = Inr ()"
    using assms job by (cases "dispatch_checks (js_config s) (text_field ''agentId'' job) ''provider''")
      (simp_all add: runProviderJob_def Let_def)
  have reserved: "\<exists>v. wk_reply env h (ReserveTask (text_field ''taskId'' job) (text_field ''agentId'' job)) = Got v" if life
    using assms job checks that
    by (cases "wk_reply env h (ReserveTask (text_field ''taskId'' job) (text_field ''agentId'' job))")
      (simp_all add: runProviderJob_def Let_def reserve_task_def)
  have "filter is_runtime (snd (runProviderJob env s life body h)) = [RunRuntime (task_json (job_task job))]"
  proof (cases life)
    case True
    with reserved job checks show ?thesis
      by (auto simp: runProviderJob_def Let_def reserve_task_def after_runtime_quiet split: reply.splits)
  next
    case False
    with job checks show ?thesis
      by (auto simp: runProviderJob_def Let_def reserve_task_def after_runtime_quiet split: reply.splits)
  qed
  moreover have "RunRuntime x \<in> set (filter is_runtime (snd (runProviderJob env s life body h)))" using assms by simp
  ultimately show ?thesis using job checks reserved by auto
qed


lemma provider_marks:
  assumes "RunRuntime x \<in> set (snd (runProviderJob env s True body h))" "js_job_schema s body = Inr job"
  shows "\<exists>mark\<in>{MarkTaskCompleted, MarkTaskFailed}. filter is_task_mark (snd (runProviderJob env s True body h)) =
    [ReserveTask (text_field ''taskId'' job) (text_field ''agentId'' job), mark (text_field ''taskId'' job) (text_field ''agentId'' job)]"
proof -
  from provider_dispatch [OF assms(1)] assms(2) obtain v where
    d: "dispatch_checks (js_config s) (text_field ''agentId'' job) ''provider'' = Inr ()"
      "wk_reply env h (ReserveTask (text_field ''taskId'' job) (text_field ''agentId'' job)) = Got v" by auto
  let ?start = "CallTool ''provider.runtime_start_job'' (JObj [(''jobId'', jget ''jobId'' job)])"
  let ?h = "h @ [ReserveTask (text_field ''taskId'' job) (text_field ''agentId'' job), ?start]"
  show ?thesis
  proof (cases "wk_reply env ?h (RunRuntime (task_json (job_task job)))")
    case (Threw t m)
    with d assms(2) show ?thesis by (simp add: runProviderJob_def Let_def reserve_task_def)
  next
    case (Got result)
    let ?run = "case wk_reply env (h @ [ReserveTask (text_field ''taskId'' job) (text_field ''agentId'' job)]) ?start of
        Threw text m \<Rightarrow> JUndef | Got v \<Rightarrow> jget ''runId'' v"
    from after_runtime_marks [of env s job ?run result "?h @ [RunRuntime (task_json (job_task job))]"]
    show ?thesis using Got d assms(2) by (simp add: runProviderJob_def Let_def reserve_task_def)
  qed
qed

lemma completed_run:
  assumes "fst (runProviderJob env s life body h) = Inr answer" "jtruthy (jget ''ok'' answer)"
  shows "\<exists>job result hist. js_job_schema s body = Inr job \<and> wk_reply env hist (RunRuntime (task_json (job_task job))) = Got result
    \<and> jtruthy (jget ''ok'' result) \<and> text_field ''status'' result = ''completed'' \<and> jget ''result'' answer = result
    \<and> jget ''deliverableHash'' answer = JStr (deliverable_hash (js_crypto s) (coalesce (jget ''output'' result) result))"
proof -
  obtain job where job: "js_job_schema s body = Inr job"
    using assms by (cases "js_job_schema s body") (simp_all add: runProviderJob_def)
  have checks: "dispatch_checks (js_config s) (text_field ''agentId'' job) ''provider'' = Inr ()"
    using assms job by (cases "dispatch_checks (js_config s) (text_field ''agentId'' job) ''provider''")
      (simp_all add: runProviderJob_def Let_def)
  let ?reserve = "ReserveTask (text_field ''taskId'' job) (text_field ''agentId'' job)"
  let ?start = "CallTool ''provider.runtime_start_job'' (JObj [(''jobId'', jget ''jobId'' job)])"
  have reserved: "\<exists>v. wk_reply env h ?reserve = Got v" if life
    using assms job checks that by (cases "wk_reply env h ?reserve") (simp_all add: runProviderJob_def Let_def reserve_task_def)
  define g where "g = (if life then h @ [?reserve] else h)"
  have run: "fst (runProviderJob env s life body h) =
      (case wk_reply env (g @ [?start]) (RunRuntime (task_json (job_task job))) of
         Threw text m \<Rightarrow> Inl (ThrownError m)
       | Got result \<Rightarrow> fst (after_runtime env s life job (case wk_reply env g ?start of Threw text m \<Rightarrow> JUndef | Got v \<Rightarrow> jget ''runId'' v)
           result (g @ [?start, RunRuntime (task_json (job_task job))])))"
    using job checks reserved by (cases life) (auto simp: g_def runProviderJob_def Let_def reserve_task_def split: reply.splits)
  then obtain result where got: "wk_reply env (g @ [?start]) (RunRuntime (task_json (job_task job))) = Got result"
    using assms by (cases "wk_reply env (g @ [?start]) (RunRuntime (task_json (job_task job)))") simp_all
  with run assms(1) have "fst (after_runtime env s life job (case wk_reply env g ?start of Threw text m \<Rightarrow> JUndef | Got v \<Rightarrow> jget ''runId'' v)
      result (g @ [?start, RunRuntime (task_json (job_task job))])) = Inr answer" by simp
  from after_runtime_completed [OF this assms(2)] got job show ?thesis by blast
qed

lemma provider_quiet: "filter is_onchain (snd (runProviderJob env s life body h)) = []"
  by (auto simp: runProviderJob_def Let_def reserve_task_def after_runtime_quiet split: sum.splits reply.splits)

section \<open>Submissions\<close>

definition onchain_args :: "string \<Rightarrow> string \<Rightarrow> string option \<Rightarrow> json" where
  "onchain_args jobId hash optParams = JObj [(''jobId'', JStr jobId), (''deliverableHash'', JStr hash), (''optParams'', JStr (or_else optParams ''0x''))]"

lemma submit_only:
  assumes "SubmitOnChain a \<in> set (snd (submitProviderDeliverable env s jobId hash result optParams h))"
  shows "is_numeric_id jobId \<and> is_bytes32 hash \<and> text_field ''status'' result = ''completed'' \<and> truthy (cf_wallet (js_config s))
    \<and> a = onchain_args jobId hash optParams
    \<and> filter is_onchain (snd (submitProviderDeliverable env s jobId hash result optParams h)) = [SubmitOnChain a]"
proof -
  have ok: "is_numeric_id jobId" "is_bytes32 hash" "text_field ''status'' result = ''completed''" "truthy (cf_wallet (js_config s))"
    using assms by (auto simp: submitProviderDeliverable_def submit_error_def Let_def split: if_splits)
  with assms show ?thesis
    by (auto simp: submitProviderDeliverable_def Let_def onchain_args_def split: reply.splits if_splits)
qed

lemma completeJobRun_sel [simp]:
  "filter is_onchain (snd (completeJobRun env jobId output runId (return r) h)) = []"
  by (simp add: completeJobRun_def)

text \<open>C35: Whatever the console, the runtime and the wallet answer, a provider run submits on chain only after the
  runtime answered that this job is completed, the hash of exactly that answer, for a numeric job id and
  from a configured wallet, and at most once.\<close>

theorem run_submits_runtime_answer:
  assumes "SubmitOnChain a \<in> set (snd (runAndSubmitProviderJob env s life body h))"
  shows "\<exists>job result hist. js_job_schema s body = Inr job
     \<and> wk_reply env hist (RunRuntime (task_json (job_task job))) = Got result
     \<and> jtruthy (jget ''ok'' result) \<and> text_field ''status'' result = ''completed''
     \<and> a = onchain_args (text_field ''jobId'' job) (deliverable_hash (js_crypto s) (coalesce (jget ''output'' result) result)) (Some ''0x'')
     \<and> is_numeric_id (text_field ''jobId'' job) \<and> truthy (cf_wallet (js_config s))
     \<and> filter is_onchain (snd (runAndSubmitProviderJob env s life body h)) = [SubmitOnChain a]"
proof -
  let ?m = "runProviderJob env s life body"
  have quiet: "SubmitOnChain a \<notin> set (snd (?m h))"
    using provider_quiet [of env s life body h] by (auto simp: filter_empty_conv)
  obtain answer where answer: "fst (?m h) = Inr answer"
    using assms quiet by (cases "fst (?m h)") (simp_all add: runAndSubmitProviderJob_def)
  have ok: "jtruthy (jget ''ok'' answer)" "jget ''status'' answer = JStr ''completed''"
    using assms quiet answer by (auto simp: runAndSubmitProviderJob_def split: if_splits)
  obtain job result hist where r: "js_job_schema s body = Inr job"
      "wk_reply env hist (RunRuntime (task_json (job_task job))) = Got result" "jtruthy (jget ''ok'' result)"
      "text_field ''status'' result = ''completed''" "jget ''result'' answer = result"
      "jget ''deliverableHash'' answer = JStr (deliverable_hash (js_crypto s) (coalesce (jget ''output'' result) result))"
    using completed_run [OF answer ok(1)] by blast
  let ?hash = "deliverable_hash (js_crypto s) (coalesce (jget ''output'' result) result)"
  let ?sub = "submitProviderDeliverable env s (text_field ''jobId'' job) ?hash result (Some ''0x'')"
  have rest: "\<exists>t. snd (runAndSubmitProviderJob env s life body h) = snd (?m h) @ snd (?sub (h @ snd (?m h))) @ t \<and> filter is_onchain t = []"
    using answer ok r(1,5,6)
    by (auto simp: runAndSubmitProviderJob_def Let_def completeJobRun_def split: sum.splits)
  then obtain t where t: "snd (runAndSubmitProviderJob env s life body h) = snd (?m h) @ snd (?sub (h @ snd (?m h))) @ t"
      "filter is_onchain t = []" by blast
  have "SubmitOnChain a \<notin> set t" using t(2) by (auto simp: filter_empty_conv)
  with assms quiet t(1) have sub: "SubmitOnChain a \<in> set (snd (?sub (h @ snd (?m h))))" by auto
  note s = submit_only [OF sub]
  have "filter is_onchain (snd (runAndSubmitProviderJob env s life body h)) = [SubmitOnChain a]"
    using s provider_quiet t by simp
  with r(1-4) s show ?thesis by blast
qed


section \<open>A run for the witnesses\<close>

definition run_demo_services :: job_services where
  "run_demo_services = \<lparr>js_config = demo_config\<lparr>cf_allowedRoles := [''provider'']\<rparr>, js_kind = ''hermes'', js_endpoint = None,
     js_url = (\<lambda>_. None), js_task_schema = Inr, js_job_schema = Inr,
     js_crypto = \<lparr>sha256_hex = id, keccak_hex = (\<lambda>_. ''0x'' @ replicate 64 CHR ''a'')\<rparr>\<rparr>"

definition run_demo_reply :: "effect list \<Rightarrow> effect \<Rightarrow> reply" where
  "run_demo_reply h e =
     (case e of RunRuntime t \<Rightarrow> Got (JObj [(''ok'', JBool True), (''status'', JStr ''completed''), (''output'', JStr ''o'')])
      | _ \<Rightarrow> Got (JObj [(''ok'', JBool True)]))"

definition run_demo_env :: worker_env where
  "run_demo_env = \<lparr>wk_reply = run_demo_reply, wk_iso = (\<lambda>_. []), wk_seconds = (\<lambda>_. 0),
     wk_docs = \<lparr>dc_envelope = Inr, dc_deliverable = Inr, dc_verdict = Inr, dc_num = id, dc_keccak = id\<rparr>, wk_runtime = Inr\<rparr>"

definition run_demo_job :: json where
  "run_demo_job = JObj [(''taskId'', JStr ''t''), (''jobId'', JStr ''7''), (''agentId'', JStr ''1''), (''description'', JStr ''d'')]"

lemma is_onchainD: "is_onchain e \<Longrightarrow> \<exists>a. e = SubmitOnChain a"
  by (cases e) simp_all

lemma is_runtimeD: "is_runtime e \<Longrightarrow> \<exists>x. e = RunRuntime x"
  by (cases e) simp_all

lemma run_demo_submits: "list_ex is_onchain (snd (runAndSubmitProviderJob run_demo_env run_demo_services True run_demo_job []))"
  by code_simp

theorem run_submits_runtime_answer_witness:
  "\<exists>a. SubmitOnChain a \<in> set (snd (runAndSubmitProviderJob run_demo_env run_demo_services True run_demo_job []))
     \<and> filter is_onchain (snd (runAndSubmitProviderJob run_demo_env run_demo_services True run_demo_job [])) = [SubmitOnChain a]"
proof -
  obtain a where a: "SubmitOnChain a \<in> set (snd (runAndSubmitProviderJob run_demo_env run_demo_services True run_demo_job []))"
    using run_demo_submits unfolding list_ex_iff by (blast dest: is_onchainD)
  from run_submits_runtime_answer [OF a] a show ?thesis by blast
qed

section \<open>Dispatches\<close>


lemma run_demo_dispatches: "list_ex is_runtime (snd (runProviderJob run_demo_env run_demo_services True run_demo_job []))"
  by code_simp


end
