(* ===== verification/Run_Store.thy ===== *)
theory Run_Store
  imports Runner_Prelude Js_Numbers Json_Parser Usdc
begin

text \<open>
  The provider runtime store of the console (\<open>provider-runtime/store.ts\<close>): the four tables of
  migration 0025, the ownership check, and every operation on them. An operation is a sequence of
  database statements, numbered in the order the code awaits them, so it is a program that awaits one
  statement after the other: between two of them the programs of other callers may run. Each statement
  may fail, with or without its effect (\<open>sc_fault\<close>, which is arbitrary). Times are numbers; rows with
  equal times are ordered by insertion, which SQL leaves open. Log messages are left out.
\<close>

section \<open>Tables\<close>

record runtime_state =
  st_id :: string
  st_agent :: string
  st_role :: string
  st_controller :: "string option"
  st_status :: string
  st_job :: "string option"
  st_run :: "string option"
  st_checkpoint :: "string option"
  st_error :: "string option"
  st_seen :: "nat option"
  st_created :: nat
  st_updated :: nat

record job_run =
  jr_id :: string
  jr_agent :: string
  jr_role :: string
  jr_job :: string
  jr_status :: string
  jr_phase :: string
  jr_key :: string
  jr_started :: nat
  jr_completed :: "nat option"
  jr_updated :: nat

record checkpoint =
  cp_id :: string
  cp_run :: string
  cp_agent :: string
  cp_job :: string
  cp_role :: string
  cp_phase :: string
  cp_status :: string
  cp_tx :: "string option"
  cp_deliverable :: "string option"
  cp_payload :: "string option"
  cp_note :: "string option"
  cp_metadata :: json
  cp_created :: nat

record application =
  an_id :: string
  an_job :: string
  an_agent :: string
  an_address :: string
  an_status :: string
  an_atomic :: "string option"
  an_usdc :: "string option"
  an_message :: "string option"
  an_capabilities :: "string list"
  an_metadata :: json
  an_created :: nat
  an_updated :: nat

record run_store =
  rs_states :: "runtime_state list"
  rs_runs :: "job_run list"
  rs_checkpoints :: "checkpoint list"
  rs_applications :: "application list"

section \<open>Errors, callers and statements\<close>

text \<open>An \<open>McpError\<close>, another error with a \<open>code\<close>, or one without.\<close>

datatype store_error = McpFault string string | Coded string string | Uncoded string

type_synonym db_error = "string \<times> string"

record onchain_job =
  oj_provider :: string
  oj_expired :: int
  oj_status :: nat

record agent_row =
  ag_agent :: "string option"
  ag_token :: "string option"
  ag_controller :: "string option"

record mcp_session =
  ss_owner :: string
  ss_account :: "string option"

text \<open>What the ownership check reads: the agent table by each key, the owner on chain in lower case, the
  flag of the server rail, and whether the account of an owner is active.\<close>

record registry =
  rg_by_agent :: "string \<Rightarrow> db_error + agent_row option"
  rg_by_token :: "string \<Rightarrow> db_error + agent_row option"
  rg_owner_of :: "string \<Rightarrow> string option"
  rg_rail :: bool
  rg_account_active :: "string \<Rightarrow> string \<Rightarrow> bool"

text \<open>What one request to the indexer gives: an error, or a status, the header \<open>content-length\<close> and the body,
  which is empty when it cannot be read.\<close>

datatype fetch_answer = Unreachable string | Fetched nat "string option" string

text \<open>The surroundings of one call: its time and the times and ids of its statements, the chain, the URLs
  of the indexer in order and the network behind them, viem's address functions and number printing.\<close>

record store_call =
  sc_session :: mcp_session
  sc_registry :: registry
  sc_now :: nat
  sc_time :: "nat \<Rightarrow> nat"
  sc_id :: "nat \<Rightarrow> string"
  sc_chain :: "int \<Rightarrow> string + onchain_job"
  sc_urls :: "string list"
  sc_fetch :: "string \<Rightarrow> fetch_answer"
  sc_is_address :: "string \<Rightarrow> bool"
  sc_checksum :: "string \<Rightarrow> string"
  sc_number :: "js_number \<Rightarrow> string"
  sc_num :: "string \<Rightarrow> string"
  sc_fault :: "nat \<Rightarrow> (bool \<times> db_error) option"

datatype 'a store_op = Answered "store_error + 'a" | Awaits "run_store \<Rightarrow> 'a store_op \<times> run_store"

definition statement ::
  "store_call \<Rightarrow> nat \<Rightarrow> (run_store \<Rightarrow> (db_error + 'r) \<times> run_store) \<Rightarrow> (db_error + 'r \<Rightarrow> 'a store_op) \<Rightarrow> 'a store_op" where
  "statement c i q k = Awaits (\<lambda>s.
     case sc_fault c i of
       None \<Rightarrow> (k (fst (q s)), snd (q s))
     | Some (applied, e) \<Rightarrow> (k (Inl e), if applied then snd (q s) else s))"

primrec alone :: "'a store_op \<Rightarrow> run_store \<Rightarrow> (store_error + 'a) \<times> run_store" where
  \<comment> \<open>no other caller runs in between\<close>
  "alone (Answered r) = Pair r"
| "alone (Awaits f) = (\<lambda>s. (\<lambda>(run, t). run t) ((map_prod alone id \<circ> f) s))"

definition query :: "(run_store \<Rightarrow> 'r) \<Rightarrow> run_store \<Rightarrow> (db_error + 'r) \<times> run_store" where
  "query f s = (Inr (f s), s)"

definition return_op :: "'a \<Rightarrow> 'a store_op" where
  "return_op a = Answered (Inr a)"

definition throw_op :: "store_error \<Rightarrow> 'a store_op" where
  "throw_op e = Answered (Inl e)"

definition check_op :: "store_error + 'b \<Rightarrow> ('b \<Rightarrow> 'a store_op) \<Rightarrow> 'a store_op" where
  "check_op m k = (case m of Inl e \<Rightarrow> throw_op e | Inr b \<Rightarrow> k b)"

definition data_of :: "db_error + 'r option \<Rightarrow> 'r option" where
  \<comment> \<open>\<open>data\<close> of an answer is null after an error\<close>
  "data_of r = (case r of Inl e \<Rightarrow> None | Inr x \<Rightarrow> x)"

fun newest :: "('r \<Rightarrow> nat) \<Rightarrow> 'r list \<Rightarrow> 'r option" where
  \<comment> \<open>\<open>.order(f, descending).limit(1)\<close>\<close>
  "newest f [] = None"
| "newest f (r # rs) = (case newest f rs of None \<Rightarrow> Some r | Some q \<Rightarrow> if f q < f r then Some r else Some q)"

definition newest_first :: "('r \<Rightarrow> nat) \<Rightarrow> 'r list \<Rightarrow> 'r list" where
  "newest_first f rows = rev (sort_key f rows)"

section \<open>Writes\<close>

definition fresh_state :: "string \<Rightarrow> string \<Rightarrow> nat \<Rightarrow> runtime_state" where
  "fresh_state i agent now = \<lparr>st_id = i, st_agent = agent, st_role = ''provider'', st_controller = None, st_status = ''active'',
     st_job = None, st_run = None, st_checkpoint = None, st_error = None, st_seen = None, st_created = now, st_updated = now\<rparr>"

definition is_state_of :: "string \<Rightarrow> runtime_state \<Rightarrow> bool" where
  "is_state_of agent r \<longleftrightarrow> st_agent r = agent \<and> st_role r = ''provider''"

definition upsert_state :: "runtime_state \<Rightarrow> (runtime_state \<Rightarrow> runtime_state) \<Rightarrow> run_store \<Rightarrow> (db_error + unit) \<times> run_store" where
  \<comment> \<open>on conflict of agent and role only the given columns change\<close>
  "upsert_state fresh f s =
     (Inr (), s\<lparr>rs_states :=
        if list_ex (is_state_of (st_agent fresh)) (rs_states s)
        then map (\<lambda>r. if is_state_of (st_agent fresh) r then f r else r) (rs_states s)
        else rs_states s @ [f fresh]\<rparr>)"

definition update_states :: "(runtime_state \<Rightarrow> bool) \<Rightarrow> (runtime_state \<Rightarrow> runtime_state) \<Rightarrow> run_store \<Rightarrow> (db_error + unit) \<times> run_store" where
  "update_states p f s = (Inr (), s\<lparr>rs_states := map (\<lambda>r. if p r then f r else r) (rs_states s)\<rparr>)"

definition update_runs :: "(job_run \<Rightarrow> bool) \<Rightarrow> (job_run \<Rightarrow> job_run) \<Rightarrow> run_store \<Rightarrow> (db_error + unit) \<times> run_store" where
  "update_runs p f s = (Inr (), s\<lparr>rs_runs := map (\<lambda>r. if p r then f r else r) (rs_runs s)\<rparr>)"

definition insert_run :: "job_run \<Rightarrow> run_store \<Rightarrow> (db_error + job_run) \<times> run_store" where
  \<comment> \<open>the id is the primary key and the idempotency key is unique\<close>
  "insert_run r s =
     (if jr_id r \<in> jr_id ` set (rs_runs s) \<or> jr_key r \<in> jr_key ` set (rs_runs s)
      then (Inl (''23505'', ''duplicate key value violates unique constraint''), s)
      else (Inr r, s\<lparr>rs_runs := rs_runs s @ [r]\<rparr>))"

definition insert_checkpoint :: "checkpoint \<Rightarrow> run_store \<Rightarrow> (db_error + checkpoint) \<times> run_store" where
  \<comment> \<open>\<open>run_id\<close> references a run\<close>
  "insert_checkpoint cp s =
     (if cp_run cp \<in> jr_id ` set (rs_runs s) then (Inr cp, s\<lparr>rs_checkpoints := rs_checkpoints s @ [cp]\<rparr>)
      else (Inl (''23503'', ''insert violates foreign key constraint''), s))"

definition same_application :: "application \<Rightarrow> application \<Rightarrow> bool" where
  "same_application a b \<longleftrightarrow> an_job a = an_job b \<and> an_agent a = an_agent b"

definition merge_application :: "application \<Rightarrow> application \<Rightarrow> application" where
  \<comment> \<open>the columns the upsert gives; id and creation time stay\<close>
  "merge_application new old = new\<lparr>an_id := an_id old, an_created := an_created old\<rparr>"

definition upsert_application :: "application \<Rightarrow> run_store \<Rightarrow> (db_error + application) \<times> run_store" where
  "upsert_application new s =
     (case find (same_application new) (rs_applications s) of
        Some old \<Rightarrow> (Inr (merge_application new old),
          s\<lparr>rs_applications := map (\<lambda>r. if same_application new r then merge_application new r else r) (rs_applications s)\<rparr>)
      | None \<Rightarrow> (Inr new, s\<lparr>rs_applications := rs_applications s @ [new]\<rparr>))"

definition update_applications ::
  "(application \<Rightarrow> bool) \<Rightarrow> (application \<Rightarrow> application) \<Rightarrow> run_store \<Rightarrow> (db_error + unit) \<times> run_store" where
  "update_applications p f s = (Inr (), s\<lparr>rs_applications := map (\<lambda>r. if p r then f r else r) (rs_applications s)\<rparr>)"

section \<open>Constants and validation\<close>

definition ZERO_ADDRESS :: string where
  "ZERO_ADDRESS = ''0x'' @ replicate 40 CHR ''0''"

definition APPLICATION_STATUSES :: "string list" where
  "APPLICATION_STATUSES = [''submitted'', ''withdrawn'', ''selected'', ''rejected'', ''expired'']"

definition PROVIDER_PHASES :: "string list" where
  "PROVIDER_PHASES = [''open_job_found'', ''applied_to_open_job'', ''selected_for_open_job'', ''quoted_budget'', ''budget_tx_sent'',
     ''budget_confirmed'', ''waiting_for_funding'', ''funded_detected'', ''deliverable_prepared'', ''runtime_started'',
     ''runtime_completed'', ''runtime_failed'', ''deliverable_ready'', ''submit_tx_sent'', ''submitted_confirmed'',
     ''submitted_detected'', ''completed_detected'', ''rejected_detected'', ''expired_detected'', ''budget_tx_failed'',
     ''submit_tx_failed'', ''runtime_retry_requested'', ''failed'']"

definition ONCHAIN_STATUS :: "string list" where
  "ONCHAIN_STATUS = [''Open'', ''Funded'', ''Submitted'', ''Completed'', ''Rejected'', ''Expired'']"

definition status_label :: "nat \<Rightarrow> string" where
  "status_label n = (if n < length ONCHAIN_STATUS then ONCHAIN_STATUS ! n else ''Unknown('' @ nat_str n @ '')'')"

definition buildRunIdempotencyKey :: "string \<Rightarrow> string \<Rightarrow> string" where
  "buildRunIdempotencyKey agentId jobId = ''provider:'' @ agentId @ '':job:'' @ jobId"

definition isValidPhase :: "string \<Rightarrow> bool" where
  "isValidPhase phase \<longleftrightarrow> phase \<in> set PROVIDER_PHASES"

definition validateProviderAddress :: "store_call \<Rightarrow> string \<Rightarrow> store_error + string" where
  "validateProviderAddress c address =
     (let trimmed = trim address; normalized = sc_checksum c trimmed
      in if \<not> sc_is_address c trimmed then Inl (Coded ''invalid_address'' ''Invalid EVM address'')
         else if toLowerCase normalized = ZERO_ADDRESS then Inl (Coded ''invalid_address'' ''Address must not be zero'')
         else Inr normalized)"

definition is_id_char :: "char \<Rightarrow> bool" where
  "is_id_char c \<longleftrightarrow> is_digit c \<or> is_lower_letter (lower_char c) \<or> c = CHR ''_'' \<or> c = CHR ''-''"

definition isValidAgentId :: "string \<Rightarrow> bool" where
  "isValidAgentId i \<longleftrightarrow> i \<noteq> [] \<and> length i \<le> 128 \<and> list_all is_id_char i"

definition validateAgentId :: "string \<Rightarrow> store_error + unit" where
  "validateAgentId agentId =
     (if agentId = [] then Inl (Coded ''invalid_agent_id'' ''agentId is required'')
      else if 128 < length agentId then Inl (Coded ''invalid_agent_id'' ''agentId exceeds max length (128)'')
      else if \<not> list_all is_id_char agentId then
        Inl (Coded ''invalid_agent_id'' ''agentId contains invalid characters (allowed: a-z, A-Z, 0-9, _, -)'')
      else Inr ())"

definition require_job :: "string \<Rightarrow> store_error + unit" where
  "require_job jobId = throw_if (trim jobId = []) (Coded ''validation_error'' ''jobId required'')"

section \<open>Ownership\<close>

definition sessionControlsController :: "registry \<Rightarrow> mcp_session \<Rightarrow> string \<Rightarrow> bool" where
  "sessionControlsController reg session controllerAddress =
     (let controller = toLowerCase controllerAddress; account = map_option toLowerCase (ss_account session)
      in if controller = toLowerCase (ss_owner session) then True
         else if rg_rail reg \<and> truthy account \<and> account = Some controller then
           rg_account_active reg (ss_owner session) (or_else (ss_account session) [])
         else False)"

definition resolveAgentOwnership :: "registry \<Rightarrow> mcp_session \<Rightarrow> string \<Rightarrow> store_error + agent_row" where
  "resolveAgentOwnership reg session agentId =
     (if \<not> isValidAgentId agentId then
        Inl (McpFault ''VALIDATION_ERROR'' ''agentId must be alphanumeric (digits, letters, hyphens, underscores), max 128 chars'')
      else case (rg_by_agent reg agentId, rg_by_token reg agentId) of
        (Inl (n, m), Inl _) \<Rightarrow> Inl (McpFault ''INTERNAL_ERROR'' (''DB query failed: '' @ m))
      | (a, t) \<Rightarrow>
          (case or_opt (data_of a) (data_of t) of
             None \<Rightarrow>
               if \<not> all_digits agentId then Inl (McpFault ''NOT_FOUND'' (''Agent not found: '' @ agentId))
               else (case rg_owner_of reg agentId of
                       None \<Rightarrow> Inl (McpFault ''NOT_FOUND'' (''Agent not found: '' @ agentId))
                     | Some owner \<Rightarrow>
                         if sessionControlsController reg session owner
                         then Inr \<lparr>ag_agent = Some agentId, ag_token = Some agentId, ag_controller = Some owner\<rparr>
                         else Inl (McpFault ''FORBIDDEN''
                           (''Session does not control agent '' @ agentId @ ''. Controller: '' @ owner)))
           | Some agent \<Rightarrow>
               (let controller = toLowerCase (or_else (ag_controller agent) [])
                in if sessionControlsController reg session controller then Inr agent
                   else Inl (McpFault ''FORBIDDEN''
                     (''Session does not control agent '' @ agentId @ ''. Controller: '' @ controller)))))"

definition assertProviderAgentOwnership :: "store_call \<Rightarrow> string \<Rightarrow> store_error + agent_row" where
  "assertProviderAgentOwnership c agentId =
     bindR (validateAgentId agentId) (\<lambda>_. resolveAgentOwnership (sc_registry c) (sc_session c) agentId)"

section \<open>The chain\<close>

definition readOnchainJob :: "store_call \<Rightarrow> int \<Rightarrow> onchain_job option" where
  \<comment> \<open>every failure of the read is caught\<close>
  "readOnchainJob c jobId = ok_opt (sc_chain c jobId)"

definition chain_job :: "store_call \<Rightarrow> string \<Rightarrow> unit + onchain_job option" where
  \<comment> \<open>\<open>BigInt\<close> throws a \<open>SyntaxError\<close>, which has no \<open>code\<close>\<close>
  "chain_job c jobId = (case BigInt jobId of None \<Rightarrow> Inl () | Some i \<Rightarrow> Inr (readOnchainJob c i))"

end
