(* ===== verification/Run_Indexer.thy ===== *)
theory Run_Indexer
  imports Run_Store
begin

text \<open>
  The indexer behind the provider runtime store (\<open>provider-runtime/store.ts\<close>): the fallback over its URLs
  and the two lists of jobs. A time-out of a request is one of the errors of the network.
\<close>

section \<open>The fallback over the URLs\<close>

definition getIndexerUrls :: "string option \<Rightarrow> string option \<Rightarrow> string option \<Rightarrow> string list" where
  \<comment> \<open>of the three variables of the environment; duplicates keep their first place\<close>
  "getIndexerUrls indexer internal public =
     rev (remdups (rev (filter (\<lambda>u. u \<noteq> []) (map (\<lambda>v. or_else v []) [indexer, internal, public, Some ''http://localhost:3535'']))))"

fun has_infix :: "string \<Rightarrow> string \<Rightarrow> bool" where
  \<comment> \<open>\<open>s.includes(sub)\<close>\<close>
  "has_infix sub [] = (sub = [])"
| "has_infix sub (c # s) = (startsWith (c # s) sub \<or> has_infix sub s)"

definition MAX_RESPONSE_BYTES :: int where
  "MAX_RESPONSE_BYTES = 5 * 1024 * 1024"

definition boundedPath :: "string \<Rightarrow> string" where
  "boundedPath path =
     (if has_infix ''limit='' path then path
      else path @ (if CHR ''?'' \<in> set path then ''&'' else ''?'') @ ''limit=50'')"

definition response_ok_status :: "nat \<Rightarrow> bool" where
  "response_ok_status status \<longleftrightarrow> 200 \<le> status \<and> status < 300"

definition too_large :: "string option \<Rightarrow> bool" where
  \<comment> \<open>\<open>Number(contentLength) > MAX_RESPONSE_BYTES\<close>\<close>
  "too_large header \<longleftrightarrow> truthy header \<and>
     (case Number_text (or_else header []) of Fin x \<Rightarrow> of_int MAX_RESPONSE_BYTES < x | PosInfinity \<Rightarrow> True | _ \<Rightarrow> False)"

definition megabytes :: "string option \<Rightarrow> string" where
  \<comment> \<open>\<open>Math.round(Number(contentLength) / 1024 / 1024)\<close>\<close>
  "megabytes header = (case Number_text (or_else header []) of Fin x \<Rightarrow> int_str \<lfloor>x / 1048576 + 1 / 2\<rfloor> | _ \<Rightarrow> ''Infinity'')"

definition arrow :: string where
  "arrow = '' '' @ [CHR 0xE2, CHR 0x86, CHR 0x92] @ '' ''"

fun fetch_first :: "(string \<Rightarrow> fetch_answer) \<Rightarrow> string \<Rightarrow> string list \<Rightarrow> string list \<Rightarrow> string list + nat \<times> string" where
  \<comment> \<open>the first usable response, or the errors of all\<close>
  "fetch_first fetch path [] errors = Inl errors"
| "fetch_first fetch path (url # urls) errors =
     (case fetch (url @ path) of
        Unreachable m \<Rightarrow> fetch_first fetch path urls (errors @ [url @ arrow @ m])
      | Fetched status header body \<Rightarrow>
          if \<not> response_ok_status status then fetch_first fetch path urls (errors @ [url @ arrow @ nat_str status])
          else if too_large header then
            fetch_first fetch path urls (errors @ [url @ arrow @ ''response too large ('' @ megabytes header @ ''MB > 5MB)''])
          else if length (trim body) < 3 then fetch_first fetch path urls (errors @ [url @ arrow @ ''empty response body''])
          else Inr (status, body))"

definition fetchFromIndexer :: "store_call \<Rightarrow> string \<Rightarrow> store_error + nat \<times> string" where
  "fetchFromIndexer c path =
     (case fetch_first (sc_fetch c) (boundedPath path) (sc_urls c) [] of
        Inl errors \<Rightarrow> Inl (Coded ''indexer_error'' (''All indexer URLs failed: '' @ join_with ''; '' errors))
      | Inr r \<Rightarrow> Inr r)"

definition body_json :: "store_call \<Rightarrow> string \<Rightarrow> json" where
  \<comment> \<open>\<open>res.json().catch(() => ({}))\<close>\<close>
  "body_json c body = or_else (json_parse (sc_num c) body) (JObj [])"

section \<open>Lists of jobs\<close>

definition text_or_empty :: "json \<Rightarrow> string" where
  \<comment> \<open>\<open>String(v || '')\<close>\<close>
  "text_or_empty v = (if jtruthy v then js_text v else [])"

definition json_number :: "json \<Rightarrow> js_number" where
  "json_number v = (case v of JNum n \<Rightarrow> Number_text n | JStr s \<Rightarrow> Number_text s | JBool b \<Rightarrow> Fin (if b then 1 else 0) | JNull \<Rightarrow> Fin 0
     | JArr vs \<Rightarrow> Number_text (js_text v) | _ \<Rightarrow> NaN)"

definition uri_char :: "char \<Rightarrow> bool" where
  "uri_char c \<longleftrightarrow> is_digit c \<or> is_lower_letter (lower_char c) \<or> c \<in> set ''-_.!~*()'' \<or> c = CHR 0x27"

definition encodeURIComponent :: "string \<Rightarrow> string" where
  "encodeURIComponent s =
     concat (map (\<lambda>c. if uri_char c then [c]
       else let hex = (\<lambda>d. upper_char (if d < 10 then digit_char d else char_of (d + 87))) in [CHR 0x25, hex (code c div 16), hex (code c mod 16)]) s)"

fun clamp :: "js_number \<Rightarrow> js_number" where
  \<comment> \<open>\<open>Math.min(Math.max(limit, 1), 50)\<close>\<close>
  "clamp (Fin x) = Fin (min (max x 1) 50)"
| "clamp PosInfinity = Fin 50"
| "clamp NegInfinity = Fin 1"
| "clamp NaN = NaN"

definition jobs_of :: "json \<Rightarrow> store_error + json" where
  "jobs_of v =
     (case v of JArr vs \<Rightarrow> Inr v
      | JNull \<Rightarrow> Inl (Uncoded ''Cannot read properties of null'')
      | _ \<Rightarrow> Inr (if jtruthy (jget ''jobs'' v) then jget ''jobs'' v else if jtruthy (jget ''data'' v) then jget ''data'' v else JArr []))"

fun at_least :: "js_number \<Rightarrow> js_number \<Rightarrow> bool" where
  "at_least (Fin x) (Fin y) = (y \<le> x)"
| "at_least PosInfinity (Fin y) = True"
| "at_least (Fin x) NegInfinity = True"
| "at_least PosInfinity PosInfinity = True"
| "at_least PosInfinity NegInfinity = True"
| "at_least NegInfinity NegInfinity = True"
| "at_least _ _ = False"

fun per_million :: "js_number \<Rightarrow> js_number" where
  "per_million (Fin x) = Fin (x / 1000000)"
| "per_million n = n"

definition budget_at_least :: "string \<Rightarrow> json \<Rightarrow> bool" where
  \<comment> \<open>a job without a budget is kept\<close>
  "budget_at_least minimum job =
     (let budget = coalesce (jget ''budget'' job) (coalesce (jget ''budgetAtomic'' job) (jget ''budget_atomic'' job))
      in if jtruthy budget then at_least (per_million (json_number budget)) (Number_text minimum) else True)"

record open_job_filter =
  of_limit :: "js_number option"
  of_minimum :: "string option"
  of_expired :: bool

definition listOpenGlobalJobs :: "store_call \<Rightarrow> open_job_filter \<Rightarrow> store_error + json" where
  "listOpenGlobalJobs c filters =
     (let limit = clamp (or_else (of_limit filters) (Fin 20))
      in bindR (fetchFromIndexer c (''/jobs/open?limit='' @ sc_number c limit @ ''&includeExpired='' @ (if of_expired filters then ''true'' else ''false'')))
           (\<lambda>(status, body).
             bindR (throw_if (\<not> response_ok_status status) (Coded ''indexer_error'' (''Indexer fetch failed: '' @ nat_str status))) (\<lambda>_.
             bindR (jobs_of (body_json c body)) (\<lambda>jobs.
               if truthy (of_minimum filters) then
                 (case jobs of
                    JArr vs \<Rightarrow> if JNull \<in> set vs then Inl (Uncoded ''Cannot read properties of null'')
                                else Inr (JArr (filter (budget_at_least (or_else (of_minimum filters) [])) vs))
                  | _ \<Rightarrow> Inl (Uncoded ''jobs.filter is not a function''))
               else Inr jobs))))"

definition listAssignedJobs :: "store_call \<Rightarrow> string \<Rightarrow> js_number \<Rightarrow> store_error + json" where
  "listAssignedJobs c providerAddress limit =
     bindR (validateProviderAddress c providerAddress) (\<lambda>normalized.
     bindR (fetchFromIndexer c (''/jobs?provider='' @ encodeURIComponent (toLowerCase normalized)
         @ ''&status=open,funded,submitted&limit='' @ sc_number c (clamp limit))) (\<lambda>(status, body).
     jobs_of (body_json c body)))"

section \<open>What the fallback returns\<close>

lemma fetch_first_usable:
  "fetch_first fetch path urls errors = Inr (status, body) \<Longrightarrow>
     \<exists>url header. url \<in> set urls \<and> fetch (url @ path) = Fetched status header body \<and> response_ok_status status
       \<and> \<not> too_large header \<and> 3 \<le> length (trim body)"
proof (induction fetch path urls errors rule: fetch_first.induct)
  case (2 fetch path url urls errors)
  show ?case
  proof (cases "fetch (url @ path)")
    case (Unreachable m)
    with 2 show ?thesis by auto
  next
    case (Fetched n header text')
    then show ?thesis using 2 by (auto simp: not_less split: if_splits)
  qed
qed simp

end
