(* ===== verification/Run_Operations.thy ===== *)
theory Run_Operations
  imports Run_Indexer
begin

text \<open>
  The operations of the provider runtime store (\<open>provider-runtime/store.ts\<close>): runs, checkpoints, retries,
  the resume plan, heartbeats and the applications to open jobs.
\<close>

section \<open>Runs\<close>

definition sync_state :: "store_call \<Rightarrow> nat \<Rightarrow> string \<Rightarrow> string \<Rightarrow> job_run \<Rightarrow> job_run store_op" where
  \<comment> \<open>a failed upsert is logged\<close>
  "sync_state c i agentId jobId run =
     statement c i (upsert_state (fresh_state (sc_id c i) agentId (sc_time c i))
         (\<lambda>r. r\<lparr>st_job := Some jobId, st_run := Some (jr_id run), st_status := ''active'', st_updated := sc_now c\<rparr>))
       (\<lambda>_. return_op run)"

definition new_run :: "store_call \<Rightarrow> string \<Rightarrow> string \<Rightarrow> string \<Rightarrow> job_run" where
  "new_run c agentId jobId phase = \<lparr>jr_id = sc_id c 1, jr_agent = agentId, jr_role = ''provider'', jr_job = jobId,
     jr_status = ''active'', jr_phase = phase, jr_key = buildRunIdempotencyKey agentId jobId,
     jr_started = sc_now c, jr_completed = None, jr_updated = sc_now c\<rparr>"

definition start_steps :: "store_call \<Rightarrow> string \<Rightarrow> string \<Rightarrow> string \<Rightarrow> job_run store_op" where
  "start_steps c agentId jobId phase =
     (let key = buildRunIdempotencyKey agentId jobId
      in statement c 0 (query (\<lambda>s. find (\<lambda>r. jr_key r = key \<and> jr_status r = ''active'') (rs_runs s))) (\<lambda>existing.
           case data_of existing of
             Some run \<Rightarrow> sync_state c 3 agentId jobId run
           | None \<Rightarrow>
               statement c 1 (insert_run (new_run c agentId jobId phase)) (\<lambda>inserted.
                 case inserted of
                   Inr run \<Rightarrow> sync_state c 3 agentId jobId run
                 | Inl (n, m) \<Rightarrow>
                     if n = ''23505'' then
                       statement c 2 (query (\<lambda>s. find (\<lambda>r. jr_key r = key) (rs_runs s))) (\<lambda>raced.
                         case data_of raced of
                           Some run \<Rightarrow> sync_state c 3 agentId jobId run
                         | None \<Rightarrow> throw_op (Coded ''start_run_failed'' ''startJobRun race but no run found''))
                     else throw_op (Coded ''start_run_failed'' (''startJobRun failed: '' @ m)))))"

definition startProviderJobRun :: "store_call \<Rightarrow> string \<Rightarrow> string \<Rightarrow> string \<Rightarrow> job_run store_op" where
  "startProviderJobRun c agentId jobId phase =
     check_op (validateAgentId agentId) (\<lambda>_.
     check_op (require_job jobId) (\<lambda>_.
     check_op (throw_if (\<not> isValidPhase phase) (Coded ''validation_error'' (''Invalid phase: '' @ phase))) (\<lambda>_.
     check_op (assertProviderAgentOwnership c agentId) (\<lambda>_.
     start_steps c agentId jobId phase))))"

record checkpoint_input =
  ci_agent :: string
  ci_job :: string
  ci_run :: "string option"
  ci_phase :: string
  ci_status :: string
  ci_tx :: "string option"
  ci_deliverable :: "string option"
  ci_payload :: "string option"
  ci_note :: "string option"
  ci_metadata :: "json option"

definition new_checkpoint :: "store_call \<Rightarrow> checkpoint_input \<Rightarrow> string \<Rightarrow> checkpoint" where
  "new_checkpoint c i runId = \<lparr>cp_id = sc_id c 1, cp_run = runId, cp_agent = ci_agent i, cp_job = ci_job i, cp_role = ''provider'',
     cp_phase = ci_phase i, cp_status = ci_status i, cp_tx = ci_tx i, cp_deliverable = ci_deliverable i, cp_payload = ci_payload i,
     cp_note = ci_note i, cp_metadata = or_else (ci_metadata i) (JObj []), cp_created = sc_time c 1\<rparr>"

definition checkpoint_steps :: "store_call \<Rightarrow> checkpoint_input \<Rightarrow> string \<Rightarrow> checkpoint store_op" where
  \<comment> \<open>the answers of the two updates are not read\<close>
  "checkpoint_steps c i runId =
     statement c 1 (insert_checkpoint (new_checkpoint c i runId)) (\<lambda>inserted.
       case inserted of
         Inl (n, m) \<Rightarrow> throw_op (Coded ''checkpoint_failed'' (''writeCheckpoint failed: '' @ m))
       | Inr cp \<Rightarrow>
           statement c 2 (update_states (is_state_of (ci_agent i)) (\<lambda>r. r\<lparr>st_checkpoint := Some (ci_phase i), st_updated := sc_now c\<rparr>)) (\<lambda>_.
           statement c 3 (update_runs (\<lambda>r. jr_id r = runId) (\<lambda>r. r\<lparr>jr_phase := ci_phase i, jr_updated := sc_now c\<rparr>)) (\<lambda>_.
           return_op cp)))"

definition writeProviderCheckpoint :: "store_call \<Rightarrow> checkpoint_input \<Rightarrow> checkpoint store_op" where
  "writeProviderCheckpoint c i =
     check_op (validateAgentId (ci_agent i)) (\<lambda>_.
     check_op (require_job (ci_job i)) (\<lambda>_.
     check_op (throw_if (\<not> isValidPhase (ci_phase i)) (Coded ''validation_error'' (''Invalid phase: '' @ ci_phase i))) (\<lambda>_.
     check_op (assertProviderAgentOwnership c (ci_agent i)) (\<lambda>_.
       if truthy (ci_run i) then checkpoint_steps c i (or_else (ci_run i) [])
       else
         statement c 0 (query (\<lambda>s. find (\<lambda>r. jr_key r = buildRunIdempotencyKey (ci_agent i) (ci_job i) \<and> jr_status r = ''active'') (rs_runs s)))
           (\<lambda>run. case data_of run of
              None \<Rightarrow> throw_op (Coded ''no_active_run'' ''No active run found. Call startProviderJobRun first.'')
            | Some r \<Rightarrow> checkpoint_steps c i (jr_id r))))))"

definition finish_steps :: "store_call \<Rightarrow> string \<Rightarrow> string \<Rightarrow> string \<Rightarrow> (runtime_state \<Rightarrow> runtime_state) \<Rightarrow> unit store_op" where
  "finish_steps c agentId runId status clear =
     statement c 0 (update_runs (\<lambda>r. jr_id r = runId \<and> jr_agent r = agentId)
         (\<lambda>r. r\<lparr>jr_status := status, jr_completed := Some (sc_now c), jr_updated := sc_now c\<rparr>)) (\<lambda>_.
     statement c 1 (update_states (\<lambda>r. is_state_of agentId r \<and> st_run r = Some runId)
         (\<lambda>r. clear (r\<lparr>st_job := None, st_run := None, st_updated := sc_now c\<rparr>))) (\<lambda>_.
     return_op ()))"

definition completeProviderJobRun :: "store_call \<Rightarrow> string \<Rightarrow> string \<Rightarrow> unit store_op" where
  "completeProviderJobRun c agentId runId =
     check_op (validateAgentId agentId) (\<lambda>_.
     check_op (assertProviderAgentOwnership c agentId) (\<lambda>_.
     finish_steps c agentId runId ''completed'' id))"

definition failProviderJobRun :: "store_call \<Rightarrow> string \<Rightarrow> string \<Rightarrow> string \<Rightarrow> unit store_op" where
  "failProviderJobRun c agentId runId error =
     check_op (validateAgentId agentId) (\<lambda>_.
     check_op (assertProviderAgentOwnership c agentId) (\<lambda>_.
     finish_steps c agentId runId ''failed'' (\<lambda>r. r\<lparr>st_error := Some error\<rparr>)))"

section \<open>Retries\<close>

definition MAX_RETRY_COUNT :: rat where
  "MAX_RETRY_COUNT = 3"

definition RETRYABLE_PHASES :: "string list" where
  "RETRYABLE_PHASES = [''runtime_failed'', ''submit_tx_failed'']"

definition latest_phase :: "job_run \<Rightarrow> checkpoint option \<Rightarrow> string" where
  "latest_phase run cp = (case cp of None \<Rightarrow> jr_phase run | Some p \<Rightarrow> cp_phase p)"

definition retry_count :: "checkpoint option \<Rightarrow> js_number" where
  "retry_count cp =
     (case cp of None \<Rightarrow> Fin 0
      | Some p \<Rightarrow> (case jget ''retryCount'' (cp_metadata p) of JNum n \<Rightarrow> Number_text n | _ \<Rightarrow> Fin 0))"

fun retries_used_up :: "js_number \<Rightarrow> bool" where
  \<comment> \<open>\<open>retryCount >= MAX_RETRY_COUNT\<close>\<close>
  "retries_used_up (Fin x) = (MAX_RETRY_COUNT \<le> x)"
| "retries_used_up PosInfinity = True"
| "retries_used_up _ = False"

fun plus_one :: "js_number \<Rightarrow> js_number" where
  \<comment> \<open>exact below \<open>2 ^ 53\<close>\<close>
  "plus_one (Fin x) = Fin (x + 1)"
| "plus_one n = n"

definition retry_allowed :: "store_call \<Rightarrow> string \<Rightarrow> job_run \<Rightarrow> checkpoint option \<Rightarrow> store_error + unit" where
  "retry_allowed c jobId run cp =
     bindR (throw_if (latest_phase run cp \<notin> set RETRYABLE_PHASES) (Coded ''wrong_status''
       (''Cannot retry: latest phase is '' @ [CHR 0x27] @ latest_phase run cp @ [CHR 0x27] @ ''. Allowed: '' @ join_with '', '' RETRYABLE_PHASES))) (\<lambda>_.
     bindR (throw_if (retries_used_up (retry_count cp)) (Coded ''conflict'' (''Max retry count (3) reached for job '' @ jobId))) (\<lambda>_.
       case chain_job c jobId of
         Inr (Some job) \<Rightarrow> throw_if (status_label (oj_status job) \<noteq> ''Funded'') (Coded ''wrong_status''
           (''Cannot retry: on-chain status is '' @ [CHR 0x27] @ status_label (oj_status job) @ [CHR 0x27] @ '', expected ''
             @ [CHR 0x27] @ ''Funded'' @ [CHR 0x27]))
       | _ \<Rightarrow> Inr ()))"

definition retry_checkpoint :: "store_call \<Rightarrow> string \<Rightarrow> string \<Rightarrow> string \<Rightarrow> string \<Rightarrow> string \<Rightarrow> checkpoint" where
  "retry_checkpoint c agentId jobId runId counted reason =
     \<lparr>cp_id = sc_id c 4, cp_run = runId, cp_agent = agentId, cp_job = jobId, cp_role = ''provider'',
      cp_phase = ''runtime_retry_requested'', cp_status = ''retry'', cp_tx = None, cp_deliverable = None, cp_payload = None,
      cp_note = Some (if reason \<noteq> [] then reason else ''Retry #'' @ counted @ '' requested''),
      cp_metadata = JObj [(''retryCount'', JNum counted), (''reason'', JStr (if reason \<noteq> [] then reason else ''manual retry''))],
      cp_created = sc_time c 4\<rparr>"

definition retryProviderJobRun :: "store_call \<Rightarrow> string \<Rightarrow> string \<Rightarrow> string \<Rightarrow> (string \<times> js_number \<times> string) store_op" where
  "retryProviderJobRun c agentId jobId reason =
     check_op (validateAgentId agentId) (\<lambda>_.
     check_op (require_job jobId) (\<lambda>_.
     check_op (assertProviderAgentOwnership c agentId) (\<lambda>_.
     statement c 0 (query (\<lambda>s. newest jr_started (filter (\<lambda>r. jr_key r = buildRunIdempotencyKey agentId jobId) (rs_runs s)))) (\<lambda>found.
       case data_of found of
         None \<Rightarrow> throw_op (Coded ''not_found'' (''No run found for job '' @ jobId))
       | Some run \<Rightarrow>
           statement c 1 (query (\<lambda>s. newest cp_created (filter (\<lambda>p. cp_run p = jr_id run) (rs_checkpoints s)))) (\<lambda>lastCp.
             let cp = data_of lastCp; counted = plus_one (retry_count cp)
             in check_op (retry_allowed c jobId run cp) (\<lambda>_.
                statement c 2 (update_runs (\<lambda>r. jr_id r = jr_id run \<and> jr_agent r = agentId)
                    (\<lambda>r. r\<lparr>jr_status := ''active'', jr_completed := None, jr_updated := sc_now c\<rparr>)) (\<lambda>_.
                statement c 3 (update_states (is_state_of agentId)
                    (\<lambda>r. r\<lparr>st_job := Some jobId, st_run := Some (jr_id run), st_error := None, st_updated := sc_now c\<rparr>)) (\<lambda>_.
                statement c 4 (insert_checkpoint (retry_checkpoint c agentId jobId (jr_id run) (sc_number c counted) reason)) (\<lambda>_.
                return_op (jr_id run, counted, ''runtime_retry_requested'')))))))))) "

section \<open>The resume plan\<close>

record resume_plan =
  rp_next :: string
  rp_tool :: "string option"
  rp_reason :: string
  rp_terminal :: bool
  rp_onchain :: "string option"
  rp_mine :: bool
  rp_other :: bool
  rp_checkpoint :: "checkpoint option"
  rp_notes :: "string list"

record chain_view =
  cv_status :: "string option"
  cv_mine :: bool
  cv_other :: bool
  cv_notes :: "string list"

definition view_chain :: "unit + onchain_job option \<Rightarrow> string option \<Rightarrow> chain_view" where
  "view_chain chain providerAddress =
     (case chain of
        Inl _ \<Rightarrow> \<lparr>cv_status = None, cv_mine = False, cv_other = False,
          cv_notes = [''Could not read on-chain job state. RPC may be unavailable.'']\<rparr>
      | Inr None \<Rightarrow> \<lparr>cv_status = None, cv_mine = False, cv_other = False, cv_notes = []\<rparr>
      | Inr (Some job) \<Rightarrow>
          (let onchain = toLowerCase (oj_provider job); zero = onchain = ZERO_ADDRESS \<or> onchain = [];
               mine = toLowerCase (or_else providerAddress [])
           in if \<not> zero \<and> truthy providerAddress then
                \<lparr>cv_status = Some (status_label (oj_status job)), cv_mine = onchain = mine, cv_other = onchain \<noteq> mine, cv_notes = []\<rparr>
              else if \<not> zero then
                \<lparr>cv_status = Some (status_label (oj_status job)), cv_mine = True, cv_other = False,
                 cv_notes = [''providerAddress not provided '' @ [CHR 0xE2, CHR 0x80, CHR 0x94] @ '' cannot verify on-chain provider matches this bot.'']\<rparr>
              else \<lparr>cv_status = Some (status_label (oj_status job)), cv_mine = False, cv_other = False, cv_notes = []\<rparr>))"

text \<open>One entry of the plan: the action, the tool, the reason, whether it ends the run, and the notes added.\<close>

type_synonym plan_entry = "string \<times> string option \<times> string \<times> bool \<times> string list"

definition open_entry :: "bool \<Rightarrow> string \<Rightarrow> plan_entry" where
  "open_entry mine phase =
     (if \<not> mine then
        if phase = ''applied_to_open_job'' then
          (''wait_for_client_setProvider'', None, ''Application submitted. Waiting for client to assign provider onchain.'', False, [])
        else (''apply_open_job'', Some ''provider.apply_open_job'', ''Open job with no provider. Apply or wait for direct assignment.'', False, [])
      else if phase = ''budget_tx_sent'' \<or> phase = ''budget_tx_failed'' then
        (''retry_set_budget'', Some ''provider.prepare_set_budget_for_session'', ''Budget tx failed or pending. Retry setBudget.'', False,
         [''Check if previous tx confirmed before retrying.''])
      else if phase = ''budget_confirmed'' \<or> phase = ''waiting_for_funding'' then
        (''wait_for_client_funding'', None, ''Budget set. Waiting for client to approve USDC and fund job.'', False, [])
      else (''set_budget'', Some ''provider.prepare_set_budget_for_session'', ''Provider assigned, no budget set. Set budget to proceed.'', False, []))"

definition funded_entry :: "string \<Rightarrow> plan_entry" where
  "funded_entry phase =
     (if phase = ''runtime_started'' then
        (''wait_for_llm_completion'', None, ''LLM execution in progress. Wait for completion or timeout.'', False, [])
      else if phase = ''runtime_completed'' then
        (''prepare_deliverable'', None, ''LLM completed. Compute deliverableHash and submit.'', False, [])
      else if phase = ''runtime_failed'' then
        (''none'', None, ''LLM execution failed. Manual intervention or retry needed.'', True, [])
      else if phase = ''runtime_retry_requested'' then
        (''run_llm_and_submit'', Some ''provider.prepare_submit_job_for_session'', ''Retry granted. Re-attempt LLM execution and submit.'', False, [])
      else if phase = ''deliverable_ready'' \<or> phase = ''deliverable_prepared'' then
        (''submit_deliverable'', Some ''provider.prepare_submit_job_for_session'', ''Deliverable ready. Submit to onchain.'', False, [])
      else if phase = ''submit_tx_sent'' \<or> phase = ''submit_tx_failed'' then
        (''check_submit_status'', Some ''provider.runtime_get_context'', ''Submit tx sent. Check if it confirmed onchain.'', False, [])
      else (''run_llm_and_submit'', Some ''provider.prepare_submit_job_for_session'',
        ''Job funded. Run LLM to generate deliverable, then submit.'', False, []))"

definition plan_entry :: "chain_view \<Rightarrow> string \<Rightarrow> plan_entry" where
  "plan_entry v phase =
     (if cv_status v = Some ''Completed'' then (''none'', None, ''Job completed. Provider paid.'', True, [])
      else if cv_status v = Some ''Rejected'' then
        (''none'', None, ''Job rejected by evaluator or client. Provider not paid.'', True, [])
      else if cv_status v = Some ''Expired'' then (''none'', None, ''Job expired. Client can claim refund.'', True, [])
      else if cv_other v then
        (''none'', None, ''Job assigned to a different provider. Not our job.'', True,
         [''On-chain provider does not match this bot. Do NOT call setBudget.''])
      else if cv_status v = Some ''Open'' then open_entry (cv_mine v) phase
      else if cv_status v = Some ''Funded'' then funded_entry phase
      else if cv_status v = Some ''Submitted'' then
        (''wait_for_evaluator'', None, ''Deliverable submitted. Waiting for evaluator to complete or reject.'', False, [])
      else (''check_onchain_status'', Some ''provider.runtime_get_context'',
        ''Unexpected state: onchain='' @ or_else (cv_status v) ''null'' @ '', phase='' @ phase, False,
        [''Unexpected state. Manual review recommended.'']))"

definition buildResumePlan :: "store_call \<Rightarrow> job_run \<Rightarrow> checkpoint option \<Rightarrow> string option \<Rightarrow> resume_plan" where
  "buildResumePlan c run cp providerAddress =
     (let v = view_chain (chain_job c (jr_job run)) providerAddress
      in case plan_entry v (latest_phase run cp) of (next, tool, reason, terminal, notes) \<Rightarrow>
           \<lparr>rp_next = next, rp_tool = tool, rp_reason = reason, rp_terminal = terminal, rp_onchain = cv_status v,
            rp_mine = cv_mine v, rp_other = cv_other v, rp_checkpoint = cp, rp_notes = cv_notes v @ notes\<rparr>)"

section \<open>Reading a run\<close>

definition latest_checkpoint :: "job_run \<Rightarrow> run_store \<Rightarrow> checkpoint option" where
  "latest_checkpoint run s = newest cp_created (filter (\<lambda>p. cp_run p = jr_id run) (rs_checkpoints s))"

definition active_run :: "string \<Rightarrow> run_store \<Rightarrow> job_run option" where
  "active_run agentId s =
     newest jr_started (filter (\<lambda>r. jr_agent r = agentId \<and> jr_role r = ''provider'' \<and> jr_status r = ''active'') (rs_runs s))"

record runtime_context =
  rc_state :: "runtime_state option"
  rc_run :: "job_run option"
  rc_checkpoint :: "checkpoint option"
  rc_applications :: "application list"
  rc_plan :: "resume_plan option"

definition context_rest ::
  "store_call \<Rightarrow> string \<Rightarrow> string option \<Rightarrow> runtime_state option \<Rightarrow> job_run option \<Rightarrow> runtime_context store_op" where
  "context_rest c agentId providerAddress state run =
     (let apps = statement c 5 (query (\<lambda>s. newest_first an_created
            (filter (\<lambda>a. an_agent a = agentId \<and> an_status a = ''submitted'') (rs_applications s))));
          answer = (\<lambda>cp plan r. return_op \<lparr>rc_state = state, rc_run = run, rc_checkpoint = cp,
            rc_applications = (case r of Inl e \<Rightarrow> [] | Inr as \<Rightarrow> as), rc_plan = plan\<rparr>)
      in case run of
           None \<Rightarrow> apps (answer None None)
         | Some r \<Rightarrow>
             statement c 4 (query (latest_checkpoint r)) (\<lambda>cp.
               apps (answer (data_of cp) (Some (buildResumePlan c r (data_of cp) providerAddress)))))"

definition context_fallback ::
  "store_call \<Rightarrow> string \<Rightarrow> string option \<Rightarrow> runtime_state option \<Rightarrow> runtime_context store_op" where
  \<comment> \<open>no active run from the state: the newest active run of the agent, which is written back to the state\<close>
  "context_fallback c agentId providerAddress state =
     statement c 2 (query (active_run agentId)) (\<lambda>found.
       case data_of found of
         None \<Rightarrow> context_rest c agentId providerAddress state None
       | Some run \<Rightarrow>
           if state \<noteq> None then
             statement c 3 (update_states (is_state_of agentId)
                 (\<lambda>r. r\<lparr>st_job := Some (jr_job run), st_run := Some (jr_id run), st_updated := sc_time c 3\<rparr>))
               (\<lambda>_. context_rest c agentId providerAddress state (Some run))
           else context_rest c agentId providerAddress state (Some run))"

definition getProviderRuntimeContext :: "store_call \<Rightarrow> string \<Rightarrow> string option \<Rightarrow> runtime_context store_op" where
  "getProviderRuntimeContext c agentId providerAddress =
     check_op (validateAgentId agentId) (\<lambda>_.
     check_op (assertProviderAgentOwnership c agentId) (\<lambda>_.
     statement c 0 (query (\<lambda>s. find (is_state_of agentId) (rs_states s))) (\<lambda>r.
       let state = data_of r; runId = (case state of None \<Rightarrow> None | Some st \<Rightarrow> st_run st)
       in if truthy runId then
            statement c 1 (query (\<lambda>s. find (\<lambda>r. Some (jr_id r) = runId \<and> jr_status r = ''active'') (rs_runs s))) (\<lambda>found.
              case data_of found of
                Some run \<Rightarrow> context_rest c agentId providerAddress state (Some run)
              | None \<Rightarrow> context_fallback c agentId providerAddress state)
          else context_fallback c agentId providerAddress state)))"

definition getProviderResumePlan :: "store_call \<Rightarrow> string \<Rightarrow> string option \<Rightarrow> string option \<Rightarrow> resume_plan option store_op" where
  "getProviderResumePlan c agentId jobId providerAddress =
     check_op (validateAgentId agentId) (\<lambda>_.
     check_op (assertProviderAgentOwnership c agentId) (\<lambda>_.
     statement c 0 (query (\<lambda>s. newest jr_started (filter (\<lambda>r. jr_agent r = agentId \<and> jr_role r = ''provider''
           \<and> jr_status r = ''active'' \<and> (truthy jobId \<longrightarrow> Some (jr_job r) = jobId)) (rs_runs s)))) (\<lambda>found.
       case data_of found of
         None \<Rightarrow> return_op None
       | Some run \<Rightarrow>
           statement c 1 (query (latest_checkpoint run)) (\<lambda>cp.
             return_op (Some (buildResumePlan c run (data_of cp) providerAddress))))))"

definition heartbeatProvider :: "store_call \<Rightarrow> string \<Rightarrow> unit store_op" where
  "heartbeatProvider c agentId =
     check_op (validateAgentId agentId) (\<lambda>_.
     check_op (assertProviderAgentOwnership c agentId) (\<lambda>_.
     statement c 0 (upsert_state (fresh_state (sc_id c 0) agentId (sc_time c 0))
         (\<lambda>r. r\<lparr>st_status := ''active'', st_seen := Some (sc_now c), st_updated := sc_now c\<rparr>))
       (\<lambda>r. case r of Inl (n, m) \<Rightarrow> throw_op (Coded ''heartbeat_failed'' (''heartbeat failed: '' @ m)) | Inr _ \<Rightarrow> return_op ())))"

section \<open>Applications\<close>

record apply_input =
  ai_agent :: string
  ai_job :: string
  ai_address :: string
  ai_usdc :: "string option"
  ai_atomic :: "string option"
  ai_message :: "string option"
  ai_capabilities :: "string list option"
  ai_metadata :: "json option"

definition open_on_chain :: "store_call \<Rightarrow> string \<Rightarrow> onchain_job option \<Rightarrow> store_error + unit" where
  "open_on_chain c jobId found =
     (case found of
        None \<Rightarrow> Inl (Coded ''not_found'' (''Job '' @ jobId @ '' not found onchain''))
      | Some job \<Rightarrow>
          if oj_status job \<noteq> 0 then
            Inl (Coded ''wrong_status'' (''Job '' @ jobId @ '' is '' @ status_label (oj_status job) @ '', not Open. Cannot apply.''))
          else if toLowerCase (oj_provider job) \<noteq> ZERO_ADDRESS \<and> toLowerCase (oj_provider job) \<noteq> [] then
            Inl (Coded ''already_assigned'' (''Job '' @ jobId @ '' already has provider '' @ oj_provider job @ ''. Not an open job.''))
          else if 0 < oj_expired job \<and> oj_expired job < int (sc_now c) div 1000 then
            Inl (Coded ''job_expired'' (''Job '' @ jobId @ '' has expired. Cannot apply.''))
          else Inr ())"

definition expired_at :: "json \<Rightarrow> nat \<Rightarrow> bool" where
  \<comment> \<open>\<open>Number(v) > 0 && Number(v) < Date.now() / 1000\<close>\<close>
  "expired_at v now = (case json_number v of Fin x \<Rightarrow> 0 < x \<and> x < of_nat now / 1000 | _ \<Rightarrow> False)"

definition open_on_indexer :: "store_call \<Rightarrow> string \<Rightarrow> store_error + unit" where
  \<comment> \<open>an answer whose body does not parse counts as an empty object\<close>
  "open_on_indexer c jobId =
     bindR (fetchFromIndexer c (''/jobs/'' @ encodeURIComponent jobId)) (\<lambda>(status, body).
       if \<not> response_ok_status status then
         Inl (Coded ''verification_failed'' (''Cannot verify job '' @ jobId @ '': onchain RPC failed and indexer returned '' @ nat_str status))
       else
         (let b = body_json c body
          in if b = JNull then
               Inl (Coded ''verification_failed'' (''Cannot verify job '' @ jobId @ '': onchain RPC and indexer both failed. Refusing to apply without verification.''))
             else
               (let job = (case jget ''job'' b of JObj kvs \<Rightarrow> JObj kvs | JArr vs \<Rightarrow> JArr vs | _ \<Rightarrow> b);
                    status = toLowerCase (text_or_empty (jget ''status'' job)); provider = toLowerCase (text_or_empty (jget ''provider'' job));
                    expiredAt = coalesce (jget ''expiredAt'' job) (jget ''expired_at'' job)
                in if status \<noteq> ''open'' \<and> status \<noteq> ''0'' then
                     Inl (Coded ''wrong_status'' (''Job '' @ jobId @ '' is '' @ status @ '', not Open. Cannot apply.''))
                   else if provider \<noteq> ZERO_ADDRESS \<and> provider \<noteq> ''0x0'' \<and> provider \<noteq> [] then
                     Inl (Coded ''already_assigned'' (''Job '' @ jobId @ '' already has provider. Not an open job.''))
                   else if jtruthy expiredAt \<and> expired_at expiredAt (sc_now c) then
                     Inl (Coded ''job_expired'' (''Job '' @ jobId @ '' has expired. Cannot apply.''))
                   else Inr ())))"

definition verify_open :: "store_call \<Rightarrow> string \<Rightarrow> store_error + unit" where
  \<comment> \<open>every error of the chain check has a code, so only a job id that is no integer reaches the indexer\<close>
  "verify_open c jobId = (case chain_job c jobId of Inr found \<Rightarrow> open_on_chain c jobId found | Inl _ \<Rightarrow> open_on_indexer c jobId)"

definition replace_first :: "char \<Rightarrow> char \<Rightarrow> string \<Rightarrow> string" where
  "replace_first a b s = (case dropWhile (\<lambda>c. c \<noteq> a) s of [] \<Rightarrow> s | _ # r \<Rightarrow> takeWhile (\<lambda>c. c \<noteq> a) s @ b # r)"

definition parse_quote :: "string \<Rightarrow> store_error + int" where
  \<comment> \<open>\<open>parseUsdcToAtomic\<close> of the console\<close>
  "parse_quote value =
     (let trimmed = trim value;
          cleaned = (if CHR '','' \<in> set trimmed \<and> CHR ''.'' \<notin> set trimmed then replace_first CHR '','' CHR ''.'' trimmed else trimmed);
          parts = split_on CHR ''.'' cleaned
      in if \<not> (list_all all_digits parts \<and> length parts \<le> 2) then
           Inl (McpFault ''VALIDATION_ERROR'' (''Invalid USDC amount: must be a plain decimal number (e.g. '' @ [CHR 0x22] @ ''1.5'' @ [CHR 0x22] @ '')''))
         else
           (let frac = (case parts of [_, f] \<Rightarrow> f | _ \<Rightarrow> [])
            in if 6 < length frac then
                 Inl (McpFault ''VALIDATION_ERROR'' (''Invalid USDC amount: max 6 decimal places, got '' @ nat_str (length frac)))
               else
                 (let atomic = int (digits_val (hd parts)) * 1000000 + int (digits_val (padEnd0 6 frac))
                  in if atomic \<le> 0 then Inl (McpFault ''VALIDATION_ERROR'' ''USDC amount must be > 0'') else Inr atomic)))"

definition quote_atomic :: "apply_input \<Rightarrow> store_error + string option" where
  "quote_atomic i =
     (if truthy (ai_usdc i) \<and> \<not> truthy (ai_atomic i)
      then bindR (parse_quote (or_else (ai_usdc i) [])) (\<lambda>n. Inr (Some (int_str n)))
      else Inr (ai_atomic i))"

definition new_application :: "store_call \<Rightarrow> apply_input \<Rightarrow> string \<Rightarrow> string option \<Rightarrow> application" where
  "new_application c i address atomic = \<lparr>an_id = sc_id c 0, an_job = ai_job i, an_agent = ai_agent i, an_address = address,
     an_status = ''submitted'', an_atomic = atomic, an_usdc = ai_usdc i, an_message = ai_message i,
     an_capabilities = or_else (ai_capabilities i) [], an_metadata = or_else (ai_metadata i) (JObj []),
     an_created = sc_time c 0, an_updated = sc_now c\<rparr>"

definition applyToOpenJob :: "store_call \<Rightarrow> apply_input \<Rightarrow> application store_op" where
  "applyToOpenJob c i =
     check_op (validateAgentId (ai_agent i)) (\<lambda>_.
     check_op (require_job (ai_job i)) (\<lambda>_.
     check_op (validateProviderAddress c (ai_address i)) (\<lambda>address.
     check_op (assertProviderAgentOwnership c (ai_agent i)) (\<lambda>_.
     check_op (verify_open c (ai_job i)) (\<lambda>_.
     check_op (quote_atomic i) (\<lambda>atomic.
     statement c 0 (upsert_application (new_application c i address atomic)) (\<lambda>r. case r of
         Inl (n, m) \<Rightarrow> throw_op (Coded ''apply_failed'' (''applyToOpenJob failed: '' @ m))
       | Inr app \<Rightarrow> return_op app)))))))"

definition withdrawOpenJobApplication :: "store_call \<Rightarrow> string \<Rightarrow> string \<Rightarrow> unit store_op" where
  "withdrawOpenJobApplication c agentId jobId =
     check_op (validateAgentId agentId) (\<lambda>_.
     check_op (require_job jobId) (\<lambda>_.
     check_op (assertProviderAgentOwnership c agentId) (\<lambda>_.
     statement c 0 (update_applications (\<lambda>a. an_job a = jobId \<and> an_agent a = agentId \<and> an_status a = ''submitted'')
         (\<lambda>a. a\<lparr>an_status := ''withdrawn'', an_updated := sc_now c\<rparr>)) (\<lambda>r. case r of
         Inl (n, m) \<Rightarrow> throw_op (Coded ''withdraw_failed'' (''withdraw failed: '' @ m))
       | Inr _ \<Rightarrow> return_op ()))))"

definition listProviderApplications :: "store_call \<Rightarrow> string \<Rightarrow> string option \<Rightarrow> application list store_op" where
  "listProviderApplications c agentId status =
     check_op (validateAgentId agentId) (\<lambda>_.
     check_op (assertProviderAgentOwnership c agentId) (\<lambda>_.
     statement c 0 (query (\<lambda>s. take 50 (newest_first an_created (filter (\<lambda>a. an_agent a = agentId
           \<and> (truthy status \<and> or_else status [] \<in> set APPLICATION_STATUSES \<longrightarrow> Some (an_status a) = status)) (rs_applications s)))))
       (\<lambda>r. return_op (case r of Inl e \<Rightarrow> [] | Inr as \<Rightarrow> as))))"

end
