(* ===== verification/Run_Concurrency.thy ===== *)
theory Run_Concurrency
  imports Run_Operations "HOL-Library.Sublist"
begin

text \<open>
  Concurrent callers of the provider runtime store: each awaits its statements one by one and any of
  them may run next. The locale \<open>store_logic\<close> is the rely and guarantee argument: every statement
  keeps an invariant and only extends the tables, so what a caller has seen stays true.
\<close>

section \<open>Statements that keep an invariant\<close>

locale store_logic =
  fixes inv :: "run_store \<Rightarrow> bool"
    and ext :: "run_store \<Rightarrow> run_store \<Rightarrow> bool"
    and knows :: "'k set \<Rightarrow> run_store \<Rightarrow> bool"
  assumes ext_refl: "ext s s"
    and ext_trans: "ext s t \<Longrightarrow> ext t u \<Longrightarrow> ext s u"
    and knows_ext: "ext s t \<Longrightarrow> knows K s \<Longrightarrow> knows K t"
    and knows_empty: "knows {} s"
begin

inductive safe :: "('a \<Rightarrow> 'k set \<Rightarrow> bool) \<Rightarrow> 'k set \<Rightarrow> 'a store_op \<Rightarrow> bool" for ok where
  Answer: "(\<And>a. r = Inr a \<Longrightarrow> ok a K) \<Longrightarrow> safe ok K (Answered r)"
| Await: "(\<And>s. inv s \<Longrightarrow> knows K s \<Longrightarrow> inv (snd (f s)) \<and> ext s (snd (f s)) \<and>
      (\<exists>L. knows L (snd (f s)) \<and> safe ok L (fst (f s)))) \<Longrightarrow> safe ok K (Awaits f)"

inductive_cases safe_AnsweredE: "safe ok K (Answered r)"
inductive_cases safe_AwaitsE: "safe ok K (Awaits f)"

lemma safe_return: "ok a K \<Longrightarrow> safe ok K (return_op a)"
  unfolding return_op_def by (rule Answer) simp

lemma safe_throw: "safe ok K (throw_op e)"
  unfolding throw_op_def by (rule Answer) simp

lemma safe_check: "(\<And>b. m = Inr b \<Longrightarrow> safe ok K (k b)) \<Longrightarrow> safe ok K (check_op m k)"
  by (cases m) (simp_all add: check_op_def safe_throw)

lemma safe_statement:
  assumes "\<And>s. inv s \<Longrightarrow> knows K s \<Longrightarrow> inv (snd (q s)) \<and> ext s (snd (q s))"
    and "\<And>s. inv s \<Longrightarrow> knows K s \<Longrightarrow> \<exists>L. knows L (snd (q s)) \<and> safe ok L (k (fst (q s)))"
    and "\<And>e. safe ok K (k (Inl e))"
  shows "safe ok K (statement c i q k)"
  unfolding statement_def
proof (rule Await)
  fix s assume s: "inv s" "knows K s"
  have stays: "knows K (snd (q s))" using assms(1) [OF s] s(2) knows_ext by blast
  show "inv (snd (case sc_fault c i of None \<Rightarrow> (k (fst (q s)), snd (q s))
          | Some (applied, e) \<Rightarrow> (k (Inl e), if applied then snd (q s) else s))) \<and>
      ext s (snd (case sc_fault c i of None \<Rightarrow> (k (fst (q s)), snd (q s))
          | Some (applied, e) \<Rightarrow> (k (Inl e), if applied then snd (q s) else s))) \<and>
      (\<exists>L. knows L (snd (case sc_fault c i of None \<Rightarrow> (k (fst (q s)), snd (q s))
          | Some (applied, e) \<Rightarrow> (k (Inl e), if applied then snd (q s) else s))) \<and>
        safe ok L (fst (case sc_fault c i of None \<Rightarrow> (k (fst (q s)), snd (q s))
          | Some (applied, e) \<Rightarrow> (k (Inl e), if applied then snd (q s) else s))))"
  proof (cases "sc_fault c i")
    case None
    with assms(1,2) [OF s] show ?thesis by simp
  next
    case (Some x)
    obtain applied e where x: "x = (applied, e)" by (cases x) simp
    have "knows K (if applied then snd (q s) else s)" using stays s(2) by simp
    then show ?thesis using assms(1) [OF s] assms(3) [of e] s(1) ext_refl Some x by auto
  qed
qed

lemma safe_write:
  assumes "\<And>s. inv s \<Longrightarrow> knows K s \<Longrightarrow> inv (snd (q s)) \<and> ext s (snd (q s))" and "\<And>r. safe ok K (k r)"
  shows "safe ok K (statement c i q k)"
  using assms knows_ext by (intro safe_statement) blast+

lemma safe_query:
  assumes "\<And>s. inv s \<Longrightarrow> knows K s \<Longrightarrow> \<exists>L. knows L s \<and> safe ok L (k (Inr (g s)))" and "\<And>e. safe ok K (k (Inl e))"
  shows "safe ok K (statement c i (query g) k)"
  using assms ext_refl by (intro safe_statement) (simp_all add: query_def)

lemma safe_weaken: "safe ok K p \<Longrightarrow> (\<And>s. knows L s \<Longrightarrow> knows K s) \<Longrightarrow> (\<And>a. ok a K \<Longrightarrow> ok a L) \<Longrightarrow> safe ok L p"
proof (induction arbitrary: L rule: safe.induct)
  case (Answer r K)
  then show ?case by (auto intro: safe.Answer)
next
  case (Await K f)
  then show ?case by (intro safe.Await) blast
qed

lemma safe_map: "safe ok K p \<Longrightarrow> (\<And>a K. ok a K \<Longrightarrow> ok' (h a) K) \<Longrightarrow> safe ok' K (map_store_op h p)"
proof (induction rule: safe.induct)
  case (Answer r K)
  then show ?case by (cases r) (auto intro: safe.Answer)
next
  case (Await K f)
  then show ?case by (auto simp: split_beta intro!: safe.Await) blast
qed

lemma safe_alone:
  "safe ok K p \<Longrightarrow> inv s \<Longrightarrow> knows K s \<Longrightarrow>
     inv (snd (alone p s)) \<and> ext s (snd (alone p s)) \<and> (\<forall>a. fst (alone p s) = Inr a \<longrightarrow> (\<exists>L. knows L (snd (alone p s)) \<and> ok a L))"
proof (induction arbitrary: s rule: safe.induct)
  case (Answer r K)
  then show ?case using ext_refl by auto
next
  case (Await K f)
  then obtain L where L: "inv (snd (f s))" "ext s (snd (f s))" "knows L (snd (f s))"
      "\<And>t. inv t \<Longrightarrow> knows L t \<Longrightarrow> inv (snd (alone (fst (f s)) t)) \<and> ext t (snd (alone (fst (f s)) t)) \<and>
        (\<forall>a. fst (alone (fst (f s)) t) = Inr a \<longrightarrow> (\<exists>L. knows L (snd (alone (fst (f s)) t)) \<and> ok a L))" by blast
  show ?case using L(4) [OF L(1,3)] L(2) ext_trans by (auto simp: split_beta)
qed

end

section \<open>The invariant of the tables\<close>

type_synonym run_ident = "string \<times> string \<times> string \<times> string"

definition run_ident :: "job_run \<Rightarrow> run_ident" where
  "run_ident r = (jr_id r, jr_agent r, jr_job r, jr_key r)"

definition idents :: "run_store \<Rightarrow> run_ident list" where
  "idents s = map run_ident (rs_runs s)"

definition st_pk :: "runtime_state \<Rightarrow> string \<times> string" where
  "st_pk r = (st_agent r, st_role r)"

definition an_pk :: "application \<Rightarrow> string \<times> string" where
  "an_pk a = (an_job a, an_agent a)"

definition points :: "run_ident set \<Rightarrow> runtime_state \<Rightarrow> bool" where
  \<comment> \<open>the active run of a state is a run of its agent for its active job\<close>
  "points I st \<longleftrightarrow> (\<forall>i. st_run st = Some i \<longrightarrow> (\<exists>j k. (i, st_agent st, j, k) \<in> I \<and> st_job st = Some j))"

definition store_inv :: "run_store \<Rightarrow> bool" where
  "store_inv s \<longleftrightarrow> distinct (map fst (idents s)) \<and> distinct (map (\<lambda>(i, a, j, k). k) (idents s))
     \<and> (\<forall>(i, a, j, k)\<in>set (idents s). k = buildRunIdempotencyKey a j \<and> isValidAgentId a)
     \<and> distinct (map st_pk (rs_states s)) \<and> (\<forall>st\<in>set (rs_states s). points (set (idents s)) st)
     \<and> (\<forall>cp\<in>set (rs_checkpoints s). cp_run cp \<in> fst ` set (idents s))
     \<and> distinct (map an_pk (rs_applications s))"

definition extends :: "run_store \<Rightarrow> run_store \<Rightarrow> bool" where
  "extends s t \<longleftrightarrow> prefix (idents s) (idents t) \<and> prefix (rs_checkpoints s) (rs_checkpoints t)
     \<and> prefix (map st_pk (rs_states s)) (map st_pk (rs_states t))
     \<and> prefix (map an_pk (rs_applications s)) (map an_pk (rs_applications t))"

definition knows :: "run_ident set \<Rightarrow> run_store \<Rightarrow> bool" where
  "knows K s \<longleftrightarrow> K \<subseteq> set (idents s)"

interpretation rt: store_logic store_inv extends knows
proof
  show "extends s s" for s by (simp add: extends_def)
  show "extends s t \<Longrightarrow> extends t u \<Longrightarrow> extends s u" for s t u
    unfolding extends_def by (blast intro: prefix_order.trans)
  show "extends s t \<Longrightarrow> knows K s \<Longrightarrow> knows K t" for s t K
    unfolding extends_def knows_def using set_mono_prefix by blast
  show "knows {} s" for s by (simp add: knows_def)
qed

lemma points_mono: "points I st \<Longrightarrow> I \<subseteq> J \<Longrightarrow> points J st"
  unfolding points_def by blast

text \<open>An agent id contains no colon, so a key determines its agent and its job.\<close>

lemma id_no_colon: "isValidAgentId a \<Longrightarrow> CHR '':'' \<notin> set a"
  by (auto simp: isValidAgentId_def list_all_iff is_id_char_def is_digit_def is_lower_letter_def code_def lower_char_def)

lemma run_key_inj:
  assumes "buildRunIdempotencyKey a j = buildRunIdempotencyKey b k" "isValidAgentId a" "isValidAgentId b"
  shows "a = b \<and> j = k"
proof -
  have eq: "a @ '':job:'' @ j = b @ '':job:'' @ k" using assms(1) by (simp add: buildRunIdempotencyKey_def)
  have head: "takeWhile (\<lambda>c. c \<noteq> CHR '':'') (x @ '':job:'' @ y) = x" if "CHR '':'' \<notin> set x" for x y
    using that by (subst takeWhile_append2) auto
  have "a = b" using head [OF id_no_colon [OF assms(2)], of j] head [OF id_no_colon [OF assms(3)], of k] eq by simp
  with eq show ?thesis by simp
qed

lemma valid_agent: "validateAgentId a = Inr u \<longleftrightarrow> isValidAgentId a"
  by (auto simp: validateAgentId_def isValidAgentId_def)

section \<open>The writes\<close>

definition moves :: "run_store \<Rightarrow> run_store \<Rightarrow> bool" where
  "moves s t \<longleftrightarrow> store_inv t \<and> extends s t"

lemma update_runs_moves:
  assumes "store_inv s" "\<And>r. run_ident (f r) = run_ident r"
  shows "moves s (snd (update_runs p f s))"
proof -
  have "idents (snd (update_runs p f s)) = idents s" using assms(2) by (simp add: idents_def update_runs_def)
  moreover have "rs_states (snd (update_runs p f s)) = rs_states s" "rs_checkpoints (snd (update_runs p f s)) = rs_checkpoints s"
      "rs_applications (snd (update_runs p f s)) = rs_applications s" by (simp_all add: update_runs_def)
  ultimately show ?thesis using assms(1) by (simp add: moves_def store_inv_def extends_def)
qed

lemma update_states_moves:
  assumes "store_inv s" "\<And>r. st_pk (f r) = st_pk r"
    and "\<And>r. r \<in> set (rs_states s) \<Longrightarrow> p r \<Longrightarrow> points (set (idents s)) r \<Longrightarrow> points (set (idents s)) (f r)"
  shows "moves s (snd (update_states p f s))"
proof -
  have "idents (snd (update_states p f s)) = idents s" by (simp add: idents_def update_states_def)
  moreover have "map st_pk (rs_states (snd (update_states p f s))) = map st_pk (rs_states s)"
    using assms(2) by (simp add: update_states_def)
  moreover have "\<forall>st\<in>set (rs_states (snd (update_states p f s))). points (set (idents s)) st"
    using assms(1,3) by (auto simp: update_states_def store_inv_def)
  moreover have "rs_checkpoints (snd (update_states p f s)) = rs_checkpoints s"
      "rs_applications (snd (update_states p f s)) = rs_applications s" by (simp_all add: update_states_def)
  ultimately show ?thesis using assms(1) by (simp add: moves_def store_inv_def extends_def)
qed

lemma upsert_state_moves:
  assumes "store_inv s" "\<And>r. st_pk (f r) = st_pk r" "st_role fresh = ''provider''"
    and "\<And>r. st_agent r = st_agent fresh \<Longrightarrow> points (set (idents s)) r \<Longrightarrow> points (set (idents s)) (f r)"
    and "st_run fresh = None"
  shows "moves s (snd (upsert_state fresh f s))"
proof (cases "list_ex (is_state_of (st_agent fresh)) (rs_states s)")
  case True
  then have "snd (upsert_state fresh f s) = snd (update_states (is_state_of (st_agent fresh)) f s)"
    by (simp add: upsert_state_def update_states_def)
  then show ?thesis using assms(1,2,4) by (auto simp: is_state_of_def intro!: update_states_moves)
next
  case False
  have new: "st_pk (f fresh) \<notin> st_pk ` set (rs_states s)"
    using False assms(2,3) by (auto simp: list_ex_iff is_state_of_def st_pk_def)
  have "points (set (idents s)) fresh" using assms(5) by (simp add: points_def)
  then have "points (set (idents s)) (f fresh)" using assms(4) by blast
  moreover have "idents (snd (upsert_state fresh f s)) = idents s" by (simp add: idents_def upsert_state_def)
  moreover have "rs_states (snd (upsert_state fresh f s)) = rs_states s @ [f fresh]"
      "rs_checkpoints (snd (upsert_state fresh f s)) = rs_checkpoints s"
      "rs_applications (snd (upsert_state fresh f s)) = rs_applications s" using False by (simp_all add: upsert_state_def)
  ultimately show ?thesis using assms(1) new by (simp add: moves_def store_inv_def extends_def)
qed

lemma insert_run_moves:
  assumes "store_inv s" "jr_key r = buildRunIdempotencyKey (jr_agent r) (jr_job r)" "isValidAgentId (jr_agent r)"
  shows "moves s (snd (insert_run r s))"
proof (cases "jr_id r \<in> jr_id ` set (rs_runs s) \<or> jr_key r \<in> jr_key ` set (rs_runs s)")
  case True
  then show ?thesis using assms(1) rt.ext_refl by (simp add: insert_run_def moves_def)
next
  case False
  let ?t = "snd (insert_run r s)"
  have ids: "idents ?t = idents s @ [run_ident r]" "rs_states ?t = rs_states s" "rs_checkpoints ?t = rs_checkpoints s"
      "rs_applications ?t = rs_applications s" using False by (simp_all add: insert_run_def idents_def)
  have new: "jr_id r \<notin> fst ` set (idents s)" "jr_key r \<notin> (\<lambda>(i, a, j, k). k) ` set (idents s)"
    using False by (auto simp: idents_def run_ident_def)
  have pts: "\<forall>st\<in>set (rs_states s). points (insert (run_ident r) (set (idents s))) st"
    using assms(1) points_mono unfolding store_inv_def by blast
  show ?thesis
    using assms new pts unfolding moves_def store_inv_def extends_def ids by (auto simp: run_ident_def)
qed

lemma insert_checkpoint_moves:
  assumes "store_inv s"
  shows "moves s (snd (insert_checkpoint cp s))"
proof (cases "cp_run cp \<in> jr_id ` set (rs_runs s)")
  case True
  then have "cp_run cp \<in> fst ` set (idents s)" by (force simp: idents_def run_ident_def)
  with True assms show ?thesis
    by (simp add: insert_checkpoint_def moves_def store_inv_def extends_def idents_def)
next
  case False
  then show ?thesis using assms rt.ext_refl by (simp add: insert_checkpoint_def moves_def)
qed

lemma update_applications_moves:
  assumes "store_inv s" "\<And>a. an_pk (f a) = an_pk a"
  shows "moves s (snd (update_applications p f s))"
proof -
  have "map an_pk (rs_applications (snd (update_applications p f s))) = map an_pk (rs_applications s)"
    using assms(2) by (simp add: update_applications_def)
  moreover have "idents (snd (update_applications p f s)) = idents s" "rs_states (snd (update_applications p f s)) = rs_states s"
      "rs_checkpoints (snd (update_applications p f s)) = rs_checkpoints s" by (simp_all add: idents_def update_applications_def)
  ultimately show ?thesis using assms(1) by (simp add: moves_def store_inv_def extends_def)
qed

lemma upsert_application_moves:
  assumes "store_inv s"
  shows "moves s (snd (upsert_application new s))"
proof (cases "find (same_application new) (rs_applications s)")
  case None
  then have "an_pk new \<notin> an_pk ` set (rs_applications s)"
    by (auto simp: find_None_iff same_application_def an_pk_def)
  then show ?thesis using None assms by (simp add: upsert_application_def moves_def store_inv_def extends_def idents_def)
next
  case (Some old)
  have pk: "map (an_pk \<circ> (\<lambda>r. if same_application new r then merge_application new r else r)) rows = map an_pk rows" for rows
    by (auto simp: merge_application_def an_pk_def same_application_def)
  show ?thesis
    using Some assms by (simp add: upsert_application_def moves_def store_inv_def extends_def idents_def pk)
qed

section \<open>The operations\<close>

lemma moves_split: "moves s t \<Longrightarrow> store_inv t \<and> extends s t"
  by (simp add: moves_def)

lemma find_ident: "find P (rs_runs s) = Some r \<Longrightarrow> P r \<and> run_ident r \<in> set (idents s)"
  by (auto simp: find_Some_iff idents_def)

lemma newest_in: "newest f rs = Some r \<Longrightarrow> r \<in> set rs"
  by (induction rs arbitrary: r) (auto split: option.splits if_splits)

lemma newest_ident: "newest f (filter P (rs_runs s)) = Some r \<Longrightarrow> P r \<and> run_ident r \<in> set (idents s)"
  by (auto dest!: newest_in simp: idents_def)

lemma ident_of_key:
  assumes "store_inv s" "run_ident r \<in> set (idents s)" "jr_key r = buildRunIdempotencyKey a j" "isValidAgentId a"
  shows "jr_agent r = a \<and> jr_job r = j"
proof -
  have "jr_key r = buildRunIdempotencyKey (jr_agent r) (jr_job r)" "isValidAgentId (jr_agent r)"
    using assms(1,2) by (auto simp: store_inv_def run_ident_def)
  with assms(3,4) show ?thesis using run_key_inj by metis
qed

lemma data_of_simps [simp]: "data_of (Inl e) = None" "data_of (Inr x) = x"
  by (simp_all add: data_of_def)

lemma points_set:
  assumes "knows K s" "(i, st_agent r, j, k) \<in> K"
  shows "st_run r' = Some i \<Longrightarrow> st_agent r' = st_agent r \<Longrightarrow> st_job r' = Some j \<Longrightarrow> points (set (idents s)) r'"
  using assms by (auto simp: points_def knows_def)

definition run_of :: "string \<Rightarrow> string \<Rightarrow> job_run \<Rightarrow> run_ident set \<Rightarrow> bool" where
  "run_of a j r K \<longleftrightarrow> run_ident r \<in> K \<and> jr_agent r = a \<and> jr_job r = j"

lemma sync_safe:
  assumes "run_of a j run K"
  shows "rt.safe (run_of a j) K (sync_state c i a j run)"
  unfolding sync_state_def
proof (rule rt.safe_write)
  fix s assume s: "store_inv s" "knows K s"
  have known: "(jr_id run, a, j, jr_key run) \<in> K" using assms by (auto simp: run_of_def run_ident_def)
  show "store_inv (snd (upsert_state (fresh_state (sc_id c i) a (sc_time c i))
          (\<lambda>r. r\<lparr>st_job := Some j, st_run := Some (jr_id run), st_status := ''active'', st_updated := sc_now c\<rparr>) s)) \<and>
      extends s (snd (upsert_state (fresh_state (sc_id c i) a (sc_time c i))
          (\<lambda>r. r\<lparr>st_job := Some j, st_run := Some (jr_id run), st_status := ''active'', st_updated := sc_now c\<rparr>) s))"
  proof (intro moves_split upsert_state_moves)
    show "store_inv s" by fact
    show "points (set (idents s)) (r\<lparr>st_job := Some j, st_run := Some (jr_id run), st_status := ''active'', st_updated := sc_now c\<rparr>)"
      if "st_agent r = st_agent (fresh_state (sc_id c i) a (sc_time c i))" for r
      using that known s(2) by (intro points_set [where r = r and K = K]) (simp_all add: fresh_state_def)
  qed (simp_all add: st_pk_def fresh_state_def)
qed (rule rt.safe_return, rule assms)

lemma start_safe: "rt.safe (run_of a j) {} (startProviderJobRun c a j p)"
  unfolding startProviderJobRun_def
proof (intro rt.safe_check)
  fix u assume "validateAgentId a = Inr u"
  then have valid: "isValidAgentId a" by (simp only: valid_agent)
  let ?key = "buildRunIdempotencyKey a j"
  have found: "\<exists>L. knows L s \<and> rt.safe (run_of a j) L (case data_of (Inr (find P (rs_runs s))) of
        Some run \<Rightarrow> sync_state c 3 a j run | None \<Rightarrow> k)"
    if "store_inv s" "\<And>r. P r \<Longrightarrow> jr_key r = ?key" "rt.safe (run_of a j) {} k" for s P k
  proof (cases "find P (rs_runs s)")
    case None
    then show ?thesis using that(3) rt.knows_empty by auto
  next
    case (Some r)
    note r = find_ident [OF Some]
    have "jr_agent r = a \<and> jr_job r = j" using ident_of_key [OF that(1)] r that(2) valid by blast
    then have "rt.safe (run_of a j) {run_ident r} (sync_state c 3 a j r)" by (intro sync_safe) (simp add: run_of_def)
    moreover have "knows {run_ident r} s" using r by (simp add: knows_def)
    ultimately show ?thesis using Some by auto
  qed
  have race: "rt.safe (run_of a j) {} (statement c 2 (query (\<lambda>s. find (\<lambda>r. jr_key r = ?key) (rs_runs s))) (\<lambda>raced.
      case data_of raced of Some run \<Rightarrow> sync_state c 3 a j run
      | None \<Rightarrow> throw_op (Coded ''start_run_failed'' ''startJobRun race but no run found'')))"
    by (intro rt.safe_query found) (auto intro: rt.safe_throw)
  have insert: "rt.safe (run_of a j) {} (statement c 1 (insert_run (new_run c a j p)) (\<lambda>inserted. case inserted of
      Inr run \<Rightarrow> sync_state c 3 a j run
    | Inl (n, m) \<Rightarrow> if n = ''23505'' then statement c 2 (query (\<lambda>s. find (\<lambda>r. jr_key r = ?key) (rs_runs s))) (\<lambda>raced.
          case data_of raced of Some run \<Rightarrow> sync_state c 3 a j run
          | None \<Rightarrow> throw_op (Coded ''start_run_failed'' ''startJobRun race but no run found''))
        else throw_op (Coded ''start_run_failed'' (''startJobRun failed: '' @ m))))"
  proof (rule rt.safe_statement)
    fix s assume s: "store_inv s"
    show "store_inv (snd (insert_run (new_run c a j p) s)) \<and> extends s (snd (insert_run (new_run c a j p) s))"
      using s valid by (intro moves_split insert_run_moves) (simp_all add: new_run_def)
    have mine: "run_of a j (new_run c a j p) {run_ident (new_run c a j p)}" by (simp add: run_of_def new_run_def)
    show "\<exists>L. knows L (snd (insert_run (new_run c a j p) s)) \<and> rt.safe (run_of a j) L (case fst (insert_run (new_run c a j p) s) of
      Inr run \<Rightarrow> sync_state c 3 a j run
    | Inl (n, m) \<Rightarrow> if n = ''23505'' then statement c 2 (query (\<lambda>s. find (\<lambda>r. jr_key r = ?key) (rs_runs s))) (\<lambda>raced.
          case data_of raced of Some run \<Rightarrow> sync_state c 3 a j run
          | None \<Rightarrow> throw_op (Coded ''start_run_failed'' ''startJobRun race but no run found''))
        else throw_op (Coded ''start_run_failed'' (''startJobRun failed: '' @ m)))"
    proof (cases "jr_id (new_run c a j p) \<in> jr_id ` set (rs_runs s) \<or> jr_key (new_run c a j p) \<in> jr_key ` set (rs_runs s)")
      case True
      then show ?thesis using race rt.knows_empty by (auto simp: insert_run_def)
    next
      case False
      then show ?thesis using sync_safe [OF mine, of c 3]
        by (intro exI [of _ "{run_ident (new_run c a j p)}"]) (simp add: insert_run_def knows_def idents_def)
    qed
  qed (auto intro: race rt.safe_throw)
  show "rt.safe (run_of a j) {} (start_steps c a j p)"
    unfolding start_steps_def Let_def
  proof (rule rt.safe_query, goal_cases)
    case (1 s)
    show ?case by (rule found [OF 1(1) _ insert]) simp
  next
    case (2 e)
    show ?case using insert by (simp only: data_of_simps option.case)
  qed
qed

abbreviation any_answer :: "'a \<Rightarrow> run_ident set \<Rightarrow> bool" where
  "any_answer a K \<equiv> True"

lemma checkpoint_steps_safe: "rt.safe any_answer {} (checkpoint_steps c i runId)"
  unfolding checkpoint_steps_def
proof (rule rt.safe_write, goal_cases)
  case (1 s)
  then show ?case by (intro moves_split insert_checkpoint_moves)
next
  case (2 r)
  have updates: "rt.safe any_answer {} (statement c 2 (update_states (is_state_of (ci_agent i))
        (\<lambda>r. r\<lparr>st_checkpoint := Some (ci_phase i), st_updated := sc_now c\<rparr>)) (\<lambda>_.
      statement c 3 (update_runs (\<lambda>r. jr_id r = runId) (\<lambda>r. r\<lparr>jr_phase := ci_phase i, jr_updated := sc_now c\<rparr>)) (\<lambda>_.
      return_op cp)))" for cp
    by (intro rt.safe_write rt.safe_return TrueI moves_split update_states_moves update_runs_moves)
      (simp_all add: st_pk_def run_ident_def points_def)
  show ?case by (cases r) (auto intro: updates rt.safe_throw)
qed

lemma write_safe: "rt.safe any_answer {} (writeProviderCheckpoint c i)"
  unfolding writeProviderCheckpoint_def
proof (intro rt.safe_check, goal_cases)
  case 1
  show ?case
  proof (cases "truthy (ci_run i)")
    case False
    show ?thesis unfolding if_not_P [OF False]
    proof (rule rt.safe_query, goal_cases)
      case (1 s)
      have "rt.safe any_answer {} (case r of None \<Rightarrow> throw_op e | Some r \<Rightarrow> checkpoint_steps c i (jr_id r))" for r e
        by (cases r) (auto intro: checkpoint_steps_safe rt.safe_throw)
      then show ?case using rt.knows_empty by (intro exI [of _ "{}"]) simp
    qed (simp add: rt.safe_throw)
  qed (simp add: checkpoint_steps_safe)
qed

lemma finish_safe:
  assumes "\<And>r. st_pk (clear r) = st_pk r" "\<And>r. st_run (clear r) = st_run r"
  shows "rt.safe any_answer {} (finish_steps c a runId status clear)"
  unfolding finish_steps_def
proof (intro rt.safe_write rt.safe_return TrueI moves_split update_states_moves update_runs_moves)
  show "st_pk (clear (r\<lparr>st_job := None, st_run := None, st_updated := sc_now c\<rparr>)) = st_pk r" for r
    using assms(1) by (simp add: st_pk_def)
qed (simp_all add: run_ident_def points_def assms(2))

lemma complete_safe: "rt.safe any_answer {} (completeProviderJobRun c a runId)"
  unfolding completeProviderJobRun_def by (intro rt.safe_check finish_safe) simp_all

lemma fail_safe: "rt.safe any_answer {} (failProviderJobRun c a runId e)"
  unfolding failProviderJobRun_def by (intro rt.safe_check finish_safe) (simp_all add: st_pk_def)

definition retried :: "string \<Rightarrow> string \<Rightarrow> string \<times> js_number \<times> string \<Rightarrow> run_ident set \<Rightarrow> bool" where
  "retried a j answer K \<longleftrightarrow> (\<exists>k. (fst answer, a, j, k) \<in> K)"

lemma retry_writes_safe:
  assumes "jr_agent run = a" "jr_job run = j"
  shows "rt.safe (retried a j) {run_ident run} (statement c 2 (update_runs (\<lambda>r. jr_id r = jr_id run \<and> jr_agent r = a)
          (\<lambda>r. r\<lparr>jr_status := ''active'', jr_completed := None, jr_updated := sc_now c\<rparr>)) (\<lambda>_.
        statement c 3 (update_states (is_state_of a)
          (\<lambda>r. r\<lparr>st_job := Some j, st_run := Some (jr_id run), st_error := None, st_updated := sc_now c\<rparr>)) (\<lambda>_.
        statement c 4 (insert_checkpoint cp) (\<lambda>_. return_op (jr_id run, counted, phase)))))"
proof -
  let ?K = "{run_ident run}"
  have known: "(jr_id run, a, j, jr_key run) \<in> ?K" using assms by (simp add: run_ident_def)
  have last: "rt.safe (retried a j) ?K (statement c 4 (insert_checkpoint cp) (\<lambda>_. return_op (jr_id run, counted, phase)))"
  proof (rule rt.safe_write)
    show "rt.safe (retried a j) ?K (return_op (jr_id run, counted, phase))"
      using known by (intro rt.safe_return) (auto simp: retried_def)
  qed (intro moves_split insert_checkpoint_moves)
  have "rt.safe (retried a j) ?K (statement c 3 (update_states (is_state_of a)
          (\<lambda>r. r\<lparr>st_job := Some j, st_run := Some (jr_id run), st_error := None, st_updated := sc_now c\<rparr>)) (\<lambda>_.
        statement c 4 (insert_checkpoint cp) (\<lambda>_. return_op (jr_id run, counted, phase))))"
  proof (rule rt.safe_write [OF moves_split last], rule update_states_moves)
    fix s and r :: runtime_state
    assume "knows ?K s" "is_state_of a r"
    then show "points (set (idents s)) (r\<lparr>st_job := Some j, st_run := Some (jr_id run), st_error := None, st_updated := sc_now c\<rparr>)"
      using known by (intro points_set [where r = r and K = ?K]) (simp_all add: is_state_of_def)
  qed (simp_all add: st_pk_def)
  from rt.safe_write [OF moves_split this, where q = "update_runs (\<lambda>r. jr_id r = jr_id run \<and> jr_agent r = a)
      (\<lambda>r. r\<lparr>jr_status := ''active'', jr_completed := None, jr_updated := sc_now c\<rparr>)"]
  show ?thesis using update_runs_moves by (simp add: run_ident_def)
qed

lemma retry_safe: "rt.safe (retried a j) {} (retryProviderJobRun c a j reason)"
  unfolding retryProviderJobRun_def
proof (intro rt.safe_check rt.safe_query, goal_cases)
  case (1 u x agent s)
  then have valid: "isValidAgentId a" by (simp only: valid_agent)
  show ?case
  proof (cases "newest jr_started (filter (\<lambda>r. jr_key r = buildRunIdempotencyKey a j) (rs_runs s))")
    case None
    then show ?thesis using rt.knows_empty by (auto intro: rt.safe_throw)
  next
    case (Some run)
    note run = newest_ident [OF Some]
    have mine: "jr_agent run = a" "jr_job run = j" using ident_of_key [OF 1(4)] run valid by blast+
    have "rt.safe (retried a j) {run_ident run} (statement c 1 (query (\<lambda>s. newest cp_created (filter (\<lambda>p. cp_run p = jr_id run) (rs_checkpoints s)))) (\<lambda>lastCp.
        let cp = data_of lastCp; counted = plus_one (retry_count cp)
        in check_op (retry_allowed c j run cp) (\<lambda>_.
           statement c 2 (update_runs (\<lambda>r. jr_id r = jr_id run \<and> jr_agent r = a)
             (\<lambda>r. r\<lparr>jr_status := ''active'', jr_completed := None, jr_updated := sc_now c\<rparr>)) (\<lambda>_.
           statement c 3 (update_states (is_state_of a)
             (\<lambda>r. r\<lparr>st_job := Some j, st_run := Some (jr_id run), st_error := None, st_updated := sc_now c\<rparr>)) (\<lambda>_.
           statement c 4 (insert_checkpoint (retry_checkpoint c a j (jr_id run) (sc_number c counted) reason)) (\<lambda>_.
           return_op (jr_id run, counted, ''runtime_retry_requested'')))))))"
      unfolding Let_def
    proof (rule rt.safe_query, goal_cases)
      case (1 s)
      then show ?case by (intro exI [of _ "{run_ident run}"] conjI rt.safe_check retry_writes_safe [OF mine])
    next
      case (2 e)
      show ?case by (intro rt.safe_check retry_writes_safe [OF mine])
    qed
    moreover have "knows {run_ident run} s" using run by (simp add: knows_def)
    ultimately show ?thesis using Some by auto
  qed
qed (simp add: rt.safe_throw)

definition context_ok :: "string \<Rightarrow> runtime_context \<Rightarrow> run_ident set \<Rightarrow> bool" where
  "context_ok a ctx K \<longleftrightarrow> (\<forall>r. rc_run ctx = Some r \<longrightarrow> run_ident r \<in> K \<and> jr_agent r = a)"

lemma context_rest_safe:
  assumes "\<And>r. run = Some r \<Longrightarrow> run_ident r \<in> K \<and> jr_agent r = a"
  shows "rt.safe (context_ok a) K (context_rest c a address state run)"
proof -
  have apps: "rt.safe (context_ok a) K (statement c 5 (query g) (\<lambda>r. return_op \<lparr>rc_state = state, rc_run = run, rc_checkpoint = cp,
      rc_applications = h r, rc_plan = plan\<rparr>))" for g and h :: "db_error + application list \<Rightarrow> application list" and cp plan
    by (rule rt.safe_query) (use assms in \<open>auto intro!: rt.safe_return simp: context_ok_def\<close>)
  show ?thesis
  proof (cases run)
    case None
    then show ?thesis using apps by (simp add: context_rest_def)
  next
    case (Some r)
    have "rt.safe (context_ok a) K (context_rest c a address state (Some r))"
      unfolding context_rest_def Let_def option.case
    proof (rule rt.safe_query, goal_cases)
      case (1 s)
      then show ?case using apps Some by blast
    next
      case (2 e)
      show ?case using apps Some by blast
    qed
    with Some show ?thesis by simp
  qed
qed

lemma context_fallback_safe: "rt.safe (context_ok a) {} (context_fallback c a address state)"
  unfolding context_fallback_def
proof (rule rt.safe_query, goal_cases)
  case (1 s)
  show ?case
  proof (cases "active_run a s")
    case None
    then show ?thesis using rt.knows_empty by (auto intro: context_rest_safe)
  next
    case (Some run)
    then have run: "jr_agent run = a" "run_ident run \<in> set (idents s)"
      using newest_ident unfolding active_run_def by blast+
    let ?K = "{run_ident run}"
    have rest: "rt.safe (context_ok a) ?K (context_rest c a address state (Some run))"
      using run by (intro context_rest_safe) simp
    have "rt.safe (context_ok a) ?K (statement c 3 (update_states (is_state_of a)
        (\<lambda>r. r\<lparr>st_job := Some (jr_job run), st_run := Some (jr_id run), st_updated := sc_time c 3\<rparr>))
        (\<lambda>_. context_rest c a address state (Some run)))"
    proof (rule rt.safe_write [OF moves_split rest], rule update_states_moves)
      fix s and r :: runtime_state
      assume "knows ?K s" "is_state_of a r"
      then show "points (set (idents s)) (r\<lparr>st_job := Some (jr_job run), st_run := Some (jr_id run), st_updated := sc_time c 3\<rparr>)"
        using run(1) by (intro points_set [where r = r and K = ?K]) (auto simp: is_state_of_def run_ident_def)
    qed (simp_all add: st_pk_def)
    then show ?thesis using Some rest run by (cases state) (auto intro!: exI [of _ ?K] simp: knows_def)
  qed
qed (auto intro: context_rest_safe)

lemma ident_of_id:
  assumes "store_inv s" "(i, a, j, k) \<in> set (idents s)" "run_ident r \<in> set (idents s)" "jr_id r = i"
  shows "run_ident r = (i, a, j, k)"
proof -
  have "inj_on fst (set (idents s))" using assms(1) by (simp add: store_inv_def distinct_map)
  with assms(2-4) show ?thesis by (metis fst_conv inj_onD run_ident_def)
qed

lemma get_context_safe: "rt.safe (context_ok a) {} (getProviderRuntimeContext c a address)"
  unfolding getProviderRuntimeContext_def Let_def
proof (intro rt.safe_check rt.safe_query, goal_cases)
  case (1 u x s)
  let ?state = "find (is_state_of a) (rs_states s)"
  show ?case
  proof (cases "truthy (case ?state of None \<Rightarrow> None | Some st \<Rightarrow> st_run st)")
    case False
    then show ?thesis using rt.knows_empty context_fallback_safe by (intro exI [of _ "{}"]) simp
  next
    case True
    then obtain st i where st: "?state = Some st" "st_run st = Some i" by (cases ?state) auto
    have "st \<in> set (rs_states s)" "st_agent st = a" using st(1) by (auto simp: find_Some_iff is_state_of_def)
    then obtain j k where known: "(i, a, j, k) \<in> set (idents s)"
      using 1(3) st(2) unfolding store_inv_def points_def by blast
    let ?K = "{(i, a, j, k)}"
    have "rt.safe (context_ok a) ?K (statement c 1 (query (\<lambda>s. find (\<lambda>r. Some (jr_id r) = Some i \<and> jr_status r = ''active'') (rs_runs s)))
        (\<lambda>found. case data_of found of Some run \<Rightarrow> context_rest c a address (Some st) (Some run)
          | None \<Rightarrow> context_fallback c a address (Some st)))"
    proof (rule rt.safe_query, goal_cases)
      case (1 t)
      show ?case
      proof (cases "find (\<lambda>r. Some (jr_id r) = Some i \<and> jr_status r = ''active'') (rs_runs t)")
        case None
        then show ?thesis using rt.knows_empty context_fallback_safe by (intro exI [of _ "{}"]) simp
      next
        case (Some run)
        note r = find_ident [OF Some]
        have "run_ident run = (i, a, j, k)"
          using ident_of_id [OF 1(1)] 1(2) r by (simp add: knows_def)
        then show ?thesis using Some 1(2) by (auto intro!: exI [of _ ?K] context_rest_safe simp: run_ident_def)
      qed
    next
      case (2 e)
      have "rt.safe (context_ok a) ?K (context_fallback c a address (Some st))"
        by (rule rt.safe_weaken [OF context_fallback_safe]) (auto simp: knows_def context_ok_def)
      then show ?case by simp
    qed
    then show ?thesis
      using True st(2) known unfolding data_of_simps st(1) option.case by (intro exI [of _ ?K]) (simp add: knows_def)
  qed
qed (simp add: context_fallback_safe)

lemma get_plan_safe: "rt.safe any_answer {} (getProviderResumePlan c a jobId address)"
proof -
  have "rt.safe any_answer {} (case r of None \<Rightarrow> return_op None
      | Some run \<Rightarrow> statement c 1 (query (latest_checkpoint run)) (\<lambda>cp. return_op (Some (buildResumePlan c run (data_of cp) address))))" for r
    by (cases r) (auto intro!: rt.safe_return rt.safe_query intro: rt.knows_empty)
  then show ?thesis unfolding getProviderResumePlan_def
    by (intro rt.safe_check rt.safe_query exI [of _ "{}"] conjI rt.knows_empty) blast+
qed

lemma answer_write_safe:
  assumes "\<And>s. store_inv s \<Longrightarrow> moves s (snd (q s))"
  shows "rt.safe any_answer {} (statement c i q (\<lambda>r. case r of Inl (n, m) \<Rightarrow> throw_op (e m) | Inr x \<Rightarrow> return_op (h x)))"
proof (rule rt.safe_write)
  show "rt.safe any_answer {} (case r of Inl (n, m) \<Rightarrow> throw_op (e m) | Inr x \<Rightarrow> return_op (h x))" for r
    by (cases r) (auto intro: rt.safe_return rt.safe_throw)
qed (intro moves_split assms)

lemma heartbeat_safe: "rt.safe any_answer {} (heartbeatProvider c a)"
  unfolding heartbeatProvider_def
  by (intro rt.safe_check answer_write_safe upsert_state_moves) (simp_all add: st_pk_def fresh_state_def points_def)

lemma apply_safe: "rt.safe any_answer {} (applyToOpenJob c i)"
proof -
  note stored = answer_write_safe [where h = "\<lambda>x. x", OF upsert_application_moves]
  show ?thesis unfolding applyToOpenJob_def by (intro rt.safe_check stored)
qed

lemma withdraw_safe: "rt.safe any_answer {} (withdrawOpenJobApplication c a j)"
  unfolding withdrawOpenJobApplication_def
  by (intro rt.safe_check answer_write_safe update_applications_moves) (simp_all add: an_pk_def)

lemma list_safe: "rt.safe any_answer {} (listProviderApplications c a status)"
  unfolding listProviderApplications_def
  by (intro rt.safe_check rt.safe_query exI [of _ "{}"] conjI rt.knows_empty rt.safe_return TrueI)

end
