(* ===== verification/Run_Store_Properties.thy ===== *)
theory Run_Store_Properties
  imports Run_Concurrency
begin

text \<open>
  What the provider runtime store promises: over every interleaving of its callers, and for one caller
  alone the resume plan, the retries and the applications.
\<close>

section \<open>All callers\<close>

datatype store_request =
  StartRun string string string
| WriteCheckpoint checkpoint_input
| CompleteRun string string
| FailRun string string string
| RetryRun string string string
| GetContext string "string option"
| GetPlan string "string option" "string option"
| Heartbeat string
| ApplyOpen apply_input
| WithdrawOpen string string
| ListOpen string "string option"

datatype store_answer =
  RunAnswer job_run
| CheckpointAnswer checkpoint
| UnitAnswer
| RetryAnswer "string \<times> js_number \<times> string"
| ContextAnswer runtime_context
| PlanAnswer "resume_plan option"
| ApplicationAnswer application
| ListAnswer "application list"
| JobsAnswer json

fun serve :: "store_call \<Rightarrow> store_request \<Rightarrow> store_answer store_op" where
  "serve c (StartRun a j p) = map_store_op RunAnswer (startProviderJobRun c a j p)"
| "serve c (WriteCheckpoint i) = map_store_op CheckpointAnswer (writeProviderCheckpoint c i)"
| "serve c (CompleteRun a r) = map_store_op (\<lambda>_. UnitAnswer) (completeProviderJobRun c a r)"
| "serve c (FailRun a r e) = map_store_op (\<lambda>_. UnitAnswer) (failProviderJobRun c a r e)"
| "serve c (RetryRun a j reason) = map_store_op RetryAnswer (retryProviderJobRun c a j reason)"
| "serve c (GetContext a addr) = map_store_op ContextAnswer (getProviderRuntimeContext c a addr)"
| "serve c (GetPlan a j addr) = map_store_op PlanAnswer (getProviderResumePlan c a j addr)"
| "serve c (Heartbeat a) = map_store_op (\<lambda>_. UnitAnswer) (heartbeatProvider c a)"
| "serve c (ApplyOpen i) = map_store_op ApplicationAnswer (applyToOpenJob c i)"
| "serve c (WithdrawOpen a j) = map_store_op (\<lambda>_. UnitAnswer) (withdrawOpenJobApplication c a j)"
| "serve c (ListOpen a st) = map_store_op ListAnswer (listProviderApplications c a st)"

type_synonym store_system = "run_store \<times> (store_request \<times> store_answer store_op) list"

inductive store_step :: "store_system \<Rightarrow> store_system \<Rightarrow> bool" where
  call: "store_step (s, ps) (s, ps @ [(req, serve c req)])"
| await: "i < length ps \<Longrightarrow> ps ! i = (req, Awaits f) \<Longrightarrow> store_step (s, ps) (snd (f s), ps[i := (req, fst (f s))])"

definition no_tables :: run_store where
  "no_tables = \<lparr>rs_states = [], rs_runs = [], rs_checkpoints = [], rs_applications = []\<rparr>"

fun answer_ok :: "store_request \<Rightarrow> store_answer \<Rightarrow> run_ident set \<Rightarrow> bool" where
  "answer_ok (StartRun a j p) (RunAnswer r) K = run_of a j r K"
| "answer_ok (RetryRun a j reason) (RetryAnswer x) K = retried a j x K"
| "answer_ok (GetContext a addr) (ContextAnswer ctx) K = context_ok a ctx K"
| "answer_ok _ _ K = True"

lemma serve_safe: "rt.safe (answer_ok req) {} (serve c req)"
proof (cases req)
  case (StartRun a j p)
  then show ?thesis using rt.safe_map [OF start_safe, where h = RunAnswer and ok' = "answer_ok req"] by simp
next
  case (RetryRun a j reason)
  then show ?thesis using rt.safe_map [OF retry_safe, where h = RetryAnswer and ok' = "answer_ok req"] by simp
next
  case (GetContext a addr)
  then show ?thesis using rt.safe_map [OF get_context_safe, where h = ContextAnswer and ok' = "answer_ok req"] by simp
qed (auto intro: rt.safe_map [OF write_safe] rt.safe_map [OF complete_safe] rt.safe_map [OF fail_safe] rt.safe_map [OF get_plan_safe]
    rt.safe_map [OF heartbeat_safe] rt.safe_map [OF apply_safe] rt.safe_map [OF withdraw_safe] rt.safe_map [OF list_safe])

fun system_inv :: "store_system \<Rightarrow> bool" where
  "system_inv (s, ps) = (store_inv s \<and> (\<forall>(req, p)\<in>set ps. \<exists>K. knows K s \<and> rt.safe (answer_ok req) K p))"

lemma step_extends:
  assumes "store_step (s, ps) y" "system_inv (s, ps)"
  shows "system_inv y \<and> extends s (fst y)"
proof -
  from assms(1) consider (call) req c where "y = (s, ps @ [(req, serve c req)])"
    | (await) i req f where "y = (snd (f s), ps[i := (req, fst (f s))])" "i < length ps" "ps ! i = (req, Awaits f)"
    by (auto elim: store_step.cases)
  then show ?thesis
  proof cases
    case (call req c)
    with assms(2) show ?thesis using serve_safe rt.knows_empty rt.ext_refl by fastforce
  next
    case (await i req f)
    then have "(req, Awaits f) \<in> set ps" by (metis nth_mem)
    then obtain K where "knows K s" "rt.safe (answer_ok req) K (Awaits f)" "store_inv s" using assms(2) by auto
    then obtain L where L: "store_inv (snd (f s))" "extends s (snd (f s))" "knows L (snd (f s))" "rt.safe (answer_ok req) L (fst (f s))"
      by (blast elim: rt.safe_AwaitsE)
    have "\<exists>K. knows K (snd (f s)) \<and> rt.safe (answer_ok q) K p" if "(q, p) \<in> set (ps[i := (req, fst (f s))])" for q p
    proof -
      from that consider "(q, p) = (req, fst (f s))" | "(q, p) \<in> set ps" using set_update_subset_insert by fastforce
      then show ?thesis
      proof cases
        case 2
        then obtain K where "knows K s" "rt.safe (answer_ok q) K p" using assms(2) by auto
        with L(2) rt.knows_ext show ?thesis by blast
      qed (use L in auto)
    qed
    with L await show ?thesis by auto
  qed
qed

interpretation rs: invariant_system "\<lambda>x. x = (no_tables, [])" store_step system_inv
proof
  show "x = (no_tables, []) \<Longrightarrow> system_inv x" for x by (auto simp: no_tables_def store_inv_def idents_def)
  show "store_step x y \<Longrightarrow> system_inv x \<Longrightarrow> system_inv y" for x y using step_extends by (cases x) blast
qed

lemma runs_apart:
  assumes "store_inv s" "r \<in> set (rs_runs s)" "r' \<in> set (rs_runs s)" "jr_agent r = jr_agent r'" "jr_job r = jr_job r'"
  shows "r = r'"
proof -
  have id: "run_ident r \<in> set (idents s)" "run_ident r' \<in> set (idents s)" using assms(2,3) by (simp_all add: idents_def)
  have "jr_key x = buildRunIdempotencyKey (jr_agent x) (jr_job x)" if "run_ident x \<in> set (idents s)" for x
    using assms(1) that unfolding store_inv_def run_ident_def by fastforce
  with id assms(4,5) have keys: "jr_key r = jr_key r'" by simp
  have "distinct (map (\<lambda>(i, a, j, k). k) (idents s))" using assms(1) by (simp add: store_inv_def)
  then have "inj_on jr_key (set (rs_runs s))"
    by (simp add: idents_def distinct_map o_def run_ident_def)
  with keys assms(2,3) show ?thesis by (meson inj_onD)
qed

text \<open>C30: Over every interleaving of the statements of any callers, with any of them failing: an agent has one
  run per job; the active run of a state is a run of its agent for its active job; a call that returns a
  run returns one of the agent and job it was asked for, which is in the table; and a step only appends
  checkpoints and keeps every run, state and application.\<close>

theorem concurrent_callers_keep_runs:
  assumes "store_step\<^sup>*\<^sup>* (no_tables, []) (s, ps)"
  shows "(\<forall>r\<in>set (rs_runs s). \<forall>r'\<in>set (rs_runs s). jr_agent r = jr_agent r' \<and> jr_job r = jr_job r' \<longrightarrow> r = r')
     \<and> (\<forall>st\<in>set (rs_states s). \<forall>i. st_run st = Some i \<longrightarrow>
          (\<exists>r\<in>set (rs_runs s). jr_id r = i \<and> jr_agent r = st_agent st \<and> st_job st = Some (jr_job r)))
     \<and> (\<forall>a j p r. (StartRun a j p, Answered (Inr (RunAnswer r))) \<in> set ps \<longrightarrow>
          jr_agent r = a \<and> jr_job r = j \<and> (\<exists>r'\<in>set (rs_runs s). jr_id r' = jr_id r \<and> jr_agent r' = a \<and> jr_job r' = j))
     \<and> (\<forall>t qs. store_step (s, ps) (t, qs) \<longrightarrow> prefix (rs_checkpoints s) (rs_checkpoints t)
          \<and> prefix (idents s) (idents t) \<and> prefix (map st_pk (rs_states s)) (map st_pk (rs_states t))
          \<and> prefix (map an_pk (rs_applications s)) (map an_pk (rs_applications t)))"
proof (intro conjI)
  have sys: "system_inv (s, ps)" using rs.reach_inv [OF refl assms] .
  then have inv: "store_inv s" by simp
  show "\<forall>r\<in>set (rs_runs s). \<forall>r'\<in>set (rs_runs s). jr_agent r = jr_agent r' \<and> jr_job r = jr_job r' \<longrightarrow> r = r'"
    using runs_apart [OF inv] by blast
  show "\<forall>st\<in>set (rs_states s). \<forall>i. st_run st = Some i \<longrightarrow>
      (\<exists>r\<in>set (rs_runs s). jr_id r = i \<and> jr_agent r = st_agent st \<and> st_job st = Some (jr_job r))"
    using inv by (fastforce simp: store_inv_def points_def idents_def run_ident_def)
  show "\<forall>a j p r. (StartRun a j p, Answered (Inr (RunAnswer r))) \<in> set ps \<longrightarrow>
      jr_agent r = a \<and> jr_job r = j \<and> (\<exists>r'\<in>set (rs_runs s). jr_id r' = jr_id r \<and> jr_agent r' = a \<and> jr_job r' = j)"
  proof (intro allI impI)
    fix a j p r assume "(StartRun a j p, Answered (Inr (RunAnswer r))) \<in> set ps"
    with sys obtain K where "knows K s" "rt.safe (answer_ok (StartRun a j p)) K (Answered (Inr (RunAnswer r)))" by auto
    then have "run_of a j r K" "knows K s" by (auto elim: rt.safe_AnsweredE)
    then show "jr_agent r = a \<and> jr_job r = j \<and> (\<exists>r'\<in>set (rs_runs s). jr_id r' = jr_id r \<and> jr_agent r' = a \<and> jr_job r' = j)"
      by (fastforce simp: run_of_def knows_def idents_def run_ident_def)
  qed
  show "\<forall>t qs. store_step (s, ps) (t, qs) \<longrightarrow> prefix (rs_checkpoints s) (rs_checkpoints t)
      \<and> prefix (idents s) (idents t) \<and> prefix (map st_pk (rs_states s)) (map st_pk (rs_states t))
      \<and> prefix (map an_pk (rs_applications s)) (map an_pk (rs_applications t))"
    using step_extends [OF _ sys] by (fastforce simp: extends_def)
qed

text \<open>A schedule: which caller runs its next statement.\<close>

definition advance :: "nat \<Rightarrow> run_store \<times> ('q \<times> 'a store_op) list \<Rightarrow> run_store \<times> ('q \<times> 'a store_op) list" where
  "advance i x =
     (if i < length (snd x) then
        (case snd x ! i of (req, p) \<Rightarrow>
           (case p of Answered r \<Rightarrow> x | Awaits f \<Rightarrow> (snd (f (fst x)), (snd x)[i := (req, fst (f (fst x)))])))
      else x)"

lemma advance_steps: "store_step\<^sup>*\<^sup>* x (advance i x)"
proof (cases "i < length (snd x)")
  case True
  obtain req p where p: "snd x ! i = (req, p)" by (cases "snd x ! i")
  show ?thesis
  proof (cases p)
    case (Awaits f)
    then have "store_step (fst x, snd x) (snd (f (fst x)), (snd x)[i := (req, fst (f (fst x)))])"
      using True p by (intro await) simp_all
    then show ?thesis using True p Awaits by (simp add: advance_def)
  qed (use True p in \<open>simp add: advance_def\<close>)
qed (simp add: advance_def)

lemma schedule_steps: "store_step\<^sup>*\<^sup>* x (fold advance is x)"
proof (induction "is" arbitrary: x)
  case (Cons i "is")
  show ?case using rtranclp_trans [OF advance_steps Cons] by simp
qed simp

definition rs_demo :: store_call where
  "rs_demo = \<lparr>sc_session = \<lparr>ss_owner = ''0xa'', ss_account = None\<rparr>,
     sc_registry = \<lparr>rg_by_agent = (\<lambda>_. Inr (Some \<lparr>ag_agent = Some ''7'', ag_token = None, ag_controller = Some ''0xA''\<rparr>)),
       rg_by_token = (\<lambda>_. Inr None), rg_owner_of = (\<lambda>_. None), rg_rail = False, rg_account_active = (\<lambda>_ _. False)\<rparr>,
     sc_now = 5, sc_time = (\<lambda>_. 5), sc_id = (\<lambda>_. ''run''),
     sc_chain = (\<lambda>_. Inr \<lparr>oj_provider = ''0xb'', oj_expired = 0, oj_status = 1\<rparr>), sc_urls = [], sc_fetch = (\<lambda>_. Unreachable []),
     sc_is_address = (\<lambda>_. True), sc_checksum = id, sc_number = (\<lambda>_. ''1''), sc_num = id, sc_fault = (\<lambda>_. None)\<rparr>"

definition rs_race :: store_system where
  \<comment> \<open>two callers start the same job: both look, both insert, the second finds the row of the first\<close>
  "rs_race = fold advance [0, 1, 0, 1, 1, 0, 1]
     (no_tables, [(StartRun ''7'' ''3'' ''runtime_started'', serve rs_demo (StartRun ''7'' ''3'' ''runtime_started'')),
                  (StartRun ''7'' ''3'' ''runtime_started'', serve rs_demo (StartRun ''7'' ''3'' ''runtime_started''))])"

lemma two_starts: "store_step\<^sup>*\<^sup>* (s, []) (s, [(req, serve c req), (req, serve c req)])"
proof -
  have "store_step (s, []) (s, [(req, serve c req)])" using call [of s "[]" req c] by simp
  moreover have "store_step (s, [(req, serve c req)]) (s, [(req, serve c req), (req, serve c req)])"
    using call [of s "[(req, serve c req)]" req c] by simp
  ultimately show ?thesis by (meson rtranclp.rtrancl_refl rtranclp.rtrancl_into_rtrancl)
qed

lemma rs_race_reached: "store_step\<^sup>*\<^sup>* (no_tables, []) rs_race"
  unfolding rs_race_def by (rule rtranclp_trans [OF two_starts schedule_steps])

definition run_answers :: "store_system \<Rightarrow> string list" where
  "run_answers x = map (\<lambda>(req, p). case p of Answered (Inr (RunAnswer r)) \<Rightarrow> jr_id r | _ \<Rightarrow> ''-'') (snd x)"

lemma rs_demo_checks:
  "validateAgentId ''7'' = Inr ()" "require_job ''3'' = Inr ()" "isValidPhase ''runtime_started''"
  "\<exists>row. assertProviderAgentOwnership rs_demo ''7'' = Inr row"
proof -
  have char: "is_id_char CHR ''7''" "trim ''3'' \<noteq> []" "toLowerCase ''0xA'' = ''0xa''" "toLowerCase ''0xa'' = ''0xa''" by code_simp+
  show valid: "validateAgentId ''7'' = Inr ()" using char by (simp add: validateAgentId_def)
  show "require_job ''3'' = Inr ()" using char by (simp add: require_job_def)
  show "isValidPhase ''runtime_started''" by (simp add: isValidPhase_def PROVIDER_PHASES_def)
  show "\<exists>row. assertProviderAgentOwnership rs_demo ''7'' = Inr row"
    using valid char by (simp add: assertProviderAgentOwnership_def rs_demo_def resolveAgentOwnership_def isValidAgentId_def
        sessionControlsController_def)
qed

lemma rs_demo_start: "startProviderJobRun rs_demo ''7'' ''3'' ''runtime_started'' = start_steps rs_demo ''7'' ''3'' ''runtime_started''"
  using rs_demo_checks by (auto simp: startProviderJobRun_def check_op_def)

lemma rs_race_result: "run_answers rs_race = [''run'', ''run''] \<and> length (rs_runs (fst rs_race)) = 1
    \<and> map st_run (rs_states (fst rs_race)) = [Some ''run'']"
  by (simp add: rs_race_def run_answers_def rs_demo_start start_steps_def statement_def query_def advance_def Let_def no_tables_def
      insert_run_def new_run_def sync_state_def upsert_state_def fresh_state_def return_op_def is_state_of_def
      rs_demo_def [THEN arg_cong [where f = sc_fault]] rs_demo_def [THEN arg_cong [where f = sc_id]])

theorem concurrent_callers_keep_runs_witness:
  "run_answers rs_race = [''run'', ''run''] \<and>
   (\<exists>r st. rs_runs (fst rs_race) = [r] \<and> rs_states (fst rs_race) = [st] \<and> jr_id r = ''run'' \<and> st_run st = Some ''run''
        \<and> jr_agent r = st_agent st \<and> st_job st = Some (jr_job r))"
proof -
  obtain r where r: "rs_runs (fst rs_race) = [r]" using rs_race_result by (auto simp: length_Suc_conv)
  obtain st where st: "rs_states (fst rs_race) = [st]" "st_run st = Some ''run''" using rs_race_result by auto
  have "store_step\<^sup>*\<^sup>* (no_tables, []) (fst rs_race, snd rs_race)" using rs_race_reached by simp
  note keeps = concurrent_callers_keep_runs [OF this, THEN conjunct2, THEN conjunct1, unfolded r st]
  have "jr_id r = ''run'' \<and> jr_agent r = st_agent st \<and> st_job st = Some (jr_job r)" using keeps st(2) by simp
  with r st rs_race_result show ?thesis by blast
qed

section \<open>The resume plan\<close>

lemma status_label_iff:
  "status_label n = ''Open'' \<longleftrightarrow> n = 0" "status_label n = ''Funded'' \<longleftrightarrow> n = 1" "status_label n = ''Submitted'' \<longleftrightarrow> n = 2"
  "status_label n = ''Completed'' \<longleftrightarrow> n = 3" "status_label n = ''Rejected'' \<longleftrightarrow> n = 4" "status_label n = ''Expired'' \<longleftrightarrow> n = 5"
proof -
  have "n = 0 \<or> n = 1 \<or> n = 2 \<or> n = 3 \<or> n = 4 \<or> n = 5 \<or> 6 \<le> n" by arith
  then show "status_label n = ''Open'' \<longleftrightarrow> n = 0" "status_label n = ''Funded'' \<longleftrightarrow> n = 1" "status_label n = ''Submitted'' \<longleftrightarrow> n = 2"
    "status_label n = ''Completed'' \<longleftrightarrow> n = 3" "status_label n = ''Rejected'' \<longleftrightarrow> n = 4" "status_label n = ''Expired'' \<longleftrightarrow> n = 5"
    by (elim disjE; simp add: status_label_def ONCHAIN_STATUS_def)+
qed

definition foreign :: "onchain_job \<Rightarrow> string \<Rightarrow> bool" where
  \<comment> \<open>the chain names another provider than the address of this bot\<close>
  "foreign job address \<longleftrightarrow> toLowerCase (oj_provider job) \<notin> {ZERO_ADDRESS, [], toLowerCase address}"

lemma view_of_job:
  assumes "address \<noteq> []"
  shows "cv_status (view_chain (Inr (Some job)) (Some address)) = Some (status_label (oj_status job))"
    and "cv_other (view_chain (Inr (Some job)) (Some address)) \<longleftrightarrow> foreign job address"
    and "cv_mine (view_chain (Inr (Some job)) (Some address)) \<longleftrightarrow>
      toLowerCase (oj_provider job) \<notin> {ZERO_ADDRESS, []} \<and> toLowerCase (oj_provider job) = toLowerCase address"
  using assms by (auto simp: view_chain_def foreign_def Let_def)

lemma no_view:
  "cv_status (view_chain (Inl u) address) = None" "cv_status (view_chain (Inr None) address) = None"
  "\<not> cv_other (view_chain (Inl u) address)" "\<not> cv_other (view_chain (Inr None) address)"
  by (simp_all add: view_chain_def)

definition submit_phases :: "string set" where
  \<comment> \<open>the phases of a funded job in which nothing runs, is finished, failed or sent\<close>
  "submit_phases = - {''runtime_started'', ''runtime_completed'', ''runtime_failed'', ''submit_tx_sent'', ''submit_tx_failed''}"

lemma plan_tools:
  assumes "plan_entry v phase = (next, tool, reason, terminal, notes)"
  shows "tool = Some ''provider.prepare_set_budget_for_session'' \<Longrightarrow> cv_status v = Some ''Open'' \<and> cv_mine v \<and> \<not> cv_other v"
    and "tool = Some ''provider.prepare_submit_job_for_session'' \<Longrightarrow>
      cv_status v = Some ''Funded'' \<and> \<not> cv_other v \<and> phase \<in> submit_phases"
    and "terminal \<longleftrightarrow> cv_status v \<in> {Some ''Completed'', Some ''Rejected'', Some ''Expired''} \<or> cv_other v
      \<or> cv_status v = Some ''Funded'' \<and> phase = ''runtime_failed''"
    and "terminal \<Longrightarrow> next = ''none'' \<and> tool = None"
  using assms by (auto simp: plan_entry_def open_entry_def funded_entry_def submit_phases_def split: if_splits)



end
