(* ===== verification/Run_Retries.thy ===== *)
theory Run_Retries
  imports Run_Store_Properties
begin

text \<open>
  One caller of the provider runtime store alone, without failing statements: starts, the loop of failures
  and retries, checkpoints on runs of other agents, and applications to open jobs.
\<close>

section \<open>Calls alone\<close>

lemma alone_statement: "alone (statement c i q k) s =
    (case sc_fault c i of None \<Rightarrow> alone (k (fst (q s))) (snd (q s))
     | Some (applied, e) \<Rightarrow> alone (k (Inl e)) (if applied then snd (q s) else s))"
  by (auto simp: statement_def split: option.splits)

lemma alone_simps:
  "alone (return_op a) s = (Inr a, s)" "alone (throw_op e) s = (Inl e, s)"
  "alone (check_op (Inl e) k0) s = (Inl e, s)" "alone (check_op (Inr b) k) s = alone (k b) s"
  by (simp_all add: return_op_def throw_op_def check_op_def)

definition no_faults :: "store_call \<Rightarrow> bool" where
  "no_faults c \<longleftrightarrow> (\<forall>i. sc_fault c i = None)"

definition owned :: "store_call \<Rightarrow> string \<Rightarrow> bool" where
  "owned c a \<longleftrightarrow> (\<exists>row. assertProviderAgentOwnership c a = Inr row)"

lemma owned_valid: "owned c a \<Longrightarrow> validateAgentId a = Inr ()"
  unfolding owned_def assertProviderAgentOwnership_def by auto

lemma unique_filter: "distinct (map f xs) \<Longrightarrow> x \<in> set xs \<Longrightarrow> filter (\<lambda>y. f y = f x) xs = [x]"
proof (induction xs)
  case (Cons y ys)
  show ?case
  proof (cases "x = y")
    case True
    with Cons.prems have "\<forall>z\<in>set ys. f z \<noteq> f x" by (metis distinct.simps(2) imageI list.simps(9) set_map)
    with True show ?thesis by (simp add: filter_empty_conv)
  next
    case False
    with Cons show ?thesis by (auto simp: image_iff)
  qed
qed simp

lemma unique_find: "distinct (map f xs) \<Longrightarrow> x \<in> set xs \<Longrightarrow> P x \<Longrightarrow> find (\<lambda>y. f y = f x \<and> P y) xs = Some x"
  by (induction xs) (auto simp: image_iff)

lemma newest_last: "\<forall>r\<in>set rs. f r \<le> f x \<Longrightarrow> newest f (rs @ [x]) = Some x"
  by (induction rs) auto

lemma run_keys_distinct: "store_inv s \<Longrightarrow> distinct (map jr_key (rs_runs s))"
  by (simp add: store_inv_def idents_def o_def run_ident_def)

lemma insert_ok: "cp_run cp \<in> jr_id ` set (rs_runs s) \<Longrightarrow>
    insert_checkpoint cp s = (Inr cp, s\<lparr>rs_checkpoints := rs_checkpoints s @ [cp]\<rparr>)"
  by (simp add: insert_checkpoint_def)

section \<open>Failures and retries\<close>

definition clock :: "nat \<Rightarrow> store_call \<Rightarrow> store_call" where
  "clock t c = c\<lparr>sc_time := \<lambda>_. t\<rparr>"

definition failure_of :: "string \<Rightarrow> string \<Rightarrow> checkpoint_input" where
  \<comment> \<open>a checkpoint of a failed run without metadata\<close>
  "failure_of a j = \<lparr>ci_agent = a, ci_job = j, ci_run = None, ci_phase = ''runtime_failed'', ci_status = ''failed'', ci_tx = None,
     ci_deliverable = None, ci_payload = None, ci_note = None, ci_metadata = None\<rparr>"

definition fail_once :: "store_call \<Rightarrow> string \<Rightarrow> string \<Rightarrow> nat \<Rightarrow> run_store \<Rightarrow> run_store" where
  "fail_once c a j t s = snd (alone (writeProviderCheckpoint (clock t c) (failure_of a j)) s)"

definition retry_once :: "store_call \<Rightarrow> string \<Rightarrow> string \<Rightarrow> nat \<Rightarrow> run_store \<Rightarrow> (store_error + string \<times> js_number \<times> string) \<times> run_store" where
  "retry_once c a j t s = alone (retryProviderJobRun (clock t c) a j ''again'') s"

fun rounds :: "store_call \<Rightarrow> string \<Rightarrow> string \<Rightarrow> nat \<Rightarrow> nat \<Rightarrow> run_store \<Rightarrow> run_store" where
  "rounds c a j t 0 s = s"
| "rounds c a j t (Suc n) s = snd (retry_once c a j (t + n) (fail_once c a j (t + n) (rounds c a j t n s)))"

definition running :: "string \<Rightarrow> string \<Rightarrow> string \<Rightarrow> nat \<Rightarrow> run_store \<Rightarrow> bool" where
  \<comment> \<open>the job has an active run and every checkpoint is older\<close>
  "running i a j t s \<longleftrightarrow> store_inv s \<and> (\<forall>p\<in>set (rs_checkpoints s). cp_created p < t)
     \<and> (\<exists>r\<in>set (rs_runs s). jr_id r = i \<and> jr_agent r = a \<and> jr_key r = buildRunIdempotencyKey a j \<and> jr_status r = ''active'')"

definition failed_run :: "string \<Rightarrow> string \<Rightarrow> string \<Rightarrow> nat \<Rightarrow> run_store \<Rightarrow> bool" where
  \<comment> \<open>the newest checkpoint of the job's run is a failure without metadata\<close>
  "failed_run i a j t s \<longleftrightarrow> store_inv s \<and> (\<forall>p\<in>set (rs_checkpoints s). cp_created p \<le> t)
     \<and> (\<exists>r\<in>set (rs_runs s). jr_id r = i \<and> jr_agent r = a \<and> jr_key r = buildRunIdempotencyKey a j)
     \<and> (\<exists>ps p. rs_checkpoints s = ps @ [p] \<and> cp_run p = i \<and> cp_phase p = ''runtime_failed'' \<and> cp_metadata p = JObj [] \<and> cp_created p = t)"

definition retriable :: "store_call \<Rightarrow> string \<Rightarrow> bool" where
  \<comment> \<open>the chain shows a funded job, or cannot be read\<close>
  "retriable c j \<longleftrightarrow> (\<forall>job. chain_job c j = Inr (Some job) \<longrightarrow> oj_status job = 1)"

lemma clock_simps [simp]: "sc_fault (clock t c) = sc_fault c" "sc_time (clock t c) i = t" "sc_now (clock t c) = sc_now c"
  "sc_id (clock t c) = sc_id c" "chain_job (clock t c) j = chain_job c j" "sc_number (clock t c) = sc_number c"
  "assertProviderAgentOwnership (clock t c) a = assertProviderAgentOwnership c a"
  by (simp_all add: clock_def chain_job_def readOnchainJob_def assertProviderAgentOwnership_def split: option.splits)

lemma runtime_failed_valid: "isValidPhase ''runtime_failed''"
  by (simp add: isValidPhase_def PROVIDER_PHASES_def)

lemma fail_once_fails:
  assumes "running i a j t s" "no_faults c" "owned c a" "trim j \<noteq> []"
  shows "failed_run i a j t (fail_once c a j t s)"
proof -
  obtain r where r: "r \<in> set (rs_runs s)" "jr_id r = i" "jr_agent r = a" "jr_key r = buildRunIdempotencyKey a j" "jr_status r = ''active''"
    and inv: "store_inv s" and old: "\<forall>p\<in>set (rs_checkpoints s). cp_created p < t"
    using assms(1) by (auto simp: running_def)
  have found: "find (\<lambda>r. jr_key r = buildRunIdempotencyKey a j \<and> jr_status r = ''active'') (rs_runs s) = Some r"
    using unique_find [OF run_keys_distinct [OF inv] r(1), of "\<lambda>r. jr_status r = ''active''"] r(4,5) by simp
  obtain row where row: "assertProviderAgentOwnership c a = Inr row" using assms(3) by (auto simp: owned_def)
  have "i \<in> jr_id ` set (rs_runs s)" using r by blast
  then have result: "fail_once c a j t s = s\<lparr>rs_checkpoints := rs_checkpoints s @ [new_checkpoint (clock t c) (failure_of a j) i],
      rs_states := map (\<lambda>x. if is_state_of a x then x\<lparr>st_checkpoint := Some ''runtime_failed'', st_updated := sc_now c\<rparr> else x) (rs_states s),
      rs_runs := map (\<lambda>x. if jr_id x = i then x\<lparr>jr_phase := ''runtime_failed'', jr_updated := sc_now c\<rparr> else x) (rs_runs s)\<rparr>"
    using assms(2-4) found row r(2) owned_valid [OF assms(3)] runtime_failed_valid
    by (simp add: fail_once_def writeProviderCheckpoint_def failure_of_def alone_simps alone_statement no_faults_def query_def
        checkpoint_steps_def insert_checkpoint_def new_checkpoint_def update_states_def update_runs_def require_job_def)
  have "store_inv (fail_once c a j t s)"
    using rt.safe_alone [OF write_safe inv rt.knows_empty] by (simp add: fail_once_def)
  moreover have "\<exists>x\<in>set (rs_runs (fail_once c a j t s)). jr_id x = i \<and> jr_agent x = a \<and> jr_key x = buildRunIdempotencyKey a j"
    using r unfolding result by (intro bexI [of _ "r\<lparr>jr_phase := ''runtime_failed'', jr_updated := sc_now c\<rparr>"]) (auto simp: image_iff)
  moreover have "rs_checkpoints (fail_once c a j t s) = rs_checkpoints s @ [new_checkpoint (clock t c) (failure_of a j) i]"
    unfolding result by simp
  ultimately show ?thesis
    using old unfolding failed_run_def by (auto simp: new_checkpoint_def failure_of_def less_imp_le)
qed

lemma retry_once_runs:
  assumes "failed_run i a j t s" "no_faults c" "owned c a" "trim j \<noteq> []" "retriable c j"
  shows "fst (retry_once c a j t s) = Inr (i, Fin 1, ''runtime_retry_requested'') \<and> running i a j (Suc t) (snd (retry_once c a j t s))"
proof -
  obtain r ps p where r: "r \<in> set (rs_runs s)" "jr_id r = i" "jr_agent r = a" "jr_key r = buildRunIdempotencyKey a j"
    and inv: "store_inv s" and old: "\<forall>p\<in>set (rs_checkpoints s). cp_created p \<le> t"
    and p: "rs_checkpoints s = ps @ [p]" "cp_run p = i" "cp_phase p = ''runtime_failed''" "cp_metadata p = JObj []" "cp_created p = t"
    using assms(1) by (auto simp: failed_run_def)
  have found: "newest jr_started (filter (\<lambda>x. jr_key x = buildRunIdempotencyKey a j) (rs_runs s)) = Some r"
    using unique_filter [OF run_keys_distinct [OF inv] r(1)] r(4) by simp
  have latest: "newest cp_created (filter (\<lambda>p. cp_run p = i) (rs_checkpoints s)) = Some p"
    using newest_last [of "filter (\<lambda>p. cp_run p = i) ps" cp_created p] old p by auto
  obtain row where row: "assertProviderAgentOwnership c a = Inr row" using assms(3) by (auto simp: owned_def)
  have allowed: "retry_allowed (clock t c) j r (Some p) = Inr ()"
    using assms(5) p by (auto simp: retry_allowed_def latest_phase_def RETRYABLE_PHASES_def retry_count_def MAX_RETRY_COUNT_def
        retriable_def status_label_iff split: sum.splits option.splits)
  let ?runs = "map (\<lambda>x. if jr_id x = i \<and> jr_agent x = a then x\<lparr>jr_status := ''active'', jr_completed := None, jr_updated := sc_now c\<rparr> else x) (rs_runs s)"
  have kept: "r\<lparr>jr_status := ''active'', jr_completed := None, jr_updated := sc_now c\<rparr> \<in> set ?runs"
    using r by (auto simp: image_iff)
  then have "i \<in> jr_id ` set ?runs" using r(2) by (intro image_eqI [OF _ kept]) simp
  then have ins: "insert_checkpoint cp (s\<lparr>rs_runs := ?runs, rs_states := sts\<rparr>) =
      (Inr cp, s\<lparr>rs_runs := ?runs, rs_states := sts, rs_checkpoints := rs_checkpoints s @ [cp]\<rparr>)" if "cp_run cp = i" for cp sts
    using insert_ok [of cp "s\<lparr>rs_runs := ?runs, rs_states := sts\<rparr>"] that by simp
  have result: "retry_once c a j t s = (Inr (i, Fin 1, ''runtime_retry_requested''),
      s\<lparr>rs_runs := ?runs,
        rs_states := map (\<lambda>x. if is_state_of a x then x\<lparr>st_job := Some j, st_run := Some i, st_error := None, st_updated := sc_now c\<rparr> else x) (rs_states s),
        rs_checkpoints := rs_checkpoints s @ [retry_checkpoint (clock t c) a j i (sc_number c (Fin 1)) ''again'']\<rparr>)"
    using assms(2-4) found latest row allowed r(2) p(4) owned_valid [OF assms(3)]
    by (simp add: retry_once_def retryProviderJobRun_def alone_simps alone_statement no_faults_def query_def Let_def
        update_states_def update_runs_def require_job_def retry_count_def ins retry_checkpoint_def)
  have "store_inv (snd (retry_once c a j t s))"
    using rt.safe_alone [OF retry_safe inv rt.knows_empty] by (simp add: retry_once_def)
  moreover have "rs_runs (snd (retry_once c a j t s)) = ?runs" "rs_checkpoints (snd (retry_once c a j t s)) =
      rs_checkpoints s @ [retry_checkpoint (clock t c) a j i (sc_number c (Fin 1)) ''again'']" unfolding result by simp_all
  moreover have "\<exists>x\<in>set ?runs. jr_id x = i \<and> jr_agent x = a \<and> jr_key x = buildRunIdempotencyKey a j \<and> jr_status x = ''active''"
    using kept r by (intro bexI [OF _ kept]) simp
  ultimately show ?thesis
    using old result unfolding running_def by (auto simp: retry_checkpoint_def less_Suc_eq_le)
qed

text \<open>C33: The limit of three retries never binds when the client writes its failures without metadata: the
  count is read from the newest checkpoint only, so every failure resets it, and after any number of
  failures and retries the next retry is granted as the first.\<close>

theorem retries_never_end:
  assumes "running i a j t s" and "no_faults c" and "owned c a" and "trim j \<noteq> []" and "retriable c j"
  shows "fst (retry_once c a j (t + n) (fail_once c a j (t + n) (rounds c a j t n s))) = Inr (i, Fin 1, ''runtime_retry_requested'')"
proof -
  have "running i a j (t + n) (rounds c a j t n s)"
  proof (induction n)
    case (Suc n)
    from retry_once_runs [OF fail_once_fails [OF Suc assms(2-4)] assms(2-5)] show ?case by simp
  qed (simp add: assms(1))
  from retry_once_runs [OF fail_once_fails [OF this assms(2-4)] assms(2-5)] show ?thesis by simp
qed

definition rs_running :: run_store where
  "rs_running = \<lparr>rs_states = [], rs_runs = [new_run rs_demo ''7'' ''3'' ''runtime_started''], rs_checkpoints = [], rs_applications = []\<rparr>"

lemma rs_demo_runs: "running ''run'' ''7'' ''3'' 0 rs_running" "no_faults rs_demo" "owned rs_demo ''7''" "trim ''3'' \<noteq> []" "retriable rs_demo ''3''"
proof -
  have seven: "isValidAgentId ''7''" using rs_demo_checks(1) valid_agent by blast
  have three: "BigInt ''3'' = Some 3" "trim ''3'' \<noteq> []" by code_simp+
  show "running ''run'' ''7'' ''3'' 0 rs_running"
    using seven by (simp add: running_def rs_running_def store_inv_def idents_def run_ident_def new_run_def)
      (simp add: rs_demo_def)
  show "no_faults rs_demo" "owned rs_demo ''7''" using rs_demo_checks(4) by (simp_all add: no_faults_def owned_def) (simp add: rs_demo_def)
  show "trim ''3'' \<noteq> []" by (rule three)
  show "retriable rs_demo ''3''" using three by (simp add: retriable_def chain_job_def readOnchainJob_def rs_demo_def)
qed

theorem retries_never_end_witness:
  "fst (retry_once rs_demo ''7'' ''3'' 9 (fail_once rs_demo ''7'' ''3'' 9 (rounds rs_demo ''7'' ''3'' 0 9 rs_running))) =
     Inr (''run'', Fin 1, ''runtime_retry_requested'')"
  using retries_never_end [OF rs_demo_runs, of 9] by simp

section \<open>Starts\<close>

lemma find_key: "store_inv s \<Longrightarrow> r \<in> set (rs_runs s) \<Longrightarrow> find (\<lambda>x. jr_key x = jr_key r) (rs_runs s) = Some r"
  using unique_find [OF run_keys_distinct, of s r "\<lambda>_. True"] by simp

lemma find_active:
  assumes "store_inv s" "r \<in> set (rs_runs s)"
  shows "find (\<lambda>x. jr_key x = jr_key r \<and> jr_status x = ''active'') (rs_runs s) = (if jr_status r = ''active'' then Some r else None)"
proof (cases "jr_status r = ''active''")
  case True
  then show ?thesis using unique_find [OF run_keys_distinct [OF assms(1)] assms(2), of "\<lambda>x. jr_status x = ''active''"] by simp
next
  case False
  have "x = r" if "x \<in> set (rs_runs s)" "jr_key x = jr_key r" for x
    using that assms run_keys_distinct [OF assms(1)] by (meson distinct_map inj_onD)
  with False show ?thesis by (auto simp: find_None_iff)
qed

lemma sync_alone:
  assumes "no_faults c"
  shows "fst (alone (sync_state c i a j run) s) = Inr run \<and> rs_runs (snd (alone (sync_state c i a j run) s)) = rs_runs s
    \<and> (\<exists>st\<in>set (rs_states (snd (alone (sync_state c i a j run) s))). is_state_of a st \<and> st_run st = Some (jr_id run) \<and> st_job st = Some j)"
proof (cases "list_ex (is_state_of a) (rs_states s)")
  case True
  then obtain st where st: "st \<in> set (rs_states s)" "is_state_of a st" by (auto simp: list_ex_iff)
  let ?f = "\<lambda>r. r\<lparr>st_job := Some j, st_run := Some (jr_id run), st_status := ''active'', st_updated := sc_now c\<rparr>"
  have "?f st \<in> set (map (\<lambda>r. if is_state_of a r then ?f r else r) (rs_states s))" using st by (auto simp: image_iff)
  moreover have "rs_states (snd (alone (sync_state c i a j run) s)) = map (\<lambda>r. if is_state_of a r then ?f r else r) (rs_states s)"
    using True assms by (simp add: sync_state_def alone_statement alone_simps no_faults_def upsert_state_def fresh_state_def)
  ultimately have "\<exists>st\<in>set (rs_states (snd (alone (sync_state c i a j run) s))). is_state_of a st \<and> st_run st = Some (jr_id run) \<and> st_job st = Some j"
    using st(2) by (intro bexI [of _ "?f st"]) (simp_all add: is_state_of_def)
  then show ?thesis
    using assms by (simp add: sync_state_def alone_statement alone_simps no_faults_def upsert_state_def)
next
  case False
  with assms show ?thesis
    by (simp add: sync_state_def alone_statement alone_simps no_faults_def upsert_state_def fresh_state_def is_state_of_def)
qed

text \<open>Alone and without faults, a start returns the run of the agent and job and makes it the active run of
  the state. A job with no run gets a new active one; for a job that has a run the tables of runs stay as
  they are and that run is returned, also when it was completed or failed before, so the state then
  points at a run that is not active.\<close>

theorem start_returns_one_run:
  assumes "no_faults c" and "owned c a" and "trim j \<noteq> []" and "isValidPhase phase" and "store_inv s"
    and "sc_id c 1 \<notin> jr_id ` set (rs_runs s)"
  shows "\<exists>run. fst (alone (startProviderJobRun c a j phase) s) = Inr run
     \<and> (if buildRunIdempotencyKey a j \<in> jr_key ` set (rs_runs s)
        then run \<in> set (rs_runs s) \<and> jr_key run = buildRunIdempotencyKey a j
          \<and> rs_runs (snd (alone (startProviderJobRun c a j phase) s)) = rs_runs s
        else run = new_run c a j phase \<and> jr_status run = ''active''
          \<and> rs_runs (snd (alone (startProviderJobRun c a j phase) s)) = rs_runs s @ [run])
     \<and> (\<exists>st\<in>set (rs_states (snd (alone (startProviderJobRun c a j phase) s))).
          is_state_of a st \<and> st_run st = Some (jr_id run) \<and> st_job st = Some j)"
proof -
  obtain row where row: "assertProviderAgentOwnership c a = Inr row" using assms(2) by (auto simp: owned_def)
  have start: "alone (startProviderJobRun c a j phase) s = alone (start_steps c a j phase) s"
    using assms(3,4) row owned_valid [OF assms(2)] by (simp add: startProviderJobRun_def alone_simps require_job_def)
  show ?thesis
  proof (cases "buildRunIdempotencyKey a j \<in> jr_key ` set (rs_runs s)")
    case True
    then obtain r where r: "r \<in> set (rs_runs s)" "jr_key r = buildRunIdempotencyKey a j" by force
    have taken: "insert_run (new_run c a j phase) s = (Inl (''23505'', ''duplicate key value violates unique constraint''), s)"
      using True by (simp add: insert_run_def new_run_def)
    have "alone (start_steps c a j phase) s = alone (sync_state c 3 a j r) s"
      using find_key [OF assms(5) r(1)] find_active [OF assms(5) r(1)] r(2) assms(1) taken
      by (simp add: start_steps_def alone_statement no_faults_def query_def Let_def)
    then show ?thesis using sync_alone [OF assms(1), of 3 a j r s] r True unfolding start by auto
  next
    case False
    have "find (\<lambda>r. jr_key r = buildRunIdempotencyKey a j \<and> jr_status r = ''active'') (rs_runs s) = None"
      using False by (auto simp: find_None_iff image_iff)
    moreover have "insert_run (new_run c a j phase) s = (Inr (new_run c a j phase), s\<lparr>rs_runs := rs_runs s @ [new_run c a j phase]\<rparr>)"
      using False assms(6) by (simp add: insert_run_def new_run_def)
    ultimately have "alone (start_steps c a j phase) s =
        alone (sync_state c 3 a j (new_run c a j phase)) (s\<lparr>rs_runs := rs_runs s @ [new_run c a j phase]\<rparr>)"
      using assms(1) by (simp add: start_steps_def alone_statement no_faults_def query_def Let_def)
    then show ?thesis
      using sync_alone [OF assms(1), of 3 a j "new_run c a j phase" "s\<lparr>rs_runs := rs_runs s @ [new_run c a j phase]\<rparr>"] False
      unfolding start by (auto simp: new_run_def)
  qed
qed

definition rs_finished :: run_store where
  "rs_finished = \<lparr>rs_states = [], rs_runs = [(new_run rs_demo ''7'' ''3'' ''failed'')\<lparr>jr_id := ''old'', jr_status := ''failed''\<rparr>],
     rs_checkpoints = [], rs_applications = []\<rparr>"

theorem start_returns_one_run_witness:
  "\<exists>run. fst (alone (startProviderJobRun rs_demo ''7'' ''3'' ''runtime_started'') rs_finished) = Inr run \<and> run \<in> set (rs_runs rs_finished)
     \<and> jr_status run = ''failed''"
proof -
  have seven: "isValidAgentId ''7''" using rs_demo_checks(1) valid_agent by blast
  have inv: "store_inv rs_finished" "sc_id rs_demo 1 \<notin> jr_id ` set (rs_runs rs_finished)"
    using seven by (simp_all add: rs_finished_def store_inv_def idents_def run_ident_def new_run_def) (simp add: rs_demo_def)
  have "buildRunIdempotencyKey ''7'' ''3'' \<in> jr_key ` set (rs_runs rs_finished)" by (simp add: rs_finished_def new_run_def)
  with start_returns_one_run [OF rs_demo_runs(2,3,4) rs_demo_checks(3) inv] show ?thesis by (auto simp: rs_finished_def)
qed

section \<open>Runs of other agents\<close>

text \<open>A checkpoint call with a run id only checks that the caller controls the agent it names, not that the
  run is one of that agent's: it moves the phase of any run, and what the owner of that run resumes and
  retries from is the caller's checkpoint.\<close>

theorem checkpoint_moves_any_run:
  assumes "no_faults c" and "owned c (ci_agent i)" and "trim (ci_job i) \<noteq> []" and "isValidPhase (ci_phase i)"
    and "r \<in> set (rs_runs s)" and "jr_id r \<noteq> []" and "ci_run i = Some (jr_id r)"
    and "\<forall>p\<in>set (rs_checkpoints s). cp_created p \<le> sc_time c 1"
  shows "\<exists>r' cp. r' \<in> set (rs_runs (snd (alone (writeProviderCheckpoint c i) s))) \<and> jr_id r' = jr_id r \<and> jr_agent r' = jr_agent r
     \<and> jr_phase r' = ci_phase i
     \<and> latest_checkpoint r (snd (alone (writeProviderCheckpoint c i) s)) = Some cp
     \<and> cp_agent cp = ci_agent i \<and> latest_phase r' (Some cp) = ci_phase i
     \<and> retry_count (Some cp) = (case jget ''retryCount'' (or_else (ci_metadata i) (JObj [])) of JNum n \<Rightarrow> Number_text n | _ \<Rightarrow> Fin 0)"
proof -
  obtain row where row: "assertProviderAgentOwnership c (ci_agent i) = Inr row" using assms(2) by (auto simp: owned_def)
  let ?cp = "new_checkpoint c i (jr_id r)"
  let ?f = "\<lambda>x. if jr_id x = jr_id r then x\<lparr>jr_phase := ci_phase i, jr_updated := sc_now c\<rparr> else x"
  have ins: "insert_checkpoint ?cp s = (Inr ?cp, s\<lparr>rs_checkpoints := rs_checkpoints s @ [?cp]\<rparr>)"
    using assms(5) by (intro insert_ok) (simp add: new_checkpoint_def)
  have runs: "rs_runs (snd (alone (writeProviderCheckpoint c i) s)) = map ?f (rs_runs s)"
    and cps: "rs_checkpoints (snd (alone (writeProviderCheckpoint c i) s)) = rs_checkpoints s @ [?cp]"
    using assms(1,3,4,6,7) row ins owned_valid [OF assms(2)]
    by (simp_all add: writeProviderCheckpoint_def alone_simps alone_statement no_faults_def checkpoint_steps_def
        update_states_def update_runs_def require_job_def)
  have "latest_checkpoint r (snd (alone (writeProviderCheckpoint c i) s)) = Some ?cp"
    using newest_last [of "filter (\<lambda>p. cp_run p = jr_id r) (rs_checkpoints s)" cp_created ?cp] assms(8)
    by (simp add: latest_checkpoint_def cps new_checkpoint_def)
  moreover have "?f r \<in> set (rs_runs (snd (alone (writeProviderCheckpoint c i) s)))" using assms(5) unfolding runs by auto
  ultimately show ?thesis
    by (intro exI [of _ "?f r"] exI [of _ ?cp]) (simp add: new_checkpoint_def latest_phase_def retry_count_def)
qed

definition rs_other :: run_store where
  "rs_other = \<lparr>rs_states = [], rs_runs = [(new_run rs_demo ''8'' ''3'' ''runtime_started'')\<lparr>jr_id := ''theirs''\<rparr>],
     rs_checkpoints = [], rs_applications = []\<rparr>"

theorem checkpoint_moves_any_run_witness:
  "\<exists>r' \<in> set (rs_runs (snd (alone (writeProviderCheckpoint rs_demo ((failure_of ''7'' ''3'')\<lparr>ci_run := Some ''theirs''\<rparr>)) rs_other))).
     jr_agent r' = ''8'' \<and> jr_phase r' = ''runtime_failed''"
proof -
  let ?i = "(failure_of ''7'' ''3'')\<lparr>ci_run := Some ''theirs''\<rparr>" and ?r = "(new_run rs_demo ''8'' ''3'' ''runtime_started'')\<lparr>jr_id := ''theirs''\<rparr>"
  have "owned rs_demo (ci_agent ?i)" "trim (ci_job ?i) \<noteq> []" "isValidPhase (ci_phase ?i)"
    using rs_demo_runs(3,4) runtime_failed_valid by (simp_all add: failure_of_def)
  moreover have "?r \<in> set (rs_runs rs_other)" "jr_id ?r \<noteq> []" "ci_run ?i = Some (jr_id ?r)"
      "\<forall>p\<in>set (rs_checkpoints rs_other). cp_created p \<le> sc_time rs_demo 1" by (simp_all add: rs_other_def)
  ultimately show ?thesis
    using checkpoint_moves_any_run [OF rs_demo_runs(2), of ?i ?r rs_other] by (auto simp: failure_of_def new_run_def)
qed

section \<open>Applications\<close>

lemma parse_quote_positive: "parse_quote v = Inr n \<Longrightarrow> 0 < n"
  by (auto simp: parse_quote_def Let_def split: if_splits)

lemma quote_positive:
  assumes "quote_atomic i = Inr atomic" "truthy (ai_usdc i)" "\<not> truthy (ai_atomic i)"
  shows "\<exists>n > 0. atomic = Some (int_str n)"
  using assms parse_quote_positive by (auto simp: quote_atomic_def)

lemma upserted:
  assumes "upsert_application new s = (Inr app, t)" "an_status new = ''submitted''"
  shows "app \<in> set (rs_applications t) \<and> an_status app = ''submitted'' \<and> an_agent app = an_agent new \<and> an_job app = an_job new
    \<and> an_address app = an_address new \<and> an_atomic app = an_atomic new"
proof (cases "find (same_application new) (rs_applications s)")
  case None
  with assms show ?thesis by (auto simp: upsert_application_def)
next
  case (Some old)
  then have old: "old \<in> set (rs_applications s)" "same_application new old" by (auto simp: find_Some_iff)
  have "merge_application new old \<in> set (map (\<lambda>r. if same_application new r then merge_application new r else r) (rs_applications s))"
    using old by (simp only: set_map) (rule image_eqI [of _ _ old], simp_all)
  with Some assms show ?thesis by (auto simp: upsert_application_def merge_application_def)
qed


definition rs_apply :: store_call where
  "rs_apply = rs_demo\<lparr>sc_chain := \<lambda>_. Inr \<lparr>oj_provider = [], oj_expired = 0, oj_status = 0\<rparr>\<rparr>"

definition rs_quote :: apply_input where
  "rs_quote = \<lparr>ai_agent = ''7'', ai_job = ''3'', ai_address = ''0xb'', ai_usdc = Some ''1,5'', ai_atomic = None, ai_message = None,
     ai_capabilities = None, ai_metadata = None\<rparr>"

lemma rs_apply_stored: "\<exists>app. fst (alone (applyToOpenJob rs_apply rs_quote) no_tables) = Inr app"
proof -
  have "BigInt ''3'' = Some 3" "validateProviderAddress rs_apply ''0xb'' = Inr ''0xb''" "ZERO_ADDRESS \<noteq> []"
    by (simp_all add: validateProviderAddress_def rs_apply_def rs_demo_def) code_simp+
  moreover have "parse_quote ''1,5'' = Inr 1500000" by code_simp
  moreover have "owned rs_apply ''7''" using rs_demo_runs(3) by (simp add: owned_def rs_apply_def assertProviderAgentOwnership_def)
  moreover have "sc_fault rs_apply 0 = None" by (simp add: rs_apply_def rs_demo_def)
  moreover have "toLowerCase [] = []" by code_simp
  ultimately show ?thesis
    using rs_demo_checks(1,2) unfolding owned_def
    by (auto simp: applyToOpenJob_def rs_quote_def alone_simps alone_statement verify_open_def chain_job_def readOnchainJob_def
        open_on_chain_def rs_apply_def quote_atomic_def upsert_application_def no_tables_def)
qed


end
