(* ===== verification/Runtime_Tools.thy ===== *)
theory Runtime_Tools
  imports Run_Store_Properties
begin

text \<open>
  The console's tools over the provider runtime store (\<open>mcp/provider-runtime-tools.ts\<close>) and the runner's
  connector that calls them (\<open>mcp-connector.ts\<close>). An answer is the value the JSON object of the tool is
  built from. The session is resolved before a tool runs; a failed resolution is an error of the call.
\<close>

section \<open>Errors and arguments\<close>

fun rethrowAsMcpError :: "string \<Rightarrow> store_error \<Rightarrow> store_error" where
  "rethrowAsMcpError fallback (McpFault c m) = McpFault c m"
| "rethrowAsMcpError fallback (Uncoded m) = McpFault ''INTERNAL_ERROR'' m"
| "rethrowAsMcpError fallback (Coded c m) =
     (if c \<in> {''invalid_agent_id'', ''validation_error'', ''invalid_address''} then McpFault ''VALIDATION_ERROR'' m
      else if c \<in> {''forbidden'', ''agent_account_inactive''} then McpFault ''FORBIDDEN'' m
      else if c \<in> {''not_found'', ''no_active_run''} then McpFault ''NOT_FOUND'' m
      else if c \<in> {''wrong_status'', ''already_assigned'', ''job_expired'', ''conflict'', ''verification_failed''} then McpFault ''VALIDATION_ERROR'' m
      else McpFault ''INTERNAL_ERROR'' m)"

primrec map_fault :: "(store_error \<Rightarrow> store_error) \<Rightarrow> 'a store_op \<Rightarrow> 'a store_op" where
  "map_fault h (Answered r) = Answered (case r of Inl e \<Rightarrow> Inl (h e) | Inr a \<Rightarrow> Inr a)"
| "map_fault h (Awaits f) = Awaits (map_prod (map_fault h) id \<circ> f)"

definition text_arg :: "string \<Rightarrow> json \<Rightarrow> string" where
  \<comment> \<open>\<open>typeof args.k === 'string' ? args.k.trim() : ''\<close>\<close>
  "text_arg k args = (case jget k args of JStr s \<Rightarrow> trim s | _ \<Rightarrow> [])"

definition trimmed_arg :: "string \<Rightarrow> json \<Rightarrow> string option" where
  "trimmed_arg k args = (case jget k args of JStr s \<Rightarrow> Some (trim s) | _ \<Rightarrow> None)"

definition raw_arg :: "string \<Rightarrow> json \<Rightarrow> string option" where
  "raw_arg k args = (case jget k args of JStr s \<Rightarrow> Some s | _ \<Rightarrow> None)"

definition object_arg :: "string \<Rightarrow> json \<Rightarrow> json option" where
  "object_arg k args = (case jget k args of JObj kvs \<Rightarrow> Some (JObj kvs) | JArr vs \<Rightarrow> Some (JArr vs) | _ \<Rightarrow> None)"

definition required :: "string \<Rightarrow> string \<Rightarrow> store_error + unit" where
  "required name v = throw_if (v = []) (McpFault ''VALIDATION_ERROR'' (name @ '' required''))"

type_synonym session_answer = "store_error + mcp_session"

definition with_agent :: "store_call \<Rightarrow> session_answer \<Rightarrow> json \<Rightarrow> (store_call \<Rightarrow> string \<Rightarrow> 'a store_op) \<Rightarrow> 'a store_op" where
  \<comment> \<open>the start of every tool\<close>
  "with_agent c session args k =
     check_op session (\<lambda>s. check_op (required ''agentId'' (text_arg ''agentId'' args))
       (\<lambda>_. k (c\<lparr>sc_session := s\<rparr>) (text_arg ''agentId'' args)))"

section \<open>The tools\<close>

definition handleProviderRuntimeGetContext :: "store_call \<Rightarrow> session_answer \<Rightarrow> json \<Rightarrow> store_answer store_op" where
  "handleProviderRuntimeGetContext c session args = with_agent c session args (\<lambda>c agentId.
     map_fault (rethrowAsMcpError ''Failed to get provider runtime context'')
       (map_store_op ContextAnswer (getProviderRuntimeContext c agentId (trimmed_arg ''providerAddress'' args))))"

definition handleProviderRuntimeHeartbeat :: "store_call \<Rightarrow> session_answer \<Rightarrow> json \<Rightarrow> store_answer store_op" where
  "handleProviderRuntimeHeartbeat c session args = with_agent c session args (\<lambda>c agentId.
     map_fault (rethrowAsMcpError ''Heartbeat failed'') (map_store_op (\<lambda>_. UnitAnswer) (heartbeatProvider c agentId)))"

definition handleProviderRuntimeStartJob :: "store_call \<Rightarrow> session_answer \<Rightarrow> json \<Rightarrow> store_answer store_op" where
  "handleProviderRuntimeStartJob c session args = with_agent c session args (\<lambda>c agentId.
     let jobId = text_arg ''jobId'' args; phase = or_else (trimmed_arg ''phase'' args) ''budget_tx_sent''
     in check_op (required ''jobId'' jobId) (\<lambda>_.
        check_op (throw_if (phase \<notin> set PROVIDER_PHASES) (McpFault ''VALIDATION_ERROR'' (''Invalid phase. Allowed: '' @ join_with '', '' PROVIDER_PHASES))) (\<lambda>_.
        map_fault (rethrowAsMcpError ''Failed to start job run'') (map_store_op RunAnswer (startProviderJobRun c agentId jobId phase)))))"

definition handleProviderRuntimeWriteCheckpoint :: "store_call \<Rightarrow> session_answer \<Rightarrow> json \<Rightarrow> store_answer store_op" where
  "handleProviderRuntimeWriteCheckpoint c session args = with_agent c session args (\<lambda>c agentId.
     let jobId = text_arg ''jobId'' args; phase = text_arg ''phase'' args; status = text_arg ''status'' args
     in check_op (required ''jobId'' jobId) (\<lambda>_.
        check_op (required ''phase'' phase) (\<lambda>_.
        check_op (required ''status'' status) (\<lambda>_.
        check_op (throw_if (phase \<notin> set PROVIDER_PHASES) (McpFault ''VALIDATION_ERROR'' (''Invalid phase. Allowed: '' @ join_with '', '' PROVIDER_PHASES))) (\<lambda>_.
        map_fault (rethrowAsMcpError ''Failed to write checkpoint'') (map_store_op CheckpointAnswer (writeProviderCheckpoint c
          \<lparr>ci_agent = agentId, ci_job = jobId, ci_run = raw_arg ''runId'' args, ci_phase = phase, ci_status = status,
           ci_tx = raw_arg ''txHash'' args, ci_deliverable = raw_arg ''deliverableHash'' args, ci_payload = raw_arg ''payloadHash'' args,
           ci_note = raw_arg ''note'' args, ci_metadata = object_arg ''metadata'' args\<rparr>)))))))"

definition handleProviderRuntimeGetResumePlan :: "store_call \<Rightarrow> session_answer \<Rightarrow> json \<Rightarrow> store_answer store_op" where
  "handleProviderRuntimeGetResumePlan c session args = with_agent c session args (\<lambda>c agentId.
     map_fault (rethrowAsMcpError ''Failed to get resume plan'') (map_store_op PlanAnswer
       (getProviderResumePlan c agentId (trimmed_arg ''jobId'' args) (trimmed_arg ''providerAddress'' args))))"

definition number_arg :: "string \<Rightarrow> json \<Rightarrow> js_number option" where
  "number_arg k args = (case jget k args of JNum n \<Rightarrow> Some (Number_text n) | _ \<Rightarrow> None)"

definition handleProviderListOpenJobs :: "store_call \<Rightarrow> session_answer \<Rightarrow> json \<Rightarrow> store_answer store_op" where
  \<comment> \<open>errors are not translated\<close>
  "handleProviderListOpenJobs c session args = with_agent c session args (\<lambda>c agentId.
     check_op (assertProviderAgentOwnership c agentId) (\<lambda>_.
     check_op (listOpenGlobalJobs c \<lparr>of_limit = Some (case number_arg ''limit'' args of Some n \<Rightarrow> clamp n | None \<Rightarrow> Fin 20),
         of_minimum = raw_arg ''minBudgetUsdc'' args, of_expired = (jget ''includeExpired'' args = JBool True)\<rparr>) (\<lambda>jobs.
     return_op (JobsAnswer jobs))))"

definition handleProviderListAssignedJobs :: "store_call \<Rightarrow> session_answer \<Rightarrow> json \<Rightarrow> store_answer store_op" where
  "handleProviderListAssignedJobs c session args = with_agent c session args (\<lambda>c agentId.
     let address = text_arg ''providerAddress'' args
     in check_op (required ''providerAddress'' address) (\<lambda>_.
        check_op (assertProviderAgentOwnership c agentId) (\<lambda>_.
        check_op (listAssignedJobs c address (case number_arg ''limit'' args of Some n \<Rightarrow> clamp n | None \<Rightarrow> Fin 20)) (\<lambda>jobs.
        return_op (JobsAnswer jobs)))))"

definition handleProviderApplyOpenJob :: "store_call \<Rightarrow> session_answer \<Rightarrow> json \<Rightarrow> store_answer store_op" where
  "handleProviderApplyOpenJob c session args = with_agent c session args (\<lambda>c agentId.
     let jobId = text_arg ''jobId'' args; address = text_arg ''providerAddress'' args
     in check_op (required ''jobId'' jobId) (\<lambda>_.
        check_op (required ''providerAddress'' address) (\<lambda>_.
        map_fault (rethrowAsMcpError ''Failed to apply to open job'') (map_store_op ApplicationAnswer (applyToOpenJob c
          \<lparr>ai_agent = agentId, ai_job = jobId, ai_address = address, ai_usdc = raw_arg ''quoteAmountUsdc'' args,
           ai_atomic = raw_arg ''quoteAmountAtomic'' args, ai_message = raw_arg ''message'' args,
           ai_capabilities = (case jget ''capabilities'' args of JArr vs \<Rightarrow> Some (map js_text vs) | _ \<Rightarrow> None),
           ai_metadata = object_arg ''metadata'' args\<rparr>)))))"

definition handleProviderWithdrawOpenJobApplication :: "store_call \<Rightarrow> session_answer \<Rightarrow> json \<Rightarrow> store_answer store_op" where
  \<comment> \<open>errors of the store are not translated\<close>
  "handleProviderWithdrawOpenJobApplication c session args = with_agent c session args (\<lambda>c agentId.
     check_op (required ''jobId'' (text_arg ''jobId'' args)) (\<lambda>_.
     map_store_op (\<lambda>_. UnitAnswer) (withdrawOpenJobApplication c agentId (text_arg ''jobId'' args))))"

definition handleProviderListMyOpenJobApplications :: "store_call \<Rightarrow> session_answer \<Rightarrow> json \<Rightarrow> store_answer store_op" where
  "handleProviderListMyOpenJobApplications c session args = with_agent c session args (\<lambda>c agentId.
     map_store_op ListAnswer (listProviderApplications c agentId (trimmed_arg ''status'' args)))"

definition handleProviderRuntimeRetryJob :: "store_call \<Rightarrow> session_answer \<Rightarrow> json \<Rightarrow> store_answer store_op" where
  "handleProviderRuntimeRetryJob c session args = with_agent c session args (\<lambda>c agentId.
     let jobId = text_arg ''jobId'' args; reason = or_else (trimmed_arg ''reason'' args) ''manual retry''
     in check_op (required ''jobId'' jobId) (\<lambda>_.
        map_fault (rethrowAsMcpError ''Failed to retry job run'') (map_store_op RetryAnswer (retryProviderJobRun c agentId jobId reason))))"

definition handleProviderRuntimeCompleteRun :: "store_call \<Rightarrow> session_answer \<Rightarrow> json \<Rightarrow> store_answer store_op" where
  "handleProviderRuntimeCompleteRun c session args = with_agent c session args (\<lambda>c agentId.
     let jobId = text_arg ''jobId'' args; runId = text_arg ''runId'' args
     in check_op (required ''jobId'' jobId) (\<lambda>_.
        check_op (required ''runId'' runId) (\<lambda>_.
        map_fault (rethrowAsMcpError ''Failed to complete run'') (map_store_op (\<lambda>_. UnitAnswer) (completeProviderJobRun c agentId runId)))))"

definition console_tool :: "string \<Rightarrow> store_call \<Rightarrow> session_answer \<Rightarrow> json \<Rightarrow> store_answer store_op" where
  \<comment> \<open>the handlers registered for the runtime tools\<close>
  "console_tool name c session args =
     (if name = ''provider.runtime_get_context'' then handleProviderRuntimeGetContext c session args
      else if name = ''provider.runtime_heartbeat'' then handleProviderRuntimeHeartbeat c session args
      else if name = ''provider.runtime_start_job'' then handleProviderRuntimeStartJob c session args
      else if name = ''provider.runtime_write_checkpoint'' then handleProviderRuntimeWriteCheckpoint c session args
      else if name = ''provider.runtime_get_resume_plan'' then handleProviderRuntimeGetResumePlan c session args
      else if name = ''provider.runtime_retry_job'' then handleProviderRuntimeRetryJob c session args
      else if name = ''provider.runtime_complete_run'' then handleProviderRuntimeCompleteRun c session args
      else throw_op (McpFault ''UNKNOWN_TOOL'' name))"

section \<open>The runner's connector\<close>

datatype connector_call =
  SendHeartbeat
| ReadContext "string option"
| ReadPlan "string option" "string option"
| StartJobRun string
| WriteJobCheckpoint string json
| CompleteJobRun string json json
| RetryJobRun string

definition given :: "string \<Rightarrow> string option \<Rightarrow> (string \<times> json) list" where
  "given k v = (if truthy v then [(k, JStr (or_else v []))] else [])"

fun connector_request :: "connector_call \<Rightarrow> (string \<times> (string \<times> json) list) option" where
  \<comment> \<open>the tool and its arguments; a run without an id is not completed\<close>
  "connector_request SendHeartbeat = Some (''provider.runtime_heartbeat'', [])"
| "connector_request (ReadContext address) = Some (''provider.runtime_get_context'', given ''providerAddress'' address)"
| "connector_request (ReadPlan jobId address) = Some (''provider.runtime_get_resume_plan'', given ''jobId'' jobId @ given ''providerAddress'' address)"
| "connector_request (StartJobRun jobId) = Some (''provider.runtime_start_job'', [(''jobId'', JStr jobId)])"
| "connector_request (WriteJobCheckpoint jobId v) = Some (''provider.runtime_write_checkpoint'', [(''jobId'', JStr jobId), (''checkpoint'', v)])"
| "connector_request (CompleteJobRun jobId result runId) =
     (if jtruthy runId then Some (''provider.runtime_complete_run'', [(''jobId'', JStr jobId), (''result'', result), (''runId'', runId)]) else None)"
| "connector_request (RetryJobRun jobId) = Some (''provider.runtime_retry_job'', [(''jobId'', JStr jobId)])"

definition callTool_arguments :: "string \<Rightarrow> (string \<times> json) list \<Rightarrow> json" where
  \<comment> \<open>\<open>{ agentId: this.agentId, ...args }\<close>\<close>
  "callTool_arguments agentId args = JObj (fold (\<lambda>(k, v). jsmap_set k v) args [(''agentId'', JStr agentId)])"

definition connector :: "store_call \<Rightarrow> session_answer \<Rightarrow> string \<Rightarrow> connector_call \<Rightarrow> store_answer store_op" where
  "connector c session agentId call =
     (case connector_request call of
        None \<Rightarrow> return_op UnitAnswer
      | Some (name, args) \<Rightarrow> console_tool name c session (callTool_arguments agentId args))"

text \<open>Any runners, each with its session and agent, call the console; their statements interleave.\<close>

type_synonym runner_system = "run_store \<times> (connector_call \<times> store_answer store_op) list"

inductive runner_step :: "runner_system \<Rightarrow> runner_system \<Rightarrow> bool" where
  runner_call: "runner_step (s, ps) (s, ps @ [(k, connector c session agentId k)])"
| runner_await: "i < length ps \<Longrightarrow> ps ! i = (k, Awaits f) \<Longrightarrow> runner_step (s, ps) (snd (f s), ps[i := (k, fst (f s))])"

end
