(* ===== verification/Runtime_Tool_Properties.thy ===== *)
theory Runtime_Tool_Properties
  imports Runtime_Tools
begin

text \<open>
  The runner's connector and the console's tools together: which of the calls the runner makes reach the
  tables at all. The locale \<open>store_logic\<close> is used with a second invariant.
\<close>

definition runner_inv :: "run_store \<Rightarrow> bool" where
  "runner_inv s \<longleftrightarrow> rs_checkpoints s = [] \<and> (\<forall>r\<in>set (rs_runs s). jr_phase r = ''budget_tx_sent'')"

definition any_change :: "run_store \<Rightarrow> run_store \<Rightarrow> bool" where
  "any_change s t = True"

definition no_facts :: "unit set \<Rightarrow> run_store \<Rightarrow> bool" where
  "no_facts K s = True"

interpretation ru: store_logic runner_inv any_change no_facts
  by unfold_locales (simp_all add: any_change_def no_facts_def)

lemma ru_trivial: "any_change s t" "no_facts K s"
  by (simp_all add: any_change_def no_facts_def)

abbreviation no_answer :: "'a \<Rightarrow> unit set \<Rightarrow> bool" where
  "no_answer a K \<equiv> False"

abbreviation some_answer :: "'a \<Rightarrow> unit set \<Rightarrow> bool" where
  "some_answer a K \<equiv> True"

lemma ru_read:
  assumes "\<And>s. runner_inv s \<Longrightarrow> ru.safe ok {} (k (Inr (g s)))" and "\<And>e. ru.safe ok {} (k (Inl e))"
  shows "ru.safe ok {} (statement c i (query g) k)"
  using assms ru_trivial by (intro ru.safe_query) blast+

lemma ru_put:
  assumes "\<And>s. runner_inv s \<Longrightarrow> runner_inv (snd (q s))" and "\<And>r. ru.safe ok {} (k r)"
  shows "ru.safe ok {} (statement c i q k)"
  using assms ru_trivial by (intro ru.safe_write) simp_all

lemma ru_faults: "ru.safe ok K p \<Longrightarrow> ru.safe ok K (map_fault h p)"
proof (induction rule: ru.safe.induct)
  case (Answer r K)
  then show ?case by (cases r) (auto intro: ru.safe.Answer)
next
  case (Await K f)
  show ?case unfolding map_fault.simps
  proof (rule ru.safe.Await)
    fix s assume "runner_inv s"
    then obtain L where "runner_inv (snd (f s))" "ru.safe ok L (map_fault h (fst (f s)))" using Await ru_trivial by blast
    then show "runner_inv (snd ((map_prod (map_fault h) id \<circ> f) s)) \<and> any_change s (snd ((map_prod (map_fault h) id \<circ> f) s)) \<and>
        (\<exists>L. no_facts L (snd ((map_prod (map_fault h) id \<circ> f) s)) \<and> ru.safe ok L (fst ((map_prod (map_fault h) id \<circ> f) s)))"
      using ru_trivial by auto
  qed
qed

lemma ru_tool: "ru.safe ok {} p \<Longrightarrow> (\<And>a K. ok a K \<Longrightarrow> ok' (h a) K) \<Longrightarrow> ru.safe ok' {} (map_fault e (map_store_op h p))"
  by (intro ru_faults ru.safe_map)

lemma runner_inv_states:
  "runner_inv s \<Longrightarrow> runner_inv (snd (update_states p f s))" "runner_inv s \<Longrightarrow> runner_inv (snd (upsert_state fresh g s))"
  by (simp_all add: runner_inv_def update_states_def upsert_state_def)

lemma runner_inv_runs:
  assumes "runner_inv s" "\<And>r. jr_phase (f r) = jr_phase r"
  shows "runner_inv (snd (update_runs p f s))"
  using assms by (auto simp: runner_inv_def update_runs_def)

lemma runner_inv_insert: "runner_inv s \<Longrightarrow> jr_phase r = ''budget_tx_sent'' \<Longrightarrow> runner_inv (snd (insert_run r s))"
  by (auto simp: runner_inv_def insert_run_def)

section \<open>The operations the runner uses\<close>

lemma ru_sync: "ru.safe some_answer {} (sync_state c i a j run)"
  unfolding sync_state_def by (intro ru_put runner_inv_states ru.safe_return) simp_all

lemma ru_start: "ru.safe some_answer {} (startProviderJobRun c a j ''budget_tx_sent'')"
proof -
  have raced: "ru.safe some_answer {} (case x of Some run \<Rightarrow> sync_state c 3 a j run | None \<Rightarrow> k)" if "ru.safe some_answer {} k" for x k
    using that ru_sync by (cases x) simp_all
  have inserted: "ru.safe some_answer {} (case r of Inr run \<Rightarrow> sync_state c 3 a j run
      | Inl (n, m) \<Rightarrow> if n = ''23505'' then statement c 2 (query g) (\<lambda>raced. case data_of raced of
            Some run \<Rightarrow> sync_state c 3 a j run | None \<Rightarrow> throw_op e) else throw_op (h m))" for r g e h
  proof (cases r)
    case (Inl x)
    then obtain n m where x: "r = Inl (n, m)" by (cases x) simp
    show ?thesis
    proof (cases "n = ''23505''")
      case True
      show ?thesis unfolding x sum.case prod.case if_P [OF True] by (intro ru_read raced ru.safe_throw)
    next
      case False
      show ?thesis unfolding x sum.case prod.case if_not_P [OF False] by (rule ru.safe_throw)
    qed
  qed (simp add: ru_sync)
  show ?thesis
    unfolding startProviderJobRun_def start_steps_def Let_def
    by (intro ru.safe_check ru_read raced ru_put inserted runner_inv_insert) (simp_all add: new_run_def)
qed

lemma ru_finish: "ru.safe some_answer {} (completeProviderJobRun c a runId)"
  unfolding completeProviderJobRun_def finish_steps_def
  by (intro ru.safe_check ru_put runner_inv_states runner_inv_runs ru.safe_return) simp_all

lemma ru_heartbeat: "ru.safe some_answer {} (heartbeatProvider c a)"
  unfolding heartbeatProvider_def
proof (intro ru.safe_check ru_put runner_inv_states)
  show "ru.safe some_answer {} (case r of Inl (n, m) \<Rightarrow> throw_op (Coded ''heartbeat_failed'' (''heartbeat failed: '' @ m))
      | Inr u \<Rightarrow> return_op ())" for r :: "db_error + unit"
    by (cases r) (auto intro: ru.safe_throw ru.safe_return)
qed

lemma ru_context: "ru.safe some_answer {} (getProviderRuntimeContext c a address)"
proof -
  have rest: "ru.safe some_answer {} (context_rest c a address state run)" for state run
    unfolding context_rest_def Let_def by (cases run) (auto intro!: ru_read ru.safe_return)
  have fallback: "ru.safe some_answer {} (context_fallback c a address state)" for state
  proof -
    have "ru.safe some_answer {} (case x of None \<Rightarrow> context_rest c a address state None
        | Some run \<Rightarrow> if state \<noteq> None then statement c 3 (update_states p (f run)) (\<lambda>_. context_rest c a address state (Some run))
            else context_rest c a address state (Some run))" for x p f
      by (cases x) (auto intro!: ru_put runner_inv_states rest)
    then show ?thesis unfolding context_fallback_def by (intro ru_read)
  qed
  have found: "ru.safe some_answer {} (case x of Some run \<Rightarrow> context_rest c a address state (Some run)
      | None \<Rightarrow> context_fallback c a address state)" for x state
    using rest fallback by (cases x) simp_all
  show ?thesis
    unfolding getProviderRuntimeContext_def Let_def
    using found fallback by (intro ru.safe_check ru_read) (auto intro!: ru_read)
qed

lemma ru_plan: "ru.safe some_answer {} (getProviderResumePlan c a j address)"
proof -
  have "ru.safe some_answer {} (case x of None \<Rightarrow> return_op None | Some run \<Rightarrow> statement c 1 (query (latest_checkpoint run)) (\<lambda>cp. return_op (h run cp)))" for x h
    by (cases x) (auto intro!: ru_read ru.safe_return)
  then show ?thesis unfolding getProviderResumePlan_def by (intro ru.safe_check ru_read)
qed

lemma first_phase_not_retried: "jr_phase run = ''budget_tx_sent'' \<Longrightarrow> retry_allowed c j run None \<noteq> Inr u"
  by (auto simp: retry_allowed_def latest_phase_def RETRYABLE_PHASES_def)

lemma ru_retry: "ru.safe no_answer {} (retryProviderJobRun c a j reason)"
  unfolding retryProviderJobRun_def
proof (intro ru.safe_check ru_read, goal_cases)
  case (1 _ _ _ s)
  show ?case
  proof (cases "newest jr_started (filter (\<lambda>r. jr_key r = buildRunIdempotencyKey a j) (rs_runs s))")
    case None
    then show ?thesis by (simp add: ru.safe_throw)
  next
    case (Some run)
    then have "jr_phase run = ''budget_tx_sent''" using 1(4) by (auto dest!: newest_in simp: runner_inv_def)
    note never = first_phase_not_retried [OF this]
    have refused: "ru.safe no_answer {} (let cp = data_of x; counted = plus_one (retry_count cp)
        in check_op (retry_allowed c j run cp) (\<lambda>_. k cp counted))" if "data_of x = None" for x k
      unfolding Let_def that using never by (intro ru.safe_check) blast
    show ?thesis unfolding Some data_of_simps option.case
    proof (rule ru_read, goal_cases)
      case (1 t)
      then have "data_of (Inr (newest cp_created (filter (\<lambda>p. cp_run p = jr_id run) (rs_checkpoints t)))) = None"
        by (simp add: runner_inv_def)
      then show ?case by (rule refused)
    next
      case (2 e)
      show ?case by (rule refused) simp
    qed
  qed
qed (simp add: ru.safe_throw)

section \<open>The connector\<close>

lemma jget_arguments: "k \<noteq> ''agentId'' \<Longrightarrow> k \<notin> fst ` set args \<Longrightarrow> jget k (callTool_arguments a args) = JUndef"
proof -
  assume k: "k \<noteq> ''agentId''" "k \<notin> fst ` set args"
  have "map_of (fold (\<lambda>(k, v). jsmap_set k v) args m) k = map_of m k" for m
    using k(2) by (induction args arbitrary: m) auto
  with k(1) show ?thesis by (simp add: callTool_arguments_def)
qed

lemma with_agent_safe: "(\<And>c a. ru.safe ok {} (k c a)) \<Longrightarrow> ru.safe ok {} (with_agent c session args k)"
  unfolding with_agent_def by (intro ru.safe_check)

fun refused_call :: "connector_call \<Rightarrow> bool" where
  "refused_call (WriteJobCheckpoint jobId v) = True"
| "refused_call (RetryJobRun jobId) = True"
| "refused_call _ = False"

definition connector_ok :: "connector_call \<Rightarrow> store_answer \<Rightarrow> unit set \<Rightarrow> bool" where
  "connector_ok k a K \<longleftrightarrow> \<not> refused_call k"

lemma checkpoint_refused: "ru.safe ok {} (handleProviderRuntimeWriteCheckpoint c session
    (callTool_arguments agentId [(''jobId'', JStr jobId), (''checkpoint'', v)]))"
proof -
  have "text_arg ''phase'' (callTool_arguments agentId [(''jobId'', JStr jobId), (''checkpoint'', v)]) = []"
    by (simp add: text_arg_def jget_arguments)
  then show ?thesis unfolding handleProviderRuntimeWriteCheckpoint_def Let_def
    by (intro with_agent_safe ru.safe_check) (simp add: required_def)
qed

lemma connector_safe: "ru.safe (connector_ok k) {} (connector c session agentId k)"
proof (cases k)
  case (WriteJobCheckpoint jobId v)
  then show ?thesis by (simp add: connector_def console_tool_def checkpoint_refused)
next
  case (RetryJobRun jobId)
  have "ru.safe (connector_ok k) {} (handleProviderRuntimeRetryJob c session args)" for args
    unfolding handleProviderRuntimeRetryJob_def Let_def by (intro with_agent_safe ru.safe_check ru_tool [OF ru_retry]) (simp add: connector_ok_def RetryJobRun)
  with RetryJobRun show ?thesis by (simp add: connector_def console_tool_def connector_ok_def)
next
  case (StartJobRun jobId)
  have "trimmed_arg ''phase'' (callTool_arguments agentId [(''jobId'', JStr jobId)]) = None"
    by (simp add: trimmed_arg_def jget_arguments)
  then have "ru.safe (connector_ok k) {} (handleProviderRuntimeStartJob c session (callTool_arguments agentId [(''jobId'', JStr jobId)]))"
    unfolding handleProviderRuntimeStartJob_def Let_def by (intro with_agent_safe ru.safe_check) (simp add: ru_tool [OF ru_start] connector_ok_def StartJobRun)
  with StartJobRun show ?thesis by (simp add: connector_def console_tool_def connector_ok_def)
next
  case (CompleteJobRun jobId result runId)
  have "ru.safe (connector_ok k) {} (handleProviderRuntimeCompleteRun c session args)" for args
    unfolding handleProviderRuntimeCompleteRun_def Let_def by (intro with_agent_safe ru.safe_check ru_tool [OF ru_finish]) (simp add: connector_ok_def CompleteJobRun)
  with CompleteJobRun show ?thesis by (simp add: connector_def console_tool_def connector_ok_def ru.safe_return)
next
  case SendHeartbeat
  have "ru.safe (connector_ok k) {} (handleProviderRuntimeHeartbeat c session args)" for args
    unfolding handleProviderRuntimeHeartbeat_def by (intro with_agent_safe ru_tool [OF ru_heartbeat]) (simp add: connector_ok_def SendHeartbeat)
  with SendHeartbeat show ?thesis by (simp add: connector_def console_tool_def connector_ok_def)
next
  case (ReadContext address)
  have "ru.safe (connector_ok k) {} (handleProviderRuntimeGetContext c session args)" for args
    unfolding handleProviderRuntimeGetContext_def by (intro with_agent_safe ru_tool [OF ru_context]) (simp add: connector_ok_def ReadContext)
  with ReadContext show ?thesis by (simp add: connector_def console_tool_def connector_ok_def)
next
  case (ReadPlan jobId address)
  have "ru.safe (connector_ok k) {} (handleProviderRuntimeGetResumePlan c session args)" for args
    unfolding handleProviderRuntimeGetResumePlan_def by (intro with_agent_safe ru_tool [OF ru_plan]) (simp add: connector_ok_def ReadPlan)
  with ReadPlan show ?thesis by (simp add: connector_def console_tool_def connector_ok_def)
qed

fun runners_inv :: "runner_system \<Rightarrow> bool" where
  "runners_inv (s, ps) = (runner_inv s \<and> (\<forall>(k, p)\<in>set ps. \<exists>K. ru.safe (connector_ok k) K p))"

interpretation rn: invariant_system "\<lambda>x. x = (no_tables, [])" runner_step runners_inv
proof
  show "x = (no_tables, []) \<Longrightarrow> runners_inv x" for x by (auto simp: no_tables_def runner_inv_def)
  show "runner_step x y \<Longrightarrow> runners_inv x \<Longrightarrow> runners_inv y" for x y
  proof (induction rule: runner_step.induct)
    case (runner_call s ps k c session agentId)
    then show ?case using connector_safe [of k c session agentId] by auto
  next
    case (runner_await i ps k f s)
    then have "(k, Awaits f) \<in> set ps" by (metis nth_mem)
    with runner_await.prems obtain K where "ru.safe (connector_ok k) K (Awaits f)" "runner_inv s" by auto
    then have next_ok: "runner_inv (snd (f s))" "\<exists>L. ru.safe (connector_ok k) L (fst (f s))"
      using ru_trivial by (auto elim: ru.safe_AwaitsE)
    show ?case using next_ok runner_await.prems set_update_subset_insert [of ps i "(k, fst (f s))"] by auto
  qed
qed


lemma runner_advance: "runner_step\<^sup>*\<^sup>* x (advance i x)"
proof (cases "i < length (snd x)")
  case True
  obtain k p where p: "snd x ! i = (k, p)" by (cases "snd x ! i")
  show ?thesis
  proof (cases p)
    case (Awaits f)
    then have "runner_step (fst x, snd x) (snd (f (fst x)), (snd x)[i := (k, fst (f (fst x)))])"
      using True p by (intro runner_await) simp_all
    then show ?thesis using True p Awaits by (simp add: advance_def)
  qed (use True p in \<open>simp add: advance_def\<close>)
qed (simp add: advance_def)

definition rt_demo_run :: runner_system where
  "rt_demo_run = advance 0 (advance 0 (advance 0 (no_tables,
     [(StartJobRun ''3'', connector rs_demo (Inr (sc_session rs_demo)) ''7'' (StartJobRun ''3''))])))"

definition rt_demo_checkpoint :: runner_system where
  "rt_demo_checkpoint = (fst rt_demo_run, snd rt_demo_run @
     [(WriteJobCheckpoint ''3'' (JObj [(''status'', JStr ''failed'')]),
       connector rs_demo (Inr (sc_session rs_demo)) ''7'' (WriteJobCheckpoint ''3'' (JObj [(''status'', JStr ''failed'')])))])"

lemma rt_demo_reached: "runner_step\<^sup>*\<^sup>* (no_tables, []) rt_demo_checkpoint"
proof -
  have first: "runner_step (no_tables, []) (no_tables, [] @ [(k, connector c session a k)])" for k c session a by (rule runner_call)
  have run: "runner_step\<^sup>*\<^sup>* (no_tables, []) rt_demo_run"
    unfolding rt_demo_run_def
    using converse_rtranclp_into_rtranclp [OF first rtranclp_trans [OF runner_advance rtranclp_trans [OF runner_advance runner_advance]]] by simp
  have "runner_step (fst rt_demo_run, snd rt_demo_run) rt_demo_checkpoint" unfolding rt_demo_checkpoint_def by (rule runner_call)
  with run show ?thesis by simp
qed

lemma rt_demo_started: "map jr_job (rs_runs (fst rt_demo_run)) = [''3'']"
proof -
  have args: "trim ''7'' = ''7''" "trim ''3'' = ''3''" by code_simp+
  have "connector rs_demo (Inr (sc_session rs_demo)) ''7'' (StartJobRun ''3'') =
      map_fault (rethrowAsMcpError ''Failed to start job run'') (map_store_op RunAnswer (startProviderJobRun rs_demo ''7'' ''3'' ''budget_tx_sent''))"
    using args by (simp add: connector_def console_tool_def handleProviderRuntimeStartJob_def with_agent_def text_arg_def trimmed_arg_def
        callTool_arguments_def check_op_def required_def PROVIDER_PHASES_def)
  moreover have "startProviderJobRun rs_demo ''7'' ''3'' ''budget_tx_sent'' = start_steps rs_demo ''7'' ''3'' ''budget_tx_sent''"
    using rs_demo_checks by (auto simp: startProviderJobRun_def check_op_def isValidPhase_def PROVIDER_PHASES_def)
  ultimately show ?thesis
    by (simp add: rt_demo_run_def start_steps_def statement_def query_def advance_def Let_def no_tables_def
      insert_run_def new_run_def sync_state_def upsert_state_def fresh_state_def return_op_def is_state_of_def
      rs_demo_def [THEN arg_cong [where f = sc_fault]] rs_demo_def [THEN arg_cong [where f = sc_id]])
qed


end
