(* ===== verification/Index_Events.thy ===== *)
theory Index_Events
  imports Runner_Prelude Json Usdc "HOL-Library.Product_Lexorder"
begin

text \<open>
  The events the indexer reads from the chain and the projections over them:
  \<open>sdk/src/types.ts\<close>, \<open>sdk/src/indexer/types.ts\<close> and \<open>sdk/src/indexer/projections.ts\<close>. A job,
  an agent and the overview are pure functions of lists of events; \<open>JSON.parse\<close> of a stored event
  gives back its numbers as decimal text, which \<open>BigInt\<close>, \<open>-\<close> and \<open>String\<close> read as the
  same number, so that the model keeps the number. The lemmas say which event each field of a
  projected job comes from and that the order of the list does not matter.
\<close>

section \<open>Events\<close>

datatype job_event_name =
  EvCreated | EvBudget | EvFunded | EvSubmitted | EvCompleted | EvRejected | EvExpired | EvDelivered | EvSettled

fun job_event_text :: "job_event_name \<Rightarrow> string" where
  "job_event_text EvCreated = ''JobCreated''"
| "job_event_text EvBudget = ''BudgetSet''"
| "job_event_text EvFunded = ''JobFunded''"
| "job_event_text EvSubmitted = ''JobSubmitted''"
| "job_event_text EvCompleted = ''JobCompleted''"
| "job_event_text EvRejected = ''JobRejected''"
| "job_event_text EvExpired = ''JobExpired''"
| "job_event_text EvDelivered = ''DeliverableSubmitted''"
| "job_event_text EvSettled = ''JobSettled''"

record job_event =
  je_name :: job_event_name
  je_block :: int
  je_tx :: string
  je_log :: int
  je_job :: "int option"
  je_agent :: "int option"
  je_client :: "string option"
  je_provider :: "string option"
  je_evaluator :: "string option"
  je_hook :: "string option"
  je_expired :: "int option"
  je_description :: "string option"
  je_amount :: "int option"
  je_deliverable :: "string option"
  je_reason :: "string option"
  je_rejector :: "string option"

record agent_event =
  ae_name :: string
  ae_block :: int
  ae_tx :: string
  ae_log :: int
  ae_agent :: int
  ae_controller :: string
  ae_uri :: "string option"
  ae_skill :: "string option"
  ae_source :: "string option"
  ae_chain :: "int option"
  ae_registry :: "string option"
  ae_contract :: "string option"

record projected_job =
  pj_id :: string
  pj_client :: string
  pj_provider :: string
  pj_evaluator :: string
  pj_hook :: string
  pj_expired :: string
  pj_description :: string
  pj_budget :: string
  pj_funded :: string
  pj_created_block :: string
  pj_updated_block :: string
  pj_deliverable :: string
  pj_reason :: string
  pj_rejector :: "string option"
  pj_status :: nat
  pj_label :: string
  pj_created :: string
  pj_events :: "job_event list"

record projected_agent =
  pa_agent :: string
  pa_token :: string
  pa_controller :: string
  pa_uri :: string
  pa_block :: string
  pa_tx :: string
  pa_skill :: "string option"
  pa_source :: string
  pa_chain :: int
  pa_registry :: "string option"
  pa_contract :: "string option"

definition ADDRESS_0 :: string where
  "ADDRESS_0 = ''0x'' @ replicate 40 CHR ''0''"

definition BYTES32_0 :: string where
  "BYTES32_0 = ''0x'' @ replicate 64 CHR ''0''"

definition STATUS_LABELS :: "string list" where
  "STATUS_LABELS = [''Open'', ''Funded'', ''Submitted'', ''Completed'', ''Rejected'', ''Expired'']"

section \<open>Grouping\<close>

definition push_group :: "string \<Rightarrow> 'a \<Rightarrow> (string \<times> 'a list) list \<Rightarrow> (string \<times> 'a list) list" where
  \<comment> \<open>\<open>acc[key] ??= []; acc[key].push(event)\<close>\<close>
  "push_group k e acc = jsmap_set k (or_else (map_of acc k) [] @ [e]) acc"

definition groupByJobId :: "job_event list \<Rightarrow> (string \<times> job_event list) list" where
  "groupByJobId events =
     fold (\<lambda>e acc. case je_job e of Some j \<Rightarrow> push_group (int_str j) e acc | None \<Rightarrow> acc) events []"

definition groupByAgentKey :: "job_event list \<Rightarrow> (string \<times> job_event list) list" where
  "groupByAgentKey events =
     fold (\<lambda>e acc. push_group (toLowerCase (or_else (or_opt (je_provider e) (map_option int_str (je_agent e))) ''unknown'')) e acc) events []"

definition sourceForAgentEvent :: "agent_event \<Rightarrow> string" where
  "sourceForAgentEvent e = or_else (ae_source e) ''erc8004_identity_registry''"

definition dedupeAgentEvents :: "agent_event list \<Rightarrow> agent_event list" where
  "dedupeAgentEvents events = map snd (js_property_order
     (fold (\<lambda>e. jsmap_set (sourceForAgentEvent e @ '':'' @ int_str (ae_agent e)) e) events []))"

definition isImportedArcLayerAgent :: "agent_event \<Rightarrow> bool" where
  "isImportedArcLayerAgent e \<longleftrightarrow> sourceForAgentEvent e = ''imported_arclayer_registry''"

definition matchesMetadataPrefix :: "string option \<Rightarrow> string list \<Rightarrow> bool" where
  "matchesMetadataPrefix uri prefixes \<longleftrightarrow> truthy uri \<and> prefixes \<noteq> [] \<and> (\<exists>p\<in>set prefixes. startsWith (the uri) p)"

section \<open>Jobs\<close>

definition event_pos :: "job_event \<Rightarrow> int \<times> int" where
  "event_pos e = (je_block e, je_log e)"

definition chain_order :: "job_event list \<Rightarrow> job_event list" where
  \<comment> \<open>the stable \<open>sort\<close> by block number, then log index\<close>
  "chain_order = sort_key event_pos"

definition latest :: "job_event_name \<Rightarrow> job_event list \<Rightarrow> job_event option" where
  \<comment> \<open>\<open>[...sorted].reverse().find((e) => e.eventName === name)\<close>\<close>
  "latest name evs = find (\<lambda>e. je_name e = name) (rev evs)"

definition total_funded :: "job_event list \<Rightarrow> int" where
  "total_funded evs = sum_list (map (\<lambda>e. or_else (je_amount e) 0) (filter (\<lambda>e. je_name e = EvFunded) evs))"

definition job_status :: "job_event list \<Rightarrow> nat" where
  "job_status evs = (let ordered = chain_order evs in
     if latest EvCompleted ordered \<noteq> None then 3
     else if latest EvRejected ordered \<noteq> None then 4
     else if latest EvExpired ordered \<noteq> None then 5
     else if latest EvSubmitted ordered \<noteq> None then 2
     else if 0 < total_funded evs then 1 else 0)"

definition opt_field :: "('a \<Rightarrow> 'b option) \<Rightarrow> 'a option \<Rightarrow> 'b option" where
  \<comment> \<open>\<open>v?.field\<close>\<close>
  "opt_field f v = Option.bind v f"

definition projectJobFromEvents ::
  "string \<Rightarrow> job_event list \<Rightarrow> (job_event option \<Rightarrow> bool) option \<Rightarrow> projected_job option" where
  "projectJobFromEvents jobId evs keep =
     (let created = find (\<lambda>e. je_name e = EvCreated) evs; ordered = chain_order evs;
          submitted = latest EvSubmitted ordered; completed = latest EvCompleted ordered; rejected = latest EvRejected ordered;
          first_block = (case created of Some e \<Rightarrow> je_block e | None \<Rightarrow>
            (case ordered of e # _ \<Rightarrow> je_block e | [] \<Rightarrow> 0)) in
      if (case keep of Some f \<Rightarrow> \<not> f created | None \<Rightarrow> False) then None
      else Some \<lparr>pj_id = jobId,
        pj_client = or_else (opt_field je_client created) ADDRESS_0,
        pj_provider = or_else (opt_field je_provider created) ADDRESS_0,
        pj_evaluator = or_else (opt_field je_evaluator created) ADDRESS_0,
        pj_hook = or_else (opt_field je_hook created) ADDRESS_0,
        pj_expired = int_str (or_else (opt_field je_expired created) 0),
        pj_description = or_else (opt_field je_description created) [],
        pj_budget = int_str (or_else (opt_field je_amount (latest EvBudget ordered)) 0),
        pj_funded = int_str (total_funded evs),
        pj_created_block = int_str first_block,
        pj_updated_block = int_str (case rev ordered of e # _ \<Rightarrow> je_block e | [] \<Rightarrow> 0),
        pj_deliverable = or_else (opt_field je_deliverable submitted) BYTES32_0,
        pj_reason = or_else (or_opt (opt_field je_reason completed) (opt_field je_reason rejected)) BYTES32_0,
        pj_rejector = opt_field je_rejector rejected,
        pj_status = job_status evs, pj_label = STATUS_LABELS ! job_status evs,
        pj_created = int_str first_block, pj_events = evs\<rparr>)"

definition projectJobs :: "job_event list \<Rightarrow> (job_event option \<Rightarrow> bool) option \<Rightarrow> projected_job list" where
  "projectJobs events keep =
     List.map_filter (\<lambda>(jobId, evs). projectJobFromEvents jobId evs keep) (js_property_order (groupByJobId events))"

section \<open>Agents\<close>

definition project_agent :: "agent_event \<Rightarrow> projected_agent" where
  "project_agent e = \<lparr>pa_agent = int_str (ae_agent e), pa_token = int_str (ae_agent e), pa_controller = ae_controller e,
     pa_uri = or_else (ae_uri e) [], pa_block = int_str (ae_block e), pa_tx = ae_tx e, pa_skill = ae_skill e,
     pa_source = sourceForAgentEvent e, pa_chain = or_else (ae_chain e) 5042002,
     pa_registry = ae_registry e, pa_contract = ae_contract e\<rparr>"

definition projectAgents :: "agent_event list \<Rightarrow> (agent_event \<Rightarrow> bool) option \<Rightarrow> projected_agent list" where
  "projectAgents events keep =
     map project_agent (filter (\<lambda>e. case keep of Some f \<Rightarrow> f e | None \<Rightarrow> True) (dedupeAgentEvents events))"

definition set_add :: "'a \<Rightarrow> 'a list \<Rightarrow> 'a list" where
  \<comment> \<open>\<open>set.add(x)\<close>; a \<open>Set\<close> keeps its elements in insertion order\<close>
  "set_add x xs = (if x \<in> set xs then xs else xs @ [x])"

definition add_wallets :: "string list \<Rightarrow> string list \<Rightarrow> string list" where
  "add_wallets ws acc = fold (\<lambda>w a. if w \<noteq> [] then set_add (toLowerCase w) a else a) ws acc"

definition collectJobWallets :: "projected_job list \<Rightarrow> string list" where
  "collectJobWallets jobs = fold (\<lambda>j. add_wallets [pj_client j, pj_provider j, pj_evaluator j]) jobs []"

section \<open>Overview\<close>

record overview_summary =
  os_events :: nat
  os_jobs :: nat
  os_agents :: nat
  os_proofs :: nat
  os_budgeted :: string
  os_funded_usdc :: string
  os_budget_atomic :: int
  os_funded_atomic :: int
  os_settled :: nat
  os_funded_jobs :: nat

definition BigInt_of :: "string \<Rightarrow> int" where
  \<comment> \<open>\<open>BigInt\<close> of a text the code printed from a bigint\<close>
  "BigInt_of s = or_else (BigInt s) 0"

definition buildOverviewAggregation ::
  "(int \<Rightarrow> nat \<Rightarrow> string) \<Rightarrow> projected_job list \<Rightarrow> projected_agent list \<Rightarrow> nat \<Rightarrow> overview_summary" where
  "buildOverviewAggregation formatUnits jobs agents eventCount =
     (let budget = sum_list (map (BigInt_of \<circ> pj_budget) jobs); funded = sum_list (map (BigInt_of \<circ> pj_funded) jobs) in
      \<lparr>os_events = eventCount, os_jobs = length jobs, os_agents = length agents, os_proofs = 0,
       os_budgeted = formatUnits budget 6, os_funded_usdc = formatUnits funded 6,
       os_budget_atomic = budget, os_funded_atomic = funded,
       os_settled = length (filter (\<lambda>j. pj_status j = 3) jobs),
       os_funded_jobs = length (filter (\<lambda>j. 0 < BigInt_of (pj_funded j)) jobs)\<rparr>)"

section \<open>What a projection reads\<close>

lemma set_chain_order [simp]: "set (chain_order evs) = set evs" "mset (chain_order evs) = mset evs"
  "chain_order evs = [] \<longleftrightarrow> evs = []"
  by (simp_all add: chain_order_def flip: set_empty)

lemma chain_order_eq: "mset evs = mset evs' \<Longrightarrow> inj_on event_pos (set evs) \<Longrightarrow> chain_order evs = chain_order evs'"
  unfolding chain_order_def by (rule sort_key_inj_key_eq) simp_all

lemma latest_None [simp]: "latest name (chain_order evs) = None \<longleftrightarrow> (\<forall>e\<in>set evs. je_name e \<noteq> name)"
  by (auto simp: latest_def find_None_iff)

lemma find_rev_sorted:
  assumes "sorted (map f xs)" "find P (rev xs) = Some x"
  shows "x \<in> set xs \<and> P x \<and> (\<forall>y\<in>set xs. P y \<longrightarrow> f y \<le> f x)"
  using assms
proof (induction xs rule: rev_induct)
  case (snoc y ys)
  show ?case
  proof (cases "P y")
    case True
    with snoc.prems show ?thesis by (auto simp: sorted_append)
  next
    case False
    with snoc show ?thesis by (auto simp: sorted_append)
  qed
qed simp

lemma latest_Some:
  assumes "latest name (chain_order evs) = Some e"
  shows "e \<in> set evs \<and> je_name e = name \<and> (\<forall>e'\<in>set evs. je_name e' = name \<longrightarrow> event_pos e' \<le> event_pos e)"
  using find_rev_sorted [of event_pos "chain_order evs" "\<lambda>e. je_name e = name" e] assms
  by (simp add: latest_def chain_order_def)

definition has :: "job_event_name \<Rightarrow> job_event list \<Rightarrow> bool" where
  "has name evs \<longleftrightarrow> (\<exists>e\<in>set evs. je_name e = name)"

lemma job_status_eq:
  "job_status evs = (if has EvCompleted evs then 3 else if has EvRejected evs then 4 else if has EvExpired evs then 5
     else if has EvSubmitted evs then 2 else if 0 < total_funded evs then 1 else 0)"
proof -
  have has: "latest name (chain_order evs) \<noteq> None \<longleftrightarrow> has name evs" for name
    unfolding has_def latest_None by blast
  show ?thesis unfolding job_status_def Let_def has ..
qed

lemma job_status_bound: "job_status evs \<le> 5"
  by (simp add: job_status_eq)

lemma total_funded_mset: "mset evs = mset evs' \<Longrightarrow> total_funded evs = total_funded evs'"
proof -
  assume "mset evs = mset evs'"
  then have "mset (map (\<lambda>e. or_else (je_amount e) 0) (filter (\<lambda>e. je_name e = EvFunded) evs)) =
      mset (map (\<lambda>e. or_else (je_amount e) 0) (filter (\<lambda>e. je_name e = EvFunded) evs'))" by simp
  then show ?thesis unfolding total_funded_def by (metis sum_mset_sum_list)
qed

lemma find_unique:
  assumes "mset xs = mset ys" "\<And>x y. x \<in> set xs \<Longrightarrow> y \<in> set xs \<Longrightarrow> P x \<Longrightarrow> P y \<Longrightarrow> x = y"
  shows "find P xs = find P ys"
proof -
  have sets: "set xs = set ys" using assms(1) by (rule mset_eq_setD)
  show ?thesis
  proof (cases "find P xs")
    case None
    with sets have "find P ys = None" by (simp add: find_None_iff)
    with None show ?thesis by simp
  next
    case (Some x)
    then have x: "x \<in> set xs" "P x" by (auto simp: find_Some_iff)
    with sets have "find P ys \<noteq> None" by (auto simp: find_None_iff)
    then obtain y where y: "find P ys = Some y" by blast
    then have "y \<in> set xs" "P y" using sets by (auto simp: find_Some_iff)
    then have "x = y" using assms(2) [of x y] x by simp
    with Some y show ?thesis by simp
  qed
qed

lemma projectJob_mset:
  assumes "mset evs = mset evs'" "inj_on event_pos (set evs)"
    and "\<And>x y. x \<in> set evs \<Longrightarrow> y \<in> set evs \<Longrightarrow> je_name x = EvCreated \<Longrightarrow> je_name y = EvCreated \<Longrightarrow> x = y"
  shows "map_option (\<lambda>j. j\<lparr>pj_events := []\<rparr>) (projectJobFromEvents i evs keep)
       = map_option (\<lambda>j. j\<lparr>pj_events := []\<rparr>) (projectJobFromEvents i evs' keep)"
proof -
  have order: "chain_order evs = chain_order evs'" using assms by (intro chain_order_eq)
  have created: "find (\<lambda>e. je_name e = EvCreated) evs = find (\<lambda>e. je_name e = EvCreated) evs'" using assms by (intro find_unique)
  have funded: "total_funded evs = total_funded evs'" using assms(1) by (rule total_funded_mset)
  show ?thesis by (simp only: projectJobFromEvents_def job_status_def Let_def order created funded) simp
qed

end
