(* ===== verification/Index_Filters.thy ===== *)
theory Index_Filters
  imports Index_Events
begin

text \<open>
  Which events the indexer shows as ArcLayer's own: the filter lists of \<open>indexer/src/config.ts\<close>, their
  refresh from the console's tables in \<open>indexer/src/reference-filters.ts\<close>, and the filtered
  projections of \<open>indexer/src/projections.ts\<close>. The filter lists are module state, here the record
  \<open>ref_filters\<close>; the answers of Supabase and the clock are arguments.
\<close>

section \<open>Configuration\<close>

datatype indexer_scope = ArcLayerScope | ArcNetworkScope

definition parseIndexerScope :: "string option \<Rightarrow> indexer_scope" where
  "parseIndexerScope raw = (if raw = Some ''arcnetwork'' then ArcNetworkScope else ArcLayerScope)"

definition wallet_shaped :: "string \<Rightarrow> bool" where
  "wallet_shaped s \<longleftrightarrow> startsWith s ''0x'' \<and> length s = 42"

definition parse_wallet_filter :: "string \<Rightarrow> string list" where
  \<comment> \<open>\<open>ARC_REFERENCE_WALLET_FILTER\<close>\<close>
  "parse_wallet_filter env = filter wallet_shaped (map (\<lambda>s. toLowerCase (trim s)) (split_on CHR '','' env))"

definition parse_list_filter :: "string \<Rightarrow> string list" where
  \<comment> \<open>\<open>ARC_REFERENCE_AGENT_ID_FILTER\<close> and \<open>ARC_REFERENCE_METADATA_PREFIX_FILTER\<close>\<close>
  "parse_list_filter env = filter (\<lambda>s. s \<noteq> []) (map trim (split_on CHR '','' env))"

section \<open>Reference filters\<close>

record ref_filters =
  rf_wallets :: "string list"
  rf_agents :: "string list"
  rf_supabase_wallets :: nat
  rf_supabase_agents :: nat
  rf_refreshed :: "string option"
  rf_error :: "string option"

definition initial_filters :: "string list \<Rightarrow> string list \<Rightarrow> ref_filters" where
  "initial_filters wallets agents = \<lparr>rf_wallets = wallets, rf_agents = map toLowerCase agents,
     rf_supabase_wallets = 0, rf_supabase_agents = 0, rf_refreshed = None, rf_error = None\<rparr>"

definition normalizeWallet :: "json \<Rightarrow> string option" where
  "normalizeWallet v = (case v of
     JStr s \<Rightarrow> (let lower = toLowerCase (trim s) in if wallet_shaped lower then Some lower else None)
   | _ \<Rightarrow> None)"

definition normalizeAgentId :: "json \<Rightarrow> string option" where
  "normalizeAgentId v =
     (if v = JNull \<or> v = JUndef then None
      else let t = toLowerCase (trim (js_text v)) in if t = [] then None else Some t)"

definition referenceAgentIdCandidates :: "json \<Rightarrow> string list" where
  "referenceAgentIdCandidates v = (case normalizeAgentId v of
     None \<Rightarrow> []
   | Some i \<Rightarrow> (let l = last (split_on CHR '':'' i); raw = (if CHR '':'' \<in> set i \<and> l \<noteq> [] then l else i) in
       fold set_add [raw, i, ''erc8004_identity_registry:'' @ raw, ''imported_arclayer_registry:'' @ raw] []))"

record supabase_env =
  su_configured :: bool
  su_get :: "string \<Rightarrow> string \<Rightarrow> string + (nat \<times> json)"
  su_now :: string

definition fetchSupabaseRows :: "supabase_env \<Rightarrow> string \<Rightarrow> string \<Rightarrow> string + json list" where
  "fetchSupabaseRows env table select =
     (if \<not> su_configured env then Inr []
      else bindR (su_get env table select) (\<lambda>(status, body).
        if status < 200 \<or> 299 < status then Inl (table @ '':'' @ nat_str status) else Inr (json_items body)))"

definition fetchA2AJobRows :: "supabase_env \<Rightarrow> string + (json list \<times> string option)" where
  "fetchA2AJobRows env =
     (case fetchSupabaseRows env ''a2a_jobs'' ''provider,evaluator,claimed_by'' of
        Inr rows \<Rightarrow> Inr (rows, None)
      | Inl message \<Rightarrow>
          if \<not> includes_str message ''a2a_jobs:400'' then Inl message
          else bindR (fetchSupabaseRows env ''a2a_jobs'' ''provider,evaluator'') (\<lambda>rows.
            Inr (rows, Some ''a2a_jobs claimed_by fallback: a2a_jobs:400'')))"

definition add_row_wallets :: "string list \<Rightarrow> json \<Rightarrow> string list \<times> nat \<Rightarrow> string list \<times> nat" where
  "add_row_wallets keys row acc = fold (\<lambda>k (ws, n). case normalizeWallet (jget k row) of
     Some w \<Rightarrow> (set_add w ws, Suc n) | None \<Rightarrow> (ws, n)) keys acc"

definition add_manifest :: "json \<Rightarrow> (string list \<times> nat) \<times> (string list \<times> nat) \<Rightarrow> (string list \<times> nat) \<times> (string list \<times> nat)" where
  "add_manifest row acc = (case acc of (wallets, (ids, n)) \<Rightarrow>
     (add_row_wallets [''controller'', ''signer''] row wallets,
      case normalizeAgentId (jget ''agent_id'' row) of Some i \<Rightarrow> (set_add i ids, Suc n) | None \<Rightarrow> (ids, n)))"

definition refreshReferenceFilters :: "string list \<Rightarrow> string list \<Rightarrow> supabase_env \<Rightarrow> ref_filters" where
  \<comment> \<open>\<open>refreshReferenceFiltersFromSupabase\<close>: the new state, which the function also returns\<close>
  "refreshReferenceFilters env_wallets env_agents env =
     (let start = ((fold set_add env_wallets [], 0), (fold set_add (map toLowerCase env_agents) [], 0));
          state = (\<lambda>((ws, nw), (ids, na)) err. \<lparr>rf_wallets = ws, rf_agents = ids, rf_supabase_wallets = nw,
             rf_supabase_agents = na, rf_refreshed = Some (su_now env), rf_error = err\<rparr>) in
      case fetchSupabaseRows env ''agent_manifests'' ''agent_id,controller,signer'' of
        Inl message \<Rightarrow> state start (Some message)
      | Inr manifests \<Rightarrow> (let (wallets, ids) = fold add_manifest manifests start in
          case fetchA2AJobRows env of
            Inl message \<Rightarrow> state (wallets, ids) (Some message)
          | Inr (rows, fallback) \<Rightarrow>
              state (fold (add_row_wallets [''provider'', ''evaluator'', ''claimed_by'']) rows wallets, ids) fallback))"

definition matchesReferenceWallet :: "ref_filters \<Rightarrow> indexer_scope \<Rightarrow> string option \<Rightarrow> bool" where
  "matchesReferenceWallet st scope addr \<longleftrightarrow>
     scope = ArcNetworkScope \<or> rf_wallets st = []
     \<or> (case addr of None \<Rightarrow> False | Some a \<Rightarrow>
          (case normalizeWallet (JStr a) of Some w \<Rightarrow> w \<in> set (rf_wallets st) | None \<Rightarrow> False))"

definition matchesReferenceAgentId :: "ref_filters \<Rightarrow> indexer_scope \<Rightarrow> string \<Rightarrow> bool" where
  "matchesReferenceAgentId st scope i \<longleftrightarrow>
     scope = ArcNetworkScope \<or> rf_agents st = []
     \<or> (\<exists>c\<in>set (referenceAgentIdCandidates (JStr i)). c \<in> set (rf_agents st))"

section \<open>Filtered projections\<close>

record index_view =
  iv_filters :: ref_filters
  iv_scope :: indexer_scope
  iv_prefixes :: "string list"

definition jobFilter :: "index_view \<Rightarrow> job_event option \<Rightarrow> bool" where
  "jobFilter v created \<longleftrightarrow>
     matchesReferenceWallet (iv_filters v) (iv_scope v) (opt_field je_client created)
     \<or> matchesReferenceWallet (iv_filters v) (iv_scope v) (opt_field je_provider created)
     \<or> matchesReferenceWallet (iv_filters v) (iv_scope v) (opt_field je_evaluator created)"

definition buildJobProjection :: "job_event list \<Rightarrow> (string \<times> job_event list) list" where
  "buildJobProjection events =
     fold (\<lambda>e. push_group (or_else (map_option int_str (je_job e)) ''unassigned'') e) events []"

definition buildAgentEventProjection :: "job_event list \<Rightarrow> (string \<times> job_event list) list" where
  "buildAgentEventProjection events =
     fold (\<lambda>e. push_group (toLowerCase (or_else (or_opt (je_provider e) (map_option int_str (je_agent e))) ''unknown'')) e) events []"

definition projectJobsFromEvents :: "index_view \<Rightarrow> job_event list \<Rightarrow> projected_job list" where
  "projectJobsFromEvents v events = projectJobs events (Some (jobFilter v))"

definition getAgentFilterReason :: "index_view \<Rightarrow> agent_event \<Rightarrow> string list option \<Rightarrow> string option" where
  "getAgentFilterReason v e arcJobWallets =
     (let ctrl = toLowerCase (ae_controller e); rawId = int_str (ae_agent e);
          idMatch = (rf_agents (iv_filters v) \<noteq> []
            \<and> (matchesReferenceAgentId (iv_filters v) (iv_scope v) rawId
               \<or> matchesReferenceAgentId (iv_filters v) (iv_scope v) (sourceForAgentEvent e @ '':'' @ rawId))) in
      if isImportedArcLayerAgent e then Some ''imported_arclayer_registry''
      else if rf_wallets (iv_filters v) = [] then Some ''wallet_filter_inactive''
      else if matchesReferenceWallet (iv_filters v) (iv_scope v) (Some ctrl) then Some ''controller_wallet_match''
      else if (case arcJobWallets of Some ws \<Rightarrow> ctrl \<in> set ws | None \<Rightarrow> False) then Some ''arc_job_wallet_match''
      else if idMatch then Some ''agent_id_match''
      else if matchesMetadataPrefix (Some (or_else (ae_uri e) [])) (iv_prefixes v) then Some ''metadata_prefix_match''
      else None)"

definition projectAgentsFromEvents :: "index_view \<Rightarrow> agent_event list \<Rightarrow> string list option \<Rightarrow> projected_agent list" where
  "projectAgentsFromEvents v events ws = projectAgents events (Some (\<lambda>e. getAgentFilterReason v e ws \<noteq> None))"

record agent_debug =
  ad_stored :: nat
  ad_breakdown :: "(string \<times> nat) list"
  ad_raw_imported :: nat
  ad_raw_erc8004 :: nat
  ad_imported :: nat
  ad_erc8004 :: nat
  ad_filtered :: nat
  ad_sample :: "(string \<times> string \<times> string) list"

definition buildAgentProjectionDebug :: "index_view \<Rightarrow> agent_event list \<Rightarrow> string list option \<Rightarrow> agent_debug" where
  "buildAgentProjectionDebug v events ws =
     (let source_count = (\<lambda>s. length (filter (\<lambda>e. sourceForAgentEvent e = s) events));
          projected = projectAgentsFromEvents v events ws;
          filtered = projectAgents events (Some (\<lambda>e. sourceForAgentEvent e = ''erc8004_identity_registry'' \<and> getAgentFilterReason v e ws = None)) in
      \<lparr>ad_stored = length events,
       ad_breakdown = fold (\<lambda>e acc. jsmap_set (sourceForAgentEvent e) (Suc (or_else (map_of acc (sourceForAgentEvent e)) 0)) acc) events [],
       ad_raw_imported = source_count ''imported_arclayer_registry'', ad_raw_erc8004 = source_count ''erc8004_identity_registry'',
       ad_imported = length (filter (\<lambda>a. pa_source a = ''imported_arclayer_registry'') projected),
       ad_erc8004 = length (filter (\<lambda>a. pa_source a = ''erc8004_identity_registry'') projected),
       ad_filtered = length filtered,
       ad_sample = map (\<lambda>a. (pa_agent a, pa_controller a, pa_uri a)) (take 5 filtered)\<rparr>)"

definition buildJobDetailProjection :: "index_view \<Rightarrow> int \<Rightarrow> job_event list \<Rightarrow> projected_job option" where
  "buildJobDetailProjection v i events = find (\<lambda>j. pj_id j = int_str i) (projectJobsFromEvents v events)"

definition buildAgentsProjection :: "index_view \<Rightarrow> agent_event list \<Rightarrow> job_event list \<Rightarrow> projected_agent list" where
  "buildAgentsProjection v agents jobs = projectAgentsFromEvents v agents (Some (collectJobWallets (projectJobsFromEvents v jobs)))"

definition buildAgentDetailProjection ::
  "index_view \<Rightarrow> int \<Rightarrow> agent_event list \<Rightarrow> job_event list \<Rightarrow> (projected_agent \<times> projected_job list) option" where
  "buildAgentDetailProjection v i agents jobs =
     (case find (\<lambda>a. pa_agent a = int_str i) (buildAgentsProjection v agents jobs) of
        None \<Rightarrow> None
      | Some a \<Rightarrow> Some (a, filter (\<lambda>j. toLowerCase (pj_provider j) = toLowerCase (pa_controller a)
          \<or> toLowerCase (pj_client j) = toLowerCase (pa_controller a)) (projectJobsFromEvents v jobs)))"

definition buildOverviewProjection ::
  "(int \<Rightarrow> nat \<Rightarrow> string) \<Rightarrow> index_view \<Rightarrow> job_event list \<Rightarrow> agent_event list \<Rightarrow> overview_summary" where
  "buildOverviewProjection formatUnits v jobs agents =
     buildOverviewAggregation formatUnits (projectJobsFromEvents v jobs) (buildAgentsProjection v agents jobs)
       (length jobs + length agents)"

end
