(* ===== verification/Index_Fetch.thy ===== *)
theory Index_Fetch
  imports Index_Events
begin

text \<open>
  Reading the chain: the range-splitting query, the three fetchers of \<open>indexer/src/ingest.ts\<close> and
  \<open>calculateToBlock\<close> of \<open>sync-range.ts\<close>. The RPC node is an argument: what it answers to a query
  of a range of blocks, or the message it fails with.
\<close>

section \<open>Range queries\<close>

definition calculateToBlock :: "int \<Rightarrow> int \<Rightarrow> int \<Rightarrow> int" where
  "calculateToBlock fromBlock chainLatestBlock maxBlockRange =
     (let maxToBlock = fromBlock + maxBlockRange - 1
      in if maxToBlock < chainLatestBlock then maxToBlock else chainLatestBlock)"

definition MIN_CHUNK_BLOCKS :: int where
  "MIN_CHUNK_BLOCKS = 500"

lemma half_range: "500 < n \<Longrightarrow> bigint_div n 2 = n div 2" for n :: int
  by (simp add: bigint_div_def)

type_synonym 'e rpc = "int \<Rightarrow> int \<Rightarrow> string + 'e list"

function fetchEventsInRange :: "'e rpc \<Rightarrow> (int \<Rightarrow> int \<Rightarrow> bool) \<Rightarrow> int \<Rightarrow> int \<Rightarrow> string + 'e list" where
  \<comment> \<open>the halves run at the same time: \<open>right_first\<close> says which of two failures \<open>Promise.all\<close> reports\<close>
  "fetchEventsInRange rpc right_first fromBlock toBlock =
     (case rpc fromBlock toBlock of
        Inr events \<Rightarrow> Inr events
      | Inl err \<Rightarrow>
          if toBlock - fromBlock \<le> MIN_CHUNK_BLOCKS then Inl err
          else (let mid = fromBlock + bigint_div (toBlock - fromBlock) 2 in
            case (fetchEventsInRange rpc right_first fromBlock mid, fetchEventsInRange rpc right_first (mid + 1) toBlock) of
              (Inr l, Inr r) \<Rightarrow> Inr (l @ r)
            | (Inl e, Inr _) \<Rightarrow> Inl e
            | (Inr _, Inl e) \<Rightarrow> Inl e
            | (Inl e, Inl e') \<Rightarrow> Inl (if right_first fromBlock toBlock then e' else e)))"
  by pat_completeness auto

termination
  by (relation "measure (\<lambda>(_, _, f, t). nat (t - f))") (auto simp: MIN_CHUNK_BLOCKS_def half_range)

declare fetchEventsInRange.simps [simp del]

section \<open>Logs\<close>

record job_log =
  jl_name :: "job_event_name option" \<comment> \<open>\<open>None\<close>: an event of another name\<close>
  jl_index :: "int option"
  jl_event :: job_event \<comment> \<open>its block, its transaction and the arguments; the name and the index come from above\<close>

record transfer_log =
  tl_name :: string
  tl_block :: int
  tl_tx :: string
  tl_index :: "int option"
  tl_from :: "string option"
  tl_to :: string
  tl_token :: int

record feedback_log =
  fl_name :: string
  fl_block :: int
  fl_tx :: string
  fl_index :: "int option"
  fl_agent :: int
  fl_client :: string
  fl_feedback :: "int option"
  fl_value :: int
  fl_decimals :: "int option"
  fl_tag1 :: "string option"
  fl_tag2 :: "string option"
  fl_endpoint :: "string option"
  fl_uri :: "string option"
  fl_hash :: "string option"

record reputation_event =
  re_block :: int
  re_tx :: string
  re_log :: int
  re_agent :: int
  re_reviewer :: string
  re_feedback :: int
  re_score :: int
  re_category :: int
  re_comment :: "string option"
  re_metadata :: "string option"
  re_proof :: "string option"
  re_context :: "string option"
  re_ref :: "string option"

definition JOB_EVENT_NAMES :: "job_event_name list" where
  "JOB_EVENT_NAMES = [EvCreated, EvBudget, EvFunded, EvSubmitted, EvCompleted, EvRejected, EvExpired]"

definition job_of_log :: "job_log \<Rightarrow> job_event" where
  "job_of_log l = (jl_event l)\<lparr>je_name := (case jl_name l of Some n \<Rightarrow> n | None \<Rightarrow> je_name (jl_event l)),
     je_log := or_else (jl_index l) 0\<rparr>"

definition is_job_log :: "job_log \<Rightarrow> bool" where
  "is_job_log l \<longleftrightarrow> (case jl_name l of Some n \<Rightarrow> n \<in> set JOB_EVENT_NAMES | None \<Rightarrow> False)"

definition fetchJobEvents :: "job_log rpc \<Rightarrow> (int \<Rightarrow> int \<Rightarrow> bool) \<Rightarrow> int \<Rightarrow> int \<Rightarrow> string + job_event list" where
  "fetchJobEvents rpc right_first fromBlock toBlock =
     (if fromBlock > toBlock then Inr []
      else bindR (fetchEventsInRange rpc right_first fromBlock toBlock) (\<lambda>collected.
        Inr (chain_order (map job_of_log (filter is_job_log collected)))))"

definition IDENTITY_REGISTRY :: string where
  "IDENTITY_REGISTRY = ''0x8004A818BFB912233c491871b3d84c89A494BD9e''"

definition is_mint :: "transfer_log \<Rightarrow> bool" where
  "is_mint l \<longleftrightarrow> tl_name l = ''Transfer'' \<and> map_option toLowerCase (tl_from l) = Some ADDRESS_0"

definition agent_of_log :: "(int \<Rightarrow> string option) \<Rightarrow> transfer_log \<Rightarrow> agent_event" where
  \<comment> \<open>\<open>tokenURI\<close> is the read of the registry, \<open>None\<close> when it throws\<close>
  "agent_of_log tokenURI l = \<lparr>ae_name = ''AgentRegistered'', ae_block = tl_block l, ae_tx = tl_tx l,
     ae_log = or_else (tl_index l) 0, ae_agent = tl_token l, ae_controller = tl_to l,
     ae_uri = Some (or_else (tokenURI (tl_token l)) []), ae_skill = None, ae_source = Some ''erc8004_identity_registry'',
     ae_chain = Some 5042002, ae_registry = Some IDENTITY_REGISTRY, ae_contract = Some IDENTITY_REGISTRY\<rparr>"

definition agent_pos :: "agent_event \<Rightarrow> int \<times> int" where
  "agent_pos e = (ae_block e, ae_log e)"

definition fetchAgentEvents ::
  "transfer_log rpc \<Rightarrow> (int \<Rightarrow> int \<Rightarrow> bool) \<Rightarrow> (int \<Rightarrow> string option) \<Rightarrow> int \<Rightarrow> int \<Rightarrow> string + agent_event list" where
  "fetchAgentEvents rpc right_first tokenURI fromBlock toBlock =
     (if fromBlock > toBlock then Inr []
      else bindR (fetchEventsInRange rpc right_first fromBlock toBlock) (\<lambda>collected.
        Inr (sort_key agent_pos (map (agent_of_log tokenURI) (filter is_mint collected)))))"

definition feedback_of_log :: "feedback_log \<Rightarrow> reputation_event" where
  "feedback_of_log l = \<lparr>re_block = fl_block l, re_tx = fl_tx l, re_log = or_else (fl_index l) 0, re_agent = fl_agent l,
     re_reviewer = fl_client l, re_feedback = or_else (fl_feedback l) 0, re_score = fl_value l,
     re_category = or_else (fl_decimals l) 0, re_comment = Some (or_else (fl_tag1 l) []),
     re_metadata = Some (or_else (fl_tag2 l) []), re_proof = Some (or_else (fl_endpoint l) []),
     re_context = Some (or_else (fl_uri l) []), re_ref = fl_hash l\<rparr>"

definition fetchReputationEvents ::
  "feedback_log rpc \<Rightarrow> (int \<Rightarrow> int \<Rightarrow> bool) \<Rightarrow> int \<Rightarrow> int \<Rightarrow> string + reputation_event list" where
  "fetchReputationEvents rpc right_first fromBlock toBlock =
     (if fromBlock > toBlock then Inr []
      else bindR (fetchEventsInRange rpc right_first fromBlock toBlock) (\<lambda>collected.
        Inr (sort_key (\<lambda>e. (re_block e, re_log e)) (map feedback_of_log (filter (\<lambda>l. fl_name l = ''NewFeedback'') collected)))))"

section \<open>What a range query returns\<close>

text \<open>A node that answers a query with the logs of its blocks, in any order.\<close>

definition serves :: "('e \<Rightarrow> int) \<Rightarrow> 'e list \<Rightarrow> int \<Rightarrow> 'e rpc \<Rightarrow> bool" where
  "serves block chain tip rpc \<longleftrightarrow> (\<forall>a b evs. b \<le> tip \<longrightarrow> rpc a b = Inr evs \<longrightarrow>
     mset evs = mset (filter (\<lambda>e. a \<le> block e \<and> block e \<le> b) chain))"

lemma range_split_mset:
  fixes a m b :: int
  assumes "a \<le> m" "m < b"
  shows "mset (filter (\<lambda>e. a \<le> block e \<and> block e \<le> b) chain) =
    mset (filter (\<lambda>e. a \<le> block e \<and> block e \<le> m) chain) + mset (filter (\<lambda>e. m + 1 \<le> block e \<and> block e \<le> b) chain)"
  using assms by (induction chain) auto

lemma fetchEventsInRange_mset:
  assumes "serves block chain tip rpc" "toBlock \<le> tip"
  shows "fetchEventsInRange rpc right_first fromBlock toBlock = Inr evs \<Longrightarrow>
    mset evs = mset (filter (\<lambda>e. fromBlock \<le> block e \<and> block e \<le> toBlock) chain)"
  using assms
proof (induction rpc right_first fromBlock toBlock arbitrary: evs rule: fetchEventsInRange.induct)
  case (1 rpc right_first a b)
  show ?case
  proof (cases "rpc a b")
    case (Inr answer)
    then have "evs = answer" using 1(3) by (simp add: fetchEventsInRange.simps [of rpc right_first a b])
    then show ?thesis using Inr 1(4,5) unfolding serves_def by blast
  next
    case (Inl err)
    define m where "m = a + bigint_div (b - a) 2"
    have big: "\<not> b - a \<le> MIN_CHUNK_BLOCKS"
      using 1(3) Inl by (auto simp: fetchEventsInRange.simps [of rpc right_first a b])
    have m: "a \<le> m" "m < b" using big by (simp_all add: m_def MIN_CHUNK_BLOCKS_def half_range)
    obtain l r where lr: "fetchEventsInRange rpc right_first a m = Inr l" "fetchEventsInRange rpc right_first (m + 1) b = Inr r"
        "evs = l @ r"
      using 1(3) Inl big by (auto simp: fetchEventsInRange.simps [of rpc right_first a b] m_def Let_def split: sum.splits)
    have "mset l = mset (filter (\<lambda>e. a \<le> block e \<and> block e \<le> m) chain)"
      by (rule 1(1) [OF Inl big m_def lr(1) 1(4)]) (use m 1(5) in simp)
    moreover have "mset r = mset (filter (\<lambda>e. m + 1 \<le> block e \<and> block e \<le> b) chain)"
      by (rule 1(2) [OF Inl big m_def lr(2) 1(4) 1(5)])
    ultimately show ?thesis by (simp only: lr(3) mset_append range_split_mset [OF m])
  qed
qed

lemma fetchEventsInRange_fails:
  "fetchEventsInRange rpc right_first a b = Inl err \<Longrightarrow>
     \<exists>c d. a \<le> c \<and> d \<le> b \<and> d - c \<le> 500 \<and> rpc c d = Inl err \<and> (a \<le> b \<longrightarrow> c \<le> d)"
proof (induction rpc right_first a b arbitrary: err rule: fetchEventsInRange.induct)
  case (1 rpc right_first a b)
  then obtain e where e: "rpc a b = Inl e" by (auto simp: fetchEventsInRange.simps [of rpc right_first a b] split: sum.splits)
  show ?case
  proof (cases "b - a \<le> MIN_CHUNK_BLOCKS")
    case True
    then have "e = err" using 1(3) e by (simp add: fetchEventsInRange.simps [of rpc right_first a b])
    with True e show ?thesis by (intro exI [of _ a] exI [of _ b]) (simp add: MIN_CHUNK_BLOCKS_def)
  next
    case False
    define m where "m = a + bigint_div (b - a) 2"
    have m: "a \<le> m" "m < b" using False by (simp_all add: m_def MIN_CHUNK_BLOCKS_def half_range)
    consider "fetchEventsInRange rpc right_first a m = Inl err" | "fetchEventsInRange rpc right_first (m + 1) b = Inl err"
      using 1(3) e False
      by (auto simp: fetchEventsInRange.simps [of rpc right_first a b] m_def Let_def split: sum.splits if_splits)
    then show ?thesis
    proof cases
      case 1
      from "1.IH"(1) [OF e False m_def this] obtain c d where "a \<le> c" "d \<le> m" "d - c \<le> 500" "rpc c d = Inl err" "c \<le> d" using m by auto
      with m show ?thesis by (intro exI [of _ c] exI [of _ d]) simp
    next
      case 2
      from "1.IH"(2) [OF e False m_def this] obtain c d where "m + 1 \<le> c" "d \<le> b" "d - c \<le> 500" "rpc c d = Inl err" "c \<le> d" using m by auto
      with m show ?thesis by (intro exI [of _ c] exI [of _ d]) simp
    qed
  qed
qed

end
