(* ===== verification/Index_Store.thy ===== *)
theory Index_Store
  imports Index_Filters Index_Fetch
begin

text \<open>
  The SQLite store of the indexer, \<open>indexer/src/db.ts\<close>: its tables, the upserts, and the transaction
  of \<open>syncProjectionStore\<close> that stores a batch of events and projects again every job, agent and
  reputation the batch touches. Columns that hold the decimal text of a number the code only compares
  or adds (\<open>CAST\<close>, \<open>BigInt\<close>) hold the number; \<open>payload_json\<close> is the event itself, and the
  constant columns and the three constants added to a payload are left out.
\<close>

section \<open>Tables\<close>

record job_event_row =
  jr_event_key :: string
  jr_job_id :: string
  jr_agent_id :: string
  jr_type :: string
  jr_block :: int
  jr_tx :: string
  jr_payload :: job_event

record agent_event_row =
  ar_event_key :: string
  ar_agent_id :: string
  ar_type :: string
  ar_block :: int
  ar_tx :: string
  ar_payload :: agent_event
  ar_source :: string

record job_row =
  jw_id :: string
  jw_agent :: string
  jw_client :: string
  jw_worker :: string
  jw_evaluator :: string
  jw_budget :: string
  jw_funded :: string
  jw_created :: string
  jw_spec :: string
  jw_deliverable :: string
  jw_proof :: string
  jw_approved :: bool
  jw_status :: nat

record agent_row =
  aw_agent :: string
  aw_token :: string
  aw_controller :: string
  aw_skill :: string
  aw_uri :: string
  aw_registered :: string
  aw_source :: string
  aw_chain :: string
  aw_registry :: string
  aw_tx :: string
  aw_block :: string
  aw_imported :: string
  aw_updated :: string

record reputation_row =
  pr_event_key :: string
  pr_agent :: string
  pr_reviewer :: string
  pr_score :: int
  pr_category :: string
  pr_comment :: string
  pr_metadata :: string
  pr_proof :: string
  pr_context :: string
  pr_ref :: string
  pr_block :: int
  pr_log :: int
  pr_tx :: string

record aggregate_row =
  gr_agent :: string
  gr_count :: nat
  gr_sum :: int
  gr_average :: int
  gr_score :: int
  gr_category :: string
  gr_comment :: string
  gr_reviewer :: string
  gr_tx :: string
  gr_block :: int
  gr_updated :: string

record index_db =
  db_job_events :: "job_event_row list"
  db_agent_events :: "agent_event_row list"
  db_reputation_events :: "reputation_row list"
  db_jobs :: "job_row list"
  db_agents :: "agent_row list"
  db_aggregates :: "aggregate_row list"
  db_meta :: "(string \<times> string) list"

definition empty_index :: index_db where
  "empty_index = \<lparr>db_job_events = [], db_agent_events = [], db_reputation_events = [], db_jobs = [],
     db_agents = [], db_aggregates = [], db_meta = []\<rparr>"

definition upsert :: "('r \<Rightarrow> 'k) \<Rightarrow> ('r \<Rightarrow> 'r \<Rightarrow> 'r) \<Rightarrow> 'r \<Rightarrow> 'r list \<Rightarrow> 'r list" where
  \<comment> \<open>\<open>INSERT ... ON CONFLICT(pk) DO UPDATE\<close>: \<open>merge excluded old\<close> is the updated row\<close>
  "upsert pk merge row t = (if sel pk (pk row) t = None then t @ [row] else upd pk (pk row) (merge row) t)"

definition serializeEventKey :: "string \<Rightarrow> int \<Rightarrow> string" where
  "serializeEventKey tx i = tx @ '':'' @ int_str i"

section \<open>Storing a batch\<close>

definition job_id_of :: "job_event \<Rightarrow> string" where
  "job_id_of e = int_str (or_else (je_job e) 0)"

definition job_key :: "job_event \<Rightarrow> string" where
  "job_key e = serializeEventKey (je_tx e) (je_log e)"

definition job_event_row_of :: "job_event \<Rightarrow> job_event_row" where
  "job_event_row_of e = \<lparr>jr_event_key = job_key e, jr_job_id = job_id_of e,
      jr_agent_id = or_else (or_opt (je_provider e) (je_client e)) ''0'', jr_type = job_event_text (je_name e),
      jr_block = je_block e, jr_tx = je_tx e, jr_payload = e\<rparr>"

definition merge_job_event :: "job_event_row \<Rightarrow> job_event_row \<Rightarrow> job_event_row" where
  "merge_job_event new old = old\<lparr>jr_payload := jr_payload new, jr_block := jr_block new, jr_tx := jr_tx new\<rparr>"

definition upsertJobEvent :: "job_event \<Rightarrow> index_db \<Rightarrow> index_db" where
  "upsertJobEvent e db =
     db\<lparr>db_job_events := upsert jr_event_key merge_job_event (job_event_row_of e) (db_job_events db)\<rparr>"

definition agent_event_row_of :: "agent_event \<Rightarrow> agent_event_row" where
  "agent_event_row_of e = \<lparr>ar_event_key = serializeEventKey (ae_tx e) (ae_log e), ar_agent_id = int_str (ae_agent e),
      ar_type = ae_name e, ar_block = ae_block e, ar_tx = ae_tx e, ar_payload = e,
      ar_source = or_else (ae_source e) ''erc8004_identity_registry''\<rparr>"

definition merge_agent_event :: "agent_event_row \<Rightarrow> agent_event_row \<Rightarrow> agent_event_row" where
  "merge_agent_event new old = old\<lparr>ar_payload := ar_payload new, ar_block := ar_block new, ar_tx := ar_tx new\<rparr>"

definition upsertAgentEvent :: "agent_event \<Rightarrow> index_db \<Rightarrow> index_db" where
  "upsertAgentEvent e db =
     db\<lparr>db_agent_events := upsert ar_event_key merge_agent_event (agent_event_row_of e) (db_agent_events db)\<rparr>"

definition feedback_row_of :: "reputation_event \<Rightarrow> reputation_row" where
  "feedback_row_of e = \<lparr>pr_event_key = serializeEventKey (re_tx e) (re_log e), pr_agent = int_str (re_agent e),
      pr_reviewer = re_reviewer e, pr_score = re_score e, pr_category = int_str (re_category e),
      pr_comment = or_else (re_comment e) [], pr_metadata = or_else (re_metadata e) [], pr_proof = or_else (re_proof e) [],
      pr_context = or_else (re_context e) [], pr_ref = or_else (re_ref e) [], pr_block = re_block e, pr_log = re_log e,
      pr_tx = re_tx e\<rparr>"

definition merge_feedback :: "reputation_row \<Rightarrow> reputation_row \<Rightarrow> reputation_row" where
  "merge_feedback new old = new\<lparr>pr_agent := pr_agent old, pr_reviewer := pr_reviewer old, pr_ref := pr_ref old\<rparr>"

definition upsertReputationEvent :: "reputation_event \<Rightarrow> index_db \<Rightarrow> index_db" where
  "upsertReputationEvent e db =
     db\<lparr>db_reputation_events := upsert pr_event_key merge_feedback (feedback_row_of e) (db_reputation_events db)\<rparr>"

definition stored_job_events :: "string \<Rightarrow> index_db \<Rightarrow> job_event list" where
  \<comment> \<open>\<open>WHERE job_id = ? ORDER BY CAST(block_number AS INTEGER), tx_hash\<close>\<close>
  "stored_job_events i db =
     map jr_payload (sort_key (\<lambda>r. (jr_block r, jr_tx r)) (filter (\<lambda>r. jr_job_id r = i) (db_job_events db)))"

definition stored_agent_events :: "string \<Rightarrow> index_db \<Rightarrow> agent_event list" where
  "stored_agent_events i db =
     map ar_payload (sort_key (\<lambda>r. (ar_block r, ar_tx r)) (filter (\<lambda>r. ar_agent_id r = i) (db_agent_events db)))"

definition normalizeJob :: "projected_job \<Rightarrow> job_row" where
  "normalizeJob j = \<lparr>jw_id = pj_id j,
     jw_agent = (if pj_provider j \<noteq> [] \<and> pj_provider j \<noteq> ADDRESS_0 then toLowerCase (pj_provider j)
                 else if pj_client j \<noteq> [] \<and> pj_client j \<noteq> ADDRESS_0 then toLowerCase (pj_client j) else ''0''),
     jw_client = pj_client j, jw_worker = pj_provider j, jw_evaluator = pj_evaluator j, jw_budget = pj_budget j,
     jw_funded = pj_funded j, jw_created = pj_created_block j, jw_spec = pj_description j,
     jw_deliverable = pj_deliverable j, jw_proof = pj_reason j, jw_approved = (pj_status j = 3), jw_status = pj_status j\<rparr>"

definition normalizeAgent :: "string \<Rightarrow> projected_agent \<Rightarrow> agent_row" where
  "normalizeAgent now a = \<lparr>aw_agent = ''erc8004_identity_registry:'' @ pa_token a, aw_token = pa_token a,
     aw_controller = pa_controller a, aw_skill = or_else (pa_skill a) BYTES32_0, aw_uri = pa_uri a,
     aw_registered = pa_block a, aw_source = ''erc8004_identity_registry'', aw_chain = int_str (pa_chain a),
     aw_registry = IDENTITY_REGISTRY, aw_tx = pa_tx a, aw_block = pa_block a, aw_imported = now, aw_updated = now\<rparr>"

definition project_stored_job :: "index_view \<Rightarrow> string \<Rightarrow> index_db \<Rightarrow> index_db" where
  "project_stored_job v i db = (case projectJobsFromEvents v (stored_job_events i db) of
     [] \<Rightarrow> db
   | j # _ \<Rightarrow> db\<lparr>db_jobs := upsert jw_id (\<lambda>new old. new) (normalizeJob j) (db_jobs db)\<rparr>)"

definition job_wallets :: "index_db \<Rightarrow> string list" where
  "job_wallets db = fold (\<lambda>r. add_wallets [jw_client r, jw_worker r, jw_evaluator r]) (db_jobs db) []"

definition project_stored_agent :: "index_view \<Rightarrow> string list \<Rightarrow> string \<Rightarrow> string \<Rightarrow> index_db \<Rightarrow> index_db" where
  "project_stored_agent v wallets now i db = (case projectAgentsFromEvents v (stored_agent_events i db) (Some wallets) of
     [] \<Rightarrow> db
   | a # _ \<Rightarrow> db\<lparr>db_agents := upsert aw_agent (\<lambda>new old. new\<lparr>aw_imported := aw_imported old\<rparr>)
       (normalizeAgent now a) (db_agents db)\<rparr>)"

definition stored_feedback :: "string \<Rightarrow> index_db \<Rightarrow> reputation_row list" where
  "stored_feedback i db =
     sort_key (\<lambda>r. (pr_block r, pr_log r, pr_tx r)) (filter (\<lambda>r. pr_agent r = i) (db_reputation_events db))"

definition recomputeReputationAggregate :: "string \<Rightarrow> string \<Rightarrow> index_db \<Rightarrow> index_db" where
  "recomputeReputationAggregate now i db = (let rows = stored_feedback i db in
     if rows = [] then db
     else let scoreSum = sum_list (map pr_score rows); newest = last rows in
       db\<lparr>db_aggregates := upsert gr_agent (\<lambda>new old. new)
         \<lparr>gr_agent = i, gr_count = length rows, gr_sum = scoreSum, gr_average = bigint_div scoreSum (int (length rows)),
          gr_score = pr_score newest, gr_category = pr_category newest, gr_comment = pr_comment newest,
          gr_reviewer = pr_reviewer newest, gr_tx = pr_tx newest, gr_block = pr_block newest, gr_updated = now\<rparr> (db_aggregates db)\<rparr>)"

definition writeMetaValue :: "string \<Rightarrow> string \<Rightarrow> index_db \<Rightarrow> index_db" where
  "writeMetaValue k v db = db\<lparr>db_meta := jsmap_set k v (db_meta db)\<rparr>"

definition readMetaValue :: "string \<Rightarrow> index_db \<Rightarrow> string option" where
  "readMetaValue k db = map_of (db_meta db) k"

definition affected :: "('e \<Rightarrow> string) \<Rightarrow> 'e list \<Rightarrow> string list" where
  "affected f events = fold (\<lambda>e. set_add (f e)) events []"

record index_batch =
  ib_jobs :: "job_event list"
  ib_agents :: "agent_event list"
  ib_feedback :: "reputation_event list"

record store_env =
  te_view :: index_view
  te_now :: string
  te_millis :: string
  te_fault :: "string option" \<comment> \<open>the error a statement of the transaction throws\<close>

definition write_batch :: "store_env \<Rightarrow> index_batch \<Rightarrow> index_db \<Rightarrow> index_db" where
  \<comment> \<open>the statements between \<open>BEGIN\<close> and \<open>COMMIT\<close>\<close>
  "write_batch env b db =
     (let db1 = fold upsertAgentEvent (ib_agents b) (fold upsertJobEvent (ib_jobs b) db);
          db2 = fold (project_stored_job (te_view env)) (affected job_id_of (ib_jobs b)) db1;
          db3 = fold (project_stored_agent (te_view env) (job_wallets db2) (te_now env)) (affected (\<lambda>e. int_str (ae_agent e)) (ib_agents b)) db2;
          db4 = fold upsertReputationEvent (ib_feedback b) db3;
          db5 = fold (recomputeReputationAggregate (te_now env)) (affected (\<lambda>e. int_str (re_agent e)) (ib_feedback b)) db4;
          db6 = writeMetaValue ''last_sync_at'' (te_millis env) db5
      in writeMetaValue ''event_count''
           (nat_str (length (db_job_events db6) + length (db_agent_events db6) + length (db_reputation_events db6))) db6)"

definition commit_batch :: "store_env \<Rightarrow> index_batch \<Rightarrow> index_db \<Rightarrow> (string + unit) \<times> index_db" where
  \<comment> \<open>the transaction: an error rolls back and is thrown on\<close>
  "commit_batch env b db = (case te_fault env of Some e \<Rightarrow> (Inl e, db) | None \<Rightarrow> (Inr (), write_batch env b db))"

end
