(* ===== verification/Index_Supabase.thy ===== *)
theory Index_Supabase
  imports Index_Store
begin

text \<open>
  What the indexer mirrors to the console's tables after a batch is stored:
  \<open>indexer/src/a2a-lifecycle-sync.ts\<close> and the second half of \<open>syncProjectionStore\<close> of \<open>db.ts\<close>. The
  answer of Supabase to the n-th request, \<open>getAddress\<close> of viem (\<open>None\<close>: it throws) and the
  printers of dates are arguments; the requests sent are part of the result.
\<close>

definition ERC8183_STATUS_OPEN :: nat where "ERC8183_STATUS_OPEN = 0"
definition ERC8183_STATUS_FUNDED :: nat where "ERC8183_STATUS_FUNDED = 1"
definition ERC8183_STATUS_SUBMITTED :: nat where "ERC8183_STATUS_SUBMITTED = 2"
definition ERC8183_STATUS_COMPLETED :: nat where "ERC8183_STATUS_COMPLETED = 3"

record mirror_env =
  me_getAddress :: "string \<Rightarrow> string option"
  me_iso :: "int \<Rightarrow> string option" \<comment> \<open>\<open>new Date(ms).toISOString()\<close>; \<open>None\<close>: it throws\<close>
  me_parse :: "string \<Rightarrow> int option" \<comment> \<open>\<open>Date.parse\<close>; \<open>None\<close>: not a number\<close>
  me_now :: string
  me_answer :: "nat \<Rightarrow> (string + string) option"
    \<comment> \<open>how the n-th request fails: \<open>fetch\<close> throws (\<open>Inl\<close>) or the answer reports an error (\<open>Inr\<close>)\<close>
  me_address_error :: string
  me_date_error :: string

section \<open>Payloads\<close>

datatype block_timestamp = TsDate int | TsNumber int | TsBigint int | TsText string | TsNone

definition iso_of :: "mirror_env \<Rightarrow> int \<Rightarrow> string + string" where
  "iso_of env ms = (case me_iso env ms of Some t \<Rightarrow> Inr t | None \<Rightarrow> Inl (me_date_error env))"

fun isoFromBlockTimestamp :: "mirror_env \<Rightarrow> block_timestamp \<Rightarrow> string + string" where
  "isoFromBlockTimestamp env (TsDate ms) = iso_of env ms"
| "isoFromBlockTimestamp env (TsNumber n) = iso_of env (if 10000000000 < n then n else n * 1000)"
| "isoFromBlockTimestamp env (TsBigint n) = iso_of env (n * 1000)"
| "isoFromBlockTimestamp env (TsText s) =
     (if trim s = [] then Inr (me_now env)
      else if all_digits s then iso_of env (int (digits_val s) * 1000)
      else (case me_parse env s of Some ms \<Rightarrow> iso_of env ms | None \<Rightarrow> Inr (me_now env)))"
| "isoFromBlockTimestamp env TsNone = Inr (me_now env)"

definition checksum :: "mirror_env \<Rightarrow> string option \<Rightarrow> string + string" where
  "checksum env a = (case Option.bind a (me_getAddress env) of Some c \<Rightarrow> Inr c | None \<Rightarrow> Inl (me_address_error env))"

definition status_field :: "nat \<Rightarrow> string \<times> json" where
  "status_field n = (''settlement_status'', JNum (nat_str n))"

definition lifecycleUpdatePayload :: "mirror_env \<Rightarrow> job_event \<Rightarrow> block_timestamp \<Rightarrow> string + (string \<times> json) list option" where
  \<comment> \<open>\<open>None\<close> is the \<open>null\<close> of an event that updates nothing; the indexer's events carry a transaction, no
     budget, and the amount of a \<open>BudgetSet\<close>\<close>
  "lifecycleUpdatePayload env e stamp = (case je_name e of
     EvCreated \<Rightarrow> bindR (checksum env (je_provider e)) (\<lambda>p. bindR (checksum env (je_evaluator e)) (\<lambda>ev.
       Inr (Some [(''is_onchain'', JBool True), (''onchain_job_id'', JStr (job_id_of e)), (''provider'', JStr p),
         (''evaluator'', JStr ev), status_field ERC8183_STATUS_OPEN])))
   | EvBudget \<Rightarrow> Inr (Some [(''budget_atomic'', JStr (int_str (or_else (je_amount e) 0))), status_field ERC8183_STATUS_OPEN])
   | EvFunded \<Rightarrow> Inr (Some [(''fund_tx'', JStr (je_tx e)), status_field ERC8183_STATUS_FUNDED])
   | EvSubmitted \<Rightarrow> bindR (isoFromBlockTimestamp env stamp) (\<lambda>t.
       Inr (Some [(''submit_tx'', JStr (je_tx e)),
         (''deliverable_hash'', case je_deliverable e of Some d \<Rightarrow> JStr d | None \<Rightarrow> JUndef),
         status_field ERC8183_STATUS_SUBMITTED, (''status'', JStr ''submitted''), (''submitted_at'', JStr t)]))
   | EvCompleted \<Rightarrow> Inr (Some [(''complete_tx'', JStr (je_tx e)), status_field ERC8183_STATUS_COMPLETED])
   | _ \<Rightarrow> Inr None)"

section \<open>Requests\<close>

datatype mirror_request = PatchJob string "(string \<times> json) list" | UpsertAgent "(string \<times> json) list"

type_synonym sent = "mirror_request list"

definition send_request :: "mirror_env \<Rightarrow> string \<Rightarrow> mirror_request \<Rightarrow> sent \<Rightarrow> (string + unit) \<times> sent" where
  "send_request env what r sent = (case me_answer env (length sent) of
     None \<Rightarrow> (Inr (), sent @ [r])
   | Some (Inl e) \<Rightarrow> (Inl e, sent @ [r])
   | Some (Inr e) \<Rightarrow> (Inl (what @ e), sent @ [r]))"

fun syncA2AJobs :: "mirror_env \<Rightarrow> job_event list \<Rightarrow> nat \<times> nat \<Rightarrow> sent \<Rightarrow> (string + (nat \<times> nat)) \<times> sent" where
  "syncA2AJobs env [] counts sent = (Inr counts, sent)"
| "syncA2AJobs env (e # es) (updated, skipped) sent =
     (case lifecycleUpdatePayload env e TsNone of
        Inl err \<Rightarrow> (Inl err, sent)
      | Inr None \<Rightarrow> syncA2AJobs env es (updated, Suc skipped) sent
      | Inr (Some payload) \<Rightarrow>
          (case send_request env ''[indexer] a2a_jobs lifecycle update failed: '' (PatchJob (job_id_of e) payload) sent of
             (Inl err, sent') \<Rightarrow> (Inl err, sent')
           | (Inr _, sent') \<Rightarrow> syncA2AJobs env es (Suc updated, skipped) sent'))"

definition agent_payload :: "string \<Rightarrow> agent_row \<Rightarrow> (string \<times> json) list" where
  "agent_payload now r = [(''token_id'', JStr (aw_token r)), (''agent_id'', JStr (aw_agent r)),
     (''owner'', JStr (aw_controller r)), (''controller'', JStr (aw_controller r)), (''metadata_uri'', JStr (aw_uri r)),
     (''metadata_json'', JNull), (''source'', JStr (aw_source r)), (''chain_id'', JStr (aw_chain r)),
     (''registry_address'', JStr (aw_registry r)), (''tx_hash'', JStr (aw_tx r)), (''block_number'', JStr (aw_block r)),
     (''minted_at'', JStr (if aw_imported r \<noteq> [] then aw_imported r else aw_updated r)), (''updated_at'', JStr now)]"

fun syncERC8004Agents :: "mirror_env \<Rightarrow> agent_row list \<Rightarrow> nat \<times> nat \<Rightarrow> sent \<Rightarrow> (string + (nat \<times> nat)) \<times> sent" where
  "syncERC8004Agents env [] counts sent = (Inr counts, sent)"
| "syncERC8004Agents env (r # rs) (upserted, skipped) sent =
     (if aw_token r = [] \<or> aw_controller r = [] then syncERC8004Agents env rs (upserted, Suc skipped) sent
      else (case send_request env ''[indexer] erc8004_agents upsert failed: '' (UpsertAgent (agent_payload (me_now env) r)) sent of
              (Inl err, sent') \<Rightarrow> (Inl err, sent')
            | (Inr _, sent') \<Rightarrow> syncERC8004Agents env rs (Suc upserted, skipped) sent'))"

definition mirrored_name :: "job_event_name \<Rightarrow> bool" where
  "mirrored_name n \<longleftrightarrow> n \<in> {EvCreated, EvBudget, EvFunded, EvSubmitted, EvCompleted}"

definition stored_agent_row :: "index_db \<Rightarrow> string \<Rightarrow> agent_row option" where
  "stored_agent_row db i = find (\<lambda>r. aw_token r = i \<or> aw_agent r = ''erc8004_identity_registry:'' @ i) (db_agents db)"

definition mirror_batch :: "mirror_env option \<Rightarrow> index_batch \<Rightarrow> index_db \<Rightarrow> string option \<times> sent" where
  \<comment> \<open>after the commit: what is sent, and the warning that is remembered instead of thrown\<close>
  "mirror_batch client b db = (case client of
     None \<Rightarrow> (None, [])
   | Some env \<Rightarrow>
       (case syncA2AJobs env (filter (\<lambda>e. mirrored_name (je_name e)) (ib_jobs b)) (0, 0) [] of
          (Inl err, sent) \<Rightarrow> (Some err, sent)
        | (Inr _, sent) \<Rightarrow>
            (case syncERC8004Agents env
                (List.map_filter (stored_agent_row db) (affected (\<lambda>e. int_str (ae_agent e)) (ib_agents b))) (0, 0) sent of
               (Inl err, sent') \<Rightarrow> (Some err, sent')
             | (Inr _, sent') \<Rightarrow> (None, sent'))))"

definition syncProjectionStore ::
  "store_env \<Rightarrow> mirror_env option \<Rightarrow> index_batch \<Rightarrow> index_db \<Rightarrow> (string + string option) \<times> index_db \<times> sent" where
  \<comment> \<open>\<open>Inl\<close>: rejected, nothing stored; \<open>Inr w\<close>: stored, with the warning of the mirror\<close>
  "syncProjectionStore env client b db = (case commit_batch env b db of
     (Inl e, db') \<Rightarrow> (Inl e, db', [])
   | (Inr _, db') \<Rightarrow> (let (warning, sent) = mirror_batch client b db' in (Inr warning, db', sent)))"

end
