(* ===== verification/Index_Sync.thy ===== *)
theory Index_Sync
  imports Index_Supabase
begin

text \<open>
  The sync cycle of \<open>indexer/src/server.ts\<close>: refresh the filters, read the three cursors, query the
  node, store the batch in one transaction, then advance the cursors one by one. A run of the indexer
  is a sequence of cycles and of crashes, each at any point between two writes to the database.
\<close>

section \<open>One cycle\<close>

record index_config =
  xc_from :: int
  xc_identity_from :: int
  xc_reputation_from :: int
  xc_range :: int
  xc_jobs :: bool
  xc_agents :: bool
  xc_feedback :: bool
  xc_wallets :: "string list"
  xc_agent_ids :: "string list"
  xc_prefixes :: "string list"
  xc_scope :: indexer_scope

record cycle_env =
  ce_supabase :: supabase_env
  ce_latest :: "string + int"
  ce_job_rpc :: "job_log rpc"
  ce_agent_rpc :: "transfer_log rpc"
  ce_feedback_rpc :: "feedback_log rpc"
  ce_right_first :: "int \<Rightarrow> int \<Rightarrow> bool"
  ce_uri :: "int \<Rightarrow> string option"
  ce_now :: string
  ce_millis :: string
  ce_fault :: "string option"
  ce_meta_fault :: "(nat \<times> string) option" \<comment> \<open>the cursor write that throws, and its error\<close>
  ce_mirror :: "mirror_env option"

record indexer =
  ix_db :: index_db
  ix_filters :: ref_filters
  ix_busy :: bool
  ix_skips :: nat
  ix_error :: "string option"

definition after_cursor :: "string option \<Rightarrow> int \<Rightarrow> int" where
  \<comment> \<open>\<open>value ? BigInt(value) + 1n : start\<close>\<close>
  "after_cursor v start = (if truthy v then BigInt_of (the v) + 1 else start)"

definition job_from :: "index_config \<Rightarrow> index_db \<Rightarrow> int" where
  "job_from cfg db = after_cursor (readMetaValue ''last_synced_block'' db) (xc_from cfg)"

definition agent_from :: "index_config \<Rightarrow> index_db \<Rightarrow> int" where
  \<comment> \<open>without an agent cursor the job cursor seeds it\<close>
  "agent_from cfg db = after_cursor
     (if truthy (readMetaValue ''last_synced_agent_block'' db) then readMetaValue ''last_synced_agent_block'' db
      else readMetaValue ''last_synced_block'' db) (xc_identity_from cfg)"

definition feedback_from :: "index_config \<Rightarrow> index_db \<Rightarrow> int" where
  "feedback_from cfg db = after_cursor (readMetaValue ''last_synced_reputation_block'' db) (xc_reputation_from cfg)"

definition range_end :: "index_config \<Rightarrow> int \<Rightarrow> int \<Rightarrow> int" where
  "range_end cfg tip start = calculateToBlock start tip (xc_range cfg)"

definition fetch_batch :: "index_config \<Rightarrow> cycle_env \<Rightarrow> index_db \<Rightarrow> int \<Rightarrow> string + index_batch" where
  "fetch_batch cfg env db tip =
     bindR (if xc_jobs cfg then fetchJobEvents (ce_job_rpc env) (ce_right_first env) (job_from cfg db) (range_end cfg tip (job_from cfg db))
            else Inr []) (\<lambda>jobs.
     bindR (if xc_agents cfg then fetchAgentEvents (ce_agent_rpc env) (ce_right_first env) (ce_uri env) (agent_from cfg db)
              (range_end cfg tip (agent_from cfg db))
            else Inr []) (\<lambda>agents.
     bindR (if xc_feedback cfg then fetchReputationEvents (ce_feedback_rpc env) (ce_right_first env) (feedback_from cfg db)
              (range_end cfg tip (feedback_from cfg db))
            else Inr []) (\<lambda>feedback.
     Inr \<lparr>ib_jobs = jobs, ib_agents = agents, ib_feedback = feedback\<rparr>)))"

definition cursor_writes :: "index_config \<Rightarrow> index_db \<Rightarrow> int \<Rightarrow> (string \<times> string) list" where
  \<comment> \<open>the cursors a cycle that read the database \<open>db\<close> advances, in order\<close>
  "cursor_writes cfg db tip =
     (let advance = (\<lambda>flag start name. if flag \<and> start \<le> range_end cfg tip start then [(name, int_str (range_end cfg tip start))] else []) in
      advance (xc_jobs cfg) (job_from cfg db) ''last_synced_block''
      @ advance (xc_agents cfg) (agent_from cfg db) ''last_synced_agent_block''
      @ advance (xc_feedback cfg) (feedback_from cfg db) ''last_synced_reputation_block'')"

definition put_cursors :: "(string \<times> string) list \<Rightarrow> index_db \<Rightarrow> index_db" where
  "put_cursors ws db = fold (\<lambda>(k, v). writeMetaValue k v) ws db"

definition cycle_view :: "index_config \<Rightarrow> cycle_env \<Rightarrow> index_view" where
  "cycle_view cfg env = \<lparr>iv_filters = refreshReferenceFilters (xc_wallets cfg) (xc_agent_ids cfg) (ce_supabase env),
     iv_scope = xc_scope cfg, iv_prefixes = xc_prefixes cfg\<rparr>"

definition cycle_store_env :: "index_config \<Rightarrow> cycle_env \<Rightarrow> store_env" where
  "cycle_store_env cfg env = \<lparr>te_view = cycle_view cfg env, te_now = ce_now env, te_millis = ce_millis env, te_fault = ce_fault env\<rparr>"

definition cycle_body :: "index_config \<Rightarrow> cycle_env \<Rightarrow> index_db \<Rightarrow> string + (string option \<times> index_db \<times> sent \<times> (string \<times> string) list)" where
  \<comment> \<open>up to the commit and the mirror: the warning, the database, what was sent and the cursor writes left to do\<close>
  "cycle_body cfg env db =
     bindR (ce_latest env) (\<lambda>tip. bindR (fetch_batch cfg env db tip) (\<lambda>b.
       case syncProjectionStore (cycle_store_env cfg env) (ce_mirror env) b db of
         (Inl e, _, _) \<Rightarrow> Inl e
       | (Inr warning, db', sent) \<Rightarrow> Inr (warning, db', sent, cursor_writes cfg db tip)))"

definition runSyncCycle :: "index_config \<Rightarrow> cycle_env \<Rightarrow> indexer \<Rightarrow> indexer" where
  "runSyncCycle cfg env ix =
     (if ix_busy ix then ix\<lparr>ix_skips := Suc (ix_skips ix)\<rparr>
      else let ix1 = ix\<lparr>ix_filters := iv_filters (cycle_view cfg env)\<rparr> in
        (case cycle_body cfg env (ix_db ix) of
           Inl e \<Rightarrow> ix1\<lparr>ix_error := Some e\<rparr>
         | Inr (warning, db', sent, ws) \<Rightarrow>
             (case ce_meta_fault env of
                Some (n, e) \<Rightarrow> if n < length ws then ix1\<lparr>ix_db := put_cursors (take n ws) db', ix_error := Some e\<rparr>
                               else ix1\<lparr>ix_db := put_cursors ws db', ix_error := warning\<rparr>
              | None \<Rightarrow> ix1\<lparr>ix_db := put_cursors ws db', ix_error := warning\<rparr>)))"

section \<open>Cycles and crashes\<close>

definition start_indexer :: "index_config \<Rightarrow> index_db \<Rightarrow> indexer" where
  "start_indexer cfg db = \<lparr>ix_db = db, ix_filters = initial_filters (xc_wallets cfg) (xc_agent_ids cfg), ix_busy = False,
     ix_skips = 0, ix_error = None\<rparr>"

definition crash_db :: "index_config \<Rightarrow> cycle_env \<Rightarrow> nat \<Rightarrow> index_db \<Rightarrow> index_db" where
  \<comment> \<open>what a process killed after the n-th cursor write leaves; killed before the commit it leaves \<open>db\<close>\<close>
  "crash_db cfg env n db = (case cycle_body cfg env db of
     Inl _ \<Rightarrow> db | Inr (_, db', _, ws) \<Rightarrow> put_cursors (take n ws) db')"

inductive index_step :: "index_config \<Rightarrow> (cycle_env \<Rightarrow> bool) \<Rightarrow> indexer \<Rightarrow> indexer \<Rightarrow> bool"
  for cfg node where
  Cycle: "node env \<Longrightarrow> index_step cfg node ix (runSyncCycle cfg env ix)"
| Restart: "index_step cfg node ix (start_indexer cfg (ix_db ix))"
| Crash: "node env \<Longrightarrow> \<not> ix_busy ix \<Longrightarrow> index_step cfg node ix (start_indexer cfg (crash_db cfg env n (ix_db ix)))"

inductive_cases index_stepE: "index_step cfg node ix ix'"

section \<open>What a step leaves in the database\<close>

lemma put_cursors_fields [simp]:
  "db_job_events (put_cursors ws db) = db_job_events db" "db_agent_events (put_cursors ws db) = db_agent_events db"
  "db_reputation_events (put_cursors ws db) = db_reputation_events db" "db_jobs (put_cursors ws db) = db_jobs db"
  "db_agents (put_cursors ws db) = db_agents db" "db_aggregates (put_cursors ws db) = db_aggregates db"
  by (induction ws arbitrary: db) (auto simp: put_cursors_def writeMetaValue_def)

lemma cycle_body_Inr:
  assumes "cycle_body cfg env db = Inr (warning, db', sent, ws)"
  obtains tip b where "ce_latest env = Inr tip" "fetch_batch cfg env db tip = Inr b"
    "db' = write_batch (cycle_store_env cfg env) b db" "ws = cursor_writes cfg db tip"
  using assms
  by (auto simp: cycle_body_def syncProjectionStore_def commit_batch_def Let_def cycle_store_env_def split: option.splits prod.splits)

lemma index_step_db:
  assumes "index_step cfg node ix ix'"
  shows "ix_db ix' = ix_db ix \<or> (\<exists>env tip b n. node env \<and> ce_latest env = Inr tip \<and> fetch_batch cfg env (ix_db ix) tip = Inr b
     \<and> ix_db ix' = put_cursors (take n (cursor_writes cfg (ix_db ix) tip)) (write_batch (cycle_store_env cfg env) b (ix_db ix)))"
    (is "_ \<or> ?written")
  using assms
proof cases
  case (Cycle env)
  show ?thesis
  proof (cases "ix_busy ix")
    case True
    then show ?thesis using Cycle by (simp add: runSyncCycle_def)
  next
    case idle: False
    show ?thesis
    proof (cases "cycle_body cfg env (ix_db ix)")
      case (Inl e)
      then show ?thesis using Cycle idle by (simp add: runSyncCycle_def)
    next
      case (Inr x)
      then obtain w db' sent ws where body: "cycle_body cfg env (ix_db ix) = Inr (w, db', sent, ws)" by (cases x) auto
      then obtain tip b where tip: "ce_latest env = Inr tip" "fetch_batch cfg env (ix_db ix) tip = Inr b"
          "db' = write_batch (cycle_store_env cfg env) b (ix_db ix)" "ws = cursor_writes cfg (ix_db ix) tip"
        by (rule cycle_body_Inr)
      have "\<exists>n. ix_db ix' = put_cursors (take n ws) db'"
      proof (cases "\<exists>n e. ce_meta_fault env = Some (n, e) \<and> n < length ws")
        case True
        then show ?thesis using Cycle idle body by (auto simp: runSyncCycle_def Let_def)
      next
        case False
        then have "ix_db ix' = put_cursors ws db'" using Cycle idle body by (auto simp: runSyncCycle_def Let_def split: option.splits)
        then show ?thesis by (intro exI [of _ "length ws"]) simp
      qed
      then show ?thesis using Cycle tip by blast
    qed
  qed
next
  case (Crash env n)
  show ?thesis
  proof (cases "cycle_body cfg env (ix_db ix)")
    case (Inl e)
    then show ?thesis using Crash by (simp add: crash_db_def start_indexer_def)
  next
    case (Inr x)
    then obtain w db' sent ws where body: "cycle_body cfg env (ix_db ix) = Inr (w, db', sent, ws)" by (cases x) auto
    then obtain tip b where "ce_latest env = Inr tip" "fetch_batch cfg env (ix_db ix) tip = Inr b"
        "db' = write_batch (cycle_store_env cfg env) b (ix_db ix)" "ws = cursor_writes cfg (ix_db ix) tip"
      by (rule cycle_body_Inr)
    moreover have "ix_db ix' = put_cursors (take n ws) db'" using Crash body by (simp add: crash_db_def start_indexer_def)
    ultimately show ?thesis using Crash by blast
  qed
qed (simp add: start_indexer_def)

end
