(* ===== verification/Index_Invariant.thy ===== *)
theory Index_Invariant
  imports Index_Sync
begin

text \<open>
  The stored events are the events of the chain: a locale for the tables of events, whose upsert of a
  row that is there changes nothing, its interpretations, and the invariant of a run with crashes. A
  node is faithful to a chain when it answers each query with the logs of its blocks.
\<close>

section \<open>Tables of events\<close>

lemma set_set_add [simp]: "set (set_add x xs) = insert x (set xs)"
  by (auto simp: set_add_def)

lemma set_fold_set_add [simp]: "set (fold set_add xs ys) = set xs \<union> set ys"
  by (induction xs arbitrary: ys) auto

lemma set_affected [simp]: "set (affected f events) = f ` set events"
proof -
  have "set (fold (\<lambda>e. set_add (f e)) events acc) = f ` set events \<union> set acc" for acc
    by (induction events arbitrary: acc) auto
  then show ?thesis by (simp add: affected_def)
qed

locale event_table =
  fixes pk :: "'r \<Rightarrow> 'k" and row_of :: "'e \<Rightarrow> 'r" and merge :: "'r \<Rightarrow> 'r \<Rightarrow> 'r"
  assumes merge_same: "merge (row_of e) (row_of e) = row_of e"
begin

lemma upsert_row:
  assumes "inj_on (\<lambda>e. pk (row_of e)) E" "set t \<subseteq> row_of ` E" "e \<in> E"
  shows "upsert pk merge (row_of e) t = set_add (row_of e) t"
proof -
  have same: "r = row_of e" if "r \<in> set t" "pk r = pk (row_of e)" for r
  proof -
    from that(1) assms(2) obtain e' where e': "e' \<in> E" "r = row_of e'" by blast
    with that(2) have "e' = e" using inj_onD [OF assms(1), of e' e] assms(3) by simp
    with e' show ?thesis by simp
  qed
  show ?thesis
  proof (cases "sel pk (pk (row_of e)) t")
    case None
    then have "row_of e \<notin> set t" by (auto simp: sel_None_iff)
    with None show ?thesis by (simp add: upsert_def set_add_def)
  next
    case (Some r)
    then have "row_of e \<in> set t" using same [of r] sel_SomeD [OF Some] by simp
    moreover have "upd pk (pk (row_of e)) (merge (row_of e)) t = t"
      unfolding upd_def by (rule map_idI) (auto dest: same simp: merge_same)
    ultimately show ?thesis using Some by (simp add: upsert_def set_add_def)
  qed
qed

lemma fold_upsert:
  assumes "inj_on (\<lambda>e. pk (row_of e)) E" "set t \<subseteq> row_of ` E" "set es \<subseteq> E"
  shows "fold (\<lambda>e. upsert pk merge (row_of e)) es t = fold set_add (map row_of es) t"
  using assms(2,3)
proof (induction es arbitrary: t)
  case (Cons e es)
  then have up: "upsert pk merge (row_of e) t = set_add (row_of e) t" using upsert_row [OF assms(1)] by simp
  have "set (set_add (row_of e) t) \<subseteq> row_of ` E" using Cons.prems by auto
  with Cons up show ?case by simp
qed simp

end

interpretation ej: event_table jr_event_key job_event_row_of merge_job_event
  by unfold_locales (simp add: merge_job_event_def job_event_row_of_def)

interpretation ea: event_table ar_event_key agent_event_row_of merge_agent_event
  by unfold_locales (simp add: merge_agent_event_def agent_event_row_of_def)

interpretation ef: event_table pr_event_key feedback_row_of merge_feedback
  by unfold_locales (simp add: merge_feedback_def feedback_row_of_def)

section \<open>What a batch writes\<close>

lemma fold_upsertJobEvent:
  "fold upsertJobEvent es db = db\<lparr>db_job_events := fold (\<lambda>e. upsert jr_event_key merge_job_event (job_event_row_of e)) es (db_job_events db)\<rparr>"
  by (induction es arbitrary: db) (simp_all add: upsertJobEvent_def)

lemma fold_upsertAgentEvent:
  "fold upsertAgentEvent es db = db\<lparr>db_agent_events := fold (\<lambda>e. upsert ar_event_key merge_agent_event (agent_event_row_of e)) es (db_agent_events db)\<rparr>"
  by (induction es arbitrary: db) (simp_all add: upsertAgentEvent_def)

lemma fold_upsertReputationEvent:
  "fold upsertReputationEvent es db = db\<lparr>db_reputation_events := fold (\<lambda>e. upsert pr_event_key merge_feedback (feedback_row_of e)) es (db_reputation_events db)\<rparr>"
  by (induction es arbitrary: db) (simp_all add: upsertReputationEvent_def)

lemma fold_keeps: "(\<And>i d. f (g i d) = f d) \<Longrightarrow> f (fold g is d) = f d"
  by (induction "is" arbitrary: d) simp_all

lemma project_stored_job_keeps:
  "db_job_events (project_stored_job v i d) = db_job_events d" "db_agent_events (project_stored_job v i d) = db_agent_events d"
  "db_reputation_events (project_stored_job v i d) = db_reputation_events d" "db_meta (project_stored_job v i d) = db_meta d"
  by (simp_all add: project_stored_job_def split: list.splits)

lemma project_stored_agent_keeps:
  "db_job_events (project_stored_agent v ws now i d) = db_job_events d" "db_agent_events (project_stored_agent v ws now i d) = db_agent_events d"
  "db_reputation_events (project_stored_agent v ws now i d) = db_reputation_events d" "db_meta (project_stored_agent v ws now i d) = db_meta d"
  "db_jobs (project_stored_agent v ws now i d) = db_jobs d"
  by (simp_all add: project_stored_agent_def split: list.splits)

lemma recompute_keeps:
  "db_job_events (recomputeReputationAggregate now i d) = db_job_events d"
  "db_agent_events (recomputeReputationAggregate now i d) = db_agent_events d"
  "db_reputation_events (recomputeReputationAggregate now i d) = db_reputation_events d"
  "db_meta (recomputeReputationAggregate now i d) = db_meta d" "db_jobs (recomputeReputationAggregate now i d) = db_jobs d"
  by (simp_all add: recomputeReputationAggregate_def Let_def)

lemmas index_frames = project_stored_job_keeps project_stored_agent_keeps recompute_keeps
lemmas index_folds =
  fold_keeps [where g = "project_stored_job v" for v, of db_job_events, OF project_stored_job_keeps(1)]
  fold_keeps [where g = "project_stored_job v" for v, of db_agent_events, OF project_stored_job_keeps(2)]
  fold_keeps [where g = "project_stored_job v" for v, of db_reputation_events, OF project_stored_job_keeps(3)]
  fold_keeps [where g = "project_stored_job v" for v, of db_meta, OF project_stored_job_keeps(4)]
  fold_keeps [where g = "project_stored_agent v ws now" for v ws now, of db_job_events, OF project_stored_agent_keeps(1)]
  fold_keeps [where g = "project_stored_agent v ws now" for v ws now, of db_agent_events, OF project_stored_agent_keeps(2)]
  fold_keeps [where g = "project_stored_agent v ws now" for v ws now, of db_reputation_events, OF project_stored_agent_keeps(3)]
  fold_keeps [where g = "project_stored_agent v ws now" for v ws now, of db_meta, OF project_stored_agent_keeps(4)]
  fold_keeps [where g = "project_stored_agent v ws now" for v ws now, of db_jobs, OF project_stored_agent_keeps(5)]
  fold_keeps [where g = "recomputeReputationAggregate now" for now, of db_job_events, OF recompute_keeps(1)]
  fold_keeps [where g = "recomputeReputationAggregate now" for now, of db_agent_events, OF recompute_keeps(2)]
  fold_keeps [where g = "recomputeReputationAggregate now" for now, of db_reputation_events, OF recompute_keeps(3)]
  fold_keeps [where g = "recomputeReputationAggregate now" for now, of db_meta, OF recompute_keeps(4)]
  fold_keeps [where g = "recomputeReputationAggregate now" for now, of db_jobs, OF recompute_keeps(5)]

lemma write_batch_job_events: "db_job_events (write_batch env b db) =
    fold (\<lambda>e. upsert jr_event_key merge_job_event (job_event_row_of e)) (ib_jobs b) (db_job_events db)"
  by (simp add: write_batch_def Let_def writeMetaValue_def index_folds fold_upsertJobEvent fold_upsertAgentEvent fold_upsertReputationEvent)

lemma write_batch_feedback: "db_reputation_events (write_batch env b db) =
    fold (\<lambda>e. upsert pr_event_key merge_feedback (feedback_row_of e)) (ib_feedback b) (db_reputation_events db)"
  by (simp add: write_batch_def Let_def writeMetaValue_def index_folds fold_upsertJobEvent fold_upsertAgentEvent fold_upsertReputationEvent)

lemma write_batch_jobs: "db_jobs (write_batch env b db) =
    db_jobs (fold (project_stored_job (te_view env)) (affected job_id_of (ib_jobs b)) (fold upsertAgentEvent (ib_agents b) (fold upsertJobEvent (ib_jobs b) db)))"
  by (simp add: write_batch_def Let_def writeMetaValue_def index_folds fold_upsertReputationEvent)

lemma write_batch_meta:
  "k \<noteq> ''last_sync_at'' \<Longrightarrow> k \<noteq> ''event_count'' \<Longrightarrow> readMetaValue k (write_batch env b db) = readMetaValue k db"
  by (simp add: write_batch_def Let_def writeMetaValue_def readMetaValue_def index_folds fold_upsertJobEvent fold_upsertAgentEvent fold_upsertReputationEvent)

section \<open>Chains and faithful nodes\<close>

record index_chain =
  ch_jobs :: "job_log list"
  ch_transfers :: "transfer_log list"
  ch_feedback :: "feedback_log list"

definition chain_jobs :: "index_chain \<Rightarrow> job_event list" where
  "chain_jobs ch = map job_of_log (filter is_job_log (ch_jobs ch))"

definition chain_feedback :: "index_chain \<Rightarrow> reputation_event list" where
  "chain_feedback ch = map feedback_of_log (filter (\<lambda>l. fl_name l = ''NewFeedback'') (ch_feedback ch))"

definition faithful_node :: "index_chain \<Rightarrow> cycle_env \<Rightarrow> bool" where
  "faithful_node ch env \<longleftrightarrow> (\<forall>tip. ce_latest env = Inr tip \<longrightarrow>
     serves (je_block \<circ> jl_event) (ch_jobs ch) tip (ce_job_rpc env)
     \<and> serves tl_block (ch_transfers ch) tip (ce_agent_rpc env) \<and> serves fl_block (ch_feedback ch) tip (ce_feedback_rpc env))"

definition sound_chain :: "index_chain \<Rightarrow> bool" where
  \<comment> \<open>a transaction and a log index name one log\<close>
  "sound_chain ch \<longleftrightarrow> inj_on (\<lambda>e. jr_event_key (job_event_row_of e)) (set (chain_jobs ch))
     \<and> inj_on (\<lambda>e. pr_event_key (feedback_row_of e)) (set (chain_feedback ch))"

lemma je_block_of_log [simp]: "je_block (job_of_log l) = je_block (jl_event l)"
  by (simp add: job_of_log_def)

lemma re_block_of_log [simp]: "re_block (feedback_of_log l) = fl_block l"
  by (simp add: feedback_of_log_def)

lemma fetched_jobs:
  assumes "serves (je_block \<circ> jl_event) (ch_jobs ch) tip rpc" "b \<le> tip" "fetchJobEvents rpc rf a b = Inr es"
  shows "set es = {e \<in> set (chain_jobs ch). a \<le> je_block e \<and> je_block e \<le> b}"
proof (cases "b < a")
  case True
  then show ?thesis using assms(3) by (auto simp: fetchJobEvents_def)
next
  case False
  then obtain ls where ls: "fetchEventsInRange rpc rf a b = Inr ls" "es = chain_order (map job_of_log (filter is_job_log ls))"
    using assms(3) by (auto simp: fetchJobEvents_def)
  have "set ls = set (filter (\<lambda>l. a \<le> (je_block \<circ> jl_event) l \<and> (je_block \<circ> jl_event) l \<le> b) (ch_jobs ch))"
    by (rule mset_eq_setD) (rule fetchEventsInRange_mset [OF assms(1,2) ls(1)])
  then show ?thesis by (auto simp: ls(2) chain_jobs_def)
qed

lemma fetched_feedback:
  assumes "serves fl_block (ch_feedback ch) tip rpc" "b \<le> tip" "fetchReputationEvents rpc rf a b = Inr es"
  shows "set es = {e \<in> set (chain_feedback ch). a \<le> re_block e \<and> re_block e \<le> b}"
proof (cases "b < a")
  case True
  then show ?thesis using assms(3) by (auto simp: fetchReputationEvents_def)
next
  case False
  then obtain ls where ls: "fetchEventsInRange rpc rf a b = Inr ls"
      "set es = feedback_of_log ` {l \<in> set ls. fl_name l = ''NewFeedback''}"
    using assms(3) by (auto simp: fetchReputationEvents_def)
  have "set ls = set (filter (\<lambda>l. a \<le> fl_block l \<and> fl_block l \<le> b) (ch_feedback ch))"
    by (rule mset_eq_setD) (rule fetchEventsInRange_mset [OF assms(1,2) ls(1)])
  then show ?thesis by (auto simp: ls(2) chain_feedback_def)
qed

lemma range_end_tip: "range_end cfg tip a \<le> tip"
  by (simp add: range_end_def calculateToBlock_def Let_def)

section \<open>Cursors\<close>

definition cursor_names :: "string set" where
  "cursor_names = {''last_synced_block'', ''last_synced_agent_block'', ''last_synced_reputation_block''}"

definition cursors_ok :: "index_db \<Rightarrow> bool" where
  "cursors_ok db \<longleftrightarrow> (\<forall>k\<in>cursor_names. \<forall>v. readMetaValue k db = Some v \<longrightarrow> (\<exists>b\<ge>0. v = int_str b))"

definition sane_config :: "index_config \<Rightarrow> bool" where
  "sane_config cfg \<longleftrightarrow> 0 \<le> xc_from cfg \<and> 0 \<le> xc_identity_from cfg \<and> 0 \<le> xc_reputation_from cfg"

lemma readMeta_write [simp]: "readMetaValue k (writeMetaValue k' v db) = (if k = k' then Some v else readMetaValue k db)"
  by (simp add: readMetaValue_def writeMetaValue_def)

lemma readMeta_put_cursors:
  "readMetaValue k (put_cursors ws db) = readMetaValue k db \<or> (\<exists>v. (k, v) \<in> set ws \<and> readMetaValue k (put_cursors ws db) = Some v)"
proof (induction ws arbitrary: db)
  case (Cons w ws)
  obtain k' v' where w: "w = (k', v')" by (cases w)
  from Cons [of "writeMetaValue k' v' db"] show ?case
    by (cases "k = k'") (auto simp: put_cursors_def w)
qed (simp add: put_cursors_def)

lemma after_cursor_int: "0 \<le> b \<Longrightarrow> after_cursor (Some (int_str b)) start = b + 1"
  by (simp add: after_cursor_def BigInt_of_def BigInt_int_str)

lemma after_cursor_nonneg:
  assumes "\<And>v. c = Some v \<Longrightarrow> \<exists>b\<ge>0. v = int_str b" "0 \<le> start"
  shows "0 \<le> after_cursor c start"
proof (cases c)
  case (Some v)
  with assms(1) obtain b where "0 \<le> b" "v = int_str b" by blast
  with Some show ?thesis by (simp add: after_cursor_int)
qed (use assms(2) in \<open>simp add: after_cursor_def\<close>)

lemma starts_nonneg:
  assumes "cursors_ok db" "sane_config cfg"
  shows "0 \<le> job_from cfg db" "0 \<le> agent_from cfg db" "0 \<le> feedback_from cfg db"
proof -
  have c: "\<exists>b\<ge>0. v = int_str b" if "readMetaValue k db = Some v" "k \<in> cursor_names" for k v
    using assms(1) that by (auto simp: cursors_ok_def)
  show "0 \<le> job_from cfg db" "0 \<le> feedback_from cfg db" using assms(2) c
    by (auto simp: job_from_def feedback_from_def sane_config_def cursor_names_def intro!: after_cursor_nonneg)
  show "0 \<le> agent_from cfg db" using assms(2) c
    by (auto simp: agent_from_def sane_config_def cursor_names_def intro!: after_cursor_nonneg)
qed

lemma cursor_writesD:
  assumes "(k, v) \<in> set (cursor_writes cfg db tip)"
  shows "k = ''last_synced_block'' \<and> xc_jobs cfg \<and> job_from cfg db \<le> range_end cfg tip (job_from cfg db) \<and> v = int_str (range_end cfg tip (job_from cfg db))
    \<or> k = ''last_synced_agent_block'' \<and> xc_agents cfg \<and> agent_from cfg db \<le> range_end cfg tip (agent_from cfg db) \<and> v = int_str (range_end cfg tip (agent_from cfg db))
    \<or> k = ''last_synced_reputation_block'' \<and> xc_feedback cfg \<and> feedback_from cfg db \<le> range_end cfg tip (feedback_from cfg db) \<and> v = int_str (range_end cfg tip (feedback_from cfg db))"
  using assms by (auto simp: cursor_writes_def Let_def split: if_splits)

lemma cursors_ok_step:
  assumes "cursors_ok db" "sane_config cfg" "\<And>k. k \<in> cursor_names \<Longrightarrow> readMetaValue k db' = readMetaValue k db"
    and "set ws \<subseteq> set (cursor_writes cfg db tip)"
  shows "cursors_ok (put_cursors ws db')"
  unfolding cursors_ok_def
proof (intro ballI allI impI)
  fix k v assume k: "k \<in> cursor_names" "readMetaValue k (put_cursors ws db') = Some v"
  consider "readMetaValue k db = Some v" | "(k, v) \<in> set (cursor_writes cfg db tip)"
    using readMeta_put_cursors [of k ws db'] k assms(3,4) by auto
  then show "\<exists>b\<ge>0. v = int_str b"
  proof cases
    case 1
    then show ?thesis using assms(1) k(1) by (auto simp: cursors_ok_def)
  next
    case 2
    from cursor_writesD [OF this] starts_nonneg [OF assms(1,2)] show ?thesis by (auto intro: order_trans)
  qed
qed

section \<open>The invariant of a run\<close>

definition jobs_stored :: "index_config \<Rightarrow> index_chain \<Rightarrow> index_db \<Rightarrow> bool" where
  "jobs_stored cfg ch db \<longleftrightarrow> set (db_job_events db) \<subseteq> job_event_row_of ` set (chain_jobs ch)
     \<and> (\<forall>e\<in>set (chain_jobs ch). xc_from cfg \<le> je_block e \<longrightarrow> je_block e < job_from cfg db \<longrightarrow>
          job_event_row_of e \<in> set (db_job_events db))"

definition feedback_stored :: "index_config \<Rightarrow> index_chain \<Rightarrow> index_db \<Rightarrow> bool" where
  "feedback_stored cfg ch db \<longleftrightarrow> set (db_reputation_events db) \<subseteq> feedback_row_of ` set (chain_feedback ch)
     \<and> (\<forall>e\<in>set (chain_feedback ch). xc_reputation_from cfg \<le> re_block e \<longrightarrow> re_block e < feedback_from cfg db \<longrightarrow>
          feedback_row_of e \<in> set (db_reputation_events db))"

definition index_inv :: "index_config \<Rightarrow> index_chain \<Rightarrow> indexer \<Rightarrow> bool" where
  "index_inv cfg ch ix \<longleftrightarrow> jobs_stored cfg ch (ix_db ix) \<and> feedback_stored cfg ch (ix_db ix) \<and> cursors_ok (ix_db ix)"

lemma fetch_batchE:
  assumes "fetch_batch cfg env db tip = Inr b"
  shows "if xc_jobs cfg then fetchJobEvents (ce_job_rpc env) (ce_right_first env) (job_from cfg db) (range_end cfg tip (job_from cfg db)) = Inr (ib_jobs b)
     else ib_jobs b = []"
    and "if xc_feedback cfg then fetchReputationEvents (ce_feedback_rpc env) (ce_right_first env) (feedback_from cfg db)
       (range_end cfg tip (feedback_from cfg db)) = Inr (ib_feedback b) else ib_feedback b = []"
  using assms by (auto simp: fetch_batch_def split: if_splits)

lemma next_cursor:
  assumes "cursors_ok db" "sane_config cfg" "set ws \<subseteq> set (cursor_writes cfg db tip)"
    and "\<And>k. k \<in> cursor_names \<Longrightarrow> readMetaValue k db' = readMetaValue k db"
  shows "job_from cfg (put_cursors ws db') = job_from cfg db \<or>
      xc_jobs cfg \<and> job_from cfg (put_cursors ws db') = range_end cfg tip (job_from cfg db) + 1"
    and "feedback_from cfg (put_cursors ws db') = feedback_from cfg db \<or>
      xc_feedback cfg \<and> feedback_from cfg (put_cursors ws db') = range_end cfg tip (feedback_from cfg db) + 1"
proof -
  note starts = starts_nonneg [OF assms(1,2)]
  have names: "''last_synced_block'' \<in> cursor_names" "''last_synced_reputation_block'' \<in> cursor_names" by (simp_all add: cursor_names_def)
  have "readMetaValue ''last_synced_block'' (put_cursors ws db') = readMetaValue ''last_synced_block'' db \<or>
      xc_jobs cfg \<and> 0 \<le> range_end cfg tip (job_from cfg db)
      \<and> readMetaValue ''last_synced_block'' (put_cursors ws db') = Some (int_str (range_end cfg tip (job_from cfg db)))"
    using readMeta_put_cursors [of "''last_synced_block''" ws db'] assms(3,4) names starts by (auto dest!: cursor_writesD)
  then show "job_from cfg (put_cursors ws db') = job_from cfg db \<or>
      xc_jobs cfg \<and> job_from cfg (put_cursors ws db') = range_end cfg tip (job_from cfg db) + 1"
    by (auto simp: job_from_def after_cursor_int)
  have "readMetaValue ''last_synced_reputation_block'' (put_cursors ws db') = readMetaValue ''last_synced_reputation_block'' db \<or>
      xc_feedback cfg \<and> 0 \<le> range_end cfg tip (feedback_from cfg db)
      \<and> readMetaValue ''last_synced_reputation_block'' (put_cursors ws db') = Some (int_str (range_end cfg tip (feedback_from cfg db)))"
    using readMeta_put_cursors [of "''last_synced_reputation_block''" ws db'] assms(3,4) names starts by (auto dest!: cursor_writesD)
  then show "feedback_from cfg (put_cursors ws db') = feedback_from cfg db \<or>
      xc_feedback cfg \<and> feedback_from cfg (put_cursors ws db') = range_end cfg tip (feedback_from cfg db) + 1"
    by (auto simp: feedback_from_def after_cursor_int)
qed

lemma batch_tables:
  assumes "sound_chain ch" "faithful_node ch env" "ce_latest env = Inr tip" "fetch_batch cfg env db tip = Inr b"
    and "set (db_job_events db) \<subseteq> job_event_row_of ` set (chain_jobs ch)"
    and "set (db_reputation_events db) \<subseteq> feedback_row_of ` set (chain_feedback ch)"
  shows "set (db_job_events (write_batch se b db)) = job_event_row_of ` set (ib_jobs b) \<union> set (db_job_events db)"
    and "set (ib_jobs b) \<subseteq> set (chain_jobs ch)"
    and "xc_jobs cfg \<Longrightarrow> e \<in> set (chain_jobs ch) \<Longrightarrow> job_from cfg db \<le> je_block e \<Longrightarrow>
      je_block e \<le> range_end cfg tip (job_from cfg db) \<Longrightarrow> e \<in> set (ib_jobs b)"
    and "set (db_reputation_events (write_batch se b db)) = feedback_row_of ` set (ib_feedback b) \<union> set (db_reputation_events db)"
    and "set (ib_feedback b) \<subseteq> set (chain_feedback ch)"
    and "xc_feedback cfg \<Longrightarrow> f \<in> set (chain_feedback ch) \<Longrightarrow> feedback_from cfg db \<le> re_block f \<Longrightarrow>
      re_block f \<le> range_end cfg tip (feedback_from cfg db) \<Longrightarrow> f \<in> set (ib_feedback b)"
proof -
  have serves: "serves (je_block \<circ> jl_event) (ch_jobs ch) tip (ce_job_rpc env)" "serves fl_block (ch_feedback ch) tip (ce_feedback_rpc env)"
    using assms(2,3) by (auto simp: faithful_node_def)
  have jobs: "set (ib_jobs b) = (if xc_jobs cfg then {e \<in> set (chain_jobs ch). job_from cfg db \<le> je_block e \<and> je_block e \<le> range_end cfg tip (job_from cfg db)} else {})"
    using fetch_batchE(1) [OF assms(4)] fetched_jobs [OF serves(1) range_end_tip] by (auto split: if_splits)
  have feedback: "set (ib_feedback b) = (if xc_feedback cfg then {e \<in> set (chain_feedback ch). feedback_from cfg db \<le> re_block e \<and> re_block e \<le> range_end cfg tip (feedback_from cfg db)} else {})"
    using fetch_batchE(2) [OF assms(4)] fetched_feedback [OF serves(2) range_end_tip] by (auto split: if_splits)
  show sub: "set (ib_jobs b) \<subseteq> set (chain_jobs ch)" using jobs by auto
  show fsub: "set (ib_feedback b) \<subseteq> set (chain_feedback ch)" using feedback by auto
  have inj: "inj_on (\<lambda>e. jr_event_key (job_event_row_of e)) (set (chain_jobs ch))"
      "inj_on (\<lambda>e. pr_event_key (feedback_row_of e)) (set (chain_feedback ch))" using assms(1) by (auto simp: sound_chain_def)
  show "set (db_job_events (write_batch se b db)) = job_event_row_of ` set (ib_jobs b) \<union> set (db_job_events db)"
    by (simp add: write_batch_job_events ej.fold_upsert [OF inj(1) assms(5) sub])
  show "set (db_reputation_events (write_batch se b db)) = feedback_row_of ` set (ib_feedback b) \<union> set (db_reputation_events db)"
    by (simp add: write_batch_feedback ef.fold_upsert [OF inj(2) assms(6) fsub])
  show "e \<in> set (ib_jobs b)" if "xc_jobs cfg" "e \<in> set (chain_jobs ch)" "job_from cfg db \<le> je_block e" "je_block e \<le> range_end cfg tip (job_from cfg db)"
    using that jobs by simp
  show "f \<in> set (ib_feedback b)" if "xc_feedback cfg" "f \<in> set (chain_feedback ch)" "feedback_from cfg db \<le> re_block f" "re_block f \<le> range_end cfg tip (feedback_from cfg db)"
    using that feedback by simp
qed

lemma index_inv_step:
  assumes "sound_chain ch" "sane_config cfg" "index_step cfg (faithful_node ch) ix ix'" "index_inv cfg ch ix"
  shows "index_inv cfg ch ix'"
  using index_step_db [OF assms(3)]
proof (elim disjE exE conjE)
  assume "ix_db ix' = ix_db ix"
  then show ?thesis using assms(4) by (simp add: index_inv_def)
next
  fix env tip b n
  define db where "db = ix_db ix"
  define se where "se = cycle_store_env cfg env"
  define ws where "ws = take n (cursor_writes cfg db tip)"
  assume env: "faithful_node ch env" "ce_latest env = Inr tip" and b: "fetch_batch cfg env (ix_db ix) tip = Inr b"
    and new: "ix_db ix' = put_cursors (take n (cursor_writes cfg (ix_db ix) tip)) (write_batch (cycle_store_env cfg env) b (ix_db ix))"
  have b': "fetch_batch cfg env db tip = Inr b" and new': "ix_db ix' = put_cursors ws (write_batch se b db)"
    using b new by (simp_all add: db_def ws_def se_def)
  have ok: "cursors_ok db" and inv: "jobs_stored cfg ch db" "feedback_stored cfg ch db" using assms(4) by (simp_all add: index_inv_def db_def)
  have ws: "set ws \<subseteq> set (cursor_writes cfg db tip)" unfolding ws_def by (rule set_take_subset)
  have meta: "readMetaValue k (write_batch se b db) = readMetaValue k db" if "k \<in> cursor_names" for k
    using that by (intro write_batch_meta) (auto simp: cursor_names_def)
  have sub: "set (db_job_events db) \<subseteq> job_event_row_of ` set (chain_jobs ch)" "set (db_reputation_events db) \<subseteq> feedback_row_of ` set (chain_feedback ch)"
    using inv by (auto simp: jobs_stored_def feedback_stored_def)
  note tables = batch_tables [OF assms(1) env b' sub]
  have "cursors_ok (ix_db ix')" unfolding new' by (rule cursors_ok_step [OF ok assms(2) meta ws])
  moreover have "jobs_stored cfg ch (ix_db ix')"
    unfolding jobs_stored_def new' put_cursors_fields
  proof (intro conjI ballI impI)
    show "set (db_job_events (write_batch se b db)) \<subseteq> job_event_row_of ` set (chain_jobs ch)"
      unfolding tables(1) by (rule Un_least [OF image_mono [OF tables(2)] sub(1)])
    fix e assume e: "e \<in> set (chain_jobs ch)" "xc_from cfg \<le> je_block e" "je_block e < job_from cfg (put_cursors ws (write_batch se b db))"
    show "job_event_row_of e \<in> set (db_job_events (write_batch se b db))"
    proof (cases "je_block e < job_from cfg db")
      case True
      with inv(1) e(1,2) have "job_event_row_of e \<in> set (db_job_events db)" unfolding jobs_stored_def by blast
      then show ?thesis by (simp add: tables(1))
    next
      case False
      with e(3) next_cursor(1) [OF ok assms(2) ws meta]
      have "xc_jobs cfg" "je_block e \<le> range_end cfg tip (job_from cfg db)" by auto
      then have "e \<in> set (ib_jobs b)" using tables(3) [of e] e(1) False by simp
      then show ?thesis by (simp add: tables(1))
    qed
  qed
  moreover have "feedback_stored cfg ch (ix_db ix')"
    unfolding feedback_stored_def new' put_cursors_fields
  proof (intro conjI ballI impI)
    show "set (db_reputation_events (write_batch se b db)) \<subseteq> feedback_row_of ` set (chain_feedback ch)"
      unfolding tables(4) by (rule Un_least [OF image_mono [OF tables(5)] sub(2)])
    fix e assume e: "e \<in> set (chain_feedback ch)" "xc_reputation_from cfg \<le> re_block e" "re_block e < feedback_from cfg (put_cursors ws (write_batch se b db))"
    show "feedback_row_of e \<in> set (db_reputation_events (write_batch se b db))"
    proof (cases "re_block e < feedback_from cfg db")
      case True
      with inv(2) e(1,2) have "feedback_row_of e \<in> set (db_reputation_events db)" unfolding feedback_stored_def by blast
      then show ?thesis by (simp add: tables(4))
    next
      case False
      with e(3) next_cursor(2) [OF ok assms(2) ws meta]
      have "xc_feedback cfg" "re_block e \<le> range_end cfg tip (feedback_from cfg db)" by auto
      then have "e \<in> set (ib_feedback b)" using tables(6) [of e] e(1) False by simp
      then show ?thesis by (simp add: tables(4))
    qed
  qed
  ultimately show ?thesis by (simp add: index_inv_def)
qed

interpretation ix: invariant_system "\<lambda>ix. ix = start_indexer cfg empty_index \<and> sane_config cfg \<and> sound_chain ch"
    "index_step cfg (faithful_node ch)" "\<lambda>ix. sane_config cfg \<and> sound_chain ch \<and> index_inv cfg ch ix" for cfg ch
proof unfold_locales
  fix ix assume start: "ix = start_indexer cfg empty_index \<and> sane_config cfg \<and> sound_chain ch"
  then show "sane_config cfg \<and> sound_chain ch \<and> index_inv cfg ch ix"
    by (simp add: start_indexer_def empty_index_def index_inv_def jobs_stored_def feedback_stored_def cursors_ok_def readMetaValue_def
        job_from_def feedback_from_def after_cursor_def)
qed (use index_inv_step in blast)

end
