(* ===== verification/Index_View.thy ===== *)
theory Index_View
  imports Index_Invariant
begin

text \<open>
  The table of jobs is a materialised view: with unchanging filters, its row for a job is the
  projection of the events stored for that job, whatever batches, failures and crashes came before.
\<close>

section \<open>The view of one job\<close>

definition job_view :: "index_view \<Rightarrow> index_db \<Rightarrow> string \<Rightarrow> job_row option" where
  "job_view v db i = (case projectJobsFromEvents v (stored_job_events i db) of [] \<Rightarrow> None | j # _ \<Rightarrow> Some (normalizeJob j))"

definition jobs_are_views :: "index_view \<Rightarrow> index_db \<Rightarrow> bool" where
  "jobs_are_views v db \<longleftrightarrow> (\<forall>i. sel jw_id i (db_jobs db) = job_view v db i)"

definition one_creation :: "index_chain \<Rightarrow> bool" where
  "one_creation ch \<longleftrightarrow> (\<forall>x\<in>set (chain_jobs ch). \<forall>y\<in>set (chain_jobs ch).
     je_name x = EvCreated \<longrightarrow> je_name y = EvCreated \<longrightarrow> job_id_of x = job_id_of y \<longrightarrow> x = y)"

definition rows_of_chain :: "index_chain \<Rightarrow> index_db \<Rightarrow> bool" where
  "rows_of_chain ch db \<longleftrightarrow> set (db_job_events db) \<subseteq> job_event_row_of ` set (chain_jobs ch)"

lemma find_SomeD: "find P xs = Some x \<Longrightarrow> x \<in> set xs \<and> P x"
  by (induction xs) (auto split: if_splits)

lemma group_one_job:
  assumes "\<forall>e\<in>set evs. \<forall>x. je_job e = Some x \<longrightarrow> int_str x = i"
  shows "groupByJobId evs = (if filter (\<lambda>e. je_job e \<noteq> None) evs = [] then [] else [(i, filter (\<lambda>e. je_job e \<noteq> None) evs)])"
proof -
  let ?add = "\<lambda>e acc. case je_job e of Some j \<Rightarrow> push_group (int_str j) e acc | None \<Rightarrow> acc"
  let ?group = "\<lambda>es. if es = [] then [] else [(i, es)]"
  have "fold ?add evs (?group es) = ?group (es @ filter (\<lambda>e. je_job e \<noteq> None) evs)" for es
    using assms
  proof (induction evs arbitrary: es)
    case (Cons e evs)
    show ?case
    proof (cases "je_job e")
      case None
      then show ?thesis using Cons by simp
    next
      case (Some x)
      then have "int_str x = i" using Cons.prems by simp
      then have "?add e (?group es) = ?group (es @ [e])" using Some by (simp add: push_group_def)
      then show ?thesis using Cons.IH [of "es @ [e]"] Cons.prems Some by simp
    qed
  qed simp
  from this [of "[]"] show ?thesis by (simp add: groupByJobId_def)
qed

lemma property_order_one [simp]: "js_property_order [(k, x)] = [(k, x)]" "js_property_order [] = []"
  by (simp_all add: js_property_order_def)

lemma project_one_job:
  assumes "\<forall>e\<in>set evs. \<forall>x. je_job e = Some x \<longrightarrow> int_str x = i"
  shows "projectJobsFromEvents v evs = (let js = filter (\<lambda>e. je_job e \<noteq> None) evs in
     if js = [] then [] else (case projectJobFromEvents i js (Some (jobFilter v)) of None \<Rightarrow> [] | Some j \<Rightarrow> [j]))"
  by (simp add: projectJobsFromEvents_def projectJobs_def group_one_job [OF assms] List.map_filter_def Let_def split: option.splits)

lemma projected_id: "projectJobFromEvents i evs keep = Some j \<Longrightarrow> pj_id j = i"
  by (auto simp: projectJobFromEvents_def Let_def split: if_splits)

lemma projected_keep: "projectJobFromEvents i evs (Some f) = None \<longleftrightarrow> \<not> f (find (\<lambda>e. je_name e = EvCreated) evs)"
  by (simp add: projectJobFromEvents_def Let_def)

lemma stored_events_of_chain:
  assumes "rows_of_chain ch db" "e \<in> set (stored_job_events i db)"
  shows "e \<in> set (chain_jobs ch) \<and> job_id_of e = i \<and> job_event_row_of e \<in> set (db_job_events db)"
  using assms by (fastforce simp: stored_job_events_def rows_of_chain_def job_event_row_of_def)

lemma stored_events_ids:
  "rows_of_chain ch db \<Longrightarrow> \<forall>e\<in>set (stored_job_events i db). \<forall>x. je_job e = Some x \<longrightarrow> int_str x = i"
  by (auto dest!: stored_events_of_chain simp: job_id_of_def)

lemma job_view_id: "rows_of_chain ch db \<Longrightarrow> job_view v db i = Some r \<Longrightarrow> jw_id r = i"
  using projected_id
  by (fastforce simp: job_view_def project_one_job [OF stored_events_ids] Let_def normalizeJob_def split: if_splits option.splits)

lemma jobFilter_none: "jobFilter v None \<Longrightarrow> jobFilter v c"
  by (auto simp: jobFilter_def matchesReferenceWallet_def opt_field_def)

text \<open>A job that is hidden with more events stored was hidden before.\<close>

lemma job_view_stays:
  assumes "one_creation ch" "rows_of_chain ch db'" "rows_of_chain ch db"
    and "set (stored_job_events i db) \<subseteq> set (stored_job_events i db')" "job_view v db' i = None"
  shows "job_view v db i = None"
proof -
  let ?js = "\<lambda>db. filter (\<lambda>e. je_job e \<noteq> None) (stored_job_events i db)"
  let ?created = "\<lambda>db. find (\<lambda>e. je_name e = EvCreated) (?js db)"
  have view: "job_view v d i = None \<longleftrightarrow> ?js d = [] \<or> \<not> jobFilter v (?created d)" if "rows_of_chain ch d" for d
  proof (cases "?js d = []")
    case True
    then show ?thesis by (simp add: job_view_def project_one_job [OF stored_events_ids [OF that]])
  next
    case False
    have "job_view v d i = None \<longleftrightarrow> projectJobFromEvents i (?js d) (Some (jobFilter v)) = None"
      using False by (simp add: job_view_def project_one_job [OF stored_events_ids [OF that]] Let_def split: option.splits)
    with False show ?thesis by (simp add: projected_keep)
  qed
  have sub: "set (?js db) \<subseteq> set (?js db')" using assms(4) by auto
  show ?thesis
  proof (cases "?js db = []")
    case True
    then show ?thesis using view [OF assms(3)] by simp
  next
    case False
    then have ne: "?js db' \<noteq> []" using sub by (metis set_empty subset_empty)
    then have hidden: "\<not> jobFilter v (?created db')" using view [OF assms(2)] assms(5) by simp
    have "\<not> jobFilter v (?created db)"
    proof (cases "?created db")
      case None
      then show ?thesis using hidden jobFilter_none by metis
    next
      case (Some c)
      then have c: "c \<in> set (?js db)" "je_name c = EvCreated" using find_SomeD [OF Some] by auto
      with sub have "?created db' \<noteq> None" unfolding find_None_iff by blast
      then obtain c' where c': "?created db' = Some c'" by blast
      have "c' \<in> set (?js db')" "je_name c' = EvCreated" using find_SomeD [OF c'] by auto
      moreover have "c \<in> set (?js db')" using c(1) sub by blast
      ultimately have "c \<in> set (chain_jobs ch)" "c' \<in> set (chain_jobs ch)" "job_id_of c = job_id_of c'"
        using stored_events_of_chain [OF assms(2)] by auto
      then have "c = c'" using assms(1) c(2) \<open>je_name c' = EvCreated\<close> unfolding one_creation_def by blast
      with hidden c' Some show ?thesis by simp
    qed
    with view [OF assms(3)] show ?thesis by simp
  qed
qed

section \<open>A batch keeps the view\<close>

lemma sel_upsert_new: "sel pk k (upsert pk (\<lambda>new old. new) row t) = (if k = pk row then Some row else sel pk k t)"
proof (cases "sel pk (pk row) t")
  case None
  then show ?thesis by (simp add: upsert_def sel_append sel_Cons sel_Nil split: option.splits)
next
  case (Some r)
  have "sel pk k (upd pk (pk row) (\<lambda>_. row) t) = (if k = pk row then (if sel pk k t = None then None else Some row) else sel pk k t)"
    by (induction t) (auto simp: sel_def upd_def)
  with Some show ?thesis by (auto simp: upsert_def)
qed

lemma stored_events_frame: "db_job_events db' = db_job_events db \<Longrightarrow> stored_job_events i db' = stored_job_events i db"
  by (simp add: stored_job_events_def)

lemma job_view_frame: "db_job_events db' = db_job_events db \<Longrightarrow> job_view v db' i = job_view v db i"
  by (simp add: job_view_def stored_events_frame [of db' db])

lemma project_stored_job_sel:
  assumes "rows_of_chain ch db"
  shows "sel jw_id k (db_jobs (project_stored_job v i db)) =
     (if k = i \<and> job_view v db i \<noteq> None then job_view v db i else sel jw_id k (db_jobs db))"
proof (cases "projectJobsFromEvents v (stored_job_events i db)")
  case Nil
  then show ?thesis by (simp add: project_stored_job_def job_view_def)
next
  case (Cons j js)
  then have "job_view v db i = Some (normalizeJob j)" by (simp add: job_view_def)
  moreover from this have "jw_id (normalizeJob j) = i" using job_view_id [OF assms] by blast
  ultimately show ?thesis using Cons by (simp add: project_stored_job_def sel_upsert_new)
qed

lemma fold_project_sel:
  assumes "rows_of_chain ch db"
  shows "sel jw_id k (db_jobs (fold (project_stored_job v) is db)) =
     (if k \<in> set is \<and> job_view v db k \<noteq> None then job_view v db k else sel jw_id k (db_jobs db))"
  using assms
proof (induction "is" arbitrary: db)
  case (Cons i "is")
  have rows: "rows_of_chain ch (project_stored_job v i db)" using Cons.prems by (simp add: rows_of_chain_def project_stored_job_keeps)
  have "job_view v (project_stored_job v i db) k = job_view v db k" by (rule job_view_frame) (rule project_stored_job_keeps)
  with Cons.IH [OF rows] project_stored_job_sel [OF Cons.prems, of k v i] show ?case by (cases "k = i") auto
qed simp

lemma filter_fold_set_add: "(\<And>x. x \<in> set xs \<Longrightarrow> \<not> P x) \<Longrightarrow> filter P (fold set_add xs t) = filter P t"
proof (induction xs arbitrary: t)
  case (Cons x xs)
  then have "filter P (set_add x t) = filter P t" by (simp add: set_add_def)
  with Cons show ?case by simp
qed simp

lemma batch_events:
  assumes "sound_chain ch" "rows_of_chain ch db" "set (ib_jobs b) \<subseteq> set (chain_jobs ch)"
  shows "db_job_events (write_batch env b db) = fold set_add (map job_event_row_of (ib_jobs b)) (db_job_events db)"
  using assms unfolding write_batch_job_events sound_chain_def rows_of_chain_def by (intro ej.fold_upsert) auto

lemma batch_keeps_view:
  assumes "sound_chain ch" "one_creation ch" "rows_of_chain ch db" "set (ib_jobs b) \<subseteq> set (chain_jobs ch)" "jobs_are_views (te_view env) db"
  shows "jobs_are_views (te_view env) (write_batch env b db)"
  unfolding jobs_are_views_def
proof
  fix k
  define db1 where "db1 = fold upsertAgentEvent (ib_agents b) (fold upsertJobEvent (ib_jobs b) db)"
  have ev1: "db_job_events db1 = db_job_events (write_batch env b db)"
    by (simp add: db1_def write_batch_job_events fold_upsertJobEvent fold_upsertAgentEvent)
  have jobs1: "db_jobs db1 = db_jobs db" by (simp add: db1_def fold_upsertJobEvent fold_upsertAgentEvent)
  note ev = ev1 [unfolded batch_events [OF assms(1,3,4)]]
  have rows1: "rows_of_chain ch db1" using assms(3,4) by (auto simp: rows_of_chain_def ev)
  have old: "sel jw_id k (db_jobs db) = job_view (te_view env) db k" using assms(5) by (simp add: jobs_are_views_def)
  have "sel jw_id k (db_jobs (write_batch env b db)) =
      (if k \<in> job_id_of ` set (ib_jobs b) \<and> job_view (te_view env) db1 k \<noteq> None then job_view (te_view env) db1 k
       else job_view (te_view env) db k)"
    unfolding write_batch_jobs db1_def [symmetric] fold_project_sel [OF rows1] jobs1 old set_affected ..
  also have "\<dots> = job_view (te_view env) db1 k"
  proof (cases "k \<in> job_id_of ` set (ib_jobs b)")
    case True
    have "set (stored_job_events k db) \<subseteq> set (stored_job_events k db1)" by (auto simp: stored_job_events_def ev)
    from job_view_stays [OF assms(2) rows1 assms(3) this] True show ?thesis by auto
  next
    case False
    have "filter (\<lambda>r. jr_job_id r = k) (db_job_events db1) = filter (\<lambda>r. jr_job_id r = k) (db_job_events db)"
      unfolding ev using False by (intro filter_fold_set_add) (auto simp: job_event_row_of_def)
    then have "job_view (te_view env) db1 k = job_view (te_view env) db k" by (simp add: job_view_def stored_job_events_def)
    with False show ?thesis by simp
  qed
  also have "\<dots> = job_view (te_view env) (write_batch env b db) k" by (rule job_view_frame) (rule ev1)
  finally show "sel jw_id k (db_jobs (write_batch env b db)) = job_view (te_view env) (write_batch env b db) k" .
qed

section \<open>Runs\<close>

definition steady_node :: "index_config \<Rightarrow> index_chain \<Rightarrow> index_view \<Rightarrow> cycle_env \<Rightarrow> bool" where
  "steady_node cfg ch v env \<longleftrightarrow> faithful_node ch env \<and> cycle_view cfg env = v"

lemma steady_step: "index_step cfg (steady_node cfg ch v) ix ix' \<Longrightarrow> index_step cfg (faithful_node ch) ix ix'"
  by (auto elim!: index_stepE simp: steady_node_def intro: index_step.intros)

lemma view_step:
  assumes "sound_chain ch" "one_creation ch" "sane_config cfg" "index_step cfg (steady_node cfg ch v) ix ix'"
    and "index_inv cfg ch ix" "jobs_are_views v (ix_db ix)"
  shows "jobs_are_views v (ix_db ix')"
  using index_step_db [OF assms(4)]
proof (elim disjE exE conjE)
  fix env tip b n
  assume env: "steady_node cfg ch v env" "ce_latest env = Inr tip" and b: "fetch_batch cfg env (ix_db ix) tip = Inr b"
    and new: "ix_db ix' = put_cursors (take n (cursor_writes cfg (ix_db ix) tip)) (write_batch (cycle_store_env cfg env) b (ix_db ix))"
  have node: "faithful_node ch env" and v: "te_view (cycle_store_env cfg env) = v" using env(1) by (simp_all add: steady_node_def cycle_store_env_def)
  have rows: "rows_of_chain ch (ix_db ix)" "set (db_reputation_events (ix_db ix)) \<subseteq> feedback_row_of ` set (chain_feedback ch)"
    using assms(5) by (auto simp: index_inv_def jobs_stored_def feedback_stored_def rows_of_chain_def)
  have sub: "set (ib_jobs b) \<subseteq> set (chain_jobs ch)"
    by (rule batch_tables(2) [OF assms(1) node env(2) b rows(1) [unfolded rows_of_chain_def] rows(2)])
  have "jobs_are_views v (write_batch (cycle_store_env cfg env) b (ix_db ix))"
    using batch_keeps_view [OF assms(1,2) rows(1) sub, of "cycle_store_env cfg env"] assms(6) v by simp
  then show ?thesis by (simp add: new jobs_are_views_def job_view_def stored_job_events_def)
qed (use assms(6) in simp)

interpretation iv: invariant_system
    "\<lambda>ix. ix = start_indexer cfg empty_index \<and> sane_config cfg \<and> sound_chain ch \<and> one_creation ch"
    "index_step cfg (steady_node cfg ch v)"
    "\<lambda>ix. (sane_config cfg \<and> sound_chain ch \<and> one_creation ch) \<and> index_inv cfg ch ix \<and> jobs_are_views v (ix_db ix)" for cfg ch v
proof unfold_locales
  fix ix assume start: "ix = start_indexer cfg empty_index \<and> sane_config cfg \<and> sound_chain ch \<and> one_creation ch"
  then have "index_inv cfg ch ix" using ix.start_inv by blast
  moreover have "jobs_are_views v (ix_db ix)"
    using start by (simp add: start_indexer_def empty_index_def jobs_are_views_def job_view_def stored_job_events_def sel_Nil
        projectJobsFromEvents_def projectJobs_def groupByJobId_def List.map_filter_def)
  ultimately show "(sane_config cfg \<and> sound_chain ch \<and> one_creation ch) \<and> index_inv cfg ch ix \<and> jobs_are_views v (ix_db ix)"
    using start by blast
next
  fix s t assume "index_step cfg (steady_node cfg ch v) s t"
    and "(sane_config cfg \<and> sound_chain ch \<and> one_creation ch) \<and> index_inv cfg ch s \<and> jobs_are_views v (ix_db s)"
  then show "(sane_config cfg \<and> sound_chain ch \<and> one_creation ch) \<and> index_inv cfg ch t \<and> jobs_are_views v (ix_db t)"
    using view_step index_inv_step steady_step by blast
qed

end
