(* ===== verification/Index_Gaps.thy ===== *)
theory Index_Gaps
  imports Index_Invariant
begin

text \<open>
  What a crash between two cursor writes does to the registrations of agents: without a cursor of its
  own the agent sync starts behind the job cursor, and the blocks in between are never asked for.
\<close>

section \<open>Blocks of agent events\<close>

lemma fetched_agents:
  assumes "serves tl_block (ch_transfers ch) tip rpc" "b \<le> tip" "fetchAgentEvents rpc rf uri a b = Inr es" "e \<in> set es"
  shows "a \<le> ae_block e \<and> ae_block e \<le> b"
proof (cases "b < a")
  case True
  then show ?thesis using assms(3,4) by (simp add: fetchAgentEvents_def)
next
  case False
  then obtain ls where ls: "fetchEventsInRange rpc rf a b = Inr ls" "set es = agent_of_log uri ` {l \<in> set ls. is_mint l}"
    using assms(3) by (auto simp: fetchAgentEvents_def)
  have "set ls = set (filter (\<lambda>l. a \<le> tl_block l \<and> tl_block l \<le> b) (ch_transfers ch))"
    by (rule mset_eq_setD) (rule fetchEventsInRange_mset [OF assms(1,2) ls(1)])
  then show ?thesis using assms(4) by (auto simp: ls(2) agent_of_log_def)
qed

lemma batch_agents:
  assumes "faithful_node ch env" "ce_latest env = Inr tip" "fetch_batch cfg env db tip = Inr b" "e \<in> set (ib_agents b)"
  shows "agent_from cfg db \<le> ae_block e \<and> ae_block e \<le> range_end cfg tip (agent_from cfg db)"
proof -
  have serves: "serves tl_block (ch_transfers ch) tip (ce_agent_rpc env)" using assms(1,2) by (auto simp: faithful_node_def)
  have "xc_agents cfg \<and> fetchAgentEvents (ce_agent_rpc env) (ce_right_first env) (ce_uri env) (agent_from cfg db)
      (range_end cfg tip (agent_from cfg db)) = Inr (ib_agents b)"
    using assms(3,4) by (auto simp: fetch_batch_def split: if_splits)
  then show ?thesis using fetched_agents [OF serves range_end_tip _ assms(4)] by blast
qed

lemma upsert_agent_blocks:
  "r \<in> set (upsert ar_event_key merge_agent_event row t) \<Longrightarrow> r \<in> set t \<or> ar_block r = ar_block row"
  by (auto simp: upsert_def upd_def merge_agent_event_def split: if_splits)

lemma write_batch_agent_events: "db_agent_events (write_batch env b db) =
    fold (\<lambda>e. upsert ar_event_key merge_agent_event (agent_event_row_of e)) (ib_agents b) (db_agent_events db)"
  by (simp add: write_batch_def Let_def writeMetaValue_def index_folds fold_upsertJobEvent fold_upsertAgentEvent fold_upsertReputationEvent)

lemma batch_agent_blocks:
  "r \<in> set (db_agent_events (write_batch env b db)) \<Longrightarrow>
     r \<in> set (db_agent_events db) \<or> (\<exists>e\<in>set (ib_agents b). ar_block r = ae_block e)"
  unfolding write_batch_agent_events
proof (induction "ib_agents b" arbitrary: b "db")
  case (Cons e es)
  define db1 where "db1 = db\<lparr>db_agent_events := upsert ar_event_key merge_agent_event (agent_event_row_of e) (db_agent_events db)\<rparr>"
  define b1 where "b1 = b\<lparr>ib_agents := es\<rparr>"
  have "r \<in> set (fold (\<lambda>e. upsert ar_event_key merge_agent_event (agent_event_row_of e)) (ib_agents b1) (db_agent_events db1))"
    using Cons.prems by (simp add: b1_def db1_def flip: Cons.hyps(2))
  then have "r \<in> set (db_agent_events db1) \<or> (\<exists>e\<in>set (ib_agents b1). ar_block r = ae_block e)"
    by (intro Cons.hyps(1)) (simp_all add: b1_def)
  then show ?case using upsert_agent_blocks [of r "agent_event_row_of e" "db_agent_events db"]
    by (auto simp: b1_def db1_def agent_event_row_of_def simp flip: Cons.hyps(2))
qed simp

section \<open>Cursors only move on\<close>

definition beyond :: "index_config \<Rightarrow> int \<Rightarrow> index_db \<Rightarrow> bool" where
  "beyond cfg l db \<longleftrightarrow> l \<le> job_from cfg db \<and> l \<le> agent_from cfg db"

lemma beyond_step:
  assumes "beyond cfg l db" "cursors_ok db" "sane_config cfg" "set ws \<subseteq> set (cursor_writes cfg db tip)"
    and "\<And>k. k \<in> cursor_names \<Longrightarrow> readMetaValue k db' = readMetaValue k db"
  shows "beyond cfg l (put_cursors ws db')"
proof -
  note starts = starts_nonneg [OF assms(2,3)]
  have low: "l \<le> job_from cfg db" "l \<le> agent_from cfg db" using assms(1) by (simp_all add: beyond_def)
  let ?job = "readMetaValue ''last_synced_block''" and ?agent = "readMetaValue ''last_synced_agent_block''"
  have names: "''last_synced_block'' \<in> cursor_names" "''last_synced_agent_block'' \<in> cursor_names" by (simp_all add: cursor_names_def)
  have job: "?job (put_cursors ws db') = ?job db \<or> (\<exists>e\<ge>job_from cfg db. ?job (put_cursors ws db') = Some (int_str e))"
    using readMeta_put_cursors [of "''last_synced_block''" ws db'] assms(4,5) names by (auto dest!: cursor_writesD)
  have agent: "?agent (put_cursors ws db') = ?agent db \<or> (\<exists>e\<ge>agent_from cfg db. ?agent (put_cursors ws db') = Some (int_str e))"
    using readMeta_put_cursors [of "''last_synced_agent_block''" ws db'] assms(4,5) names by (auto dest!: cursor_writesD)
  have job_ok: "?job (put_cursors ws db') = ?job db \<or> l \<le> after_cursor (?job (put_cursors ws db')) start" for start
  proof -
    have "l \<le> after_cursor (Some (int_str e)) start" if "job_from cfg db \<le> e" for e
      using that low starts by (simp add: after_cursor_int)
    with job show ?thesis by auto
  qed
  have "l \<le> job_from cfg (put_cursors ws db')" using job_ok [of "xc_from cfg"] low(1) by (auto simp: job_from_def)
  moreover have "l \<le> agent_from cfg (put_cursors ws db')"
  proof (cases "?agent (put_cursors ws db') = ?agent db")
    case True
    then show ?thesis using job_ok [of "xc_identity_from cfg"] low(2) by (auto simp: agent_from_def)
  next
    case False
    with agent obtain e where e: "agent_from cfg db \<le> e" "?agent (put_cursors ws db') = Some (int_str e)" by auto
    then have "agent_from cfg (put_cursors ws db') = e + 1" using starts by (simp add: agent_from_def after_cursor_int)
    with e low show ?thesis by simp
  qed
  ultimately show ?thesis by (simp add: beyond_def)
qed

definition skips :: "index_config \<Rightarrow> int \<Rightarrow> int \<Rightarrow> indexer \<Rightarrow> bool" where
  \<comment> \<open>no registration of the blocks after \<open>lo\<close> up to \<open>hi\<close> is stored, and none will be\<close>
  "skips cfg lo hi ix \<longleftrightarrow> cursors_ok (ix_db ix) \<and> beyond cfg (hi + 1) (ix_db ix)
     \<and> (\<forall>r\<in>set (db_agent_events (ix_db ix)). ar_block r \<le> lo \<or> hi < ar_block r)"

lemma meta_of_batch: "k \<in> cursor_names \<Longrightarrow> readMetaValue k (write_batch env b db) = readMetaValue k db"
  by (rule write_batch_meta) (auto simp: cursor_names_def)

lemma skips_step:
  assumes "sane_config cfg" "index_step cfg (faithful_node ch) ix ix'" "skips cfg lo hi ix"
  shows "skips cfg lo hi ix'"
  using index_step_db [OF assms(2)]
proof (elim disjE exE conjE)
  fix env tip b n
  assume env: "faithful_node ch env" "ce_latest env = Inr tip" and b: "fetch_batch cfg env (ix_db ix) tip = Inr b"
    and new: "ix_db ix' = put_cursors (take n (cursor_writes cfg (ix_db ix) tip)) (write_batch (cycle_store_env cfg env) b (ix_db ix))"
  have ok: "cursors_ok (ix_db ix)" "beyond cfg (hi + 1) (ix_db ix)"
      and rows: "\<And>r. r \<in> set (db_agent_events (ix_db ix)) \<Longrightarrow> ar_block r \<le> lo \<or> hi < ar_block r"
    using assms(3) by (simp_all add: skips_def)
  have "cursors_ok (ix_db ix')" unfolding new by (rule cursors_ok_step [OF ok(1) assms(1) meta_of_batch set_take_subset])
  moreover have "beyond cfg (hi + 1) (ix_db ix')"
    unfolding new by (rule beyond_step [OF ok(2,1) assms(1) set_take_subset meta_of_batch])
  moreover have "ar_block r \<le> lo \<or> hi < ar_block r" if "r \<in> set (db_agent_events (ix_db ix'))" for r
  proof -
    have "r \<in> set (db_agent_events (ix_db ix)) \<or> (\<exists>e\<in>set (ib_agents b). ar_block r = ae_block e)"
      using that unfolding new put_cursors_fields by (rule batch_agent_blocks)
    then show ?thesis
    proof (elim disjE bexE)
      fix e assume e: "e \<in> set (ib_agents b)" "ar_block r = ae_block e"
      from batch_agents [OF env b e(1)] ok(2) e(2) show ?thesis by (simp add: beyond_def)
    qed (rule rows)
  qed
  ultimately show ?thesis by (simp add: skips_def)
qed (use assms(3) in \<open>simp add: skips_def\<close>)

interpretation ig: invariant_system "skips cfg lo hi"
    "\<lambda>ix ix'. sane_config cfg \<and> index_step cfg (faithful_node ch) ix ix'" "skips cfg lo hi" for cfg lo hi ch
  by unfold_locales (use skips_step in blast)+

end
