(* ===== verification/Index_Queries.thy ===== *)
theory Index_Queries
  imports Index_Store Js_Numbers "HOL-Library.Log_Nat"
begin

text \<open>
  What the indexer answers: the readers of \<open>indexer/src/db.ts\<close>, the reputation of a provider computed
  from its jobs, and the job filters the routes of \<open>server.ts\<close> pass. Binary floating point is exact
  rational arithmetic rounded to 53 bits after each operation.
\<close>

section \<open>Jobs\<close>

record job_options =
  jo_limit :: "int option" \<comment> \<open>\<open>None\<close>: absent or not a number\<close>
  jo_provider :: "string option"
  jo_statuses :: "js_number list"
  jo_include_expired :: "bool option"

definition all_jobs :: job_options where
  "all_jobs = \<lparr>jo_limit = Some 500, jo_provider = None, jo_statuses = [], jo_include_expired = None\<rparr>"

definition clamp_limit :: "int option \<Rightarrow> int" where
  \<comment> \<open>\<open>Math.min(Math.max(Number(limit) || 50, 1), 500)\<close>\<close>
  "clamp_limit l = min (max (if or_else l 0 = 0 then 50 else or_else l 0) 1) 500"

definition job_wanted :: "job_options \<Rightarrow> job_row \<Rightarrow> bool" where
  "job_wanted opts r \<longleftrightarrow>
     (truthy (jo_provider opts) \<longrightarrow> toLowerCase (jw_worker r) = toLowerCase (the (jo_provider opts)))
     \<and> (jo_statuses opts \<noteq> [] \<longrightarrow> Fin (of_nat (jw_status r)) \<in> set (jo_statuses opts))
     \<and> (jo_include_expired opts = Some False \<longrightarrow>
          (Fin 6 \<notin> set (jo_statuses opts) \<longrightarrow> jw_status r \<noteq> 6) \<and> (Fin 5 \<notin> set (jo_statuses opts) \<longrightarrow> jw_status r \<noteq> 5))"

definition by_id_desc :: "job_row list \<Rightarrow> job_row list" where
  \<comment> \<open>\<open>ORDER BY CAST(id AS INTEGER) DESC\<close>\<close>
  "by_id_desc = sort_key (\<lambda>r. - BigInt_of (jw_id r))"

definition readJobsFiltered :: "job_options \<Rightarrow> index_db \<Rightarrow> job_row list" where
  "readJobsFiltered opts db = take (nat (clamp_limit (jo_limit opts))) (by_id_desc (filter (job_wanted opts) (db_jobs db)))"

definition readJobs :: "index_db \<Rightarrow> job_row list" where
  "readJobs db = readJobsFiltered all_jobs db"

definition readJobById :: "string \<Rightarrow> index_db \<Rightarrow> job_row option" where
  "readJobById i db = (if sel jw_id i (db_jobs db) = None then None else find (\<lambda>j. jw_id j = i) (readJobs db))"

definition status_code :: "string \<Rightarrow> js_number option" where
  \<comment> \<open>one part of the \<open>status\<close> parameter: a name, or a number; what is neither is dropped\<close>
  "status_code s = (let t = toLowerCase (trim s) in
     case map_of [(''open'', Fin 0), (''funded'', Fin 1), (''submitted'', Fin 2), (''completed'', Fin 3), (''rejected'', Fin 4), (''expired'', Fin 5)] t of
       Some n \<Rightarrow> Some n | None \<Rightarrow> if Number_text t = NaN then None else Some (Number_text t))"

definition jobs_route :: "int option \<Rightarrow> string option \<Rightarrow> string option \<Rightarrow> string option \<Rightarrow> index_db \<Rightarrow> job_row list" where
  \<comment> \<open>\<open>GET /jobs\<close>: limit, provider, status, includeExpired\<close>
  "jobs_route limit provider status includeExpired db = readJobsFiltered
     \<lparr>jo_limit = limit, jo_provider = provider,
      jo_statuses = (if truthy status then List.map_filter status_code (split_on CHR '','' (the status)) else []),
      jo_include_expired = Some (includeExpired = Some ''true'')\<rparr> db"

definition open_jobs_route :: "int option \<Rightarrow> string option \<Rightarrow> index_db \<Rightarrow> job_row list" where
  \<comment> \<open>\<open>GET /jobs/open\<close>: open jobs without a provider, filtered after the limit\<close>
  "open_jobs_route limit includeExpired db = filter (\<lambda>j. toLowerCase (jw_worker j) = ADDRESS_0) (readJobsFiltered
     \<lparr>jo_limit = Some (or_else limit 50), jo_provider = None, jo_statuses = [Fin 0], jo_include_expired = Some (includeExpired = Some ''true'')\<rparr> db)"

section \<open>Agents and events\<close>

definition readAgents :: "string \<Rightarrow> index_db \<Rightarrow> agent_row list" where
  "readAgents source db = sort_key (\<lambda>r. - BigInt_of (if aw_token r = [] then aw_agent r else aw_token r))
     (filter (\<lambda>r. source = ''all'' \<or> aw_source r = ''erc8004_identity_registry'') (db_agents db))"

definition readAgentById :: "string \<Rightarrow> index_db \<Rightarrow> agent_row option" where
  "readAgentById i db = or_opt (find (\<lambda>a. aw_agent a = i) (readAgents ''all'' db))
     (find (\<lambda>a. (if aw_token a = [] then aw_agent a else aw_token a) = i) (readAgents ''all'' db))"

definition readJobEvents :: "index_db \<Rightarrow> job_event list" where
  "readJobEvents db = map jr_payload (sort_key (\<lambda>r. - jr_block r) (db_job_events db))"

definition readAgentEvents :: "index_db \<Rightarrow> agent_event list" where
  "readAgentEvents db = map ar_payload (sort_key (\<lambda>r. - ar_block r) (db_agent_events db))"

definition readReputation :: "index_db \<Rightarrow> aggregate_row list" where
  "readReputation db = sort_key (\<lambda>r. (- gr_average r, - BigInt_of (gr_agent r))) (db_aggregates db)"

definition readReputationByAgent :: "string \<Rightarrow> index_db \<Rightarrow> aggregate_row option \<times> reputation_row list" where
  "readReputationByAgent i db = (sel gr_agent i (db_aggregates db),
     rev (sort_key (\<lambda>r. (pr_block r, pr_log r, pr_tx r)) (filter (\<lambda>r. pr_agent r = i) (db_reputation_events db))))"

definition readOverviewSummary :: "(int \<Rightarrow> nat \<Rightarrow> string) \<Rightarrow> index_db \<Rightarrow> overview_summary" where
  "readOverviewSummary formatUnits db =
     (let budget = sum_list (map (BigInt_of \<circ> jw_budget) (db_jobs db)); funded = sum_list (map (BigInt_of \<circ> jw_funded) (db_jobs db)) in
      \<lparr>os_events = nat (BigInt_of (or_else (readMetaValue ''event_count'' db) ''0'')), os_jobs = length (db_jobs db),
       os_agents = length (filter (\<lambda>a. aw_source a = ''erc8004_identity_registry'') (db_agents db)), os_proofs = 0,
       os_budgeted = formatUnits budget 6, os_funded_usdc = formatUnits funded 6, os_budget_atomic = budget, os_funded_atomic = funded,
       os_settled = length (filter (\<lambda>j. jw_status j = 3) (db_jobs db)),
       os_funded_jobs = length (filter (\<lambda>j. 0 < BigInt_of (jw_funded j)) (db_jobs db))\<rparr>)"

definition readOverview :: "(int \<Rightarrow> nat \<Rightarrow> string) \<Rightarrow> index_db \<Rightarrow> overview_summary" where
  \<comment> \<open>the same over the rows \<open>readJobs\<close> returns\<close>
  "readOverview formatUnits db =
     readOverviewSummary formatUnits (db\<lparr>db_jobs := readJobs db\<rparr>)"

section \<open>Reputation of a provider\<close>

definition exponent :: "rat \<Rightarrow> int" where
  \<comment> \<open>the largest \<open>e\<close> with \<open>2\<^sup>e \<le> x\<close>, for positive \<open>x\<close>\<close>
  "exponent x = (case quotient_of x of (p, q) \<Rightarrow>
     let k = int (floorlog 2 (nat p)) - int (floorlog 2 (nat q)) in
     if (if 0 \<le> k then of_int (q * 2 ^ nat k) \<le> (of_int p :: rat) else of_int q \<le> (of_int (p * 2 ^ nat (- k)) :: rat)) then k else k - 1)"

definition round_even :: "rat \<Rightarrow> int" where
  \<comment> \<open>to the nearest integer, a tie to the even one\<close>
  "round_even x = (let f = floor x; d = x - of_int f in
     if d < 1/2 then f else if 1/2 < d then f + 1 else if even f then f else f + 1)"

definition double :: "rat \<Rightarrow> rat" where
  \<comment> \<open>a non-negative rational rounded to a double of normal size\<close>
  "double x = (if x \<le> 0 then 0 else let s = 52 - exponent x in
     if 0 \<le> s then of_int (round_even (x * 2 ^ nat s)) / 2 ^ nat s
     else of_int (round_even (x / 2 ^ nat (- s))) * 2 ^ nat (- s))"

definition math_round :: "rat \<Rightarrow> int" where
  "math_round x = floor (x + 1/2)"

record provider_reputation =
  rp_agent :: string
  rp_score :: int
  rp_tier :: string
  rp_total :: nat
  rp_completed :: nat
  rp_submitted :: nat
  rp_active :: nat
  rp_rejected :: nat
  rp_expired :: nat
  rp_volume :: int
  rp_last7d :: nat

definition reputation_tier :: "nat \<Rightarrow> int \<Rightarrow> string" where
  "reputation_tier totalJobs score =
     (if totalJobs = 0 then ''New'' else if 80 \<le> score then ''Excellent'' else if 60 \<le> score then ''Reliable''
      else if 35 \<le> score then ''Emerging'' else ''Unproven'')"

definition computeErc8183Reputation :: "int \<Rightarrow> string \<Rightarrow> job_row list \<Rightarrow> provider_reputation" where
  \<comment> \<open>\<open>failedJobs\<close> is never counted up and left out; \<open>now\<close> is \<open>Date.now()\<close>\<close>
  "computeErc8183Reputation now agentId jobs =
     (let with_status = (\<lambda>n. length (filter (\<lambda>j. jw_status j = n) jobs));
          done_jobs = filter (\<lambda>j. jw_status j = 3) jobs;
          recent = length (filter (\<lambda>j. now - 604800000 \<le> BigInt_of (jw_created j) * 1000) done_jobs);
          volume = sum_list (map (BigInt_of \<circ> jw_funded) done_jobs);
          active = length (filter (\<lambda>j. jw_status j \<notin> {2, 3, 4, 5}) jobs);
          reliability = (if jobs = [] then 0 else math_round (double (double (of_nat (with_status 3) / of_nat (length jobs)) * 25)));
          raw = (if jobs = [] then 0 else 10) + int (with_status 3) * 12 + int (with_status 2) * 4 + int active + reliability
            + min 20 (floor (double (double (of_int volume) / 1000000))) + (if recent > 0 then 5 else 0)
            - (int (with_status 4) * 8 + int (with_status 5) * 4);
          score = max 0 (min 100 raw)
      in \<lparr>rp_agent = agentId, rp_score = score, rp_tier = reputation_tier (length jobs) score, rp_total = length jobs,
          rp_completed = with_status 3, rp_submitted = with_status 2, rp_active = active, rp_rejected = with_status 4,
          rp_expired = with_status 5, rp_volume = volume, rp_last7d = recent\<rparr>)"

definition readErc8183ReputationByProvider :: "int \<Rightarrow> string \<Rightarrow> index_db \<Rightarrow> provider_reputation option" where
  "readErc8183ReputationByProvider now providerAddress db =
     (let normalized = toLowerCase providerAddress; jobs = filter (\<lambda>r. jw_worker r = normalized) (db_jobs db) in
      if jobs = [] then None
      else Some (computeErc8183Reputation now normalized (sort_key (\<lambda>r. - BigInt_of (jw_created r)) jobs)))"

definition readErc8183ReputationAll :: "int \<Rightarrow> index_db \<Rightarrow> provider_reputation list" where
  "readErc8183ReputationAll now db =
     (let rows = sort_key (\<lambda>r. (jw_worker r, BigInt_of (jw_created r))) (filter (\<lambda>r. jw_worker r \<noteq> ADDRESS_0) (db_jobs db));
          byWorker = fold (\<lambda>r. push_group (toLowerCase (jw_worker r)) r) rows []
      in sort_key (\<lambda>p. - rp_score p) (map (\<lambda>(w, jobs). computeErc8183Reputation now w jobs) byWorker))"

end
