(* ===== verification/Index_Properties.thy ===== *)
theory Index_Properties
  imports Index_View Index_Gaps Index_Queries
begin

text \<open>
  The properties of the indexer: what its range queries return, what its tables hold after any run
  with failures and crashes, which registrations a crash loses, and what its readers find.
\<close>

section \<open>Range queries\<close>

text \<open>C26: Whatever range queries the node fails, a range that is returned holds each log of its blocks exactly
  once, and a query fails only when the node failed a range of at most 501 blocks inside it.\<close>

theorem range_query_complete:
  assumes "serves block chain tip rpc" "toBlock \<le> tip"
  shows "(case fetchEventsInRange rpc right_first fromBlock toBlock of
      Inr evs \<Rightarrow> mset evs = mset (filter (\<lambda>e. fromBlock \<le> block e \<and> block e \<le> toBlock) chain)
    | Inl err \<Rightarrow> \<exists>c d. fromBlock \<le> c \<and> d \<le> toBlock \<and> d - c \<le> 500 \<and> rpc c d = Inl err)"
  using fetchEventsInRange_mset [OF assms] fetchEventsInRange_fails [of rpc right_first fromBlock toBlock]
  by (fastforce split: sum.splits)

section \<open>Runs with failures and crashes\<close>

text \<open>C23: After any run with failed queries, failed writes and crashes, the stored events are events of the
  chain, and every job event and every feedback from the start block up to its cursor is stored.\<close>

theorem index_has_every_event:
  assumes "sane_config cfg" "sound_chain ch" "(index_step cfg (faithful_node ch))\<^sup>*\<^sup>* (start_indexer cfg empty_index) ix"
  shows "set (db_job_events (ix_db ix)) \<subseteq> job_event_row_of ` set (chain_jobs ch)
     \<and> (\<forall>e\<in>set (chain_jobs ch). xc_from cfg \<le> je_block e \<and> je_block e < job_from cfg (ix_db ix) \<longrightarrow>
          job_event_row_of e \<in> set (db_job_events (ix_db ix)))
     \<and> (\<forall>e\<in>set (chain_feedback ch). xc_reputation_from cfg \<le> re_block e \<and> re_block e < feedback_from cfg (ix_db ix) \<longrightarrow>
          feedback_row_of e \<in> set (db_reputation_events (ix_db ix)))"
  using ix.reach_inv [OF _ assms(3)] assms(1,2) unfolding index_inv_def jobs_stored_def feedback_stored_def by blast

text \<open>C24: With unchanging filters the table of jobs is a view of the stored events: after any run, the row of
  a job is the projection of the events stored for it, and a job whose projection is hidden has no row.\<close>

theorem job_table_is_projection:
  assumes "sane_config cfg" "sound_chain ch" "one_creation ch"
    and "(index_step cfg (steady_node cfg ch v))\<^sup>*\<^sup>* (start_indexer cfg empty_index) ix"
  shows "sel jw_id i (db_jobs (ix_db ix)) =
    (case projectJobsFromEvents v (stored_job_events i (ix_db ix)) of [] \<Rightarrow> None | j # _ \<Rightarrow> Some (normalizeJob j))"
proof -
  have "jobs_are_views v (ix_db ix)" using iv.reach_inv [OF _ assms(4)] assms(1-3) by blast
  then show ?thesis by (simp add: jobs_are_views_def job_view_def)
qed

lemma crash_after_job_cursor:
  assumes "sane_config cfg" "faithful_node ch env" "ce_latest env = Inr tip" "cycle_body cfg env empty_index = Inr x"
    and "xc_jobs cfg" "xc_from cfg \<le> range_end cfg tip (xc_from cfg)"
  shows "skips cfg (range_end cfg tip (xc_identity_from cfg)) (range_end cfg tip (xc_from cfg))
    (start_indexer cfg (crash_db cfg env 1 empty_index))"
proof -
  obtain w db' sent ws where x: "x = (w, db', sent, ws)" by (cases x) auto
  with assms(4) obtain tip' b where b: "ce_latest env = Inr tip'" "fetch_batch cfg env empty_index tip' = Inr b"
      "db' = write_batch (cycle_store_env cfg env) b empty_index" "ws = cursor_writes cfg empty_index tip'"
    by (auto elim: cycle_body_Inr)
  have starts: "job_from cfg empty_index = xc_from cfg" "agent_from cfg empty_index = xc_identity_from cfg"
    by (simp_all add: job_from_def agent_from_def after_cursor_def readMetaValue_def empty_index_def)
  have tip: "tip' = tip" using b(1) assms(3) by simp
  define hi where "hi = range_end cfg tip (xc_from cfg)"
  have hi: "0 \<le> hi" using assms(1,6) by (simp add: hi_def sane_config_def)
  have "take 1 ws = [(''last_synced_block'', int_str hi)]"
    using assms(5,6) by (simp add: b(4) tip cursor_writes_def Let_def starts hi_def)
  then have crash: "crash_db cfg env 1 empty_index = writeMetaValue ''last_synced_block'' (int_str hi) db'"
    by (simp add: crash_db_def assms(4) x put_cursors_def)
  have meta: "readMetaValue k db' = None" if "k \<in> cursor_names" for k
    using that by (simp add: b(3) meta_of_batch) (simp add: readMetaValue_def empty_index_def)
  have none: "readMetaValue ''last_synced_agent_block'' db' = None" using meta by (simp add: cursor_names_def)
  have "cursors_ok (crash_db cfg env 1 empty_index)" unfolding crash cursors_ok_def using meta hi by (auto split: if_splits)
  moreover have "beyond cfg (hi + 1) (crash_db cfg env 1 empty_index)"
    unfolding crash using none hi by (simp add: beyond_def job_from_def agent_from_def after_cursor_int)
  moreover have "ar_block r \<le> range_end cfg tip (xc_identity_from cfg)" if "r \<in> set (db_agent_events (crash_db cfg env 1 empty_index))" for r
  proof -
    have "r \<in> set (db_agent_events (write_batch (cycle_store_env cfg env) b empty_index))"
      using that unfolding crash by (simp add: b(3) writeMetaValue_def)
    from batch_agent_blocks [OF this] obtain e where "e \<in> set (ib_agents b)" "ar_block r = ae_block e" by (auto simp: empty_index_def)
    then show ?thesis using batch_agents [OF assms(2) b(1,2)] by (auto simp: tip starts)
  qed
  ultimately show ?thesis by (simp add: skips_def start_indexer_def hi_def)
qed

text \<open>C25: When the first cycle is killed between its first two cursor writes, the registrations in the blocks
  after the first agent range up to the job cursor are never stored, however long the indexer runs on.\<close>

theorem crash_skips_registrations:
  assumes "sane_config cfg" "faithful_node ch env" "ce_latest env = Inr tip" "cycle_body cfg env empty_index = Inr x"
    and "xc_jobs cfg" "xc_from cfg \<le> range_end cfg tip (xc_from cfg)"
    and "(index_step cfg (faithful_node ch))\<^sup>*\<^sup>* (start_indexer cfg (crash_db cfg env 1 empty_index)) ix"
  shows "\<forall>r\<in>set (db_agent_events (ix_db ix)).
    ar_block r \<le> range_end cfg tip (xc_identity_from cfg) \<or> range_end cfg tip (xc_from cfg) < ar_block r"
proof -
  have "(\<lambda>ix ix'. sane_config cfg \<and> index_step cfg (faithful_node ch) ix ix')\<^sup>*\<^sup>* (start_indexer cfg (crash_db cfg env 1 empty_index)) ix"
    using assms(7) by (rule rtranclp_mono [THEN predicate2D, rotated]) (use assms(1) in blast)
  from ig.reach_inv [OF crash_after_job_cursor [OF assms(1-6)] this] show ?thesis by (simp add: skips_def)
qed

section \<open>Projections\<close>

text \<open>C27: A job's projection does not depend on the order its events arrive in, and its status is completed,
  rejected, expired, submitted, funded or open, the first of these that an event shows.\<close>

theorem projection_ignores_arrival_order:
  assumes "mset evs = mset evs'" "inj_on event_pos (set evs)"
    and "\<And>x y. x \<in> set evs \<Longrightarrow> y \<in> set evs \<Longrightarrow> je_name x = EvCreated \<Longrightarrow> je_name y = EvCreated \<Longrightarrow> x = y"
    and "projectJobFromEvents i evs keep = Some j"
  shows "projectJobFromEvents i evs' keep = Some (j\<lparr>pj_events := evs'\<rparr>)
     \<and> pj_status j = (if has EvCompleted evs then 3 else if has EvRejected evs then 4 else if has EvExpired evs then 5
          else if has EvSubmitted evs then 2 else if 0 < total_funded evs then 1 else 0)
     \<and> (\<forall>e. latest EvBudget (chain_order evs) = Some e \<longrightarrow> (\<forall>e'\<in>set evs. je_name e' = EvBudget \<longrightarrow> event_pos e' \<le> event_pos e))"
proof (intro conjI)
  have "map_option (\<lambda>j. j\<lparr>pj_events := []\<rparr>) (projectJobFromEvents i evs' keep) = Some (j\<lparr>pj_events := []\<rparr>)"
    using projectJob_mset [OF assms(1,2), of i keep] assms(3) unfolding assms(4) option.map by metis
  then obtain k where k: "projectJobFromEvents i evs' keep = Some k" "k\<lparr>pj_events := []\<rparr> = j\<lparr>pj_events := []\<rparr>" by auto
  have "pj_events k = evs'" using k(1) by (auto simp: projectJobFromEvents_def Let_def split: if_splits)
  then have "k = (k\<lparr>pj_events := []\<rparr>)\<lparr>pj_events := evs'\<rparr>" by simp
  also have "\<dots> = j\<lparr>pj_events := evs'\<rparr>" unfolding k(2) by simp
  finally show "projectJobFromEvents i evs' keep = Some (j\<lparr>pj_events := evs'\<rparr>)" using k(1) by simp
  show "pj_status j = (if has EvCompleted evs then 3 else if has EvRejected evs then 4 else if has EvExpired evs then 5
      else if has EvSubmitted evs then 2 else if 0 < total_funded evs then 1 else 0)"
    using assms(4) unfolding job_status_eq [symmetric] by (auto simp: projectJobFromEvents_def Let_def split: if_splits)
qed (use latest_Some in blast)

section \<open>Readers\<close>

lemma take_by_rank:
  fixes f :: "'a \<Rightarrow> 'b::linorder"
  assumes "sorted (map f xs)" "distinct (map f xs)" "x \<in> set xs"
  shows "x \<in> set (take n xs) \<longleftrightarrow> length (filter (\<lambda>y. f y < f x) xs) < n"
  using assms
proof (induction xs arbitrary: n)
  case (Cons a ys)
  show ?case
  proof (cases n)
    case (Suc m)
    show ?thesis
    proof (cases "x = a")
      case True
      then have "filter (\<lambda>y. f y < f x) (a # ys) = []" using Cons.prems(1) by (auto simp: filter_empty_conv not_less)
      with True Suc show ?thesis by simp
    next
      case False
      with Cons.prems have x: "x \<in> set ys" by simp
      moreover have "f a < f x" using Cons.prems x by (simp add: image_iff less_le)
      ultimately show ?thesis using Cons.IH [of m] Cons.prems False Suc by simp
    qed
  qed simp
qed simp

lemma all_jobs_wanted [simp]: "filter (job_wanted all_jobs) rows = rows"
  by (simp add: job_wanted_def all_jobs_def)

lemma readJobs_take: "readJobs db = take 500 (by_id_desc (db_jobs db))"
proof -
  have "clamp_limit (jo_limit all_jobs) = 500" by (simp add: clamp_limit_def all_jobs_def)
  then show ?thesis by (simp add: readJobs_def readJobsFiltered_def)
qed

text \<open>C28: A stored job is found by its id exactly when fewer than 500 stored jobs have a larger id; an older
  job is reported as missing.\<close>

theorem job_found_iff_recent:
  assumes "distinct (map (\<lambda>r. BigInt_of (jw_id r)) (db_jobs db))" "r \<in> set (db_jobs db)"
  shows "readJobById (jw_id r) db =
    (if length (filter (\<lambda>s. BigInt_of (jw_id r) < BigInt_of (jw_id s)) (db_jobs db)) < 500 then Some r else None)"
proof -
  let ?key = "\<lambda>r. - BigInt_of (jw_id r)" and ?xs = "by_id_desc (db_jobs db)"
  have inj: "s = r" if "s \<in> set (db_jobs db)" "jw_id s = jw_id r" for s
  proof -
    have "inj_on (\<lambda>r. BigInt_of (jw_id r)) (set (db_jobs db))" using assms(1) unfolding distinct_map ..
    from inj_onD [OF this, of s r] that assms(2) show ?thesis by simp
  qed
  have stored: "sel jw_id (jw_id r) (db_jobs db) \<noteq> None" using assms(2) by (auto simp: sel_None_iff)
  have xs: "sorted (map ?key ?xs)" "mset ?xs = mset (db_jobs db)" by (simp_all add: by_id_desc_def)
  have "distinct (map ?key (db_jobs db))" using assms(1) by (auto simp: distinct_map inj_on_def)
  then have dist: "distinct (map ?key ?xs)" using xs(2) by (metis mset_eq_imp_distinct_iff mset_map)
  have "mset (filter (\<lambda>s. ?key s < ?key r) ?xs) = mset (filter (\<lambda>s. ?key s < ?key r) (db_jobs db))" using xs(2) by simp
  then have rank: "length (filter (\<lambda>s. ?key s < ?key r) ?xs) = length (filter (\<lambda>s. BigInt_of (jw_id r) < BigInt_of (jw_id s)) (db_jobs db))"
    by (metis (no_types, lifting) filter_cong neg_less_iff_less size_mset)
  have set: "set ?xs = set (db_jobs db)" using xs(2) by (rule mset_eq_setD)
  have iff: "r \<in> set (take 500 ?xs) \<longleftrightarrow> length (filter (\<lambda>s. BigInt_of (jw_id r) < BigInt_of (jw_id s)) (db_jobs db)) < 500"
    using take_by_rank [OF xs(1) dist, of r 500] assms(2) set rank by simp
  have found: "find (\<lambda>j. jw_id j = jw_id r) (take 500 ?xs) = (if r \<in> set (take 500 ?xs) then Some r else None)"
  proof (cases "find (\<lambda>j. jw_id j = jw_id r) (take 500 ?xs)")
    case None
    then show ?thesis by (auto simp: find_None_iff)
  next
    case (Some s)
    from find_SomeD [OF this] have s: "s \<in> set (take 500 ?xs)" "jw_id s = jw_id r" by auto
    then have "s = r" using inj set by (auto dest: in_set_takeD)
    with Some s show ?thesis by simp
  qed
  show ?thesis unfolding readJobById_def readJobs_take found iff using stored by auto
qed

lemma keys_push_group: "fst ` set (fold (\<lambda>r. push_group (f r) r) rows acc) = f ` set rows \<union> fst ` set acc"
  by (induction rows arbitrary: acc) (simp_all add: push_group_def keys_jsmap_set)

lemma rp_agent_compute [simp]: "rp_agent (computeErc8183Reputation now i jobs) = i"
  unfolding computeErc8183Reputation_def Let_def provider_reputation.select_convs ..

lemma score_clamped: "\<exists>raw. rp_score (computeErc8183Reputation now i jobs) = max 0 (min 100 raw)"
  unfolding computeErc8183Reputation_def Let_def provider_reputation.select_convs by (rule exI) (rule refl)

lemma score_bounds: "0 \<le> rp_score (computeErc8183Reputation now i jobs) \<and> rp_score (computeErc8183Reputation now i jobs) \<le> 100"
  using score_clamped [of now i jobs] by auto

text \<open>C29: A provider whose address the chain reports in mixed case is listed with a score between 0 and 100 by
  the reader of all providers, but asking for that address finds nothing.\<close>

theorem mixed_case_provider_not_found:
  assumes "r \<in> set (db_jobs db)" "jw_worker r \<noteq> toLowerCase (jw_worker r)"
    and "\<And>s. s \<in> set (db_jobs db) \<Longrightarrow> toLowerCase (jw_worker s) = toLowerCase (jw_worker r) \<Longrightarrow> jw_worker s = jw_worker r"
  shows "readErc8183ReputationByProvider now (jw_worker r) db = None
     \<and> (\<exists>p\<in>set (readErc8183ReputationAll now db). rp_agent p = toLowerCase (jw_worker r) \<and> 0 \<le> rp_score p \<and> rp_score p \<le> 100)"
proof
  have "jw_worker s \<noteq> toLowerCase (jw_worker r)" if "s \<in> set (db_jobs db)" for s
  proof
    assume eq: "jw_worker s = toLowerCase (jw_worker r)"
    then have "jw_worker s = jw_worker r" by (intro assms(3) [OF that]) simp
    with eq assms(2) show False by simp
  qed
  then have "filter (\<lambda>s. jw_worker s = toLowerCase (jw_worker r)) (db_jobs db) = []" by (simp add: filter_empty_conv)
  then show "readErc8183ReputationByProvider now (jw_worker r) db = None" by (simp add: readErc8183ReputationByProvider_def)
next
  let ?rows = "sort_key (\<lambda>r. (jw_worker r, BigInt_of (jw_created r))) (filter (\<lambda>r. jw_worker r \<noteq> ADDRESS_0) (db_jobs db))"
  let ?groups = "fold (\<lambda>r. push_group (toLowerCase (jw_worker r)) r) ?rows []"
  have "toLowerCase ADDRESS_0 = ADDRESS_0" by code_simp
  then have "r \<in> set ?rows" using assms(1,2) by auto
  then have "toLowerCase (jw_worker r) \<in> fst ` set ?groups" unfolding keys_push_group by simp
  then obtain jobs where "(toLowerCase (jw_worker r), jobs) \<in> set ?groups" by force
  then have "computeErc8183Reputation now (toLowerCase (jw_worker r)) jobs \<in> set (readErc8183ReputationAll now db)"
    unfolding readErc8183ReputationAll_def Let_def by force
  then show "\<exists>p\<in>set (readErc8183ReputationAll now db). rp_agent p = toLowerCase (jw_worker r) \<and> 0 \<le> rp_score p \<and> rp_score p \<le> 100"
    using score_bounds rp_agent_compute by blast
qed

section \<open>A concrete chain\<close>

definition demo_job :: "job_event_name \<Rightarrow> int \<Rightarrow> int \<Rightarrow> job_event" where
  "demo_job name block i = \<lparr>je_name = name, je_block = block, je_tx = ''0xa'', je_log = i, je_job = Some 7, je_agent = None,
     je_client = Some ''0xC1'', je_provider = Some ''0xB2'', je_evaluator = Some ''0xE3'', je_hook = None, je_expired = None,
     je_description = None, je_amount = Some 5, je_deliverable = None, je_reason = None, je_rejector = None\<rparr>"

lemma demo_name: "je_name (demo_job name block i) = name"
  by (simp add: demo_job_def)

definition demo_chain :: index_chain where
  "demo_chain = \<lparr>ch_jobs = [\<lparr>jl_name = Some EvCreated, jl_index = Some 0, jl_event = demo_job EvCreated 11 0\<rparr>,
       \<lparr>jl_name = Some EvFunded, jl_index = Some 1, jl_event = demo_job EvFunded 12 1\<rparr>],
     ch_transfers = [\<lparr>tl_name = ''Transfer'', tl_block = 7, tl_tx = ''0xd'', tl_index = Some 0, tl_from = Some ADDRESS_0,
       tl_to = ''0xB2'', tl_token = 9\<rparr>], ch_feedback = []\<rparr>"

definition demo_cfg :: index_config where
  "demo_cfg = \<lparr>xc_from = 10, xc_identity_from = 0, xc_reputation_from = 10, xc_range = 5, xc_jobs = True, xc_agents = True,
     xc_feedback = True, xc_wallets = [], xc_agent_ids = [], xc_prefixes = [], xc_scope = ArcLayerScope\<rparr>"

definition demo_env :: cycle_env where
  "demo_env = \<lparr>ce_supabase = \<lparr>su_configured = False, su_get = (\<lambda>_ _. Inl []), su_now = []\<rparr>, ce_latest = Inr 20,
     ce_job_rpc = (\<lambda>a b. Inr (filter (\<lambda>l. a \<le> je_block (jl_event l) \<and> je_block (jl_event l) \<le> b) (ch_jobs demo_chain))),
     ce_agent_rpc = (\<lambda>a b. Inr (filter (\<lambda>l. a \<le> tl_block l \<and> tl_block l \<le> b) (ch_transfers demo_chain))),
     ce_feedback_rpc = (\<lambda>a b. Inr (filter (\<lambda>l. a \<le> fl_block l \<and> fl_block l \<le> b) (ch_feedback demo_chain))),
     ce_right_first = (\<lambda>_ _. False), ce_uri = (\<lambda>_. None), ce_now = [], ce_millis = [], ce_fault = None, ce_meta_fault = None,
     ce_mirror = None\<rparr>"

definition demo_index :: indexer where
  "demo_index = runSyncCycle demo_cfg demo_env (start_indexer demo_cfg empty_index)"

definition demo_row :: "string \<Rightarrow> job_row" where
  "demo_row i = normalizeJob (the (projectJobFromEvents i [demo_job EvCreated 11 0] None))"

definition demo_rows :: "job_row list" where
  "demo_rows = map (\<lambda>i. demo_row (int_str (int i))) [0..<501]"

lemma demo_row_sel: "jw_id (demo_row i) = i" "jw_worker (demo_row i) = ''0xB2''"
  by (simp_all add: demo_row_def projectJobFromEvents_def normalizeJob_def Let_def demo_job_def opt_field_def)

lemma job_found_iff_recent_witness: "readJobById ''0'' (empty_index\<lparr>db_jobs := demo_rows\<rparr>) = None"
proof -
  let ?db = "empty_index\<lparr>db_jobs := demo_rows\<rparr>"
  have ids: "map (\<lambda>r. BigInt_of (jw_id r)) (db_jobs ?db) = map int [0..<501]"
    by (simp add: demo_rows_def demo_row_sel BigInt_of_def BigInt_int_str comp_def)
  have zero: "int_str (int 0) = ''0''" "BigInt_of ''0'' = 0" by code_simp+
  have row: "demo_row ''0'' \<in> set (db_jobs ?db)" unfolding zero(1) [symmetric] by (auto simp: demo_rows_def intro!: image_eqI [of _ _ 0])
  have "length (filter (\<lambda>s. BigInt_of (jw_id (demo_row ''0'')) < BigInt_of (jw_id s)) (db_jobs ?db)) = length (filter (\<lambda>b. 0 < b) (map int [0..<501]))"
    unfolding ids [symmetric] by (simp add: demo_row_sel zero filter_map comp_def)
  also have "filter (\<lambda>b. 0 < b) (map int [0..<501]) = map int [1..<501]"
  proof -
    have "[0..<501] = 0 # [1..<501]" by (simp add: upt_conv_Cons)
    then show ?thesis by (simp add: filter_map comp_def filter_id_conv)
  qed
  finally have "\<not> length (filter (\<lambda>s. BigInt_of (jw_id (demo_row ''0'')) < BigInt_of (jw_id s)) (db_jobs ?db)) < 500" by simp
  moreover have "distinct (map (\<lambda>r. BigInt_of (jw_id r)) (db_jobs ?db))" unfolding ids by (simp add: distinct_map)
  ultimately show ?thesis using job_found_iff_recent [of ?db "demo_row ''0''"] row by (simp add: demo_row_sel)
qed

lemma mixed_case_provider_not_found_witness:
  "readErc8183ReputationByProvider 0 ''0xB2'' (empty_index\<lparr>db_jobs := [demo_row ''7'']\<rparr>) = None
   \<and> (\<exists>p\<in>set (readErc8183ReputationAll 0 (empty_index\<lparr>db_jobs := [demo_row ''7'']\<rparr>)). rp_agent p = ''0xb2'')"
proof -
  have lower: "toLowerCase ''0xB2'' = ''0xb2''" by code_simp
  show ?thesis using mixed_case_provider_not_found [of "demo_row ''7''" "empty_index\<lparr>db_jobs := [demo_row ''7'']\<rparr>" 0]
    by (auto simp: demo_row_sel lower)
qed

definition picky_rpc :: "int rpc" where
  \<comment> \<open>a node that refuses ranges of more than 501 blocks\<close>
  "picky_rpc a b = (if 500 < b - a then Inl ''range'' else Inr (filter (\<lambda>e. a \<le> e \<and> e \<le> b) [3, 700]))"

lemma range_query_complete_witness:
  "case fetchEventsInRange picky_rpc (\<lambda>_ _. False) 0 1000 of Inr evs \<Rightarrow> mset evs = {#3, 700#} | Inl err \<Rightarrow> False"
proof -
  have "serves (\<lambda>e. e) [3, 700] 1000 picky_rpc" by (simp add: serves_def picky_rpc_def)
  from range_query_complete [OF this, where toBlock = 1000 and fromBlock = 0 and right_first = "\<lambda>_ _. False"] show ?thesis
    by (auto simp: picky_rpc_def split: sum.splits if_splits)
qed

lemma projection_ignores_arrival_order_witness:
  "map_option (\<lambda>j. (pj_status j, pj_events j)) (projectJobFromEvents ''7'' [demo_job EvFunded 12 1, demo_job EvCreated 11 0] None)
     = Some (1, [demo_job EvFunded 12 1, demo_job EvCreated 11 0])"
proof -
  let ?evs = "[demo_job EvCreated 11 0, demo_job EvFunded 12 1]"
  obtain j where j: "projectJobFromEvents ''7'' ?evs None = Some j" by (simp add: projectJobFromEvents_def Let_def)
  have inj: "inj_on event_pos (set ?evs)" by (simp add: event_pos_def demo_job_def)
  have status: "(if has EvCompleted ?evs then 3 else if has EvRejected ?evs then 4 else if has EvExpired ?evs then 5
      else if has EvSubmitted ?evs then 2 else if 0 < total_funded ?evs then 1 else 0) = (1::nat)"
    by (simp add: has_def total_funded_def demo_job_def)
  have created: "x = y" if "x \<in> set ?evs" "y \<in> set ?evs" "je_name x = EvCreated" "je_name y = EvCreated" for x y
  proof -
    have "z = demo_job EvCreated 11 0" if "z \<in> set ?evs" "je_name z = EvCreated" for z
    proof -
      have "z \<noteq> demo_job EvFunded 12 1" using that(2) demo_name [of EvFunded 12 1] by force
      with that(1) show ?thesis by simp
    qed
    with that show ?thesis by metis
  qed
  have same: "mset ?evs = mset [demo_job EvFunded 12 1, demo_job EvCreated 11 0]" by simp
  note order = projection_ignores_arrival_order [OF same inj created j]
  have "pj_status j = 1" by (rule order [THEN conjunct2, THEN conjunct1, unfolded status])
  then show ?thesis by (simp only: order [THEN conjunct1] option.map) simp
qed

definition demo_batch :: index_batch where
  "demo_batch = \<lparr>ib_jobs = [demo_job EvCreated 11 0, demo_job EvFunded 12 1], ib_agents = [], ib_feedback = []\<rparr>"

definition demo_written :: index_db where
  "demo_written = write_batch (cycle_store_env demo_cfg demo_env) demo_batch empty_index"

lemma demo_fields: "ce_latest demo_env = Inr 20" "ce_mirror demo_env = None" "ce_fault demo_env = None" "ce_meta_fault demo_env = None"
  by (simp_all add: demo_env_def)

lemma demo_fetch: "fetch_batch demo_cfg demo_env empty_index 20 = Inr demo_batch"
  by code_simp

lemma demo_writes: "cursor_writes demo_cfg empty_index 20 =
    [(''last_synced_block'', ''14''), (''last_synced_agent_block'', ''4''), (''last_synced_reputation_block'', ''14'')]"
  by code_simp

lemma demo_body: "cycle_body demo_cfg demo_env empty_index = Inr (None, demo_written, [],
    [(''last_synced_block'', ''14''), (''last_synced_agent_block'', ''4''), (''last_synced_reputation_block'', ''14'')])"
  by (simp add: cycle_body_def demo_fields demo_fetch demo_writes syncProjectionStore_def commit_batch_def mirror_batch_def
      cycle_store_env_def demo_written_def)

lemma demo_index_db: "ix_db demo_index = put_cursors
    [(''last_synced_block'', ''14''), (''last_synced_agent_block'', ''4''), (''last_synced_reputation_block'', ''14'')] demo_written"
  by (simp add: demo_index_def runSyncCycle_def start_indexer_def demo_body demo_fields)

lemma demo_events: "db_job_events (ix_db demo_index) = map job_event_row_of [demo_job EvCreated 11 0, demo_job EvFunded 12 1]"
proof -
  have "fold (\<lambda>e. upsert jr_event_key merge_job_event (job_event_row_of e)) (ib_jobs demo_batch) (db_job_events empty_index)
      = map job_event_row_of [demo_job EvCreated 11 0, demo_job EvFunded 12 1]" by code_simp
  then show ?thesis by (simp add: demo_index_db demo_written_def write_batch_job_events)
qed

lemma demo_sound: "sane_config demo_cfg" "sound_chain demo_chain" "one_creation demo_chain" "faithful_node demo_chain demo_env"
proof -
  show "sane_config demo_cfg" by (simp add: sane_config_def demo_cfg_def)
  have jobs: "chain_jobs demo_chain = [demo_job EvCreated 11 0, demo_job EvFunded 12 1]" by code_simp
  have keys: "jr_event_key (job_event_row_of (demo_job EvCreated 11 0)) = ''0xa:0''" "jr_event_key (job_event_row_of (demo_job EvFunded 12 1)) = ''0xa:1''"
    by code_simp+
  have "chain_feedback demo_chain = []" by code_simp
  then show "sound_chain demo_chain" by (auto simp: sound_chain_def jobs keys inj_on_def)
  show "one_creation demo_chain" by (simp add: one_creation_def jobs demo_name)
  show "faithful_node demo_chain demo_env" by (simp add: faithful_node_def serves_def demo_env_def comp_def)
qed

lemma demo_cursor: "job_from demo_cfg (ix_db demo_index) = 15"
proof -
  have "BigInt_of ''14'' = 14" by code_simp
  then show ?thesis by (simp add: demo_index_db put_cursors_def job_from_def after_cursor_def)
qed

lemma demo_reached:
  "node demo_env \<Longrightarrow> (index_step demo_cfg node)\<^sup>*\<^sup>* (start_indexer demo_cfg empty_index) demo_index"
  unfolding demo_index_def by (intro r_into_rtranclp Cycle)

lemma index_has_every_event_witness:
  "job_from demo_cfg (ix_db demo_index) = 15 \<and> job_event_row_of (demo_job EvFunded 12 1) \<in> set (db_job_events (ix_db demo_index))"
proof -
  have chain: "demo_job EvFunded 12 1 \<in> set (chain_jobs demo_chain)" by code_simp
  have block: "je_block (demo_job EvFunded 12 1) = 12" "xc_from demo_cfg = 10" by (simp_all add: demo_job_def demo_cfg_def)
  show ?thesis
    using index_has_every_event [OF demo_sound(1,2) demo_reached [of "faithful_node demo_chain", OF demo_sound(4)], THEN conjunct2, THEN conjunct1, rule_format, OF chain]
    by (simp add: demo_cursor block)
qed

lemma job_table_is_projection_witness:
  "map_option (\<lambda>r. (jw_status r, jw_funded r, jw_worker r)) (sel jw_id ''7'' (db_jobs (ix_db demo_index))) = Some (1, ''5'', ''0xB2'')"
proof -
  let ?v = "cycle_view demo_cfg demo_env" and ?evs = "[demo_job EvCreated 11 0, demo_job EvFunded 12 1]"
  have "steady_node demo_cfg demo_chain ?v demo_env" using demo_sound(4) by (simp add: steady_node_def)
  note reached = demo_reached [of "steady_node demo_cfg demo_chain ?v", OF this]
  have evs: "stored_job_events ''7'' (ix_db demo_index) = ?evs" unfolding stored_job_events_def demo_events by code_simp
  have ids: "\<forall>e\<in>set ?evs. \<forall>x. je_job e = Some x \<longrightarrow> int_str x = ''7''"
  proof -
    have "int_str 7 = ''7''" by code_simp
    then show ?thesis by (simp add: demo_job_def)
  qed
  have row: "map_option (\<lambda>j. (pj_status j, pj_funded j, pj_provider j)) (projectJobFromEvents ''7'' ?evs (Some (jobFilter ?v))) = Some (1, ''5'', ''0xB2'')"
    by code_simp
  then obtain j where j: "projectJobFromEvents ''7'' ?evs (Some (jobFilter ?v)) = Some j" "pj_status j = 1" "pj_funded j = ''5''" "pj_provider j = ''0xB2''"
    by auto
  have "filter (\<lambda>e. je_job e \<noteq> None) ?evs = ?evs" by (simp add: demo_job_def)
  then have "projectJobsFromEvents ?v ?evs = [j]" by (simp add: project_one_job [OF ids] j(1))
  with job_table_is_projection [OF demo_sound(1-3) reached, of "''7''"] show ?thesis by (simp add: evs normalizeJob_def j)
qed

definition demo_crashed :: indexer where
  \<comment> \<open>killed between the first two cursor writes, then one more cycle\<close>
  "demo_crashed = runSyncCycle demo_cfg demo_env (start_indexer demo_cfg (crash_db demo_cfg demo_env 1 empty_index))"

lemma crash_skips_registrations_witness:
  "map tl_block (filter is_mint (ch_transfers demo_chain)) = [7] \<and> \<not> (\<exists>r\<in>set (db_agent_events (ix_db demo_crashed)). ar_block r = 7)"
proof -
  have ends: "range_end demo_cfg 20 (xc_identity_from demo_cfg) = 4" "range_end demo_cfg 20 (xc_from demo_cfg) = 14" "xc_from demo_cfg \<le> range_end demo_cfg 20 (xc_from demo_cfg)"
      "xc_jobs demo_cfg" "map tl_block (filter is_mint (ch_transfers demo_chain)) = [7]" by code_simp+
  have "(index_step demo_cfg (faithful_node demo_chain))\<^sup>*\<^sup>* (start_indexer demo_cfg (crash_db demo_cfg demo_env 1 empty_index)) demo_crashed"
    unfolding demo_crashed_def by (intro r_into_rtranclp Cycle demo_sound)
  from crash_skips_registrations [OF demo_sound(1,4) demo_fields(1) demo_body ends(4,3) this, unfolded ends(1,2)]
  show ?thesis using ends(5) by auto
qed

end
