(* ===== verification/Spec2Isabelle.thy ===== *)
theory Spec2Isabelle
  imports Component_Properties Gateway_Properties Job_Properties Approval_Properties Broker_Properties Payment_Properties Route_Properties Worker_Properties
    Json_Properties Runtime_Properties Run_Properties Run_Retries Runtime_Tool_Properties Index_Properties
begin

text \<open>
  A development for the runner of ArcLayer: the program that holds an agent's wallet and
  writes to the ERC-8183 job contract for it (\<open>packages/runner-core/src\<close> and
  \<open>apps/arclayer-runner/src\<close>), with the part of the console it reports its job runs
  to and the indexer that follows the contracts (\<open>indexer/src\<close>).

  The parts and how they interact. A tool call reaches \<open>RunnerServices\<close> (\<open>services.ts\<close>),
  which validates it, derives an idempotency key and a hash of its parameters, and asks
  \<open>ExecutionGateway\<close> (\<open>execution-gateway.ts\<close>) for one wallet write. The gateway keeps its
  operations in memory and in the SQLite tables of \<open>OperationJournal\<close>
  (\<open>operation-journal.ts\<close>), locks the wallet and the job, asks the spend policy
  (\<open>spend-policy.ts\<close>) over the spend ledger (\<open>spend-ledger.ts\<close>), calls the wallet adapter
  (\<open>packages/circle-dev-wallet-adapter\<close>), classifies what came back and records it. A write
  that needs a person goes through \<open>ApprovalManager\<close> and \<open>ApprovalStore\<close>
  (\<open>approval-manager.ts\<close>, \<open>approval-store.ts\<close>) first.

  Theories, from the bottom:

  \<^item> \<open>Runner_Prelude\<close>: results of code that throws, JavaScript maps as association lists,
    SQL tables as lists of rows, and the locales \<open>invariant_system\<close> (a step relation with an
    invariant) and \<open>transition_table\<close> (a finite state machine with a rank).
  \<^item> \<open>Js_Strings\<close>, \<open>Js_Numbers\<close>, \<open>Calendar\<close>, \<open>Json\<close>: the parts of the JavaScript library
    the source uses. A string is a list of bytes, which is exact for ASCII text.
  \<^item> \<open>Usdc\<close>: the three parsers and two printers of USDC amounts; locale \<open>usdc_parser\<close>.
  \<^item> \<open>Operation_State\<close>: \<open>operation.ts\<close> and the states of \<open>approval.ts\<close>.
  \<^item> \<open>Ttl_Stores\<close>: \<open>nonce-store.ts\<close> and \<open>task-idempotency.ts\<close>; locale \<open>ttl_guard\<close>.
  \<^item> \<open>Operation_Journal\<close>, \<open>Journal_Invariant\<close>: the tables, every operation on them, and the
    invariant that ties rows, keys and locks; locale \<open>lock_table\<close>.
  \<^item> \<open>Execution_Gateway\<close>: the gateway. \<open>execute\<close> awaits once, so it is \<open>execute_begin\<close> and
    \<open>execute_finish\<close>; \<open>gw_step\<close> interleaves requests, answers of the wallet, reconciliation,
    receipts and restarts. \<open>Gateway_Safety\<close> proves the invariant of memory and journal,
    \<open>Gateway_Idempotence\<close> what reaches the wallet, \<open>Gateway_Restart\<close> what a restart forgets,
    and \<open>Gateway_Properties\<close> states the properties with concrete runs.
  \<^item> \<open>Spend_Policy\<close>: the policy decision, the ledger, and the limits over every run.
  \<^item> \<open>Job_Writes\<close>, \<open>Job_Properties\<close>: the nine ERC-8183 writes, their keys, hashes, wallet
    calls and receipts.
  \<^item> \<open>Approval_Store\<close>, \<open>Approval_Manager\<close>: the approval table and the flows over it.
    \<open>Approval_Safety\<close> (locale \<open>evolution\<close>) and \<open>Approval_Runs\<close> prove how every operation
    moves the rows, \<open>Approval_Properties\<close> states the properties over all runs.
  \<^item> \<open>Key_Lock\<close>: the lock per idempotency key, with its waiting callers.
  \<^item> \<open>Jsonl_Store\<close>, \<open>Payment_Ledger\<close>: append-only files whose lines a crash may tear, the
    spending ledger of x402 payments and the payment policy (\<open>ledger.ts\<close>, \<open>policy.ts\<close>).
  \<^item> \<open>X402_Payments\<close>: \<open>payX402\<close> as a machine with one program counter per \<open>await\<close>, batches, and
    the system of concurrent payments. \<open>Payment_Safety\<close> proves its invariants and what one payment
    alone does, \<open>Payment_Limits\<close> the limits, \<open>Payment_Properties\<close> states the properties.
  \<^item> \<open>Tool_Broker\<close>, \<open>Broker_Properties\<close>: the broker and the pipeline around every tool call
    (\<open>mcp-broker.ts\<close>, \<open>runner-mcp-executor.ts\<close>), and sessions in which calls overlap.
  \<^item> \<open>Json_Parser\<close>, \<open>Json_Roundtrip\<close>: \<open>JSON.parse\<close>, and that it reads back what the two
    printers of \<open>Json\<close> print; \<open>Json_Properties\<close>: the type invariant of its state machine.
  \<^item> \<open>Hmac_Auth\<close>: the checks on a request and the router (\<open>auth.ts\<close>, \<open>http.ts\<close>);
    \<open>Runner_Client\<close>: the clients that sign requests (\<open>langchain-adapter\<close> and the console's signer);
    \<open>Runner_Routes\<close>: the route table and its two larger handlers (\<open>index.ts\<close>).
    \<open>Auth_Properties\<close> and \<open>Route_Properties\<close> prove what is accepted, how often one signed
    request can be dispatched, and that what the client sends reaches its handler.
  \<^item> \<open>Settlement\<close>: the documents of a job and the settlement decision (\<open>job-envelope.ts\<close>,
    \<open>deliverable.ts\<close>, \<open>evaluation-verdict.ts\<close>).
  \<^item> \<open>Worker_Effects\<close>: the effects the workers await and an arbitrary world that answers them.
    \<open>Evaluator_Worker\<close>, \<open>Provider_Worker\<close> (\<open>workers/evaluator.ts\<close>, \<open>workers/provider.ts\<close>) and
    \<open>Client_Workflow\<close> (\<open>workflows/client.ts\<close>) translate the programs over it; \<open>Evaluator_Safety\<close> and
    \<open>Provider_Safety\<close> prove over every world what is settled and submitted, and how often.
  \<^item> \<open>Runtime_Connector\<close>, \<open>Runtime_Properties\<close>: the connectors to the agent's runtime
    (\<open>runtime-helpers.ts\<close>, \<open>runtime.ts\<close>, \<open>runtimes/\<close>): what an untrusted runtime is sent, which of
    its answers pass, and which errors its failures become. \<open>Provider_Jobs\<close>, \<open>Run_Properties\<close>: the
    job runs of \<open>services.ts\<close> over the effects of \<open>Worker_Effects\<close>.
  \<^item> \<open>Reconciliation\<close>: \<open>reconciliation.ts\<close>. \<open>Worker_Properties\<close> states the properties of all these.
  \<^item> \<open>Run_Store\<close>, \<open>Run_Indexer\<close>, \<open>Run_Operations\<close>: the provider runtime store of the console
    (\<open>apps/console/src/lib/provider-runtime/store.ts\<close>), which the runner calls over MCP. An operation is
    a program of database statements, so callers interleave; \<open>Run_Concurrency\<close> is the rely and guarantee
    argument (locale \<open>store_logic\<close>), \<open>Run_Store_Properties\<close> and \<open>Run_Retries\<close> state what the store promises
    and where it does not. \<open>Runtime_Tools\<close>: the console's tools over the store
    (\<open>lib/mcp/provider-runtime-tools.ts\<close>) and the runner's connector (\<open>mcp-connector.ts\<close>);
    \<open>Runtime_Tool_Properties\<close> composes the two.
  \<^item> \<open>Index_Events\<close>, \<open>Index_Filters\<close>: the events of the chain, the projections of the SDK
    (\<open>sdk/src/indexer/projections.ts\<close>) and the filters that attribute them (\<open>reference-filters.ts\<close>,
    \<open>indexer/src/projections.ts\<close>). \<open>Index_Fetch\<close>: range queries and fetchers (\<open>ingest.ts\<close>);
    \<open>Index_Store\<close>, \<open>Index_Supabase\<close>: the tables, the transaction and the mirror (\<open>db.ts\<close>,
    \<open>a2a-lifecycle-sync.ts\<close>); \<open>Index_Sync\<close>: the sync cycle of \<open>server.ts\<close> as a step relation with
    crashes between any two writes. \<open>Index_Invariant\<close> (locale \<open>event_table\<close>) proves that the stored
    events are those of the chain, \<open>Index_View\<close> that the job table is a view of them, \<open>Index_Gaps\<close> what
    a crash loses; \<open>Index_Queries\<close> are the readers, \<open>Index_Properties\<close> states the properties. A node
    is assumed to answer a query with the logs of its blocks and the chain not to reorganise.
  \<^item> \<open>Component_Properties\<close>: properties of the smaller components.

  Bounds. No definition needs fuel: loops of the source are recursions over lists, and the range query
  of the indexer halves its range. Numbers
  of the source that the runner computes with are bigints (\<open>int\<close>), times are milliseconds.

  Not modelled: opening files and databases, migrations, the network, the MCP protocol, the Zod
  schemas (validated input is a parameter), random ids and clocks (inputs), SHA-256 and
  keccak-256 (parameters), the pages and API routes of the console, the parsing of
  raw logs, and the clients of the SDK.
\<close>

end
